(* ===== verification/Bis_Prelude.thy ===== *)
theory Bis_Prelude
  imports Main Complex_Main "HOL-Library.Multiset"
begin

text \<open>
  Shared vocabulary of the development: the errors a handler can raise, handlers as functions
  from a database to a result and the database left behind, the request context and the
  environment (clock, storage availability, deployment mode, the Permify oracle), the procedure
  guards of \<open>server/_core/trpc.ts\<close>, tables of rows with a serial column, and the few
  JavaScript operations on numbers and strings that the components use.

  A handler is an \<open>act\<close>: it returns \<open>Inl\<close> of the error it throws or \<open>Inr\<close> of its value,
  together with the database state at that moment, so that writes made before a later
  \<open>throw\<close> are visible in the model exactly when the source does not wrap them in a
  database transaction.
\<close>

named_theorems act_simps "unfolding of handler combinators"
named_theorems frame "operations that leave a part of the state alone"

section \<open>Errors and handlers\<close>

datatype trpc_code =
    BAD_REQUEST | UNAUTHORIZED | FORBIDDEN | NOT_FOUND | CONFLICT | PRECONDITION_FAILED
  | TOO_MANY_REQUESTS | INTERNAL_SERVER_ERROR | SERVICE_UNAVAILABLE | BAD_GATEWAY | PAYMENT_REQUIRED

text \<open>
  \<open>TRPCError c m\<close> is \<open>new TRPCError({code: c, message: m})\<close>; \<open>PlainError m\<close> is any other
  \<open>Error\<close>; \<open>DbError\<close> is an exception of the database driver (a violated constraint), and
  \<open>UniqueViolation\<close> the one whose code 23505 a handler looks at;
  \<open>InsufficientFunds t r a\<close> is the subclass of TRPCError that a debit of \<open>r\<close> kobo raises when
  tenant \<open>t\<close> has only \<open>a\<close>.
\<close>

datatype error = TRPCError trpc_code string | PlainError string | DbError | UniqueViolation
  | InsufficientFunds string int int

text \<open>\<open>error instanceof TRPCError ? error.code : \<dots>\<close>.\<close>

definition error_code :: "error \<Rightarrow> trpc_code option" where
  "error_code e = (case e of TRPCError c _ \<Rightarrow> Some c | InsufficientFunds _ _ _ \<Rightarrow> Some PRECONDITION_FAILED | _ \<Rightarrow> None)"

type_synonym ('s, 'a) act = "'s \<Rightarrow> (error + 'a) \<times> 's"

definition ret :: "'a \<Rightarrow> ('s, 'a) act" where
  "ret x s = (Inr x, s)"

definition throw :: "error \<Rightarrow> ('s, 'a) act" where
  "throw e s = (Inl e, s)"

text \<open>\<open>require b e k\<close>: \<open>if (!b) throw e\<close>, then the rest \<open>k\<close>.\<close>

definition require :: "bool \<Rightarrow> error \<Rightarrow> ('s, 'a) act \<Rightarrow> ('s, 'a) act" where
  "require b e k s = (if b then k s else (Inl e, s))"

text \<open>Sequencing of handlers that return a value, and \<open>try \<dots> catch\<close>.\<close>

definition seq_act :: "('s, 'a) act \<Rightarrow> ('a \<Rightarrow> ('s, 'b) act) \<Rightarrow> ('s, 'b) act" where
  "seq_act m k s = (case m s of (Inl e, s') \<Rightarrow> (Inl e, s') | (Inr x, s') \<Rightarrow> k x s')"

definition catch_act :: "('s, 'a) act \<Rightarrow> (error \<Rightarrow> ('s, 'a) act) \<Rightarrow> ('s, 'a) act" where
  "catch_act m h s = (case m s of (Inl e, s') \<Rightarrow> h e s' | (Inr x, s') \<Rightarrow> (Inr x, s'))"

text \<open>Input validation: a schema failure is BAD\_REQUEST before the handler body runs.\<close>

definition zod :: "bool \<Rightarrow> ('s, 'a) act \<Rightarrow> ('s, 'a) act" where
  "zod b = require b (TRPCError BAD_REQUEST ''input validation'')"

definition ok :: "(error + 'a) \<times> 's \<Rightarrow> bool" where
  "ok r = (case fst r of Inl _ \<Rightarrow> False | Inr _ \<Rightarrow> True)"

text \<open>A database transaction: on an exception every write of the body is undone.\<close>

definition in_transaction :: "('s, 'a) act \<Rightarrow> ('s, 'a) act" where
  "in_transaction body s = (case body s of (Inl e, _) \<Rightarrow> (Inl e, s) | (Inr x, s') \<Rightarrow> (Inr x, s'))"

lemma ret_simp [simp, act_simps]: "ret x s = (Inr x, s)"
  by (simp add: ret_def)

lemma throw_simp [simp, act_simps]: "throw e s = (Inl e, s)"
  by (simp add: throw_def)

lemma require_simp [simp, act_simps]: "require b e k s = (if b then k s else (Inl e, s))"
  by (simp add: require_def)

lemma zod_simp [simp, act_simps]:
  "zod b k s = (if b then k s else (Inl (TRPCError BAD_REQUEST ''input validation''), s))"
  by (simp add: zod_def)

lemma ok_simps [simp]: "ok (Inr x, s)" "\<not> ok (Inl e, s)"
  by (simp_all add: ok_def)

lemma in_transaction_error: "in_transaction body s = (Inl e, s') \<Longrightarrow> s' = s"
  by (auto simp: in_transaction_def split: prod.splits sum.splits)

lemma in_transaction_ok: "in_transaction body s = (Inr x, s') \<longleftrightarrow> body s = (Inr x, s')"
  by (auto simp: in_transaction_def split: prod.splits sum.splits)

lemma seq_act_simps [simp, act_simps]:
  "m s = (Inl e, s') \<Longrightarrow> seq_act m k s = (Inl e, s')"
  "m s = (Inr x, s') \<Longrightarrow> seq_act m k s = k x s'"
  by (simp_all add: seq_act_def)

lemma catch_act_simps [simp, act_simps]:
  "m s = (Inl e, s') \<Longrightarrow> catch_act m h s = h e s'"
  "m s = (Inr x, s') \<Longrightarrow> catch_act m h s = (Inr x, s')"
  by (simp_all add: catch_act_def)

lemma seq_act_cases:
  assumes "seq_act m k s = (r, t)"
  obtains (fails) e where "m s = (Inl e, t)" "r = Inl e"
    | (runs) x s' where "m s = (Inr x, s')" "k x s' = (r, t)"
  using assms by (auto simp: seq_act_def split: prod.splits sum.splits)

lemma catch_act_cases:
  assumes "catch_act m h s = (r, t)"
  obtains (handled) e s' where "m s = (Inl e, s')" "h e s' = (r, t)"
    | (passes) x where "m s = (Inr x, t)" "r = Inr x"
  using assms by (auto simp: catch_act_def split: prod.splits sum.splits)

section \<open>Environment, users and the request context\<close>

datatype role = RUser | RAdmin | RAnalyst | RSupervisor | RAuditor | RReadonly

record user =
  u_id :: int
  u_role :: role
  u_name :: "string option"
  u_email :: "string option"

record ctx =
  c_user :: "user option"
  c_tenantId :: "int option"
  c_isDemo :: bool

text \<open>
  The environment of one request: the clock (milliseconds since the epoch; every
  \<open>new Date()\<close> of a request reads it), whether \<open>getDb()\<close> yields a handle, the deployment
  mode, and the Permify check (entity, id, permission, user), an external service.
\<close>

record env =
  e_now :: int
  e_dbUp :: bool
  e_isProduction :: bool
  e_permify :: "string \<Rightarrow> string \<Rightarrow> string \<Rightarrow> int \<Rightarrow> bool"

definition requireUser :: "env \<Rightarrow> ctx \<Rightarrow> (user \<Rightarrow> ('s, 'a) act) \<Rightarrow> ('s, 'a) act" where
  "requireUser e c k s =
     (case c_user c of
        None \<Rightarrow> (Inl (TRPCError UNAUTHORIZED ''Please login (10001)''), s)
      | Some u \<Rightarrow>
          if e_isProduction e \<and> u_role u \<noteq> RAdmin \<and> c_tenantId c = None
          then (Inl (TRPCError FORBIDDEN ''A tenant assignment is required for this account''), s)
          else k u s)"

abbreviation protectedProcedure :: "env \<Rightarrow> ctx \<Rightarrow> (user \<Rightarrow> ('s, 'a) act) \<Rightarrow> ('s, 'a) act" where
  "protectedProcedure \<equiv> requireUser"

definition adminProcedure :: "env \<Rightarrow> ctx \<Rightarrow> (user \<Rightarrow> ('s, 'a) act) \<Rightarrow> ('s, 'a) act" where
  "adminProcedure e c k s =
     (case c_user c of
        None \<Rightarrow> (Inl (TRPCError FORBIDDEN ''You do not have required permission (10002)''), s)
      | Some u \<Rightarrow>
          if u_role u \<noteq> RAdmin
          then (Inl (TRPCError FORBIDDEN ''You do not have required permission (10002)''), s)
          else if \<not> e_permify e ''platform'' ''bis'' ''admin'' (u_id u)
          then (Inl (TRPCError FORBIDDEN ''You do not have required permission (10002)''), s)
          else k u s)"

definition writeProcedure :: "env \<Rightarrow> ctx \<Rightarrow> (user \<Rightarrow> ('s, 'a) act) \<Rightarrow> ('s, 'a) act" where
  "writeProcedure e c k s =
     (case c_user c of
        None \<Rightarrow> (Inl (TRPCError UNAUTHORIZED ''Please login (10001)''), s)
      | Some u \<Rightarrow>
          if c_isDemo c
          then (Inl (TRPCError FORBIDDEN ''This action is disabled in demo mode. Sign in with a real account to make changes.''), s)
          else k u s)"

text \<open>
  What the three guards have in common: they either reject and leave the database alone, or
  run the body with the context's user.
\<close>

locale procedure_guard =
  fixes proc :: "env \<Rightarrow> ctx \<Rightarrow> (user \<Rightarrow> ('s, 'a) act) \<Rightarrow> ('s, 'a) act"
    and admits :: "env \<Rightarrow> ctx \<Rightarrow> user \<Rightarrow> bool"
  assumes proc_runs: "c_user c = Some u \<Longrightarrow> admits e c u \<Longrightarrow> proc e c k s = k u s"
    and proc_rejects:
      "\<not> (\<exists>u. c_user c = Some u \<and> admits e c u) \<Longrightarrow> \<exists>err. proc e c k s = (Inl err, s)"
begin

lemma guard_ok:
  assumes "proc e c k s = (Inr x, s')"
  shows "\<exists>u. c_user c = Some u \<and> admits e c u \<and> k u s = (Inr x, s')"
  using assms proc_runs proc_rejects [where e = e and c = c and k = k and s = s] by fastforce

lemma guard_cases:
  assumes "proc e c k s = (r, s')"
  shows "(\<exists>err. r = Inl err \<and> s' = s) \<or> (\<exists>u. c_user c = Some u \<and> admits e c u \<and> k u s = (r, s'))"
  using assms proc_runs proc_rejects [where e = e and c = c and k = k and s = s] by fastforce

lemma guard_state:
  assumes "proc e c k s = (r, s')"
  shows "s' = s \<or> (\<exists>u. c_user c = Some u \<and> admits e c u \<and> k u s = (r, s'))"
  using assms proc_runs proc_rejects [where e = e and c = c and k = k and s = s] by fastforce

lemma guard_preserves:
  assumes "\<And>u r t. c_user c = Some u \<Longrightarrow> k u s = (r, t) \<Longrightarrow> I t" and "I s"
  shows "I (snd (proc e c k s))"
proof -
  obtain r s' where r: "proc e c k s = (r, s')" by (cases "proc e c k s")
  from guard_state [OF r] show ?thesis using assms r by auto
qed

end

definition admits_user :: "env \<Rightarrow> ctx \<Rightarrow> user \<Rightarrow> bool" where
  "admits_user e c u \<longleftrightarrow> \<not> (e_isProduction e \<and> u_role u \<noteq> RAdmin \<and> c_tenantId c = None)"

definition admits_admin :: "env \<Rightarrow> ctx \<Rightarrow> user \<Rightarrow> bool" where
  "admits_admin e c u \<longleftrightarrow> u_role u = RAdmin \<and> e_permify e ''platform'' ''bis'' ''admin'' (u_id u)"

definition admits_writer :: "env \<Rightarrow> ctx \<Rightarrow> user \<Rightarrow> bool" where
  "admits_writer e c u \<longleftrightarrow> \<not> c_isDemo c"

interpretation protected_guard: procedure_guard requireUser admits_user
  by unfold_locales (auto simp: requireUser_def admits_user_def split: option.splits)

interpretation admin_guard: procedure_guard adminProcedure admits_admin
  by unfold_locales (auto simp: adminProcedure_def admits_admin_def split: option.splits)

interpretation write_guard: procedure_guard writeProcedure admits_writer
  by unfold_locales (auto simp: writeProcedure_def admits_writer_def split: option.splits)

text \<open>\<open>const db = await getDb(); if (!db) throw \<dots>\<close>.\<close>

definition requireDb :: "env \<Rightarrow> ('s, 'a) act \<Rightarrow> ('s, 'a) act" where
  "requireDb e = require (e_dbUp e) (TRPCError INTERNAL_SERVER_ERROR ''DB unavailable'')"

lemma requireDb_simp [simp, act_simps]:
  "requireDb e k s = (if e_dbUp e then k s else (Inl (TRPCError INTERNAL_SERVER_ERROR ''DB unavailable''), s))"
  by (simp add: requireDb_def)

section \<open>Tables\<close>

text \<open>
  A table is its rows in insertion order and the value its serial column takes next. A
  query without ORDER BY reads the rows in insertion order.
\<close>

record 'r tbl =
  rows :: "'r list"
  seq :: int

definition empty_tbl :: "'r tbl" where
  "empty_tbl = \<lparr>rows = [], seq = 1\<rparr>"

definition tinsert :: "(int \<Rightarrow> 'r) \<Rightarrow> 'r tbl \<Rightarrow> 'r tbl" where
  "tinsert mk t = t\<lparr>rows := rows t @ [mk (seq t)], seq := seq t + 1\<rparr>"

definition tupdate :: "('r \<Rightarrow> bool) \<Rightarrow> ('r \<Rightarrow> 'r) \<Rightarrow> 'r tbl \<Rightarrow> 'r tbl" where
  "tupdate P f t = t\<lparr>rows := map (\<lambda>r. if P r then f r else r) (rows t)\<rparr>"

definition tdelete :: "('r \<Rightarrow> bool) \<Rightarrow> 'r tbl \<Rightarrow> 'r tbl" where
  "tdelete P t = t\<lparr>rows := filter (\<lambda>r. \<not> P r) (rows t)\<rparr>"

definition tselect :: "('r \<Rightarrow> bool) \<Rightarrow> 'r tbl \<Rightarrow> 'r list" where
  "tselect P t = filter P (rows t)"

definition tfind :: "('r \<Rightarrow> bool) \<Rightarrow> 'r tbl \<Rightarrow> 'r option" where
  "tfind P t = List.find P (rows t)"

text \<open>Serial ids are below the sequence and pairwise distinct.\<close>

definition serial_ok :: "('r \<Rightarrow> int) \<Rightarrow> 'r tbl \<Rightarrow> bool" where
  "serial_ok key t \<longleftrightarrow> distinct (map key (rows t)) \<and> (\<forall>r \<in> set (rows t). key r < seq t)"

lemma rows_tinsert [simp]: "rows (tinsert mk t) = rows t @ [mk (seq t)]"
  by (simp add: tinsert_def)

lemma rows_tupdate [simp]: "rows (tupdate P f t) = map (\<lambda>r. if P r then f r else r) (rows t)"
  by (simp add: tupdate_def)

lemma rows_tdelete [simp]: "rows (tdelete P t) = filter (\<lambda>r. \<not> P r) (rows t)"
  by (simp add: tdelete_def)

lemma seq_simps [simp]:
  "seq (tinsert mk t) = seq t + 1" "seq (tupdate P f t) = seq t" "seq (tdelete P t) = seq t"
  by (simp_all add: tinsert_def tupdate_def tdelete_def)

lemma tupdate_hit: "r \<in> set (rows t) \<Longrightarrow> P r \<Longrightarrow> f r \<in> set (rows (tupdate P f t))"
  by (force simp: image_iff)

lemma tupdate_miss: "r \<in> set (rows t) \<Longrightarrow> \<not> P r \<Longrightarrow> r \<in> set (rows (tupdate P f t))"
  by (force simp: image_iff)

lemma tfind_SomeD: "tfind P t = Some r \<Longrightarrow> r \<in> set (rows t) \<and> P r"
  unfolding tfind_def by (metis find_Some_iff nth_mem)

lemma tfind_None_iff: "tfind P t = None \<longleftrightarrow> (\<forall>r \<in> set (rows t). \<not> P r)"
  unfolding tfind_def by (auto simp: find_None_iff)

text \<open>\<open>UPDATE \<dots> WHERE P RETURNING\<close>, when the update keeps the condition.\<close>

lemma tfind_tupdate:
  assumes "\<And>r. P r \<Longrightarrow> P (f r)"
  shows "tfind P (tupdate P f t) = map_option f (tfind P t)"
proof -
  have "List.find P (map (\<lambda>r. if P r then f r else r) xs) = map_option f (List.find P xs)" for xs
    using assms by (induction xs) auto
  then show ?thesis by (simp add: tfind_def)
qed

lemma serial_ok_empty [simp]: "serial_ok key empty_tbl"
  by (simp add: serial_ok_def empty_tbl_def)

lemma serial_ok_tinsert:
  "serial_ok key t \<Longrightarrow> key (mk (seq t)) = seq t \<Longrightarrow> serial_ok key (tinsert mk t)"
  by (force simp: serial_ok_def)

lemma map_key_update:
  "(\<And>r. key (f r) = key r) \<Longrightarrow> map (key \<circ> (\<lambda>r. if P r then f r else r)) xs = map key xs"
  by (induction xs) auto

lemma serial_ok_tupdate:
  "serial_ok key t \<Longrightarrow> (\<And>r. key (f r) = key r) \<Longrightarrow> serial_ok key (tupdate P f t)"
  by (auto simp: serial_ok_def map_key_update)

lemma serial_ok_unique:
  "serial_ok key t \<Longrightarrow> r \<in> set (rows t) \<Longrightarrow> r' \<in> set (rows t) \<Longrightarrow> key r = key r' \<Longrightarrow> r = r'"
  by (auto simp: serial_ok_def distinct_map inj_on_def)

text \<open>ORDER BY \<dots> DESC, LIMIT and OFFSET.\<close>

definition order_desc :: "('r \<Rightarrow> int) \<Rightarrow> 'r list \<Rightarrow> 'r list" where
  "order_desc key xs = sort_key (\<lambda>r. - key r) xs"

definition page :: "int \<Rightarrow> int \<Rightarrow> 'r list \<Rightarrow> 'r list" where
  "page cnt off xs = take (nat cnt) (drop (nat off) xs)"

lemma set_order_desc [simp]: "set (order_desc key xs) = set xs"
  by (simp add: order_desc_def)

lemma length_order_desc [simp]: "length (order_desc key xs) = length xs"
  by (simp add: order_desc_def)

lemma mset_order_desc [simp]: "mset (order_desc key xs) = mset xs"
  by (simp add: order_desc_def)

lemma set_page: "set (page l k xs) \<subseteq> set xs"
  unfolding page_def by (meson in_set_dropD in_set_takeD subsetI)

lemma length_page: "0 \<le> l \<Longrightarrow> int (length (page l k xs)) \<le> l"
  by (simp add: page_def)

section \<open>JavaScript numbers and strings\<close>

definition isSafeInteger :: "int \<Rightarrow> bool" where
  "isSafeInteger n \<longleftrightarrow> - (2 ^ 53 - 1) \<le> n \<and> n \<le> 2 ^ 53 - 1"

definition js_round :: "rat \<Rightarrow> int" where
  "js_round x = \<lfloor>x + 1 / 2\<rfloor>"

text \<open>The truthiness test of a string: the empty string is falsy.\<close>

definition truthy_str :: "string option \<Rightarrow> bool" where
  "truthy_str s = (case s of None \<Rightarrow> False | Some x \<Rightarrow> x \<noteq> [])"

fun str_includes :: "string \<Rightarrow> string \<Rightarrow> bool" where
  "str_includes [] p = (p = [])"
| "str_includes (c # cs) p = (take (length p) (c # cs) = p \<or> str_includes cs p)"

definition to_lower :: "char \<Rightarrow> char" where
  "to_lower c = (let n = (of_char c :: nat) in if 65 \<le> n \<and> n \<le> 90 then char_of (n + 32) else c)"

definition toLowerCase :: "string \<Rightarrow> string" where
  "toLowerCase = map to_lower"

definition to_upper :: "char \<Rightarrow> char" where
  "to_upper c = (let n = (of_char c :: nat) in if 97 \<le> n \<and> n \<le> 122 then char_of (n - 32) else c)"

text \<open>
  PostgreSQL's \<open>ILIKE\<close>: per cent is any text, underscore one character, a backslash takes the
  next character literally.
\<close>

fun sql_like :: "string \<Rightarrow> string \<Rightarrow> bool" where
  "sql_like [] cs = (cs = [])"
| "sql_like (p # ps) cs =
     (if p = CHR ''%'' then sql_like ps cs \<or> (case cs of [] \<Rightarrow> False | _ # ds \<Rightarrow> sql_like (p # ps) ds)
      else if p = CHR ''_'' then (case cs of [] \<Rightarrow> False | _ # ds \<Rightarrow> sql_like ps ds)
      else if p = CHR 0x5C then
        (case ps of [] \<Rightarrow> False
         | q # qs \<Rightarrow> (case cs of [] \<Rightarrow> False | c # ds \<Rightarrow> c = q \<and> sql_like qs ds))
      else (case cs of [] \<Rightarrow> False | c # ds \<Rightarrow> c = p \<and> sql_like ps ds))"

definition ilike :: "string \<Rightarrow> string \<Rightarrow> bool" where
  "ilike txt pat = sql_like (toLowerCase pat) (toLowerCase txt)"

definition ilike_opt :: "string option \<Rightarrow> string \<Rightarrow> bool" where
  "ilike_opt txt pat = (case txt of None \<Rightarrow> False | Some t \<Rightarrow> ilike t pat)"

definition is_digit_char :: "char \<Rightarrow> bool" where
  "is_digit_char c = (let n = (of_char c :: nat) in 48 \<le> n \<and> n \<le> 57)"

definition all_digits :: "string \<Rightarrow> bool" where
  "all_digits s = list_all is_digit_char s"

fun show_nat :: "nat \<Rightarrow> string" where
  "show_nat n = (if n < 10 then [char_of (n + 48)] else show_nat (n div 10) @ [char_of (n mod 10 + 48)])"

declare show_nat.simps [simp del]

definition show_int :: "int \<Rightarrow> string" where
  "show_int i = (if i < 0 then CHR ''-'' # show_nat (nat (- i)) else show_nat (nat i))"

lemma show_nat_nonempty [simp]: "show_nat n \<noteq> []"
  by (subst show_nat.simps) simp

lemma show_nat_digits: "all_digits (show_nat n)"
proof (induction n rule: show_nat.induct)
  case (1 n)
  have d: "is_digit_char (char_of (m + 48))" if "m < 10" for m :: nat
    using that by (simp add: is_digit_char_def)
  show ?case
  proof (cases "n < 10")
    case True
    then show ?thesis using d by (subst show_nat.simps) (simp add: all_digits_def)
  next
    case False
    then have "all_digits (show_nat (n div 10))" by (rule "1.IH")
    with False show ?thesis using d [of "n mod 10"]
      by (subst show_nat.simps) (simp add: all_digits_def)
  qed
qed

section \<open>Sample users and environments\<close>

text \<open>Concrete values at which the instances of the theorems are evaluated.\<close>

definition sample_admin :: user where
  "sample_admin = \<lparr>u_id = 1, u_role = RAdmin, u_name = Some ''Root'', u_email = None\<rparr>"

definition sample_analyst :: user where
  "sample_analyst = \<lparr>u_id = 2, u_role = RAnalyst, u_name = Some ''Ann'', u_email = None\<rparr>"

definition sample_env :: env where
  "sample_env = \<lparr>e_now = 1700000000000, e_dbUp = True, e_isProduction = True, e_permify = (\<lambda>_ _ _ _. True)\<rparr>"

definition admin_ctx :: ctx where
  "admin_ctx = \<lparr>c_user = Some sample_admin, c_tenantId = None, c_isDemo = False\<rparr>"

definition analyst_ctx :: ctx where
  "analyst_ctx = \<lparr>c_user = Some sample_analyst, c_tenantId = Some 7, c_isDemo = False\<rparr>"

lemma sample_simps [simp]:
  "c_user admin_ctx = Some sample_admin" "c_tenantId admin_ctx = None" "c_isDemo admin_ctx = False"
  "c_user analyst_ctx = Some sample_analyst" "c_tenantId analyst_ctx = Some 7" "c_isDemo analyst_ctx = False"
  "u_id sample_admin = 1" "u_role sample_admin = RAdmin" "u_id sample_analyst = 2" "u_role sample_analyst = RAnalyst"
  "e_now sample_env = 1700000000000" "e_dbUp sample_env" "e_isProduction sample_env" "e_permify sample_env = (\<lambda>_ _ _ _. True)"
  by (simp_all add: sample_admin_def sample_analyst_def sample_env_def admin_ctx_def analyst_ctx_def)

lemma sample_admits [simp]:
  "admits_admin sample_env admin_ctx sample_admin" "admits_writer sample_env analyst_ctx sample_analyst"
  "admits_user sample_env analyst_ctx sample_analyst" "admits_user sample_env admin_ctx sample_admin"
  by (simp_all add: admits_admin_def admits_writer_def admits_user_def)

lemmas samples = sample_admin_def sample_analyst_def sample_env_def admin_ctx_def analyst_ctx_def

section \<open>Tables keyed by UUIDs\<close>

text \<open>\<open>UPDATE \<dots> WHERE\<close> on a table keyed by UUIDs.\<close>

definition lupdate :: "('r \<Rightarrow> bool) \<Rightarrow> ('r \<Rightarrow> 'r) \<Rightarrow> 'r list \<Rightarrow> 'r list" where
  "lupdate P f rs = map (\<lambda>r. if P r then f r else r) rs"

lemma lupdate_simps [simp]:
  "lupdate P f [] = []"
  "lupdate P f (r # rs) = (if P r then f r else r) # lupdate P f rs"
  by (simp_all add: lupdate_def)

lemma length_lupdate [simp]: "length (lupdate P f rs) = length rs"
  by (simp add: lupdate_def)

lemma in_lupdateE:
  assumes "r \<in> set (lupdate P f rs)"
  obtains (hit) r0 where "r0 \<in> set rs" "P r0" "r = f r0" | (miss) "r \<in> set rs" "\<not> P r"
  using assms by (auto simp: lupdate_def split: if_splits)

lemma lupdate_hit: "r \<in> set rs \<Longrightarrow> P r \<Longrightarrow> f r \<in> set (lupdate P f rs)"
  by (force simp: lupdate_def)

lemma lupdate_miss: "r \<in> set rs \<Longrightarrow> \<not> P r \<Longrightarrow> r \<in> set (lupdate P f rs)"
  by (force simp: lupdate_def)

lemma map_lupdate: "(\<And>r. P r \<Longrightarrow> key (f r) = key r) \<Longrightarrow> map key (lupdate P f rs) = map key rs"
  by (induction rs) auto

lemma lupdate_none: "\<forall>r \<in> set rs. \<not> P r \<Longrightarrow> lupdate P f rs = rs"
  by (induction rs) auto

text \<open>With a unique key, a filter on the key and the row are the same thing.\<close>

lemma filter_unique:
  assumes "distinct (map key rs)" "r \<in> set rs"
  shows "filter (\<lambda>x. key x = key r) rs = [r]"
  using assms
proof (induction rs)
  case (Cons a rs)
  then show ?case by (cases "a = r") (auto simp: filter_empty_conv image_iff)
qed simp

lemma filter_single:
  assumes "filter P rs = [r]"
  shows "r \<in> set rs" "P r"
proof -
  have "r \<in> set (filter P rs)" using assms by simp
  then show "r \<in> set rs" "P r" by simp_all
qed

lemma unique_key:
  "distinct (map key rs) \<Longrightarrow> r \<in> set rs \<Longrightarrow> r' \<in> set rs \<Longrightarrow> key r = key r' \<Longrightarrow> r = r'"
  by (auto simp: distinct_map inj_on_def)

end
