(* ===== verification/Backoff.thy ===== *)
theory Backoff
  imports Bis_Prelude
begin

text \<open>
  The retry delays of the platform all have one shape: a base that doubles per attempt up to a
  cap. The locale states the contract (never below the base, never above the cap, never
  shrinking, eventually the cap) and derives bounds on the time a series of attempts takes;
  each component that retries interprets it with its own delay function.
\<close>

definition wait_total :: "(nat \<Rightarrow> int) \<Rightarrow> nat \<Rightarrow> int" where
  "wait_total delay n = sum_list (map delay [1..<Suc n])"

lemma wait_total_0 [simp]: "wait_total delay 0 = 0"
  by (simp add: wait_total_def)

lemma wait_total_Suc [simp]: "wait_total delay (Suc n) = wait_total delay n + delay (Suc n)"
  by (simp add: wait_total_def)

locale backoff =
  fixes delay :: "nat \<Rightarrow> int" and base cap :: int
  assumes base_pos: "0 < base"
    and delay_lower: "1 \<le> n \<Longrightarrow> base \<le> delay n"
    and delay_upper: "delay n \<le> cap"
    and delay_mono: "1 \<le> m \<Longrightarrow> m \<le> n \<Longrightarrow> delay m \<le> delay n"
    and delay_saturates: "\<exists>N. \<forall>n \<ge> N. delay n = cap"
begin

lemma delay_pos: "1 \<le> n \<Longrightarrow> 0 < delay n"
  using delay_lower [of n] base_pos by linarith

lemma wait_lower: "int n * base \<le> wait_total delay n"
proof (induction n)
  case (Suc n)
  then show ?case using delay_lower [of "Suc n"] by (simp add: distrib_right)
qed simp

lemma wait_upper: "wait_total delay n \<le> int n * cap"
proof (induction n)
  case (Suc n)
  then show ?case using delay_upper [of "Suc n"] by (simp add: distrib_right)
qed simp

lemma wait_strict: "m < n \<Longrightarrow> wait_total delay m < wait_total delay n"
proof (induction n)
  case (Suc n)
  then show ?case using delay_pos [of "Suc n"] by (cases "m = n") auto
qed simp

end

text \<open>The doubling itself: \<open>min (b * 2 ^ k) c\<close> is monotone in \<open>k\<close> and reaches the cap.\<close>

lemma capped_double_mono:
  "0 \<le> b \<Longrightarrow> j \<le> k \<Longrightarrow> min (b * 2 ^ j) c \<le> min (b * 2 ^ k) (c::int)"
proof -
  assume "0 \<le> b" "j \<le> k"
  then have "b * 2 ^ j \<le> b * 2 ^ k" by (intro mult_left_mono power_increasing) auto
  then show ?thesis by linarith
qed

lemma capped_double_lower: "0 \<le> b \<Longrightarrow> b \<le> c \<Longrightarrow> b \<le> min (b * 2 ^ k) (c::int)"
  using capped_double_mono [of b 0 k c] by simp

lemma capped_double_cap:
  assumes "c \<le> b * 2 ^ j" and "0 \<le> b" and "j \<le> k"
  shows "min (b * 2 ^ k) c = (c::int)"
proof -
  have "b * 2 ^ j \<le> b * 2 ^ k" using assms by (intro mult_left_mono power_increasing) auto
  with assms(1) show ?thesis by linarith
qed

end
