(* ===== verification/State_Machine.thy ===== *)
theory State_Machine
  imports Main
begin

text \<open>
  Reachability and invariants, once for every state machine of the development. A component
  gives its initial states, its step relation and an invariant that the steps keep; the locales
  turn that into facts about reachable states. The second locale adds states a machine never
  leaves (closed cases, settled payments).
\<close>

inductive reach :: "('s \<Rightarrow> bool) \<Rightarrow> ('s \<Rightarrow> 's \<Rightarrow> bool) \<Rightarrow> 's \<Rightarrow> bool" for init step where
  reach_init: "init s \<Longrightarrow> reach init step s"
| reach_step: "reach init step s \<Longrightarrow> step s t \<Longrightarrow> reach init step t"

inductive steps :: "('s \<Rightarrow> 's \<Rightarrow> bool) \<Rightarrow> 's \<Rightarrow> 's \<Rightarrow> bool" for step where
  steps_refl: "steps step s s"
| steps_snoc: "steps step s t \<Longrightarrow> step t u \<Longrightarrow> steps step s u"

lemma reach_steps: "steps step s t \<Longrightarrow> reach init step s \<Longrightarrow> reach init step t"
  by (induction rule: steps.induct) (auto intro: reach_step)

lemma steps_trans: "steps step t u \<Longrightarrow> steps step s t \<Longrightarrow> steps step s u"
  by (induction rule: steps.induct) (auto intro: steps_snoc)

lemma steps_single: "step s t \<Longrightarrow> steps step s t"
  by (rule steps_snoc [OF steps_refl])

locale state_machine =
  fixes init :: "'s \<Rightarrow> bool" and step :: "'s \<Rightarrow> 's \<Rightarrow> bool" and inv :: "'s \<Rightarrow> bool"
  assumes inv_init: "init s \<Longrightarrow> inv s"
    and inv_step: "inv s \<Longrightarrow> step s t \<Longrightarrow> inv t"
begin

lemma inv_reachable: "reach init step s \<Longrightarrow> inv s"
  by (induction rule: reach.induct) (auto intro: inv_init inv_step)

lemma inv_steps: "steps step s t \<Longrightarrow> inv s \<Longrightarrow> inv t"
  by (induction rule: steps.induct) (auto intro: inv_step)

end

locale sticky_machine = state_machine +
  fixes sticky :: "'s \<Rightarrow> bool" and view :: "'s \<Rightarrow> 'v"
  assumes sticky_step: "inv s \<Longrightarrow> sticky s \<Longrightarrow> step s t \<Longrightarrow> sticky t \<and> view t = view s"
begin

lemma sticky_steps: "steps step s t \<Longrightarrow> inv s \<Longrightarrow> sticky s \<Longrightarrow> sticky t \<and> view t = view s"
proof (induction rule: steps.induct)
  case (steps_snoc s t u)
  then show ?case using inv_steps sticky_step by metis
qed simp

end

end
