(* ===== verification/Offline_Queue.thy ===== *)
theory Offline_Queue
  imports Backoff State_Machine "HOL-Library.Product_Lexorder"
begin

text \<open>
  The mobile client's durable queue (\<open>mobile/src/offline/OfflineQueue.ts\<close>): operations that
  accumulate while the device is offline, drained in priority order with exponential backoff
  and a dead-letter list. Timestamps are milliseconds; the two AsyncStorage slots hold a parsed
  list, nothing, or text that does not parse. The executor (the API call) is a parameter that
  answers \<open>None\<close> for success and \<open>Some message\<close> for a thrown error.
\<close>

section \<open>Data\<close>

datatype operationType =
    KycSubmit | KycRerun | InvestigationCreate | InvestigationUpdate | AmlAlertAcknowledge
  | SarSubmit | PaymentInitiate | BiometricSubmit | FieldAgentSync

datatype priority = CRITICAL | HIGH | NORMAL | LOW

record 'p queuedOperation =
  qo_id :: string
  qo_type :: operationType
  qo_payload :: 'p
  qo_priority :: priority
  qo_enqueuedAt :: int
  qo_attempts :: nat
  qo_lastAttemptAt :: "int option"
  qo_lastError :: "string option"
  qo_maxAttempts :: nat
  qo_tenantId :: string

record drainResult =
  dr_succeeded :: nat
  dr_failed :: nat
  dr_skipped :: nat
  dr_deadLettered :: nat

definition no_drain :: drainResult where
  "no_drain = \<lparr>dr_succeeded = 0, dr_failed = 0, dr_skipped = 0, dr_deadLettered = 0\<rparr>"

fun PRIORITY_ORDER :: "priority \<Rightarrow> int" where
  "PRIORITY_ORDER CRITICAL = 0"
| "PRIORITY_ORDER HIGH = 1"
| "PRIORITY_ORDER NORMAL = 2"
| "PRIORITY_ORDER LOW = 3"

definition DEFAULT_MAX_ATTEMPTS :: nat where "DEFAULT_MAX_ATTEMPTS = 5"
definition BACKOFF_BASE_MS :: int where "BACKOFF_BASE_MS = 1000"
definition BACKOFF_MAX_MS :: int where "BACKOFF_MAX_MS = 30000"

text \<open>\<open>Math.pow(2, -1)\<close> at attempt 0 is one half, so the delay there is half the base.\<close>

definition backoffMs :: "nat \<Rightarrow> int" where
  "backoffMs attempt =
     (if attempt = 0 then min (BACKOFF_BASE_MS div 2) BACKOFF_MAX_MS
      else min (BACKOFF_BASE_MS * 2 ^ (attempt - 1)) BACKOFF_MAX_MS)"

text \<open>The comparator: priority first, then the time of enqueueing; \<open>Array.sort\<close> is stable.\<close>

definition sort_rank :: "'p queuedOperation \<Rightarrow> int \<times> int" where
  "sort_rank a = (PRIORITY_ORDER (qo_priority a), qo_enqueuedAt a)"

definition sortByPriority :: "'p queuedOperation list \<Rightarrow> 'p queuedOperation list" where
  "sortByPriority ops = sort_key sort_rank ops"

interpretation offline_backoff: backoff backoffMs 1000 30000
proof unfold_locales
  show "\<exists>N. \<forall>n\<ge>N. backoffMs n = 30000"
  proof (intro exI [where x = 6] allI impI)
    fix n :: nat assume "6 \<le> n"
    then show "backoffMs n = 30000"
      using capped_double_cap [of 30000 1000 5 "n - 1"]
      by (simp add: backoffMs_def BACKOFF_BASE_MS_def BACKOFF_MAX_MS_def)
  qed
next
  fix m n :: nat assume "1 \<le> m" "m \<le> n"
  then show "backoffMs m \<le> backoffMs n"
    using capped_double_mono [of 1000 "m - 1" "n - 1" 30000]
    by (simp add: backoffMs_def BACKOFF_BASE_MS_def BACKOFF_MAX_MS_def)
next
  fix n :: nat assume "1 \<le> n"
  then show "1000 \<le> backoffMs n"
    using capped_double_lower [of 1000 30000 "n - 1"]
    by (simp add: backoffMs_def BACKOFF_BASE_MS_def BACKOFF_MAX_MS_def)
qed (simp_all add: backoffMs_def BACKOFF_BASE_MS_def BACKOFF_MAX_MS_def)

section \<open>Storage and the simple operations\<close>

datatype 'a slot = Absent | Corrupt | Parsed 'a

record 'p oqState =
  st_queue :: "'p queuedOperation list slot"
  st_dead :: "'p queuedOperation list slot"
  st_draining :: bool

definition oq_init :: "'p oqState" where
  "oq_init = \<lparr>st_queue = Absent, st_dead = Absent, st_draining = False\<rparr>"

definition read_slot :: "'a list slot \<Rightarrow> 'a list" where
  "read_slot x = (case x of Parsed ops \<Rightarrow> ops | _ \<Rightarrow> [])"

definition loadQueue :: "'p oqState \<Rightarrow> 'p queuedOperation list" where
  "loadQueue s = read_slot (st_queue s)"

definition saveQueue :: "'p queuedOperation list \<Rightarrow> 'p oqState \<Rightarrow> 'p oqState" where
  "saveQueue q s = s\<lparr>st_queue := Parsed q\<rparr>"

definition getDeadLettered :: "'p oqState \<Rightarrow> 'p queuedOperation list" where
  "getDeadLettered s = read_slot (st_dead s)"

definition deadLetter :: "'p queuedOperation \<Rightarrow> 'p oqState \<Rightarrow> 'p oqState" where
  "deadLetter op s = s\<lparr>st_dead := Parsed (getDeadLettered s @ [op])\<rparr>"

definition clearDeadLetter :: "'p oqState \<Rightarrow> 'p oqState" where
  "clearDeadLetter s = s\<lparr>st_dead := Absent\<rparr>"

record 'p enqueueParams =
  en_type :: operationType
  en_payload :: 'p
  en_priority :: "priority option"
  en_maxAttempts :: "nat option"
  en_tenantId :: string

text \<open>\<open>uuid\<close> is the fresh identifier and \<open>now\<close> the clock of the call.\<close>

definition newOperation :: "string \<Rightarrow> int \<Rightarrow> 'p enqueueParams \<Rightarrow> 'p queuedOperation" where
  "newOperation uuid now p =
     \<lparr>qo_id = uuid, qo_type = en_type p, qo_payload = en_payload p,
      qo_priority = (case en_priority p of None \<Rightarrow> NORMAL | Some x \<Rightarrow> x),
      qo_enqueuedAt = now, qo_attempts = 0, qo_lastAttemptAt = None, qo_lastError = None,
      qo_maxAttempts = (case en_maxAttempts p of None \<Rightarrow> DEFAULT_MAX_ATTEMPTS | Some x \<Rightarrow> x),
      qo_tenantId = en_tenantId p\<rparr>"

definition enqueue :: "string \<Rightarrow> int \<Rightarrow> 'p enqueueParams \<Rightarrow> 'p oqState \<Rightarrow>
    'p queuedOperation \<times> 'p oqState" where
  "enqueue uuid now p s =
     (let op = newOperation uuid now p in (op, saveQueue (loadQueue s @ [op]) s))"

definition getPending :: "'p oqState \<Rightarrow> 'p queuedOperation list" where
  "getPending s = sortByPriority (loadQueue s)"

definition queueSize :: "'p oqState \<Rightarrow> nat" where
  "queueSize s = length (loadQueue s)"

definition removeOp :: "string \<Rightarrow> 'p oqState \<Rightarrow> bool \<times> 'p oqState" where
  "removeOp i s =
     (let q = loadQueue s; filtered = filter (\<lambda>op. qo_id op \<noteq> i) q
      in if length filtered = length q then (False, s) else (True, saveQueue filtered s))"

definition clearQueue :: "'p oqState \<Rightarrow> 'p oqState" where
  "clearQueue s = saveQueue [] s"

definition retryDeadLettered :: "string \<Rightarrow> 'p oqState \<Rightarrow> bool \<times> 'p oqState" where
  "retryDeadLettered i s =
     (case List.find (\<lambda>x. qo_id x = i) (getDeadLettered s) of
        None \<Rightarrow> (False, s)
      | Some op \<Rightarrow>
          let retried = op\<lparr>qo_attempts := 0, qo_lastAttemptAt := None, qo_lastError := None,
                           qo_maxAttempts := qo_maxAttempts op + DEFAULT_MAX_ATTEMPTS\<rparr>;
              s1 = saveQueue (loadQueue s @ [retried]) s;
              remaining = filter (\<lambda>x. qo_id x \<noteq> i) (getDeadLettered s)
          in (True, s1\<lparr>st_dead := Parsed remaining\<rparr>))"

section \<open>Draining\<close>

definition in_backoff :: "int \<Rightarrow> 'p queuedOperation \<Rightarrow> bool" where
  "in_backoff now op =
     (case qo_lastAttemptAt op of
        None \<Rightarrow> False
      | Some t \<Rightarrow> qo_attempts op > 0 \<and> now - t < backoffMs (qo_attempts op))"

definition attempted :: "int \<Rightarrow> 'p queuedOperation \<Rightarrow> 'p queuedOperation" where
  "attempted now op = op\<lparr>qo_attempts := qo_attempts op + 1, qo_lastAttemptAt := Some now\<rparr>"

text \<open>
  The body of the loop for one operation: the operations kept so far, the counters and the
  storage before, and the same after.
\<close>

definition drain_one :: "int \<Rightarrow> ('p queuedOperation \<Rightarrow> string option) \<Rightarrow> 'p queuedOperation \<Rightarrow>
    'p queuedOperation list \<times> drainResult \<times> 'p oqState \<Rightarrow>
    'p queuedOperation list \<times> drainResult \<times> 'p oqState" where
  "drain_one now exec op acc =
     (case acc of (remaining, r, s) \<Rightarrow>
       if in_backoff now op then (remaining @ [op], r\<lparr>dr_skipped := dr_skipped r + 1\<rparr>, s)
       else if qo_attempts op \<ge> qo_maxAttempts op
       then (remaining, r\<lparr>dr_deadLettered := dr_deadLettered r + 1\<rparr>, deadLetter op s)
       else (let u = attempted now op in
         case exec u of
           None \<Rightarrow> (remaining, r\<lparr>dr_succeeded := dr_succeeded r + 1\<rparr>, s)
         | Some msg \<Rightarrow> (remaining @ [u\<lparr>qo_lastError := Some msg\<rparr>],
                        r\<lparr>dr_failed := dr_failed r + 1\<rparr>, s)))"

fun drain_loop :: "int \<Rightarrow> ('p queuedOperation \<Rightarrow> string option) \<Rightarrow> 'p queuedOperation list \<Rightarrow>
    'p queuedOperation list \<times> drainResult \<times> 'p oqState \<Rightarrow>
    'p queuedOperation list \<times> drainResult \<times> 'p oqState" where
  "drain_loop now exec [] acc = acc"
| "drain_loop now exec (op # ops) acc = drain_loop now exec ops (drain_one now exec op acc)"

definition drain :: "int \<Rightarrow> ('p queuedOperation \<Rightarrow> string option) \<Rightarrow> 'p oqState \<Rightarrow>
    drainResult \<times> 'p oqState" where
  "drain now exec s =
     (if st_draining s then (no_drain, s)
      else (let s1 = s\<lparr>st_draining := True\<rparr>;
                queue = sortByPriority (loadQueue s1);
                (remaining, r, s2) = drain_loop now exec queue ([], no_drain, s1)
            in (r, (saveQueue remaining s2)\<lparr>st_draining := False\<rparr>)))"

text \<open>
  \<open>start\<close> subscribes to connectivity events and drains when online; an event that reports a
  connection drains too.
\<close>

definition on_connectivity :: "bool \<Rightarrow> int \<Rightarrow> ('p queuedOperation \<Rightarrow> string option) \<Rightarrow>
    'p oqState \<Rightarrow> 'p oqState" where
  "on_connectivity isConnected now exec s = (if isConnected then snd (drain now exec s) else s)"

section \<open>What one drain does\<close>

text \<open>
  The fate of an operation in a drain at time \<open>now\<close>: left alone because of its backoff, moved
  to the dead-letter list because its attempts are used up, or tried.
\<close>

definition exhausted :: "int \<Rightarrow> 'p queuedOperation \<Rightarrow> bool" where
  "exhausted now op \<longleftrightarrow> \<not> in_backoff now op \<and> qo_attempts op \<ge> qo_maxAttempts op"

definition tried :: "int \<Rightarrow> 'p queuedOperation \<Rightarrow> bool" where
  "tried now op \<longleftrightarrow> \<not> in_backoff now op \<and> qo_attempts op < qo_maxAttempts op"

definition completed :: "int \<Rightarrow> ('p queuedOperation \<Rightarrow> string option) \<Rightarrow> 'p queuedOperation \<Rightarrow> bool" where
  "completed now exec op \<longleftrightarrow> tried now op \<and> exec (attempted now op) = None"

definition after_drain :: "int \<Rightarrow> ('p queuedOperation \<Rightarrow> string option) \<Rightarrow> 'p queuedOperation \<Rightarrow>
    'p queuedOperation" where
  "after_drain now exec op =
     (if tried now op
      then (case exec (attempted now op) of
              None \<Rightarrow> attempted now op
            | Some m \<Rightarrow> (attempted now op)\<lparr>qo_lastError := Some m\<rparr>)
      else op)"

definition kept :: "int \<Rightarrow> ('p queuedOperation \<Rightarrow> string option) \<Rightarrow> 'p queuedOperation \<Rightarrow> bool" where
  "kept now exec op \<longleftrightarrow> \<not> exhausted now op \<and> \<not> completed now exec op"

lemma after_drain_id [simp]: "qo_id (after_drain now exec op) = qo_id op"
  by (simp add: after_drain_def attempted_def split: option.splits)

lemma drain_one_eq:
  "drain_one now exec op (rem, r, s) =
     (if kept now exec op then rem @ [after_drain now exec op] else rem,
      if in_backoff now op then r\<lparr>dr_skipped := dr_skipped r + 1\<rparr>
      else if exhausted now op then r\<lparr>dr_deadLettered := dr_deadLettered r + 1\<rparr>
      else if completed now exec op then r\<lparr>dr_succeeded := dr_succeeded r + 1\<rparr>
      else r\<lparr>dr_failed := dr_failed r + 1\<rparr>,
      if exhausted now op then deadLetter op s else s)"
  by (auto simp: drain_one_def kept_def exhausted_def completed_def tried_def after_drain_def
      Let_def split: option.splits)

lemma deadLetter_simps [simp]:
  "st_queue (deadLetter op s) = st_queue s" "st_draining (deadLetter op s) = st_draining s"
  "getDeadLettered (deadLetter op s) = getDeadLettered s @ [op]"
  by (simp_all add: deadLetter_def getDeadLettered_def read_slot_def)

lemma loadQueue_saveQueue [simp]: "loadQueue (saveQueue q s) = q"
  by (simp add: loadQueue_def saveQueue_def read_slot_def)

lemma saveQueue_frame [simp]:
  "st_dead (saveQueue q s) = st_dead s" "st_draining (saveQueue q s) = st_draining s"
  "getDeadLettered (saveQueue q s) = getDeadLettered s"
  by (simp_all add: saveQueue_def getDeadLettered_def)

lemma draining_frame [simp]:
  "loadQueue (s\<lparr>st_draining := b\<rparr>) = loadQueue s"
  "getDeadLettered (s\<lparr>st_draining := b\<rparr>) = getDeadLettered s"
  by (simp_all add: loadQueue_def getDeadLettered_def)

text \<open>The loop in closed form.\<close>

lemma drain_loop_eq:
  assumes "drain_loop now exec ops (rem0, r0, s0) = (rem, r, s)"
  shows "rem = rem0 @ map (after_drain now exec) (filter (kept now exec) ops)"
    and "getDeadLettered s = getDeadLettered s0 @ filter (exhausted now) ops"
    and "st_queue s = st_queue s0" and "st_draining s = st_draining s0"
    and "dr_succeeded r = dr_succeeded r0 + length (filter (completed now exec) ops)"
    and "dr_deadLettered r = dr_deadLettered r0 + length (filter (exhausted now) ops)"
    and "dr_skipped r = dr_skipped r0 + length (filter (in_backoff now) ops)"
    and "dr_failed r + dr_skipped r = dr_failed r0 + dr_skipped r0 + length (filter (kept now exec) ops)"
  using assms
proof (induction ops arbitrary: rem0 r0 s0)
  case (Cons op ops)
  have excl: "in_backoff now op \<Longrightarrow> \<not> exhausted now op \<and> \<not> completed now exec op"
    "exhausted now op \<Longrightarrow> \<not> completed now exec op"
    by (auto simp: exhausted_def completed_def tried_def)
  { case 1 from Cons.IH(1) [OF 1 [simplified drain_loop.simps drain_one_eq]] show ?case by auto }
  { case 2 from Cons.IH(2) [OF 2 [simplified drain_loop.simps drain_one_eq]] show ?case by auto }
  { case 3 from Cons.IH(3) [OF 3 [simplified drain_loop.simps drain_one_eq]] show ?case by auto }
  { case 4 from Cons.IH(4) [OF 4 [simplified drain_loop.simps drain_one_eq]] show ?case by auto }
  { case 5 from Cons.IH(5) [OF 5 [simplified drain_loop.simps drain_one_eq]] show ?case using excl by auto }
  { case 6 from Cons.IH(6) [OF 6 [simplified drain_loop.simps drain_one_eq]] show ?case using excl by auto }
  { case 7 from Cons.IH(7) [OF 7 [simplified drain_loop.simps drain_one_eq]] show ?case using excl by auto }
  { case 8 from Cons.IH(8) [OF 8 [simplified drain_loop.simps drain_one_eq]] show ?case
      using excl by (auto simp: kept_def split: if_splits) }
qed auto

section \<open>Sorting\<close>

lemma mset_sortByPriority [simp]: "mset (sortByPriority ops) = mset ops"
  by (simp add: sortByPriority_def)

lemma set_sortByPriority [simp]: "set (sortByPriority ops) = set ops"
  by (simp add: sortByPriority_def)

lemma length_filter_sortByPriority [simp]:
  "length (filter P (sortByPriority ops)) = length (filter P ops)"
  by (metis mset_filter mset_sortByPriority size_mset)

lemma mset_filter_sortByPriority [simp]:
  "mset (filter P (sortByPriority ops)) = mset (filter P ops)"
  by (simp add: mset_filter)

text \<open>The drain order is a permutation of the queue, sorted by priority and then by the
  time of enqueueing, and operations with the same priority and time keep their queue order
  (the sort is stable).\<close>

theorem sortByPriority_correct:
  "mset (sortByPriority ops) = mset ops \<and>
   sorted (map sort_rank (sortByPriority ops)) \<and>
   filter (\<lambda>op. sort_rank op = k) (sortByPriority ops) = filter (\<lambda>op. sort_rank op = k) ops"
  by (simp add: sortByPriority_def sort_key_stable)

text \<open>C27: A drain that is not already running loses and duplicates nothing: every operation of
  the queue afterwards is still queued, has completed, or has joined the dead-letter list; the
  counters add up to the queue's size; and the drain lock is released.\<close>

theorem drain_conserves_operations:
  assumes "\<not> st_draining s" and "drain now exec s = (r, s')"
  shows "mset (map qo_id (loadQueue s)) =
           mset (map qo_id (loadQueue s')) + mset (map qo_id (filter (completed now exec) (loadQueue s)))
           + mset (map qo_id (filter (exhausted now) (loadQueue s))) \<and>
         mset (getDeadLettered s') = mset (getDeadLettered s) + mset (filter (exhausted now) (loadQueue s)) \<and>
         dr_succeeded r + dr_deadLettered r + dr_failed r + dr_skipped r = queueSize s \<and>
         dr_failed r + dr_skipped r = queueSize s' \<and> \<not> st_draining s'"
proof -
  obtain rem s2 where loop: "drain_loop now exec (sortByPriority (loadQueue s))
      ([], no_drain, s\<lparr>st_draining := True\<rparr>) = (rem, r, s2)"
    and s': "s' = (saveQueue rem s2)\<lparr>st_draining := False\<rparr>"
    using assms by (auto simp: drain_def Let_def split: prod.splits)
  note eqs = drain_loop_eq [OF loop]
  let ?q = "loadQueue s"
  have split3: "mset xs = mset (filter (kept now exec) xs) + mset (filter (completed now exec) xs)
      + mset (filter (exhausted now) xs)" for xs
    by (induction xs) (auto simp: kept_def completed_def tried_def exhausted_def)
  have len3: "length xs = length (filter (kept now exec) xs) + length (filter (completed now exec) xs)
      + length (filter (exhausted now) xs)" for xs
    by (induction xs) (auto simp: kept_def completed_def tried_def exhausted_def)
  have ids: "image_mset qo_id (mset rem) = image_mset qo_id (filter_mset (kept now exec) (mset ?q))"
  proof -
    have "map qo_id rem = map qo_id (filter (kept now exec) (sortByPriority ?q))"
      using eqs(1) by (simp add: comp_def)
    then show ?thesis by (metis mset_filter mset_filter_sortByPriority mset_map)
  qed
  have "image_mset qo_id (mset ?q) = mset (map qo_id rem)
      + image_mset qo_id (mset (filter (completed now exec) ?q))
      + image_mset qo_id (mset (filter (exhausted now) ?q))"
    by (subst split3) (simp add: ids)
  moreover have "length ?q = length (filter (kept now exec) ?q) + length (filter (completed now exec) ?q)
      + length (filter (exhausted now) ?q)"
    by (rule len3)
  moreover have "length rem = length (filter (kept now exec) ?q)"
    using eqs(1) by simp
  ultimately show ?thesis
    using eqs(2,4,5,6,8) s' by (simp add: queueSize_def no_drain_def)
qed

theorem drain_conserves_operations_witness:
  "\<exists>r s'. drain 5000 (\<lambda>op. if qo_type op = SarSubmit then Some ''offline'' else None)
      (snd (enqueue ''b'' 2 \<lparr>en_type = SarSubmit, en_payload = (), en_priority = Some HIGH, en_maxAttempts = None, en_tenantId = ''1''\<rparr>
        (snd (enqueue ''a'' 1 \<lparr>en_type = KycSubmit, en_payload = (), en_priority = None, en_maxAttempts = None, en_tenantId = ''1''\<rparr> oq_init)))) = (r, s')
      \<and> dr_failed r + dr_skipped r = queueSize s'"
proof -
  let ?s = "snd (enqueue ''b'' 2 \<lparr>en_type = SarSubmit, en_payload = (), en_priority = Some HIGH, en_maxAttempts = None, en_tenantId = ''1''\<rparr>
        (snd (enqueue ''a'' 1 \<lparr>en_type = KycSubmit, en_payload = (), en_priority = None, en_maxAttempts = None, en_tenantId = ''1''\<rparr> oq_init)))"
  have "\<not> st_draining ?s" by (simp add: enqueue_def oq_init_def Let_def)
  from drain_conserves_operations [OF this] show ?thesis by (metis surj_pair)
qed

section \<open>Attempts and backoff\<close>

text \<open>The API call is made for exactly the operations that are outside their backoff window
  and have attempts left: two executors that agree on those give the same drain.\<close>

lemma drain_one_cong:
  "(tried now op \<Longrightarrow> exec (attempted now op) = exec' (attempted now op)) \<Longrightarrow>
   drain_one now exec op acc = drain_one now exec' op acc"
  by (auto simp: drain_one_def tried_def Let_def split: prod.splits)

lemma drain_loop_cong:
  "(\<And>op. op \<in> set ops \<Longrightarrow> tried now op \<Longrightarrow> exec (attempted now op) = exec' (attempted now op)) \<Longrightarrow>
   drain_loop now exec ops acc = drain_loop now exec' ops acc"
proof (induction ops arbitrary: acc)
  case (Cons op ops)
  have "drain_one now exec op acc = drain_one now exec' op acc"
    using Cons.prems by (intro drain_one_cong) simp
  with Cons show ?case by simp
qed simp

text \<open>The API call is made only for operations that are outside their backoff window and
  have attempts left: a drain depends on the executor at no other operation.\<close>

theorem drain_only_calls_due_operations:
  assumes "\<And>op. op \<in> set (loadQueue s) \<Longrightarrow>
      (case qo_lastAttemptAt op of Some t \<Rightarrow> qo_attempts op > 0 \<longrightarrow> backoffMs (qo_attempts op) \<le> now - t | None \<Rightarrow> True) \<Longrightarrow>
      qo_attempts op < qo_maxAttempts op \<Longrightarrow> exec (attempted now op) = exec' (attempted now op)"
  shows "drain now exec s = drain now exec' s"
proof -
  have "drain_loop now exec (sortByPriority (loadQueue s)) acc
      = drain_loop now exec' (sortByPriority (loadQueue s)) acc" for acc
    using assms by (intro drain_loop_cong)
      (fastforce simp: tried_def in_backoff_def split: option.splits)
  then show ?thesis by (simp add: drain_def)
qed

theorem drain_only_calls_due_operations_witness:
  "drain 1500 (\<lambda>_. None)
      \<lparr>st_queue = Parsed [\<lparr>qo_id = ''a'', qo_type = KycSubmit, qo_payload = (), qo_priority = LOW, qo_enqueuedAt = 0,
         qo_attempts = 2, qo_lastAttemptAt = Some 0, qo_lastError = None, qo_maxAttempts = 5, qo_tenantId = ''1''\<rparr>],
       st_dead = Absent, st_draining = False\<rparr>
   = drain 1500 (\<lambda>_. Some ''unreachable'')
      \<lparr>st_queue = Parsed [\<lparr>qo_id = ''a'', qo_type = KycSubmit, qo_payload = (), qo_priority = LOW, qo_enqueuedAt = 0,
         qo_attempts = 2, qo_lastAttemptAt = Some 0, qo_lastError = None, qo_maxAttempts = 5, qo_tenantId = ''1''\<rparr>],
       st_dead = Absent, st_draining = False\<rparr>"
  by (rule drain_only_calls_due_operations)
    (simp add: loadQueue_def read_slot_def backoffMs_def BACKOFF_BASE_MS_def BACKOFF_MAX_MS_def)

section \<open>The queue as a machine\<close>

text \<open>
  \<open>drain\<close> awaits the executor between operations, so other calls run while it is under way. A
  configuration is the storage and, during a drain, the operations still to visit, those kept
  and the counters. The queue calls themselves are single steps here; the drain is its load, one
  step per operation, and its final save.
\<close>

type_synonym 'p drainRun = "'p queuedOperation list \<times> 'p queuedOperation list \<times> drainResult"

record 'p oqConfig =
  cf_store :: "'p oqState"
  cf_run :: "'p drainRun option"

definition drain_begin :: "'p oqConfig \<Rightarrow> 'p oqConfig" where
  "drain_begin c =
     (if st_draining (cf_store c) then c
      else \<lparr>cf_store = (cf_store c)\<lparr>st_draining := True\<rparr>,
            cf_run = Some (sortByPriority (loadQueue (cf_store c)), [], no_drain)\<rparr>)"

definition drain_visit :: "int \<Rightarrow> ('p queuedOperation \<Rightarrow> string option) \<Rightarrow> 'p oqConfig \<Rightarrow> 'p oqConfig" where
  "drain_visit now exec c =
     (case cf_run c of
        Some (op # todo, remaining, r) \<Rightarrow>
          (case drain_one now exec op (remaining, r, cf_store c) of
             (remaining', r', s') \<Rightarrow> \<lparr>cf_store = s', cf_run = Some (todo, remaining', r')\<rparr>)
      | _ \<Rightarrow> c)"

definition drain_end :: "'p oqConfig \<Rightarrow> 'p oqConfig" where
  "drain_end c =
     (case cf_run c of
        Some ([], remaining, r) \<Rightarrow>
          \<lparr>cf_store = (saveQueue remaining (cf_store c))\<lparr>st_draining := False\<rparr>, cf_run = None\<rparr>
      | _ \<Rightarrow> c)"

definition on_store :: "('p oqState \<Rightarrow> 'p oqState) \<Rightarrow> 'p oqConfig \<Rightarrow> 'p oqConfig" where
  "on_store f c = c\<lparr>cf_store := f (cf_store c)\<rparr>"

inductive oq_step :: "'p oqConfig \<Rightarrow> 'p oqConfig \<Rightarrow> bool" where
  begin_step: "oq_step c (drain_begin c)"
| visit_step: "oq_step c (drain_visit now exec c)"
| end_step: "oq_step c (drain_end c)"
| enqueue_step: "oq_step c (on_store (\<lambda>s. snd (enqueue uuid now p s)) c)"
| remove_step: "oq_step c (on_store (\<lambda>s. snd (removeOp i s)) c)"
| clear_step: "oq_step c (on_store clearQueue c)"
| retry_step: "oq_step c (on_store (\<lambda>s. snd (retryDeadLettered i s)) c)"
| clear_dead_step: "oq_step c (on_store clearDeadLetter c)"

inductive_cases oq_stepE: "oq_step c c'"

definition within_attempts :: "'p queuedOperation \<Rightarrow> bool" where
  "within_attempts op \<longleftrightarrow> qo_attempts op \<le> qo_maxAttempts op"

definition dead_ok :: "'p queuedOperation \<Rightarrow> bool" where
  "dead_ok op \<longleftrightarrow> qo_attempts op = qo_maxAttempts op"

definition oq_inv :: "'p oqConfig \<Rightarrow> bool" where
  "oq_inv c \<longleftrightarrow>
     list_all within_attempts (loadQueue (cf_store c)) \<and>
     list_all dead_ok (getDeadLettered (cf_store c)) \<and>
     (case cf_run c of
        None \<Rightarrow> True
      | Some (todo, remaining, r) \<Rightarrow> list_all within_attempts todo \<and> list_all within_attempts remaining)"

lemma loadQueue_deadLetter [simp]: "loadQueue (deadLetter op s) = loadQueue s"
  by (simp add: loadQueue_def)

lemma clearDead_simps [simp]:
  "loadQueue (clearDeadLetter s) = loadQueue s" "getDeadLettered (clearDeadLetter s) = []"
  by (simp_all add: clearDeadLetter_def loadQueue_def getDeadLettered_def read_slot_def)

lemma st_dead_update [simp]:
  "loadQueue (s\<lparr>st_dead := d\<rparr>) = loadQueue s" "getDeadLettered (s\<lparr>st_dead := d\<rparr>) = read_slot d"
  by (simp_all add: loadQueue_def getDeadLettered_def)

lemma read_slot_Parsed [simp]: "read_slot (Parsed q) = q"
  by (simp add: read_slot_def)

lemma within_after_drain: "within_attempts op \<Longrightarrow> within_attempts (after_drain now exec op)"
  by (auto simp: within_attempts_def after_drain_def attempted_def tried_def split: option.splits)

lemma exhausted_dead_ok: "within_attempts op \<Longrightarrow> exhausted now op \<Longrightarrow> dead_ok op"
  by (simp add: within_attempts_def exhausted_def dead_ok_def)

lemma list_all_sortByPriority [simp]: "list_all P (sortByPriority ops) = list_all P ops"
  by (simp add: list_all_iff)

lemma oq_inv_visit: "oq_inv c \<Longrightarrow> oq_inv (drain_visit now exec c)"
  by (auto simp: oq_inv_def drain_visit_def drain_one_eq within_after_drain exhausted_dead_ok
      split: option.splits list.splits prod.splits)

lemma oq_inv_retry:
  assumes "oq_inv c" shows "oq_inv (on_store (\<lambda>s. snd (retryDeadLettered i s)) c)"
  using assms
  by (auto simp: oq_inv_def on_store_def retryDeadLettered_def Let_def within_attempts_def
      list_all_iff split: option.splits)

lemma oq_inv_begin: "oq_inv c \<Longrightarrow> oq_inv (drain_begin c)"
  by (auto simp: oq_inv_def drain_begin_def)

lemma oq_inv_end: "oq_inv c \<Longrightarrow> oq_inv (drain_end c)"
  by (auto simp: oq_inv_def drain_end_def split: option.splits list.splits prod.splits)

lemma oq_inv_enqueue: "oq_inv c \<Longrightarrow> oq_inv (on_store (\<lambda>s. snd (enqueue uuid now p s)) c)"
  by (auto simp: oq_inv_def on_store_def enqueue_def newOperation_def within_attempts_def Let_def
      split: option.splits)

lemma oq_inv_remove: "oq_inv c \<Longrightarrow> oq_inv (on_store (\<lambda>s. snd (removeOp i s)) c)"
  by (auto simp: oq_inv_def on_store_def removeOp_def Let_def list_all_iff split: option.splits)

lemma oq_inv_clear:
  "oq_inv c \<Longrightarrow> oq_inv (on_store clearQueue c)" "oq_inv c \<Longrightarrow> oq_inv (on_store clearDeadLetter c)"
  by (simp_all add: oq_inv_def on_store_def clearQueue_def)

lemma oq_inv_step: "oq_inv c \<Longrightarrow> oq_step c c' \<Longrightarrow> oq_inv c'"
  by (erule oq_stepE) (simp_all add: oq_inv_visit oq_inv_retry oq_inv_begin oq_inv_end
      oq_inv_enqueue oq_inv_remove oq_inv_clear)

definition oq_start :: "'p oqConfig \<Rightarrow> bool" where
  "oq_start c \<longleftrightarrow> c = \<lparr>cf_store = oq_init, cf_run = None\<rparr>"

lemma oq_inv_init: "oq_start c \<Longrightarrow> oq_inv c"
  by (simp add: oq_start_def oq_inv_def oq_init_def loadQueue_def getDeadLettered_def read_slot_def)

interpretation offline_machine: state_machine oq_start oq_step oq_inv
  by unfold_locales (fact oq_inv_init, fact oq_inv_step)

text \<open>Whatever calls interleave, no queued operation is ever attempted more often than its
  limit, and every operation in the dead-letter list has used exactly its limit.\<close>

theorem attempts_never_exceed_limit:
  assumes "reach oq_start oq_step c"
  shows "(\<forall>op \<in> set (loadQueue (cf_store c)). qo_attempts op \<le> qo_maxAttempts op) \<and>
         (\<forall>op \<in> set (getDeadLettered (cf_store c)). qo_attempts op = qo_maxAttempts op)"
  using offline_machine.inv_reachable [OF assms]
  by (auto simp: oq_inv_def list_all_iff within_attempts_def dead_ok_def)

lemma oq_reach_init: "reach oq_start oq_step \<lparr>cf_store = oq_init, cf_run = None\<rparr>"
  by (rule reach_init) (simp add: oq_start_def)

theorem attempts_never_exceed_limit_witness:
  "\<exists>op. loadQueue (cf_store (on_store (\<lambda>s. snd (enqueue ''a'' 1
      \<lparr>en_type = KycSubmit, en_payload = (), en_priority = None, en_maxAttempts = None, en_tenantId = ''1''\<rparr> s))
      \<lparr>cf_store = oq_init, cf_run = None\<rparr>)) = [op] \<and> qo_attempts op \<le> qo_maxAttempts op"
proof -
  let ?c = "on_store (\<lambda>s. snd (enqueue ''a'' 1
      \<lparr>en_type = KycSubmit, en_payload = (), en_priority = None, en_maxAttempts = None, en_tenantId = ''1''\<rparr> s))
      \<lparr>cf_store = oq_init, cf_run = None\<rparr>"
  have "\<exists>op. loadQueue (cf_store ?c) = [op]"
    by (simp add: on_store_def enqueue_def oq_init_def Let_def loadQueue_def saveQueue_def read_slot_def)
  then show ?thesis
    using attempts_never_exceed_limit [THEN conjunct1, OF reach_step [OF oq_reach_init enqueue_step], of "''a''" 1
      "\<lparr>en_type = KycSubmit, en_payload = (), en_priority = None, en_maxAttempts = None, en_tenantId = ''1''\<rparr>"] by fastforce
qed

section \<open>Runs of a drain\<close>

lemma drain_visit_run:
  "length todo = n \<Longrightarrow> drain_loop now exec todo (rem, r, s) = (rem', r', s') \<Longrightarrow>
   (drain_visit now exec ^^ n) \<lparr>cf_store = s, cf_run = Some (todo, rem, r)\<rparr> =
     \<lparr>cf_store = s', cf_run = Some ([], rem', r')\<rparr>"
proof (induction n arbitrary: todo rem r s)
  case (Suc n)
  then obtain op ops where todo: "todo = op # ops" by (cases todo) auto
  obtain rem1 r1 s1 where one: "drain_one now exec op (rem, r, s) = (rem1, r1, s1)"
    by (cases "drain_one now exec op (rem, r, s)")
  have "(drain_visit now exec ^^ n) \<lparr>cf_store = s1, cf_run = Some (ops, rem1, r1)\<rparr> =
      \<lparr>cf_store = s', cf_run = Some ([], rem', r')\<rparr>"
    using Suc one todo by (intro Suc.IH) auto
  moreover have "drain_visit now exec \<lparr>cf_store = s, cf_run = Some (todo, rem, r)\<rparr> =
      \<lparr>cf_store = s1, cf_run = Some (ops, rem1, r1)\<rparr>"
    using one todo by (simp add: drain_visit_def)
  ultimately show ?case by (simp add: funpow_Suc_right del: funpow.simps)
qed simp

text \<open>With no other call in between, the steps of a drain compose to the drain function: its
  begin, one visit per queued operation and its end leave the storage that \<open>drain\<close> leaves.\<close>

theorem drain_steps_refine_drain:
  assumes "\<not> st_draining s"
  shows "drain_end ((drain_visit now exec ^^ queueSize s) (drain_begin \<lparr>cf_store = s, cf_run = None\<rparr>)) =
    \<lparr>cf_store = snd (drain now exec s), cf_run = None\<rparr>"
proof -
  obtain rem r s2 where loop: "drain_loop now exec (sortByPriority (loadQueue s))
      ([], no_drain, s\<lparr>st_draining := True\<rparr>) = (rem, r, s2)"
    by (cases "drain_loop now exec (sortByPriority (loadQueue s)) ([], no_drain, s\<lparr>st_draining := True\<rparr>)")
  have "length (sortByPriority (loadQueue s)) = queueSize s"
    by (simp add: queueSize_def sortByPriority_def)
  from drain_visit_run [OF this loop] assms loop show ?thesis
    by (simp add: drain_begin_def drain_end_def drain_def Let_def)
qed

theorem drain_steps_refine_drain_witness:
  "drain_end ((drain_visit 0 (\<lambda>_. None) ^^ 0) (drain_begin \<lparr>cf_store = (oq_init :: unit oqState), cf_run = None\<rparr>)) =
    \<lparr>cf_store = snd (drain 0 (\<lambda>_. None) oq_init), cf_run = None\<rparr>"
  using drain_steps_refine_drain [of "oq_init :: unit oqState" 0 "\<lambda>_. None"]
  by (simp add: oq_init_def queueSize_def loadQueue_def read_slot_def)

text \<open>An operation that is enqueued while a drain is under way is lost: the drain's final save
  overwrites the queue with the operations it had loaded, so the new operation is in neither
  the queue nor the dead-letter list afterwards.\<close>

theorem enqueue_during_drain_is_lost:
  assumes "\<not> st_draining s"
    and fresh: "uuid \<notin> qo_id ` set (loadQueue s)" "uuid \<notin> qo_id ` set (getDeadLettered s)"
    and run: "c = drain_end ((drain_visit now exec ^^ queueSize s)
              (on_store (\<lambda>s. snd (enqueue uuid now' p s)) (drain_begin \<lparr>cf_store = s, cf_run = None\<rparr>)))"
  shows "uuid \<notin> qo_id ` (set (loadQueue (cf_store c)) \<union> set (getDeadLettered (cf_store c)))"
proof -
  let ?s1 = "snd (enqueue uuid now' p (s\<lparr>st_draining := True\<rparr>))"
  obtain rem r s2 where loop: "drain_loop now exec (sortByPriority (loadQueue s))
      ([], no_drain, ?s1) = (rem, r, s2)"
    by (cases "drain_loop now exec (sortByPriority (loadQueue s)) ([], no_drain, ?s1)")
  have len: "length (sortByPriority (loadQueue s)) = queueSize s"
    by (simp add: queueSize_def sortByPriority_def)
  have c: "c = \<lparr>cf_store = (saveQueue rem s2)\<lparr>st_draining := False\<rparr>, cf_run = None\<rparr>"
    using run assms(1) drain_visit_run [OF len loop]
    by (simp add: drain_begin_def drain_end_def on_store_def)
  have "qo_id ` set rem \<subseteq> qo_id ` set (loadQueue s)"
    using drain_loop_eq(1) [OF loop] by auto
  moreover have "getDeadLettered ?s1 = getDeadLettered s"
    by (simp add: enqueue_def Let_def)
  ultimately show ?thesis
    using c fresh drain_loop_eq(2) [OF loop] by auto
qed

theorem enqueue_during_drain_is_lost_witness:
  "\<exists>c. c = drain_end ((drain_visit 0 (\<lambda>_. None) ^^ queueSize (oq_init :: unit oqState)) (on_store (\<lambda>s. snd (enqueue ''new'' 1
      \<lparr>en_type = PaymentInitiate, en_payload = (), en_priority = None, en_maxAttempts = None, en_tenantId = ''1''\<rparr> s))
      (drain_begin \<lparr>cf_store = oq_init, cf_run = None\<rparr>))) \<and>
    ''new'' \<notin> qo_id ` (set (loadQueue (cf_store c)) \<union> set (getDeadLettered (cf_store c)))"
  by (intro exI conjI, rule refl, rule enqueue_during_drain_is_lost [OF _ _ _ refl])
    (simp_all add: oq_init_def loadQueue_def getDeadLettered_def read_slot_def)

text \<open>Retrying a dead-lettered operation moves it: when the identifier is present the
  operation is queued again with no attempts and five more allowed ones, and no operation with
  that identifier is left in the dead-letter list; otherwise nothing changes.\<close>

theorem retryDeadLettered_moves:
  "if i \<in> qo_id ` set (getDeadLettered s)
   then fst (retryDeadLettered i s) \<and>
        i \<notin> qo_id ` set (getDeadLettered (snd (retryDeadLettered i s))) \<and>
        (\<exists>op \<in> set (getDeadLettered s). qo_id op = i \<and>
           loadQueue (snd (retryDeadLettered i s)) = loadQueue s @
             [op\<lparr>qo_attempts := 0, qo_lastAttemptAt := None, qo_lastError := None,
                 qo_maxAttempts := qo_maxAttempts op + 5\<rparr>])
   else retryDeadLettered i s = (False, s)"
proof (cases "List.find (\<lambda>x. qo_id x = i) (getDeadLettered s)")
  case None
  then have "i \<notin> qo_id ` set (getDeadLettered s)" by (auto simp: find_None_iff)
  with None show ?thesis by (simp add: retryDeadLettered_def)
next
  case (Some op)
  then have "op \<in> set (getDeadLettered s)" "qo_id op = i"
    by (metis (mono_tags, lifting) find_Some_iff nth_mem)+
  with Some show ?thesis
    by (auto simp: retryDeadLettered_def Let_def DEFAULT_MAX_ATTEMPTS_def)
qed

end
