(* ===== verification/Payment_Schema.thy ===== *)
theory Payment_Schema
  imports Bis_Prelude
begin

text \<open>
  The tables of the payment side (\<open>drizzle/schema.ts\<close>, \<open>drizzle/0021\<close>, \<open>drizzle/0022\<close>) as
  records, the constraints an insert has to meet, and the database trigger that opens a
  reconciliation case when a transaction goes under review. Kobo and naira amounts are exact
  rationals; the \<open>amount\<close> column is a single-precision \<open>real\<close>, so every stored amount passes
  through the rounding function that the handlers take as a parameter.
\<close>

section \<open>Enumerations\<close>

datatype txType =
    Wire_transfer | Cash_deposit | Cash_withdrawal | Cheque | Rtgs | Nip | Swift_mt103 | Swift_mt202
  | Sepa_credit | Sepa_debit | Internal_transfer | Trade_settlement | Fx_conversion | Card_payment
  | Mobile_money

datatype txStatus = Pending | Completed | Failed | Reversed | Flagged | Blocked | Under_review

datatype riskLevel = RiskLow | RiskMedium | RiskHigh | RiskCritical

datatype amlAlertStatus = AOpen | AUnder_review | AEscalated | ACleared | AFiled | AFalse_positive

datatype amlRuleType =
    Threshold | Velocity | Structuring | Round_trip | Layering | High_risk_country
  | Pep_transaction | Sanctions_match | Unusual_pattern

datatype outboxStatus = Queued | Leased | Workflow_started | Dead_letter

datatype caseStatus =
    COpen | CUnder_review | Approved_retry | Confirmed_settled | Confirmed_not_settled
  | Compensation_required | Cancelled

datatype caseEvent =
    Case_opened | Case_claimed | Settlement_confirmed | Not_settled_confirmed | Retry_approved
  | Ev_compensation_required | Case_cancelled

datatype rail = RailMojaloop | RailNip

text \<open>The column \<open>type\<close> and \<open>category\<close> are PostgreSQL enums; other text is rejected.\<close>

definition transactionTypeEnum :: "string list" where
  "transactionTypeEnum =
     [''wire_transfer'', ''cash_deposit'', ''cash_withdrawal'', ''cheque'', ''rtgs'', ''nip'',
      ''swift_mt103'', ''swift_mt202'', ''sepa_credit'', ''sepa_debit'', ''internal_transfer'',
      ''trade_settlement'', ''fx_conversion'', ''card_payment'', ''mobile_money'']"

definition auditCategoryEnum :: "string list" where
  "auditCategoryEnum =
     [''investigation'', ''kyc'', ''alert'', ''report'', ''user'', ''system'', ''api'']"

definition auditResultEnum :: "string list" where
  "auditResultEnum = [''success'', ''warning'', ''failure'']"

section \<open>Text of the enumerations\<close>

fun txStatus_text :: "txStatus \<Rightarrow> string" where
  "txStatus_text Pending = ''pending''"
| "txStatus_text Completed = ''completed''"
| "txStatus_text Failed = ''failed''"
| "txStatus_text Reversed = ''reversed''"
| "txStatus_text Flagged = ''flagged''"
| "txStatus_text Blocked = ''blocked''"
| "txStatus_text Under_review = ''under_review''"

definition txStatusEnum :: "string list" where
  "txStatusEnum = map txStatus_text [Pending, Completed, Failed, Reversed, Flagged, Blocked, Under_review]"

fun riskLevel_text :: "riskLevel \<Rightarrow> string" where
  "riskLevel_text RiskLow = ''low''"
| "riskLevel_text RiskMedium = ''medium''"
| "riskLevel_text RiskHigh = ''high''"
| "riskLevel_text RiskCritical = ''critical''"

definition riskLevelEnum :: "string list" where
  "riskLevelEnum = map riskLevel_text [RiskLow, RiskMedium, RiskHigh, RiskCritical]"

fun amlAlertStatus_text :: "amlAlertStatus \<Rightarrow> string" where
  "amlAlertStatus_text AOpen = ''open''"
| "amlAlertStatus_text AUnder_review = ''under_review''"
| "amlAlertStatus_text AEscalated = ''escalated''"
| "amlAlertStatus_text ACleared = ''cleared''"
| "amlAlertStatus_text AFiled = ''filed''"
| "amlAlertStatus_text AFalse_positive = ''false_positive''"

definition amlAlertStatusEnum :: "string list" where
  "amlAlertStatusEnum =
     map amlAlertStatus_text [AOpen, AUnder_review, AEscalated, ACleared, AFiled, AFalse_positive]"

section \<open>Rows\<close>

record transaction =
  tx_id :: int
  tx_tenantId :: "int option"
  tx_txRef :: string
  tx_idempotencyKey :: "string option"
  tx_tigerBeetleId :: "string option"
  tx_type :: txType
  tx_status :: txStatus
  tx_amount :: rat
  tx_currency :: string
  tx_amountUsd :: "rat option"
  tx_originatorName :: string
  tx_originatorAccount :: "string option"
  tx_originatorBank :: "string option"
  tx_originatorCountry :: "string option"
  tx_beneficiaryName :: string
  tx_beneficiaryAccount :: "string option"
  tx_beneficiaryBank :: "string option"
  tx_beneficiaryCountry :: "string option"
  tx_purposeCode :: "string option"
  tx_narration :: "string option"
  tx_amlRiskLevel :: "riskLevel option"
  tx_amlScore :: "int option"
  tx_amlFlags :: "string list option"
  tx_flaggedAt :: "int option"
  tx_flaggedBy :: "int option"
  tx_investigationId :: "int option"
  tx_goamlFilingId :: "int option"
  tx_valueDate :: "int option"
  tx_archivedTier :: "string option"
  tx_archivedAt :: "int option"
  tx_createdAt :: int
  tx_deletedAt :: "int option"
  tx_deletedBy :: "int option"
  tx_updatedAt :: int

text \<open>A row with the schema's defaults and the columns an insert has to give.\<close>

definition new_transaction ::
    "int \<Rightarrow> int \<Rightarrow> string \<Rightarrow> txType \<Rightarrow> rat \<Rightarrow> string \<Rightarrow> string \<Rightarrow> transaction" where
  "new_transaction now i ref ty amt orig ben =
     \<lparr>tx_id = i, tx_tenantId = None, tx_txRef = ref, tx_idempotencyKey = None,
      tx_tigerBeetleId = None, tx_type = ty, tx_status = Pending, tx_amount = amt,
      tx_currency = ''NGN'', tx_amountUsd = None, tx_originatorName = orig,
      tx_originatorAccount = None, tx_originatorBank = None, tx_originatorCountry = Some ''NG'',
      tx_beneficiaryName = ben, tx_beneficiaryAccount = None, tx_beneficiaryBank = None,
      tx_beneficiaryCountry = Some ''NG'', tx_purposeCode = None, tx_narration = None,
      tx_amlRiskLevel = Some RiskLow, tx_amlScore = Some 0, tx_amlFlags = None,
      tx_flaggedAt = None, tx_flaggedBy = None, tx_investigationId = None,
      tx_goamlFilingId = None, tx_valueDate = None, tx_archivedTier = None, tx_archivedAt = None,
      tx_createdAt = now, tx_deletedAt = None, tx_deletedBy = None, tx_updatedAt = now\<rparr>"

record amlRule =
  ru_id :: int
  ru_name :: string
  ru_description :: "string option"
  ru_ruleType :: amlRuleType
  ru_threshold :: "rat option"
  ru_currency :: "string option"
  ru_windowHours :: "int option"
  ru_enabled :: bool
  ru_riskLevel :: riskLevel
  ru_createdBy :: "int option"
  ru_createdAt :: int
  ru_updatedAt :: int

record amlAlert =
  al_id :: int
  al_tenantId :: "int option"
  al_alertRef :: string
  al_transactionId :: "int option"
  al_ruleId :: "int option"
  al_status :: amlAlertStatus
  al_riskLevel :: riskLevel
  al_title :: string
  al_description :: "string option"
  al_triggeredValue :: "rat option"
  al_assignedTo :: "int option"
  al_reviewedBy :: "int option"
  al_reviewedAt :: "int option"
  al_reviewNotes :: "string option"
  al_investigationId :: "int option"
  al_createdAt :: int
  al_deletedAt :: "int option"
  al_deletedBy :: "int option"
  al_updatedAt :: int

record frozenAccount =
  fz_id :: int
  fz_accountId :: string
  fz_accountName :: "string option"
  fz_reason :: string
  fz_frozenBy :: "int option"
  fz_frozenByName :: "string option"
  fz_affectedTransactions :: int
  fz_frozenAt :: int
  fz_unfrozenAt :: "int option"
  fz_unfrozenBy :: "int option"
  fz_unfrozenByName :: "string option"
  fz_notes :: "string option"

record auditEntry =
  au_id :: int
  au_userId :: "int option"
  au_category :: string
  au_action :: string
  au_targetRef :: "string option"
  au_result :: string
  au_detail :: "(string \<times> string) list"
  au_createdAt :: int

record exportSchedule =
  xs_id :: int
  xs_userId :: int
  xs_name :: string
  xs_exportType :: string
  xs_format :: string
  xs_filters :: "(string \<times> string) list"
  xs_cronExpression :: string
  xs_enabled :: bool
  xs_createdAt :: int
  xs_updatedAt :: int

record velocityBlock =
  vb_id :: int
  vb_accountId :: string
  vb_tenantId :: "string option"
  vb_txRef :: "string option"
  vb_amountKobo :: int
  vb_windowCount :: int
  vb_windowSeconds :: int
  vb_threshold :: int
  vb_decision :: string
  vb_reason :: "string option"
  vb_createdAt :: int

record outboxRow =
  ob_id :: int
  ob_transaction_id :: int
  ob_tenant_id :: int
  ob_idempotency_key :: string
  ob_rail :: rail
  ob_status :: outboxStatus
  ob_attempts :: nat
  ob_next_attempt_at :: int
  ob_leased_at :: "int option"
  ob_lease_owner :: "string option"
  ob_workflow_id :: "string option"
  ob_workflow_run_id :: "string option"
  ob_last_error_code :: "string option"

text \<open>
  The identifier of a reconciliation case is \<open>format('00000000-0000-5000-8000-%012s', to_hex(id))\<close>
  of its transaction's id, hence determined by it: the model keys cases by that id.
\<close>

record reconCase =
  rc_transaction_id :: int
  rc_outbox_id :: int
  rc_tenant_id :: int
  rc_status :: caseStatus
  rc_last_error_code :: string
  rc_opened_at :: int
  rc_claimed_by :: "int option"
  rc_claimed_at :: "int option"
  rc_resolved_by :: "int option"
  rc_resolved_at :: "int option"
  rc_resolution_rationale :: "string option"
  rc_ledger_evidence_ref :: "string option"
  rc_ledger_evidence_sha256 :: "string option"
  rc_provider_evidence_ref :: "string option"
  rc_provider_evidence_sha256 :: "string option"
  rc_closed_at :: "int option"

record reconEvent =
  ev_case :: int
  ev_tenant_id :: int
  ev_type :: caseEvent
  ev_actor :: "int option"
  ev_from :: "caseStatus option"
  ev_to :: caseStatus
  ev_reason_code :: string
  ev_ledger_sha256 :: "string option"
  ev_provider_sha256 :: "string option"

text \<open>Messages handed to the pub/sub layer (fire and forget).\<close>

datatype pubEvent =
    PubAmlAlert string int string
  | PubPayment string string rat string
  | FluvioPayment string string string rat
  | CancelSignal string

record paydb =
  d_tx :: "transaction tbl"
  d_alerts :: "amlAlert tbl"
  d_rules :: "amlRule tbl"
  d_frozen :: "frozenAccount tbl"
  d_audit :: "auditEntry tbl"
  d_schedules :: "exportSchedule tbl"
  d_velocity :: "velocityBlock tbl"
  d_outbox :: "outboxRow tbl"
  d_cases :: "reconCase list"
  d_events :: "reconEvent list"
  d_published :: "pubEvent list"

definition empty_paydb :: paydb where
  "empty_paydb = \<lparr>d_tx = empty_tbl, d_alerts = empty_tbl, d_rules = empty_tbl,
     d_frozen = empty_tbl, d_audit = empty_tbl, d_schedules = empty_tbl, d_velocity = empty_tbl,
     d_outbox = empty_tbl, d_cases = [], d_events = [], d_published = []\<rparr>"

section \<open>Writes to the transactions table\<close>

definition fits :: "nat \<Rightarrow> string option \<Rightarrow> bool" where
  "fits n s = (case s of None \<Rightarrow> True | Some x \<Rightarrow> length x \<le> n)"

text \<open>Column widths and the two UNIQUE constraints.\<close>

definition tx_columns_ok :: "transaction \<Rightarrow> bool" where
  "tx_columns_ok t \<longleftrightarrow>
     length (tx_txRef t) \<le> 64 \<and> fits 256 (tx_idempotencyKey t) \<and> fits 32 (tx_tigerBeetleId t) \<and>
     length (tx_currency t) \<le> 3 \<and> length (tx_originatorName t) \<le> 255 \<and>
     fits 64 (tx_originatorAccount t) \<and> fits 128 (tx_originatorBank t) \<and>
     fits 2 (tx_originatorCountry t) \<and> length (tx_beneficiaryName t) \<le> 255 \<and>
     fits 64 (tx_beneficiaryAccount t) \<and> fits 128 (tx_beneficiaryBank t) \<and>
     fits 2 (tx_beneficiaryCountry t) \<and> fits 16 (tx_purposeCode t)"

definition tx_unique_ok :: "transaction \<Rightarrow> transaction list \<Rightarrow> bool" where
  "tx_unique_ok t ts \<longleftrightarrow>
     (\<forall>x \<in> set ts. tx_txRef x \<noteq> tx_txRef t) \<and>
     (tx_idempotencyKey t = None \<or> (\<forall>x \<in> set ts. tx_idempotencyKey x \<noteq> tx_idempotencyKey t))"

definition insert_tx :: "(int \<Rightarrow> transaction) \<Rightarrow> paydb \<Rightarrow> (transaction \<times> paydb) option" where
  "insert_tx mk s =
     (let t = mk (seq (d_tx s)) in
      if tx_columns_ok t \<and> tx_unique_ok t (rows (d_tx s))
      then Some (t, s\<lparr>d_tx := tinsert mk (d_tx s)\<rparr>) else None)"

text \<open>The trigger \<open>payment_reconciliation_case_auto_open\<close>, after an update of \<open>status\<close>.\<close>

definition create_payment_reconciliation_case_on_under_review ::
    "int \<Rightarrow> transaction \<Rightarrow> transaction \<Rightarrow> paydb \<Rightarrow> paydb" where
  "create_payment_reconciliation_case_on_under_review now old new s =
     (if tx_status new \<noteq> Under_review \<or> tx_status old = Under_review then s
      else case tx_tenantId new of None \<Rightarrow> s
      | Some tid \<Rightarrow>
         (case tfind (\<lambda>b. ob_transaction_id b = tx_id new \<and> ob_tenant_id b = tid) (d_outbox s) of
            None \<Rightarrow> s
          | Some b \<Rightarrow>
              if \<exists>c \<in> set (d_cases s). rc_transaction_id c = tx_id new then s
              else (let code = (case ob_last_error_code b of None \<Rightarrow> ''UNDER_REVIEW'' | Some x \<Rightarrow> x) in
                s\<lparr>d_cases := d_cases s @ [\<lparr>rc_transaction_id = tx_id new, rc_outbox_id = ob_id b,
                     rc_tenant_id = tid, rc_status = COpen, rc_last_error_code = code,
                     rc_opened_at = now, rc_claimed_by = None, rc_claimed_at = None,
                     rc_resolved_by = None, rc_resolved_at = None, rc_resolution_rationale = None,
                     rc_ledger_evidence_ref = None, rc_ledger_evidence_sha256 = None,
                     rc_provider_evidence_ref = None, rc_provider_evidence_sha256 = None,
                     rc_closed_at = None\<rparr>],
                  d_events := d_events s @ [\<lparr>ev_case = tx_id new, ev_tenant_id = tid,
                     ev_type = Case_opened, ev_actor = None, ev_from = None, ev_to = COpen,
                     ev_reason_code = code, ev_ledger_sha256 = None, ev_provider_sha256 = None\<rparr>]\<rparr>)))"

text \<open>\<open>UPDATE transactions SET \<dots> WHERE P\<close>; the trigger fires for every updated row.\<close>

definition update_tx :: "int \<Rightarrow> (transaction \<Rightarrow> bool) \<Rightarrow> (transaction \<Rightarrow> transaction) \<Rightarrow> paydb \<Rightarrow> paydb" where
  "update_tx now P f s =
     fold (\<lambda>r. create_payment_reconciliation_case_on_under_review now r (f r))
       (tselect P (d_tx s)) (s\<lparr>d_tx := tupdate P f (d_tx s)\<rparr>)"

text \<open>\<open>tenantCondition\<close> and its inline form: no condition for a platform administrator.\<close>

definition tenantCondition :: "int option \<Rightarrow> int option \<Rightarrow> bool" where
  "tenantCondition tid rowTenant \<longleftrightarrow> tid = None \<or> rowTenant = tid"

section \<open>Lemmas on the writes\<close>

lemma trigger_frame [simp]:
  "d_tx (create_payment_reconciliation_case_on_under_review now r r' s) = d_tx s"
  "d_outbox (create_payment_reconciliation_case_on_under_review now r r' s) = d_outbox s"
  "d_alerts (create_payment_reconciliation_case_on_under_review now r r' s) = d_alerts s"
  "d_rules (create_payment_reconciliation_case_on_under_review now r r' s) = d_rules s"
  "d_frozen (create_payment_reconciliation_case_on_under_review now r r' s) = d_frozen s"
  "d_audit (create_payment_reconciliation_case_on_under_review now r r' s) = d_audit s"
  "d_velocity (create_payment_reconciliation_case_on_under_review now r r' s) = d_velocity s"
  "d_published (create_payment_reconciliation_case_on_under_review now r r' s) = d_published s"
  by (auto simp: create_payment_reconciliation_case_on_under_review_def Let_def split: option.splits)

lemma trigger_fold_frame:
  "d_tx (fold (\<lambda>r. create_payment_reconciliation_case_on_under_review now r (f r)) rs s) = d_tx s \<and>
   d_outbox (fold (\<lambda>r. create_payment_reconciliation_case_on_under_review now r (f r)) rs s) = d_outbox s \<and>
   d_alerts (fold (\<lambda>r. create_payment_reconciliation_case_on_under_review now r (f r)) rs s) = d_alerts s \<and>
   d_rules (fold (\<lambda>r. create_payment_reconciliation_case_on_under_review now r (f r)) rs s) = d_rules s \<and>
   d_frozen (fold (\<lambda>r. create_payment_reconciliation_case_on_under_review now r (f r)) rs s) = d_frozen s \<and>
   d_audit (fold (\<lambda>r. create_payment_reconciliation_case_on_under_review now r (f r)) rs s) = d_audit s \<and>
   d_velocity (fold (\<lambda>r. create_payment_reconciliation_case_on_under_review now r (f r)) rs s) = d_velocity s \<and>
   d_published (fold (\<lambda>r. create_payment_reconciliation_case_on_under_review now r (f r)) rs s) = d_published s"
  by (induction rs arbitrary: s) auto

lemma update_tx_frame [simp]:
  "d_tx (update_tx now P f s) = tupdate P f (d_tx s)"
  "d_outbox (update_tx now P f s) = d_outbox s"
  "d_alerts (update_tx now P f s) = d_alerts s"
  "d_rules (update_tx now P f s) = d_rules s"
  "d_frozen (update_tx now P f s) = d_frozen s"
  "d_audit (update_tx now P f s) = d_audit s"
  "d_velocity (update_tx now P f s) = d_velocity s"
  "d_published (update_tx now P f s) = d_published s"
  using trigger_fold_frame [of now f "tselect P (d_tx s)" "s\<lparr>d_tx := tupdate P f (d_tx s)\<rparr>"]
  by (simp_all add: update_tx_def)

text \<open>Only an update to \<open>under_review\<close> can open a case.\<close>

lemma update_tx_no_case:
  assumes "\<And>r. P r \<Longrightarrow> tx_status (f r) \<noteq> Under_review"
  shows "update_tx now P f s = s\<lparr>d_tx := tupdate P f (d_tx s)\<rparr>"
proof -
  have "fold (\<lambda>r. create_payment_reconciliation_case_on_under_review now r (f r)) rs s' = s'"
    if "\<forall>r \<in> set rs. P r" for rs s'
    using that assms
    by (induction rs arbitrary: s') (auto simp: create_payment_reconciliation_case_on_under_review_def)
  then show ?thesis by (simp add: update_tx_def tselect_def)
qed

definition cases_unique :: "paydb \<Rightarrow> bool" where
  "cases_unique s \<longleftrightarrow> distinct (map rc_transaction_id (d_cases s))"

lemma trigger_cases_unique:
  "cases_unique s \<Longrightarrow> cases_unique (create_payment_reconciliation_case_on_under_review now r r' s)"
  by (auto simp: cases_unique_def create_payment_reconciliation_case_on_under_review_def Let_def
      split: option.splits)

lemma update_tx_cases_unique: "cases_unique s \<Longrightarrow> cases_unique (update_tx now P f s)"
proof -
  assume "cases_unique s"
  then have "cases_unique (s\<lparr>d_tx := t\<rparr>)" for t by (simp add: cases_unique_def)
  moreover have "cases_unique s' \<Longrightarrow>
      cases_unique (fold (\<lambda>r. create_payment_reconciliation_case_on_under_review now r (f r)) rs s')" for rs s'
    by (induction rs arbitrary: s') (auto intro: trigger_cases_unique)
  ultimately show ?thesis by (simp add: update_tx_def)
qed

text \<open>The UNIQUE constraints and serial ids of the transactions table.\<close>

definition tx_table_ok :: "transaction tbl \<Rightarrow> bool" where
  "tx_table_ok t \<longleftrightarrow> serial_ok tx_id t \<and> distinct (map tx_txRef (rows t)) \<and>
     distinct (map tx_idempotencyKey (filter (\<lambda>x. tx_idempotencyKey x \<noteq> None) (rows t)))"

lemma insert_tx_SomeD:
  assumes "insert_tx mk s = Some (t, s')"
  shows "t = mk (seq (d_tx s))" "s' = s\<lparr>d_tx := tinsert mk (d_tx s)\<rparr>" "tx_columns_ok t"
    "tx_unique_ok t (rows (d_tx s))"
  using assms by (auto simp: insert_tx_def Let_def split: if_splits)

lemma insert_tx_table_ok:
  assumes "insert_tx mk s = Some (t, s')" and "tx_table_ok (d_tx s)" and "\<And>i. tx_id (mk i) = i"
  shows "tx_table_ok (d_tx s')"
  using insert_tx_SomeD [OF assms(1)] assms(2,3)
  by (auto simp: tx_table_ok_def tx_unique_ok_def intro!: serial_ok_tinsert)

lemma filter_key_update:
  "(\<And>r. key (f r) = key r) \<Longrightarrow>
   map key (filter (\<lambda>x. key x \<noteq> None) (map (\<lambda>r. if P r then f r else r) xs)) = map key (filter (\<lambda>x. key x \<noteq> None) xs)"
  by (induction xs) auto

lemma tupdate_table_ok:
  assumes "tx_table_ok t" and "\<And>r. tx_id (f r) = tx_id r" and "\<And>r. tx_txRef (f r) = tx_txRef r"
    and "\<And>r. tx_idempotencyKey (f r) = tx_idempotencyKey r"
  shows "tx_table_ok (tupdate P f t)"
proof -
  have "serial_ok tx_id (tupdate P f t)"
    using assms(1,2) by (simp add: tx_table_ok_def serial_ok_tupdate)
  moreover have "map tx_txRef (rows (tupdate P f t)) = map tx_txRef (rows t)"
    by (simp only: rows_tupdate List.map.compositionality map_key_update assms(3))
  moreover have "map tx_idempotencyKey (filter (\<lambda>x. tx_idempotencyKey x \<noteq> None) (rows (tupdate P f t))) =
      map tx_idempotencyKey (filter (\<lambda>x. tx_idempotencyKey x \<noteq> None) (rows t))"
    by (simp only: rows_tupdate filter_key_update assms(4))
  ultimately show ?thesis using assms(1) by (simp only: tx_table_ok_def)
qed

lemma tx_table_ok_ref_unique:
  assumes "tx_table_ok t" "r \<in> set (rows t)" "r' \<in> set (rows t)" "tx_txRef r = tx_txRef r'"
  shows "r = r'"
  using assms by (auto simp: tx_table_ok_def distinct_map inj_on_def)

lemma tx_table_ok_id_unique:
  assumes "tx_table_ok t" "r \<in> set (rows t)" "r' \<in> set (rows t)" "tx_id r = tx_id r'"
  shows "r = r'"
  using assms by (auto simp: tx_table_ok_def dest: serial_ok_unique)

lemma empty_tables [simp]: "d_tx empty_paydb = empty_tbl" "d_alerts empty_paydb = empty_tbl"
    "d_outbox empty_paydb = empty_tbl" "d_frozen empty_paydb = empty_tbl" "d_audit empty_paydb = empty_tbl"
    "d_velocity empty_paydb = empty_tbl" "d_schedules empty_paydb = empty_tbl" "d_published empty_paydb = []" "d_cases empty_paydb = []" "d_events empty_paydb = []"
    "rows empty_tbl = []" "seq empty_tbl = 1"
  by (simp_all add: empty_paydb_def empty_tbl_def)

lemma tx_table_ok_empty [simp]: "tx_table_ok empty_tbl"
  by (simp add: tx_table_ok_def)

end
