(* ===== verification/Transactions.thy ===== *)
theory Transactions
  imports Payment_Schema State_Machine
begin

text \<open>
  \<open>server/transactions.ts\<close>: the rule-based score of a transaction, its creation with
  deduplication by idempotency key, the administrative status changes, the AML alerts and the
  rules table. Handlers take the environment, the request context and the validated input.
\<close>

section \<open>Scoring\<close>

definition HIGH_RISK_COUNTRIES :: "string list" where
  "HIGH_RISK_COUNTRIES =
     [''AF'', ''BY'', ''CF'', ''CG'', ''CU'', ''ER'', ''IR'', ''KP'', ''LY'', ''ML'', ''MM'', ''NI'', ''RU'',
      ''SO'', ''SS'', ''SY'', ''VE'', ''YE'', ''ZW'']"

fun CTR_THRESHOLDS :: "string \<Rightarrow> rat option" where
  "CTR_THRESHOLDS c =
     (if c = ''NGN'' then Some 5000000 else if c = ''USD'' then Some 10000
      else if c = ''EUR'' then Some 10000 else if c = ''GBP'' then Some 10000
      else if c = ''GHS'' then Some 50000 else if c = ''KES'' then Some 1000000
      else if c = ''ZAR'' then Some 100000 else None)"

declare CTR_THRESHOLDS.simps [simp del]

definition suspiciousKw :: "string list" where
  "suspiciousKw = [''shell'', ''offshore'', ''nominee'', ''crypto'', ''hawala'', ''bearer'']"

record scoreInput =
  si_amount :: rat
  si_currency :: string
  si_originatorCountry :: string
  si_beneficiaryCountry :: string
  si_narration :: "string option"

definition is_multiple :: "rat \<Rightarrow> rat \<Rightarrow> bool" where
  "is_multiple x m \<longleftrightarrow> rat_of_int \<lfloor>x / m\<rfloor> * m = x"

definition riskLevel_of :: "int \<Rightarrow> riskLevel" where
  "riskLevel_of score =
     (if score < 25 then RiskLow else if score < 50 then RiskMedium
      else if score < 75 then RiskHigh else RiskCritical)"

text \<open>
  \<open>threshold * 0.95\<close> is computed in doubles in the source; for every threshold of the table and
  the default it is the exact product.
\<close>

definition quickScore :: "scoreInput \<Rightarrow> int \<times> string list \<times> riskLevel" where
  "quickScore d =
     (let s0 = (0::int); f0 = [];
          (s1, f1) = (if si_originatorCountry d \<in> set HIGH_RISK_COUNTRIES
                      then (s0 + 35, f0 @ [''high_risk_originator_country'']) else (s0, f0));
          (s2, f2) = (if si_beneficiaryCountry d \<in> set HIGH_RISK_COUNTRIES
                      then (s1 + 35, f1 @ [''high_risk_beneficiary_country'']) else (s1, f1));
          threshold = (case CTR_THRESHOLDS (si_currency d) of None \<Rightarrow> 10000 | Some t \<Rightarrow> t);
          lower = threshold * (95 / 100);
          (s3, f3) = (if si_amount d \<ge> lower \<and> si_amount d < threshold
                      then (s2 + 45, f2 @ [''potential_structuring'']) else (s2, f2));
          (s4, f4) = (if si_amount d \<ge> 100000 \<and> is_multiple (si_amount d) 10000
                      then (s3 + 10, f3 @ [''round_number'']) else (s3, f3));
          narration = toLowerCase (case si_narration d of None \<Rightarrow> [] | Some n \<Rightarrow> n);
          (s5, f5) = (if list_ex (\<lambda>kw. str_includes narration kw) suspiciousKw
                      then (s4 + 30, f4 @ [''suspicious_narration'']) else (s4, f4));
          score = min s5 100
      in (score, f5, riskLevel_of score))"

section \<open>Creating a transaction\<close>

record createInput =
  ci_txType :: txType
  ci_amount :: rat
  ci_currency :: string
  ci_originatorName :: string
  ci_originatorAccount :: "string option"
  ci_originatorBank :: "string option"
  ci_originatorCountry :: string
  ci_beneficiaryName :: string
  ci_beneficiaryAccount :: "string option"
  ci_beneficiaryBank :: "string option"
  ci_beneficiaryCountry :: string
  ci_narration :: "string option"
  ci_purposeCode :: "string option"
  ci_valueDate :: "string option"
  ci_idempotencyKey :: "string option"

definition create_types :: "txType list" where
  "create_types = [Cash_deposit, Cash_withdrawal, Wire_transfer, Swift_mt103, Swift_mt202,
     Sepa_credit, Sepa_debit, Internal_transfer, Fx_conversion, Mobile_money, Rtgs, Nip, Cheque]"

definition create_input_ok :: "createInput \<Rightarrow> bool" where
  "create_input_ok i \<longleftrightarrow> ci_txType i \<in> set create_types \<and> ci_amount i > 0 \<and> length (ci_currency i) = 3 \<and>
     ci_originatorName i \<noteq> [] \<and> length (ci_originatorCountry i) = 2 \<and> ci_beneficiaryName i \<noteq> [] \<and>
     length (ci_beneficiaryCountry i) = 2 \<and>
     (case ci_idempotencyKey i of None \<Rightarrow> True | Some k \<Rightarrow> 8 \<le> length k \<and> length k \<le> 256)"

definition find_by_key :: "int option \<Rightarrow> string \<Rightarrow> paydb \<Rightarrow> transaction option" where
  "find_by_key tid k s =
     tfind (\<lambda>t. tx_idempotencyKey t = Some k \<and> tenantCondition tid (tx_tenantId t)) (d_tx s)"

definition join_with :: "string \<Rightarrow> string list \<Rightarrow> string" where
  "join_with sep xs = (case xs of [] \<Rightarrow> [] | y # ys \<Rightarrow> y @ concat (map (\<lambda>z. sep @ z) ys))"

definition score_of :: "createInput \<Rightarrow> int \<times> string list \<times> riskLevel" where
  "score_of i = quickScore \<lparr>si_amount = ci_amount i, si_currency = ci_currency i,
     si_originatorCountry = ci_originatorCountry i, si_beneficiaryCountry = ci_beneficiaryCountry i,
     si_narration = ci_narration i\<rparr>"

text \<open>\<open>vd\<close> is the value date, already parsed.\<close>

definition created_row ::
    "(rat \<Rightarrow> rat) \<Rightarrow> int \<Rightarrow> int option \<Rightarrow> int \<Rightarrow> string \<Rightarrow> int \<Rightarrow> createInput \<Rightarrow> int \<Rightarrow> transaction" where
  "created_row real32 now tid uid ref vd i n =
     (case score_of i of (score, flags, lvl) \<Rightarrow>
       (new_transaction now n ref (ci_txType i) (real32 (ci_amount i)) (ci_originatorName i) (ci_beneficiaryName i))
         \<lparr>tx_tenantId := tid, tx_idempotencyKey := ci_idempotencyKey i, tx_currency := ci_currency i,
          tx_originatorAccount := ci_originatorAccount i, tx_originatorBank := ci_originatorBank i,
          tx_originatorCountry := Some (ci_originatorCountry i),
          tx_beneficiaryAccount := ci_beneficiaryAccount i, tx_beneficiaryBank := ci_beneficiaryBank i,
          tx_beneficiaryCountry := Some (ci_beneficiaryCountry i), tx_narration := ci_narration i,
          tx_purposeCode := ci_purposeCode i,
          tx_valueDate := Some vd,
          tx_amlRiskLevel := Some lvl, tx_amlScore := Some score, tx_amlFlags := Some flags,
          tx_flaggedAt := (if score \<ge> 50 then Some now else None),
          tx_flaggedBy := (if score \<ge> 50 then Some uid else None),
          tx_status := (if score \<ge> 100 then Blocked else Pending)\<rparr>)"

definition insert_alert :: "(int \<Rightarrow> amlAlert) \<Rightarrow> paydb \<Rightarrow> paydb option" where
  "insert_alert mk s =
     (let a = mk (seq (d_alerts s)) in
      if length (al_alertRef a) \<le> 32 \<and> length (al_title a) \<le> 255 \<and>
         (\<forall>x \<in> set (rows (d_alerts s)). al_alertRef x \<noteq> al_alertRef a)
      then Some (s\<lparr>d_alerts := tinsert mk (d_alerts s)\<rparr>) else None)"

definition high_risk_alert :: "(rat \<Rightarrow> rat) \<Rightarrow> int \<Rightarrow> int option \<Rightarrow> string \<Rightarrow> transaction \<Rightarrow> createInput \<Rightarrow> int \<Rightarrow> amlAlert" where
  "high_risk_alert real32 now tid aref t i n =
     (case score_of i of (score, flags, lvl) \<Rightarrow>
       \<lparr>al_id = n, al_tenantId = tid, al_alertRef = aref, al_transactionId = Some (tx_id t),
        al_ruleId = None, al_status = AOpen, al_riskLevel = lvl,
        al_title = ''High-risk transaction: '' @ tx_txRef t,
        al_description = Some (''Transaction scored '' @ show_int score @ ''/100. Flags: '' @ join_with '', '' flags),
        al_triggeredValue = Some (real32 (ci_amount i)), al_assignedTo = None, al_reviewedBy = None,
        al_reviewedAt = None, al_reviewNotes = None, al_investigationId = None, al_createdAt = now,
        al_deletedAt = None, al_deletedBy = None, al_updatedAt = now\<rparr>)"

text \<open>
  \<open>new Date(x)\<close> of a non-empty text, by the runtime's date parser \<open>parseDate\<close>: an invalid date
  makes the statement that uses it throw. An absent or empty text is the current time.
\<close>

definition date_or_now :: "(string \<Rightarrow> int option) \<Rightarrow> int \<Rightarrow> string option \<Rightarrow> int option" where
  "date_or_now parseDate now d = (case d of None \<Rightarrow> Some now | Some x \<Rightarrow> if x = [] then Some now else parseDate x)"

text \<open>The insert of the new row; \<open>None\<close> when it throws.\<close>

definition insert_created ::
    "(rat \<Rightarrow> rat) \<Rightarrow> (string \<Rightarrow> int option) \<Rightarrow> env \<Rightarrow> ctx \<Rightarrow> int \<Rightarrow> string \<Rightarrow> createInput \<Rightarrow> paydb \<Rightarrow> (transaction \<times> paydb) option" where
  "insert_created real32 parseDate e c uid ref i s =
     (case date_or_now parseDate (e_now e) (ci_valueDate i) of None \<Rightarrow> None
      | Some vd \<Rightarrow> insert_tx (created_row real32 (e_now e) (c_tenantId c) uid ref vd i) s)"

text \<open>
  \<open>ref\<close> and \<open>aref\<close> are the generated transaction and alert references; \<open>others\<close> is what other
  requests commit between the lookup of the idempotency key and the insert.
\<close>

definition createTransaction ::
    "(rat \<Rightarrow> rat) \<Rightarrow> (string \<Rightarrow> int option) \<Rightarrow> (paydb \<Rightarrow> paydb) \<Rightarrow> string \<Rightarrow> string \<Rightarrow> env \<Rightarrow> ctx \<Rightarrow>
     createInput \<Rightarrow> (paydb, transaction) act" where
  "createTransaction real32 parseDate others ref aref e c i =
     writeProcedure e c (\<lambda>u. zod (create_input_ok i) (requireDb e (\<lambda>s.
       case (case ci_idempotencyKey i of None \<Rightarrow> None | Some k \<Rightarrow> find_by_key (c_tenantId c) k s) of
         Some existing \<Rightarrow> (Inr existing, s)
       | None \<Rightarrow>
          (let s0 = others s in
           case insert_created real32 parseDate e c (u_id u) ref i s0 of
             None \<Rightarrow>
               (case ci_idempotencyKey i of
                  None \<Rightarrow> (Inl DbError, s0)
                | Some k \<Rightarrow>
                   (case find_by_key (c_tenantId c) k s0 of
                      Some existing \<Rightarrow> (Inr existing, s0)
                    | None \<Rightarrow> (Inl (TRPCError CONFLICT ''Idempotency key is unavailable''), s0)))
           | Some (tx, s1) \<Rightarrow>
               if fst (score_of i) \<ge> 50
               then (case insert_alert (high_risk_alert real32 (e_now e) (c_tenantId c) aref tx i) s1 of
                       None \<Rightarrow> (Inl DbError, s1)
                     | Some s2 \<Rightarrow> (Inr tx, s2))
               else (Inr tx, s1)))))"

section \<open>Reading and changing transactions\<close>

definition getTransaction :: "env \<Rightarrow> ctx \<Rightarrow> int \<Rightarrow> (paydb, transaction) act" where
  "getTransaction e c i =
     protectedProcedure e c (\<lambda>u. requireDb e (\<lambda>s.
       case tfind (\<lambda>t. tx_id t = i \<and> tenantCondition (c_tenantId c) (tx_tenantId t)) (d_tx s) of
         None \<Rightarrow> (Inl (TRPCError NOT_FOUND ''Transaction not found''), s)
       | Some row \<Rightarrow> (Inr row, s)))"

record updateInput =
  ui_id :: int
  ui_status :: "txStatus option"
  ui_narration :: "string option"

definition update_statuses :: "txStatus list" where
  "update_statuses = [Pending, Failed, Flagged, Blocked, Under_review]"

definition apply_update :: "int \<Rightarrow> updateInput \<Rightarrow> transaction \<Rightarrow> transaction" where
  "apply_update now i t =
     t\<lparr>tx_status := (case ui_status i of None \<Rightarrow> tx_status t | Some st \<Rightarrow> st),
       tx_narration := (case ui_narration i of None \<Rightarrow> tx_narration t | Some n \<Rightarrow> Some n),
       tx_updatedAt := now\<rparr>"

definition updateTransaction :: "env \<Rightarrow> ctx \<Rightarrow> updateInput \<Rightarrow> (paydb, transaction) act" where
  "updateTransaction e c i =
     adminProcedure e c (\<lambda>u.
       zod (case ui_status i of None \<Rightarrow> True | Some st \<Rightarrow> st \<in> set update_statuses) (requireDb e (\<lambda>s.
       let mine = (\<lambda>t. tx_id t = ui_id i \<and> tenantCondition (c_tenantId c) (tx_tenantId t)) in
       case tfind mine (d_tx s) of
         None \<Rightarrow> (Inl (TRPCError NOT_FOUND ''Transaction not found''), s)
       | Some existing \<Rightarrow>
          if tx_status existing = Completed \<or> tx_status existing = Reversed
          then (Inl (TRPCError CONFLICT ''Settled transactions must use the authoritative reversal workflow''), s)
          else (let s1 = update_tx (e_now e) mine (apply_update (e_now e) i) s in
                case tfind mine (d_tx s1) of
                  None \<Rightarrow> (Inl (TRPCError NOT_FOUND ''Transaction not found''), s1)
                | Some tx \<Rightarrow> (Inr tx, s1)))))"

definition mark_flagged :: "int \<Rightarrow> int \<Rightarrow> string \<Rightarrow> transaction \<Rightarrow> transaction" where
  "mark_flagged now uid reason t =
     t\<lparr>tx_status := Under_review, tx_flaggedAt := Some now, tx_flaggedBy := Some uid,
       tx_narration := Some reason, tx_updatedAt := now\<rparr>"

text \<open>The handler returns the first updated row, or nothing when none matched.\<close>

definition flagTransaction :: "env \<Rightarrow> ctx \<Rightarrow> int \<Rightarrow> string \<Rightarrow> (paydb, transaction option) act" where
  "flagTransaction e c i reason =
     adminProcedure e c (\<lambda>u. zod (5 \<le> length reason) (requireDb e (\<lambda>s.
       let mine = (\<lambda>t. tx_id t = i \<and> tenantCondition (c_tenantId c) (tx_tenantId t));
           s1 = update_tx (e_now e) mine (mark_flagged (e_now e) (u_id u) reason) s
       in (Inr (tfind mine (d_tx s1)), s1))))"

section \<open>Listing\<close>

record listInput =
  li_limit :: int
  li_offset :: int
  li_status :: "string option"
  li_riskLevel :: "string option"
  li_currency :: "string option"
  li_search :: "string option"
  li_minAmount :: "rat option"
  li_maxAmount :: "rat option"
  li_fromDate :: "string option"
  li_toDate :: "string option"

text \<open>An optional filter is applied when the text is present and non-empty.\<close>

definition given :: "string option \<Rightarrow> (string \<Rightarrow> bool) \<Rightarrow> bool" where
  "given x P = (case x of None \<Rightarrow> True | Some v \<Rightarrow> v = [] \<or> P v)"

definition at_least :: "int option \<Rightarrow> int option \<Rightarrow> bool" where
  "at_least v d = (case (v, d) of (Some a, Some b) \<Rightarrow> b \<le> a | _ \<Rightarrow> False)"

definition at_most :: "int option \<Rightarrow> int option \<Rightarrow> bool" where
  "at_most v d = (case (v, d) of (Some a, Some b) \<Rightarrow> a \<le> b | _ \<Rightarrow> False)"

definition search_pattern :: "string \<Rightarrow> string" where
  "search_pattern q = ''%'' @ q @ ''%''"

definition list_matches :: "(string \<Rightarrow> int option) \<Rightarrow> int option \<Rightarrow> listInput \<Rightarrow> transaction \<Rightarrow> bool" where
  "list_matches parseDate tid i t \<longleftrightarrow>
     given (li_status i) (\<lambda>v. txStatus_text (tx_status t) = v) \<and>
     given (li_riskLevel i) (\<lambda>v. map_option riskLevel_text (tx_amlRiskLevel t) = Some v) \<and>
     given (li_currency i) (\<lambda>v. tx_currency t = v) \<and>
     (case li_minAmount i of None \<Rightarrow> True | Some m \<Rightarrow> m \<le> tx_amount t) \<and>
     (case li_maxAmount i of None \<Rightarrow> True | Some m \<Rightarrow> tx_amount t \<le> m) \<and>
     given (li_fromDate i) (\<lambda>v. at_least (tx_valueDate t) (parseDate v)) \<and>
     given (li_toDate i) (\<lambda>v. at_most (tx_valueDate t) (parseDate v)) \<and>
     tenantCondition tid (tx_tenantId t) \<and>
     given (li_search i) (\<lambda>q. ilike (tx_txRef t) (search_pattern q) \<or>
       ilike (tx_originatorName t) (search_pattern q) \<or>
       ilike (tx_beneficiaryName t) (search_pattern q) \<or> ilike_opt (tx_narration t) (search_pattern q))"

text \<open>A status or risk level outside its enum, or an invalid date, makes the query throw.\<close>

definition list_query_ok :: "(string \<Rightarrow> int option) \<Rightarrow> listInput \<Rightarrow> bool" where
  "list_query_ok parseDate i \<longleftrightarrow>
     given (li_status i) (\<lambda>v. v \<in> set txStatusEnum) \<and>
     given (li_riskLevel i) (\<lambda>v. v \<in> set riskLevelEnum) \<and>
     given (li_fromDate i) (\<lambda>v. parseDate v \<noteq> None) \<and> given (li_toDate i) (\<lambda>v. parseDate v \<noteq> None)"

definition listTransactions ::
    "(string \<Rightarrow> int option) \<Rightarrow> env \<Rightarrow> ctx \<Rightarrow> listInput \<Rightarrow> (paydb, transaction list \<times> nat) act" where
  "listTransactions parseDate e c i =
     protectedProcedure e c (\<lambda>u.
       zod (1 \<le> li_limit i \<and> li_limit i \<le> 500 \<and> 0 \<le> li_offset i) (requireDb e (\<lambda>s.
         let found = tselect (list_matches parseDate (c_tenantId c) i) (d_tx s) in
         if list_query_ok parseDate i
         then (Inr (page (li_limit i) (li_offset i) (order_desc tx_createdAt found), length found), s)
         else (Inl DbError, s))))"

section \<open>AML alerts\<close>

record listAlertsInput =
  la_limit :: int
  la_offset :: int
  la_status :: "string option"
  la_riskLevel :: "string option"

definition listAlerts :: "env \<Rightarrow> ctx \<Rightarrow> listAlertsInput \<Rightarrow> (paydb, amlAlert list \<times> nat) act" where
  "listAlerts e c i =
     protectedProcedure e c (\<lambda>u. zod (1 \<le> la_limit i \<and> la_limit i \<le> 250) (requireDb e (\<lambda>s.
       let found = tselect (\<lambda>a. given (la_status i) (\<lambda>v. amlAlertStatus_text (al_status a) = v) \<and>
             given (la_riskLevel i) (\<lambda>v. riskLevel_text (al_riskLevel a) = v) \<and>
             tenantCondition (c_tenantId c) (al_tenantId a)) (d_alerts s) in
       if given (la_status i) (\<lambda>v. v \<in> set amlAlertStatusEnum) \<and>
          given (la_riskLevel i) (\<lambda>v. v \<in> set riskLevelEnum) \<and> 0 \<le> la_offset i
       then (Inr (page (la_limit i) (la_offset i) (order_desc al_createdAt found), length found), s)
       else (Inl DbError, s))))"

definition resolutions :: "amlAlertStatus list" where
  "resolutions = [AEscalated, ACleared, AFiled, AFalse_positive]"

definition mark_resolved :: "int \<Rightarrow> int \<Rightarrow> amlAlertStatus \<Rightarrow> string option \<Rightarrow> amlAlert \<Rightarrow> amlAlert" where
  "mark_resolved now uid st notes a =
     a\<lparr>al_status := st, al_reviewNotes := (case notes of None \<Rightarrow> al_reviewNotes a | Some n \<Rightarrow> Some n),
       al_reviewedBy := Some uid, al_reviewedAt := Some now, al_updatedAt := now\<rparr>"

definition resolveAlert ::
    "env \<Rightarrow> ctx \<Rightarrow> int \<Rightarrow> amlAlertStatus \<Rightarrow> string option \<Rightarrow> (paydb, amlAlert) act" where
  "resolveAlert e c i resolution notes =
     writeProcedure e c (\<lambda>u. zod (resolution \<in> set resolutions) (requireDb e (\<lambda>s.
       let mine = (\<lambda>a. al_id a = i \<and> tenantCondition (c_tenantId c) (al_tenantId a));
           s1 = s\<lparr>d_alerts := tupdate mine (mark_resolved (e_now e) (u_id u) resolution notes) (d_alerts s)\<rparr> in
       case tfind mine (d_alerts s1) of
         None \<Rightarrow> (Inl (TRPCError NOT_FOUND ''AML alert not found''), s1)
       | Some a \<Rightarrow> (Inr a, s1))))"

section \<open>Statistics\<close>

record txStats =
  ts_total :: nat
  ts_highRisk :: nat
  ts_totalVolume :: rat
  ts_openAlerts :: nat
  ts_totalAlerts :: nat

definition stats :: "env \<Rightarrow> ctx \<Rightarrow> (paydb, txStats) act" where
  "stats e c =
     protectedProcedure e c (\<lambda>u. requireDb e (\<lambda>s.
       let txs = tselect (\<lambda>t. tenantCondition (c_tenantId c) (tx_tenantId t)) (d_tx s);
           als = tselect (\<lambda>a. tenantCondition (c_tenantId c) (al_tenantId a)) (d_alerts s) in
       (Inr \<lparr>ts_total = length txs,
             ts_highRisk = length (filter (\<lambda>t. tx_amlRiskLevel t = Some RiskHigh \<or> tx_amlRiskLevel t = Some RiskCritical) txs),
             ts_totalVolume = sum_list (map tx_amount txs),
             ts_openAlerts = length (filter (\<lambda>a. al_status a = AOpen) als),
             ts_totalAlerts = length als\<rparr>, s)))"

section \<open>The rules table\<close>

record ruleInput =
  ri_name :: string
  ri_description :: string
  ri_ruleType :: amlRuleType
  ri_threshold :: "rat option"
  ri_currency :: "string option"
  ri_windowHours :: "int option"
  ri_riskLevel :: riskLevel
  ri_enabled :: bool

definition listRules :: "env \<Rightarrow> ctx \<Rightarrow> (paydb, amlRule list) act" where
  "listRules e c = protectedProcedure e c (\<lambda>u. requireDb e (\<lambda>s. (Inr (sort_key ru_id (rows (d_rules s))), s)))"

definition rule_of :: "(rat \<Rightarrow> rat) \<Rightarrow> int \<Rightarrow> int \<Rightarrow> ruleInput \<Rightarrow> int \<Rightarrow> amlRule" where
  "rule_of real32 now uid i n =
     \<lparr>ru_id = n, ru_name = ri_name i, ru_description = Some (ri_description i), ru_ruleType = ri_ruleType i,
      ru_threshold = map_option real32 (ri_threshold i),
      ru_currency = Some (case ri_currency i of None \<Rightarrow> ''NGN'' | Some x \<Rightarrow> x),
      ru_windowHours = Some (case ri_windowHours i of None \<Rightarrow> 24 | Some h \<Rightarrow> h),
      ru_enabled = ri_enabled i, ru_riskLevel = ri_riskLevel i, ru_createdBy = Some uid,
      ru_createdAt = now, ru_updatedAt = now\<rparr>"

definition createRule :: "(rat \<Rightarrow> rat) \<Rightarrow> env \<Rightarrow> ctx \<Rightarrow> ruleInput \<Rightarrow> (paydb, amlRule) act" where
  "createRule real32 e c i =
     adminProcedure e c (\<lambda>u.
       zod (3 \<le> length (ri_name i) \<and> (case ri_currency i of None \<Rightarrow> True | Some x \<Rightarrow> length x = 3)) (requireDb e (\<lambda>s.
         if length (ri_name i) \<le> 255
         then (let mk = rule_of real32 (e_now e) (u_id u) i in
               (Inr (mk (seq (d_rules s))), s\<lparr>d_rules := tinsert mk (d_rules s)\<rparr>))
         else (Inl DbError, s))))"

definition toggleRule :: "env \<Rightarrow> ctx \<Rightarrow> int \<Rightarrow> bool \<Rightarrow> (paydb, amlRule option) act" where
  "toggleRule e c i enabled =
     adminProcedure e c (\<lambda>u. requireDb e (\<lambda>s.
       let s1 = s\<lparr>d_rules := tupdate (\<lambda>r. ru_id r = i)
             (\<lambda>r. r\<lparr>ru_enabled := enabled, ru_updatedAt := e_now e\<rparr>) (d_rules s)\<rparr>
       in (Inr (tfind (\<lambda>r. ru_id r = i) (d_rules s1)), s1)))"

definition deleteRule :: "env \<Rightarrow> ctx \<Rightarrow> int \<Rightarrow> (paydb, unit) act" where
  "deleteRule e c i =
     adminProcedure e c (\<lambda>u. requireDb e (\<lambda>s.
       (Inr (), s\<lparr>d_rules := tdelete (\<lambda>r. ru_id r = i) (d_rules s)\<rparr>)))"

section \<open>The outcomes of a creation\<close>

lemma create_cases:
  assumes "createTransaction real32 parseDate others ref aref e c i s = (r, s')"
  obtains (rejected) err where "r = Inl err" "s' = s"
    | (known) k t where "ci_idempotencyKey i = Some k" "find_by_key (c_tenantId c) k s = Some t" "r = Inr t" "s' = s"
    | (raced) k t where "ci_idempotencyKey i = Some k" "find_by_key (c_tenantId c) k (others s) = Some t"
        "r = Inr t" "s' = others s"
    | (failed) err where "r = Inl err" "s' = others s"
    | (inserted) u vd t where "c_user c = Some u" "create_input_ok i"
        "insert_tx (created_row real32 (e_now e) (c_tenantId c) (u_id u) ref vd i) (others s) = Some (t, s')"
        "fst (score_of i) < 50" "r = Inr t"
    | (alerted) u vd t s1 where "c_user c = Some u" "create_input_ok i"
        "insert_tx (created_row real32 (e_now e) (c_tenantId c) (u_id u) ref vd i) (others s) = Some (t, s1)"
        "fst (score_of i) \<ge> 50"
        "insert_alert (high_risk_alert real32 (e_now e) (c_tenantId c) aref t i) s1 = Some s'" "r = Inr t"
    | (alert_failed) u vd t where "c_user c = Some u" "create_input_ok i"
        "insert_tx (created_row real32 (e_now e) (c_tenantId c) (u_id u) ref vd i) (others s) = Some (t, s')"
        "fst (score_of i) \<ge> 50" "r = Inl DbError"
proof -
  show thesis
  proof (cases "(\<exists>err. r = Inl err) \<and> s' = s")
    case True
    then show thesis using that(1) by blast
  next
    case False
    from assms False obtain u where u: "c_user c = Some u"
      by (cases "c_user c") (auto simp: createTransaction_def writeProcedure_def)
    from assms u False have live: "\<not> c_isDemo c"
      by (auto simp: createTransaction_def writeProcedure_def)
    from assms u live False have ok: "create_input_ok i"
      by (auto simp: createTransaction_def writeProcedure_def split: if_splits)
    from assms u live ok False have up: "e_dbUp e"
      by (auto simp: createTransaction_def writeProcedure_def split: if_splits)
    let ?found = "case ci_idempotencyKey i of None \<Rightarrow> None | Some k \<Rightarrow> find_by_key (c_tenantId c) k s"
    have body: "createTransaction real32 parseDate others ref aref e c i s = (r, s') \<Longrightarrow> ?found = None \<Longrightarrow>
      (case insert_created real32 parseDate e c (u_id u) ref i (others s) of
             None \<Rightarrow>
               (case ci_idempotencyKey i of
                  None \<Rightarrow> (Inl DbError, others s)
                | Some k \<Rightarrow>
                   (case find_by_key (c_tenantId c) k (others s) of
                      Some existing \<Rightarrow> (Inr existing, others s)
                    | None \<Rightarrow> (Inl (TRPCError CONFLICT ''Idempotency key is unavailable''), others s)))
           | Some (tx, s1) \<Rightarrow>
               if fst (score_of i) \<ge> 50
               then (case insert_alert (high_risk_alert real32 (e_now e) (c_tenantId c) aref tx i) s1 of
                       None \<Rightarrow> (Inl DbError, s1)
                     | Some s2 \<Rightarrow> (Inr tx, s2))
               else (Inr tx, s1)) = (r, s')"
      using u live ok up by (simp add: createTransaction_def writeProcedure_def Let_def)
    show thesis
    proof (cases ?found)
      case (Some t)
      then obtain k where k: "ci_idempotencyKey i = Some k" "find_by_key (c_tenantId c) k s = Some t"
        by (cases "ci_idempotencyKey i") auto
      with assms u live ok up have "r = Inr t" "s' = s"
        by (simp_all add: createTransaction_def writeProcedure_def)
      with k show thesis by (rule that(2))
    next
      case None
      show thesis
      proof (cases "insert_created real32 parseDate e c (u_id u) ref i (others s)")
        case None': None
        show thesis
        proof (cases "ci_idempotencyKey i")
          case N: None
          with body [OF assms None] None' show thesis by (intro that(4)) auto
        next
          case (Some k)
          with body [OF assms None] None' show thesis
            by (cases "find_by_key (c_tenantId c) k (others s)") (auto intro: that(3,4))
        qed
      next
        case (Some p)
        obtain t s1 where p: "p = (t, s1)" by (cases p)
        from Some obtain vd where vd: "insert_tx (created_row real32 (e_now e) (c_tenantId c) (u_id u) ref vd i) (others s) = Some (t, s1)"
          by (auto simp: insert_created_def p split: option.splits)
        from body [OF assms None] Some p have
          "(if fst (score_of i) \<ge> 50
            then (case insert_alert (high_risk_alert real32 (e_now e) (c_tenantId c) aref t i) s1 of
                    None \<Rightarrow> (Inl DbError, s1) | Some s2 \<Rightarrow> (Inr t, s2))
            else (Inr t, s1)) = (r, s')"
          by simp
        with that(5-7) u ok vd show thesis
          by (auto split: if_splits option.splits)
      qed
    qed
  qed
qed

lemma created_row_key [simp]:
  "tx_id (created_row real32 now tid uid ref vd i n) = n"
  "tx_tenantId (created_row real32 now tid uid ref vd i n) = tid"
  "tx_txRef (created_row real32 now tid uid ref vd i n) = ref"
  "tx_idempotencyKey (created_row real32 now tid uid ref vd i n) = ci_idempotencyKey i"
  "tx_status (created_row real32 now tid uid ref vd i n) = (if fst (score_of i) \<ge> 100 then Blocked else Pending)"
  "tx_amlScore (created_row real32 now tid uid ref vd i n) = Some (fst (score_of i))"
  "tx_amlFlags (created_row real32 now tid uid ref vd i n) = Some (fst (snd (score_of i)))"
  "tx_flaggedAt (created_row real32 now tid uid ref vd i n) = (if fst (score_of i) \<ge> 50 then Some now else None)"
  by (simp_all add: created_row_def new_transaction_def split: prod.splits)

lemma insert_alert_SomeD:
  assumes "insert_alert mk s = Some s'"
  shows "s' = s\<lparr>d_alerts := tinsert mk (d_alerts s)\<rparr>"
  using assms by (auto simp: insert_alert_def Let_def split: if_splits)

lemma insert_alert_tx [simp]: "insert_alert mk s = Some s' \<Longrightarrow> d_tx s' = d_tx s"
  by (auto dest: insert_alert_SomeD)

text \<open>What a creation does to the transactions table: nothing, or one appended row.\<close>

lemma create_tx_table:
  assumes "createTransaction real32 parseDate others ref aref e c i s = (r, s')"
  shows "d_tx s' = d_tx s \<or> d_tx s' = d_tx (others s) \<or>
     (\<exists>u vd t s1. c_user c = Some u \<and>
        insert_tx (created_row real32 (e_now e) (c_tenantId c) (u_id u) ref vd i) (others s) = Some (t, s1) \<and>
        d_tx s' = d_tx s1)"
  by (rule create_cases [OF assms]) (metis insert_alert_tx)+

section \<open>Requests as steps\<close>

datatype txRequest =
    ReqCreate string string createInput
  | ReqUpdate updateInput
  | ReqFlag int string
  | ReqResolve int amlAlertStatus "string option"
  | ReqCreateRule ruleInput
  | ReqToggleRule int bool
  | ReqDeleteRule int

fun serve ::
    "(rat \<Rightarrow> rat) \<Rightarrow> (string \<Rightarrow> int option) \<Rightarrow> env \<Rightarrow> ctx \<Rightarrow> txRequest \<Rightarrow> paydb \<Rightarrow> paydb" where
  "serve real32 parseDate e c (ReqCreate ref aref i) s = snd (createTransaction real32 parseDate id ref aref e c i s)"
| "serve real32 parseDate e c (ReqUpdate i) s = snd (updateTransaction e c i s)"
| "serve real32 parseDate e c (ReqFlag i reason) s = snd (flagTransaction e c i reason s)"
| "serve real32 parseDate e c (ReqResolve i st notes) s = snd (resolveAlert e c i st notes s)"
| "serve real32 parseDate e c (ReqCreateRule i) s = snd (createRule real32 e c i s)"
| "serve real32 parseDate e c (ReqToggleRule i b) s = snd (toggleRule e c i b s)"
| "serve real32 parseDate e c (ReqDeleteRule i) s = snd (deleteRule e c i s)"

inductive tx_step :: "(rat \<Rightarrow> rat) \<Rightarrow> (string \<Rightarrow> int option) \<Rightarrow> (txRequest \<Rightarrow> bool) \<Rightarrow> paydb \<Rightarrow> paydb \<Rightarrow> bool"
  for real32 parseDate allowed where
  request: "allowed q \<Longrightarrow> tx_step real32 parseDate allowed s (serve real32 parseDate e c q s)"

inductive_cases tx_stepE: "tx_step real32 parseDate allowed s t"

lemma update_tx_cases:
  "snd (updateTransaction e c i s) = s \<or>
   (\<exists>r0. let mine = (\<lambda>t. tx_id t = ui_id i \<and> tenantCondition (c_tenantId c) (tx_tenantId t)) in
     tfind mine (d_tx s) = Some r0 \<and> tx_status r0 \<noteq> Completed \<and> tx_status r0 \<noteq> Reversed \<and>
     snd (updateTransaction e c i s) = update_tx (e_now e) mine (apply_update (e_now e) i) s)"
proof -
  obtain r s' where r: "updateTransaction e c i s = (r, s')" by fastforce
  from admin_guard.guard_state [OF r [unfolded updateTransaction_def]] r show ?thesis
    by (auto simp: Let_def split: if_splits option.splits)
qed

lemma flag_tx_cases:
  "snd (flagTransaction e c i reason s) = s \<or>
   (\<exists>u. c_user c = Some u \<and> snd (flagTransaction e c i reason s) =
      update_tx (e_now e) (\<lambda>t. tx_id t = i \<and> tenantCondition (c_tenantId c) (tx_tenantId t))
        (mark_flagged (e_now e) (u_id u) reason) s)"
  by (auto simp: flagTransaction_def adminProcedure_def Let_def split: option.splits)

lemma other_requests_tx [frame]:
  "d_tx (snd (resolveAlert e c i st notes s)) = d_tx s"
  "d_tx (snd (createRule real32 e c ri s)) = d_tx s"
  "d_tx (snd (toggleRule e c i b s)) = d_tx s"
  "d_tx (snd (deleteRule e c i s)) = d_tx s"
  by (auto simp: resolveAlert_def createRule_def toggleRule_def deleteRule_def adminProcedure_def
      writeProcedure_def Let_def split: option.splits)

lemma apply_update_key [simp]:
  "tx_id (apply_update now i t) = tx_id t" "tx_txRef (apply_update now i t) = tx_txRef t"
  "tx_idempotencyKey (apply_update now i t) = tx_idempotencyKey t"
  "tx_tenantId (apply_update now i t) = tx_tenantId t"
  by (simp_all add: apply_update_def)

lemma mark_flagged_key [simp]:
  "tx_id (mark_flagged now uid r t) = tx_id t" "tx_txRef (mark_flagged now uid r t) = tx_txRef t"
  "tx_idempotencyKey (mark_flagged now uid r t) = tx_idempotencyKey t"
  "tx_tenantId (mark_flagged now uid r t) = tx_tenantId t"
  by (simp_all add: mark_flagged_def)

text \<open>Every request changes the transactions table in one of three ways.\<close>

lemma serve_tx_table:
  obtains (same) "d_tx (serve real32 parseDate e c q s) = d_tx s"
    | (inserted) mk t s1 where "insert_tx mk s = Some (t, s1)" "d_tx (serve real32 parseDate e c q s) = d_tx s1"
        "\<And>n. tx_id (mk n) = n" "\<And>n. tx_tenantId (mk n) = c_tenantId c"
    | (updated) i r0 where "q = ReqUpdate i"
        "d_tx (serve real32 parseDate e c q s) =
           tupdate (\<lambda>t. tx_id t = ui_id i \<and> tenantCondition (c_tenantId c) (tx_tenantId t)) (apply_update (e_now e) i) (d_tx s)"
        "tfind (\<lambda>t. tx_id t = ui_id i \<and> tenantCondition (c_tenantId c) (tx_tenantId t)) (d_tx s) = Some r0"
        "tx_status r0 \<noteq> Completed" "tx_status r0 \<noteq> Reversed"
    | (flagged) i reason uid where "q = ReqFlag i reason"
        "d_tx (serve real32 parseDate e c q s) =
           tupdate (\<lambda>t. tx_id t = i \<and> tenantCondition (c_tenantId c) (tx_tenantId t)) (mark_flagged (e_now e) uid reason) (d_tx s)"
proof (cases q)
  case (ReqCreate ref aref i)
  obtain r s' where r: "createTransaction real32 parseDate id ref aref e c i s = (r, s')" by fastforce
  from create_tx_table [OF r] ReqCreate r show thesis
    by (auto intro: that(1) that(2) created_row_key)
next
  case (ReqUpdate i)
  from update_tx_cases [of e c i s] show thesis
    by (auto simp: Let_def ReqUpdate intro: that(1) that(3))
next
  case (ReqFlag i reason)
  from flag_tx_cases [of e c i reason s] show thesis
    by (auto simp: ReqFlag intro: that(1) that(4) [OF ReqFlag])
qed (auto simp: frame intro: that(1))

lemma serve_table_ok:
  assumes "tx_table_ok (d_tx s)"
  shows "tx_table_ok (d_tx (serve real32 parseDate e c q s))"
proof (cases rule: serve_tx_table [of real32 parseDate e c q s])
  case (inserted mk t s1)
  then show ?thesis using insert_tx_table_ok [OF inserted(1) assms] by simp
next
  case (flagged i reason uid)
  show ?thesis by (simp only: flagged(2)) (rule tupdate_table_ok [OF assms], simp_all)
next
  case (updated i r0)
  show ?thesis by (simp only: updated(2)) (rule tupdate_table_ok [OF assms], simp_all)
qed (use assms in simp)

definition tx_start :: "paydb \<Rightarrow> bool" where
  "tx_start s \<longleftrightarrow> s = empty_paydb"

interpretation tx_machine: state_machine tx_start "tx_step real32 parseDate allowed" "\<lambda>s. tx_table_ok (d_tx s)"
  for real32 parseDate allowed
proof unfold_locales
  show "tx_table_ok (d_tx s)" if "tx_start s" for s
    using that by (simp add: tx_start_def)
  show "tx_table_ok (d_tx t)" if "tx_table_ok (d_tx s)" "tx_step real32 parseDate allowed s t" for s t
    using that by (auto elim!: tx_stepE intro: serve_table_ok)
qed

section \<open>The score\<close>

text \<open>The reference: each indicator with its weight and its condition.\<close>

definition ctr_threshold :: "scoreInput \<Rightarrow> rat" where
  "ctr_threshold d = (case CTR_THRESHOLDS (si_currency d) of None \<Rightarrow> 10000 | Some t \<Rightarrow> t)"

definition indicators :: "scoreInput \<Rightarrow> (string \<times> int \<times> bool) list" where
  "indicators d =
     [(''high_risk_originator_country'', 35, si_originatorCountry d \<in> set HIGH_RISK_COUNTRIES),
      (''high_risk_beneficiary_country'', 35, si_beneficiaryCountry d \<in> set HIGH_RISK_COUNTRIES),
      (''potential_structuring'', 45, ctr_threshold d * (95 / 100) \<le> si_amount d \<and> si_amount d < ctr_threshold d),
      (''round_number'', 10, 100000 \<le> si_amount d \<and> is_multiple (si_amount d) 10000),
      (''suspicious_narration'', 30, \<exists>kw \<in> set suspiciousKw.
         str_includes (toLowerCase (case si_narration d of None \<Rightarrow> [] | Some n \<Rightarrow> n)) kw)]"

definition raised :: "scoreInput \<Rightarrow> (string \<times> int \<times> bool) list" where
  "raised d = filter (\<lambda>(_, _, b). b) (indicators d)"

definition total_weight :: "(string \<times> int \<times> bool) list \<Rightarrow> int" where
  "total_weight fs = sum_list (map (\<lambda>(_, w, _). w) fs)"

lemma accumulate:
  "(let (s1, f1) = (if c1 then (w1, [n1]) else (0::int, []));
        (s2, f2) = (if c2 then (s1 + w2, f1 @ [n2]) else (s1, f1));
        (s3, f3) = (if c3 then (s2 + w3, f2 @ [n3]) else (s2, f2));
        (s4, f4) = (if c4 then (s3 + w4, f3 @ [n4]) else (s3, f3));
        (s5, f5) = (if c5 then (s4 + w5, f4 @ [n5]) else (s4, f4));
        score = min s5 100 in (score, f5, g score)) =
   (let fs = filter (\<lambda>(_, _, b). b) [(n1, w1, c1), (n2, w2, c2), (n3, w3, c3), (n4, w4, c4), (n5, w5, c5)];
        score = min (total_weight fs) 100 in (score, map fst fs, g score))"
  by (cases c1; cases c2; cases c3; cases c4; cases c5) (simp_all add: total_weight_def Let_def algebra_simps)

lemma total_weight_raised_nonneg: "0 \<le> total_weight (raised d)"
proof -
  have "\<forall>p \<in> set (indicators d). 0 \<le> fst (snd p)" by (simp add: indicators_def)
  then show ?thesis
    unfolding total_weight_def raised_def by (intro sum_list_nonneg) (auto simp: split_beta)
qed

lemma quickScore_eq:
  "quickScore d = (let score = min (total_weight (raised d)) 100 in (score, map fst (raised d), riskLevel_of score))"
  unfolding quickScore_def raised_def indicators_def ctr_threshold_def [symmetric] list_ex_iff
  using accumulate [where g = riskLevel_of] by (simp only: Let_def add_0 append_Nil)

text \<open>C29: The score of a transaction is the sum of the weights of exactly the indicators that
  hold, capped at 100, with one flag per indicator in a fixed order and the risk level of that
  score; it lies between 0 and 100.\<close>

theorem quickScore_characterised:
  "quickScore d = (let score = min (total_weight (raised d)) 100 in (score, map fst (raised d), riskLevel_of score)) \<and>
   0 \<le> fst (quickScore d) \<and> fst (quickScore d) \<le> 100"
  using quickScore_eq [of d] total_weight_raised_nonneg [of d] by (simp add: Let_def)

section \<open>Idempotency keys\<close>

lemma key_unique:
  assumes "tx_table_ok t" "r \<in> set (rows t)" "r' \<in> set (rows t)"
    "tx_idempotencyKey r = Some k" "tx_idempotencyKey r' = Some k"
  shows "r = r'"
proof -
  have "inj_on tx_idempotencyKey (set (filter (\<lambda>x. tx_idempotencyKey x \<noteq> None) (rows t)))"
    using assms(1) by (auto simp: tx_table_ok_def distinct_map)
  then show ?thesis using assms(2-5) by (auto dest!: inj_onD [where x = r and y = r'])
qed

lemma find_by_key_SomeD:
  "find_by_key tid k s = Some t \<Longrightarrow>
   t \<in> set (rows (d_tx s)) \<and> tx_idempotencyKey t = Some k \<and> tenantCondition tid (tx_tenantId t)"
  unfolding find_by_key_def by (drule tfind_SomeD) simp

lemma find_by_key_row:
  assumes "tx_table_ok (d_tx s)" "r \<in> set (rows (d_tx s))" "tx_idempotencyKey r = Some k"
    "tenantCondition tid (tx_tenantId r)"
  shows "find_by_key tid k s = Some r"
proof (cases "find_by_key tid k s")
  case None
  then show ?thesis using assms(2-4) by (auto simp: find_by_key_def tfind_None_iff)
next
  case (Some t)
  with find_by_key_SomeD [OF Some] key_unique [OF assms(1)] assms(2,3) show ?thesis by blast
qed

text \<open>Rows stay, with their id, key and tenant, whatever is requested.\<close>

definition same_key :: "transaction \<Rightarrow> transaction \<Rightarrow> bool" where
  "same_key r r' \<longleftrightarrow> tx_id r' = tx_id r \<and> tx_idempotencyKey r' = tx_idempotencyKey r \<and> tx_tenantId r' = tx_tenantId r"

lemma tupdate_keeps_keys:
  assumes "r \<in> set (rows t)" "\<And>x. same_key x (f x)"
  shows "\<exists>r' \<in> set (rows (tupdate P f t)). same_key r r'"
proof (cases "P r")
  case True
  with assms show ?thesis by (intro bexI [where x = "f r"]) auto
next
  case False
  with assms(1) show ?thesis by (intro bexI [where x = r]) (auto simp: same_key_def)
qed

lemma serve_keeps_keys:
  assumes "r \<in> set (rows (d_tx s))"
  shows "\<exists>r' \<in> set (rows (d_tx (serve real32 parseDate e c q s))). same_key r r'"
proof (cases rule: serve_tx_table [of real32 parseDate e c q s])
  case (inserted mk t s1)
  then show ?thesis using insert_tx_SomeD(2) [OF inserted(1)] assms by (auto simp: same_key_def)
next
  case (flagged i reason uid)
  show ?thesis by (simp only: flagged(2)) (rule tupdate_keeps_keys [OF assms], simp add: same_key_def)
next
  case (updated i r0)
  show ?thesis by (simp only: updated(2)) (rule tupdate_keeps_keys [OF assms], simp add: same_key_def)
qed (use assms in \<open>auto simp: same_key_def\<close>)

lemma steps_keep_keys:
  assumes "steps (tx_step real32 parseDate allowed) s t" "r \<in> set (rows (d_tx s))"
  shows "\<exists>r' \<in> set (rows (d_tx t)). same_key r r'"
  using assms
proof (induction rule: steps.induct)
  case (steps_snoc s t u)
  then obtain r' where r': "r' \<in> set (rows (d_tx t))" "same_key r r'" by blast
  from steps_snoc.hyps(2) obtain e c q where "u = serve real32 parseDate e c q t" by (auto elim: tx_stepE)
  with serve_keeps_keys [OF r'(1)] r'(2) show ?case by (fastforce simp: same_key_def)
qed (auto simp: same_key_def)

lemma create_known:
  assumes "c_user c = Some u" "\<not> c_isDemo c" "e_dbUp e" "create_input_ok i"
    "ci_idempotencyKey i = Some k" "find_by_key (c_tenantId c) k s = Some t"
  shows "createTransaction real32 parseDate others ref aref e c i s = (Inr t, s)"
  using assms by (simp add: createTransaction_def writeProcedure_def)

text \<open>The row a keyed creation returns is in the table afterwards, under its key.\<close>

lemma create_returns_row:
  assumes "createTransaction real32 parseDate others ref aref e c i s = (Inr t, s1)"
    "ci_idempotencyKey i = Some k" "tx_table_ok (d_tx s)" "tx_table_ok (d_tx (others s))"
  shows "tx_table_ok (d_tx s1) \<and> t \<in> set (rows (d_tx s1)) \<and> tx_idempotencyKey t = Some k \<and>
    tenantCondition (c_tenantId c) (tx_tenantId t)"
proof -
  have ins: ?thesis
    if I: "insert_tx (created_row real32 (e_now e) (c_tenantId c) uid ref vd i) (others s) = Some (t, s')"
      and S: "d_tx s1 = d_tx s'" for uid vd s'
    using insert_tx_SomeD [OF I] insert_tx_table_ok [OF I assms(4)] S assms(2)
    by (auto simp: tenantCondition_def)
  from assms(1) show ?thesis
  proof (cases rule: create_cases)
    case (inserted u vd t')
    then show ?thesis using ins by auto
  next
    case (alerted u vd t' s2)
    then show ?thesis using ins by auto
  qed (use assms(2-4) in \<open>auto dest!: find_by_key_SomeD\<close>)
qed

text \<open>One idempotency key posts at most once: after a creation with key \<open>k\<close> returned the
  transaction \<open>t\<close>, and after any further requests, a second creation with that key in the same
  tenant, whatever its other fields and whatever commits in between, returns that transaction
  and leaves the database as it is.\<close>

theorem create_idempotent:
  assumes "tx_table_ok (d_tx s)" "tx_table_ok (d_tx (others s))"
    and "ci_idempotencyKey i = Some k"
    and "createTransaction real32 parseDate others ref aref e c i s = (Inr t, s1)"
    and "steps (tx_step real32 parseDate allowed) s1 s2"
    and "c_user c2 = Some u" "\<not> c_isDemo c2" "e_dbUp e2" "create_input_ok i2"
    and "ci_idempotencyKey i2 = Some k" "c_tenantId c2 = c_tenantId c"
  shows "\<exists>t2. createTransaction real32 parseDate others2 ref2 aref2 e2 c2 i2 s2 = (Inr t2, s2) \<and> tx_id t2 = tx_id t"
proof -
  note row = create_returns_row [OF assms(4,3,1,2)]
  then obtain t2 where t2: "t2 \<in> set (rows (d_tx s2))" "same_key t t2"
    using steps_keep_keys [OF assms(5)] by blast
  from row have "tx_table_ok (d_tx s2)" by (intro tx_machine.inv_steps [OF assms(5)]) simp
  then have "find_by_key (c_tenantId c2) k s2 = Some t2"
    using t2 row assms(11) by (intro find_by_key_row) (auto simp: same_key_def)
  then show ?thesis using create_known [OF assms(6-10)] t2(2) by (auto simp: same_key_def)
qed

text \<open>C30: A creation that does not hit a known key appends exactly one row, in the caller's tenant,
  blocked if the score is 100 and pending otherwise, and, from a score of 50 on, exactly one
  open alert for it in that tenant.\<close>

theorem create_outcome:
  assumes "createTransaction real32 parseDate id ref aref e c i s = (Inr t, s')"
    and "ci_idempotencyKey i = None \<or> find_by_key (c_tenantId c) (the (ci_idempotencyKey i)) s = None"
  shows "rows (d_tx s') = rows (d_tx s) @ [t] \<and> tx_id t = seq (d_tx s) \<and> tx_tenantId t = c_tenantId c \<and>
     tx_status t = (if fst (score_of i) = 100 then Blocked else Pending) \<and>
     (if fst (score_of i) < 50 then d_alerts s' = d_alerts s
      else \<exists>a. rows (d_alerts s') = rows (d_alerts s) @ [a] \<and> al_transactionId a = Some (tx_id t) \<and>
             al_status a = AOpen \<and> al_tenantId a = c_tenantId c)"
proof -
  have le: "fst (score_of i) \<le> 100"
    by (simp add: score_of_def quickScore_eq Let_def)
  have blk: "(fst (score_of i) \<ge> 100) = (fst (score_of i) = 100)" using le by linarith
  from assms(1) show ?thesis
  proof (cases rule: create_cases)
    case (inserted u vd t')
    then show ?thesis using insert_tx_SomeD [OF inserted(3)] blk by simp
  next
    case (alerted u vd t' s1)
    then have t: "t' = t" by simp
    note ins = insert_tx_SomeD [OF alerted(3)] and al = insert_alert_SomeD [OF alerted(5)]
    have "rows (d_alerts s') = rows (d_alerts s) @
        [high_risk_alert real32 (e_now e) (c_tenantId c) aref t i (seq (d_alerts s))]"
      using ins al t by simp
    moreover have "al_transactionId (high_risk_alert real32 (e_now e) (c_tenantId c) aref t i n) = Some (tx_id t) \<and>
        al_status (high_risk_alert real32 (e_now e) (c_tenantId c) aref t i n) = AOpen \<and>
        al_tenantId (high_risk_alert real32 (e_now e) (c_tenantId c) aref t i n) = c_tenantId c" for n
      by (simp add: high_risk_alert_def split_beta)
    ultimately show ?thesis using ins al t blk alerted(4) by auto
  qed (use assms(2) in auto)
qed

section \<open>Settled transactions\<close>

definition settled :: "transaction \<Rightarrow> bool" where
  "settled t \<longleftrightarrow> tx_status t = Completed \<or> tx_status t = Reversed"

definition not_flag :: "txRequest \<Rightarrow> bool" where
  "not_flag q \<longleftrightarrow> (case q of ReqFlag _ _ \<Rightarrow> False | _ \<Rightarrow> True)"

lemma serve_keeps_settled:
  assumes "tx_table_ok (d_tx s)" "r \<in> set (rows (d_tx s))" "settled r" "not_flag q"
  shows "r \<in> set (rows (d_tx (serve real32 parseDate e c q s)))"
proof (cases rule: serve_tx_table [of real32 parseDate e c q s])
  case (inserted mk t s1)
  then show ?thesis using insert_tx_SomeD(2) [OF inserted(1)] assms by simp
next
  case (updated i r0)
  have "\<not> (tx_id r = ui_id i \<and> tenantCondition (c_tenantId c) (tx_tenantId r))"
    using tfind_SomeD [OF updated(3)] tx_table_ok_id_unique [OF assms(1,2), of r0] assms(3) updated(4,5)
    by (auto simp: settled_def)
  with assms(2) show ?thesis by (auto simp: updated(2) image_iff intro!: bexI [where x = r])
qed (use assms in \<open>auto simp: not_flag_def\<close>)

definition holds_settled :: "transaction \<Rightarrow> paydb \<Rightarrow> bool" where
  "holds_settled r s \<longleftrightarrow> r \<in> set (rows (d_tx s)) \<and> settled r"

interpretation settled_machine: sticky_machine tx_start "tx_step real32 parseDate not_flag"
  "\<lambda>s. tx_table_ok (d_tx s)" "holds_settled r" "holds_settled r"
  for real32 parseDate r
  by unfold_locales (auto simp: holds_settled_def elim!: tx_stepE intro: serve_keeps_settled)

text \<open>A completed or reversed transaction is never changed by any sequence of requests that
  contains no \<open>flag\<close>: status updates, creations and alert resolutions leave its row as it is.\<close>

theorem settled_is_final:
  assumes "tx_table_ok (d_tx s)" "r \<in> set (rows (d_tx s))" "settled r"
    and "steps (tx_step real32 parseDate not_flag) s t"
  shows "r \<in> set (rows (d_tx t))"
  using settled_machine.sticky_steps [OF assms(4,1), of r] assms(2,3) by (simp add: holds_settled_def)

lemma tfind_by_id:
  assumes "tx_table_ok t" "r \<in> set (rows t)" "Q (tx_tenantId r)"
  shows "tfind (\<lambda>x. tx_id x = tx_id r \<and> Q (tx_tenantId x)) t = Some r"
proof (cases "tfind (\<lambda>x. tx_id x = tx_id r \<and> Q (tx_tenantId x)) t")
  case None
  then show ?thesis using assms(2,3) by (auto simp: tfind_None_iff)
next
  case (Some x)
  with tfind_SomeD [OF Some] tx_table_ok_id_unique [OF assms(1)] assms(2) show ?thesis by blast
qed

text \<open>\<open>flag\<close> is the exception: on a settled transaction, where \<open>update\<close> answers CONFLICT and
  points to the reversal workflow, \<open>flag\<close> succeeds and the status becomes \<open>under_review\<close>.\<close>

theorem flag_reopens_settled:
  assumes "c_user c = Some u" "admits_admin e c u" "e_dbUp e" "5 \<le> length reason"
    and "tx_table_ok (d_tx s)" "r \<in> set (rows (d_tx s))" "settled r"
    and "tenantCondition (c_tenantId c) (tx_tenantId r)"
  shows "updateTransaction e c \<lparr>ui_id = tx_id r, ui_status = None, ui_narration = Some reason\<rparr> s =
       (Inl (TRPCError CONFLICT ''Settled transactions must use the authoritative reversal workflow''), s) \<and>
     (\<exists>t s'. flagTransaction e c (tx_id r) reason s = (Inr (Some t), s') \<and> tx_id t = tx_id r \<and>
       tx_status t = Under_review \<and> t \<in> set (rows (d_tx s')))"
proof -
  let ?mine = "\<lambda>t. tx_id t = tx_id r \<and> tenantCondition (c_tenantId c) (tx_tenantId t)"
  let ?f = "mark_flagged (e_now e) (u_id u) reason"
  have found: "tfind ?mine (d_tx s) = Some r"
    using tfind_by_id [OF assms(5,6)] assms(8) by simp
  have guard: "adminProcedure e c k s = k u s" for k :: "user \<Rightarrow> (paydb, 'x) act"
    using assms(1,2) by (simp add: admin_guard.proc_runs)
  have upd: "updateTransaction e c \<lparr>ui_id = tx_id r, ui_status = None, ui_narration = Some reason\<rparr> s =
      (Inl (TRPCError CONFLICT ''Settled transactions must use the authoritative reversal workflow''), s)"
    using assms(3,7) found by (simp add: updateTransaction_def guard settled_def)
  let ?s' = "update_tx (e_now e) ?mine ?f s"
  have t: "tfind ?mine (d_tx ?s') = Some (?f r)"
    using found by (simp add: tfind_tupdate)
  have "tx_status (?f r) = Under_review" by (simp add: mark_flagged_def)
  moreover have "flagTransaction e c (tx_id r) reason s = (Inr (Some (?f r)), ?s')"
    using assms(3,4) t by (simp add: flagTransaction_def guard del: update_tx_frame)
  ultimately show ?thesis using upd tfind_SomeD [OF t] by blast
qed

section \<open>Tenants\<close>

lemma tenant_update_others:
  assumes "\<And>x. tid (f x) = tid x"
  shows "tselect (\<lambda>x. tid x \<noteq> Some T) (tupdate (\<lambda>x. Q x \<and> tenantCondition (Some T) (tid x)) f t) =
    tselect (\<lambda>x. tid x \<noteq> Some T) t"
proof -
  have "filter (\<lambda>x. tid x \<noteq> Some T) (map (\<lambda>x. if Q x \<and> tenantCondition (Some T) (tid x) then f x else x) xs) =
      filter (\<lambda>x. tid x \<noteq> Some T) xs" for xs
    by (induction xs) (auto simp: tenantCondition_def assms)
  then show ?thesis by (simp only: tselect_def rows_tupdate)
qed

lemma tenant_insert_others:
  "tid (mk (seq t)) = Some T \<Longrightarrow>
   tselect (\<lambda>x. tid x \<noteq> Some T) (tinsert mk t) = tselect (\<lambda>x. tid x \<noteq> Some T) t"
  by (simp add: tselect_def)

lemma serve_tx_tenant:
  assumes "c_tenantId c = Some T"
  shows "tselect (\<lambda>x. tx_tenantId x \<noteq> Some T) (d_tx (serve real32 parseDate e c q s)) =
    tselect (\<lambda>x. tx_tenantId x \<noteq> Some T) (d_tx s)"
proof (cases rule: serve_tx_table [of real32 parseDate e c q s])
  case (inserted mk t s1)
  then show ?thesis using insert_tx_SomeD(2) [OF inserted(1)] assms by (simp add: tenant_insert_others)
next
  case (flagged i reason uid)
  show ?thesis unfolding flagged(2) assms by (rule tenant_update_others) simp
next
  case (updated i r0)
  show ?thesis unfolding updated(2) assms by (rule tenant_update_others) simp
qed simp

lemma serve_alerts_tenant:
  assumes "c_tenantId c = Some T"
  shows "tselect (\<lambda>x. al_tenantId x \<noteq> Some T) (d_alerts (serve real32 parseDate e c q s)) =
    tselect (\<lambda>x. al_tenantId x \<noteq> Some T) (d_alerts s)"
proof (cases q)
  case (ReqCreate ref aref i)
  obtain r s' where r: "createTransaction real32 parseDate id ref aref e c i s = (r, s')" by fastforce
  then have "tselect (\<lambda>x. al_tenantId x \<noteq> Some T) (d_alerts s') = tselect (\<lambda>x. al_tenantId x \<noteq> Some T) (d_alerts s)"
  proof (cases rule: create_cases)
    case (inserted u vd t)
    then show ?thesis using insert_tx_SomeD(2) [OF inserted(3)] by simp
  next
    case (alerted u vd t s1)
    have "al_tenantId (high_risk_alert real32 (e_now e) (c_tenantId c) aref t i n) = Some T" for n
      by (simp add: high_risk_alert_def split_beta assms)
    then show ?thesis
      using insert_tx_SomeD(2) [OF alerted(3)] insert_alert_SomeD [OF alerted(5)]
      by (simp add: tenant_insert_others)
  next
    case (alert_failed u vd t)
    then show ?thesis using insert_tx_SomeD(2) [OF alert_failed(3)] by simp
  qed simp_all
  with ReqCreate r show ?thesis by simp
next
  case (ReqUpdate i)
  then show ?thesis using update_tx_cases [of e c i s] by (auto simp: Let_def)
next
  case (ReqFlag i reason)
  then show ?thesis using flag_tx_cases [of e c i reason s] by auto
next
  case (ReqResolve i st nts)
  obtain r s' where r: "resolveAlert e c i st nts s = (r, s')" by fastforce
  have "s' = s \<or> (\<exists>uid. d_alerts s' =
      tupdate (\<lambda>a. al_id a = i \<and> tenantCondition (Some T) (al_tenantId a)) (mark_resolved (e_now e) uid st nts) (d_alerts s))"
    using write_guard.guard_state [OF r [unfolded resolveAlert_def]]
    by (auto simp: Let_def assms split: option.splits if_splits)
  then show ?thesis
    using tenant_update_others [of al_tenantId "mark_resolved (e_now e) _ st nts" T] r ReqResolve
    by (auto simp: mark_resolved_def)
next
  case (ReqCreateRule ri)
  then show ?thesis by (simp add: createRule_def adminProcedure_def Let_def split: option.splits)
next
  case (ReqToggleRule i b)
  then show ?thesis by (simp add: toggleRule_def adminProcedure_def Let_def split: option.splits)
next
  case (ReqDeleteRule i)
  then show ?thesis by (simp add: deleteRule_def adminProcedure_def Let_def split: option.splits)
qed

lemma list_tenant:
  assumes "listTransactions parseDate e c i s = (Inr (xs, n), s')" "c_tenantId c = Some T" "x \<in> set xs"
  shows "tx_tenantId x = Some T"
proof -
  from protected_guard.guard_ok [OF assms(1) [unfolded listTransactions_def]]
  have "xs = page (li_limit i) (li_offset i) (order_desc tx_createdAt (tselect (list_matches parseDate (c_tenantId c) i) (d_tx s)))"
    by (auto simp: Let_def split: if_splits)
  with assms(2,3) set_page [of "li_limit i" "li_offset i"] show ?thesis
    by (fastforce simp: tselect_def list_matches_def tenantCondition_def)
qed

lemma get_tenant:
  assumes "getTransaction e c i s = (Inr x, s')" "c_tenantId c = Some T"
  shows "tx_tenantId x = Some T"
  using protected_guard.guard_ok [OF assms(1) [unfolded getTransaction_def]] assms(2)
  by (auto simp: tenantCondition_def dest!: tfind_SomeD split: if_splits option.splits)

text \<open>Tenant isolation: a request of a caller assigned to tenant \<open>T\<close> leaves every transaction
  and alert of other tenants exactly as they were, and \<open>list\<close> and \<open>get\<close> show it only
  transactions of \<open>T\<close>.\<close>

theorem tenant_isolation:
  assumes "c_tenantId c = Some T"
  shows "tselect (\<lambda>x. tx_tenantId x \<noteq> Some T) (d_tx (serve real32 parseDate e c q s)) =
      tselect (\<lambda>x. tx_tenantId x \<noteq> Some T) (d_tx s) \<and>
    tselect (\<lambda>x. al_tenantId x \<noteq> Some T) (d_alerts (serve real32 parseDate e c q s)) =
      tselect (\<lambda>x. al_tenantId x \<noteq> Some T) (d_alerts s) \<and>
    (\<forall>xs n s'. listTransactions parseDate e c li s = (Inr (xs, n), s') \<longrightarrow> (\<forall>x \<in> set xs. tx_tenantId x = Some T)) \<and>
    (\<forall>x s'. getTransaction e c i s = (Inr x, s') \<longrightarrow> tx_tenantId x = Some T)"
  by (intro conjI allI impI ballI)
    (erule serve_tx_tenant [OF assms] serve_alerts_tenant [OF assms] list_tenant [OF _ assms]
      get_tenant [OF _ assms] | rule serve_tx_tenant [OF assms] serve_alerts_tenant [OF assms] | assumption)+

section \<open>Concrete instances\<close>

definition sample_create :: createInput where
  "sample_create = \<lparr>ci_txType = Wire_transfer, ci_amount = 1500, ci_currency = ''NGN'',
     ci_originatorName = ''Ada'', ci_originatorAccount = None, ci_originatorBank = None,
     ci_originatorCountry = ''NG'', ci_beneficiaryName = ''Obi'', ci_beneficiaryAccount = None,
     ci_beneficiaryBank = None, ci_beneficiaryCountry = ''NG'', ci_narration = Some ''rent'',
     ci_purposeCode = None, ci_valueDate = None, ci_idempotencyKey = Some ''key-0001''\<rparr>"

definition sample_risky :: createInput where
  "sample_risky = sample_create\<lparr>ci_originatorCountry := ''IR'', ci_amount := 4800000\<rparr>"

lemma sample_score: "score_of sample_create = (0, [], RiskLow)"
  by (simp add: score_of_def quickScore_def sample_create_def HIGH_RISK_COUNTRIES_def CTR_THRESHOLDS.simps
      suspiciousKw_def toLowerCase_def to_lower_def is_multiple_def riskLevel_of_def)

lemma sample_risky_score: "score_of sample_risky = (90, [''high_risk_originator_country'', ''potential_structuring'', ''round_number''], RiskCritical)"
  by (simp add: score_of_def quickScore_def sample_risky_def sample_create_def HIGH_RISK_COUNTRIES_def CTR_THRESHOLDS.simps
      suspiciousKw_def toLowerCase_def to_lower_def is_multiple_def riskLevel_of_def)

lemma sample_created:
  "createTransaction id (\<lambda>_. None) id ''TXN-1'' ''ALT-1'' sample_env analyst_ctx sample_create empty_paydb =
     (Inr (created_row id 1700000000000 (Some 7) 2 ''TXN-1'' 1700000000000 sample_create 1),
      empty_paydb\<lparr>d_tx := tinsert (created_row id 1700000000000 (Some 7) 2 ''TXN-1'' 1700000000000 sample_create) (d_tx empty_paydb)\<rparr>)"
  by (simp add: createTransaction_def writeProcedure_def samples create_input_ok_def create_types_def
      find_by_key_def tfind_def empty_paydb_def empty_tbl_def insert_created_def date_or_now_def
      insert_tx_def tx_unique_ok_def tx_columns_ok_def fits_def created_row_def sample_score new_transaction_def
      tinsert_def Let_def sample_create_def [THEN arg_cong [where f = ci_idempotencyKey]]
      sample_create_def [THEN arg_cong [where f = ci_amount]] sample_create_def [THEN arg_cong [where f = ci_currency]]
      sample_create_def [THEN arg_cong [where f = ci_txType]] sample_create_def [THEN arg_cong [where f = ci_valueDate]]
      sample_create_def [THEN arg_cong [where f = ci_originatorName]] sample_create_def [THEN arg_cong [where f = ci_originatorAccount]]
      sample_create_def [THEN arg_cong [where f = ci_originatorBank]] sample_create_def [THEN arg_cong [where f = ci_originatorCountry]]
      sample_create_def [THEN arg_cong [where f = ci_beneficiaryName]] sample_create_def [THEN arg_cong [where f = ci_beneficiaryAccount]]
      sample_create_def [THEN arg_cong [where f = ci_beneficiaryBank]] sample_create_def [THEN arg_cong [where f = ci_beneficiaryCountry]]
      sample_create_def [THEN arg_cong [where f = ci_purposeCode]])

lemma create_outcome_witness:
  "\<exists>t s'. createTransaction id (\<lambda>_. None) id ''TXN-1'' ''ALT-1'' sample_env analyst_ctx sample_create empty_paydb = (Inr t, s') \<and>
     rows (d_tx s') = [t] \<and> tx_status t = Pending"
proof -
  have "ci_idempotencyKey sample_create = None \<or>
      find_by_key (c_tenantId analyst_ctx) (the (ci_idempotencyKey sample_create)) empty_paydb = None"
    by (simp add: find_by_key_def tfind_def)
  from create_outcome [OF sample_created this] show ?thesis by (simp add: sample_created sample_score)
qed

lemma create_idempotent_witness:
  "\<exists>t s1 t2. createTransaction id (\<lambda>_. None) id ''TXN-1'' ''ALT-1'' sample_env analyst_ctx sample_create empty_paydb = (Inr t, s1) \<and>
     createTransaction id (\<lambda>_. None) id ''TXN-2'' ''ALT-2'' sample_env analyst_ctx sample_create s1 = (Inr t2, s1) \<and> tx_id t2 = tx_id t"
proof -
  have key: "ci_idempotencyKey sample_create = Some ''key-0001''" by (simp add: sample_create_def)
  have ok: "create_input_ok sample_create" by (simp add: create_input_ok_def sample_create_def create_types_def)
  obtain t2 where "createTransaction id (\<lambda>_. None) id ''TXN-2'' ''ALT-2'' sample_env analyst_ctx sample_create
      (empty_paydb\<lparr>d_tx := tinsert (created_row id 1700000000000 (Some 7) 2 ''TXN-1'' 1700000000000 sample_create) (d_tx empty_paydb)\<rparr>) =
      (Inr t2, empty_paydb\<lparr>d_tx := tinsert (created_row id 1700000000000 (Some 7) 2 ''TXN-1'' 1700000000000 sample_create) (d_tx empty_paydb)\<rparr>) \<and>
      tx_id t2 = tx_id (created_row id 1700000000000 (Some 7) 2 ''TXN-1'' 1700000000000 sample_create 1)"
    using create_idempotent [where others = id and s = empty_paydb, OF _ _ key sample_created steps_refl, of analyst_ctx sample_analyst
        sample_env sample_create id "''TXN-2''" "''ALT-2''"] key ok by auto
  then show ?thesis by (intro exI conjI) (rule sample_created, auto)
qed

lemma settled_row: "settled (created_row id 0 (Some 7) 2 ''TXN-1'' 0 sample_create 1\<lparr>tx_status := Completed\<rparr>)"
  by (simp add: settled_def)

definition sample_settled_db :: paydb where
  "sample_settled_db = empty_paydb\<lparr>d_tx := tinsert (\<lambda>n. created_row id 0 (Some 7) 2 ''TXN-1'' 0 sample_create n\<lparr>tx_status := Completed\<rparr>) empty_tbl\<rparr>"

lemma sample_settled_ok: "tx_table_ok (d_tx sample_settled_db)"
  by (simp add: sample_settled_db_def tx_table_ok_def serial_ok_def)

lemma settled_is_final_witness:
  "\<exists>r \<in> set (rows (d_tx (serve id (\<lambda>_. None) sample_env admin_ctx (ReqUpdate \<lparr>ui_id = 1, ui_status = Some Failed, ui_narration = None\<rparr>) sample_settled_db))). tx_status r = Completed"
proof -
  let ?q = "ReqUpdate \<lparr>ui_id = 1, ui_status = Some Failed, ui_narration = None\<rparr>"
  have q: "not_flag ?q" by (simp add: not_flag_def)
  have m: "created_row id 0 (Some 7) 2 ''TXN-1'' 0 sample_create 1\<lparr>tx_status := Completed\<rparr> \<in> set (rows (d_tx sample_settled_db))"
    by (simp add: sample_settled_db_def)
  have "steps (tx_step id (\<lambda>_. None) not_flag) sample_settled_db (serve id (\<lambda>_. None) sample_env admin_ctx ?q sample_settled_db)"
    by (rule steps_snoc [OF steps_refl]) (rule tx_step.request, rule q)
  from settled_is_final [OF sample_settled_ok m settled_row this] show ?thesis by (rule bexI [rotated]) simp
qed

lemma flag_reopens_settled_witness:
  "\<exists>t s'. flagTransaction sample_env admin_ctx 1 ''review'' sample_settled_db = (Inr (Some t), s') \<and> tx_status t = Under_review"
proof -
  have m: "created_row id 0 (Some 7) 2 ''TXN-1'' 0 sample_create 1\<lparr>tx_status := Completed\<rparr> \<in> set (rows (d_tx sample_settled_db))"
    by (simp add: sample_settled_db_def)
  from flag_reopens_settled [of admin_ctx sample_admin sample_env "''review''", OF _ _ _ _ sample_settled_ok m settled_row]
  show ?thesis by (fastforce simp: samples admits_admin_def tenantCondition_def)
qed

lemma tenant_isolation_witness:
  "tselect (\<lambda>x. tx_tenantId x \<noteq> Some 7) (d_tx (serve id (\<lambda>_. None) sample_env analyst_ctx (ReqCreate ''TXN-1'' ''ALT-1'' sample_create) empty_paydb)) = []"
  using tenant_isolation [of analyst_ctx 7 id "\<lambda>_. None" sample_env "ReqCreate ''TXN-1'' ''ALT-1'' sample_create" empty_paydb]
  by (simp add: analyst_ctx_def tselect_def)

end
