(* ===== verification/Payment_Rails.thy ===== *)
theory Payment_Rails
  imports Transactions
begin

text \<open>
  \<open>server/paymentRails.ts\<close>, the operations that change state and the lookups they rest on: the
  claim of a payment together with its outbox instruction, the velocity gate in front of it
  (\<open>server/fluvio.ts\<close>), the choice of the rail (\<open>server/mojaloop.ts\<close>), freezing and unfreezing
  accounts, reversals, export schedules, name enquiry and the workflow calls
  (\<open>server/temporal.ts\<close>). Random references, the replies of remote services and the rounding of
  the \<open>real\<close> column are parameters.
\<close>

section \<open>The active rail and the velocity gate\<close>

record railConfig =
  MOJALOOP_HUB_URL :: "string option"
  NIBSS_NIP_URL :: "string option"
  NIBSS_NIP_KEY :: "string option"

definition requireActivePaymentRail :: "railConfig \<Rightarrow> rail option" where
  "requireActivePaymentRail cfg =
     (if truthy_str (MOJALOOP_HUB_URL cfg) then Some RailMojaloop
      else if truthy_str (NIBSS_NIP_URL cfg) \<and> truthy_str (NIBSS_NIP_KEY cfg) then Some RailNip
      else None)"

text \<open>The parts of \<open>new URL(FLUVIO_VELOCITY_URL)\<close> that are looked at; \<open>None\<close> when parsing throws.\<close>

record urlParts =
  url_protocol :: string
  url_hostname :: string
  url_username :: string
  url_password :: string

definition configuredVelocityEndpoint :: "bool \<Rightarrow> urlParts option \<Rightarrow> bool" where
  "configuredVelocityEndpoint isTest url =
     (case url of None \<Rightarrow> False
      | Some ep \<Rightarrow>
         (let hasNoCredentials = (url_username ep = [] \<and> url_password ep = []);
              testLoopback = (isTest \<and> url_protocol ep = ''http:'' \<and>
                url_hostname ep \<in> set [''127.0.0.1'', ''localhost'', ''[::1]''])
          in hasNoCredentials \<and> (url_protocol ep = ''https:'' \<or> testLoopback)))"

record velocityBody =
  vy_decision :: "string option"
  vy_reason :: "string option"
  vy_window_count :: "int option"
  vy_window_seconds :: "int option"
  vy_threshold :: "int option"

datatype velocityReply = VUnavailable | VRejected | VAnswer velocityBody

record velocityInput =
  vi_account_id :: string
  vi_amount_kobo :: int
  vi_tenant_id :: string

record velocityDecision =
  vd_decision :: string
  vd_reason :: "string option"
  vd_service_available :: bool

definition velocity_row :: "int \<Rightarrow> velocityInput \<Rightarrow> velocityBody \<Rightarrow> int \<Rightarrow> velocityBlock" where
  "velocity_row now vi b n =
     \<lparr>vb_id = n, vb_accountId = vi_account_id vi, vb_tenantId = Some (vi_tenant_id vi), vb_txRef = None,
      vb_amountKobo = vi_amount_kobo vi,
      vb_windowCount = (case vy_window_count b of None \<Rightarrow> 0 | Some x \<Rightarrow> x),
      vb_windowSeconds = (case vy_window_seconds b of None \<Rightarrow> 60 | Some x \<Rightarrow> x),
      vb_threshold = (case vy_threshold b of None \<Rightarrow> 10 | Some x \<Rightarrow> x),
      vb_decision = ''block'',
      vb_reason = Some (case vy_reason b of None \<Rightarrow> ''velocity threshold exceeded'' | Some x \<Rightarrow> x),
      vb_createdAt = now\<rparr>"

text \<open>
  The audit row of a block is best effort: it is written when the database is there and the
  account fits its column, and its failure does not change the decision.
\<close>

definition fluvioCheckVelocity ::
    "bool \<Rightarrow> (velocityInput \<Rightarrow> velocityReply) \<Rightarrow> env \<Rightarrow> velocityInput \<Rightarrow> paydb \<Rightarrow> velocityDecision \<times> paydb" where
  "fluvioCheckVelocity configured reply e vi s =
     (if \<not> configured
      then (\<lparr>vd_decision = ''block'', vd_reason = Some ''Velocity-control service is not securely configured'',
             vd_service_available = False\<rparr>, s)
      else case reply vi of
        VUnavailable \<Rightarrow> (\<lparr>vd_decision = ''block'', vd_reason = Some ''Velocity-control service is unavailable'',
             vd_service_available = False\<rparr>, s)
      | VRejected \<Rightarrow> (\<lparr>vd_decision = ''block'', vd_reason = Some ''Velocity-control service rejected the pre-flight request'',
             vd_service_available = False\<rparr>, s)
      | VAnswer b \<Rightarrow>
         (let decision = (case vy_decision b of None \<Rightarrow> ''allow'' | Some d \<Rightarrow> d);
              s1 = (if decision = ''block'' \<and> e_dbUp e \<and> length (vi_account_id vi) \<le> 128
                    then s\<lparr>d_velocity := tinsert (velocity_row (e_now e) vi b) (d_velocity s)\<rparr> else s)
          in (\<lparr>vd_decision = decision, vd_reason = vy_reason b, vd_service_available = True\<rparr>, s1)))"

section \<open>Initiating a transfer\<close>

datatype transferStatus = TPending | TPosted | TVoided | TFailed | TReversed

fun mapStatus :: "txStatus \<Rightarrow> transferStatus" where
  "mapStatus Completed = TPosted"
| "mapStatus Failed = TFailed"
| "mapStatus Reversed = TReversed"
| "mapStatus Blocked = TVoided"
| "mapStatus Pending = TPending"
| "mapStatus Under_review = TPending"
| "mapStatus Flagged = TPending"

record transferInput =
  ti_originatorAccountId :: string
  ti_beneficiaryAccountId :: string
  ti_beneficiaryBankCode :: string
  ti_beneficiaryName :: string
  ti_amount :: rat
  ti_narration :: "string option"
  ti_reference :: "string option"

definition transfer_input_ok :: "transferInput \<Rightarrow> bool" where
  "transfer_input_ok i \<longleftrightarrow>
     ti_originatorAccountId i \<noteq> [] \<and>
     length (ti_beneficiaryAccountId i) = 10 \<and> all_digits (ti_beneficiaryAccountId i) \<and>
     3 \<le> length (ti_beneficiaryBankCode i) \<and> length (ti_beneficiaryBankCode i) \<le> 6 \<and> all_digits (ti_beneficiaryBankCode i) \<and>
     1 \<le> length (ti_beneficiaryName i) \<and> length (ti_beneficiaryName i) \<le> 128 \<and>
     0 < ti_amount i \<and> is_multiple (ti_amount i) (1 / 100) \<and> ti_amount i \<le> 100000000 \<and>
     fits 256 (ti_narration i) \<and> fits 64 (ti_reference i)"

definition find_by_ref :: "int option \<Rightarrow> string \<Rightarrow> paydb \<Rightarrow> transaction option" where
  "find_by_ref tid ref s = tfind (\<lambda>t. tx_txRef t = ref \<and> tenantCondition tid (tx_tenantId t)) (d_tx s)"

definition claim_row :: "(rat \<Rightarrow> rat) \<Rightarrow> int \<Rightarrow> int \<Rightarrow> string \<Rightarrow> transferInput \<Rightarrow> int \<Rightarrow> transaction" where
  "claim_row real32 now tid ref i n =
     (new_transaction now n ref Nip (real32 (rat_of_int (js_round (ti_amount i * 100))))
        (ti_originatorAccountId i) (ti_beneficiaryName i))
       \<lparr>tx_idempotencyKey := Some ref, tx_tenantId := Some tid,
        tx_originatorAccount := Some (ti_originatorAccountId i),
        tx_beneficiaryAccount := Some (ti_beneficiaryAccountId i),
        tx_beneficiaryBank := Some (ti_beneficiaryBankCode i), tx_narration := ti_narration i\<rparr>"

definition outbox_row :: "int \<Rightarrow> int \<Rightarrow> int \<Rightarrow> string \<Rightarrow> rail \<Rightarrow> int \<Rightarrow> outboxRow" where
  "outbox_row now txid tid key rl n =
     \<lparr>ob_id = n, ob_transaction_id = txid, ob_tenant_id = tid, ob_idempotency_key = key, ob_rail = rl,
      ob_status = Queued, ob_attempts = 0, ob_next_attempt_at = now, ob_leased_at = None,
      ob_lease_owner = None, ob_workflow_id = None, ob_workflow_run_id = None, ob_last_error_code = None\<rparr>"

text \<open>The column width and the CHECK and UNIQUE constraints of \<open>payment_intent_outbox\<close>.\<close>

definition outbox_constraints :: "outboxRow \<Rightarrow> outboxRow list \<Rightarrow> bool" where
  "outbox_constraints b bs \<longleftrightarrow>
     0 < ob_tenant_id b \<and> length (ob_idempotency_key b) \<le> 128 \<and>
     (\<forall>x \<in> set bs. ob_transaction_id x \<noteq> ob_transaction_id b \<and> ob_idempotency_key x \<noteq> ob_idempotency_key b)"

definition insert_outbox :: "(int \<Rightarrow> outboxRow) \<Rightarrow> paydb \<Rightarrow> paydb option" where
  "insert_outbox mk s =
     (let b = mk (seq (d_outbox s)) in
      if outbox_constraints b (rows (d_outbox s))
      then Some (s\<lparr>d_outbox := tinsert mk (d_outbox s)\<rparr>) else None)"

text \<open>The payment claim and its workflow-start instruction, in one database transaction.\<close>

definition claim_payment ::
    "(rat \<Rightarrow> rat) \<Rightarrow> int \<Rightarrow> int \<Rightarrow> rail \<Rightarrow> string \<Rightarrow> transferInput \<Rightarrow> (paydb, transaction) act" where
  "claim_payment real32 now tid rl ref i = in_transaction (\<lambda>s.
     case insert_tx (claim_row real32 now tid ref i) s of
       None \<Rightarrow> (Inl DbError, s)
     | Some (t, s1) \<Rightarrow>
        (case insert_outbox (outbox_row now (tx_id t) tid ref rl) s1 of
           None \<Rightarrow> (Inl DbError, s1)
         | Some s2 \<Rightarrow> (Inr t, s2)))"

record transferResult =
  tr_txRef :: string
  tr_id :: int
  tr_status :: txStatus
  tr_rail :: rail
  tr_idempotent :: bool

definition existing_result :: "rail \<Rightarrow> transaction \<Rightarrow> transferResult" where
  "existing_result rl t = \<lparr>tr_txRef = tx_txRef t, tr_id = tx_id t, tr_status = tx_status t, tr_rail = rl, tr_idempotent = True\<rparr>"

definition known_reference :: "int \<Rightarrow> transferInput \<Rightarrow> paydb \<Rightarrow> transaction option" where
  "known_reference tid i s =
     (if truthy_str (ti_reference i) then find_by_ref (Some tid) (the (ti_reference i)) s else None)"

text \<open>\<open>others\<close> is what other requests commit between the lookups and the claim.\<close>

definition submit_claim ::
    "(rat \<Rightarrow> rat) \<Rightarrow> env \<Rightarrow> int \<Rightarrow> rail \<Rightarrow> string \<Rightarrow> transferInput \<Rightarrow> (paydb, transferResult) act" where
  "submit_claim real32 e tid rl ref i s =
     (case claim_payment real32 (e_now e) tid rl ref i s of
        (Inr t, s2) \<Rightarrow> (Inr \<lparr>tr_txRef = ref, tr_id = tx_id t, tr_status = Pending, tr_rail = rl, tr_idempotent = False\<rparr>, s2)
      | (Inl _, s2) \<Rightarrow>
         (case known_reference tid i s2 of
            Some existing \<Rightarrow> (Inr (existing_result rl existing), s2)
          | None \<Rightarrow> (Inl (TRPCError CONFLICT ''Payment reference is unavailable''), s2)))"

definition velocity_message :: "velocityDecision \<Rightarrow> string" where
  "velocity_message d = (case vd_reason d of
     None \<Rightarrow> ''Transfer blocked by velocity control - please try again later'' | Some r \<Rightarrow> r)"

definition vinput :: "transferInput \<Rightarrow> int \<Rightarrow> velocityInput" where
  "vinput i tid = \<lparr>vi_account_id = ti_originatorAccountId i, vi_amount_kobo = js_round (ti_amount i * 100), vi_tenant_id = show_int tid\<rparr>"

definition the_ref :: "string \<Rightarrow> transferInput \<Rightarrow> string" where
  "the_ref genRef i = (case ti_reference i of None \<Rightarrow> genRef | Some r \<Rightarrow> r)"

definition initiateTransfer ::
    "railConfig \<Rightarrow> bool \<Rightarrow> (velocityInput \<Rightarrow> velocityReply) \<Rightarrow> (rat \<Rightarrow> rat) \<Rightarrow> (paydb \<Rightarrow> paydb) \<Rightarrow> string \<Rightarrow>
     env \<Rightarrow> ctx \<Rightarrow> transferInput \<Rightarrow> (paydb, transferResult) act" where
  "initiateTransfer cfg configured reply real32 others genRef e c i =
     writeProcedure e c (\<lambda>u. zod (transfer_input_ok i) (\<lambda>s.
       case c_tenantId c of
         None \<Rightarrow> (Inl (TRPCError FORBIDDEN ''A tenant-scoped payment context is required''), s)
       | Some tid \<Rightarrow>
         if tid \<le> 0 then (Inl (TRPCError FORBIDDEN ''A tenant-scoped payment context is required''), s)
         else case requireActivePaymentRail cfg of
           None \<Rightarrow> (Inl (TRPCError SERVICE_UNAVAILABLE ''No credentialed live payment rail is configured''), s)
         | Some rl \<Rightarrow>
           if \<not> e_dbUp e then (Inl (TRPCError INTERNAL_SERVER_ERROR ''Database unavailable''), s)
           else if ti_originatorAccountId i = ti_beneficiaryAccountId i
           then (Inl (TRPCError BAD_REQUEST ''Originator and beneficiary accounts must differ''), s)
           else (case known_reference tid i s of
               Some existing \<Rightarrow> (Inr (existing_result rl existing), s)
             | None \<Rightarrow>
               (case fluvioCheckVelocity configured reply e (vinput i tid) s of
                  (d, s1) \<Rightarrow>
                    if vd_decision d = ''block''
                    then (Inl (TRPCError TOO_MANY_REQUESTS (velocity_message d)), s1)
                    else submit_claim real32 e tid rl (the_ref genRef i) i (others s1)))))"

section \<open>Listing, fetching and searching\<close>

record transferSummary =
  sm_id :: int
  sm_txRef :: string
  sm_status :: transferStatus
  sm_amount :: rat
  sm_currency :: string
  sm_originatorName :: string
  sm_beneficiaryName :: string
  sm_idempotencyKey :: "string option"
  sm_tigerBeetleId :: "string option"
  sm_createdAt :: int
  sm_updatedAt :: int

definition summary_of :: "transaction \<Rightarrow> transferSummary" where
  "summary_of r =
     \<lparr>sm_id = tx_id r, sm_txRef = tx_txRef r, sm_status = mapStatus (tx_status r), sm_amount = tx_amount r,
      sm_currency = tx_currency r, sm_originatorName = tx_originatorName r,
      sm_beneficiaryName = tx_beneficiaryName r, sm_idempotencyKey = tx_idempotencyKey r,
      sm_tigerBeetleId = tx_tigerBeetleId r, sm_createdAt = tx_createdAt r, sm_updatedAt = tx_updatedAt r\<rparr>"

text \<open>\<open>None\<close> is the filter \<open>all\<close>.\<close>

fun statusMap :: "transferStatus \<Rightarrow> txStatus list" where
  "statusMap TPending = [Pending, Under_review, Flagged]"
| "statusMap TPosted = [Completed]"
| "statusMap TVoided = [Blocked]"
| "statusMap TFailed = [Failed]"
| "statusMap TReversed = [Reversed]"

definition status_filter :: "transferStatus option \<Rightarrow> transaction \<Rightarrow> bool" where
  "status_filter f t = (case f of None \<Rightarrow> True | Some st \<Rightarrow> tx_status t \<in> set (statusMap st))"

record transferPage =
  pg_items :: "transferSummary list"
  pg_hasMore :: bool
  pg_nextCursor :: "string option"

record listTransfersInput =
  lt_status :: "transferStatus option"
  lt_limit :: int
  lt_cursor :: "string option"

definition listTransfers :: "env \<Rightarrow> ctx \<Rightarrow> listTransfersInput \<Rightarrow> (paydb, transferPage) act" where
  "listTransfers e c i =
     protectedProcedure e c (\<lambda>u. zod (1 \<le> lt_limit i \<and> lt_limit i \<le> 200) (requireDb e (\<lambda>s.
       let found = take (nat (lt_limit i + 1)) (order_desc tx_createdAt
             (tselect (\<lambda>t. status_filter (lt_status i) t \<and> tenantCondition (c_tenantId c) (tx_tenantId t)) (d_tx s)));
           hasMore = lt_limit i < int (length found);
           items = map summary_of (take (nat (lt_limit i)) found)
       in (Inr \<lparr>pg_items = items, pg_hasMore = hasMore,
                pg_nextCursor = (if hasMore \<and> items \<noteq> [] then Some (sm_txRef (last items)) else None)\<rparr>, s))))"

definition getTransfer :: "env \<Rightarrow> ctx \<Rightarrow> string \<Rightarrow> (paydb, transaction \<times> transferStatus) act" where
  "getTransfer e c ref =
     protectedProcedure e c (\<lambda>u. requireDb e (\<lambda>s.
       case find_by_ref (c_tenantId c) ref s of
         None \<Rightarrow> (Inl (TRPCError NOT_FOUND ''Transfer not found''), s)
       | Some row \<Rightarrow> (Inr (row, mapStatus (tx_status row)), s)))"

definition search_hit :: "string \<Rightarrow> transaction \<Rightarrow> bool" where
  "search_hit q t \<longleftrightarrow>
     ilike (tx_txRef t) (search_pattern q) \<or> ilike (tx_originatorName t) (search_pattern q) \<or>
     ilike (tx_beneficiaryName t) (search_pattern q) \<or> ilike_opt (tx_originatorAccount t) (search_pattern q) \<or>
     ilike_opt (tx_beneficiaryAccount t) (search_pattern q)"

record searchRow = transferSummary +
  sw_originatorAccount :: "string option"
  sw_beneficiaryAccount :: "string option"

definition search_row :: "transaction \<Rightarrow> searchRow" where
  "search_row r = transferSummary.extend (summary_of r)
     (searchRow.fields (tx_originatorAccount r) (tx_beneficiaryAccount r))"

definition searchTransfers :: "env \<Rightarrow> ctx \<Rightarrow> string \<Rightarrow> int \<Rightarrow> (paydb, searchRow list \<times> string) act" where
  "searchTransfers e c q cnt =
     protectedProcedure e c (\<lambda>u.
       zod (1 \<le> length q \<and> length q \<le> 128 \<and> 1 \<le> cnt \<and> cnt \<le> 50) (requireDb e (\<lambda>s.
         (Inr (map search_row (take (nat cnt) (order_desc tx_createdAt
            (tselect (\<lambda>t. search_hit q t \<and> tenantCondition (c_tenantId c) (tx_tenantId t)) (d_tx s)))), q), s))))"

section \<open>Freezing accounts\<close>

definition touches_account :: "string \<Rightarrow> transaction \<Rightarrow> bool" where
  "touches_account acc t \<longleftrightarrow> tx_originatorAccount t = Some acc \<or> tx_beneficiaryAccount t = Some acc"

definition mark_blocked :: "int \<Rightarrow> transaction \<Rightarrow> transaction" where
  "mark_blocked now t = t\<lparr>tx_status := Blocked, tx_updatedAt := now\<rparr>"

definition admin_name :: "user \<Rightarrow> string" where
  "admin_name u = (case u_name u of Some n \<Rightarrow> n | None \<Rightarrow> (case u_email u of Some m \<Rightarrow> m | None \<Rightarrow> ''Admin''))"

definition frozen_row :: "int \<Rightarrow> user \<Rightarrow> string \<Rightarrow> string option \<Rightarrow> string \<Rightarrow> int \<Rightarrow> int \<Rightarrow> frozenAccount" where
  "frozen_row now u acc nm reason affected n =
     \<lparr>fz_id = n, fz_accountId = acc, fz_accountName = nm, fz_reason = reason, fz_frozenBy = Some (u_id u),
      fz_frozenByName = Some (admin_name u), fz_affectedTransactions = affected, fz_frozenAt = now,
      fz_unfrozenAt = None, fz_unfrozenBy = None, fz_unfrozenByName = None, fz_notes = None\<rparr>"

definition frozen_by :: "string \<Rightarrow> transaction \<Rightarrow> bool" where
  "frozen_by acc t \<longleftrightarrow> (tx_status t = Pending \<or> tx_status t = Under_review) \<and> touches_account acc t"

record freezeResult =
  fr_accountId :: string
  fr_frozenAt :: int
  fr_reason :: string
  fr_affected :: int

text \<open>
  \<open>rowsAffected\<close> is the field of that name of the driver's result; the code counts 0 when
  there is none. The node-postgres driver of \<open>server/db.ts\<close> reports \<open>rowCount\<close> instead.
\<close>

definition freezeAccount ::
    "(nat \<Rightarrow> int option) \<Rightarrow> env \<Rightarrow> ctx \<Rightarrow> string \<Rightarrow> string option \<Rightarrow> string \<Rightarrow> (paydb, freezeResult) act" where
  "freezeAccount rowsAffected e c acc nm reason =
     adminProcedure e c (\<lambda>u.
       zod (1 \<le> length acc \<and> length acc \<le> 64 \<and> fits 255 nm \<and> 1 \<le> length reason \<and> length reason \<le> 512) (requireDb e (\<lambda>s.
         let affected = (case rowsAffected (length (tselect (frozen_by acc) (d_tx s))) of None \<Rightarrow> 0 | Some n \<Rightarrow> n);
             s1 = update_tx (e_now e) (frozen_by acc) (mark_blocked (e_now e)) s in
         if length (admin_name u) \<le> 255
         then (Inr \<lparr>fr_accountId = acc, fr_frozenAt = e_now e, fr_reason = reason, fr_affected = affected\<rparr>,
               s1\<lparr>d_frozen := tinsert (frozen_row (e_now e) u acc nm reason affected) (d_frozen s1),
                  d_published := d_published s1 @ [PubAmlAlert ''account_frozen'' 100 acc]\<rparr>)
         else (Inl DbError, s1))))"

definition getFreezeHistory :: "env \<Rightarrow> ctx \<Rightarrow> string \<Rightarrow> int \<Rightarrow> (paydb, frozenAccount list \<times> string) act" where
  "getFreezeHistory e c acc cnt =
     protectedProcedure e c (\<lambda>u.
       zod (1 \<le> length acc \<and> length acc \<le> 64 \<and> 1 \<le> cnt \<and> cnt \<le> 100) (requireDb e (\<lambda>s.
         (Inr (take (nat cnt) (order_desc fz_frozenAt (tselect (\<lambda>f. fz_accountId f = acc) (d_frozen s))), acc), s))))"

definition open_freeze :: "string \<Rightarrow> frozenAccount \<Rightarrow> bool" where
  "open_freeze acc f \<longleftrightarrow> fz_accountId f = acc \<and> fz_unfrozenAt f = None"

definition mark_unfrozen :: "int \<Rightarrow> user \<Rightarrow> string option \<Rightarrow> frozenAccount \<Rightarrow> frozenAccount" where
  "mark_unfrozen now u notes f =
     f\<lparr>fz_unfrozenAt := Some now, fz_unfrozenBy := Some (u_id u), fz_unfrozenByName := Some (admin_name u), fz_notes := notes\<rparr>"

text \<open>Only the most recent open freeze of the account is closed.\<close>

definition unfreezeAccount :: "env \<Rightarrow> ctx \<Rightarrow> string \<Rightarrow> string option \<Rightarrow> (paydb, string \<times> int) act" where
  "unfreezeAccount e c acc notes =
     adminProcedure e c (\<lambda>u. zod (1 \<le> length acc \<and> length acc \<le> 64 \<and> fits 512 notes) (requireDb e (\<lambda>s.
       let done = (\<lambda>s1. (Inr (acc, e_now e), s1\<lparr>d_published := d_published s1 @ [PubAmlAlert ''account_unfrozen'' 0 acc]\<rparr>)) in
       case order_desc fz_frozenAt (tselect (open_freeze acc) (d_frozen s)) of
         [] \<Rightarrow> done s
       | latest # _ \<Rightarrow>
           if length (admin_name u) \<le> 255
           then done (s\<lparr>d_frozen := tupdate (\<lambda>f. fz_id f = fz_id latest) (mark_unfrozen (e_now e) u notes) (d_frozen s)\<rparr>)
           else (Inl DbError, s))))"

definition bulkUnfreeze :: "env \<Rightarrow> ctx \<Rightarrow> string list \<Rightarrow> string \<Rightarrow> (paydb, nat \<times> int) act" where
  "bulkUnfreeze e c accs reason =
     adminProcedure e c (\<lambda>u.
       zod (1 \<le> length accs \<and> length accs \<le> 50 \<and> 5 \<le> length reason \<and> length reason \<le> 500) (requireDb e (\<lambda>s.
         (Inr (length accs, e_now e),
          s\<lparr>d_frozen := tupdate (\<lambda>f. fz_accountId f \<in> set accs \<and> fz_unfrozenAt f = None)
               (\<lambda>f. f\<lparr>fz_unfrozenAt := Some (e_now e), fz_notes := Some reason, fz_unfrozenBy := Some (u_id u)\<rparr>) (d_frozen s)\<rparr>))))"

record frozenInput =
  fi_includeUnfrozen :: bool
  fi_cursor :: int
  fi_limit :: int

text \<open>An absent input is the record of the defaults \<open>False\<close>, 0 and 25.\<close>

definition listFrozenAccounts :: "env \<Rightarrow> ctx \<Rightarrow> frozenInput option \<Rightarrow> (paydb, frozenAccount list \<times> int option) act" where
  "listFrozenAccounts e c inp =
     adminProcedure e c (\<lambda>u.
       let i = (case inp of None \<Rightarrow> \<lparr>fi_includeUnfrozen = False, fi_cursor = 0, fi_limit = 25\<rparr> | Some x \<Rightarrow> x) in
       zod (1 \<le> fi_limit i \<and> fi_limit i \<le> 100) (\<lambda>s.
         if \<not> e_dbUp e then (Inr ([], None), s)
         else if fi_cursor i < 0 then (Inl DbError, s)
         else (let found = page (fi_limit i + 1) (fi_cursor i) (order_desc fz_frozenAt
                     (tselect (\<lambda>f. fi_includeUnfrozen i \<or> fz_unfrozenAt f = None) (d_frozen s)));
                   hasMore = fi_limit i < int (length found)
               in (Inr (take (nat (fi_limit i)) found, if hasMore then Some (fi_cursor i + fi_limit i) else None), s))))"

section \<open>Reversing a transfer\<close>

definition insert_audit :: "(int \<Rightarrow> auditEntry) \<Rightarrow> paydb \<Rightarrow> paydb option" where
  "insert_audit mk s =
     (let a = mk (seq (d_audit s)) in
      if au_category a \<in> set auditCategoryEnum \<and> au_result a \<in> set auditResultEnum
      then Some (s\<lparr>d_audit := tinsert mk (d_audit s)\<rparr>) else None)"

definition reversal_row :: "int \<Rightarrow> string \<Rightarrow> string \<Rightarrow> string \<Rightarrow> transaction \<Rightarrow> int \<Rightarrow> transaction" where
  "reversal_row now rref ref reason t n =
     (new_transaction now n rref (tx_type t) (tx_amount t) (tx_beneficiaryName t) (tx_originatorName t))
       \<lparr>tx_tenantId := tx_tenantId t, tx_currency := tx_currency t,
        tx_originatorAccount := tx_beneficiaryAccount t, tx_beneficiaryAccount := tx_originatorAccount t,
        tx_status := Completed, tx_narration := Some (''Reversal of '' @ ref @ '': '' @ reason),
        tx_idempotencyKey := Some (''reversal-'' @ ref)\<rparr>"

definition mark_reversed :: "int \<Rightarrow> transaction \<Rightarrow> transaction" where
  "mark_reversed now t = t\<lparr>tx_status := Reversed, tx_updatedAt := now\<rparr>"

definition reversal_audit :: "int \<Rightarrow> int \<Rightarrow> string \<Rightarrow> string \<Rightarrow> string \<Rightarrow> int \<Rightarrow> auditEntry" where
  "reversal_audit now uid ref reason rref n =
     \<lparr>au_id = n, au_userId = Some uid, au_category = ''financial'', au_action = ''transfer.reversed'',
      au_targetRef = Some ref, au_result = ''success'',
      au_detail = [(''reason'', reason), (''reversalRef'', rref)], au_createdAt = now\<rparr>"

definition reversalRef_of :: "int \<Rightarrow> string \<Rightarrow> string" where
  "reversalRef_of now ref = ''REV-'' @ ref @ ''-'' @ show_int now"

definition post_reversal :: "int \<Rightarrow> int option \<Rightarrow> string \<Rightarrow> string \<Rightarrow> string \<Rightarrow> transaction \<Rightarrow> (paydb, unit) act" where
  "post_reversal now tid rref ref reason t = in_transaction (\<lambda>s.
     let s1 = update_tx now (\<lambda>r. tx_txRef r = ref \<and> tenantCondition tid (tx_tenantId r)) (mark_reversed now) s in
     case insert_tx (reversal_row now rref ref reason t) s1 of
       None \<Rightarrow> (Inl DbError, s1)
     | Some (_, s2) \<Rightarrow> (Inr (), s2))"

definition reversal_events :: "string \<Rightarrow> transaction \<Rightarrow> pubEvent list" where
  "reversal_events ref t =
     [PubPayment ''reversed'' ref (tx_amount t) (tx_currency t),
      FluvioPayment ''reversed'' ref (case tx_originatorAccount t of None \<Rightarrow> [] | Some a \<Rightarrow> a) (tx_amount t)]"

text \<open>The audit row is best effort: its failure is swallowed.\<close>

definition reverseTransfer :: "env \<Rightarrow> ctx \<Rightarrow> string \<Rightarrow> string \<Rightarrow> (paydb, string \<times> string) act" where
  "reverseTransfer e c ref reason =
     adminProcedure e c (\<lambda>u. zod (1 \<le> length ref \<and> 5 \<le> length reason \<and> length reason \<le> 500) (requireDb e (\<lambda>s.
       case find_by_ref (c_tenantId c) ref s of
         None \<Rightarrow> (Inl (TRPCError NOT_FOUND ''Transfer not found''), s)
       | Some t \<Rightarrow>
          if tx_status t \<noteq> Completed
          then (Inl (TRPCError BAD_REQUEST ''Only completed transfers can be reversed''), s)
          else (let rref = reversalRef_of (e_now e) ref in
                case post_reversal (e_now e) (c_tenantId c) rref ref reason t s of
                  (Inl err, s1) \<Rightarrow> (Inl err, s1)
                | (Inr _, s1) \<Rightarrow>
                   (let s2 = (case insert_audit (reversal_audit (e_now e) (u_id u) ref reason rref) s1 of
                                None \<Rightarrow> s1 | Some x \<Rightarrow> x)
                    in (Inr (rref, ref), s2\<lparr>d_published := d_published s2 @ reversal_events ref t\<rparr>))))))"

section \<open>Export schedules\<close>

datatype scheduleKind = Daily | Weekly | Monthly

fun cronMap :: "scheduleKind \<Rightarrow> string" where
  "cronMap Daily = ''0 2 * * *''"
| "cronMap Weekly = ''0 2 * * 1''"
| "cronMap Monthly = ''0 2 1 * *''"

definition createExportSchedule ::
    "env \<Rightarrow> ctx \<Rightarrow> string \<Rightarrow> scheduleKind \<Rightarrow> (string \<times> string) list \<Rightarrow> (paydb, exportSchedule) act" where
  "createExportSchedule e c nm kind filters =
     protectedProcedure e c (\<lambda>u. zod (1 \<le> length nm \<and> length nm \<le> 100) (requireDb e (\<lambda>s.
       let mk = (\<lambda>n. \<lparr>xs_id = n, xs_userId = u_id u, xs_name = nm, xs_exportType = ''transfers'', xs_format = ''csv'',
             xs_filters = filters, xs_cronExpression = cronMap kind, xs_enabled = True,
             xs_createdAt = e_now e, xs_updatedAt = e_now e\<rparr>)
       in (Inr (mk (seq (d_schedules s))), s\<lparr>d_schedules := tinsert mk (d_schedules s)\<rparr>))))"

definition listExportSchedules :: "env \<Rightarrow> ctx \<Rightarrow> (paydb, exportSchedule list) act" where
  "listExportSchedules e c =
     protectedProcedure e c (\<lambda>u s.
       if \<not> e_dbUp e then (Inr [], s)
       else (Inr (order_desc xs_createdAt (tselect (\<lambda>x. xs_exportType x = ''transfers'') (d_schedules s))), s))"

section \<open>Name enquiry\<close>

record accountAnswer =
  aa_accountNumber :: string
  aa_accountName :: string
  aa_bankName :: string
  aa_verified :: bool

definition first_name :: "(transaction \<Rightarrow> string option) \<Rightarrow> (transaction \<Rightarrow> string) \<Rightarrow> int option \<Rightarrow> string \<Rightarrow> paydb \<Rightarrow> string option" where
  "first_name acct nm tid no s =
     (case tselect (\<lambda>t. acct t = Some no \<and> tenantCondition tid (tx_tenantId t)) (d_tx s) of
        [] \<Rightarrow> None
      | t # _ \<Rightarrow> if nm t = [] then None else Some (nm t))"

text \<open>\<open>gateway\<close> is the live name enquiry: \<open>None\<close> when not configured, unreachable, rejected or nameless.\<close>

definition lookupAccount ::
    "(string \<Rightarrow> string option \<Rightarrow> accountAnswer option) \<Rightarrow> env \<Rightarrow> ctx \<Rightarrow> string \<Rightarrow> string option \<Rightarrow> (paydb, accountAnswer) act" where
  "lookupAccount gateway e c no bank =
     protectedProcedure e c (\<lambda>u.
       zod (length no = 10 \<and> all_digits no \<and> (case bank of None \<Rightarrow> True | Some b \<Rightarrow> 3 \<le> length b \<and> length b \<le> 6)) (\<lambda>s.
         if \<not> e_dbUp e then (Inl (TRPCError SERVICE_UNAVAILABLE ''Database unavailable''), s)
         else case first_name tx_originatorAccount tx_originatorName (c_tenantId c) no s of
           Some n \<Rightarrow> (Inr \<lparr>aa_accountNumber = no, aa_accountName = n, aa_bankName = ''BIS Member Bank'', aa_verified = True\<rparr>, s)
         | None \<Rightarrow>
           (case first_name tx_beneficiaryAccount tx_beneficiaryName (c_tenantId c) no s of
              Some n \<Rightarrow> (Inr \<lparr>aa_accountNumber = no, aa_accountName = n, aa_bankName = ''BIS Member Bank'', aa_verified = True\<rparr>, s)
            | None \<Rightarrow>
              (case gateway no bank of
                 Some a \<Rightarrow> (Inr a, s)
               | None \<Rightarrow> (Inl (TRPCError NOT_FOUND ''Account not found. The NIP gateway is unavailable or this account number is not registered. Please verify the account number and try again.''), s)))))"

section \<open>Workflow status and cancellation\<close>

fun stageMap :: "txStatus \<Rightarrow> string" where
  "stageMap Pending = ''Processing''"
| "stageMap Under_review = ''Under Review''"
| "stageMap Flagged = ''Flagged - Compliance Review''"
| "stageMap Completed = ''Confirmed''"
| "stageMap Failed = ''Failed''"
| "stageMap Reversed = ''Reversed''"
| "stageMap Blocked = ''Blocked''"

record workflowView =
  wv_txRef :: string
  wv_id :: int
  wv_dbStatus :: transferStatus
  wv_stage :: string
  wv_amount :: rat
  wv_currency :: string
  wv_originatorName :: string
  wv_beneficiaryName :: string
  wv_tigerBeetleId :: "string option"
  wv_createdAt :: int
  wv_updatedAt :: int
  wv_workflow :: string

text \<open>\<open>wfStatus\<close> is the status service; \<open>None\<close> when the call throws.\<close>

definition getWorkflowStatus :: "(string \<Rightarrow> string option) \<Rightarrow> env \<Rightarrow> ctx \<Rightarrow> string \<Rightarrow> (paydb, workflowView) act" where
  "getWorkflowStatus wfStatus e c ref =
     protectedProcedure e c (\<lambda>u. zod (1 \<le> length ref) (requireDb e (\<lambda>s.
       case find_by_ref (c_tenantId c) ref s of
         None \<Rightarrow> (Inl (TRPCError NOT_FOUND ''Transfer not found''), s)
       | Some row \<Rightarrow>
          (Inr \<lparr>wv_txRef = tx_txRef row, wv_id = tx_id row, wv_dbStatus = mapStatus (tx_status row), wv_stage = stageMap (tx_status row),
                wv_amount = tx_amount row, wv_currency = tx_currency row, wv_originatorName = tx_originatorName row,
                wv_beneficiaryName = tx_beneficiaryName row, wv_tigerBeetleId = tx_tigerBeetleId row,
                wv_createdAt = tx_createdAt row, wv_updatedAt = tx_updatedAt row,
                wv_workflow = (case wfStatus ref of None \<Rightarrow> ''unknown'' | Some st \<Rightarrow> st)\<rparr>, s))))"

definition cancelWorkflow :: "env \<Rightarrow> ctx \<Rightarrow> string \<Rightarrow> (paydb, string) act" where
  "cancelWorkflow e c ref =
     writeProcedure e c (\<lambda>u. zod (1 \<le> length ref) (requireDb e (\<lambda>s.
       case find_by_ref (c_tenantId c) ref s of
         None \<Rightarrow> (Inl (TRPCError NOT_FOUND ''Transfer not found''), s)
       | Some row \<Rightarrow>
          if tx_status row \<noteq> Pending \<and> tx_status row \<noteq> Under_review
          then (Inl (TRPCError BAD_REQUEST (''Cannot cancel a transfer in '' @ [CHR 0x27] @ txStatus_text (tx_status row) @ [CHR 0x27] @ '' status'')), s)
          else (Inr ref, s\<lparr>d_published := d_published s @ [CancelSignal ref]\<rparr>))))"

section \<open>What an initiation does\<close>

lemma velocity_frame [simp]:
  "d_tx (snd (fluvioCheckVelocity configured reply e vi s)) = d_tx s"
  "d_outbox (snd (fluvioCheckVelocity configured reply e vi s)) = d_outbox s"
  "d_cases (snd (fluvioCheckVelocity configured reply e vi s)) = d_cases s"
  by (auto simp: fluvioCheckVelocity_def Let_def split: velocityReply.splits)

text \<open>The decision is not a block only if the service answered something else than a block.\<close>

lemma velocity_passes:
  "vd_decision (fst (fluvioCheckVelocity configured reply e vi s)) \<noteq> ''block'' \<longleftrightarrow>
   configured \<and> (\<exists>b. reply vi = VAnswer b \<and> vy_decision b \<noteq> Some ''block'')"
  by (auto simp: fluvioCheckVelocity_def Let_def split: velocityReply.splits option.splits)

lemma insert_outbox_SomeD:
  assumes "insert_outbox mk s = Some s'"
  shows "s' = s\<lparr>d_outbox := tinsert mk (d_outbox s)\<rparr>"
    "\<forall>x \<in> set (rows (d_outbox s)). ob_transaction_id x \<noteq> ob_transaction_id (mk (seq (d_outbox s))) \<and>
            ob_idempotency_key x \<noteq> ob_idempotency_key (mk (seq (d_outbox s)))"
  using assms by (auto simp: insert_outbox_def outbox_constraints_def Let_def split: if_splits)

text \<open>A claim is both rows or neither.\<close>

lemma claim_cases:
  obtains (refused) err where "claim_payment real32 now tid rl ref i s = (Inl err, s)"
    | (claimed) t s1 s2 where "claim_payment real32 now tid rl ref i s = (Inr t, s2)"
        "insert_tx (claim_row real32 now tid ref i) s = Some (t, s1)"
        "insert_outbox (outbox_row now (tx_id t) tid ref rl) s1 = Some s2"
proof (cases "insert_tx (claim_row real32 now tid ref i) s")
  case None
  then show thesis by (intro that(1)) (simp add: claim_payment_def in_transaction_def)
next
  case (Some p)
  then obtain t s1 where p: "insert_tx (claim_row real32 now tid ref i) s = Some (t, s1)" by (cases p) auto
  show thesis
  proof (cases "insert_outbox (outbox_row now (tx_id t) tid ref rl) s1")
    case None
    with p show thesis by (intro that(1)) (simp add: claim_payment_def in_transaction_def)
  next
    case (Some s2)
    with p show thesis by (intro that(2)) (simp_all add: claim_payment_def in_transaction_def)
  qed
qed

lemma submit_cases:
  obtains (refused) err where "submit_claim real32 e tid rl ref i s = (Inl err, s)"
    | (raced) t where "known_reference tid i s = Some t" "submit_claim real32 e tid rl ref i s = (Inr (existing_result rl t), s)"
    | (claimed) t s1 s2 where
        "submit_claim real32 e tid rl ref i s =
          (Inr \<lparr>tr_txRef = ref, tr_id = tx_id t, tr_status = Pending, tr_rail = rl, tr_idempotent = False\<rparr>, s2)"
        "insert_tx (claim_row real32 (e_now e) tid ref i) s = Some (t, s1)"
        "insert_outbox (outbox_row (e_now e) (tx_id t) tid ref rl) s1 = Some s2"
proof (cases rule: claim_cases [of real32 "e_now e" tid rl ref i s])
  case (refused err)
  then show thesis
    by (cases "known_reference tid i s") (auto intro: that(1,2) simp: submit_claim_def)
next
  case (claimed t s1 s2)
  then show thesis by (intro that(3)) (simp_all add: submit_claim_def)
qed

lemma initiate_cases:
  assumes "initiateTransfer cfg configured reply real32 others genRef e c i s = (r, s')"
  obtains (rejected) err where "r = Inl err" "s' = s"
    | (known) tid rl t where "c_tenantId c = Some tid" "requireActivePaymentRail cfg = Some rl"
        "known_reference tid i s = Some t" "r = Inr (existing_result rl t)" "s' = s"
    | (blocked) tid err where "r = Inl err" "c_tenantId c = Some tid"
        "s' = snd (fluvioCheckVelocity configured reply e (vinput i tid) s)"
    | (submitted) tid rl where "c_tenantId c = Some tid" "0 < tid" "requireActivePaymentRail cfg = Some rl"
        "transfer_input_ok i" "known_reference tid i s = None"
        "vd_decision (fst (fluvioCheckVelocity configured reply e (vinput i tid) s)) \<noteq> ''block''"
        "submit_claim real32 e tid rl (the_ref genRef i) i
           (others (snd (fluvioCheckVelocity configured reply e (vinput i tid) s))) = (r, s')"
proof (cases "(\<exists>err. r = Inl err) \<and> s' = s")
  case True
  then show thesis using that(1) by blast
next
  case False
  note unf = assms [unfolded initiateTransfer_def writeProcedure_def]
  from unf False obtain u where u: "c_user c = Some u" by (cases "c_user c") auto
  from unf u False have live: "\<not> c_isDemo c" by auto
  from unf u live False have ok: "transfer_input_ok i" by (auto split: if_splits)
  from unf u live ok False obtain tid where tid: "c_tenantId c = Some tid" by (cases "c_tenantId c") auto
  from unf u live ok tid False have pos: "0 < tid" by (auto split: if_splits)
  from unf u live ok tid pos False obtain rl where rl: "requireActivePaymentRail cfg = Some rl"
    by (cases "requireActivePaymentRail cfg") auto
  from unf u live ok tid pos rl False have up: "e_dbUp e" by (auto split: if_splits)
  from unf u live ok tid pos rl up False have differ: "ti_originatorAccountId i \<noteq> ti_beneficiaryAccountId i"
    by (auto split: if_splits)
  from unf u live ok tid pos rl up differ have body:
    "(case known_reference tid i s of
        Some existing \<Rightarrow> (Inr (existing_result rl existing), s)
      | None \<Rightarrow> (case fluvioCheckVelocity configured reply e (vinput i tid) s of (d, s1) \<Rightarrow>
          if vd_decision d = ''block'' then (Inl (TRPCError TOO_MANY_REQUESTS (velocity_message d)), s1)
          else submit_claim real32 e tid rl (the_ref genRef i) i (others s1))) = (r, s')"
    by simp
  show thesis
  proof (cases "known_reference tid i s")
    case None
    obtain d s1 where d: "fluvioCheckVelocity configured reply e (vinput i tid) s = (d, s1)" by fastforce
    show thesis
    proof (cases "vd_decision d = ''block''")
      case True
      show thesis by (rule that(3) [OF _ tid]) (use body None d True in auto)
    next
      case F: False
      show thesis by (rule that(4) [OF tid pos rl ok None]) (use body None d F in simp_all)
    qed
  next
    case (Some t)
    show thesis by (rule that(2) [OF tid rl Some]) (use body Some in simp_all)
  qed
qed

end
