(* ===== verification/Payment_Reports.thy ===== *)
theory Payment_Reports
  imports Payment_Rails "HOL-Library.AList"
begin

text \<open>
  \<open>server/paymentRails.ts\<close>, the read side: queue statistics, account balances derived from the
  transactions table, the account page, the CSV export, the batch and archival monitors, the
  volume analytics and the daily reconciliation report. A \<open>GROUP BY\<close> without \<open>ORDER BY\<close> lists
  its groups in order of first appearance; times are UTC.
\<close>

section \<open>Dates\<close>

definition DAY_MS :: int where "DAY_MS = 24 * 60 * 60 * 1000"
definition HOUR_MS :: int where "HOUR_MS = 60 * 60 * 1000"

definition day_of :: "int \<Rightarrow> int" where
  "day_of ms = ms div DAY_MS"

text \<open>Year, month and day of a day number counted from 1970-01-01 (proleptic Gregorian).\<close>

definition civil_from_days :: "int \<Rightarrow> int \<times> int \<times> int" where
  "civil_from_days d =
     (let z = d + 719468; era = z div 146097; doe = z - era * 146097;
          yoe = (doe - doe div 1460 + doe div 36524 - doe div 146096) div 365;
          y = yoe + era * 400; doy = doe - (365 * yoe + yoe div 4 - yoe div 100);
          mp = (5 * doy + 2) div 153; dd = doy - (153 * mp + 2) div 5 + 1;
          m = (if mp < 10 then mp + 3 else mp - 9)
      in (if m \<le> 2 then y + 1 else y, m, dd))"

definition pad :: "nat \<Rightarrow> string \<Rightarrow> string" where
  "pad n s = replicate (n - length s) (CHR ''0'') @ s"

definition iso_day :: "int \<Rightarrow> string" where
  "iso_day d = (case civil_from_days d of (y, m, dd) \<Rightarrow>
     pad 4 (show_int y) @ ''-'' @ pad 2 (show_int m) @ ''-'' @ pad 2 (show_int dd))"

text \<open>\<open>d.getDay() || 7\<close>: Monday is 1 and Sunday 7; day 0 was a Thursday.\<close>

definition weekday :: "int \<Rightarrow> int" where
  "weekday d = (let w = (d + 4) mod 7 in if w = 0 then 7 else w)"

section \<open>Queue statistics\<close>

record queueStats =
  qs_pendingCount :: nat
  qs_postedLast24h :: nat
  qs_failedLast24h :: nat
  qs_reversedLast24h :: nat
  qs_avgProcessingMs :: int
  qs_batchSize :: int
  qs_estimatedTps :: int

definition count_tx :: "(transaction \<Rightarrow> bool) \<Rightarrow> paydb \<Rightarrow> nat" where
  "count_tx P s = length (tselect P (d_tx s))"

definition in_pipeline :: "transaction \<Rightarrow> bool" where
  "in_pipeline t \<longleftrightarrow> tx_status t \<in> set [Pending, Under_review, Flagged]"

definition getQueueStats :: "env \<Rightarrow> ctx \<Rightarrow> (paydb, queueStats) act" where
  "getQueueStats e c =
     protectedProcedure e c (\<lambda>u. requireDb e (\<lambda>s.
       let last24h = e_now e - DAY_MS; last1min = e_now e - 60 * 1000;
           mine = (\<lambda>t. tenantCondition (c_tenantId c) (tx_tenantId t));
           since = (\<lambda>st lo. count_tx (\<lambda>t. tx_status t = st \<and> lo \<le> tx_createdAt t \<and> mine t) s);
           pendingCount = count_tx (\<lambda>t. in_pipeline t \<and> mine t) s;
           tpsCount = since Completed last1min
       in (Inr \<lparr>qs_pendingCount = pendingCount, qs_postedLast24h = since Completed last24h,
                qs_failedLast24h = since Failed last24h, qs_reversedLast24h = since Reversed last24h,
                qs_avgProcessingMs = (if 0 < pendingCount then 12 else 0), qs_batchSize = 8190,
                qs_estimatedTps = js_round (rat_of_nat tpsCount / 60)\<rparr>, s)))"

section \<open>Account balances\<close>

record groupRow =
  gr_account :: string
  gr_name :: string
  gr_currency :: string
  gr_pending :: rat
  gr_posted :: rat

definition pending_sum :: "transaction list \<Rightarrow> rat" where
  "pending_sum ts = sum_list (map (\<lambda>t. if in_pipeline t then tx_amount t else 0) ts)"

definition posted_sum :: "transaction list \<Rightarrow> rat" where
  "posted_sum ts = sum_list (map (\<lambda>t. if tx_status t = Completed then tx_amount t else 0) ts)"

definition first_seen :: "'a list \<Rightarrow> 'a list" where
  "first_seen xs = rev (remdups (rev xs))"

definition group_key :: "(transaction \<Rightarrow> string option) \<Rightarrow> (transaction \<Rightarrow> string) \<Rightarrow> transaction \<Rightarrow> string \<times> string \<times> string" where
  "group_key acct nm t = (the (acct t), nm t, tx_currency t)"

definition aggregate :: "(transaction \<Rightarrow> string option) \<Rightarrow> (transaction \<Rightarrow> string) \<Rightarrow> string list option \<Rightarrow> int option \<Rightarrow> int \<Rightarrow> paydb \<Rightarrow> groupRow list" where
  "aggregate acct nm ids tid cnt s =
     (let ts = tselect (\<lambda>t. acct t \<noteq> None \<and>
            (case ids of None \<Rightarrow> True | Some is \<Rightarrow> is = [] \<or> the (acct t) \<in> set is) \<and> tenantCondition tid (tx_tenantId t)) (d_tx s)
      in take (nat cnt) (map (\<lambda>k. let g = filter (\<lambda>t. group_key acct nm t = k) ts in
           \<lparr>gr_account = fst k, gr_name = fst (snd k), gr_currency = snd (snd k),
            gr_pending = pending_sum g, gr_posted = posted_sum g\<rparr>)
         (first_seen (map (group_key acct nm) ts))))"

record accountBalance =
  ab_accountId :: string
  ab_accountName :: string
  ab_debitsPending :: rat
  ab_debitsPosted :: rat
  ab_creditsPending :: rat
  ab_creditsPosted :: rat
  ab_netBalance :: rat
  ab_currency :: string

definition set_debit :: "groupRow \<Rightarrow> (string \<times> accountBalance) list \<Rightarrow> (string \<times> accountBalance) list" where
  "set_debit d m =
     (if gr_account d = [] then m
      else AList.update (gr_account d)
        \<lparr>ab_accountId = gr_account d, ab_accountName = gr_name d, ab_debitsPending = gr_pending d,
         ab_debitsPosted = gr_posted d, ab_creditsPending = 0, ab_creditsPosted = 0,
         ab_netBalance = - gr_posted d, ab_currency = gr_currency d\<rparr> m)"

definition set_credit :: "groupRow \<Rightarrow> (string \<times> accountBalance) list \<Rightarrow> (string \<times> accountBalance) list" where
  "set_credit c m =
     (if gr_account c = [] then m
      else case map_of m (gr_account c) of
        Some existing \<Rightarrow> AList.update (gr_account c)
          (existing\<lparr>ab_creditsPending := gr_pending c, ab_creditsPosted := gr_posted c,
             ab_netBalance := gr_posted c - ab_debitsPosted existing\<rparr>) m
      | None \<Rightarrow> AList.update (gr_account c)
          \<lparr>ab_accountId = gr_account c, ab_accountName = gr_name c, ab_debitsPending = 0,
           ab_debitsPosted = 0, ab_creditsPending = gr_pending c, ab_creditsPosted = gr_posted c,
           ab_netBalance = gr_posted c, ab_currency = gr_currency c\<rparr> m)"

definition balanceMap :: "groupRow list \<Rightarrow> groupRow list \<Rightarrow> (string \<times> accountBalance) list" where
  "balanceMap debits credits = fold set_credit credits (fold set_debit debits [])"

definition getAccountBalances ::
    "env \<Rightarrow> ctx \<Rightarrow> string list option \<Rightarrow> int \<Rightarrow> (paydb, accountBalance list \<times> nat) act" where
  "getAccountBalances e c ids cnt =
     protectedProcedure e c (\<lambda>u.
       zod ((case ids of None \<Rightarrow> True | Some is \<Rightarrow> length is \<le> 50) \<and> 1 \<le> cnt \<and> cnt \<le> 100) (requireDb e (\<lambda>s.
         let m = balanceMap (aggregate tx_originatorAccount tx_originatorName ids (c_tenantId c) cnt s)
                   (aggregate tx_beneficiaryAccount tx_beneficiaryName ids (c_tenantId c) cnt s)
         in (Inr (sort_key (\<lambda>b. - \<bar>ab_netBalance b\<bar>) (map snd m), length m), s))))"

section \<open>The account page\<close>

record dailyPoint =
  dp_day :: string
  dp_credits :: rat
  dp_debits :: rat
  dp_net :: rat

record historyRow =
  hr_txRef :: string
  hr_status :: transferStatus
  hr_amount :: rat
  hr_currency :: string
  hr_originatorName :: string
  hr_originatorAccount :: "string option"
  hr_beneficiaryName :: string
  hr_beneficiaryAccount :: "string option"
  hr_createdAt :: int
  hr_idempotencyKey :: "string option"

definition history_of :: "transaction \<Rightarrow> historyRow" where
  "history_of r =
     \<lparr>hr_txRef = tx_txRef r, hr_status = mapStatus (tx_status r), hr_amount = tx_amount r, hr_currency = tx_currency r,
      hr_originatorName = tx_originatorName r, hr_originatorAccount = tx_originatorAccount r,
      hr_beneficiaryName = tx_beneficiaryName r, hr_beneficiaryAccount = tx_beneficiaryAccount r,
      hr_createdAt = tx_createdAt r, hr_idempotencyKey = tx_idempotencyKey r\<rparr>"

record accountDetail =
  ad_accountId :: string
  ad_accountName :: string
  ad_currency :: string
  ad_debitsPosted :: rat
  ad_creditsPosted :: rat
  ad_debitsPending :: rat
  ad_creditsPending :: rat
  ad_net :: rat
  ad_history :: "historyRow list"
  ad_dailySeries :: "dailyPoint list"

definition first_group :: "(transaction \<Rightarrow> string option) \<Rightarrow> (transaction \<Rightarrow> string) \<Rightarrow> string \<Rightarrow> int option \<Rightarrow> paydb \<Rightarrow> groupRow option" where
  "first_group acct nm acc tid s =
     (case aggregate acct nm (Some [acc]) tid 1 s of [] \<Rightarrow> None | g # _ \<Rightarrow> Some g)"

definition daily_series :: "int \<Rightarrow> int option \<Rightarrow> string \<Rightarrow> paydb \<Rightarrow> dailyPoint list" where
  "daily_series lo tid acc s =
     (let ts = tselect (\<lambda>t. lo \<le> tx_createdAt t \<and> touches_account acc t \<and> tenantCondition tid (tx_tenantId t)) (d_tx s)
      in map (\<lambda>d. let g = filter (\<lambda>t. day_of (tx_createdAt t) = d) ts;
                      cr = posted_sum (filter (\<lambda>t. tx_beneficiaryAccount t = Some acc) g);
                      db = posted_sum (filter (\<lambda>t. tx_originatorAccount t = Some acc) g)
                  in \<lparr>dp_day = iso_day d, dp_credits = cr, dp_debits = db, dp_net = cr - db\<rparr>)
           (sort (remdups (map (\<lambda>t. day_of (tx_createdAt t)) ts))))"

definition group_posted :: "groupRow option \<Rightarrow> rat" where
  "group_posted g = (case g of None \<Rightarrow> 0 | Some r \<Rightarrow> gr_posted r)"

definition group_pending :: "groupRow option \<Rightarrow> rat" where
  "group_pending g = (case g of None \<Rightarrow> 0 | Some r \<Rightarrow> gr_pending r)"

definition getAccountDetail :: "env \<Rightarrow> ctx \<Rightarrow> string \<Rightarrow> int \<Rightarrow> (paydb, accountDetail) act" where
  "getAccountDetail e c acc historyLimit =
     protectedProcedure e c (\<lambda>u.
       zod (1 \<le> length acc \<and> length acc \<le> 64 \<and> 1 \<le> historyLimit \<and> historyLimit \<le> 200) (requireDb e (\<lambda>s.
         let d = first_group tx_originatorAccount tx_originatorName acc (c_tenantId c) s;
             k = first_group tx_beneficiaryAccount tx_beneficiaryName acc (c_tenantId c) s in
         if d = None \<and> k = None then (Inl (TRPCError NOT_FOUND ''Account not found''), s)
         else (Inr \<lparr>ad_accountId = acc,
               ad_accountName = (case d of Some g \<Rightarrow> gr_name g | None \<Rightarrow> (case k of Some g \<Rightarrow> gr_name g | None \<Rightarrow> acc)),
               ad_currency = (case d of Some g \<Rightarrow> gr_currency g | None \<Rightarrow> (case k of Some g \<Rightarrow> gr_currency g | None \<Rightarrow> ''NGN'')),
               ad_debitsPosted = group_posted d, ad_creditsPosted = group_posted k,
               ad_debitsPending = group_pending d, ad_creditsPending = group_pending k,
               ad_net = group_posted k - group_posted d,
               ad_history = map history_of (take (nat historyLimit) (order_desc tx_createdAt
                 (tselect (\<lambda>t. touches_account acc t \<and> tenantCondition (c_tenantId c) (tx_tenantId t)) (d_tx s)))),
               ad_dailySeries = daily_series (e_now e - 30 * DAY_MS) (c_tenantId c) acc s\<rparr>, s))))"

section \<open>The CSV export\<close>

definition quote_doubled :: "string \<Rightarrow> string" where
  "quote_doubled s = concat (map (\<lambda>ch. if ch = CHR 0x22 then [ch, ch] else [ch]) s)"

definition escape :: "string option \<Rightarrow> string" where
  "escape v = (case v of None \<Rightarrow> []
     | Some s \<Rightarrow> if CHR '','' \<in> set s \<or> CHR 0x22 \<in> set s \<or> CHR 0x0A \<in> set s
               then [CHR 0x22] @ quote_doubled s @ [CHR 0x22] else s)"

definition csv_line :: "string option list \<Rightarrow> string" where
  "csv_line vs = join_with '','' (map escape vs)"

definition csv_headers :: "string list" where
  "csv_headers = [''txRef'', ''type'', ''status'', ''amount'', ''currency'', ''originatorName'', ''originatorAccount'',
     ''originatorBank'', ''beneficiaryName'', ''beneficiaryAccount'', ''beneficiaryBank'', ''purposeCode'',
     ''amlRiskLevel'', ''amlScore'', ''idempotencyKey'', ''tigerBeetleId'', ''createdAt'', ''updatedAt'']"

text \<open>
  \<open>showNum\<close> prints a number, \<open>isoTime\<close> is \<open>toISOString\<close> and \<open>typeText\<close> the column text of the type.
\<close>

definition csv_fields :: "(rat \<Rightarrow> string) \<Rightarrow> (int \<Rightarrow> string) \<Rightarrow> (txType \<Rightarrow> string) \<Rightarrow> transaction \<Rightarrow> string option list" where
  "csv_fields showNum isoTime typeText r =
     [Some (tx_txRef r), Some (typeText (tx_type r)), Some (txStatus_text (tx_status r)), Some (showNum (tx_amount r)),
      Some (tx_currency r), Some (tx_originatorName r), tx_originatorAccount r, tx_originatorBank r,
      Some (tx_beneficiaryName r), tx_beneficiaryAccount r, tx_beneficiaryBank r, tx_purposeCode r,
      map_option riskLevel_text (tx_amlRiskLevel r), map_option show_int (tx_amlScore r), tx_idempotencyKey r,
      tx_tigerBeetleId r, Some (isoTime (tx_createdAt r)), Some (isoTime (tx_updatedAt r))]"

definition csv_content :: "(rat \<Rightarrow> string) \<Rightarrow> (int \<Rightarrow> string) \<Rightarrow> (txType \<Rightarrow> string) \<Rightarrow> transaction list \<Rightarrow> string" where
  "csv_content showNum isoTime typeText ts =
     join_with [CHR 0x0A] (join_with '','' csv_headers # map (\<lambda>r. csv_line (csv_fields showNum isoTime typeText r)) ts)"

record exportInput =
  xi_status :: "transferStatus option"
  xi_search :: "string option"
  xi_accountId :: "string option"

definition export_matches :: "int option \<Rightarrow> exportInput \<Rightarrow> transaction \<Rightarrow> bool" where
  "export_matches tid i t \<longleftrightarrow>
     tenantCondition tid (tx_tenantId t) \<and> status_filter (xi_status i) t \<and>
     (case xi_search i of None \<Rightarrow> True | Some q \<Rightarrow> length q < 2 \<or> search_hit q t) \<and>
     given (xi_accountId i) (\<lambda>a. touches_account a t)"

record exportResult =
  xr_url :: string
  xr_fileKey :: string
  xr_rowCount :: nat
  xr_exportedAt :: int
  xr_filters :: exportInput

text \<open>
  \<open>storagePut\<close> uploads the content under a key with a content type and gives its address, or
  throws; \<open>fileKey\<close> is the key with its time stamp and random suffix.
\<close>

definition exportTransfers ::
    "(string \<Rightarrow> string \<Rightarrow> string \<Rightarrow> string option) \<Rightarrow> string \<Rightarrow> (rat \<Rightarrow> string) \<Rightarrow> (int \<Rightarrow> string) \<Rightarrow> (txType \<Rightarrow> string) \<Rightarrow>
     env \<Rightarrow> ctx \<Rightarrow> exportInput \<Rightarrow> (paydb, exportResult) act" where
  "exportTransfers storagePut fileKey showNum isoTime typeText e c i =
     adminProcedure e c (\<lambda>u. zod (fits 100 (xi_search i) \<and> fits 64 (xi_accountId i)) (requireDb e (\<lambda>s.
       let ts = take 10000 (order_desc tx_createdAt (tselect (export_matches (c_tenantId c) i) (d_tx s))) in
       case storagePut fileKey (csv_content showNum isoTime typeText ts) ''text/csv'' of
         None \<Rightarrow> (Inl (PlainError ''storage''), s)
       | Some url \<Rightarrow> (Inr \<lparr>xr_url = url, xr_fileKey = fileKey, xr_rowCount = length ts, xr_exportedAt = e_now e, xr_filters = i\<rparr>, s))))"

section \<open>Monitors\<close>

record batchMonitor =
  bm_last24h :: nat
  bm_last1h :: nat
  bm_tps :: int
  bm_reversed24h :: nat
  bm_failed24h :: nat
  bm_batchSize :: int
  bm_batchSaturation :: int
  bm_maxThroughput :: string

definition getBatchMonitor :: "env \<Rightarrow> ctx \<Rightarrow> (paydb, batchMonitor option) act" where
  "getBatchMonitor e c =
     adminProcedure e c (\<lambda>u s.
       if \<not> e_dbUp e then (Inr None, s)
       else (let last24h = e_now e - DAY_MS; last1h = e_now e - HOUR_MS;
                 total1h = count_tx (\<lambda>t. last1h \<le> tx_createdAt t) s;
                 tps = js_round (rat_of_nat total1h / 3600)
             in (Inr (Some \<lparr>bm_last24h = count_tx (\<lambda>t. last24h \<le> tx_createdAt t) s, bm_last1h = total1h, bm_tps = tps,
                   bm_reversed24h = count_tx (\<lambda>t. last24h \<le> tx_createdAt t \<and> tx_status t = Reversed) s,
                   bm_failed24h = count_tx (\<lambda>t. last24h \<le> tx_createdAt t \<and> tx_status t = Failed) s,
                   bm_batchSize = 8190, bm_batchSaturation = min 100 (js_round (rat_of_int tps / (8190 / 60) * 100)),
                   bm_maxThroughput = ''8,190 transfers/batch''\<rparr>), s)))"

definition HOT_maxAgeDays :: int where "HOT_maxAgeDays = 90"
definition WARM_maxAgeDays :: int where "WARM_maxAgeDays = 365"

definition getArchivalStats :: "env \<Rightarrow> ctx \<Rightarrow> (paydb, nat \<times> nat \<times> nat) act" where
  "getArchivalStats e c =
     adminProcedure e c (\<lambda>u. requireDb e (\<lambda>s.
       let hotCutoff = e_now e - HOT_maxAgeDays * DAY_MS; warmCutoff = e_now e - WARM_maxAgeDays * DAY_MS
       in (Inr (count_tx (\<lambda>t. hotCutoff \<le> tx_createdAt t) s,
                count_tx (\<lambda>t. tx_createdAt t < hotCutoff \<and> warmCutoff \<le> tx_createdAt t) s,
                count_tx (\<lambda>t. tx_createdAt t < warmCutoff) s), s)))"

section \<open>Analytics\<close>

datatype period = PDaily | PWeekly | PMonthly

fun bucket_key :: "period \<Rightarrow> int \<Rightarrow> string" where
  "bucket_key PDaily ms = iso_day (day_of ms)"
| "bucket_key PWeekly ms = iso_day (day_of ms - weekday (day_of ms) + 1)"
| "bucket_key PMonthly ms = take 7 (iso_day (day_of ms))"

record bucket =
  bk_date :: string
  bk_volume :: rat
  bk_count :: nat
  bk_flagged :: nat
  bk_blocked :: nat
  bk_riskSum :: int

definition score_or_0 :: "transaction \<Rightarrow> int" where
  "score_or_0 t = (case tx_amlScore t of None \<Rightarrow> 0 | Some x \<Rightarrow> x)"

definition add_row :: "string \<Rightarrow> transaction \<Rightarrow> (string \<times> bucket) list \<Rightarrow> (string \<times> bucket) list" where
  "add_row key r m =
     (let b = (case map_of m key of Some b \<Rightarrow> b
                | None \<Rightarrow> \<lparr>bk_date = key, bk_volume = 0, bk_count = 0, bk_flagged = 0, bk_blocked = 0, bk_riskSum = 0\<rparr>)
      in AList.update key
        (b\<lparr>bk_volume := bk_volume b + tx_amount r / 100, bk_count := bk_count b + 1,
           bk_flagged := bk_flagged b + (if tx_status r = Flagged then 1 else 0),
           bk_blocked := bk_blocked b + (if tx_status r = Blocked then 1 else 0),
           bk_riskSum := bk_riskSum b + score_or_0 r\<rparr>) m)"

definition buckets :: "period \<Rightarrow> transaction list \<Rightarrow> (string \<times> bucket) list" where
  "buckets p ts = fold (\<lambda>r. add_row (bucket_key p (tx_createdAt r)) r) ts []"

definition bucket_avgRisk :: "bucket \<Rightarrow> int" where
  "bucket_avgRisk b = (if 0 < bk_count b then js_round (rat_of_int (bk_riskSum b) / rat_of_nat (bk_count b)) else 0)"

record analytics =
  an_series :: "(bucket \<times> int) list"
  an_totalVolume :: rat
  an_totalCount :: nat
  an_flaggedCount :: nat
  an_blockedCount :: nat
  an_avgRiskScore :: int
  an_byCurrency :: "(string \<times> rat) list"
  an_period :: period
  an_days :: int

definition add_currency :: "transaction \<Rightarrow> (string \<times> rat) list \<Rightarrow> (string \<times> rat) list" where
  "add_currency r m = AList.update (tx_currency r)
     ((case map_of m (tx_currency r) of None \<Rightarrow> 0 | Some x \<Rightarrow> x) + tx_amount r / 100) m"

fun str_le :: "string \<Rightarrow> string \<Rightarrow> bool" where
  "str_le [] _ = True"
| "str_le (a # as) [] = False"
| "str_le (a # as) (b # bs) =
     ((of_char a :: nat) < of_char b \<or> (a = b \<and> str_le as bs))"

fun insert_by_date :: "string \<times> bucket \<Rightarrow> (string \<times> bucket) list \<Rightarrow> (string \<times> bucket) list" where
  "insert_by_date x [] = [x]"
| "insert_by_date x (y # ys) = (if str_le (fst x) (fst y) then x # y # ys else y # insert_by_date x ys)"

definition getTransferAnalytics :: "env \<Rightarrow> ctx \<Rightarrow> period \<Rightarrow> int \<Rightarrow> (paydb, analytics) act" where
  "getTransferAnalytics e c p days =
     protectedProcedure e c (\<lambda>u. zod (7 \<le> days \<and> days \<le> 365) (requireDb e (\<lambda>s.
       let since = e_now e - days * DAY_MS;
           ts = sort_key tx_createdAt (tselect (\<lambda>t. since \<le> tx_createdAt t) (d_tx s));
           n = length ts
       in (Inr \<lparr>an_series = map (\<lambda>(_, b). (b, bucket_avgRisk b)) (foldr insert_by_date (buckets p ts) []),
                an_totalVolume = sum_list (map (\<lambda>t. tx_amount t / 100) ts), an_totalCount = n,
                an_flaggedCount = length (filter (\<lambda>t. tx_status t = Flagged) ts),
                an_blockedCount = length (filter (\<lambda>t. tx_status t = Blocked) ts),
                an_avgRiskScore = (if 0 < n then js_round (rat_of_int (sum_list (map score_or_0 ts)) / rat_of_nat n) else 0),
                an_byCurrency = fold add_currency ts [], an_period = p, an_days = days\<rparr>, s))))"

section \<open>The daily reconciliation report\<close>

record staleRow =
  st_id :: int
  st_txRef :: string
  st_amount :: rat
  st_currency :: string
  st_originatorName :: string
  st_beneficiaryName :: string
  st_createdAt :: int
  st_ageMinutes :: int

record flaggedRow =
  fl_id :: int
  fl_txRef :: string
  fl_amount :: rat
  fl_currency :: string
  fl_riskScore :: "int option"
  fl_originatorName :: string
  fl_beneficiaryName :: string

record reconReport =
  rr_total :: nat
  rr_posted :: nat
  rr_pending :: nat
  rr_failed :: nat
  rr_reversed :: nat
  rr_flagged :: nat
  rr_blocked :: nat
  rr_settlementRate :: int
  rr_volSettled :: rat
  rr_volPending :: rat
  rr_volFailed :: rat
  rr_volReversed :: rat
  rr_stalePending :: "staleRow list"
  rr_flaggedTransactions :: "flaggedRow list"

definition volume_of :: "transaction list \<Rightarrow> rat" where
  "volume_of ts = sum_list (map (\<lambda>t. tx_amount t / 100) ts)"

definition stale_of :: "int \<Rightarrow> transaction list \<Rightarrow> staleRow list" where
  "stale_of now pending =
     map (\<lambda>t. \<lparr>st_id = tx_id t, st_txRef = tx_txRef t, st_amount = tx_amount t / 100, st_currency = tx_currency t,
               st_originatorName = tx_originatorName t, st_beneficiaryName = tx_beneficiaryName t, st_createdAt = tx_createdAt t,
               st_ageMinutes = js_round (rat_of_int (now - tx_createdAt t) / 60000)\<rparr>)
       (filter (\<lambda>t. tx_createdAt t < now - 3600000) pending)"

definition flagged_of :: "transaction \<Rightarrow> flaggedRow" where
  "flagged_of t = \<lparr>fl_id = tx_id t, fl_txRef = tx_txRef t, fl_amount = tx_amount t / 100, fl_currency = tx_currency t,
     fl_riskScore = tx_amlScore t, fl_originatorName = tx_originatorName t, fl_beneficiaryName = tx_beneficiaryName t\<rparr>"

text \<open>
  \<open>dateMs\<close> reads a given date text as the midnight of that day (\<open>None\<close> when invalid); the default
  is yesterday.
\<close>

definition getReconciliationReport ::
    "(string \<Rightarrow> int option) \<Rightarrow> env \<Rightarrow> ctx \<Rightarrow> string option \<Rightarrow> (paydb, reconReport) act" where
  "getReconciliationReport dateMs e c date =
     adminProcedure e c (\<lambda>u. requireDb e (\<lambda>s.
       case (case date of Some d \<Rightarrow> dateMs d | None \<Rightarrow> Some (day_of (e_now e - 86400000) * DAY_MS)) of
         None \<Rightarrow> (Inl DbError, s)
       | Some dayStart \<Rightarrow>
          (let dayEnd = dayStart + DAY_MS - 1;
               ts = sort_key tx_createdAt (tselect (\<lambda>t. dayStart \<le> tx_createdAt t \<and> tx_createdAt t < dayEnd) (d_tx s));
               of_status = (\<lambda>st. filter (\<lambda>t. tx_status t = st) ts)
           in (Inr \<lparr>rr_total = length ts, rr_posted = length (of_status Completed), rr_pending = length (of_status Pending),
                 rr_failed = length (of_status Failed), rr_reversed = length (of_status Reversed),
                 rr_flagged = length (of_status Flagged), rr_blocked = length (of_status Blocked),
                 rr_settlementRate = (if ts \<noteq> [] then js_round (rat_of_nat (length (of_status Completed)) / rat_of_nat (length ts) * 100) else 100),
                 rr_volSettled = volume_of (of_status Completed), rr_volPending = volume_of (of_status Pending),
                 rr_volFailed = volume_of (of_status Failed), rr_volReversed = volume_of (of_status Reversed),
                 rr_stalePending = stale_of (e_now e) (of_status Pending),
                 rr_flaggedTransactions = map flagged_of (take 20 (of_status Flagged))\<rparr>, s))))"

end
