(* ===== verification/Payment_Properties.thy ===== *)
theory Payment_Properties
  imports Payment_Reports
begin

text \<open>
  Properties of the payment rails: what an initiation commits and under which conditions, what a
  reversal does to rows, balances and the audit log, what a freeze reaches and what it does not,
  and the reports.
\<close>

section \<open>Initiation\<close>

definition claim_committed :: "(rat \<Rightarrow> rat) \<Rightarrow> ctx \<Rightarrow> transferInput \<Rightarrow> transferResult \<Rightarrow> paydb \<Rightarrow> paydb \<Rightarrow> bool" where
  "claim_committed real32 c i res s s' \<longleftrightarrow>
     (\<exists>t b. rows (d_tx s') = rows (d_tx s) @ [t] \<and> rows (d_outbox s') = rows (d_outbox s) @ [b] \<and>
        tx_status t = Pending \<and> tx_tenantId t = c_tenantId c \<and> tx_txRef t = tr_txRef res \<and> tx_id t = tr_id res \<and>
        tx_idempotencyKey t = Some (tx_txRef t) \<and> tx_amount t = real32 (rat_of_int (js_round (ti_amount i * 100))) \<and>
        ob_transaction_id b = tx_id t \<and> Some (ob_tenant_id b) = tx_tenantId t \<and>
        ob_idempotency_key b = tx_txRef t \<and> ob_status b = Queued \<and> ob_attempts b = 0)"

lemma insert_tx_outbox [simp]: "insert_tx mk s = Some (t, s') \<Longrightarrow> d_outbox s' = d_outbox s"
  by (auto dest: insert_tx_SomeD(2))

lemma insert_outbox_tx [simp]: "insert_outbox mk s = Some s' \<Longrightarrow> d_tx s' = d_tx s"
  by (auto dest: insert_outbox_SomeD)

lemma claim_row_simps [simp]:
  "tx_id (claim_row real32 now tid ref i n) = n" "tx_status (claim_row real32 now tid ref i n) = Pending"
  "tx_tenantId (claim_row real32 now tid ref i n) = Some tid" "tx_txRef (claim_row real32 now tid ref i n) = ref"
  "tx_idempotencyKey (claim_row real32 now tid ref i n) = Some ref"
  "tx_amount (claim_row real32 now tid ref i n) = real32 (rat_of_int (js_round (ti_amount i * 100)))"
  "tx_originatorAccount (claim_row real32 now tid ref i n) = Some (ti_originatorAccountId i)"
  "tx_originatorName (claim_row real32 now tid ref i n) = ti_originatorAccountId i"
  by (simp_all add: claim_row_def new_transaction_def)

lemma outbox_row_simps [simp]:
  "ob_id (outbox_row now txid tid key rl n) = n" "ob_transaction_id (outbox_row now txid tid key rl n) = txid"
  "ob_tenant_id (outbox_row now txid tid key rl n) = tid" "ob_idempotency_key (outbox_row now txid tid key rl n) = key"
  "ob_status (outbox_row now txid tid key rl n) = Queued" "ob_attempts (outbox_row now txid tid key rl n) = 0"
  "ob_leased_at (outbox_row now txid tid key rl n) = None" "ob_last_error_code (outbox_row now txid tid key rl n) = None"
  by (simp_all add: outbox_row_def)

lemma submitted_commits:
  assumes "submit_claim real32 e tid rl ref i s = (r, s')" "c_tenantId c = Some tid"
  shows "(d_tx s' = d_tx s \<and> d_outbox s' = d_outbox s) \<or>
    (\<exists>res. r = Inr res \<and> tr_idempotent res = False \<and> claim_committed real32 c i res s s')"
proof (cases rule: submit_cases [of real32 e tid rl ref i s])
  case (claimed t s1 s2)
  note ins = insert_tx_SomeD [OF claimed(2)] and out = insert_outbox_SomeD(1) [OF claimed(3)]
  have "claim_committed real32 c i \<lparr>tr_txRef = ref, tr_id = tx_id t, tr_status = Pending, tr_rail = rl, tr_idempotent = False\<rparr> s s2"
    unfolding claim_committed_def using ins out assms(2) by (intro exI [where x = t]) simp
  with claimed(1) assms(1) show ?thesis by auto
qed (use assms in auto)

text \<open>C12: An initiation is all or nothing and fails closed: either it commits exactly one pending
  payment in the caller's tenant together with exactly one queued outbox instruction for it,
  carrying its reference as the idempotency key and the amount in kobo, and then a rail is
  configured and the velocity service answered with something other than a block; or, whatever
  else happens, transactions and outbox stay as they were.\<close>

theorem initiate_atomic_fail_closed:
  "let (r, s') = initiateTransfer cfg configured reply real32 id genRef e c i s in
     (d_tx s' = d_tx s \<and> d_outbox s' = d_outbox s) \<or>
     (\<exists>res tid b. r = Inr res \<and> tr_idempotent res = False \<and> claim_committed real32 c i res s s' \<and>
        c_tenantId c = Some tid \<and> 0 < tid \<and> requireActivePaymentRail cfg = Some (tr_rail res) \<and> configured \<and>
        reply (vinput i tid) = VAnswer b \<and> vy_decision b \<noteq> Some ''block'')"
proof -
  obtain r s' where r: "initiateTransfer cfg configured reply real32 id genRef e c i s = (r, s')" by fastforce
  then show ?thesis
  proof (cases rule: initiate_cases)
    case (submitted tid rl)
    let ?s1 = "snd (fluvioCheckVelocity configured reply e (vinput i tid) s)"
    from submitted(6) obtain b where b: "configured" "reply (vinput i tid) = VAnswer b" "vy_decision b \<noteq> Some ''block''"
      by (auto simp: velocity_passes)
    have rail: "tr_rail res = rl" if "r = Inr res" "tr_idempotent res = False" for res
      using that submitted(7)
      by (cases rule: submit_cases [of real32 e tid rl "the_ref genRef i" i ?s1]) (auto simp: existing_result_def)
    have com: "claim_committed real32 c i res ?s1 s' \<Longrightarrow> claim_committed real32 c i res s s'" for res
      by (simp add: claim_committed_def)
    from submitted_commits [OF submitted(7) submitted(1)] show ?thesis
    proof
      assume "d_tx s' = d_tx (id ?s1) \<and> d_outbox s' = d_outbox (id ?s1)"
      then show ?thesis using r by simp
    next
      assume "\<exists>res. r = Inr res \<and> tr_idempotent res = False \<and> claim_committed real32 c i res (id ?s1) s'"
      then obtain res where res: "r = Inr res" "tr_idempotent res = False" "claim_committed real32 c i res s s'"
        using com by auto
      show ?thesis
        unfolding r Let_def prod.case
        by (intro disjI2 exI conjI) (use res b submitted(1-3) rail [OF res(1,2)] in auto)
    qed
  qed (use r in auto)
qed

section \<open>Reversals\<close>

text \<open>The category of the audit row is not a value of its enum, so the insert always fails.\<close>

lemma reversal_audit_rejected: "insert_audit (reversal_audit now uid ref reason rref) s = None"
  by (simp add: insert_audit_def reversal_audit_def auditCategoryEnum_def)

lemma mark_reversed_simps [simp]:
  "tx_id (mark_reversed now t) = tx_id t" "tx_txRef (mark_reversed now t) = tx_txRef t"
  "tx_idempotencyKey (mark_reversed now t) = tx_idempotencyKey t" "tx_tenantId (mark_reversed now t) = tx_tenantId t"
  "tx_status (mark_reversed now t) = Reversed"
  "tx_amount (mark_reversed now t) = tx_amount t"
  by (simp_all add: mark_reversed_def)

lemma reversal_row_simps [simp]:
  "tx_id (reversal_row now rref ref reason t n) = n" "tx_txRef (reversal_row now rref ref reason t n) = rref"
  "tx_status (reversal_row now rref ref reason t n) = Completed" "tx_tenantId (reversal_row now rref ref reason t n) = tx_tenantId t"
  "tx_amount (reversal_row now rref ref reason t n) = tx_amount t"
  "tx_originatorAccount (reversal_row now rref ref reason t n) = tx_beneficiaryAccount t"
  "tx_beneficiaryAccount (reversal_row now rref ref reason t n) = tx_originatorAccount t"
  by (simp_all add: reversal_row_def new_transaction_def)

lemma post_reversal_cases:
  obtains (refused) "post_reversal now tid rref ref reason t s = (Inl DbError, s)"
    | (posted) x s2 where "post_reversal now tid rref ref reason t s = (Inr (), s2)"
        "insert_tx (reversal_row now rref ref reason t)
           (update_tx now (\<lambda>r. tx_txRef r = ref \<and> tenantCondition tid (tx_tenantId r)) (mark_reversed now) s) = Some (x, s2)"
  by (cases "insert_tx (reversal_row now rref ref reason t)
           (update_tx now (\<lambda>r. tx_txRef r = ref \<and> tenantCondition tid (tx_tenantId r)) (mark_reversed now) s)")
    (auto simp: post_reversal_def in_transaction_def Let_def)

lemma reverse_cases:
  assumes "reverseTransfer e c ref reason s = (r, s')"
  obtains (refused) err where "r = Inl err" "s' = s"
    | (reversed) t x s2 where "find_by_ref (c_tenantId c) ref s = Some t" "tx_status t = Completed"
        "insert_tx (reversal_row (e_now e) (reversalRef_of (e_now e) ref) ref reason t)
           (update_tx (e_now e) (\<lambda>r. tx_txRef r = ref \<and> tenantCondition (c_tenantId c) (tx_tenantId r)) (mark_reversed (e_now e)) s) = Some (x, s2)"
        "r = Inr (reversalRef_of (e_now e) ref, ref)" "s' = s2\<lparr>d_published := d_published s2 @ reversal_events ref t\<rparr>"
proof (cases "(\<exists>err. r = Inl err) \<and> s' = s")
  case True
  then show thesis using that(1) by blast
next
  case False
  note unf = assms [unfolded reverseTransfer_def adminProcedure_def]
  from unf False obtain u where u: "c_user c = Some u" by (cases "c_user c") auto
  from unf u False have adm: "u_role u = RAdmin" "e_permify e ''platform'' ''bis'' ''admin'' (u_id u)"
    by (auto split: if_splits)
  from unf u adm False have ok: "1 \<le> length ref \<and> 5 \<le> length reason \<and> length reason \<le> 500" by (auto split: if_splits)
  from unf u adm ok False have up: "e_dbUp e" by (auto split: if_splits)
  from unf u adm ok up False obtain t where t: "find_by_ref (c_tenantId c) ref s = Some t"
    by (cases "find_by_ref (c_tenantId c) ref s") auto
  from unf u adm ok up t False have st: "tx_status t = Completed" by (auto split: if_splits)
  show thesis
  proof (cases rule: post_reversal_cases [of "e_now e" "c_tenantId c" "reversalRef_of (e_now e) ref" ref reason t s])
    case refused
    with unf u adm ok up t st False show thesis by auto
  next
    case (posted x s2)
    show thesis
      by (rule that(2) [OF t st posted(2)])
        (use unf u adm ok up t st posted(1) in \<open>simp_all add: Let_def reversal_audit_rejected\<close>)
  qed
qed

text \<open>Credits minus debits of an account over the completed rows, the balance the reports derive.\<close>

definition posted_effect :: "string \<Rightarrow> transaction \<Rightarrow> rat" where
  "posted_effect acc t = (if tx_status t = Completed
     then (if tx_beneficiaryAccount t = Some acc then tx_amount t else 0) -
          (if tx_originatorAccount t = Some acc then tx_amount t else 0) else 0)"

definition posted_net :: "string \<Rightarrow> transaction list \<Rightarrow> rat" where
  "posted_net acc ts = sum_list (map (posted_effect acc) ts)"

lemma sum_replace_one:
  assumes "distinct (map key xs)" "t \<in> set xs"
  shows "sum_list (map g (map (\<lambda>r. if key r = key t then f r else r) xs)) = sum_list (map g xs) - g t + (g (f t) :: rat)"
  using assms
proof (induction xs)
  case (Cons a xs)
  show ?case
  proof (cases "key a = key t")
    case True
    with Cons.prems have "a = t" by (auto simp: image_iff)
    moreover have "map (\<lambda>r. if key r = key t then f r else r) xs = xs"
      using Cons.prems True by (intro map_idI) (auto simp: image_iff)
    ultimately show ?thesis by simp
  next
    case False
    with Cons show ?thesis by auto
  qed
qed simp

lemma ref_is_tenant_row:
  assumes "tx_table_ok (d_tx s)" "find_by_ref tid ref s = Some t" "r \<in> set (rows (d_tx s))"
  shows "(tx_txRef r = ref \<and> tenantCondition tid (tx_tenantId r)) \<longleftrightarrow> tx_txRef r = tx_txRef t"
proof -
  from tfind_SomeD [OF assms(2) [unfolded find_by_ref_def]]
  have t: "t \<in> set (rows (d_tx s))" "tx_txRef t = ref" "tenantCondition tid (tx_tenantId t)" by auto
  with tx_table_ok_ref_unique [OF assms(1,3) t(1)] show ?thesis by auto
qed

lemma reverse_rows:
  assumes "tx_table_ok (d_tx s)" "reverseTransfer e c ref reason s = (Inr res, s')"
  obtains t x where "t \<in> set (rows (d_tx s))" "tx_txRef t = ref" "tx_status t = Completed"
    "tenantCondition (c_tenantId c) (tx_tenantId t)"
    "rows (d_tx s') = map (\<lambda>r. if tx_txRef r = tx_txRef t then mark_reversed (e_now e) r else r) (rows (d_tx s)) @ [x]"
    "x = reversal_row (e_now e) (reversalRef_of (e_now e) ref) ref reason t (seq (d_tx s))"
    "tx_columns_ok x"
  using assms(2)
proof (cases rule: reverse_cases)
  case (reversed t x s2)
  from tfind_SomeD [OF reversed(1) [unfolded find_by_ref_def]]
  have t: "t \<in> set (rows (d_tx s))" "tx_txRef t = ref" "tenantCondition (c_tenantId c) (tx_tenantId t)" by auto
  note ins = insert_tx_SomeD [OF reversed(3)]
  have "map (\<lambda>r. if tx_txRef r = ref \<and> tenantCondition (c_tenantId c) (tx_tenantId r) then mark_reversed (e_now e) r else r) (rows (d_tx s))
      = map (\<lambda>r. if tx_txRef r = tx_txRef t then mark_reversed (e_now e) r else r) (rows (d_tx s))"
    by (rule map_cong [OF refl]) (simp only: ref_is_tenant_row [OF assms(1) reversed(1)])
  with ins reversed(5) have "rows (d_tx s') = map (\<lambda>r. if tx_txRef r = tx_txRef t then mark_reversed (e_now e) r else r) (rows (d_tx s)) @ [x]"
    by simp
  with t reversed(2) ins show thesis by (intro that [of t x]) simp_all
qed simp

text \<open>C26: A successful reversal marks exactly the named completed transfer of the caller's tenant
  as reversed and appends one completed transfer of the same amount and tenant with originator
  and beneficiary exchanged; every other row is unchanged.\<close>

theorem reverse_outcome:
  assumes "tx_table_ok (d_tx s)" "reverseTransfer e c ref reason s = (Inr res, s')"
  shows "\<exists>t x. t \<in> set (rows (d_tx s)) \<and> tx_txRef t = ref \<and> tx_status t = Completed \<and>
    tenantCondition (c_tenantId c) (tx_tenantId t) \<and>
    rows (d_tx s') = map (\<lambda>r. if tx_txRef r = ref then mark_reversed (e_now e) r else r) (rows (d_tx s)) @ [x] \<and>
    tx_amount x = tx_amount t \<and> tx_tenantId x = tx_tenantId t \<and> tx_status x = Completed \<and>
    tx_originatorAccount x = tx_beneficiaryAccount t \<and> tx_beneficiaryAccount x = tx_originatorAccount t"
proof -
  from assms obtain t x where tx: "t \<in> set (rows (d_tx s))" "tx_txRef t = ref" "tx_status t = Completed"
    "tenantCondition (c_tenantId c) (tx_tenantId t)"
    "rows (d_tx s') = map (\<lambda>r. if tx_txRef r = tx_txRef t then mark_reversed (e_now e) r else r) (rows (d_tx s)) @ [x]"
    "x = reversal_row (e_now e) (reversalRef_of (e_now e) ref) ref reason t (seq (d_tx s))"
    by (rule reverse_rows)
  then show ?thesis by (intro exI [where x = t] exI [where x = x]) simp
qed

text \<open>A reversal leaves no trace in the audit log, whatever its outcome: the entry it writes is
  rejected by the database and the rejection is swallowed.\<close>

theorem reversal_never_audited: "d_audit (snd (reverseTransfer e c ref reason s)) = d_audit s"
proof -
  obtain r s' where r: "reverseTransfer e c ref reason s = (r, s')" by fastforce
  then show ?thesis
    by (cases rule: reverse_cases) (auto simp: r dest!: insert_tx_SomeD(2))
qed

text \<open>The derived balances over-compensate a reversal: the originator's posted net, which the
  original transfer had lowered by its amount, goes up by twice that amount, since the original no
  longer counts as posted and the mirror transfer does.\<close>

theorem reversal_overcompensates:
  assumes "tx_table_ok (d_tx s)" "reverseTransfer e c ref reason s = (Inr res, s')"
    and "find_by_ref (c_tenantId c) ref s = Some t"
    and "tx_originatorAccount t = Some acc" "tx_beneficiaryAccount t \<noteq> Some acc"
  shows "posted_net acc (rows (d_tx s')) = posted_net acc (rows (d_tx s)) + 2 * tx_amount t"
proof -
  from assms(1,2) obtain t' x where tx: "t' \<in> set (rows (d_tx s))" "tx_txRef t' = ref" "tx_status t' = Completed"
    "tenantCondition (c_tenantId c) (tx_tenantId t')"
    "rows (d_tx s') = map (\<lambda>r. if tx_txRef r = tx_txRef t' then mark_reversed (e_now e) r else r) (rows (d_tx s)) @ [x]"
    "x = reversal_row (e_now e) (reversalRef_of (e_now e) ref) ref reason t' (seq (d_tx s))"
    by (rule reverse_rows)
  from tfind_SomeD [OF assms(3) [unfolded find_by_ref_def]] tx_table_ok_ref_unique [OF assms(1) tx(1)] tx(2)
  have t: "t' = t" by auto
  have dist: "distinct (map tx_txRef (rows (d_tx s)))" using assms(1) by (simp add: tx_table_ok_def)
  have "posted_net acc (rows (d_tx s')) = posted_net acc (rows (d_tx s)) - posted_effect acc t +
      posted_effect acc (mark_reversed (e_now e) t) + posted_effect acc x"
    using sum_replace_one [OF dist tx(1), of "posted_effect acc" "mark_reversed (e_now e)"]
    unfolding posted_net_def tx(5) t by (simp del: map_map)
  moreover have "posted_effect acc t = - tx_amount t" "posted_effect acc (mark_reversed (e_now e) t) = 0"
    "posted_effect acc x = tx_amount t"
    using tx(3,6) assms(4,5) t by (simp_all add: posted_effect_def)
  ultimately show ?thesis by simp
qed

text \<open>The reversal reference has 18 characters more than the original for a clock of 13 digits.\<close>

lemma length_show_nat: "10 ^ k \<le> n \<Longrightarrow> k < length (show_nat n)"
proof (induction k arbitrary: n)
  case 0
  then show ?case by simp
next
  case (Suc k)
  moreover have "(1::nat) \<le> 10 ^ k" by simp
  ultimately have "10 \<le> n" by (simp only: power_Suc)
  moreover have "10 ^ k \<le> n div 10" using Suc.prems by (simp add: less_eq_div_iff_mult_less_eq)
  ultimately show ?case using Suc.IH by (subst show_nat.simps) simp
qed

lemma length_reversalRef:
  assumes "10 ^ 12 \<le> now"
  shows "length ref + 18 \<le> length (reversalRef_of now ref)"
proof -
  have "12 < length (show_nat (nat now))"
    by (rule length_show_nat) (use assms in \<open>simp add: le_nat_iff\<close>)
  with assms show ?thesis by (simp add: reversalRef_of_def show_int_def)
qed

text \<open>A transfer whose reference is longer than 46 characters can never be reversed, although
  references of up to 64 characters are accepted: the reversal's own reference does not fit its
  column, the database transaction fails and nothing changes.\<close>

theorem long_reference_irreversible:
  assumes "46 < length ref" "10 ^ 12 \<le> e_now e"
  shows "\<exists>err. reverseTransfer e c ref reason s = (Inl err, s)"
proof -
  obtain r s' where r: "reverseTransfer e c ref reason s = (r, s')" by fastforce
  then show ?thesis
  proof (cases rule: reverse_cases)
    case (reversed t x s2)
    have "tx_columns_ok x" "tx_txRef x = reversalRef_of (e_now e) ref"
      using insert_tx_SomeD [OF reversed(3)] by simp_all
    then have "length (reversalRef_of (e_now e) ref) \<le> 64" by (auto simp: tx_columns_ok_def)
    with length_reversalRef [OF assms(2), of ref] assms(1) show ?thesis by linarith
  qed (use r in auto)
qed

section \<open>Freezing\<close>

lemma freeze_cases:
  assumes "freezeAccount rowsAffected e c acc nm reason s = (Inr res, s')"
  shows "\<exists>u. c_user c = Some u \<and>
    d_tx s' = tupdate (frozen_by acc) (mark_blocked (e_now e)) (d_tx s) \<and>
    d_frozen s' = tinsert (frozen_row (e_now e) u acc nm reason
       (case rowsAffected (length (tselect (frozen_by acc) (d_tx s))) of None \<Rightarrow> 0 | Some n \<Rightarrow> n)) (d_frozen s) \<and>
    fr_affected res = (case rowsAffected (length (tselect (frozen_by acc) (d_tx s))) of None \<Rightarrow> 0 | Some n \<Rightarrow> n) \<and>
    d_outbox s' = d_outbox s"
  using admin_guard.guard_ok [OF assms [unfolded freezeAccount_def]]
  by (auto simp: Let_def split: if_splits)

text \<open>A freeze blocks every pending or under-review payment from or to the account, in every
  tenant and not only the caller's, changes no other payment, and leaves no such payment open; the
  number it reports and records is 0 when the driver's result has no \<open>rowsAffected\<close>.\<close>

theorem freeze_blocks_all_tenants:
  assumes "freezeAccount rowsAffected e c acc nm reason s = (Inr res, s')"
  shows "rows (d_tx s') = map (\<lambda>r. if frozen_by acc r then mark_blocked (e_now e) r else r) (rows (d_tx s)) \<and>
    tselect (frozen_by acc) (d_tx s') = [] \<and>
    (rowsAffected = (\<lambda>_. None) \<longrightarrow> fr_affected res = 0 \<and> (\<exists>f. rows (d_frozen s') = rows (d_frozen s) @ [f] \<and> fz_affectedTransactions f = 0))"
proof -
  from freeze_cases [OF assms] obtain u where u: "d_tx s' = tupdate (frozen_by acc) (mark_blocked (e_now e)) (d_tx s)"
    "d_frozen s' = tinsert (frozen_row (e_now e) u acc nm reason
       (case rowsAffected (length (tselect (frozen_by acc) (d_tx s))) of None \<Rightarrow> 0 | Some n \<Rightarrow> n)) (d_frozen s)"
    "fr_affected res = (case rowsAffected (length (tselect (frozen_by acc) (d_tx s))) of None \<Rightarrow> 0 | Some n \<Rightarrow> n)"
    by blast
  have "filter (frozen_by acc) (map (\<lambda>r. if frozen_by acc r then mark_blocked (e_now e) r else r) xs) = []" for xs
    by (induction xs) (auto simp: frozen_by_def mark_blocked_def)
  then show ?thesis using u by (auto simp: tselect_def frozen_row_def)
qed

text \<open>Initiation does not look at the frozen accounts.\<close>

lemma frozen_blind_velocity:
  "fluvioCheckVelocity configured reply e vi (s\<lparr>d_frozen := f\<rparr>) =
     (fst (fluvioCheckVelocity configured reply e vi s), snd (fluvioCheckVelocity configured reply e vi s)\<lparr>d_frozen := f\<rparr>)"
  by (simp add: fluvioCheckVelocity_def Let_def split: velocityReply.splits)

lemma frozen_blind_insert_tx:
  "insert_tx mk (s\<lparr>d_frozen := f\<rparr>) = map_option (\<lambda>(t, s'). (t, s'\<lparr>d_frozen := f\<rparr>)) (insert_tx mk s)"
  by (simp add: insert_tx_def Let_def)

lemma frozen_blind_insert_outbox:
  "insert_outbox mk (s\<lparr>d_frozen := f\<rparr>) = map_option (\<lambda>s'. s'\<lparr>d_frozen := f\<rparr>) (insert_outbox mk s)"
proof -
  have "s\<lparr>d_frozen := f, d_outbox := t\<rparr> = s\<lparr>d_outbox := t, d_frozen := f\<rparr>" for t by (cases s) simp
  moreover have "d_outbox (s\<lparr>d_frozen := f\<rparr>) = d_outbox s" by (cases s) simp
  ultimately show ?thesis
    by (cases "outbox_constraints (mk (seq (d_outbox s))) (rows (d_outbox s))")
      (simp_all only: insert_outbox_def Let_def if_True if_False option.map)
qed

lemma frozen_blind_known: "known_reference tid i (s\<lparr>d_frozen := f\<rparr>) = known_reference tid i s"
  by (simp add: known_reference_def find_by_ref_def)

lemma frozen_blind_submit:
  "fst (submit_claim real32 e tid rl ref i (s\<lparr>d_frozen := f\<rparr>)) = fst (submit_claim real32 e tid rl ref i s)"
proof (cases "insert_tx (claim_row real32 (e_now e) tid ref i) s")
  case None
  then show ?thesis
    by (simp add: submit_claim_def claim_payment_def in_transaction_def frozen_blind_insert_tx frozen_blind_known split: option.split)
next
  case (Some p)
  then show ?thesis
    by (cases p; cases "insert_outbox (outbox_row (e_now e) (tx_id (fst p)) tid ref rl) (snd p)")
      (simp_all add: submit_claim_def claim_payment_def in_transaction_def frozen_blind_insert_tx
        frozen_blind_insert_outbox frozen_blind_known split: option.split)
qed

text \<open>Freezing an account does not keep it from paying: the outcome of an initiation is the
  same whatever the table of frozen accounts holds.\<close>

theorem frozen_accounts_not_consulted:
  "fst (initiateTransfer cfg configured reply real32 id genRef e c i (s\<lparr>d_frozen := f\<rparr>)) =
   fst (initiateTransfer cfg configured reply real32 id genRef e c i s)"
proof (cases "c_user c")
  case (Some u)
  then show ?thesis
  proof (cases "c_tenantId c")
    case (Some tid)
    then show ?thesis
    proof (cases "requireActivePaymentRail cfg")
      case (Some rl)
      then show ?thesis
        using \<open>c_user c = Some u\<close> \<open>c_tenantId c = Some tid\<close>
        by (cases "known_reference tid i s")
          (simp_all add: initiateTransfer_def writeProcedure_def frozen_blind_known frozen_blind_velocity
            frozen_blind_submit split_beta)
    qed (simp add: initiateTransfer_def writeProcedure_def \<open>c_user c = Some u\<close>)
  qed (simp add: initiateTransfer_def writeProcedure_def)
qed (simp add: initiateTransfer_def writeProcedure_def)

section \<open>Name enquiry and listing\<close>

text \<open>Once an account has initiated a payment, the name enquiry answers for it, as verified, the
  account number itself: the claim stores the account identifier as the originator's name.\<close>

theorem lookup_returns_account_number:
  assumes "claim_payment real32 now tid rl ref i s = (Inr t, s')"
    and "tselect (\<lambda>r. tx_originatorAccount r = Some (ti_originatorAccountId i) \<and> tx_tenantId r = Some tid) (d_tx s) = []"
    and "length (ti_originatorAccountId i) = 10" "all_digits (ti_originatorAccountId i)"
    and "c_user c = Some u" "admits_user e c u" "e_dbUp e" "c_tenantId c = Some tid"
  shows "lookupAccount gateway e c (ti_originatorAccountId i) None s' =
    (Inr \<lparr>aa_accountNumber = ti_originatorAccountId i, aa_accountName = ti_originatorAccountId i, aa_bankName = ''BIS Member Bank'', aa_verified = True\<rparr>, s')"
proof -
  obtain s1 s2 where cl: "(Inr t, s') = (Inr t, s2)" "insert_tx (claim_row real32 now tid ref i) s = Some (t, s1)"
      "insert_outbox (outbox_row now (tx_id t) tid ref rl) s1 = Some s2"
    by (rule claim_cases [of real32 now tid rl ref i s]) (use assms(1) in auto)
  have "rows (d_tx s') = rows (d_tx s) @ [t]" "tx_originatorAccount t = Some (ti_originatorAccountId i)"
    "tx_originatorName t = ti_originatorAccountId i" "tx_tenantId t = Some tid"
    using insert_tx_SomeD [OF cl(2)] cl(1) insert_outbox_tx [OF cl(3)] by simp_all
  then have "first_name tx_originatorAccount tx_originatorName (Some tid) (ti_originatorAccountId i) s' = Some (ti_originatorAccountId i)"
    using assms(2,3) by (auto simp: first_name_def tselect_def tenantCondition_def)
  then show ?thesis
    using assms(3-8) by (simp add: lookupAccount_def protected_guard.proc_runs)
qed

text \<open>The listing never advances: it hands out a cursor, but asking again with any cursor, the
  one it handed out included, yields the first page again.\<close>

theorem cursor_is_ignored:
  "listTransfers e c (i\<lparr>lt_cursor := cur\<rparr>) s = listTransfers e c i s"
  by (simp add: listTransfers_def)

section \<open>Derived balances\<close>

definition last_group :: "string \<Rightarrow> groupRow list \<Rightarrow> groupRow option" where
  "last_group a gs = List.find (\<lambda>g. gr_account g = a) (rev gs)"

lemma last_group_snoc: "last_group a (gs @ [g]) = (if gr_account g = a then Some g else last_group a gs)"
  by (simp add: last_group_def)

lemma last_group_Nil [simp]: "last_group a [] = None"
  by (simp add: last_group_def)

definition net_and_debit :: "(string \<times> accountBalance) list \<Rightarrow> string \<Rightarrow> (rat \<times> rat) option" where
  "net_and_debit m a = map_option (\<lambda>b. (ab_netBalance b, ab_debitsPosted b)) (map_of m a)"

lemma debits_net:
  assumes "a \<noteq> []"
  shows "net_and_debit (fold set_debit ds []) a =
    map_option (\<lambda>d. (- gr_posted d, gr_posted d)) (last_group a ds)"
proof (induction ds rule: rev_induct)
  case (snoc d ds)
  then show ?case using assms
    by (auto simp: set_debit_def net_and_debit_def last_group_snoc update_conv')
qed (simp add: net_and_debit_def)

lemma credits_net:
  assumes "a \<noteq> []"
  shows "net_and_debit (fold set_credit cs m) a =
    (let D = (case net_and_debit m a of None \<Rightarrow> 0 | Some p \<Rightarrow> snd p) in
     case last_group a cs of None \<Rightarrow> net_and_debit m a | Some c \<Rightarrow> Some (gr_posted c - D, D))"
proof (induction cs rule: rev_induct)
  case (snoc c cs)
  then show ?case using assms
    by (auto simp: set_credit_def net_and_debit_def last_group_snoc update_conv' Let_def split: option.splits)
qed (simp add: Let_def)

text \<open>The balance shown for an account is the posted credits minus the posted debits of the last
  group of its rows on either side: when an account has rows under several names or currencies,
  the amounts of all groups but the last are left out.\<close>

theorem balance_of_last_groups:
  assumes "a \<noteq> []"
  shows "map_option ab_netBalance (map_of (balanceMap ds cs) a) =
    (case (last_group a ds, last_group a cs) of
       (None, None) \<Rightarrow> None
     | (Some d, None) \<Rightarrow> Some (- gr_posted d)
     | (None, Some c) \<Rightarrow> Some (gr_posted c)
     | (Some d, Some c) \<Rightarrow> Some (gr_posted c - gr_posted d))"
proof -
  have "map_option ab_netBalance (map_of (balanceMap ds cs) a) = map_option fst (net_and_debit (balanceMap ds cs) a)"
    by (simp add: net_and_debit_def option.map_comp comp_def)
  then show ?thesis
    using assms by (simp add: balanceMap_def credits_net debits_net Let_def split: option.split)
qed

section \<open>Reports\<close>

text \<open>The volume analytics are not scoped to a tenant: any two tenants' callers are given the same
  figures, and the count is that of all transactions of all tenants in the window.\<close>

theorem analytics_not_tenant_scoped:
  assumes "c_user c = Some u" "admits_user e c u" "e_dbUp e" "7 \<le> days" "days \<le> 365"
  shows "\<exists>a. getTransferAnalytics e c p days s = (Inr a, s) \<and>
    an_totalCount a = length (filter (\<lambda>t. e_now e - days * DAY_MS \<le> tx_createdAt t) (rows (d_tx s))) \<and>
    getTransferAnalytics e (c\<lparr>c_tenantId := Some t2\<rparr>) p days s = (Inr a, s)"
proof -
  have "admits_user e (c\<lparr>c_tenantId := Some t2\<rparr>) u" by (simp add: admits_user_def)
  then show ?thesis using assms
    by (simp add: getTransferAnalytics_def protected_guard.proc_runs Let_def tselect_def)
qed

definition report_day :: "(string \<Rightarrow> int option) \<Rightarrow> env \<Rightarrow> string option \<Rightarrow> int option" where
  "report_day dateMs e date = (case date of Some d \<Rightarrow> dateMs d | None \<Rightarrow> Some (day_of (e_now e - 86400000) * DAY_MS))"

lemma status_partition:
  "length (filter (\<lambda>t. tx_status t = Completed) ts) + length (filter (\<lambda>t. tx_status t = Pending) ts) +
   length (filter (\<lambda>t. tx_status t = Failed) ts) + length (filter (\<lambda>t. tx_status t = Reversed) ts) +
   length (filter (\<lambda>t. tx_status t = Flagged) ts) + length (filter (\<lambda>t. tx_status t = Blocked) ts) +
   length (filter (\<lambda>t. tx_status t = Under_review) ts) = length ts"
proof (induction ts)
  case (Cons t ts)
  then show ?case by (cases "tx_status t") simp_all
qed simp

lemma percentage_bounds:
  assumes "k \<le> n" "0 < n"
  shows "0 \<le> js_round (rat_of_nat k / rat_of_nat n * 100) \<and> js_round (rat_of_nat k / rat_of_nat n * 100) \<le> 100"
proof -
  have "0 \<le> rat_of_nat k / rat_of_nat n" "rat_of_nat k / rat_of_nat n \<le> 1" using assms by simp_all
  then have "0 \<le> \<lfloor>rat_of_nat k / rat_of_nat n * 100 + 1 / 2\<rfloor>" "\<lfloor>rat_of_nat k / rat_of_nat n * 100 + 1 / 2\<rfloor> < 101"
    by (simp_all add: floor_less_iff le_floor_iff)
  then show ?thesis by (simp add: js_round_def)
qed

definition in_report :: "int \<Rightarrow> transaction \<Rightarrow> bool" where
  "in_report d t \<longleftrightarrow> d \<le> tx_createdAt t \<and> tx_createdAt t < d + DAY_MS - 1"

lemma length_filter_sort_key: "length (filter P (sort_key f xs)) = length (filter P xs)"
  by (metis mset_filter mset_sort size_mset)

text \<open>The reconciliation report of a day is consistent: the counts per status and the transfers
  under review add up to its total, and the settlement rate lies between 0 and 100; it covers
  the transfers from the start of the day to before its last millisecond, so one made in the last
  millisecond is in neither this report nor the next day's.\<close>

theorem report_consistent:
  assumes "getReconciliationReport dateMs e c date s = (Inr rep, s')"
  shows "\<exists>d. report_day dateMs e date = Some d \<and> rr_total rep = count_tx (in_report d) s \<and>
    rr_posted rep + rr_pending rep + rr_failed rep + rr_reversed rep + rr_flagged rep + rr_blocked rep +
      count_tx (\<lambda>t. in_report d t \<and> tx_status t = Under_review) s = rr_total rep \<and>
    0 \<le> rr_settlementRate rep \<and> rr_settlementRate rep \<le> 100 \<and>
    in_report d (t\<lparr>tx_createdAt := d + DAY_MS - 1\<rparr>) = False \<and>
    in_report (d + DAY_MS) (t\<lparr>tx_createdAt := d + DAY_MS - 1\<rparr>) = False"
proof -
  from admin_guard.guard_ok [OF assms [unfolded getReconciliationReport_def]]
  obtain d where d: "report_day dateMs e date = Some d"
    by (auto simp: report_day_def split: option.splits if_splits)
  define ts where "ts = sort_key tx_createdAt (tselect (in_report d) (d_tx s))"
  have ts': "ts = sort_key tx_createdAt (tselect (\<lambda>t. d \<le> tx_createdAt t \<and> tx_createdAt t < d + DAY_MS - 1) (d_tx s))"
    by (simp add: ts_def in_report_def [abs_def])
  let ?n = "\<lambda>st. length (filter (\<lambda>t. tx_status t = st) ts)"
  have rep: "rr_total rep = length ts" "rr_posted rep = ?n Completed" "rr_pending rep = ?n Pending"
    "rr_failed rep = ?n Failed" "rr_reversed rep = ?n Reversed" "rr_flagged rep = ?n Flagged" "rr_blocked rep = ?n Blocked"
    "rr_settlementRate rep = (if ts \<noteq> [] then js_round (rat_of_nat (?n Completed) / rat_of_nat (length ts) * 100) else 100)"
    using admin_guard.guard_ok [OF assms [unfolded getReconciliationReport_def]] d
    by (auto simp: report_day_def [symmetric] ts' Let_def split: if_splits)
  have rate: "0 \<le> rr_settlementRate rep \<and> rr_settlementRate rep \<le> 100"
    using percentage_bounds [of "?n Completed" "length ts"] rep(8) by (cases "ts = []") simp_all
  have "?n Under_review = count_tx (\<lambda>t. in_report d t \<and> tx_status t = Under_review) s"
    by (simp add: ts_def count_tx_def tselect_def length_filter_sort_key conj_commute)
  moreover have "length ts = count_tx (in_report d) s" by (simp add: ts_def count_tx_def)
  ultimately show ?thesis using d rep rate status_partition [of ts]
    by (intro exI [where x = d]) (simp add: in_report_def)
qed

end
