(* ===== verification/Payment_Outbox.thy ===== *)
theory Payment_Outbox
  imports Payment_Rails Backoff
begin

text \<open>
  \<open>server/paymentIntentOutbox.ts\<close>: the dispatcher of payment intents. A poll requeues expired
  leases, leases a batch of due intents, and then treats them one after the other: an intent that
  is not dispatchable, or whose tenth start fails, is escalated to reconciliation in one tenant
  transaction; another failure is retried with exponential backoff. The workflow starter is a
  parameter; \<open>startPaymentTransferWorkflow\<close> is the one of \<open>server/temporal.ts\<close>.
\<close>

definition LEASE_TIMEOUT_SECONDS :: int where "LEASE_TIMEOUT_SECONDS = 300"
definition MAX_ATTEMPTS :: nat where "MAX_ATTEMPTS = 10"
definition MAX_BATCH_SIZE :: int where "MAX_BATCH_SIZE = 25"

section \<open>Backoff\<close>

definition retryBase :: "nat \<Rightarrow> int" where
  "retryBase attempt = min (1000 * 2 ^ (attempt - 1)) 300000"

text \<open>\<open>randomInt n\<close> is a number from 0 to below \<open>n\<close>.\<close>

definition retryAt :: "(int \<Rightarrow> int) \<Rightarrow> int \<Rightarrow> nat \<Rightarrow> int" where
  "retryAt randomInt now attempt = now + retryBase attempt + randomInt (max 1 (retryBase attempt div 10))"

interpretation outbox_backoff: backoff retryBase 1000 300000
proof unfold_locales
  show "\<exists>N. \<forall>n\<ge>N. retryBase n = 300000"
  proof (intro exI [where x = 10] allI impI)
    fix n :: nat assume "10 \<le> n"
    then show "retryBase n = 300000"
      using capped_double_cap [of 300000 1000 9 "n - 1"] by (simp add: retryBase_def)
  qed
next
  fix m n :: nat assume "1 \<le> m" "m \<le> n"
  then show "retryBase m \<le> retryBase n"
    using capped_double_mono [of 1000 "m - 1" "n - 1" 300000] by (simp add: retryBase_def)
next
  fix n :: nat assume "1 \<le> n"
  then show "1000 \<le> retryBase n"
    using capped_double_lower [of 1000 300000 "n - 1"] by (simp add: retryBase_def)
qed (simp_all add: retryBase_def)

section \<open>Leasing\<close>

record paymentOutboxRow =
  po_id :: int
  po_transaction_id :: int
  po_tenant_id :: int
  po_idempotency_key :: string
  po_rail :: rail
  po_attempts :: nat
  po_tx_ref :: "string option"
  po_originator_account :: "string option"
  po_beneficiary_account :: "string option"
  po_beneficiary_name :: "string option"
  po_beneficiary_bank :: "string option"
  po_amount :: "rat option"
  po_currency :: "string option"
  po_narration :: "string option"

text \<open>The \<open>RETURNING\<close> clause: the lease and the canonical fields of its transaction.\<close>

definition returning_row :: "paydb \<Rightarrow> outboxRow \<Rightarrow> paymentOutboxRow" where
  "returning_row s b =
     (let t = tfind (\<lambda>t. tx_id t = ob_transaction_id b) (d_tx s);
          col = (\<lambda>f. case t of None \<Rightarrow> None | Some r \<Rightarrow> f r)
      in \<lparr>po_id = ob_id b, po_transaction_id = ob_transaction_id b, po_tenant_id = ob_tenant_id b,
          po_idempotency_key = ob_idempotency_key b, po_rail = ob_rail b, po_attempts = ob_attempts b,
          po_tx_ref = map_option tx_txRef t, po_originator_account = col tx_originatorAccount,
          po_beneficiary_account = col tx_beneficiaryAccount, po_beneficiary_name = map_option tx_beneficiaryName t,
          po_beneficiary_bank = col tx_beneficiaryBank, po_amount = map_option tx_amount t,
          po_currency = map_option tx_currency t, po_narration = col tx_narration\<rparr>)"

definition lease_expired :: "int \<Rightarrow> outboxRow \<Rightarrow> bool" where
  "lease_expired now b \<longleftrightarrow> ob_status b = Leased \<and>
     (case ob_leased_at b of None \<Rightarrow> False | Some l \<Rightarrow> l < now - LEASE_TIMEOUT_SECONDS * 1000)"

definition requeue_expired :: "int \<Rightarrow> paydb \<Rightarrow> paydb" where
  "requeue_expired now s = s\<lparr>d_outbox := tupdate (lease_expired now)
     (\<lambda>b. b\<lparr>ob_status := Queued, ob_leased_at := None, ob_lease_owner := None\<rparr>) (d_outbox s)\<rparr>"

definition due :: "int \<Rightarrow> outboxRow \<Rightarrow> bool" where
  "due now b \<longleftrightarrow> ob_status b = Queued \<and> ob_next_attempt_at b \<le> now"

text \<open>\<open>ORDER BY next\_attempt\_at, id\<close>: a stable sort by the id first.\<close>

definition candidates :: "int \<Rightarrow> int \<Rightarrow> paydb \<Rightarrow> outboxRow list" where
  "candidates now cnt s =
     take (nat (max 1 (min cnt MAX_BATCH_SIZE)))
       (sort_key ob_next_attempt_at (sort_key ob_id (tselect (due now) (d_outbox s))))"

definition mark_leased :: "int \<Rightarrow> string option \<Rightarrow> outboxRow \<Rightarrow> outboxRow" where
  "mark_leased now owner b = b\<lparr>ob_status := Leased, ob_leased_at := Some now, ob_lease_owner := owner\<rparr>"

definition claim_batch :: "string option \<Rightarrow> int \<Rightarrow> int \<Rightarrow> paydb \<Rightarrow> paymentOutboxRow list \<times> paydb" where
  "claim_batch owner now cnt s =
     (let s0 = requeue_expired now s; bs = candidates now cnt s0
      in (map (returning_row s0) bs,
          s0\<lparr>d_outbox := tupdate (\<lambda>b. ob_id b \<in> set (map ob_id bs)) (mark_leased now owner) (d_outbox s0)\<rparr>))"

section \<open>Treating one intent\<close>

definition isDispatchable :: "paymentOutboxRow \<Rightarrow> bool" where
  "isDispatchable item \<longleftrightarrow>
     truthy_str (po_tx_ref item) \<and> truthy_str (po_originator_account item) \<and> truthy_str (po_beneficiary_account item) \<and>
     truthy_str (po_beneficiary_name item) \<and> truthy_str (po_beneficiary_bank item) \<and>
     (case po_amount item of None \<Rightarrow> False | Some a \<Rightarrow> 0 < a) \<and> po_currency item = Some ''NGN''"

definition leased_row :: "int \<Rightarrow> outboxRow \<Rightarrow> bool" where
  "leased_row i b \<longleftrightarrow> ob_id b = i \<and> ob_status b = Leased"

definition mark_dead :: "nat \<Rightarrow> string \<Rightarrow> outboxRow \<Rightarrow> outboxRow" where
  "mark_dead attempt code b =
     b\<lparr>ob_status := Dead_letter, ob_attempts := attempt, ob_leased_at := None, ob_lease_owner := None,
       ob_last_error_code := Some code\<rparr>"

definition pending_row :: "int \<Rightarrow> int \<Rightarrow> transaction \<Rightarrow> bool" where
  "pending_row i tid t \<longleftrightarrow> tx_id t = i \<and> tx_tenantId t = Some tid \<and> tx_status t = Pending"

definition mark_under_review :: "int \<Rightarrow> transaction \<Rightarrow> transaction" where
  "mark_under_review now t = t\<lparr>tx_status := Under_review, tx_updatedAt := now\<rparr>"

text \<open>\<open>withTenantTransaction\<close>: the tenant id is checked first, then all or nothing.\<close>

definition withTenantTransaction :: "int \<Rightarrow> ('s, 'a) act \<Rightarrow> ('s, 'a) act" where
  "withTenantTransaction tid work =
     require (isSafeInteger tid \<and> 0 < tid) (PlainError ''A positive trusted tenant ID is required for PostgreSQL RLS context.'')
       (in_transaction work)"

definition escalateForReconciliation :: "env \<Rightarrow> paymentOutboxRow \<Rightarrow> nat \<Rightarrow> string \<Rightarrow> (paydb, unit) act" where
  "escalateForReconciliation e item attempt errorCode =
     require (e_dbUp e) (PlainError ''payment reconciliation database unavailable'')
       (withTenantTransaction (po_tenant_id item) (\<lambda>s.
          if tfind (leased_row (po_id item)) (d_outbox s) = None
          then (Inl (PlainError ''payment outbox lease was lost before terminal escalation''), s)
          else (let s1 = s\<lparr>d_outbox := tupdate (leased_row (po_id item)) (mark_dead attempt errorCode) (d_outbox s)\<rparr>;
                    pend = pending_row (po_transaction_id item) (po_tenant_id item) in
                if tfind pend (d_tx s1) = None
                then (Inl (PlainError ''payment transaction was not pending for terminal escalation''), s1)
                else (Inr (), update_tx (e_now e) pend (mark_under_review (e_now e)) s1))))"

record workflowStart =
  ws_workflowId :: string
  ws_runId :: "string option"

text \<open>No worker is registered for payment transfers: the start throws whatever its input.\<close>

definition startPaymentTransferWorkflow :: "paymentOutboxRow \<Rightarrow> workflowStart option" where
  "startPaymentTransferWorkflow input = None"

datatype dispatchOutcome = Dispatched | Deferred | DeadLettered

definition mark_started :: "nat \<Rightarrow> workflowStart \<Rightarrow> outboxRow \<Rightarrow> outboxRow" where
  "mark_started attempt w b =
     b\<lparr>ob_status := Workflow_started, ob_attempts := attempt, ob_leased_at := None,
       ob_workflow_id := Some (ws_workflowId w), ob_workflow_run_id := ws_runId w, ob_last_error_code := None\<rparr>"

definition mark_requeued :: "nat \<Rightarrow> int \<Rightarrow> outboxRow \<Rightarrow> outboxRow" where
  "mark_requeued attempt next_at b =
     b\<lparr>ob_status := Queued, ob_attempts := attempt, ob_leased_at := None, ob_next_attempt_at := next_at,
       ob_last_error_code := Some ''TEMPORAL_WORKFLOW_START_FAILED''\<rparr>"

definition start_failed :: "(int \<Rightarrow> int) \<Rightarrow> env \<Rightarrow> paymentOutboxRow \<Rightarrow> nat \<Rightarrow> (paydb, dispatchOutcome) act" where
  "start_failed randomInt e item attempt s =
     (if MAX_ATTEMPTS \<le> attempt
      then (case escalateForReconciliation e item attempt ''TEMPORAL_WORKFLOW_START_FAILED'' s of
              (Inl err, s1) \<Rightarrow> (Inl err, s1) | (Inr _, s1) \<Rightarrow> (Inr DeadLettered, s1))
      else (Inr Deferred, s\<lparr>d_outbox := tupdate (leased_row (po_id item))
              (mark_requeued attempt (retryAt randomInt (e_now e) attempt)) (d_outbox s)\<rparr>))"

text \<open>
  The record of a started workflow is inside the \<open>try\<close>: when its identifier is already taken or
  too long the update throws and the attempt counts as failed.
\<close>

definition workflow_id_free :: "workflowStart \<Rightarrow> int \<Rightarrow> paydb \<Rightarrow> bool" where
  "workflow_id_free w i s \<longleftrightarrow>
     length (ws_workflowId w) \<le> 160 \<and> fits 160 (ws_runId w) \<and>
     (\<forall>b \<in> set (rows (d_outbox s)). ob_workflow_id b = Some (ws_workflowId w) \<longrightarrow> ob_id b = i)"

definition dispatch_item ::
    "(paymentOutboxRow \<Rightarrow> workflowStart option) \<Rightarrow> (int \<Rightarrow> int) \<Rightarrow> env \<Rightarrow> paymentOutboxRow \<Rightarrow> (paydb, dispatchOutcome) act" where
  "dispatch_item starter randomInt e item s =
     (let attempt = po_attempts item + 1 in
      if \<not> isDispatchable item
      then (case escalateForReconciliation e item attempt ''INVALID_DURABLE_PAYMENT_INTENT'' s of
              (Inl err, s1) \<Rightarrow> (Inl err, s1) | (Inr _, s1) \<Rightarrow> (Inr DeadLettered, s1))
      else case starter item of
        None \<Rightarrow> start_failed randomInt e item attempt s
      | Some w \<Rightarrow>
          if workflow_id_free w (po_id item) s
          then (Inr Dispatched, s\<lparr>d_outbox := tupdate (leased_row (po_id item)) (mark_started attempt w) (d_outbox s)\<rparr>)
          else start_failed randomInt e item attempt s)"

section \<open>A poll\<close>

record pollResult =
  pr_claimed :: nat
  pr_dispatched :: nat
  pr_deferred :: nat
  pr_deadLettered :: nat

fun tally :: "dispatchOutcome \<Rightarrow> pollResult \<Rightarrow> pollResult" where
  "tally Dispatched r = r\<lparr>pr_dispatched := pr_dispatched r + 1\<rparr>"
| "tally Deferred r = r\<lparr>pr_deferred := pr_deferred r + 1\<rparr>"
| "tally DeadLettered r = r\<lparr>pr_deadLettered := pr_deadLettered r + 1\<rparr>"

text \<open>The loop over the batch: an error leaves the rest of the batch untouched.\<close>

fun dispatch_all ::
    "(paymentOutboxRow \<Rightarrow> workflowStart option) \<Rightarrow> (int \<Rightarrow> int) \<Rightarrow> env \<Rightarrow> paymentOutboxRow list \<Rightarrow> pollResult \<Rightarrow> (paydb, pollResult) act" where
  "dispatch_all starter randomInt e [] r s = (Inr r, s)"
| "dispatch_all starter randomInt e (item # items) r s =
     (case dispatch_item starter randomInt e item s of
        (Inl err, s1) \<Rightarrow> (Inl err, s1)
      | (Inr out, s1) \<Rightarrow> dispatch_all starter randomInt e items (tally out r) s1)"

definition processPaymentIntentOutbox ::
    "(paymentOutboxRow \<Rightarrow> workflowStart option) \<Rightarrow> (int \<Rightarrow> int) \<Rightarrow> string option \<Rightarrow> env \<Rightarrow> int \<Rightarrow> (paydb, pollResult) act" where
  "processPaymentIntentOutbox starter randomInt owner e cnt =
     require (e_dbUp e) (PlainError ''payment intent outbox database unavailable'') (\<lambda>s.
       case claim_batch owner (e_now e) cnt s of
         (items, s1) \<Rightarrow> dispatch_all starter randomInt e items
           \<lparr>pr_claimed = length items, pr_dispatched = 0, pr_deferred = 0, pr_deadLettered = 0\<rparr> s1)"

end
