(* ===== verification/Payment_Reconciliation.thy ===== *)
theory Payment_Reconciliation
  imports Payment_Outbox
begin

text \<open>
  \<open>server/paymentReconciliation.ts\<close>: the four-eyes resolution of payment intents that could not be
  dispatched. A case is opened by the database trigger (\<open>Payment_Schema\<close>), claimed by one
  administrator and resolved by another with evidence; the resolution moves the payment and its
  outbox instruction in the same tenant transaction.
\<close>

section \<open>Input\<close>

definition is_space :: "char \<Rightarrow> bool" where
  "is_space c \<longleftrightarrow> (let n = (of_char c :: nat) in (9 \<le> n \<and> n \<le> 13) \<or> n = 32 \<or> n = 160)"

definition js_trim :: "string \<Rightarrow> string" where
  "js_trim s = rev (dropWhile is_space (rev (dropWhile is_space s)))"

definition is_alnum :: "char \<Rightarrow> bool" where
  "is_alnum c \<longleftrightarrow> (let n = (of_char c :: nat) in (48 \<le> n \<and> n \<le> 57) \<or> (65 \<le> n \<and> n \<le> 90) \<or> (97 \<le> n \<and> n \<le> 122))"

text \<open>\<open>opaqueReference\<close> on the trimmed text: 8 to 256 characters of \<open>[A-Za-z0-9][A-Za-z0-9._:-]*\<close>.\<close>

definition opaqueReference :: "string \<Rightarrow> bool" where
  "opaqueReference s \<longleftrightarrow> 8 \<le> length s \<and> length s \<le> 256 \<and>
     (case s of [] \<Rightarrow> False
      | c # cs \<Rightarrow> is_alnum c \<and> list_all (\<lambda>x. is_alnum x \<or> x \<in> set [CHR ''.'', CHR ''_'', CHR '':'', CHR ''-'']) cs)"

definition is_hex :: "char \<Rightarrow> bool" where
  "is_hex c \<longleftrightarrow> (let n = (of_char c :: nat) in (48 \<le> n \<and> n \<le> 57) \<or> (97 \<le> n \<and> n \<le> 102))"

definition sha256 :: "string \<Rightarrow> bool" where
  "sha256 s \<longleftrightarrow> length s = 64 \<and> list_all is_hex s"

record evidenceInput =
  ei_case :: int
  ei_reasonCode :: string
  ei_ledgerEvidenceRef :: string
  ei_ledgerEvidenceSha256 :: string
  ei_providerEvidenceRef :: string
  ei_providerEvidenceSha256 :: string

datatype resolution = Res_settled | Res_not_settled | Res_retry | Res_compensation

fun resolution_status :: "resolution \<Rightarrow> caseStatus" where
  "resolution_status Res_settled = Confirmed_settled"
| "resolution_status Res_not_settled = Confirmed_not_settled"
| "resolution_status Res_retry = Approved_retry"
| "resolution_status Res_compensation = Compensation_required"

fun resolution_event :: "resolution \<Rightarrow> caseEvent" where
  "resolution_event Res_settled = Settlement_confirmed"
| "resolution_event Res_not_settled = Not_settled_confirmed"
| "resolution_event Res_retry = Retry_approved"
| "resolution_event Res_compensation = Ev_compensation_required"

text \<open>The literal reason code each procedure accepts.\<close>

fun resolution_reason :: "resolution \<Rightarrow> string" where
  "resolution_reason Res_settled = ''MATCHING_SETTLEMENT_CONFIRMED''"
| "resolution_reason Res_not_settled = ''NO_SETTLEMENT_CONFIRMED''"
| "resolution_reason Res_retry = ''NO_EXTERNAL_EFFECT_CONFIRMED''"
| "resolution_reason Res_compensation = ''COMPENSATION_REQUIRED''"

definition evidence_ok :: "resolution \<Rightarrow> evidenceInput \<Rightarrow> bool" where
  "evidence_ok rs i \<longleftrightarrow>
     ei_reasonCode i = resolution_reason rs \<and>
     opaqueReference (js_trim (ei_ledgerEvidenceRef i)) \<and> sha256 (ei_ledgerEvidenceSha256 i) \<and>
     opaqueReference (js_trim (ei_providerEvidenceRef i)) \<and> sha256 (ei_providerEvidenceSha256 i)"

section \<open>Guards\<close>

definition requireTenantId :: "int option \<Rightarrow> (int \<Rightarrow> ('s, 'a) act) \<Rightarrow> ('s, 'a) act" where
  "requireTenantId tid k s =
     (case tid of
        None \<Rightarrow> (Inl (TRPCError FORBIDDEN ''A trusted tenant scope is required for payment reconciliation.''), s)
      | Some t \<Rightarrow> if isSafeInteger t \<and> 0 < t then k t s
                else (Inl (TRPCError FORBIDDEN ''A trusted tenant scope is required for payment reconciliation.''), s))"

definition requireActorId :: "int \<Rightarrow> ('s, 'a) act \<Rightarrow> ('s, 'a) act" where
  "requireActorId uid =
     require (isSafeInteger uid \<and> 0 < uid)
       (TRPCError UNAUTHORIZED ''An authenticated reviewer is required for payment reconciliation.'')"

definition poolOrFail :: "env \<Rightarrow> ('s, 'a) act \<Rightarrow> ('s, 'a) act" where
  "poolOrFail e = require (e_dbUp e) (TRPCError SERVICE_UNAVAILABLE ''Payment reconciliation storage is unavailable.'')"

section \<open>Cases and events\<close>

definition update_case :: "(reconCase \<Rightarrow> bool) \<Rightarrow> (reconCase \<Rightarrow> reconCase) \<Rightarrow> paydb \<Rightarrow> paydb" where
  "update_case P f s = s\<lparr>d_cases := map (\<lambda>c. if P c then f c else c) (d_cases s)\<rparr>"

definition appendEvent :: "reconEvent \<Rightarrow> paydb \<Rightarrow> paydb" where
  "appendEvent ev s = s\<lparr>d_events := d_events s @ [ev]\<rparr>"

definition closedStatus :: "caseStatus \<Rightarrow> bool" where
  "closedStatus st \<longleftrightarrow> st \<in> set [Approved_retry, Confirmed_settled, Confirmed_not_settled, Compensation_required, Cancelled]"

text \<open>The CHECK constraints of \<open>payment\_reconciliation\_cases\<close>.\<close>

definition case_constraints :: "reconCase \<Rightarrow> bool" where
  "case_constraints c \<longleftrightarrow>
     (rc_status c = COpen \<or> rc_status c = CUnder_review \<or> closedStatus (rc_status c)) \<and>
     (rc_status c = CUnder_review \<longrightarrow> rc_claimed_by c \<noteq> None \<and> rc_claimed_at c \<noteq> None) \<and>
     (closedStatus (rc_status c) \<longrightarrow>
        rc_claimed_by c \<noteq> None \<and> rc_resolved_by c \<noteq> None \<and> rc_resolved_by c \<noteq> rc_claimed_by c \<and>
        rc_resolved_at c \<noteq> None \<and> rc_closed_at c \<noteq> None \<and>
        20 \<le> length (js_trim (case rc_resolution_rationale c of None \<Rightarrow> [] | Some r \<Rightarrow> r))) \<and>
     (case rc_ledger_evidence_sha256 c of None \<Rightarrow> True | Some h \<Rightarrow> sha256 h) \<and>
     (case rc_provider_evidence_sha256 c of None \<Rightarrow> True | Some h \<Rightarrow> sha256 h) \<and>
     (rc_status c \<in> set [Confirmed_settled, Confirmed_not_settled, Approved_retry, Compensation_required] \<longrightarrow>
        rc_ledger_evidence_ref c \<noteq> None \<and> rc_ledger_evidence_sha256 c \<noteq> None \<and>
        rc_provider_evidence_ref c \<noteq> None \<and> rc_provider_evidence_sha256 c \<noteq> None)"

definition claimable :: "int \<Rightarrow> int \<Rightarrow> reconCase \<Rightarrow> bool" where
  "claimable i tid c \<longleftrightarrow> rc_transaction_id c = i \<and> rc_tenant_id c = tid \<and> rc_status c = COpen \<and> rc_claimed_by c = None"

definition mark_claimed :: "int \<Rightarrow> int \<Rightarrow> reconCase \<Rightarrow> reconCase" where
  "mark_claimed now actor c = c\<lparr>rc_status := CUnder_review, rc_claimed_by := Some actor, rc_claimed_at := Some now\<rparr>"

definition claim_record :: "int \<Rightarrow> int \<Rightarrow> int \<Rightarrow> reconEvent" where
  "claim_record tid actor i =
     \<lparr>ev_case = i, ev_tenant_id = tid, ev_type = Case_claimed, ev_actor = Some actor,
      ev_from = Some COpen, ev_to = CUnder_review, ev_reason_code = ''INDEPENDENT_REVIEW_CLAIMED'',
      ev_ledger_sha256 = None, ev_provider_sha256 = None\<rparr>"

definition claim_body :: "int \<Rightarrow> int \<Rightarrow> int \<Rightarrow> int \<Rightarrow> (paydb, unit) act" where
  "claim_body now tid actor i s =
     (if List.find (claimable i tid) (d_cases s) = None
      then (Inl (TRPCError CONFLICT ''Payment reconciliation case is not available to claim.''), s)
      else (Inr (), appendEvent (claim_record tid actor i) (update_case (claimable i tid) (mark_claimed now actor) s)))"

definition claim :: "env \<Rightarrow> ctx \<Rightarrow> int \<Rightarrow> (paydb, unit) act" where
  "claim e c i =
     adminProcedure e c (\<lambda>u. requireTenantId (c_tenantId c) (\<lambda>tid. requireActorId (u_id u) (poolOrFail e
       (withTenantTransaction tid (claim_body (e_now e) tid (u_id u) i)))))"

section \<open>Resolution\<close>

text \<open>The locked case with its transaction and outbox row, which the joins require.\<close>

definition lockClaimedCase :: "int \<Rightarrow> int \<Rightarrow> int \<Rightarrow> paydb \<Rightarrow> error + reconCase" where
  "lockClaimedCase i tid actor s =
     (let unavailable = Inl (TRPCError CONFLICT ''The payment reconciliation case is unavailable for independent resolution.'') in
      case List.find (\<lambda>c. rc_transaction_id c = i \<and> rc_tenant_id c = tid) (d_cases s) of
        None \<Rightarrow> unavailable
      | Some c \<Rightarrow>
         (case (tfind (\<lambda>t. tx_id t = rc_transaction_id c \<and> tx_tenantId t = Some tid) (d_tx s),
                tfind (\<lambda>b. ob_id b = rc_outbox_id c \<and> ob_transaction_id b = rc_transaction_id c \<and> ob_tenant_id b = tid) (d_outbox s)) of
            (Some t, Some b) \<Rightarrow>
              if rc_status c \<noteq> CUnder_review \<or> rc_claimed_by c = None \<or> rc_claimed_by c = Some actor then unavailable
              else if tx_status t \<noteq> Under_review \<or> ob_status b \<noteq> Dead_letter
              then Inl (TRPCError CONFLICT ''The durable payment state is inconsistent and requires incident containment.'')
              else Inr c
          | _ \<Rightarrow> unavailable))"

definition resolvable :: "int \<Rightarrow> int \<Rightarrow> int \<Rightarrow> reconCase \<Rightarrow> bool" where
  "resolvable i tid actor c \<longleftrightarrow>
     rc_transaction_id c = i \<and> rc_tenant_id c = tid \<and> rc_status c = CUnder_review \<and>
     rc_claimed_by c \<noteq> None \<and> rc_claimed_by c \<noteq> Some actor"

definition mark_case_resolved :: "int \<Rightarrow> int \<Rightarrow> resolution \<Rightarrow> evidenceInput \<Rightarrow> reconCase \<Rightarrow> reconCase" where
  "mark_case_resolved now actor rs i c =
     c\<lparr>rc_status := resolution_status rs, rc_resolved_by := Some actor, rc_resolved_at := Some now,
       rc_closed_at := Some now, rc_resolution_rationale := Some (ei_reasonCode i),
       rc_ledger_evidence_ref := Some (js_trim (ei_ledgerEvidenceRef i)),
       rc_ledger_evidence_sha256 := Some (ei_ledgerEvidenceSha256 i),
       rc_provider_evidence_ref := Some (js_trim (ei_providerEvidenceRef i)),
       rc_provider_evidence_sha256 := Some (ei_providerEvidenceSha256 i)\<rparr>"

definition in_review :: "int \<Rightarrow> int \<Rightarrow> transaction \<Rightarrow> bool" where
  "in_review i tid t \<longleftrightarrow> tx_id t = i \<and> tx_tenantId t = Some tid \<and> tx_status t = Under_review"

definition set_status :: "int \<Rightarrow> txStatus \<Rightarrow> transaction \<Rightarrow> transaction" where
  "set_status now st t = t\<lparr>tx_status := st, tx_updatedAt := now\<rparr>"

definition move_payment :: "int \<Rightarrow> int \<Rightarrow> int \<Rightarrow> txStatus \<Rightarrow> string \<Rightarrow> paydb \<Rightarrow> (error + unit) \<times> paydb" where
  "move_payment now i tid st msg s =
     (if tfind (in_review i tid) (d_tx s) = None then (Inl (TRPCError CONFLICT msg), s)
      else (Inr (), update_tx now (in_review i tid) (set_status now st) s))"

definition dead_row :: "reconCase \<Rightarrow> int \<Rightarrow> outboxRow \<Rightarrow> bool" where
  "dead_row c tid b \<longleftrightarrow> ob_id b = rc_outbox_id c \<and> ob_tenant_id b = tid \<and> ob_transaction_id b = rc_transaction_id c \<and>
     ob_status b = Dead_letter"

definition mark_retry :: "int \<Rightarrow> outboxRow \<Rightarrow> outboxRow" where
  "mark_retry now b = b\<lparr>ob_status := Queued, ob_attempts := 0, ob_leased_at := None, ob_lease_owner := None,
     ob_next_attempt_at := now, ob_last_error_code := Some ''HUMAN_APPROVED_DETERMINISTIC_RETRY''\<rparr>"

text \<open>What a resolution does to the payment and its outbox row.\<close>

fun settle_payment :: "int \<Rightarrow> int \<Rightarrow> resolution \<Rightarrow> reconCase \<Rightarrow> (paydb, unit) act" where
  "settle_payment now tid Res_settled c s =
     move_payment now (rc_transaction_id c) tid Completed ''Payment transaction could not be settled safely.'' s"
| "settle_payment now tid Res_not_settled c s =
     move_payment now (rc_transaction_id c) tid Failed ''Payment transaction could not be failed safely.'' s"
| "settle_payment now tid Res_retry c s =
     (if tfind (dead_row c tid) (d_outbox s) = None
      then (Inl (TRPCError CONFLICT ''Payment outbox could not be requeued safely.''), s)
      else move_payment now (rc_transaction_id c) tid Pending ''Payment transaction could not be requeued safely.''
             (s\<lparr>d_outbox := tupdate (dead_row c tid) (mark_retry now) (d_outbox s)\<rparr>))"
| "settle_payment now tid Res_compensation c s = (Inr (), s)"

definition resolution_record :: "int \<Rightarrow> int \<Rightarrow> resolution \<Rightarrow> evidenceInput \<Rightarrow> reconEvent" where
  "resolution_record tid actor rs i =
     \<lparr>ev_case = ei_case i, ev_tenant_id = tid, ev_type = resolution_event rs, ev_actor = Some actor,
      ev_from = Some CUnder_review, ev_to = resolution_status rs, ev_reason_code = ei_reasonCode i,
      ev_ledger_sha256 = Some (ei_ledgerEvidenceSha256 i), ev_provider_sha256 = Some (ei_providerEvidenceSha256 i)\<rparr>"

definition resolve_body :: "int \<Rightarrow> int \<Rightarrow> int \<Rightarrow> resolution \<Rightarrow> evidenceInput \<Rightarrow> (paydb, caseStatus) act" where
  "resolve_body now tid actor rs i s =
     (case lockClaimedCase (ei_case i) tid actor s of
        Inl err \<Rightarrow> (Inl err, s)
      | Inr c \<Rightarrow>
          if \<not> list_ex (resolvable (ei_case i) tid actor) (d_cases s)
          then (Inl (TRPCError CONFLICT ''Payment reconciliation resolution could not be recorded.''), s)
          else (case settle_payment now tid rs c (update_case (resolvable (ei_case i) tid actor) (mark_case_resolved now actor rs i) s) of
                  (Inl err, s2) \<Rightarrow> (Inl err, s2)
                | (Inr _, s2) \<Rightarrow> (Inr (resolution_status rs), appendEvent (resolution_record tid actor rs i) s2)))"

definition resolveCase :: "env \<Rightarrow> int \<Rightarrow> int \<Rightarrow> resolution \<Rightarrow> evidenceInput \<Rightarrow> (paydb, caseStatus) act" where
  "resolveCase e tid actor rs i = poolOrFail e (withTenantTransaction tid (resolve_body (e_now e) tid actor rs i))"

text \<open>
  \<open>confirmSettled\<close>, \<open>confirmNotSettled\<close>, \<open>approveDeterministicRetry\<close> and \<open>requireCompensation\<close> are
  this procedure at the four resolutions.
\<close>

definition resolveProcedure :: "resolution \<Rightarrow> env \<Rightarrow> ctx \<Rightarrow> evidenceInput \<Rightarrow> (paydb, caseStatus) act" where
  "resolveProcedure rs e c i =
     adminProcedure e c (\<lambda>u. zod (evidence_ok rs i)
       (requireTenantId (c_tenantId c) (\<lambda>tid. requireActorId (u_id u) (resolveCase e tid (u_id u) rs i))))"

section \<open>Listing open cases\<close>

record openCase =
  oc_transaction_id :: int
  oc_outbox_id :: int
  oc_status :: caseStatus
  oc_last_error_code :: string
  oc_opened_at :: int
  oc_claimed_at :: "int option"
  oc_attempts :: nat
  oc_workflow_id :: "string option"
  oc_workflow_run_id :: "string option"

definition open_case_of :: "paydb \<Rightarrow> reconCase \<Rightarrow> openCase option" where
  "open_case_of s c =
     (case tfind (\<lambda>b. ob_id b = rc_outbox_id c \<and> ob_tenant_id b = rc_tenant_id c) (d_outbox s) of
        None \<Rightarrow> None
      | Some b \<Rightarrow> Some \<lparr>oc_transaction_id = rc_transaction_id c, oc_outbox_id = rc_outbox_id c, oc_status = rc_status c,
          oc_last_error_code = rc_last_error_code c, oc_opened_at = rc_opened_at c, oc_claimed_at = rc_claimed_at c,
          oc_attempts = ob_attempts b, oc_workflow_id = ob_workflow_id b, oc_workflow_run_id = ob_workflow_run_id b\<rparr>)"

text \<open>The case identifiers order as the transaction ids they encode.\<close>

definition listOpen :: "env \<Rightarrow> ctx \<Rightarrow> int option \<Rightarrow> (paydb, openCase list) act" where
  "listOpen e c cnt =
     adminProcedure e c (\<lambda>u. zod (case cnt of None \<Rightarrow> True | Some n \<Rightarrow> 1 \<le> n \<and> n \<le> 100)
       (requireTenantId (c_tenantId c) (\<lambda>tid. poolOrFail e (withTenantTransaction tid (\<lambda>s.
          (Inr (take (nat (case cnt of None \<Rightarrow> 50 | Some n \<Rightarrow> n))
             (sort_key oc_opened_at (sort_key oc_transaction_id (List.map_filter (open_case_of s)
               (filter (\<lambda>x. rc_tenant_id x = tid \<and> (rc_status x = COpen \<or> rc_status x = CUnder_review)) (d_cases s)))))), s))))))"

end
