(* ===== verification/Aml_Transactions.thy ===== *)
theory Aml_Transactions
  imports Transactions
begin

text \<open>
  The transactions router of \<open>server/aml.ts\<close>, a second way into the table of payments: a score of its own, the creation
  of a transaction that is completed or flagged at once, and the flagging and clearing of an existing one; and the update
  with which \<open>server/archival.ts\<close> marks the rows it has archived. What these handlers send to other services, and the case
  an escalated alert opens in another table, has no effect on the tables modelled here.
\<close>

section \<open>The score\<close>

definition AML_KEYWORDS :: "string list" where
  "AML_KEYWORDS = [''shell'', ''offshore'', ''nominee'', ''bearer'', ''crypto'', ''bitcoin'']"

record amlInput =
  ai_type :: txType
  ai_amount :: rat
  ai_currency :: string
  ai_originatorName :: string
  ai_originatorAccount :: "string option"
  ai_originatorBank :: "string option"
  ai_originatorCountry :: string
  ai_beneficiaryName :: string
  ai_beneficiaryAccount :: "string option"
  ai_beneficiaryBank :: "string option"
  ai_beneficiaryCountry :: string
  ai_purposeCode :: "string option"
  ai_narration :: "string option"
  ai_valueDate :: "string option"
  ai_investigationId :: "int option"

text \<open>Each rule in the order of the source: when it applies, its flag and its weight.\<close>

definition aml_rules :: "amlInput \<Rightarrow> (bool \<times> string \<times> int) list" where
  "aml_rules i =
     [(ai_originatorCountry i \<in> set HIGH_RISK_COUNTRIES, ''high_risk_originator_country'', 35),
      (ai_beneficiaryCountry i \<in> set HIGH_RISK_COUNTRIES, ''high_risk_beneficiary_country'', 35),
      (ai_currency i = ''NGN'' \<and> 4900000 \<le> ai_amount i \<and> ai_amount i < 5000000, ''potential_structuring'', 40),
      (ai_currency i = ''NGN'' \<and> 5000000 \<le> ai_amount i, ''large_cash_transaction'', 20),
      (ai_type i = Cash_deposit \<or> ai_type i = Cash_withdrawal, ''cash_transaction'', 10),
      (case ai_narration i of None \<Rightarrow> False | Some n \<Rightarrow> list_ex (\<lambda>kw. str_includes (toLowerCase n) kw) AML_KEYWORDS,
         ''suspicious_narration'', 25),
      (ai_type i = Fx_conversion \<and> 50000 < ai_amount i, ''large_fx_conversion'', 15)]"

definition scoreTransaction :: "amlInput \<Rightarrow> int \<times> string list" where
  "scoreTransaction i = (let hits = filter fst (aml_rules i) in
     (min (sum_list (map (snd \<circ> snd) hits)) 100, map (fst \<circ> snd) hits))"

definition aml_level :: "int \<Rightarrow> riskLevel" where
  "aml_level score = (if 70 \<le> score then RiskCritical else if 50 \<le> score then RiskHigh
     else if 25 \<le> score then RiskMedium else RiskLow)"

section \<open>Creating\<close>

definition aml_input_ok :: "amlInput \<Rightarrow> bool" where
  "aml_input_ok i \<longleftrightarrow> 0 < ai_amount i \<and> length (ai_currency i) = 3 \<and> 2 \<le> length (ai_originatorName i) \<and>
     length (ai_originatorCountry i) = 2 \<and> 2 \<le> length (ai_beneficiaryName i) \<and> length (ai_beneficiaryCountry i) = 2"

text \<open>\<open>real64\<close> rounds to a double and \<open>real32\<close> to the single precision of the columns.\<close>

definition aml_usd :: "(rat \<Rightarrow> rat) \<Rightarrow> (rat \<Rightarrow> rat) \<Rightarrow> amlInput \<Rightarrow> rat option" where
  "aml_usd real32 real64 i = (if ai_currency i = ''USD'' then Some (real32 (ai_amount i))
     else if ai_currency i = ''NGN'' then Some (real32 (real64 (ai_amount i / 1600))) else None)"

definition aml_row ::
    "(rat \<Rightarrow> rat) \<Rightarrow> (rat \<Rightarrow> rat) \<Rightarrow> int \<Rightarrow> int \<Rightarrow> int \<Rightarrow> string \<Rightarrow> int \<Rightarrow> amlInput \<Rightarrow> int \<Rightarrow> transaction" where
  "aml_row real32 real64 now tid uid ref vd i n =
     (case scoreTransaction i of (score, flags) \<Rightarrow>
       (new_transaction now n ref (ai_type i) (real32 (ai_amount i)) (ai_originatorName i) (ai_beneficiaryName i))
         \<lparr>tx_tenantId := Some tid, tx_status := (if 70 \<le> score then Flagged else Completed), tx_currency := ai_currency i,
          tx_amountUsd := aml_usd real32 real64 i,
          tx_originatorAccount := ai_originatorAccount i, tx_originatorBank := ai_originatorBank i,
          tx_originatorCountry := Some (ai_originatorCountry i), tx_beneficiaryAccount := ai_beneficiaryAccount i,
          tx_beneficiaryBank := ai_beneficiaryBank i, tx_beneficiaryCountry := Some (ai_beneficiaryCountry i),
          tx_purposeCode := ai_purposeCode i, tx_narration := ai_narration i, tx_amlRiskLevel := Some (aml_level score),
          tx_amlScore := Some score, tx_amlFlags := Some flags, tx_flaggedAt := (if 50 \<le> score then Some now else None),
          tx_flaggedBy := (if 50 \<le> score then Some uid else None), tx_investigationId := ai_investigationId i,
          tx_valueDate := Some vd\<rparr>)"

text \<open>The arrow of the titles, one character outside this alphabet, is written as the control character 26.\<close>

definition ARROW :: string where "ARROW = '' '' @ [CHR 0x1A] @ '' ''"

definition aml_alert :: "int \<Rightarrow> int \<Rightarrow> string \<Rightarrow> int \<Rightarrow> riskLevel \<Rightarrow> string \<Rightarrow> string \<Rightarrow> rat \<Rightarrow> int option \<Rightarrow> int \<Rightarrow> amlAlert" where
  "aml_alert now tid aref txid lvl title descr v inq n =
     \<lparr>al_id = n, al_tenantId = Some tid, al_alertRef = aref, al_transactionId = Some txid, al_ruleId = None, al_status = AOpen,
      al_riskLevel = lvl, al_title = title, al_description = Some descr, al_triggeredValue = Some v, al_assignedTo = None,
      al_reviewedBy = None, al_reviewedAt = None, al_reviewNotes = None, al_investigationId = inq, al_createdAt = now,
      al_deletedAt = None, al_deletedBy = None, al_updatedAt = now\<rparr>"

definition requireAmlTenant :: "ctx \<Rightarrow> (int \<Rightarrow> ('s, 'a) act) \<Rightarrow> ('s, 'a) act" where
  "requireAmlTenant c k = (case c_tenantId c of
     None \<Rightarrow> throw (PlainError ''Tenant context is required for financial operations'') | Some tid \<Rightarrow> k tid)"

definition amlDb :: "env \<Rightarrow> ('s, 'a) act \<Rightarrow> ('s, 'a) act" where
  "amlDb e = require (e_dbUp e) (PlainError ''Database unavailable'')"

text \<open>
  \<open>known\<close> tells which investigations exist, for the foreign key; \<open>toLocale\<close> is \<open>toLocaleString\<close> of a number. The two inserts are
  not in a transaction.
\<close>

definition amlCreate ::
    "(rat \<Rightarrow> rat) \<Rightarrow> (rat \<Rightarrow> rat) \<Rightarrow> (string \<Rightarrow> int option) \<Rightarrow> (int \<Rightarrow> bool) \<Rightarrow> (rat \<Rightarrow> string) \<Rightarrow> string \<Rightarrow> string \<Rightarrow> env \<Rightarrow> ctx \<Rightarrow>
     amlInput \<Rightarrow> (paydb, transaction) act" where
  "amlCreate real32 real64 parseDate known toLocale ref aref e c i =
     writeProcedure e c (\<lambda>u. zod (aml_input_ok i) (amlDb e (requireAmlTenant c (\<lambda>tid s.
       case date_or_now parseDate (e_now e) (ai_valueDate i) of
         None \<Rightarrow> (Inl DbError, s)
       | Some vd \<Rightarrow>
         (case (if (case ai_investigationId i of None \<Rightarrow> True | Some k \<Rightarrow> known k)
                then insert_tx (aml_row real32 real64 (e_now e) tid (u_id u) ref vd i) s else None) of
            None \<Rightarrow> (Inl DbError, s)
          | Some (tx, s1) \<Rightarrow>
             (case scoreTransaction i of (score, flags) \<Rightarrow>
               if 50 \<le> score \<and> flags \<noteq> []
               then (case insert_alert (aml_alert (e_now e) tid aref (tx_id tx) (aml_level score)
                       (map to_upper (riskLevel_text (aml_level score)) @ '' Risk: '' @ ai_originatorName i @ ARROW @ ai_beneficiaryName i)
                       (''Transaction '' @ tx_txRef tx @ '' triggered: '' @ join_with '', '' flags @ ''. Amount: '' @ ai_currency i @ '' '' @
                        toLocale (ai_amount i))
                       (real32 (ai_amount i)) (ai_investigationId i)) s1 of
                       None \<Rightarrow> (Inl DbError, s1)
                     | Some s2 \<Rightarrow> (Inr tx, s2))
               else (Inr tx, s1)))))))"

section \<open>Flagging and clearing\<close>

definition own_tx :: "int \<Rightarrow> int \<Rightarrow> transaction \<Rightarrow> bool" where
  "own_tx i tid t \<longleftrightarrow> tx_id t = i \<and> tx_tenantId t = Some tid"

definition aml_flagged :: "int \<Rightarrow> int \<Rightarrow> transaction \<Rightarrow> transaction" where
  "aml_flagged now uid t = t\<lparr>tx_status := Flagged, tx_flaggedAt := Some now, tx_flaggedBy := Some uid, tx_updatedAt := now\<rparr>"

text \<open>Any transaction of the tenant, whatever its status; the alert is a second statement.\<close>

definition amlFlag :: "string \<Rightarrow> env \<Rightarrow> ctx \<Rightarrow> int \<Rightarrow> string \<Rightarrow> (paydb, transaction) act" where
  "amlFlag aref e c i reason =
     writeProcedure e c (\<lambda>u. zod (10 \<le> length reason) (amlDb e (requireAmlTenant c (\<lambda>tid s.
       let s1 = update_tx (e_now e) (own_tx i tid) (aml_flagged (e_now e) (u_id u)) s in
       case tfind (own_tx i tid) (d_tx s1) of
         None \<Rightarrow> (Inl (PlainError ''Transaction not found''), s1)
       | Some tx \<Rightarrow>
          (case insert_alert (aml_alert (e_now e) tid aref (tx_id tx) RiskHigh
                  (''Manually Flagged: '' @ tx_originatorName tx @ ARROW @ tx_beneficiaryName tx) reason (tx_amount tx) None) s1 of
             None \<Rightarrow> (Inl DbError, s1)
           | Some s2 \<Rightarrow> (Inr tx, s2))))))"

definition clearable :: "int \<Rightarrow> int \<Rightarrow> transaction \<Rightarrow> bool" where
  "clearable i tid t \<longleftrightarrow> own_tx i tid t \<and> tx_status t = Flagged"

definition aml_cleared :: "int \<Rightarrow> transaction \<Rightarrow> transaction" where
  "aml_cleared now t = t\<lparr>tx_status := Completed, tx_amlRiskLevel := Some RiskLow, tx_updatedAt := now\<rparr>"

definition amlClear :: "env \<Rightarrow> ctx \<Rightarrow> int \<Rightarrow> (paydb, transaction) act" where
  "amlClear e c i =
     writeProcedure e c (\<lambda>u. amlDb e (requireAmlTenant c (\<lambda>tid s.
       case tfind (clearable i tid) (d_tx s) of
         None \<Rightarrow> (Inl (PlainError ''Only a tenant-owned flagged transaction can be cleared''), s)
       | Some tx \<Rightarrow> (Inr (aml_cleared (e_now e) tx), update_tx (e_now e) (clearable i tid) (aml_cleared (e_now e)) s))))"

section \<open>Archiving\<close>

text \<open>The rows of a chunk after they were written to the warm archive.\<close>

definition markArchived :: "int \<Rightarrow> int list \<Rightarrow> paydb \<Rightarrow> paydb" where
  "markArchived now ids = update_tx now (\<lambda>t. tx_id t \<in> set ids) (\<lambda>t. t\<lparr>tx_archivedTier := Some ''warm'', tx_archivedAt := Some now\<rparr>)"

section \<open>Facts\<close>

lemma clear_cases:
  obtains (refused) err where "amlClear e c i s = (Inl err, s)"
    | (cleared) u tid tx where "c_user c = Some u" "\<not> c_isDemo c" "c_tenantId c = Some tid"
        "tx \<in> set (rows (d_tx s))" "clearable i tid tx"
        "amlClear e c i s = (Inr (aml_cleared (e_now e) tx), update_tx (e_now e) (clearable i tid) (aml_cleared (e_now e)) s)"
proof (cases "\<exists>u tid tx. c_user c = Some u \<and> \<not> c_isDemo c \<and> c_tenantId c = Some tid \<and> e_dbUp e \<and> tfind (clearable i tid) (d_tx s) = Some tx")
  case True
  then obtain u tid tx where x: "c_user c = Some u" "\<not> c_isDemo c" "c_tenantId c = Some tid" "e_dbUp e"
    "tfind (clearable i tid) (d_tx s) = Some tx" by blast
  from tfind_SomeD [OF x(5)] x show thesis
    by (intro cleared [of u tid tx]) (simp_all add: amlClear_def writeProcedure_def amlDb_def requireAmlTenant_def)
next
  case False
  then have "\<exists>err. amlClear e c i s = (Inl err, s)"
    by (cases "c_user c"; cases "c_isDemo c"; cases "c_tenantId c"; cases "e_dbUp e"; cases "tfind (clearable i (the (c_tenantId c))) (d_tx s)")
      (simp_all add: amlClear_def writeProcedure_def amlDb_def requireAmlTenant_def)
  then show thesis using refused by blast
qed

lemma insert_alert_frame:
  "insert_alert mk s = Some s' \<Longrightarrow> d_tx s' = d_tx s \<and> d_outbox s' = d_outbox s \<and> d_cases s' = d_cases s"
  by (drule insert_alert_SomeD) simp

text \<open>A creation writes at most one transaction and one alert; a flagging one update and one alert.\<close>

lemma aml_guards:
  assumes "writeProcedure e c (\<lambda>u. zod b (amlDb e (requireAmlTenant c (k u)))) s = (r, s')"
  shows "s' = s \<or> (\<exists>u tid. k u tid s = (r, s'))"
  using assms by (auto simp: writeProcedure_def amlDb_def requireAmlTenant_def split: option.split_asm if_split_asm)

lemma aml_create_cases:
  assumes "amlCreate real32 real64 parseDate known toLocale ref aref e c i s = (r, s')"
  obtains (refused) "s' = s"
    | (inserted) tid u vd tx s1 where "insert_tx (aml_row real32 real64 (e_now e) tid u ref vd i) s = Some (tx, s1)"
        "d_tx s' = d_tx s1" "d_outbox s' = d_outbox s1" "d_cases s' = d_cases s1"
proof -
  from aml_guards [OF assms [unfolded amlCreate_def]] show thesis
  proof
    assume "\<exists>u tid. (case date_or_now parseDate (e_now e) (ai_valueDate i) of
         None \<Rightarrow> (Inl DbError, s)
       | Some vd \<Rightarrow>
         (case (if (case ai_investigationId i of None \<Rightarrow> True | Some k \<Rightarrow> known k)
                then insert_tx (aml_row real32 real64 (e_now e) tid (u_id u) ref vd i) s else None) of
            None \<Rightarrow> (Inl DbError, s)
          | Some (tx, s1) \<Rightarrow>
             (case scoreTransaction i of (score, flags) \<Rightarrow>
               if 50 \<le> score \<and> flags \<noteq> []
               then (case insert_alert (aml_alert (e_now e) tid aref (tx_id tx) (aml_level score)
                       (map to_upper (riskLevel_text (aml_level score)) @ '' Risk: '' @ ai_originatorName i @ ARROW @ ai_beneficiaryName i)
                       (''Transaction '' @ tx_txRef tx @ '' triggered: '' @ join_with '', '' flags @ ''. Amount: '' @ ai_currency i @ '' '' @
                        toLocale (ai_amount i))
                       (real32 (ai_amount i)) (ai_investigationId i)) s1 of
                       None \<Rightarrow> (Inl DbError, s1)
                     | Some s2 \<Rightarrow> (Inr tx, s2))
               else (Inr tx, s1)))) = (r, s')"
    then have "s' = s \<or> (\<exists>tid u vd tx s1. insert_tx (aml_row real32 real64 (e_now e) tid u ref vd i) s = Some (tx, s1) \<and>
        (s' = s1 \<or> (\<exists>mk. insert_alert mk s1 = Some s')))"
      by (fastforce split: option.split_asm if_split_asm prod.split_asm)
    then show thesis
    proof (elim disjE exE conjE)
      fix tid u vd tx s1
      assume 1: "insert_tx (aml_row real32 real64 (e_now e) tid u ref vd i) s = Some (tx, s1)" and 2: "s' = s1"
      from inserted [OF 1] 2 show thesis by simp
    next
      fix tid u vd tx s1 mk
      assume 1: "insert_tx (aml_row real32 real64 (e_now e) tid u ref vd i) s = Some (tx, s1)" and "insert_alert mk s1 = Some s'"
      from inserted [OF 1] insert_alert_frame [OF this(2)] show thesis by blast
    qed (rule refused)
  qed (rule refused)
qed

lemma aml_flag_cases:
  assumes "amlFlag aref e c i reason s = (r, s')"
  obtains (refused) "s' = s"
    | (flagged) tid u where "d_tx s' = d_tx (update_tx (e_now e) (own_tx i tid) (aml_flagged (e_now e) u) s)"
        "d_outbox s' = d_outbox (update_tx (e_now e) (own_tx i tid) (aml_flagged (e_now e) u) s)"
        "d_cases s' = d_cases (update_tx (e_now e) (own_tx i tid) (aml_flagged (e_now e) u) s)"
proof -
  from aml_guards [OF assms [unfolded amlFlag_def]] show thesis
  proof
    assume "\<exists>u tid. (let s1 = update_tx (e_now e) (own_tx i tid) (aml_flagged (e_now e) (u_id u)) s in
       case tfind (own_tx i tid) (d_tx s1) of
         None \<Rightarrow> (Inl (PlainError ''Transaction not found''), s1)
       | Some tx \<Rightarrow>
          (case insert_alert (aml_alert (e_now e) tid aref (tx_id tx) RiskHigh
                  (''Manually Flagged: '' @ tx_originatorName tx @ ARROW @ tx_beneficiaryName tx) reason (tx_amount tx) None) s1 of
             None \<Rightarrow> (Inl DbError, s1)
           | Some s2 \<Rightarrow> (Inr tx, s2))) = (r, s')"
    then have "\<exists>tid u s1. s1 = update_tx (e_now e) (own_tx i tid) (aml_flagged (e_now e) u) s \<and>
        (s' = s1 \<or> (\<exists>mk. insert_alert mk s1 = Some s'))"
      unfolding Let_def by (fastforce split: option.split_asm)
    then obtain tid u where "s' = update_tx (e_now e) (own_tx i tid) (aml_flagged (e_now e) u) s \<or>
        (\<exists>mk. insert_alert mk (update_tx (e_now e) (own_tx i tid) (aml_flagged (e_now e) u) s) = Some s')" by blast
    then show thesis using flagged [of tid u] insert_alert_frame by blast
  qed (rule refused)
qed

end
