(* ===== verification/Payment_System.thy ===== *)
theory Payment_System
  imports Payment_Reconciliation Payment_Properties Aml_Transactions
begin

text \<open>
  The payment side as one transition system: every mutation of \<open>transactions.ts\<close>,
  \<open>paymentRails.ts\<close> and \<open>paymentReconciliation.ts\<close>, what \<open>aml.ts\<close> and \<open>archival.ts\<close> write to the
  transactions, and the polls of the outbox dispatcher
  taken apart into the lease of a batch and the treatment of one leased intent, so that requests
  and several dispatchers interleave. A dispatcher may drop what it holds at any time (an error in
  the batch, a crash). The integrity invariant is proved per write primitive and composed per
  operation.
\<close>

section \<open>The integrity invariant\<close>

definition tx_same_key :: "(transaction \<Rightarrow> transaction) \<Rightarrow> bool" where
  "tx_same_key f \<longleftrightarrow> (\<forall>t. tx_id (f t) = tx_id t \<and> tx_txRef (f t) = tx_txRef t \<and>
     tx_idempotencyKey (f t) = tx_idempotencyKey t \<and> tx_tenantId (f t) = tx_tenantId t)"

definition ob_same_key :: "(outboxRow \<Rightarrow> outboxRow) \<Rightarrow> bool" where
  "ob_same_key f \<longleftrightarrow> (\<forall>b. ob_id (f b) = ob_id b \<and> ob_transaction_id (f b) = ob_transaction_id b \<and>
     ob_tenant_id (f b) = ob_tenant_id b \<and> ob_idempotency_key (f b) = ob_idempotency_key b)"

text \<open>The CHECK constraints of the outbox; an intent that is still to be tried has at most 9 attempts.\<close>

definition outbox_row_ok :: "outboxRow \<Rightarrow> bool" where
  "outbox_row_ok b \<longleftrightarrow>
     (ob_status b = Leased) = (ob_leased_at b \<noteq> None) \<and> ob_attempts b \<le> MAX_ATTEMPTS \<and>
     (ob_status b = Queued \<or> ob_status b = Leased \<longrightarrow> ob_attempts b < MAX_ATTEMPTS)"

definition has_payment :: "transaction tbl \<Rightarrow> outboxRow \<Rightarrow> bool" where
  "has_payment txs b \<longleftrightarrow> (\<exists>t \<in> set (rows txs). tx_id t = ob_transaction_id b \<and>
     tx_tenantId t = Some (ob_tenant_id b) \<and> tx_txRef t = ob_idempotency_key b)"

definition outbox_ok :: "paydb \<Rightarrow> bool" where
  "outbox_ok s \<longleftrightarrow> serial_ok ob_id (d_outbox s) \<and> distinct (map ob_transaction_id (rows (d_outbox s))) \<and>
     (\<forall>b \<in> set (rows (d_outbox s)). has_payment (d_tx s) b \<and> outbox_row_ok b)"

definition has_intent :: "outboxRow tbl \<Rightarrow> reconCase \<Rightarrow> bool" where
  "has_intent obs c \<longleftrightarrow> (\<exists>b \<in> set (rows obs). ob_id b = rc_outbox_id c \<and>
     ob_transaction_id b = rc_transaction_id c \<and> ob_tenant_id b = rc_tenant_id c)"

definition cases_ok :: "paydb \<Rightarrow> bool" where
  "cases_ok s \<longleftrightarrow> cases_unique s \<and> (\<forall>c \<in> set (d_cases s). has_intent (d_outbox s) c \<and> case_constraints c)"

definition integrity :: "paydb \<Rightarrow> bool" where
  "integrity s \<longleftrightarrow> tx_table_ok (d_tx s) \<and> outbox_ok s \<and> cases_ok s"

text \<open>Only three tables matter to it.\<close>

lemma integrity_cong:
  "d_tx s' = d_tx s \<Longrightarrow> d_outbox s' = d_outbox s \<Longrightarrow> d_cases s' = d_cases s \<Longrightarrow> integrity s' = integrity s"
  by (simp add: integrity_def outbox_ok_def cases_ok_def cases_unique_def)

lemma has_payment_mono: "has_payment t b \<Longrightarrow> set (rows t) \<subseteq> set (rows t') \<Longrightarrow> has_payment t' b"
  by (auto simp: has_payment_def)

lemma has_intent_mono: "has_intent t c \<Longrightarrow> set (rows t) \<subseteq> set (rows t') \<Longrightarrow> has_intent t' c"
  by (auto simp: has_intent_def)

lemma has_payment_update:
  assumes "tx_same_key f" "has_payment t b"
  shows "has_payment (tupdate P f t) b"
proof -
  from assms(2) obtain r where r: "r \<in> set (rows t)" "tx_id r = ob_transaction_id b"
    "tx_tenantId r = Some (ob_tenant_id b)" "tx_txRef r = ob_idempotency_key b" by (auto simp: has_payment_def)
  have "(if P r then f r else r) \<in> set (rows (tupdate P f t))" using r(1) by simp
  then show ?thesis using r assms(1) unfolding has_payment_def tx_same_key_def
    by (intro bexI [where x = "if P r then f r else r"]) auto
qed

lemma has_intent_update:
  assumes "ob_same_key f" "has_intent t c"
  shows "has_intent (tupdate P f t) c"
proof -
  from assms(2) obtain b where b: "b \<in> set (rows t)" "ob_id b = rc_outbox_id c"
    "ob_transaction_id b = rc_transaction_id c" "ob_tenant_id b = rc_tenant_id c" by (auto simp: has_intent_def)
  have "(if P b then f b else b) \<in> set (rows (tupdate P f t))" using b(1) by simp
  then show ?thesis using b assms(1) unfolding has_intent_def ob_same_key_def
    by (intro bexI [where x = "if P b then f b else b"]) auto
qed

section \<open>The write primitives keep it\<close>

lemma insert_tx_integrity:
  assumes "integrity s" "insert_tx mk s = Some (t, s')" "\<And>i. tx_id (mk i) = i"
  shows "integrity s'"
proof -
  note s' = insert_tx_SomeD(2) [OF assms(2)]
  have "tx_table_ok (d_tx s')" using insert_tx_table_ok [OF assms(2) _ assms(3)] assms(1) by (simp add: integrity_def)
  moreover have "outbox_ok s'"
    using assms(1) has_payment_mono [of "d_tx s" _ "d_tx s'"] by (auto simp: s' integrity_def outbox_ok_def)
  ultimately show ?thesis using assms(1) by (simp add: s' integrity_def cases_ok_def cases_unique_def)
qed

lemma new_case_constraints:
  "rc_status c = COpen \<Longrightarrow> rc_ledger_evidence_sha256 c = None \<Longrightarrow> rc_provider_evidence_sha256 c = None \<Longrightarrow> case_constraints c"
  by (simp add: case_constraints_def closedStatus_def)

lemma trigger_cases_ok:
  assumes "cases_ok s"
  shows "cases_ok (create_payment_reconciliation_case_on_under_review now r r' s)"
proof -
  let ?s' = "create_payment_reconciliation_case_on_under_review now r r' s"
  have "has_intent (d_outbox ?s') c \<and> case_constraints c" if "c \<in> set (d_cases ?s')" for c
    using that assms
    by (auto simp: create_payment_reconciliation_case_on_under_review_def cases_ok_def has_intent_def Let_def
        new_case_constraints dest!: tfind_SomeD split: option.splits if_splits)
  then show ?thesis using trigger_cases_unique assms by (simp add: cases_ok_def)
qed

lemma update_tx_cases_ok:
  assumes "cases_ok s"
  shows "cases_ok (update_tx now P f s)"
proof -
  have "cases_ok s' \<Longrightarrow> cases_ok (fold (\<lambda>r. create_payment_reconciliation_case_on_under_review now r (f r)) rs s')" for rs s'
    by (induction rs arbitrary: s') (auto intro: trigger_cases_ok)
  moreover have "cases_ok (s\<lparr>d_tx := t\<rparr>)" for t using assms by (simp add: cases_ok_def cases_unique_def)
  ultimately show ?thesis by (simp add: update_tx_def)
qed

lemma update_tx_integrity:
  assumes "integrity s" "tx_same_key f"
  shows "integrity (update_tx now P f s)"
proof -
  have "tx_table_ok (tupdate P f (d_tx s))"
    by (rule tupdate_table_ok) (use assms in \<open>auto simp: integrity_def tx_same_key_def\<close>)
  moreover have "outbox_ok (update_tx now P f s)"
    using assms has_payment_update [OF assms(2)] by (auto simp: integrity_def outbox_ok_def simp del: rows_tupdate)
  ultimately show ?thesis using assms(1) by (simp add: integrity_def update_tx_cases_ok)
qed

lemma update_outbox_integrity:
  assumes "integrity s" "ob_same_key f" "\<And>b. b \<in> set (rows (d_outbox s)) \<Longrightarrow> P b \<Longrightarrow> outbox_row_ok b \<Longrightarrow> outbox_row_ok (f b)"
  shows "integrity (s\<lparr>d_outbox := tupdate P f (d_outbox s)\<rparr>)"
proof -
  have "serial_ok ob_id (tupdate P f (d_outbox s))"
    by (rule serial_ok_tupdate) (use assms in \<open>auto simp: integrity_def outbox_ok_def ob_same_key_def\<close>)
  moreover have "map ob_transaction_id (rows (tupdate P f (d_outbox s))) = map ob_transaction_id (rows (d_outbox s))"
    using assms(2) by (simp only: rows_tupdate List.map.compositionality map_key_update ob_same_key_def)
  moreover have "has_payment (d_tx s) (f b)" if "has_payment (d_tx s) b" for b
    using that assms(2) by (simp add: has_payment_def ob_same_key_def)
  moreover have "\<forall>c \<in> set (d_cases s). has_intent (tupdate P f (d_outbox s)) c"
    using assms(1) has_intent_update [OF assms(2)] by (simp add: integrity_def cases_ok_def)
  ultimately show ?thesis
    using assms(1,3) by (simp add: integrity_def outbox_ok_def cases_ok_def cases_unique_def del: map_map) auto
qed

lemma update_case_integrity:
  assumes "integrity s" "\<And>c. rc_transaction_id (f c) = rc_transaction_id c" "\<And>c. rc_outbox_id (f c) = rc_outbox_id c"
    "\<And>c. rc_tenant_id (f c) = rc_tenant_id c"
    "\<And>c. c \<in> set (d_cases s) \<Longrightarrow> P c \<Longrightarrow> case_constraints c \<Longrightarrow> case_constraints (f c)"
  shows "integrity (update_case P f s)"
proof -
  have "map rc_transaction_id (map (\<lambda>c. if P c then f c else c) (d_cases s)) = map rc_transaction_id (d_cases s)"
    by (simp only: List.map.compositionality map_key_update assms(2))
  moreover have "has_intent (d_outbox s) (f c)" if "has_intent (d_outbox s) c" for c
    using that assms(2-4) by (simp add: has_intent_def)
  ultimately show ?thesis
    using assms(1,5) by (simp add: integrity_def outbox_ok_def cases_ok_def cases_unique_def update_case_def del: map_map) auto
qed

lemma insert_outbox_integrity:
  assumes "integrity s" "insert_outbox mk s = Some s'" "\<And>i. ob_id (mk i) = i"
    "has_payment (d_tx s) (mk (seq (d_outbox s)))" "outbox_row_ok (mk (seq (d_outbox s)))"
  shows "integrity s'"
proof -
  note out = insert_outbox_SomeD [OF assms(2)]
  let ?t = "tinsert mk (d_outbox s)"
  have "serial_ok ob_id ?t"
    by (rule serial_ok_tinsert) (use assms in \<open>auto simp: integrity_def outbox_ok_def\<close>)
  moreover have "distinct (map ob_transaction_id (rows ?t))"
  proof -
    have "ob_transaction_id (mk (seq (d_outbox s))) \<notin> ob_transaction_id ` set (rows (d_outbox s))"
      using out(2) by (metis imageE)
    moreover have "distinct (map ob_transaction_id (rows (d_outbox s)))"
      using assms(1) by (simp add: integrity_def outbox_ok_def)
    ultimately show ?thesis by simp
  qed
  moreover have "\<forall>b \<in> set (rows ?t). has_payment (d_tx s) b \<and> outbox_row_ok b"
    using assms(1,4,5) by (simp add: integrity_def outbox_ok_def)
  ultimately have o: "outbox_ok (s\<lparr>d_outbox := ?t\<rparr>)" by (simp add: outbox_ok_def del: rows_tinsert)
  have "\<forall>c \<in> set (d_cases s). has_intent ?t c \<and> case_constraints c"
  proof
    fix c assume "c \<in> set (d_cases s)"
    with assms(1) have "has_intent (d_outbox s) c" "case_constraints c" by (simp_all add: integrity_def cases_ok_def)
    then show "has_intent ?t c \<and> case_constraints c" by (auto intro: has_intent_mono)
  qed
  with o show ?thesis using assms(1)
    by (simp add: out(1) integrity_def cases_ok_def cases_unique_def del: rows_tinsert)
qed

section \<open>Writes\<close>

text \<open>
  What a handler may do to the three tables. With \<open>quiet\<close> no update makes a transaction
  completed that was not.
\<close>

inductive prim :: "bool \<Rightarrow> paydb \<Rightarrow> paydb \<Rightarrow> bool" for quiet where
  p_other: "d_tx s' = d_tx s \<Longrightarrow> d_outbox s' = d_outbox s \<Longrightarrow> d_cases s' = d_cases s \<Longrightarrow> prim quiet s s'"
| p_insert_tx: "insert_tx mk s = Some (t, s') \<Longrightarrow> \<forall>i. tx_id (mk i) = i \<Longrightarrow> prim quiet s s'"
| p_update_tx: "tx_same_key f \<Longrightarrow> \<forall>t. quiet \<longrightarrow> tx_status (f t) = Completed \<longrightarrow> tx_status t = Completed \<Longrightarrow>
    prim quiet s (update_tx now P f s)"
| p_insert_outbox: "insert_outbox mk s = Some s' \<Longrightarrow> \<forall>i. ob_id (mk i) = i \<Longrightarrow>
    has_payment (d_tx s) (mk (seq (d_outbox s))) \<Longrightarrow> outbox_row_ok (mk (seq (d_outbox s))) \<Longrightarrow> prim quiet s s'"
| p_update_outbox: "ob_same_key f \<Longrightarrow>
    \<forall>b \<in> set (rows (d_outbox s)). P b \<longrightarrow> outbox_row_ok b \<longrightarrow> outbox_row_ok (f b) \<Longrightarrow>
    prim quiet s (s\<lparr>d_outbox := tupdate P f (d_outbox s)\<rparr>)"
| p_update_case: "\<forall>c. rc_transaction_id (f c) = rc_transaction_id c \<and> rc_outbox_id (f c) = rc_outbox_id c \<and> rc_tenant_id (f c) = rc_tenant_id c \<Longrightarrow>
    \<forall>c \<in> set (d_cases s). P c \<longrightarrow> \<not> closedStatus (rc_status c) \<and> (case_constraints c \<longrightarrow> case_constraints (f c)) \<Longrightarrow>
    prim quiet s (update_case P f s)"

abbreviation writes :: "bool \<Rightarrow> paydb \<Rightarrow> paydb \<Rightarrow> bool" where
  "writes quiet \<equiv> (prim quiet)\<^sup>*\<^sup>*"

lemmas writes_prim = r_into_rtranclp [where r = "prim quiet" for quiet]
lemmas writes_trans = rtranclp_trans [where r = "prim quiet" for quiet]
lemmas writes_other = p_other [THEN writes_prim]
lemmas writes_insert_tx = p_insert_tx [THEN writes_prim]
lemmas writes_update_tx = p_update_tx [THEN writes_prim]
lemmas writes_insert_outbox = p_insert_outbox [THEN writes_prim]
lemmas writes_update_outbox = p_update_outbox [THEN writes_prim]
lemmas writes_update_case = p_update_case [THEN writes_prim]

lemma prim_integrity: "prim quiet s s' \<Longrightarrow> integrity s \<Longrightarrow> integrity s'"
proof (induction rule: prim.induct)
  case (p_other s' s)
  then show ?case using integrity_cong [of s' s] by simp
next
  case (p_insert_tx mk s t s')
  then show ?case by (auto intro: insert_tx_integrity)
next
  case (p_update_tx f s now P)
  then show ?case by (auto intro: update_tx_integrity)
next
  case (p_insert_outbox mk s s')
  then show ?case by (auto intro: insert_outbox_integrity)
next
  case (p_update_outbox f s P)
  then show ?case by (auto intro: update_outbox_integrity)
next
  case (p_update_case f s P)
  then show ?case by (auto intro: update_case_integrity)
qed

lemma writes_integrity: "writes quiet s s' \<Longrightarrow> integrity s \<Longrightarrow> integrity s'"
  by (induction rule: rtranclp_induct) (auto intro: prim_integrity)

text \<open>What every write keeps: rows stay under their keys and closed cases stay as they are.\<close>

definition tx_kept :: "paydb \<Rightarrow> paydb \<Rightarrow> bool" where
  "tx_kept s s' \<longleftrightarrow> (\<forall>t \<in> set (rows (d_tx s)). \<exists>t' \<in> set (rows (d_tx s')). tx_id t' = tx_id t \<and> tx_txRef t' = tx_txRef t \<and>
     tx_idempotencyKey t' = tx_idempotencyKey t \<and> tx_tenantId t' = tx_tenantId t)"

definition intents_kept :: "paydb \<Rightarrow> paydb \<Rightarrow> bool" where
  "intents_kept s s' \<longleftrightarrow> (\<forall>b \<in> set (rows (d_outbox s)). \<exists>b' \<in> set (rows (d_outbox s')). ob_id b' = ob_id b \<and>
     ob_transaction_id b' = ob_transaction_id b \<and> ob_tenant_id b' = ob_tenant_id b)"

definition closed_kept :: "paydb \<Rightarrow> paydb \<Rightarrow> bool" where
  "closed_kept s s' \<longleftrightarrow> (\<forall>c \<in> set (d_cases s). closedStatus (rc_status c) \<longrightarrow> c \<in> set (d_cases s'))"

definition kept :: "paydb \<Rightarrow> paydb \<Rightarrow> bool" where
  "kept s s' \<longleftrightarrow> tx_kept s s' \<and> intents_kept s s' \<and> closed_kept s s'"

lemma kept_refl [simp]: "kept s s"
  by (auto simp: kept_def tx_kept_def intents_kept_def closed_kept_def)

lemma kept_trans: "kept s t \<Longrightarrow> kept t u \<Longrightarrow> kept s u"
  unfolding kept_def tx_kept_def intents_kept_def closed_kept_def by (metis (no_types, lifting))

lemma tx_kept_update:
  assumes "tx_same_key f" "d_tx s' = tupdate P f (d_tx s)"
  shows "tx_kept s s'"
  unfolding tx_kept_def
proof
  fix t assume "t \<in> set (rows (d_tx s))"
  then have "(if P t then f t else t) \<in> set (rows (d_tx s'))" by (simp add: assms(2))
  then show "\<exists>t' \<in> set (rows (d_tx s')). tx_id t' = tx_id t \<and> tx_txRef t' = tx_txRef t \<and>
     tx_idempotencyKey t' = tx_idempotencyKey t \<and> tx_tenantId t' = tx_tenantId t"
    using assms(1) unfolding tx_same_key_def by (intro bexI [where x = "if P t then f t else t"]) auto
qed

lemma intents_kept_update:
  assumes "ob_same_key f" "d_outbox s' = tupdate P f (d_outbox s)"
  shows "intents_kept s s'"
  unfolding intents_kept_def
proof
  fix b assume "b \<in> set (rows (d_outbox s))"
  then have "(if P b then f b else b) \<in> set (rows (d_outbox s'))" by (simp add: assms(2))
  then show "\<exists>b' \<in> set (rows (d_outbox s')). ob_id b' = ob_id b \<and> ob_transaction_id b' = ob_transaction_id b \<and> ob_tenant_id b' = ob_tenant_id b"
    using assms(1) unfolding ob_same_key_def by (intro bexI [where x = "if P b then f b else b"]) auto
qed

lemma same_tables_kept:
  "d_tx s' = d_tx s \<Longrightarrow> tx_kept s s'" "d_outbox s' = d_outbox s \<Longrightarrow> intents_kept s s'"
  "set (d_cases s) \<subseteq> set (d_cases s') \<Longrightarrow> closed_kept s s'"
  by (auto simp: tx_kept_def intents_kept_def closed_kept_def)

lemma trigger_keeps_cases:
  "set (d_cases s) \<subseteq> set (d_cases (create_payment_reconciliation_case_on_under_review now r r' s))"
  by (auto simp: create_payment_reconciliation_case_on_under_review_def Let_def split: option.splits)

lemma update_tx_keeps_cases: "set (d_cases s) \<subseteq> set (d_cases (update_tx now P f s))"
proof -
  have "set (d_cases s') \<subseteq> set (d_cases (fold (\<lambda>r. create_payment_reconciliation_case_on_under_review now r (f r)) rs s'))" for rs s'
  proof (induction rs arbitrary: s')
    case (Cons r rs)
    then show ?case using trigger_keeps_cases [of s' now r "f r"] by fastforce
  qed simp
  from this [of "s\<lparr>d_tx := tupdate P f (d_tx s)\<rparr>"] show ?thesis by (simp add: update_tx_def)
qed

lemma prim_kept: "prim quiet s s' \<Longrightarrow> kept s s'"
proof (induction rule: prim.induct)
  case (p_other s' s)
  then show ?case by (simp add: kept_def same_tables_kept)
next
  case (p_insert_tx mk s t s')
  then show ?case using insert_tx_SomeD(2) [OF p_insert_tx(1)]
    by (auto simp: kept_def tx_kept_def intents_kept_def closed_kept_def)
next
  case (p_update_tx f s now P)
  have "tx_kept s (update_tx now P f s)" by (rule tx_kept_update [OF p_update_tx(1)]) simp
  then show ?case by (simp add: kept_def same_tables_kept(2) same_tables_kept(3) [OF update_tx_keeps_cases])
next
  case (p_insert_outbox mk s s')
  then show ?case using insert_outbox_SomeD(1) [OF p_insert_outbox(1)]
    by (auto simp: kept_def tx_kept_def intents_kept_def closed_kept_def)
next
  case (p_update_outbox f s P)
  have "intents_kept s (s\<lparr>d_outbox := tupdate P f (d_outbox s)\<rparr>)" by (rule intents_kept_update [OF p_update_outbox(1)]) simp
  then show ?case by (simp add: kept_def same_tables_kept)
next
  case (p_update_case f s P)
  then show ?case
    by (auto simp: kept_def update_case_def closed_kept_def intro!: same_tables_kept)
qed

lemma writes_kept: "writes quiet s s' \<Longrightarrow> kept s s'"
  by (induction rule: rtranclp_induct) (auto intro: kept_trans prim_kept)

text \<open>Quiet writes complete no transaction that was there.\<close>

definition none_completed :: "paydb \<Rightarrow> paydb \<Rightarrow> bool" where
  "none_completed s s' \<longleftrightarrow> (\<forall>t \<in> set (rows (d_tx s)). \<forall>t' \<in> set (rows (d_tx s')).
     tx_id t' = tx_id t \<longrightarrow> tx_status t' = Completed \<longrightarrow> tx_status t = Completed)"

lemma none_completed_same: "tx_table_ok (d_tx s) \<Longrightarrow> d_tx s' = d_tx s \<Longrightarrow> none_completed s s'"
  unfolding none_completed_def by (metis tx_table_ok_id_unique)

lemma none_completed_trans:
  assumes "none_completed s t" "none_completed t u" "tx_kept s t"
  shows "none_completed s u"
  unfolding none_completed_def
proof (intro ballI impI)
  fix r r' assume r: "r \<in> set (rows (d_tx s))" "r' \<in> set (rows (d_tx u))" "tx_id r' = tx_id r" "tx_status r' = Completed"
  from assms(3) r(1) obtain m where m: "m \<in> set (rows (d_tx t))" "tx_id m = tx_id r" unfolding tx_kept_def by blast
  from assms(2) m(1) r(2-4) m(2) have "tx_status m = Completed" unfolding none_completed_def by simp
  with assms(1) r(1) m show "tx_status r = Completed" unfolding none_completed_def by blast
qed

lemma prim_none_completed: "prim True s s' \<Longrightarrow> integrity s \<Longrightarrow> none_completed s s'"
proof (induction rule: prim.induct)
  case (p_insert_tx mk s t s')
  note ins = insert_tx_SomeD [OF p_insert_tx(1)]
  have ok: "tx_table_ok (d_tx s)" using p_insert_tx(3) by (simp add: integrity_def)
  have "tx_id t = seq (d_tx s)" using ins(1) p_insert_tx(2) by simp
  moreover have "tx_id r < seq (d_tx s)" if "r \<in> set (rows (d_tx s))" for r
    using that ok by (simp add: tx_table_ok_def serial_ok_def)
  ultimately have fresh: "tx_id r \<noteq> tx_id t" if "r \<in> set (rows (d_tx s))" for r
    using that by (metis less_irrefl)
  show ?case unfolding none_completed_def
  proof (intro ballI impI)
    fix r r' assume r: "r \<in> set (rows (d_tx s))" "r' \<in> set (rows (d_tx s'))" "tx_id r' = tx_id r" "tx_status r' = Completed"
    have "r' \<in> set (rows (d_tx s)) \<or> r' = t" using r(2) by (simp add: ins(1) ins(2)) blast
    then have "r' \<in> set (rows (d_tx s))" using fresh [OF r(1)] r(3) by auto
    then show "tx_status r = Completed" using tx_table_ok_id_unique [OF ok _ r(1)] r(3,4) by blast
  qed
next
  case (p_update_tx f s now P)
  show ?case unfolding none_completed_def
  proof (intro ballI impI)
    fix t t' assume t: "t \<in> set (rows (d_tx s))" "t' \<in> set (rows (d_tx (update_tx now P f s)))"
      "tx_id t' = tx_id t" "tx_status t' = Completed"
    then obtain r where r: "r \<in> set (rows (d_tx s))" "t' = (if P r then f r else r)" by auto
    have "tx_id r = tx_id t" using r(2) t(3) p_update_tx(1) by (auto simp: tx_same_key_def split: if_splits)
    then have "r = t" using tx_table_ok_id_unique [OF _ r(1) t(1)] p_update_tx(3) by (simp add: integrity_def)
    with r(2) t(4) p_update_tx(2) show "tx_status t = Completed" by (auto split: if_splits)
  qed
next
  case (p_insert_outbox mk s s')
  then show ?case by (auto intro!: none_completed_same simp: integrity_def dest!: insert_outbox_SomeD(1))
qed (auto intro!: none_completed_same simp: integrity_def update_case_def)

lemma writes_none_completed: "writes True s s' \<Longrightarrow> integrity s \<Longrightarrow> none_completed s s'"
proof (induction rule: rtranclp_induct)
  case base
  then show ?case by (intro none_completed_same) (simp_all add: integrity_def)
next
  case (step t u)
  then have "integrity t" by (blast intro: writes_integrity)
  with step prim_none_completed writes_kept [OF step(1)] show ?case
    by (blast intro: none_completed_trans kept_def [THEN iffD1, THEN conjunct1])
qed

section \<open>The requests write quietly\<close>

text \<open>One write followed by changes of other tables.\<close>

lemma writes_then_other:
  "writes quiet s t \<Longrightarrow> d_tx s' = d_tx t \<Longrightarrow> d_outbox s' = d_outbox t \<Longrightarrow> d_cases s' = d_cases t \<Longrightarrow> writes quiet s s'"
  by (rule rtranclp.rtrancl_into_rtrancl) (auto intro: p_other)

lemma tx_same_key_updates [simp]:
  "tx_same_key (apply_update now i)" "tx_same_key (mark_flagged now uid r)" "tx_same_key (mark_blocked now)"
  "tx_same_key (mark_reversed now)" "tx_same_key (mark_under_review now)" "tx_same_key (set_status now st)"
  by (simp_all add: tx_same_key_def mark_blocked_def mark_under_review_def set_status_def)

lemma tx_same_key_aml [simp]:
  "tx_same_key (aml_flagged now uid)" "tx_same_key (aml_cleared now)"
  "tx_same_key (\<lambda>t. t\<lparr>tx_archivedTier := a, tx_archivedAt := b\<rparr>)"
  by (simp_all add: tx_same_key_def aml_flagged_def aml_cleared_def)

lemma writes_aml_create: "writes True s (snd (amlCreate real32 real64 parseDate known toLocale ref aref e c i s))"
proof -
  obtain r s' where r: "amlCreate real32 real64 parseDate known toLocale ref aref e c i s = (r, s')" by fastforce
  then have "writes True s s'"
  proof (cases rule: aml_create_cases)
    case (inserted tid u vd tx s1)
    have "writes True s s1" by (rule writes_insert_tx [OF inserted(1)]) (simp add: aml_row_def new_transaction_def split: prod.split)
    then show ?thesis by (rule writes_then_other) (use inserted(2-4) in simp_all)
  qed simp
  with r show ?thesis by simp
qed

lemma writes_aml_flag: "writes True s (snd (amlFlag aref e c i reason s))"
proof -
  obtain r s' where r: "amlFlag aref e c i reason s = (r, s')" by fastforce
  then have "writes True s s'"
  proof (cases rule: aml_flag_cases)
    case (flagged tid u)
    have "writes True s (update_tx (e_now e) (own_tx i tid) (aml_flagged (e_now e) u) s)"
      by (rule writes_update_tx) (simp_all add: aml_flagged_def)
    then show ?thesis by (rule writes_then_other) (use flagged in simp_all)
  qed simp
  with r show ?thesis by simp
qed

lemma writes_aml_clear: "writes False s (snd (amlClear e c i s))"
  by (cases rule: clear_cases [of e c i s]) (auto intro!: writes_update_tx)

lemma writes_archive: "writes True s (markArchived now ids s)"
  unfolding markArchived_def by (rule writes_update_tx) simp_all

lemma writes_create:
  assumes "createTransaction real32 parseDate id ref aref e c i s = (r, s')"
  shows "writes True s s'"
  using assms
proof (cases rule: create_cases)
  case (inserted u vd t)
  then show ?thesis by (auto intro: writes_insert_tx)
next
  case (alert_failed u vd t)
  then show ?thesis by (auto intro: writes_insert_tx)
next
  case (alerted u vd t s1)
  have "writes True s s1" using alerted(3) by (auto intro: writes_insert_tx)
  with insert_alert_SomeD [OF alerted(5)] show ?thesis by (auto intro: writes_then_other)
qed simp_all

text \<open>An administrative update never sets \<open>completed\<close>.\<close>

lemma writes_update_request: "writes True s (snd (updateTransaction e c i s))"
proof -
  obtain r s' where r: "updateTransaction e c i s = (r, s')" by fastforce
  have "s' = s \<or> (\<exists>P. (ui_status i = None \<or> (\<exists>st. ui_status i = Some st \<and> st \<in> set update_statuses)) \<and>
      s' = update_tx (e_now e) P (apply_update (e_now e) i) s)"
    using admin_guard.guard_state [OF r [unfolded updateTransaction_def]]
    by (auto simp: Let_def split: if_splits option.splits)
  then show ?thesis using r
    by (auto intro!: writes_update_tx simp: apply_update_def update_statuses_def)
qed

lemma writes_flag_request: "writes True s (snd (flagTransaction e c i reason s))"
  using flag_tx_cases [of e c i reason s]
  by (auto intro!: writes_update_tx simp: mark_flagged_def)

lemma serve_frame [frame]:
  "d_outbox (snd (resolveAlert e c i st nts s)) = d_outbox s" "d_cases (snd (resolveAlert e c i st nts s)) = d_cases s"
  "d_outbox (snd (createRule real32 e c ri s)) = d_outbox s" "d_cases (snd (createRule real32 e c ri s)) = d_cases s"
  "d_outbox (snd (toggleRule e c i b s)) = d_outbox s" "d_cases (snd (toggleRule e c i b s)) = d_cases s"
  "d_outbox (snd (deleteRule e c i s)) = d_outbox s" "d_cases (snd (deleteRule e c i s)) = d_cases s"
  by (auto simp: resolveAlert_def createRule_def toggleRule_def deleteRule_def adminProcedure_def
      writeProcedure_def Let_def split: option.splits)

lemma writes_serve: "writes True s (serve real32 parseDate e c q s)"
proof (cases q)
  case (ReqCreate ref aref i)
  obtain r s' where "createTransaction real32 parseDate id ref aref e c i s = (r, s')" by fastforce
  with writes_create [OF this] ReqCreate show ?thesis by simp
next
  case (ReqUpdate i)
  then show ?thesis by (simp add: writes_update_request)
next
  case (ReqFlag i reason)
  then show ?thesis by (simp add: writes_flag_request)
qed (auto intro!: writes_other simp: frame)

lemma writes_velocity: "writes True s (snd (fluvioCheckVelocity configured reply e vi s))"
  by (rule writes_other) simp_all

lemma writes_submit:
  assumes "submit_claim real32 e tid rl ref i s = (r, s')"
  shows "writes True s s'"
proof (cases rule: submit_cases [of real32 e tid rl ref i s])
  case (claimed t s1 s2)
  note ins = insert_tx_SomeD [OF claimed(2)]
  have "writes True s s1" by (rule writes_insert_tx [OF claimed(2)]) simp
  moreover have "writes True s1 s2"
  proof (rule writes_insert_outbox [OF claimed(3)])
    show "has_payment (d_tx s1) (outbox_row (e_now e) (tx_id t) tid ref rl (seq (d_outbox s1)))"
      using ins(1,2) by (auto simp: has_payment_def)
  qed (simp_all add: outbox_row_ok_def MAX_ATTEMPTS_def)
  ultimately show ?thesis using claimed(1) assms by (auto intro: writes_trans)
qed (use assms in auto)

lemma writes_initiate:
  "writes True s (snd (initiateTransfer cfg configured reply real32 id genRef e c i s))"
proof -
  obtain r s' where r: "initiateTransfer cfg configured reply real32 id genRef e c i s = (r, s')" by fastforce
  then have "writes True s s'"
  proof (cases rule: initiate_cases)
    case (submitted tid rl)
    then show ?thesis using writes_velocity [of s configured reply e "vinput i tid"] writes_submit
      by (auto intro: writes_trans)
  qed (auto intro: writes_velocity)
  with r show ?thesis by simp
qed

lemma writes_freeze: "writes True s (snd (freezeAccount rowsAffected e c acc nm reason s))"
proof -
  let ?s1 = "update_tx (e_now e) (frozen_by acc) (mark_blocked (e_now e)) s"
  obtain r t where r: "freezeAccount rowsAffected e c acc nm reason s = (r, t)" by fastforce
  from admin_guard.guard_state [OF r [unfolded freezeAccount_def]]
  have "t = s \<or> (d_tx t = d_tx ?s1 \<and> d_outbox t = d_outbox ?s1 \<and> d_cases t = d_cases ?s1)"
    by (auto simp: Let_def split: if_splits)
  moreover have "writes True s ?s1" by (rule writes_update_tx) (simp_all add: mark_blocked_def)
  ultimately show ?thesis using r writes_then_other by auto
qed

lemma rails_frames:
  "writes True s (snd (unfreezeAccount e c acc notes s))"
  "writes True s (snd (bulkUnfreeze e c accs reason s))"
  "writes True s (snd (createExportSchedule e c nm k fs s))"
  "writes True s (snd (cancelWorkflow e c ref s))"
  by (rule writes_other; auto simp: unfreezeAccount_def bulkUnfreeze_def createExportSchedule_def cancelWorkflow_def
      adminProcedure_def writeProcedure_def requireUser_def Let_def split: option.splits list.splits)+

lemma writes_reverse: "writes True s (snd (reverseTransfer e c ref reason s))"
proof -
  obtain r s' where r: "reverseTransfer e c ref reason s = (r, s')" by fastforce
  then have "writes True s s'"
  proof (cases rule: reverse_cases)
    case (reversed t x s2)
    have "writes True s (update_tx (e_now e) (\<lambda>r. tx_txRef r = ref \<and> tenantCondition (c_tenantId c) (tx_tenantId r)) (mark_reversed (e_now e)) s)"
      by (rule writes_update_tx) simp_all
    moreover have "writes True (update_tx (e_now e) (\<lambda>r. tx_txRef r = ref \<and> tenantCondition (c_tenantId c) (tx_tenantId r)) (mark_reversed (e_now e)) s) s2"
      by (rule writes_insert_tx [OF reversed(3)]) simp
    ultimately have "writes True s s2" by (rule writes_trans)
    with reversed(5) show ?thesis by (auto intro: writes_then_other)
  qed simp
  with r show ?thesis by simp
qed

section \<open>The dispatcher\<close>

lemma ob_same_key_updates [simp]:
  "ob_same_key (mark_leased now owner)" "ob_same_key (mark_dead n code)" "ob_same_key (mark_started n w)"
  "ob_same_key (mark_requeued n d)" "ob_same_key (mark_retry now)"
  "ob_same_key (\<lambda>b. b\<lparr>ob_status := Queued, ob_leased_at := None, ob_lease_owner := None\<rparr>)"
  by (simp_all add: ob_same_key_def mark_leased_def mark_dead_def mark_started_def mark_requeued_def mark_retry_def)

text \<open>What a dispatcher holds: a lease it took of an existing intent with attempts left.\<close>

definition held_ok :: "paydb \<Rightarrow> paymentOutboxRow \<Rightarrow> bool" where
  "held_ok s item \<longleftrightarrow> po_attempts item < MAX_ATTEMPTS \<and>
     (\<exists>b \<in> set (rows (d_outbox s)). ob_id b = po_id item \<and> ob_transaction_id b = po_transaction_id item \<and>
        ob_tenant_id b = po_tenant_id item)"

lemma held_kept: "held_ok s item \<Longrightarrow> kept s s' \<Longrightarrow> held_ok s' item"
  unfolding held_ok_def kept_def intents_kept_def by metis

lemma candidates_due: "b \<in> set (candidates now cnt s) \<Longrightarrow> b \<in> set (rows (d_outbox s)) \<and> due now b"
  by (auto simp: candidates_def tselect_def dest!: in_set_takeD)

lemma writes_requeue_expired: "writes True s (requeue_expired now s)"
  unfolding requeue_expired_def
  by (rule writes_update_outbox) (auto simp: outbox_row_ok_def lease_expired_def)

lemma claim_batch_eq:
  assumes "claim_batch owner now cnt s = (items, s')"
  shows "items = map (returning_row (requeue_expired now s)) (candidates now cnt (requeue_expired now s))"
    "s' = requeue_expired now s\<lparr>d_outbox := tupdate (\<lambda>b. ob_id b \<in> set (map ob_id (candidates now cnt (requeue_expired now s))))
       (mark_leased now owner) (d_outbox (requeue_expired now s))\<rparr>"
  using assms by (auto simp: claim_batch_def Let_def)

lemma leased_were_due:
  assumes "integrity s" "b \<in> set (rows (d_outbox s))" "ob_id b \<in> set (map ob_id (candidates now cnt s))"
  shows "b \<in> set (candidates now cnt s)"
proof -
  from assms(3) obtain b' where b': "b' \<in> set (candidates now cnt s)" "ob_id b' = ob_id b" by auto
  from candidates_due [OF b'(1)] have m: "b' \<in> set (rows (d_outbox s))" by simp
  have "serial_ok ob_id (d_outbox s)" using assms(1) by (simp add: integrity_def outbox_ok_def)
  from serial_ok_unique [OF this m assms(2) b'(2)] b'(1) show ?thesis by simp
qed

lemma writes_claim_batch:
  assumes "integrity s" "claim_batch owner now cnt s = (items, s')"
  shows "writes True s s'"
proof -
  let ?s0 = "requeue_expired now s"
  have i0: "integrity ?s0" by (rule writes_integrity [OF writes_requeue_expired assms(1)])
  have "writes True ?s0 s'"
    unfolding claim_batch_eq(2) [OF assms(2)]
  proof (rule writes_update_outbox; (intro ballI impI)?)
    fix b assume b: "b \<in> set (rows (d_outbox ?s0))" "ob_id b \<in> set (map ob_id (candidates now cnt ?s0))" "outbox_row_ok b"
    from leased_were_due [OF i0 b(1,2)] have "due now b" using candidates_due by blast
    with b(3) show "outbox_row_ok (mark_leased now owner b)" by (auto simp: outbox_row_ok_def mark_leased_def due_def)
  qed simp
  with writes_requeue_expired show ?thesis by (rule writes_trans)
qed

lemma claim_batch_held:
  assumes "integrity s" "claim_batch owner now cnt s = (items, s')" "item \<in> set items"
  shows "held_ok s' item"
proof -
  let ?s0 = "requeue_expired now s"
  have i0: "integrity ?s0" by (rule writes_integrity [OF writes_requeue_expired assms(1)])
  from assms(3) claim_batch_eq(1) [OF assms(2)] obtain b
    where b: "b \<in> set (candidates now cnt ?s0)" "item = returning_row ?s0 b" by auto
  from candidates_due [OF b(1)] have m: "b \<in> set (rows (d_outbox ?s0))" "due now b" by auto
  then have "outbox_row_ok b" using i0 by (simp add: integrity_def outbox_ok_def)
  with m(2) have "ob_attempts b < MAX_ATTEMPTS" by (simp add: outbox_row_ok_def due_def)
  moreover have "mark_leased now owner b \<in> set (rows (d_outbox s'))"
    using tupdate_hit [OF m(1), of "\<lambda>b. ob_id b \<in> set (map ob_id (candidates now cnt ?s0))" "mark_leased now owner"] b(1)
    by (simp add: claim_batch_eq(2) [OF assms(2)] del: rows_tupdate)
  ultimately show ?thesis
    by (auto simp: held_ok_def b(2) returning_row_def Let_def mark_leased_def intro!: bexI [where x = "mark_leased now owner b"])
qed

lemma escalate_cases:
  obtains (refused) err where "escalateForReconciliation e item n code s = (Inl err, s)"
    | (escalated) "escalateForReconciliation e item n code s = (Inr (),
          update_tx (e_now e) (pending_row (po_transaction_id item) (po_tenant_id item)) (mark_under_review (e_now e))
            (s\<lparr>d_outbox := tupdate (leased_row (po_id item)) (mark_dead n code) (d_outbox s)\<rparr>))"
      "tfind (leased_row (po_id item)) (d_outbox s) \<noteq> None"
      "tfind (pending_row (po_transaction_id item) (po_tenant_id item)) (d_tx s) \<noteq> None"
proof (cases "e_dbUp e \<and> isSafeInteger (po_tenant_id item) \<and> 0 < po_tenant_id item \<and>
    tfind (leased_row (po_id item)) (d_outbox s) \<noteq> None \<and>
    tfind (pending_row (po_transaction_id item) (po_tenant_id item)) (d_tx s) \<noteq> None")
  case True
  then show thesis
    by (intro that(2)) (simp_all add: escalateForReconciliation_def withTenantTransaction_def in_transaction_def Let_def)
next
  case False
  then have "\<exists>err. escalateForReconciliation e item n code s = (Inl err, s)"
    by (auto simp: escalateForReconciliation_def withTenantTransaction_def in_transaction_def Let_def)
  then show thesis using that(1) by blast
qed

lemma writes_escalate:
  assumes "n \<le> MAX_ATTEMPTS"
  shows "writes True s (snd (escalateForReconciliation e item n code s))"
proof (cases rule: escalate_cases [of e item n code s])
  case escalated
  let ?s1 = "s\<lparr>d_outbox := tupdate (leased_row (po_id item)) (mark_dead n code) (d_outbox s)\<rparr>"
  have "writes True s ?s1"
    by (rule writes_update_outbox) (use assms in \<open>auto simp: outbox_row_ok_def mark_dead_def\<close>)
  moreover have "writes True ?s1 (update_tx (e_now e) P (mark_under_review (e_now e)) ?s1)" for P
    by (rule writes_update_tx) (simp_all add: mark_under_review_def)
  ultimately show ?thesis unfolding escalated(1) snd_conv by (rule writes_trans)
qed simp

lemma writes_start_failed:
  assumes "n \<le> MAX_ATTEMPTS"
  shows "writes True s (snd (start_failed randomInt e item n s))"
proof (cases "MAX_ATTEMPTS \<le> n")
  case True
  then show ?thesis using writes_escalate [OF assms, of s e item "''TEMPORAL_WORKFLOW_START_FAILED''"]
    by (auto simp: start_failed_def split: prod.splits sum.splits)
next
  case False
  have "writes True s (s\<lparr>d_outbox := tupdate (leased_row (po_id item)) (mark_requeued n d) (d_outbox s)\<rparr>)" for d
    by (rule writes_update_outbox) (use False in \<open>auto simp: outbox_row_ok_def mark_requeued_def\<close>)
  with False show ?thesis by (simp add: start_failed_def)
qed

lemma writes_dispatch:
  assumes "held_ok s item"
  shows "writes True s (snd (dispatch_item starter randomInt e item s))"
proof -
  have n: "po_attempts item + 1 \<le> MAX_ATTEMPTS" using assms by (simp add: held_ok_def)
  show ?thesis
  proof (cases "isDispatchable item")
    case False
    then show ?thesis using writes_escalate [OF n, of s e item "''INVALID_DURABLE_PAYMENT_INTENT''"]
      by (auto simp: dispatch_item_def Let_def split: prod.splits sum.splits)
  next
    case True
    have "writes True s (s\<lparr>d_outbox := tupdate (leased_row (po_id item)) (mark_started (po_attempts item + 1) w) (d_outbox s)\<rparr>)" for w
      by (rule writes_update_outbox) (use n in \<open>auto simp: outbox_row_ok_def mark_started_def\<close>)
    with True writes_start_failed [OF n] show ?thesis
      by (auto simp: dispatch_item_def Let_def split: option.splits)
  qed
qed

section \<open>Reconciliation\<close>

lemma find_SomeD: "List.find P xs = Some x \<Longrightarrow> x \<in> set xs \<and> P x"
  by (metis find_Some_iff nth_mem)

lemma requireTenantId_state:
  "requireTenantId tid k s = (r, s') \<Longrightarrow> s' = s \<or> (\<exists>t. tid = Some t \<and> 0 < t \<and> k t s = (r, s'))"
  by (auto simp: requireTenantId_def split: option.splits if_splits)

lemma requireActorId_state: "requireActorId uid k s = (r, s') \<Longrightarrow> s' = s \<or> k s = (r, s')"
  by (auto simp: requireActorId_def split: if_splits)

lemma poolOrFail_state: "poolOrFail e k s = (r, s') \<Longrightarrow> s' = s \<or> k s = (r, s')"
  by (auto simp: poolOrFail_def split: if_splits)

lemma withTenantTransaction_state:
  "withTenantTransaction tid k s = (r, s') \<Longrightarrow> s' = s \<or> (\<exists>x. r = Inr x \<and> k s = (Inr x, s'))"
  by (auto simp: withTenantTransaction_def in_transaction_def split: if_splits sum.splits prod.splits)

lemma claim_state:
  assumes "claim e c i s = (r, s')"
  shows "s' = s \<or> (\<exists>tid uid ev. s' = appendEvent ev (update_case (claimable i tid) (mark_claimed (e_now e) uid) s))"
proof (cases "s' = s")
  case False
  from admin_guard.guard_state [OF assms [unfolded claim_def]] False obtain u :: user where
    "requireTenantId (c_tenantId c) (\<lambda>tid. requireActorId (u_id u) (poolOrFail e
       (withTenantTransaction tid (claim_body (e_now e) tid (u_id u) i)))) s = (r, s')" by blast
  from requireTenantId_state [OF this] False obtain tid where
    "requireActorId (u_id u) (poolOrFail e (withTenantTransaction tid (claim_body (e_now e) tid (u_id u) i))) s = (r, s')" by blast
  with False requireActorId_state poolOrFail_state withTenantTransaction_state
  have "\<exists>x. claim_body (e_now e) tid (u_id u) i s = (Inr x, s')" by metis
  then show ?thesis by (auto simp: claim_body_def split: if_splits)
qed simp

lemma writes_claim: "writes True s (snd (claim e c i s))"
proof -
  obtain r s' where r: "claim e c i s = (r, s')" by fastforce
  note claim_state [OF r]
  moreover have "writes True s (appendEvent ev (update_case (claimable i tid) (mark_claimed (e_now e) uid) s))" for ev tid uid
  proof -
    have "writes True s (update_case (claimable i tid) (mark_claimed (e_now e) uid) s)"
      by (rule writes_update_case) (auto simp: mark_claimed_def claimable_def closedStatus_def case_constraints_def)
    then show ?thesis by (rule writes_then_other) (simp_all add: appendEvent_def)
  qed
  ultimately show ?thesis using r by auto
qed

lemma trim_no_space:
  assumes "s \<noteq> []" "\<not> is_space (hd s)" "\<not> is_space (last s)"
  shows "js_trim s = s"
  using assms by (cases s) (auto simp: js_trim_def dropWhile_eq_self_iff hd_append hd_rev split: if_splits)

lemma resolution_reason_ok: "20 \<le> length (js_trim (resolution_reason rs))"
  by (cases rs) (simp_all add: trim_no_space is_space_def)

text \<open>A resolution meets every CHECK constraint of the table.\<close>

lemma resolved_case_constraints:
  assumes "evidence_ok rs i" "resolvable k tid actor c" "case_constraints c"
  shows "case_constraints (mark_case_resolved now actor rs i c)"
proof -
  obtain a where a: "rc_claimed_by c = Some a" "a \<noteq> actor" using assms(2) by (auto simp: resolvable_def)
  have st: "closedStatus (resolution_status rs)" "resolution_status rs \<noteq> CUnder_review"
    by (cases rs; simp add: closedStatus_def)+
  have ev: "sha256 (ei_ledgerEvidenceSha256 i)" "sha256 (ei_providerEvidenceSha256 i)"
    "20 \<le> length (js_trim (ei_reasonCode i))"
    using assms(1) resolution_reason_ok [of rs] by (simp_all add: evidence_ok_def)
  show ?thesis
    unfolding case_constraints_def mark_case_resolved_def
    using a st ev by simp
qed

lemma resolve_cases:
  assumes "resolveProcedure rs e c i s = (r, s')"
  obtains (refused) err where "r = Inl err" "s' = s"
    | (resolved) u tid rc s2 where "r = Inr (resolution_status rs)" "evidence_ok rs i" "c_user c = Some u" "c_tenantId c = Some tid"
        "0 < tid" "lockClaimedCase (ei_case i) tid (u_id u) s = Inr rc"
        "settle_payment (e_now e) tid rs rc
           (update_case (resolvable (ei_case i) tid (u_id u)) (mark_case_resolved (e_now e) (u_id u) rs i) s) = (Inr (), s2)"
        "s' = appendEvent (resolution_record tid (u_id u) rs i) s2" "u_role u = RAdmin"
proof (cases "(\<exists>err. r = Inl err) \<and> s' = s")
  case True
  then show thesis using that(1) by blast
next
  case False
  from admin_guard.guard_cases [OF assms [unfolded resolveProcedure_def]] False obtain u where u: "c_user c = Some u" "u_role u = RAdmin"
    and body: "zod (evidence_ok rs i) (requireTenantId (c_tenantId c) (\<lambda>tid. requireActorId (u_id u) (resolveCase e tid (u_id u) rs i))) s = (r, s')"
    by (auto simp: admits_admin_def)
  from body False have ok: "evidence_ok rs i" by (auto split: if_splits)
  from body False ok obtain tid where tid: "c_tenantId c = Some tid" by (cases "c_tenantId c") (auto simp: requireTenantId_def)
  from body False ok tid have pos: "isSafeInteger tid \<and> 0 < tid" by (auto simp: requireTenantId_def split: if_splits)
  from body False ok tid pos have act: "isSafeInteger (u_id u) \<and> 0 < u_id u"
    by (auto simp: requireTenantId_def requireActorId_def split: if_splits)
  have tr0: "poolOrFail e (withTenantTransaction tid (resolve_body (e_now e) tid (u_id u) rs i)) s = (r, s')"
    using body ok tid pos act by (simp add: requireTenantId_def requireActorId_def resolveCase_def)
  with False have up: "e_dbUp e" by (auto simp: poolOrFail_def split: if_splits)
  with tr0 pos have tr: "in_transaction (resolve_body (e_now e) tid (u_id u) rs i) s = (r, s')"
    by (simp add: poolOrFail_def withTenantTransaction_def)
  obtain x where x: "r = Inr x"
  proof (cases r)
    case (Inl err)
    with in_transaction_error [OF tr [unfolded Inl]] False show thesis by simp
  qed (rule that)
  with tr have rb: "resolve_body (e_now e) tid (u_id u) rs i s = (Inr x, s')" by (simp add: in_transaction_ok)
  then obtain rc where rc: "lockClaimedCase (ei_case i) tid (u_id u) s = Inr rc"
    by (cases "lockClaimedCase (ei_case i) tid (u_id u) s") (auto simp: resolve_body_def)
  obtain q s2 where q: "settle_payment (e_now e) tid rs rc
      (update_case (resolvable (ei_case i) tid (u_id u)) (mark_case_resolved (e_now e) (u_id u) rs i) s) = (q, s2)" by fastforce
  from rb rc q have "q = Inr () \<and> x = resolution_status rs \<and> s' = appendEvent (resolution_record tid (u_id u) rs i) s2"
    by (cases q) (auto simp: resolve_body_def split: if_splits)
  with x ok u tid pos rc q show thesis by (intro that(2)) auto
qed

lemma move_payment_ok:
  assumes "move_payment now k tid st msg s = (Inr (), s')"
  shows "s' = update_tx now (in_review k tid) (set_status now st) s" "tfind (in_review k tid) (d_tx s) \<noteq> None"
  using assms by (auto simp: move_payment_def split: if_splits)

lemma writes_move:
  assumes "move_payment now k tid st msg s = (Inr (), s')" "quiet \<longrightarrow> st \<noteq> Completed"
  shows "writes quiet s s'"
  unfolding move_payment_ok(1) [OF assms(1)]
  by (rule writes_update_tx) (use assms(2) in \<open>simp_all add: set_status_def\<close>)

lemma writes_settle_payment:
  assumes "settle_payment now tid rs rc s = (Inr (), s')"
  shows "writes (rs \<noteq> Res_settled) s s'"
proof (cases rs)
  case Res_retry
  let ?s1 = "s\<lparr>d_outbox := tupdate (dead_row rc tid) (mark_retry now) (d_outbox s)\<rparr>"
  have "writes True s ?s1"
    by (rule writes_update_outbox) (auto simp: outbox_row_ok_def mark_retry_def MAX_ATTEMPTS_def)
  moreover have "writes True ?s1 s'"
    using assms Res_retry by (auto split: if_splits intro: writes_move)
  ultimately show ?thesis using Res_retry by (auto intro: writes_trans)
qed (use assms in \<open>auto intro: writes_move\<close>)

lemma writes_resolve:
  assumes "resolveProcedure rs e c i s = (r, s')"
  shows "writes (rs \<noteq> Res_settled) s s'"
  using assms
proof (cases rule: resolve_cases)
  case (resolved u tid rc s2)
  let ?s1 = "update_case (resolvable (ei_case i) tid (u_id u)) (mark_case_resolved (e_now e) (u_id u) rs i) s"
  have "writes (rs \<noteq> Res_settled) s ?s1"
  proof (rule writes_update_case)
    show "\<forall>c \<in> set (d_cases s). resolvable (ei_case i) tid (u_id u) c \<longrightarrow> \<not> closedStatus (rc_status c) \<and>
        (case_constraints c \<longrightarrow> case_constraints (mark_case_resolved (e_now e) (u_id u) rs i c))"
      using resolved_case_constraints [OF resolved(2)] by (auto simp: resolvable_def closedStatus_def)
  qed (simp add: mark_case_resolved_def)
  moreover have "writes (rs \<noteq> Res_settled) ?s1 s2" by (rule writes_settle_payment [OF resolved(7)])
  ultimately have "writes (rs \<noteq> Res_settled) s s2" by (rule writes_trans)
  then show ?thesis by (rule writes_then_other) (simp_all add: resolved(8) appendEvent_def)
qed simp

section \<open>The system\<close>

record sysState =
  sy_db :: paydb
  sy_held :: "paymentOutboxRow list"

datatype sysRequest =
    SysTx txRequest
  | SysInitiate railConfig bool "velocityInput \<Rightarrow> velocityReply" string transferInput
  | SysFreeze "nat \<Rightarrow> int option" string "string option" string
  | SysUnfreeze string "string option"
  | SysBulkUnfreeze "string list" string
  | SysReverse string string
  | SysSchedule string scheduleKind "(string \<times> string) list"
  | SysCancel string
  | SysClaim int
  | SysResolve resolution evidenceInput
  | SysAmlCreate "rat \<Rightarrow> rat" "int \<Rightarrow> bool" "rat \<Rightarrow> string" string string amlInput
  | SysAmlFlag string int string
  | SysAmlClear int
  | SysArchive "int list"

fun sys_serve :: "(rat \<Rightarrow> rat) \<Rightarrow> (string \<Rightarrow> int option) \<Rightarrow> env \<Rightarrow> ctx \<Rightarrow> sysRequest \<Rightarrow> paydb \<Rightarrow> paydb" where
  "sys_serve real32 parseDate e c (SysTx q) s = serve real32 parseDate e c q s"
| "sys_serve real32 parseDate e c (SysInitiate cfg configured reply ref i) s = snd (initiateTransfer cfg configured reply real32 id ref e c i s)"
| "sys_serve real32 parseDate e c (SysFreeze n acc nm reason) s = snd (freezeAccount n e c acc nm reason s)"
| "sys_serve real32 parseDate e c (SysUnfreeze acc notes) s = snd (unfreezeAccount e c acc notes s)"
| "sys_serve real32 parseDate e c (SysBulkUnfreeze accs reason) s = snd (bulkUnfreeze e c accs reason s)"
| "sys_serve real32 parseDate e c (SysReverse ref reason) s = snd (reverseTransfer e c ref reason s)"
| "sys_serve real32 parseDate e c (SysSchedule nm k fs) s = snd (createExportSchedule e c nm k fs s)"
| "sys_serve real32 parseDate e c (SysCancel ref) s = snd (cancelWorkflow e c ref s)"
| "sys_serve real32 parseDate e c (SysClaim i) s = snd (claim e c i s)"
| "sys_serve real32 parseDate e c (SysResolve rs i) s = snd (resolveProcedure rs e c i s)"
| "sys_serve real32 parseDate e c (SysAmlCreate real64 known toLocale ref aref i) s =
     snd (amlCreate real32 real64 parseDate known toLocale ref aref e c i s)"
| "sys_serve real32 parseDate e c (SysAmlFlag aref i reason) s = snd (amlFlag aref e c i reason s)"
| "sys_serve real32 parseDate e c (SysAmlClear i) s = snd (amlClear e c i s)"
| "sys_serve real32 parseDate e c (SysArchive ids) s = markArchived (e_now e) ids s"

datatype sysLabel =
    Request env ctx sysRequest
  | Poll "string option" int int
  | Treat env paymentOutboxRow
  | Drop paymentOutboxRow

inductive sys_step ::
    "(rat \<Rightarrow> rat) \<Rightarrow> (string \<Rightarrow> int option) \<Rightarrow> (paymentOutboxRow \<Rightarrow> workflowStart option) \<Rightarrow> (int \<Rightarrow> int) \<Rightarrow>
     sysLabel \<Rightarrow> sysState \<Rightarrow> sysState \<Rightarrow> bool"
  for real32 parseDate starter randomInt where
  sys_request: "sys_step real32 parseDate starter randomInt (Request e c q) s (s\<lparr>sy_db := sys_serve real32 parseDate e c q (sy_db s)\<rparr>)"
| sys_poll: "claim_batch owner now cnt (sy_db s) = (items, db) \<Longrightarrow>
    sys_step real32 parseDate starter randomInt (Poll owner now cnt) s (s\<lparr>sy_db := db, sy_held := sy_held s @ items\<rparr>)"
| sys_treat: "item \<in> set (sy_held s) \<Longrightarrow>
    sys_step real32 parseDate starter randomInt (Treat e item) s
      (s\<lparr>sy_db := snd (dispatch_item starter randomInt e item (sy_db s)), sy_held := remove1 item (sy_held s)\<rparr>)"
| sys_drop: "sys_step real32 parseDate starter randomInt (Drop item) s (s\<lparr>sy_held := remove1 item (sy_held s)\<rparr>)"

inductive_cases sys_stepE: "sys_step real32 parseDate starter randomInt l s t"

definition some_step where
  "some_step real32 parseDate starter randomInt s t = (\<exists>l. sys_step real32 parseDate starter randomInt l s t)"

definition sys_start :: "sysState \<Rightarrow> bool" where
  "sys_start s \<longleftrightarrow> sy_db s = empty_paydb \<and> sy_held s = []"

definition sys_ok :: "sysState \<Rightarrow> bool" where
  "sys_ok s \<longleftrightarrow> integrity (sy_db s) \<and> (\<forall>item \<in> set (sy_held s). held_ok (sy_db s) item)"

definition settles :: "sysLabel \<Rightarrow> bool" where
  "settles l \<longleftrightarrow> (case l of
     Request e c (SysResolve Res_settled i) \<Rightarrow> True | Request e c (SysAmlClear i) \<Rightarrow> True | _ \<Rightarrow> False)"

lemma writes_weaken: "writes True s s' \<Longrightarrow> writes quiet s s'"
proof (induction rule: rtranclp_induct)
  case (step t u)
  have "prim quiet t u" using step(2)
    by (cases rule: prim.cases) (auto intro: prim.intros)
  with step(3) show ?case by (rule rtranclp.rtrancl_into_rtrancl)
qed simp

lemma writes_sys_serve:
  "writes (\<not> settles (Request e c q)) s (sys_serve real32 parseDate e c q s)"
proof (cases q)
  case (SysResolve rs i)
  obtain r s' where r: "resolveProcedure rs e c i s = (r, s')" by fastforce
  have "settles (Request e c q) = (rs = Res_settled)" by (cases rs) (simp_all add: settles_def SysResolve)
  with writes_resolve [OF r] r SysResolve show ?thesis by simp
next
  case (SysAmlClear i)
  then show ?thesis using writes_aml_clear [of s e c i] by (simp add: settles_def)
qed (rule writes_weaken, simp add: writes_serve writes_initiate writes_freeze rails_frames writes_reverse writes_claim
    writes_aml_create writes_aml_flag writes_archive)+

lemma sys_step_writes:
  assumes "sys_step real32 parseDate starter randomInt l s t" "sys_ok s"
  shows "writes (\<not> settles l) (sy_db s) (sy_db t)"
  using assms(1)
proof (cases rule: sys_step.cases)
  case (sys_request e c q)
  then show ?thesis by (simp add: writes_sys_serve)
next
  case (sys_poll owner now cnt items db)
  have "integrity (sy_db s)" using assms(2) by (simp add: sys_ok_def)
  from writes_weaken [OF writes_claim_batch [OF this sys_poll(3)]] sys_poll(2) show ?thesis by simp
next
  case (sys_treat item e)
  then have "held_ok (sy_db s) item" using assms(2) by (simp add: sys_ok_def)
  from writes_weaken [OF writes_dispatch [OF this]] sys_treat(2) show ?thesis by simp
qed simp

lemma sys_step_ok:
  assumes "sys_step real32 parseDate starter randomInt l s t" "sys_ok s"
  shows "sys_ok t"
proof -
  note w = sys_step_writes [OF assms]
  have i: "integrity (sy_db t)" using writes_integrity [OF w] assms(2) by (simp add: sys_ok_def)
  have old: "held_ok (sy_db t) item" if "item \<in> set (sy_held s)" for item
    using that assms(2) held_kept [OF _ writes_kept [OF w]] by (auto simp: sys_ok_def)
  from assms(1) have "held_ok (sy_db t) item" if "item \<in> set (sy_held t)" for item
  proof (cases rule: sys_step.cases)
    case (sys_poll owner now cnt items db)
    have "integrity (sy_db s)" using assms(2) by (simp add: sys_ok_def)
    note new = claim_batch_held [OF this sys_poll(3)]
    show ?thesis
    proof (cases "item \<in> set items")
      case True
      with new sys_poll(2) show ?thesis by simp
    next
      case False
      with that sys_poll(2) old show ?thesis by simp
    qed
  next
    case (sys_treat i e)
    then have "item \<in> set (sy_held s)" using that by (auto dest: set_remove1_subset [THEN subsetD])
    then show ?thesis by (rule old)
  next
    case (sys_drop i)
    then have "item \<in> set (sy_held s)" using that by (auto dest: set_remove1_subset [THEN subsetD])
    then show ?thesis by (rule old)
  next
    case (sys_request e c q)
    with that have "item \<in> set (sy_held s)" by simp
    then show ?thesis by (rule old)
  qed
  with i show ?thesis by (simp add: sys_ok_def)
qed

lemma integrity_empty [simp]: "integrity empty_paydb"
  by (simp add: integrity_def outbox_ok_def cases_ok_def cases_unique_def)

interpretation payment_machine: state_machine sys_start "some_step real32 parseDate starter randomInt" sys_ok
  for real32 parseDate starter randomInt
proof unfold_locales
  show "sys_ok s" if "sys_start s" for s using that by (simp add: sys_start_def sys_ok_def)
  show "sys_ok t" if "sys_ok s" "some_step real32 parseDate starter randomInt s t" for s t
    using that sys_step_ok by (auto simp: some_step_def)
qed

end
