(* ===== verification/Payment_Safety.thy ===== *)
theory Payment_Safety
  imports Payment_System
begin

text \<open>
  Properties of the payment system as a whole: its integrity under every interleaving, who can
  settle a payment, what the dispatcher does with a batch, and what a resolution changes.
\<close>

section \<open>Integrity\<close>

text \<open>C1: In every reachable state of the payment system, whatever requests, polls and dispatchers
  interleave: references and idempotency keys are unique, every outbox instruction belongs to one
  payment of its tenant and carries its reference, no instruction has more than 10 attempts, it
  holds a lease exactly while it is leased, and every reconciliation case meets the database's
  CHECK constraints (claimed while under review, resolved by someone else than its claimer).\<close>

theorem payment_integrity:
  assumes "reach sys_start (some_step real32 parseDate starter randomInt) s"
  shows "tx_table_ok (d_tx (sy_db s)) \<and>
    distinct (map ob_transaction_id (rows (d_outbox (sy_db s)))) \<and>
    (\<forall>b \<in> set (rows (d_outbox (sy_db s))). has_payment (d_tx (sy_db s)) b \<and> ob_attempts b \<le> MAX_ATTEMPTS \<and>
       (ob_status b = Leased) = (ob_leased_at b \<noteq> None)) \<and>
    (\<forall>c \<in> set (d_cases (sy_db s)). has_intent (d_outbox (sy_db s)) c \<and> case_constraints c)"
  using payment_machine.inv_reachable [OF assms]
  by (simp add: sys_ok_def integrity_def outbox_ok_def outbox_row_ok_def cases_ok_def)

section \<open>Four eyes\<close>

lemma lock_SomeD:
  assumes "lockClaimedCase i tid actor s = Inr c"
  shows "c \<in> set (d_cases s)" "rc_transaction_id c = i" "rc_tenant_id c = tid" "rc_status c = CUnder_review"
    "rc_claimed_by c \<noteq> None" "rc_claimed_by c \<noteq> Some actor"
    "\<exists>t \<in> set (rows (d_tx s)). tx_id t = i \<and> tx_tenantId t = Some tid \<and> tx_status t = Under_review"
    "\<exists>b \<in> set (rows (d_outbox s)). ob_id b = rc_outbox_id c \<and> ob_transaction_id b = i \<and> ob_tenant_id b = tid \<and> ob_status b = Dead_letter"
  using assms
  by (auto simp: lockClaimedCase_def Let_def split: option.splits if_splits dest!: find_SomeD tfind_SomeD)

definition four_eyes :: "ctx \<Rightarrow> evidenceInput \<Rightarrow> int \<Rightarrow> paydb \<Rightarrow> bool" where
  "four_eyes c i txid s \<longleftrightarrow>
     (\<exists>u tid a rc. c_user c = Some u \<and> u_role u = RAdmin \<and> c_tenantId c = Some tid \<and> evidence_ok Res_settled i \<and>
        rc \<in> set (d_cases s) \<and> rc_transaction_id rc = txid \<and> rc_tenant_id rc = tid \<and> rc_status rc = CUnder_review \<and>
        rc_claimed_by rc = Some a \<and> a \<noteq> u_id u)"

lemma settlement_effect:
  assumes "resolveProcedure Res_settled e c i s = (r, s')" "integrity s"
    and "t \<in> set (rows (d_tx s))" "t' \<in> set (rows (d_tx s'))" "tx_id t' = tx_id t"
    and "tx_status t' = Completed" "tx_status t \<noteq> Completed"
  shows "four_eyes c i (tx_id t) s \<and> tx_status t = Under_review"
  using assms(1)
proof (cases rule: resolve_cases)
  case (refused err)
  with assms(2-7) tx_table_ok_id_unique [of "d_tx s" t t'] show ?thesis by (auto simp: integrity_def)
next
  case (resolved u tid rc s2)
  let ?s1 = "update_case (resolvable (ei_case i) tid (u_id u)) (mark_case_resolved (e_now e) (u_id u) Res_settled i) s"
  note rc = lock_SomeD [OF resolved(6)]
  have "move_payment (e_now e) (rc_transaction_id rc) tid Completed ''Payment transaction could not be settled safely.'' ?s1 = (Inr (), s2)"
    using resolved(7) by simp
  from move_payment_ok(1) [OF this] resolved(8)
  have tx: "d_tx s' = tupdate (in_review (ei_case i) tid) (set_status (e_now e) Completed) (d_tx s)"
    by (simp add: appendEvent_def rc(2) update_case_def)
  with assms(4) obtain x where x: "x \<in> set (rows (d_tx s))"
    "t' = (if in_review (ei_case i) tid x then set_status (e_now e) Completed x else x)" by auto
  have "tx_id x = tx_id t" using x(2) assms(5) by (auto simp: set_status_def split: if_splits)
  then have "x = t" using tx_table_ok_id_unique [OF _ x(1) assms(3)] assms(2) by (simp add: integrity_def)
  with x(2) assms(6,7) have rev: "in_review (ei_case i) tid t" by (auto split: if_splits)
  from rc(5,6) obtain a where "rc_claimed_by rc = Some a" "a \<noteq> u_id u" by auto
  with rc resolved(2-4,9) rev have "four_eyes c i (tx_id t) s"
    unfolding four_eyes_def in_review_def
    by (intro exI [where x = u] exI [where x = tid] exI [where x = a] exI [where x = rc] conjI) simp_all
  with rev show ?thesis by (simp add: in_review_def)
qed

text \<open>A clearing: a user of the transaction's tenant asks for it, and the transaction is flagged.\<close>

definition single_clear :: "ctx \<Rightarrow> int \<Rightarrow> transaction \<Rightarrow> bool" where
  "single_clear c i t \<longleftrightarrow> (\<exists>u tid. c_user c = Some u \<and> \<not> c_isDemo c \<and> c_tenantId c = Some tid \<and>
     tx_id t = i \<and> tx_tenantId t = Some tid \<and> tx_status t = Flagged)"

lemma clear_effect:
  assumes "tx_table_ok (d_tx s)" "t \<in> set (rows (d_tx s))" "t' \<in> set (rows (d_tx (snd (amlClear e c i s))))" "tx_id t' = tx_id t"
    and "tx_status t' = Completed" "tx_status t \<noteq> Completed"
  shows "single_clear c i t"
proof (cases rule: clear_cases [of e c i s])
  case (refused err)
  with assms show ?thesis using tx_table_ok_id_unique [OF assms(1), of t t'] by auto
next
  case (cleared u tid tx)
  with assms(3) obtain x where x: "x \<in> set (rows (d_tx s))" "t' = (if clearable i tid x then aml_cleared (e_now e) x else x)" by auto
  then have "tx_id x = tx_id t" using assms(4) by (auto simp: aml_cleared_def split: if_splits)
  then have "x = t" using tx_table_ok_id_unique [OF assms(1) x(1) assms(2)] by simp
  with x(2) assms(5,6) have "clearable i tid t" by (auto split: if_splits)
  with cleared(1-3) show ?thesis by (auto simp: single_clear_def clearable_def own_tx_def)
qed

text \<open>C6: Who completes a payment. A step of the system that turns an existing transaction into a completed one is one of two:
  a settlement confirmation, with well-formed evidence, by an administrator of the transaction's tenant on its case under review
  that a different person claimed, the transaction being under review; or a clearing by a single user of the tenant, of
  a transaction that is flagged.\<close>

theorem who_completes_a_payment:
  assumes "reach sys_start (some_step real32 parseDate starter randomInt) s"
    and "sys_step real32 parseDate starter randomInt l s s'"
    and "t \<in> set (rows (d_tx (sy_db s)))" "t' \<in> set (rows (d_tx (sy_db s')))" "tx_id t' = tx_id t"
    and "tx_status t' = Completed" "tx_status t \<noteq> Completed"
  shows "(\<exists>e c i. l = Request e c (SysResolve Res_settled i) \<and> four_eyes c i (tx_id t) (sy_db s) \<and> tx_status t = Under_review) \<or>
    (\<exists>e c. l = Request e c (SysAmlClear (tx_id t)) \<and> single_clear c (tx_id t) t)"
proof -
  have ok: "sys_ok s" by (rule payment_machine.inv_reachable [OF assms(1)])
  then have int: "integrity (sy_db s)" by (simp add: sys_ok_def)
  have "settles l"
  proof (rule ccontr)
    assume "\<not> settles l"
    with sys_step_writes [OF assms(2) ok] have "writes True (sy_db s) (sy_db s')" by simp
    from writes_none_completed [OF this int] assms(3-7) show False by (auto simp: none_completed_def)
  qed
  then consider e c i where "l = Request e c (SysResolve Res_settled i)" | e c i where "l = Request e c (SysAmlClear i)"
    by (auto simp: settles_def split: sysLabel.splits sysRequest.splits resolution.splits)
  then show ?thesis
  proof cases
    case (1 e c i)
    with assms(2) have db: "sy_db s' = snd (resolveProcedure Res_settled e c i (sy_db s))" by (auto elim: sys_stepE)
    obtain r db' where "resolveProcedure Res_settled e c i (sy_db s) = (r, db')" by fastforce
    with settlement_effect [OF this int assms(3) _ assms(5-7)] assms(4) db 1 show ?thesis by auto
  next
    case (2 e c i)
    with assms(2) have db: "sy_db s' = snd (amlClear e c i (sy_db s))" by (auto elim: sys_stepE)
    with clear_effect [OF _ assms(3) _ assms(5-7), of e c i] int assms(4) have "single_clear c i t" by (simp add: integrity_def)
    moreover from this have "i = tx_id t" by (auto simp: single_clear_def)
    ultimately show ?thesis using 2 by blast
  qed
qed

section \<open>Closed cases\<close>

definition closed_case :: "reconCase \<Rightarrow> sysState \<Rightarrow> bool" where
  "closed_case rc s \<longleftrightarrow> rc \<in> set (d_cases (sy_db s)) \<and> closedStatus (rc_status rc)"

interpretation closed_machine: sticky_machine sys_start "some_step real32 parseDate starter randomInt" sys_ok
  "closed_case rc" "closed_case rc"
  for real32 parseDate starter randomInt rc
proof unfold_locales
  fix s t assume "sys_ok s" "closed_case rc s" "some_step real32 parseDate starter randomInt s t"
  then obtain l where "kept (sy_db s) (sy_db t)"
    by (auto simp: some_step_def dest: writes_kept [OF sys_step_writes])
  with \<open>closed_case rc s\<close> show "closed_case rc t \<and> closed_case rc t = closed_case rc s"
    by (auto simp: closed_case_def kept_def closed_kept_def)
qed

text \<open>C17: A closed reconciliation case is final: no sequence of steps changes any field of it, its
  outcome, the two people or the evidence.\<close>

theorem closed_case_is_final:
  assumes "reach sys_start (some_step real32 parseDate starter randomInt) s"
    and "rc \<in> set (d_cases (sy_db s))" "closedStatus (rc_status rc)"
    and "steps (some_step real32 parseDate starter randomInt) s t"
  shows "rc \<in> set (d_cases (sy_db t))"
  using closed_machine.sticky_steps [OF assms(4) payment_machine.inv_reachable [OF assms(1)], of rc] assms(2,3)
  by (simp add: closed_case_def)

section \<open>References are claimed once\<close>

lemma steps_kept:
  assumes "steps (some_step real32 parseDate starter randomInt) s t" "sys_ok s"
  shows "kept (sy_db s) (sy_db t)"
  using assms
proof (induction rule: steps.induct)
  case (steps_snoc s t u)
  then have "sys_ok t" using payment_machine.inv_steps by blast
  with steps_snoc(2) have "kept (sy_db t) (sy_db u)"
    by (auto simp: some_step_def dest: writes_kept [OF sys_step_writes])
  with steps_snoc show ?case by (blast intro: kept_trans)
qed simp

lemma find_by_ref_row:
  assumes "tx_table_ok (d_tx s)" "t \<in> set (rows (d_tx s))" "tenantCondition tid (tx_tenantId t)"
  shows "find_by_ref tid (tx_txRef t) s = Some t"
proof (cases "find_by_ref tid (tx_txRef t) s")
  case None
  with assms(2,3) show ?thesis by (auto simp: find_by_ref_def tfind_None_iff)
next
  case (Some x)
  with tfind_SomeD [OF Some [unfolded find_by_ref_def]] tx_table_ok_ref_unique [OF assms(1)] assms(2)
  show ?thesis by blast
qed

text \<open>C13: A payment reference is claimed at most once: once a payment of the tenant exists under a
  reference, an initiation with that reference at any later state returns that payment as an
  idempotent success and changes nothing, whatever the other fields of the request say.\<close>

theorem reference_claimed_once:
  assumes "reach sys_start (some_step real32 parseDate starter randomInt) s"
    and "t \<in> set (rows (d_tx (sy_db s)))" "tx_tenantId t = Some tid" "0 < tid" "tx_txRef t \<noteq> []"
    and "steps (some_step real32 parseDate starter randomInt) s s2"
    and "c_user c = Some u" "\<not> c_isDemo c" "e_dbUp e" "transfer_input_ok i" "c_tenantId c = Some tid"
    and "requireActivePaymentRail cfg = Some rl" "ti_originatorAccountId i \<noteq> ti_beneficiaryAccountId i"
    and "ti_reference i = Some (tx_txRef t)"
  shows "\<exists>res. initiateTransfer cfg configured reply real32 others genRef e c i (sy_db s2) = (Inr res, sy_db s2) \<and>
    tr_id res = tx_id t \<and> tr_idempotent res"
proof -
  have ok: "sys_ok s" by (rule payment_machine.inv_reachable [OF assms(1)])
  from steps_kept [OF assms(6) ok] assms(2) obtain t2 where t2: "t2 \<in> set (rows (d_tx (sy_db s2)))"
    "tx_id t2 = tx_id t" "tx_txRef t2 = tx_txRef t" "tx_tenantId t2 = tx_tenantId t"
    by (auto simp: kept_def tx_kept_def)
  have "tx_table_ok (d_tx (sy_db s2))"
    using payment_machine.inv_steps [OF assms(6) ok] by (simp add: sys_ok_def integrity_def)
  from find_by_ref_row [OF this t2(1), of "Some tid"] t2(3,4) assms(3)
  have "find_by_ref (Some tid) (tx_txRef t) (sy_db s2) = Some t2" by (simp add: tenantCondition_def)
  then have "known_reference tid i (sy_db s2) = Some t2"
    using assms(5,14) by (simp add: known_reference_def truthy_str_def)
  then show ?thesis
    using assms(4,7-13) t2(2)
    by (simp add: initiateTransfer_def writeProcedure_def existing_result_def)
qed

section \<open>A poll\<close>

definition treated :: "pollResult \<Rightarrow> nat" where
  "treated r = pr_dispatched r + pr_deferred r + pr_deadLettered r"

lemma treated_tally [simp]: "treated (tally out r) = treated r + 1" "pr_claimed (tally out r) = pr_claimed r"
  by (cases out; simp add: treated_def)+

lemma dispatch_all_tally:
  "dispatch_all starter randomInt e items r s = (Inr r', s') \<Longrightarrow> treated r' = treated r + length items \<and> pr_claimed r' = pr_claimed r"
  by (induction starter randomInt e items r s rule: dispatch_all.induct) (auto split: prod.splits sum.splits)

text \<open>Intents that are started, before and after.\<close>

definition started_in :: "paydb \<Rightarrow> int set" where
  "started_in s = ob_id ` set (filter (\<lambda>b. ob_status b = Workflow_started) (rows (d_outbox s)))"

lemma started_update:
  assumes "ob_same_key f" "\<And>b. ob_status (f b) \<noteq> Workflow_started"
  shows "started_in (s\<lparr>d_outbox := tupdate P f (d_outbox s)\<rparr>) \<subseteq> started_in s"
proof
  fix i assume "i \<in> started_in (s\<lparr>d_outbox := tupdate P f (d_outbox s)\<rparr>)"
  then obtain b where b: "b \<in> set (rows (d_outbox s))" "i = ob_id (if P b then f b else b)"
    "ob_status (if P b then f b else b) = Workflow_started" by (auto simp: started_in_def)
  with assms show "i \<in> started_in s" by (auto simp: started_in_def ob_same_key_def split: if_splits)
qed

lemma started_update_tx [simp]: "started_in (update_tx now P f s) = started_in s"
  by (simp add: started_in_def)

lemma started_escalate: "started_in (snd (escalateForReconciliation e item n code s)) \<subseteq> started_in s"
  by (cases rule: escalate_cases [of e item n code s]) (simp_all add: started_update mark_dead_def)

lemma dispatch_never_starts:
  assumes "dispatch_item startPaymentTransferWorkflow randomInt e item s = (r, s')"
  shows "started_in s' \<subseteq> started_in s \<and> r \<noteq> Inr Dispatched"
proof -
  have esc: "(case escalateForReconciliation e item n code s of
              (Inl err, s1) \<Rightarrow> (Inl err, s1) | (Inr _, s1) \<Rightarrow> (Inr DeadLettered, s1)) = (r, s') \<Longrightarrow>
      started_in s' \<subseteq> started_in s \<and> r \<noteq> Inr Dispatched" for n code
    using started_escalate [of e item n code s] by (auto split: prod.splits sum.splits)
  have req: "started_in (s\<lparr>d_outbox := tupdate (leased_row (po_id item)) (mark_requeued n d) (d_outbox s)\<rparr>) \<subseteq> started_in s" for n d
    by (rule started_update) (simp_all add: mark_requeued_def)
  show ?thesis
    using assms esc req [THEN subsetD]
    by (cases "isDispatchable item"; cases "MAX_ATTEMPTS \<le> po_attempts item + 1")
      (auto simp: dispatch_item_def start_failed_def startPaymentTransferWorkflow_def Let_def)
qed

lemma dispatch_all_never_starts:
  "dispatch_all startPaymentTransferWorkflow randomInt e items r s = (x, s') \<Longrightarrow>
   started_in s' \<subseteq> started_in s \<and> (\<forall>r'. x = Inr r' \<longrightarrow> pr_dispatched r' = pr_dispatched r)"
proof (induction items arbitrary: r s)
  case (Cons item items)
  obtain q s1 where q: "dispatch_item startPaymentTransferWorkflow randomInt e item s = (q, s1)" by fastforce
  note d = dispatch_never_starts [OF q]
  show ?case
  proof (cases q)
    case (Inl err)
    with Cons.prems q d show ?thesis by auto
  next
    case (Inr out)
    with Cons.prems q have "dispatch_all startPaymentTransferWorkflow randomInt e items (tally out r) s1 = (x, s')" by simp
    from Cons.IH [OF this] d Inr show ?thesis by (cases out) auto
  qed
qed auto

lemma process_split:
  assumes "processPaymentIntentOutbox starter randomInt owner e cnt s = (Inr r, s')"
  obtains items s1 where "claim_batch owner (e_now e) cnt s = (items, s1)"
    "dispatch_all starter randomInt e items \<lparr>pr_claimed = length items, pr_dispatched = 0, pr_deferred = 0, pr_deadLettered = 0\<rparr> s1 = (Inr r, s')"
  using assms by (cases "claim_batch owner (e_now e) cnt s") (auto simp: processPaymentIntentOutbox_def split: if_splits)

text \<open>A poll that returns has treated every intent it claimed exactly once: the dispatched,
  deferred and dead-lettered counts add up to the claimed count, at most 25.\<close>

theorem poll_accounts_for_all:
  assumes "processPaymentIntentOutbox starter randomInt owner e cnt s = (Inr r, s')"
  shows "pr_dispatched r + pr_deferred r + pr_deadLettered r = pr_claimed r \<and> int (pr_claimed r) \<le> MAX_BATCH_SIZE"
proof -
  obtain items s1 where sp: "claim_batch owner (e_now e) cnt s = (items, s1)"
    "dispatch_all starter randomInt e items \<lparr>pr_claimed = length items, pr_dispatched = 0, pr_deferred = 0, pr_deadLettered = 0\<rparr> s1 = (Inr r, s')"
    by (rule process_split [OF assms])
  have "int (length items) \<le> MAX_BATCH_SIZE"
    using claim_batch_eq(1) [OF sp(1)] by (simp add: candidates_def MAX_BATCH_SIZE_def)
  with dispatch_all_tally [OF sp(2)] show ?thesis by (simp add: treated_def)
qed

lemma started_claim_batch:
  assumes "claim_batch owner now cnt s = (items, s')"
  shows "started_in s' \<subseteq> started_in s"
proof -
  have "started_in (requeue_expired now s) \<subseteq> started_in s"
    unfolding requeue_expired_def by (rule started_update) simp_all
  moreover have "started_in s' \<subseteq> started_in (requeue_expired now s)"
    unfolding claim_batch_eq(2) [OF assms] by (rule started_update) (simp_all add: mark_leased_def)
  ultimately show ?thesis by blast
qed

text \<open>With the workflow starter of the platform no payment intent is ever started: a poll
  dispatches nothing, and the set of started intents does not grow, whether the poll returns or
  fails.\<close>

theorem no_intent_is_ever_started:
  "let (x, s') = processPaymentIntentOutbox startPaymentTransferWorkflow randomInt owner e cnt s in
   started_in s' \<subseteq> started_in s \<and> (case x of Inl _ \<Rightarrow> True | Inr r \<Rightarrow> pr_dispatched r = 0)"
proof -
  obtain items s1 where b: "claim_batch owner (e_now e) cnt s = (items, s1)" by fastforce
  obtain x s' where x: "dispatch_all startPaymentTransferWorkflow randomInt e items
      \<lparr>pr_claimed = length items, pr_dispatched = 0, pr_deferred = 0, pr_deadLettered = 0\<rparr> s1 = (x, s')" by fastforce
  from dispatch_all_never_starts [OF x] started_claim_batch [OF b] b x show ?thesis
    by (auto simp: processPaymentIntentOutbox_def split: sum.split)
qed

text \<open>One intent whose tenth start fails after its payment left the pending state blocks the
  batch: the escalation throws, the poll ends there, and every intent after it in the batch keeps
  its row, its lease included.\<close>

theorem poison_intent_blocks_batch:
  assumes "claim_batch owner (e_now e) cnt s = (item # items, s1)" "e_dbUp e"
    and "MAX_ATTEMPTS \<le> po_attempts item + 1"
    and "tfind (pending_row (po_transaction_id item) (po_tenant_id item)) (d_tx s) = None"
  shows "\<exists>err. processPaymentIntentOutbox startPaymentTransferWorkflow randomInt owner e cnt s = (Inl err, s1)"
proof -
  have tx: "d_tx s1 = d_tx s" using claim_batch_eq(2) [OF assms(1)] by (simp add: requeue_expired_def)
  have esc: "\<exists>err. escalateForReconciliation e item n code s1 = (Inl err, s1)" for n code
    by (cases rule: escalate_cases [of e item n code s1]) (use assms(4) tx in auto)
  obtain err1 err2 where
    "escalateForReconciliation e item (po_attempts item + 1) ''TEMPORAL_WORKFLOW_START_FAILED'' s1 = (Inl err1, s1)"
    "escalateForReconciliation e item (po_attempts item + 1) ''INVALID_DURABLE_PAYMENT_INTENT'' s1 = (Inl err2, s1)"
    using esc by metis
  then have "\<exists>err. dispatch_item startPaymentTransferWorkflow randomInt e item s1 = (Inl err, s1)"
    using assms(3) by (cases "isDispatchable item")
      (simp_all add: dispatch_item_def start_failed_def startPaymentTransferWorkflow_def)
  with assms(1,2) show ?thesis by (auto simp: processPaymentIntentOutbox_def)
qed

text \<open>The retry time of the \<open>n\<close>-th failed attempt lies between its backoff and the backoff plus a
  tenth after now; the backoff is at least a second, at most five minutes, and never shrinks from
  one attempt to the next.\<close>

theorem retryAt_bounds:
  assumes "1 \<le> n" "\<And>m. 0 < m \<Longrightarrow> 0 \<le> randomInt m \<and> randomInt m < m"
  shows "now + retryBase n \<le> retryAt randomInt now n \<and> retryAt randomInt now n \<le> now + retryBase n + retryBase n div 10 \<and>
    1000 \<le> retryBase n \<and> retryBase n \<le> 300000 \<and> retryBase n \<le> retryBase (n + 1)"
proof -
  have lo: "1000 \<le> retryBase n" by (rule outbox_backoff.delay_lower [OF assms(1)])
  then have "max 1 (retryBase n div 10) = retryBase n div 10" by simp
  moreover have "0 < retryBase n div 10" using lo by simp
  ultimately have "0 \<le> randomInt (max 1 (retryBase n div 10)) \<and> randomInt (max 1 (retryBase n div 10)) < retryBase n div 10"
    using assms(2) by metis
  with lo outbox_backoff.delay_upper [of n] outbox_backoff.delay_mono [OF assms(1), of "n + 1"] show ?thesis
    by (simp add: retryAt_def)
qed

section \<open>The poll refines the step relation\<close>

lemma one_step: "step s t \<Longrightarrow> steps step s t"
  by (rule steps_snoc [OF steps_refl])

text \<open>The loop over a batch is a run of single treatments; an error leaves a held rest.\<close>

lemma dispatch_all_steps:
  "dispatch_all starter randomInt e items r s = (x, s') \<Longrightarrow>
   \<exists>rest. steps (some_step real32 parseDate starter randomInt) \<lparr>sy_db = s, sy_held = items\<rparr> \<lparr>sy_db = s', sy_held = rest\<rparr> \<and>
     set rest \<subseteq> set items \<and> (\<forall>r'. x = Inr r' \<longrightarrow> rest = [])"
proof (induction items arbitrary: r s)
  case Nil
  then show ?case by (auto intro: steps_refl)
next
  case (Cons item items)
  obtain q s1 where q: "dispatch_item starter randomInt e item s = (q, s1)" by fastforce
  have "sys_step real32 parseDate starter randomInt (Treat e item) \<lparr>sy_db = s, sy_held = item # items\<rparr>
      (\<lparr>sy_db = s, sy_held = item # items\<rparr>\<lparr>sy_db := snd (dispatch_item starter randomInt e item (sy_db \<lparr>sy_db = s, sy_held = item # items\<rparr>)),
         sy_held := remove1 item (sy_held \<lparr>sy_db = s, sy_held = item # items\<rparr>)\<rparr>)"
    by (rule sys_treat) simp
  then have st: "some_step real32 parseDate starter randomInt \<lparr>sy_db = s, sy_held = item # items\<rparr> \<lparr>sy_db = s1, sy_held = items\<rparr>"
    using q by (auto simp: some_step_def)
  show ?case
  proof (cases q)
    case (Inl err)
    with Cons.prems q one_step [where step = "some_step real32 parseDate starter randomInt", OF st] show ?thesis
      by (intro exI [where x = items]) auto
  next
    case (Inr out)
    with Cons.prems q have "dispatch_all starter randomInt e items (tally out r) s1 = (x, s')" by simp
    from Cons.IH [OF this] obtain rest where
      "steps (some_step real32 parseDate starter randomInt) \<lparr>sy_db = s1, sy_held = items\<rparr> \<lparr>sy_db = s', sy_held = rest\<rparr>"
      "set rest \<subseteq> set items" "\<forall>r'. x = Inr r' \<longrightarrow> rest = []" by blast
    with steps_trans [OF _ one_step [where step = "some_step real32 parseDate starter randomInt", OF st]]
    show ?thesis by (intro exI [where x = rest]) auto
  qed
qed

text \<open>The dispatcher's poll refines the step relation: running the code's poll from a state in
  which nothing is held is a sequence of system steps to its final database; when it returns,
  nothing is held any more.\<close>

theorem poll_refines_steps:
  assumes "processPaymentIntentOutbox starter randomInt owner e cnt s = (x, s')"
  shows "\<exists>rest. steps (some_step real32 parseDate starter randomInt) \<lparr>sy_db = s, sy_held = []\<rparr> \<lparr>sy_db = s', sy_held = rest\<rparr> \<and>
    (case x of Inl _ \<Rightarrow> True | Inr _ \<Rightarrow> rest = [])"
proof (cases "e_dbUp e")
  case False
  with assms show ?thesis by (auto simp: processPaymentIntentOutbox_def intro: steps_refl)
next
  case True
  obtain items s1 where b: "claim_batch owner (e_now e) cnt s = (items, s1)" by fastforce
  have "sys_step real32 parseDate starter randomInt (Poll owner (e_now e) cnt) \<lparr>sy_db = s, sy_held = []\<rparr>
     (\<lparr>sy_db = s, sy_held = []\<rparr>\<lparr>sy_db := s1, sy_held := sy_held \<lparr>sy_db = s, sy_held = []\<rparr> @ items\<rparr>)"
    by (rule sys_poll) (simp add: b)
  then have st: "some_step real32 parseDate starter randomInt \<lparr>sy_db = s, sy_held = []\<rparr> \<lparr>sy_db = s1, sy_held = items\<rparr>"
    by (auto simp: some_step_def)
  from True assms b have "dispatch_all starter randomInt e items
      \<lparr>pr_claimed = length items, pr_dispatched = 0, pr_deferred = 0, pr_deadLettered = 0\<rparr> s1 = (x, s')"
    by (simp add: processPaymentIntentOutbox_def)
  from dispatch_all_steps [OF this, of real32 parseDate] obtain rest where rest:
    "steps (some_step real32 parseDate starter randomInt) \<lparr>sy_db = s1, sy_held = items\<rparr> \<lparr>sy_db = s', sy_held = rest\<rparr>"
    "\<forall>r'. x = Inr r' \<longrightarrow> rest = []" by blast
  from steps_trans [OF rest(1) one_step [where step = "some_step real32 parseDate starter randomInt", OF st]] rest(2)
  show ?thesis by (intro exI [where x = rest]) (auto split: sum.split)
qed

section \<open>Resolutions\<close>





text \<open>After a retry was approved, a second terminal failure of the same payment is stuck: the
  payment goes back under review but its case is closed, no new one is opened, and claiming it
  is refused.\<close>

theorem second_escalation_is_stuck:
  assumes "integrity s" "rc \<in> set (d_cases s)" "closedStatus (rc_status rc)"
    and "rc_transaction_id rc = po_transaction_id item"
    and "escalateForReconciliation e item n code s = (Inr (), s')"
  shows "d_cases s' = d_cases s \<and>
    (\<exists>t \<in> set (rows (d_tx s')). tx_id t = po_transaction_id item \<and> tx_status t = Under_review) \<and>
    (\<exists>err. claim e2 c (po_transaction_id item) s' = (Inl err, s'))"
proof -
  let ?s1 = "s\<lparr>d_outbox := tupdate (leased_row (po_id item)) (mark_dead n code) (d_outbox s)\<rparr>"
  have s': "s' = update_tx (e_now e) (pending_row (po_transaction_id item) (po_tenant_id item)) (mark_under_review (e_now e)) ?s1"
    "tfind (pending_row (po_transaction_id item) (po_tenant_id item)) (d_tx s) \<noteq> None"
    using assms(5) by (cases rule: escalate_cases [of e item n code s]; simp)+
  have trig: "d_cases (create_payment_reconciliation_case_on_under_review now r r' db) = d_cases db"
    if "tx_id r' = po_transaction_id item" "rc \<in> set (d_cases db)" for now r r' db
    using that assms(4) by (auto simp: create_payment_reconciliation_case_on_under_review_def Let_def split: option.splits)
  have mark: "tx_id (mark_under_review now r) = tx_id r" for now r by (simp add: mark_under_review_def)
  have "d_cases (fold (\<lambda>r. create_payment_reconciliation_case_on_under_review now r (mark_under_review now r)) rs db) = d_cases db"
    if "\<forall>r \<in> set rs. tx_id r = po_transaction_id item" "rc \<in> set (d_cases db)" for now rs db
    using that by (induction rs arbitrary: db) (simp_all add: trig mark)
  then have same: "d_cases s' = d_cases s"
    using assms(2) by (simp add: s'(1) update_tx_def tselect_def pending_row_def)
  from s'(2) obtain t where t: "t \<in> set (rows (d_tx s))" "pending_row (po_transaction_id item) (po_tenant_id item) t"
    by (auto simp: tfind_None_iff)
  have "mark_under_review (e_now e) t \<in> set (rows (d_tx s'))"
    using tupdate_hit [where P = "pending_row (po_transaction_id item) (po_tenant_id item)"
        and f = "mark_under_review (e_now e)", OF t]
    by (simp only: s'(1) update_tx_frame) simp
  then have ur: "\<exists>t \<in> set (rows (d_tx s')). tx_id t = po_transaction_id item \<and> tx_status t = Under_review"
    using t(2) by (intro bexI) (auto simp: mark_under_review_def pending_row_def)
  have "rc_status x \<noteq> COpen" if "x \<in> set (d_cases s)" "rc_transaction_id x = po_transaction_id item" for x
  proof -
    have "inj_on rc_transaction_id (set (d_cases s))"
      using assms(1) by (simp add: integrity_def cases_ok_def cases_unique_def distinct_map)
    then have "x = rc" by (rule inj_onD) (use that assms(2,4) in simp_all)
    with assms(3) show ?thesis by (auto simp: closedStatus_def)
  qed
  then have "List.find (claimable (po_transaction_id item) tid) (d_cases s') = None" for tid
    by (auto simp: find_None_iff claimable_def same)
  then have body: "claim_body now tid actor (po_transaction_id item) s' =
      (Inl (TRPCError CONFLICT ''Payment reconciliation case is not available to claim.''), s')" for now tid actor
    by (simp add: claim_body_def)
  have "\<exists>err. claim e2 c (po_transaction_id item) s' = (Inl err, s')"
    by (auto simp: claim_def adminProcedure_def requireTenantId_def requireActorId_def poolOrFail_def
        withTenantTransaction_def in_transaction_def body split: option.splits)
  with same ur show ?thesis by blast
qed

end
