(* ===== verification/Payment_Scenario.thy ===== *)
theory Payment_Scenario
  imports Payment_Safety Payment_Properties
begin

text \<open>
  One payment followed through the whole system: initiated, ten times started in vain, escalated
  to reconciliation, claimed by one administrator and resolved by another. The states of this run
  are the concrete inputs at which the theorems on the payment side are instantiated.
\<close>

section \<open>The actors\<close>

definition first_reviewer :: ctx where
  "first_reviewer = \<lparr>c_user = Some sample_admin, c_tenantId = Some 7, c_isDemo = False\<rparr>"

definition second_admin :: user where
  "second_admin = \<lparr>u_id = 3, u_role = RAdmin, u_name = Some ''Eve'', u_email = None\<rparr>"

definition second_reviewer :: ctx where
  "second_reviewer = \<lparr>c_user = Some second_admin, c_tenantId = Some 7, c_isDemo = False\<rparr>"

definition nip_config :: railConfig where
  "nip_config = \<lparr>MOJALOOP_HUB_URL = None, NIBSS_NIP_URL = Some ''https://nip'', NIBSS_NIP_KEY = Some ''k''\<rparr>"

definition allow_all :: "velocityInput \<Rightarrow> velocityReply" where
  "allow_all vi = VAnswer \<lparr>vy_decision = Some ''allow'', vy_reason = None, vy_window_count = None,
     vy_window_seconds = None, vy_threshold = None\<rparr>"

definition rent :: transferInput where
  "rent = \<lparr>ti_originatorAccountId = ''0011223344'', ti_beneficiaryAccountId = ''5566778899'',
     ti_beneficiaryBankCode = ''058'', ti_beneficiaryName = ''Obi'', ti_amount = 1500,
     ti_narration = None, ti_reference = Some ''REF-0001''\<rparr>"

lemma rent_simps [simp]:
  "ti_originatorAccountId rent = ''0011223344''" "ti_beneficiaryAccountId rent = ''5566778899''"
  "ti_beneficiaryBankCode rent = ''058''" "ti_beneficiaryName rent = ''Obi''" "ti_amount rent = 1500"
  "ti_narration rent = None" "ti_reference rent = Some ''REF-0001''"
  by (simp_all add: rent_def)

lemma rent_ok [simp]: "transfer_input_ok rent"
  by (simp add: transfer_input_ok_def all_digits_def is_digit_char_def is_multiple_def fits_def)

lemma nip_active [simp]: "requireActivePaymentRail nip_config = Some RailNip"
  by (simp add: requireActivePaymentRail_def nip_config_def truthy_str_def)

lemma reviewer_simps [simp]:
  "c_user first_reviewer = Some sample_admin" "c_tenantId first_reviewer = Some 7"
  "c_user second_reviewer = Some second_admin" "c_tenantId second_reviewer = Some 7"
  "u_id second_admin = 3" "u_role second_admin = RAdmin"
  by (simp_all add: first_reviewer_def second_reviewer_def second_admin_def)

section \<open>Claim and failed starts\<close>

abbreviation T0 :: int where "T0 \<equiv> 1700000000000"

definition rent_row :: transaction where
  "rent_row = claim_row id T0 7 ''REF-0001'' rent 1"

lemma rent_kobo: "js_round 150000 = 150000"
  unfolding js_round_def by (rule floor_unique) simp_all

lemma rent_row_simps [simp]:
  "tx_id rent_row = 1" "tx_tenantId rent_row = Some 7" "tx_txRef rent_row = ''REF-0001''"
  "tx_status rent_row = Pending" "tx_idempotencyKey rent_row = Some ''REF-0001''" "tx_amount rent_row = 150000"
  "tx_currency rent_row = ''NGN''" "tx_originatorAccount rent_row = Some ''0011223344''"
  "tx_beneficiaryAccount rent_row = Some ''5566778899''" "tx_beneficiaryName rent_row = ''Obi''"
  "tx_originatorName rent_row = ''0011223344''" "tx_createdAt rent_row = T0"
  "tx_beneficiaryBank rent_row = Some ''058''" "tx_narration rent_row = None"
  by (simp_all add: rent_row_def claim_row_def new_transaction_def rent_kobo)

fun next_try :: "nat \<Rightarrow> int" where
  "next_try 0 = T0"
| "next_try (Suc n) = retryAt (\<lambda>_. 0) (next_try n) (Suc n)"

fun last_error :: "nat \<Rightarrow> string option" where
  "last_error 0 = None"
| "last_error (Suc n) = Some ''TEMPORAL_WORKFLOW_START_FAILED''"

text \<open>The instruction and the database after \<open>n\<close> failed starts.\<close>

definition rent_intent :: "nat \<Rightarrow> outboxRow" where
  "rent_intent n = \<lparr>ob_id = 1, ob_transaction_id = 1, ob_tenant_id = 7, ob_idempotency_key = ''REF-0001'',
     ob_rail = RailNip, ob_status = Queued, ob_attempts = n, ob_next_attempt_at = next_try n, ob_leased_at = None,
     ob_lease_owner = None, ob_workflow_id = None, ob_workflow_run_id = None, ob_last_error_code = last_error n\<rparr>"

definition rent_db :: "nat \<Rightarrow> paydb" where
  "rent_db n = empty_paydb\<lparr>d_tx := \<lparr>rows = [rent_row], seq = 2\<rparr>, d_outbox := \<lparr>rows = [rent_intent n], seq = 2\<rparr>\<rparr>"

definition rent_item :: "nat \<Rightarrow> paymentOutboxRow" where
  "rent_item n = \<lparr>po_id = 1, po_transaction_id = 1, po_tenant_id = 7, po_idempotency_key = ''REF-0001'',
     po_rail = RailNip, po_attempts = n, po_tx_ref = Some ''REF-0001'', po_originator_account = Some ''0011223344'',
     po_beneficiary_account = Some ''5566778899'', po_beneficiary_name = Some ''Obi'', po_beneficiary_bank = Some ''058'',
     po_amount = Some 150000, po_currency = Some ''NGN'', po_narration = None\<rparr>"

definition leased_db :: "nat \<Rightarrow> paydb" where
  "leased_db n = (rent_db n)\<lparr>d_outbox := \<lparr>rows = [mark_leased (next_try n) None (rent_intent n)], seq = 2\<rparr>\<rparr>"

abbreviation rent_env :: "nat \<Rightarrow> env" where "rent_env n \<equiv> sample_env\<lparr>e_now := next_try n\<rparr>"

lemma claim_payment_rent: "claim_payment id T0 7 RailNip ''REF-0001'' rent empty_paydb = (Inr rent_row, rent_db 0)"
proof -
  have cols: "tx_columns_ok (claim_row id T0 7 ''REF-0001'' rent 1)"
    by (simp add: tx_columns_ok_def claim_row_def new_transaction_def fits_def)
  have ins: "insert_tx (claim_row id T0 7 ''REF-0001'' rent) empty_paydb =
      Some (rent_row, empty_paydb\<lparr>d_tx := \<lparr>rows = [rent_row], seq = 2\<rparr>\<rparr>)"
    using cols by (simp add: insert_tx_def tx_unique_ok_def rent_row_def tinsert_def Let_def empty_tbl_def)
  show ?thesis
    by (simp add: claim_payment_def in_transaction_def ins insert_outbox_def outbox_constraints_def outbox_row_def
        tinsert_def rent_db_def rent_intent_def)
qed

lemma initiate_rent:
  "initiateTransfer nip_config True allow_all id id ''gen'' sample_env analyst_ctx rent empty_paydb =
     (Inr \<lparr>tr_txRef = ''REF-0001'', tr_id = 1, tr_status = Pending, tr_rail = RailNip, tr_idempotent = False\<rparr>, rent_db 0)"
  using claim_payment_rent
  by (simp add: initiateTransfer_def writeProcedure_def known_reference_def truthy_str_def find_by_ref_def tfind_def
      fluvioCheckVelocity_def allow_all_def submit_claim_def the_ref_def samples)

lemma poll_rent: "claim_batch None (next_try n) 25 (rent_db n) = ([rent_item n], leased_db n)"
  by (simp add: claim_batch_def requeue_expired_def lease_expired_def rent_db_def rent_intent_def candidates_def
      tselect_def due_def tupdate_def returning_row_def rent_item_def leased_db_def tfind_def MAX_BATCH_SIZE_def)

lemma retry_rent:
  assumes "n < 9"
  shows "dispatch_item startPaymentTransferWorkflow (\<lambda>_. 0) (rent_env n) (rent_item n) (leased_db n) = (Inr Deferred, rent_db (Suc n))"
  using assms
  by (simp add: dispatch_item_def isDispatchable_def rent_item_def truthy_str_def startPaymentTransferWorkflow_def
      start_failed_def MAX_ATTEMPTS_def leased_db_def leased_row_def tupdate_def mark_leased_def mark_requeued_def
      rent_db_def rent_intent_def)

text \<open>The tenth failure.\<close>

definition rent_case :: reconCase where
  "rent_case = \<lparr>rc_transaction_id = 1, rc_outbox_id = 1, rc_tenant_id = 7, rc_status = COpen,
     rc_last_error_code = ''TEMPORAL_WORKFLOW_START_FAILED'', rc_opened_at = next_try 9, rc_claimed_by = None,
     rc_claimed_at = None, rc_resolved_by = None, rc_resolved_at = None, rc_resolution_rationale = None,
     rc_ledger_evidence_ref = None, rc_ledger_evidence_sha256 = None, rc_provider_evidence_ref = None,
     rc_provider_evidence_sha256 = None, rc_closed_at = None\<rparr>"

definition dead_intent :: outboxRow where
  "dead_intent = mark_dead 10 ''TEMPORAL_WORKFLOW_START_FAILED'' (mark_leased (next_try 9) None (rent_intent 9))"

definition opened_event :: reconEvent where
  "opened_event = \<lparr>ev_case = 1, ev_tenant_id = 7, ev_type = Case_opened, ev_actor = None, ev_from = None,
     ev_to = COpen, ev_reason_code = ''TEMPORAL_WORKFLOW_START_FAILED'', ev_ledger_sha256 = None, ev_provider_sha256 = None\<rparr>"

definition dead_db :: paydb where
  "dead_db = empty_paydb\<lparr>d_tx := \<lparr>rows = [mark_under_review (next_try 9) rent_row], seq = 2\<rparr>,
     d_outbox := \<lparr>rows = [dead_intent], seq = 2\<rparr>, d_cases := [rent_case], d_events := [opened_event]\<rparr>"

lemma dead_intent_simps [simp]:
  "ob_id dead_intent = 1" "ob_transaction_id dead_intent = 1" "ob_tenant_id dead_intent = 7"
  "ob_status dead_intent = Dead_letter" "ob_last_error_code dead_intent = Some ''TEMPORAL_WORKFLOW_START_FAILED''"
  by (simp_all add: dead_intent_def mark_dead_def mark_leased_def rent_intent_def)

lemma reviewed_simps [simp]:
  "tx_id (mark_under_review n t) = tx_id t" "tx_tenantId (mark_under_review n t) = tx_tenantId t"
  "tx_status (mark_under_review n t) = Under_review" "tx_txRef (mark_under_review n t) = tx_txRef t"
  by (simp_all add: mark_under_review_def)

lemma leased_simps [simp]:
  "rows (d_tx (leased_db n)) = [rent_row]" "d_cases (leased_db n) = []" "d_events (leased_db n) = []"
  by (simp_all add: leased_db_def rent_db_def)

lemma escalate_rent:
  "escalateForReconciliation (rent_env 9) (rent_item 9) 10 ''TEMPORAL_WORKFLOW_START_FAILED'' (leased_db 9) = (Inr (), dead_db)"
proof -
  let ?s1 = "(leased_db 9)\<lparr>d_outbox := \<lparr>rows = [dead_intent], seq = 2\<rparr>\<rparr>"
  have "tfind (leased_row 1) (d_outbox (leased_db 9)) \<noteq> None"
    by (simp add: tfind_def leased_db_def leased_row_def mark_leased_def rent_intent_def)
  moreover have "(leased_db 9)\<lparr>d_outbox := tupdate (leased_row 1) (mark_dead 10 ''TEMPORAL_WORKFLOW_START_FAILED'') (d_outbox (leased_db 9))\<rparr> = ?s1"
    by (simp add: tupdate_def leased_db_def leased_row_def dead_intent_def mark_leased_def rent_intent_def)
  moreover have pend: "pending_row 1 7 rent_row" by (simp add: pending_row_def)
  moreover have "update_tx (next_try 9) (pending_row 1 7) (mark_under_review (next_try 9)) ?s1 = dead_db"
    by (simp add: update_tx_def tselect_def pend create_payment_reconciliation_case_on_under_review_def tfind_def Let_def
        dead_db_def rent_case_def opened_event_def leased_db_def rent_db_def tupdate_def empty_paydb_def del: next_try.simps)
  ultimately show ?thesis
    by (simp add: escalateForReconciliation_def withTenantTransaction_def in_transaction_def rent_item_def Let_def tfind_def
        isSafeInteger_def del: next_try.simps)
qed

definition claimed_db :: paydb where
  "claimed_db = dead_db\<lparr>d_cases := [mark_claimed T0 1 rent_case], d_events := [opened_event, claim_record 7 1 1]\<rparr>"

lemma claim_rent: "claim sample_env first_reviewer 1 dead_db = (Inr (), claimed_db)"
  by (simp add: claim_def adminProcedure_def requireTenantId_def requireActorId_def poolOrFail_def withTenantTransaction_def
      in_transaction_def claim_body_def claimable_def appendEvent_def update_case_def claimed_db_def dead_db_def rent_case_def
      isSafeInteger_def samples del: next_try.simps)

definition evidence :: "resolution \<Rightarrow> evidenceInput" where
  "evidence rs = \<lparr>ei_case = 1, ei_reasonCode = resolution_reason rs, ei_ledgerEvidenceRef = ''LEDGER-0001'',
     ei_ledgerEvidenceSha256 = replicate 64 CHR ''a'', ei_providerEvidenceRef = ''PROVIDER-01'',
     ei_providerEvidenceSha256 = replicate 64 CHR ''b''\<rparr>"

lemma evidence_fine: "evidence_ok rs (evidence rs)"
  by (simp add: evidence_ok_def evidence_def opaqueReference_def sha256_def js_trim_def is_space_def is_alnum_def is_hex_def
      list_all_iff)

lemma evidence_case [simp]: "ei_case (evidence rs) = 1"
  by (simp add: evidence_def)

definition closed_rent_case :: reconCase where
  "closed_rent_case = mark_case_resolved T0 3 Res_settled (evidence Res_settled) (mark_claimed T0 1 rent_case)"

definition settled_rent :: transaction where
  "settled_rent = set_status T0 Completed (mark_under_review (next_try 9) rent_row)"

definition settled_db :: paydb where
  "settled_db = claimed_db\<lparr>d_tx := \<lparr>rows = [settled_rent], seq = 2\<rparr>, d_cases := [closed_rent_case],
     d_events := [opened_event, claim_record 7 1 1, resolution_record 7 3 Res_settled (evidence Res_settled)]\<rparr>"

lemma settle_rent: "resolveProcedure Res_settled sample_env second_reviewer (evidence Res_settled) claimed_db = (Inr Confirmed_settled, settled_db)"
proof -
  have case_row: "rc_transaction_id (mark_claimed T0 1 rent_case) = 1" "rc_tenant_id (mark_claimed T0 1 rent_case) = 7"
    "rc_status (mark_claimed T0 1 rent_case) = CUnder_review" "rc_claimed_by (mark_claimed T0 1 rent_case) = Some 1"
    "rc_outbox_id (mark_claimed T0 1 rent_case) = 1"
    by (simp_all add: mark_claimed_def rent_case_def)
  have tables: "rows (d_tx claimed_db) = [mark_under_review (next_try 9) rent_row]" "rows (d_outbox claimed_db) = [dead_intent]"
    "d_cases claimed_db = [mark_claimed T0 1 rent_case]" "seq (d_tx claimed_db) = 2"
    "d_events claimed_db = [opened_event, claim_record 7 1 1]" "d_tx claimed_db = \<lparr>rows = [mark_under_review (next_try 9) rent_row], seq = 2\<rparr>"
    by (simp_all add: claimed_db_def dead_db_def)
  have lock: "lockClaimedCase 1 7 3 claimed_db = Inr (mark_claimed T0 1 rent_case)"
    by (simp add: lockClaimedCase_def tables case_row tfind_def)
  have res: "resolvable 1 7 3 (mark_claimed T0 1 rent_case)" by (simp add: resolvable_def case_row)
  have rev: "in_review 1 7 (mark_under_review (next_try 9) rent_row)" by (simp add: in_review_def)
  let ?s1 = "claimed_db\<lparr>d_cases := [closed_rent_case]\<rparr>"
  have "update_case (resolvable 1 7 3) (mark_case_resolved T0 3 Res_settled (evidence Res_settled)) claimed_db = ?s1"
    by (simp add: update_case_def tables res closed_rent_case_def)
  moreover have "update_tx T0 (in_review 1 7) (set_status T0 Completed) ?s1 = ?s1\<lparr>d_tx := \<lparr>rows = [settled_rent], seq = 2\<rparr>\<rparr>"
    by (subst update_tx_no_case) (simp_all add: set_status_def [THEN arg_cong [where f = tx_status]] tables rev tupdate_def settled_rent_def)
  ultimately have "resolve_body T0 7 3 Res_settled (evidence Res_settled) claimed_db = (Inr Confirmed_settled, settled_db)"
    by (simp add: resolve_body_def lock tables res move_payment_def case_row tfind_def rev settled_db_def appendEvent_def)
  then show ?thesis
    by (simp add: resolveProcedure_def adminProcedure_def evidence_fine requireTenantId_def requireActorId_def resolveCase_def
        poolOrFail_def withTenantTransaction_def in_transaction_def isSafeInteger_def samples)
qed

section \<open>The run as steps of the system\<close>

abbreviation rent_step :: "sysState \<Rightarrow> sysState \<Rightarrow> bool" where
  "rent_step \<equiv> some_step id (\<lambda>_. None) startPaymentTransferWorkflow (\<lambda>_. 0)"

definition st :: "paydb \<Rightarrow> sysState" where
  "st db = \<lparr>sy_db = db, sy_held = []\<rparr>"

lemma st_simps [simp]: "sy_db (st db) = db" "sy_held (st db) = []"
  by (simp_all add: st_def)

lemma request_step: "sys_step id (\<lambda>_. None) startPaymentTransferWorkflow (\<lambda>_. 0) (Request e c q) (st db) (st (sys_serve id (\<lambda>_. None) e c q db))"
  using sys_request [of id "\<lambda>_. None" startPaymentTransferWorkflow "\<lambda>_. 0" e c q "st db"] by (simp add: st_def)

lemma rent_request: "sys_serve id (\<lambda>_. None) e c q db = db' \<Longrightarrow> rent_step (st db) (st db')"
  using request_step [of e c q db] by (auto simp: some_step_def)

lemma rent_poll: "rent_step (st (rent_db n)) \<lparr>sy_db = leased_db n, sy_held = [rent_item n]\<rparr>"
  using sys_poll [where s = "st (rent_db n)" and owner = None and now = "next_try n" and cnt = 25, unfolded st_simps, OF poll_rent,
      of id "\<lambda>_. None" startPaymentTransferWorkflow "\<lambda>_. 0"]
  by (auto simp: some_step_def st_def)

lemma rent_treat:
  assumes "dispatch_item startPaymentTransferWorkflow (\<lambda>_. 0) e (rent_item n) db = (r, db')"
  shows "rent_step \<lparr>sy_db = db, sy_held = [rent_item n]\<rparr> (st db')"
  using sys_treat [where s = "\<lparr>sy_db = db, sy_held = [rent_item n]\<rparr>" and item = "rent_item n" and e = e,
      of id "\<lambda>_. None" startPaymentTransferWorkflow "\<lambda>_. 0"] assms
  by (auto simp: some_step_def st_def)

lemma rent_round: "n < 9 \<Longrightarrow> steps rent_step (st (rent_db n)) (st (rent_db (Suc n)))"
  by (rule steps_snoc [OF one_step [where step = rent_step, OF rent_poll] rent_treat [OF retry_rent]])

lemma rent_rounds: "n \<le> 9 \<Longrightarrow> steps rent_step (st (rent_db 0)) (st (rent_db n))"
proof (induction n)
  case (Suc n)
  then show ?case using steps_trans [OF rent_round Suc.IH] by simp
qed (simp add: steps_refl)

lemma rent_dies: "dispatch_item startPaymentTransferWorkflow (\<lambda>_. 0) (rent_env 9) (rent_item 9) (leased_db 9) = (Inr DeadLettered, dead_db)"
proof -
  have "isDispatchable (rent_item 9)" "po_attempts (rent_item 9) = 9"
    by (simp_all add: isDispatchable_def rent_item_def truthy_str_def)
  then show ?thesis
    by (simp add: dispatch_item_def startPaymentTransferWorkflow_def start_failed_def MAX_ATTEMPTS_def escalate_rent del: next_try.simps)
qed

lemma run_from_claim: "steps rent_step (st (rent_db 0)) (st dead_db)"
  by (rule steps_snoc [OF steps_snoc [OF rent_rounds rent_poll] rent_treat [OF rent_dies]]) simp

lemma run_from_dead: "steps rent_step (st dead_db) (st claimed_db)" "steps rent_step (st claimed_db) (st settled_db)"
  by (rule one_step, rule rent_request [where e = sample_env and c = first_reviewer and q = "SysClaim 1"], simp add: claim_rent)
    (rule one_step, rule rent_request [where e = sample_env and c = second_reviewer and q = "SysResolve Res_settled (evidence Res_settled)"],
      simp add: settle_rent)

lemma reach_rent: "reach sys_start rent_step (st (rent_db 0))"
proof -
  have "reach sys_start rent_step (st empty_paydb)" by (rule reach_init) (simp add: sys_start_def)
  moreover have "rent_step (st empty_paydb) (st (rent_db 0))"
    by (rule rent_request [where e = sample_env and c = analyst_ctx and q = "SysInitiate nip_config True allow_all ''gen'' rent"])
      (simp add: initiate_rent)
  ultimately show ?thesis by (rule reach_step)
qed

lemma reach_dead: "reach sys_start rent_step (st dead_db)"
  by (rule reach_steps [OF run_from_claim reach_rent])

lemma reach_claimed: "reach sys_start rent_step (st claimed_db)"
  by (rule reach_steps [OF run_from_dead(1) reach_dead])

lemma reach_settled: "reach sys_start rent_step (st settled_db)"
  by (rule reach_steps [OF run_from_dead(2) reach_claimed])

end
