(* ===== verification/Payment_Witnesses.thy ===== *)
theory Payment_Witnesses
  imports Payment_Scenario
begin

text \<open>
  The theorems on the payment side at the states of the run of \<open>Payment_Scenario\<close>: each
  hypothesis is met by a concrete state.
\<close>

section \<open>Rails\<close>

lemma settled_rent_simps [simp]:
  "tx_id settled_rent = 1" "tx_txRef settled_rent = ''REF-0001''" "tx_status settled_rent = Completed"
  "tx_tenantId settled_rent = Some 7" "tx_amount settled_rent = 150000" "tx_idempotencyKey settled_rent = Some ''REF-0001''"
  "tx_originatorAccount settled_rent = Some ''0011223344''" "tx_beneficiaryAccount settled_rent = Some ''5566778899''"
  "tx_originatorName settled_rent = ''0011223344''" "tx_beneficiaryName settled_rent = ''Obi''"
  "tx_currency settled_rent = ''NGN''" "tx_type settled_rent = Nip"
  by (simp_all add: settled_rent_def set_status_def mark_under_review_def)
    (simp add: rent_row_def claim_row_def new_transaction_def)

lemma settled_table [simp]: "d_tx settled_db = \<lparr>rows = [settled_rent], seq = 2\<rparr>"
  by (simp add: settled_db_def)

lemma settled_table_ok: "tx_table_ok (d_tx settled_db)"
  by (simp add: tx_table_ok_def serial_ok_def)

lemma settled_find: "find_by_ref (Some 7) ''REF-0001'' settled_db = Some settled_rent"
  by (simp add: find_by_ref_def tfind_def tenantCondition_def)

lemma short_number: "show_int T0 = ''1700000000000''"
  by (simp add: show_int_def show_nat.simps char_of_def bit_Suc_0_iff)

lemma reverse_rent: "\<exists>res s'. reverseTransfer sample_env first_reviewer ''REF-0001'' ''wrong payee'' settled_db = (Inr res, s')"
proof -
  have cols: "tx_columns_ok (reversal_row T0 (reversalRef_of T0 ''REF-0001'') ''REF-0001'' ''wrong payee'' settled_rent n)" for n
    by (simp add: tx_columns_ok_def reversal_row_def new_transaction_def reversalRef_of_def short_number fits_def)
  have upd: "update_tx T0 (\<lambda>r. tx_txRef r = ''REF-0001'' \<and> tenantCondition (Some 7) (tx_tenantId r)) (mark_reversed T0) settled_db =
      settled_db\<lparr>d_tx := \<lparr>rows = [mark_reversed T0 settled_rent], seq = 2\<rparr>\<rparr>"
    by (subst update_tx_no_case) (simp_all add: mark_reversed_def tupdate_def tenantCondition_def)
  have kept_keys: "tx_txRef (mark_reversed T0 settled_rent) = ''REF-0001''" "tx_idempotencyKey (mark_reversed T0 settled_rent) = Some ''REF-0001''"
    by (simp_all add: mark_reversed_def)
  have "fst (post_reversal T0 (Some 7) (reversalRef_of T0 ''REF-0001'') ''REF-0001'' ''wrong payee'' settled_rent settled_db) = Inr ()"
    using cols by (auto simp: tenantCondition_def post_reversal_def in_transaction_def Let_def upd insert_tx_def tx_unique_ok_def kept_keys
        reversal_row_def [THEN arg_cong [where f = tx_txRef]] reversal_row_def [THEN arg_cong [where f = tx_idempotencyKey]]
        new_transaction_def reversalRef_of_def short_number)
  then obtain s1 where s1: "post_reversal T0 (Some 7) (reversalRef_of T0 ''REF-0001'') ''REF-0001'' ''wrong payee'' settled_rent settled_db = (Inr (), s1)"
    by (cases "post_reversal T0 (Some 7) (reversalRef_of T0 ''REF-0001'') ''REF-0001'' ''wrong payee'' settled_rent settled_db") auto
  show ?thesis
    by (simp add: reverseTransfer_def adminProcedure_def settled_find s1 Let_def samples)
qed

lemma reverse_outcome_witness:
  "\<exists>res s' x. reverseTransfer sample_env first_reviewer ''REF-0001'' ''wrong payee'' settled_db = (Inr res, s') \<and>
     rows (d_tx s') = [mark_reversed T0 settled_rent, x] \<and> tx_amount x = 150000 \<and> tx_beneficiaryAccount x = Some ''0011223344''"
proof -
  obtain res s' where r: "reverseTransfer sample_env first_reviewer ''REF-0001'' ''wrong payee'' settled_db = (Inr res, s')"
    using reverse_rent by blast
  from reverse_outcome [OF settled_table_ok r] show ?thesis
    using r by (intro exI [where x = res] exI [where x = s']) auto
qed

lemma reversal_overcompensates_witness:
  "\<exists>res s'. reverseTransfer sample_env first_reviewer ''REF-0001'' ''wrong payee'' settled_db = (Inr res, s') \<and>
     posted_net ''0011223344'' (rows (d_tx s')) = 150000"
proof -
  obtain res s' where r: "reverseTransfer sample_env first_reviewer ''REF-0001'' ''wrong payee'' settled_db = (Inr res, s')"
    using reverse_rent by blast
  have "find_by_ref (c_tenantId first_reviewer) ''REF-0001'' settled_db = Some settled_rent" by (simp add: settled_find)
  from reversal_overcompensates [OF settled_table_ok r this, of "''0011223344''"] r show ?thesis
    by (simp add: posted_net_def posted_effect_def)
qed

lemma long_reference_irreversible_witness:
  "\<exists>err. reverseTransfer sample_env first_reviewer (replicate 50 CHR ''R'') ''wrong payee'' settled_db = (Inl err, settled_db)"
  by (rule long_reference_irreversible) simp_all

lemma freeze_blocks_all_tenants_witness:
  "\<exists>res s'. freezeAccount (\<lambda>_. None) sample_env first_reviewer ''0011223344'' None ''court order'' (rent_db 0) = (Inr res, s') \<and>
     rows (d_tx s') = [mark_blocked T0 rent_row] \<and> fr_affected res = 0"
proof -
  have hit: "frozen_by ''0011223344'' rent_row" by (simp add: frozen_by_def touches_account_def)
  obtain res s' where r: "freezeAccount (\<lambda>_. None) sample_env first_reviewer ''0011223344'' None ''court order'' (rent_db 0) = (Inr res, s')"
    by (simp add: freezeAccount_def adminProcedure_def fits_def admin_name_def samples Let_def)
  from freeze_blocks_all_tenants [OF this] r hit show ?thesis
    by (intro exI [where x = res] exI [where x = s']) (simp add: rent_db_def)
qed

lemma lookup_returns_account_number_witness:
  "\<exists>t s'. claim_payment id T0 7 RailNip ''REF-0001'' rent empty_paydb = (Inr t, s') \<and>
     lookupAccount (\<lambda>_ _. None) sample_env analyst_ctx ''0011223344'' None s' =
       (Inr \<lparr>aa_accountNumber = ''0011223344'', aa_accountName = ''0011223344'', aa_bankName = ''BIS Member Bank'', aa_verified = True\<rparr>, s')"
proof -
  have sel: "tselect (\<lambda>r. tx_originatorAccount r = Some (ti_originatorAccountId rent) \<and> tx_tenantId r = Some 7) (d_tx empty_paydb) = []"
    by (simp add: tselect_def)
  have "lookupAccount (\<lambda>_ _. None) sample_env analyst_ctx (ti_originatorAccountId rent) None (rent_db 0) =
      (Inr \<lparr>aa_accountNumber = ti_originatorAccountId rent, aa_accountName = ti_originatorAccountId rent, aa_bankName = ''BIS Member Bank'', aa_verified = True\<rparr>, rent_db 0)"
    by (rule lookup_returns_account_number [OF claim_payment_rent sel]) (simp_all add: all_digits_def is_digit_char_def admits_user_def)
  then show ?thesis using claim_payment_rent by auto
qed

lemma balance_of_last_groups_witness:
  "map_option ab_netBalance (map_of (balanceMap
      [\<lparr>gr_account = ''A'', gr_name = ''Ada'', gr_currency = ''NGN'', gr_pending = 0, gr_posted = 10\<rparr>]
      [\<lparr>gr_account = ''A'', gr_name = ''Ada'', gr_currency = ''NGN'', gr_pending = 0, gr_posted = 5\<rparr>,
       \<lparr>gr_account = ''A'', gr_name = ''Ada'', gr_currency = ''USD'', gr_pending = 0, gr_posted = 30\<rparr>]) ''A'') = Some 20"
  by (subst balance_of_last_groups) (simp_all add: last_group_def)

lemma analytics_not_tenant_scoped_witness:
  "\<exists>a. getTransferAnalytics sample_env analyst_ctx PDaily 7 (rent_db 0) = (Inr a, rent_db 0) \<and>
     getTransferAnalytics sample_env (analyst_ctx\<lparr>c_tenantId := Some 8\<rparr>) PDaily 7 (rent_db 0) = (Inr a, rent_db 0) \<and> an_totalCount a = 1"
  using analytics_not_tenant_scoped [of analyst_ctx sample_analyst sample_env 7 PDaily "rent_db 0" 8]
  by (auto simp: rent_db_def DAY_MS_def)

lemma report_consistent_witness:
  "\<exists>rep d. getReconciliationReport (\<lambda>_. None) sample_env first_reviewer None (rent_db 0) = (Inr rep, rent_db 0) \<and>
     report_day (\<lambda>_. None) sample_env None = Some d \<and> rr_total rep = count_tx (in_report d) (rent_db 0)"
proof -
  obtain rep where r: "getReconciliationReport (\<lambda>_. None) sample_env first_reviewer None (rent_db 0) = (Inr rep, rent_db 0)"
    by (simp add: getReconciliationReport_def adminProcedure_def samples Let_def)
  from report_consistent [OF r, of rent_row] r show ?thesis by blast
qed

section \<open>The system\<close>

lemma payment_integrity_witness:
  "tx_table_ok (d_tx settled_db) \<and> case_constraints closed_rent_case \<and> has_payment (d_tx settled_db) dead_intent"
proof -
  have rows: "d_cases settled_db = [closed_rent_case]" "rows (d_outbox settled_db) = [dead_intent]"
    by (simp_all add: settled_db_def claimed_db_def dead_db_def)
  show ?thesis using payment_integrity [OF reach_settled] by (simp add: rows)
qed

lemma who_completes_a_payment_witness:
  "four_eyes second_reviewer (evidence Res_settled) 1 claimed_db"
proof -
  have st: "sys_step id (\<lambda>_. None) startPaymentTransferWorkflow (\<lambda>_. 0)
      (Request sample_env second_reviewer (SysResolve Res_settled (evidence Res_settled))) (st claimed_db) (st settled_db)"
    using request_step [of sample_env second_reviewer "SysResolve Res_settled (evidence Res_settled)" claimed_db] by (simp add: settle_rent)
  have "mark_under_review (next_try 9) rent_row \<in> set (rows (d_tx (sy_db (st claimed_db))))" "settled_rent \<in> set (rows (d_tx (sy_db (st settled_db))))"
    by (simp_all add: claimed_db_def dead_db_def)
  from who_completes_a_payment [OF reach_claimed st this] show ?thesis by simp
qed

lemma closed_case_is_final_witness: "closed_rent_case \<in> set (d_cases settled_db)"
proof -
  have "closed_rent_case \<in> set (d_cases (sy_db (st settled_db)))" "closedStatus (rc_status closed_rent_case)"
    by (simp_all add: settled_db_def closed_rent_case_def mark_case_resolved_def closedStatus_def)
  from closed_case_is_final [OF reach_settled this steps_refl] show ?thesis by simp
qed

lemma reference_claimed_once_witness:
  "\<exists>res. initiateTransfer nip_config True allow_all id id ''other'' sample_env analyst_ctx (rent\<lparr>ti_amount := 99\<rparr>) settled_db =
      (Inr res, settled_db) \<and> tr_id res = 1 \<and> tr_idempotent res"
proof -
  have m: "rent_row \<in> set (rows (d_tx (sy_db (st (rent_db 0)))))" by (simp add: rent_db_def)
  have run: "steps rent_step (st (rent_db 0)) (st settled_db)"
    by (rule steps_trans [OF run_from_dead(2) steps_trans [OF run_from_dead(1) run_from_claim]])
  have ok: "transfer_input_ok (rent\<lparr>ti_amount := 99\<rparr>)"
    by (simp add: transfer_input_ok_def all_digits_def is_digit_char_def is_multiple_def fits_def)
  show ?thesis
    using reference_claimed_once [where c = analyst_ctx and u = sample_analyst and e = sample_env and i = "rent\<lparr>ti_amount := 99\<rparr>"
        and tid = 7 and cfg = nip_config and rl = RailNip and configured = True and reply = allow_all and others = id
        and genRef = "''other''", OF reach_rent m _ _ _ run] ok
    by (simp add: samples)
qed

lemma poll_accounts_for_all_witness:
  "\<exists>r. processPaymentIntentOutbox startPaymentTransferWorkflow (\<lambda>_. 0) None sample_env 25 (rent_db 0) = (Inr r, rent_db 1) \<and>
     pr_dispatched r + pr_deferred r + pr_deadLettered r = 1"
proof -
  have env: "sample_env\<lparr>e_now := T0\<rparr> = sample_env" by (simp add: samples)
  have r: "processPaymentIntentOutbox startPaymentTransferWorkflow (\<lambda>_. 0) None sample_env 25 (rent_db 0) =
      (Inr \<lparr>pr_claimed = 1, pr_dispatched = 0, pr_deferred = 1, pr_deadLettered = 0\<rparr>, rent_db 1)"
    using retry_rent [of 0] poll_rent [of 0] by (simp add: processPaymentIntentOutbox_def env)
  from poll_accounts_for_all [OF r] r show ?thesis by auto
qed

definition poisoned_db :: paydb where
  "poisoned_db = (rent_db 9)\<lparr>d_tx := \<lparr>rows = [rent_row\<lparr>tx_status := Completed\<rparr>], seq = 2\<rparr>\<rparr>"

lemma poison_intent_blocks_batch_witness:
  "\<exists>err s1. processPaymentIntentOutbox startPaymentTransferWorkflow (\<lambda>_. 0) None (rent_env 9) 25 poisoned_db = (Inl err, s1)"
proof -
  obtain s1 where b: "claim_batch None (e_now (rent_env 9)) 25 poisoned_db = ([rent_item 9], s1)"
    by (simp add: claim_batch_def requeue_expired_def lease_expired_def poisoned_db_def rent_db_def rent_intent_def candidates_def
      tselect_def due_def tupdate_def returning_row_def rent_item_def tfind_def MAX_BATCH_SIZE_def del: next_try.simps)
  from poison_intent_blocks_batch [OF b, of "\<lambda>_. 0"] show ?thesis
    by (auto simp: rent_item_def MAX_ATTEMPTS_def poisoned_db_def tfind_def pending_row_def)
qed

lemma retryAt_bounds_witness: "1000 \<le> retryAt (\<lambda>_. 0) 0 1"
  using retryAt_bounds [of 1 "\<lambda>_. 0" 0] by (simp add: retryBase_def)

lemma poll_refines_steps_witness:
  "\<exists>x s' rest. processPaymentIntentOutbox startPaymentTransferWorkflow (\<lambda>_. 0) None sample_env 25 (rent_db 0) = (x, s') \<and>
     steps rent_step \<lparr>sy_db = rent_db 0, sy_held = []\<rparr> \<lparr>sy_db = s', sy_held = rest\<rparr>"
proof -
  obtain x s' where r: "processPaymentIntentOutbox startPaymentTransferWorkflow (\<lambda>_. 0) None sample_env 25 (rent_db 0) = (x, s')" by fastforce
  from poll_refines_steps [OF r, of id "\<lambda>_. None"] r show ?thesis by blast
qed


definition second_failure_db :: paydb where
  "second_failure_db = (leased_db 9)\<lparr>d_cases := [closed_rent_case]\<rparr>"

lemma second_escalation_is_stuck_witness:
  "\<exists>s' err. escalateForReconciliation (rent_env 9) (rent_item 9) 10 ''TEMPORAL_WORKFLOW_START_FAILED'' second_failure_db = (Inr (), s') \<and>
     claim sample_env first_reviewer 1 s' = (Inl err, s')"
proof -
  have "js_trim ''MATCHING_SETTLEMENT_CONFIRMED'' = ''MATCHING_SETTLEMENT_CONFIRMED''"
    by (simp add: js_trim_def is_space_def)
  then have "case_constraints closed_rent_case"
    using evidence_fine [of Res_settled]
    by (simp add: case_constraints_def closed_rent_case_def mark_case_resolved_def mark_claimed_def rent_case_def closedStatus_def
        evidence_ok_def evidence_def [THEN arg_cong [where f = ei_reasonCode]])
  moreover have "rc_transaction_id closed_rent_case = 1" "rc_outbox_id closed_rent_case = 1" "rc_tenant_id closed_rent_case = 7"
    by (simp_all add: closed_rent_case_def mark_case_resolved_def mark_claimed_def rent_case_def)
  ultimately have int: "integrity second_failure_db"
    by (simp add: integrity_def outbox_ok_def cases_ok_def cases_unique_def second_failure_db_def leased_db_def rent_db_def
        tx_table_ok_def serial_ok_def has_payment_def has_intent_def outbox_row_ok_def mark_leased_def rent_intent_def MAX_ATTEMPTS_def)
  obtain s' where esc: "escalateForReconciliation (rent_env 9) (rent_item 9) 10 ''TEMPORAL_WORKFLOW_START_FAILED'' second_failure_db = (Inr (), s')"
    by (simp add: escalateForReconciliation_def withTenantTransaction_def in_transaction_def rent_item_def Let_def tfind_def
        isSafeInteger_def second_failure_db_def leased_db_def rent_db_def leased_row_def pending_row_def mark_leased_def rent_intent_def del: next_try.simps)
  have "closed_rent_case \<in> set (d_cases second_failure_db)" "closedStatus (rc_status closed_rent_case)"
    "rc_transaction_id closed_rent_case = po_transaction_id (rent_item 9)"
    by (simp_all add: second_failure_db_def closed_rent_case_def mark_case_resolved_def closedStatus_def mark_claimed_def rent_case_def rent_item_def)
  from second_escalation_is_stuck [OF int this esc, of sample_env first_reviewer] esc show ?thesis
    by (auto simp: rent_item_def)
qed

end
