(* ===== verification/Js_Date.thy ===== *)
theory Js_Date
  imports Bis_Prelude
begin

text \<open>
  The part of ECMAScript's \<open>Date\<close> that the billing code uses, on milliseconds since the epoch in
  UTC: the civil date of a time value, \<open>setMonth\<close> and \<open>setFullYear\<close> with their overflow into
  the next month, and \<open>toISOString\<close> with its range error.
\<close>

definition MS_PER_DAY :: int where "MS_PER_DAY = 86400000"

definition dayFromYear :: "int \<Rightarrow> int" where
  "dayFromYear y = 365 * (y - 1970) + (y - 1969) div 4 - (y - 1901) div 100 + (y - 1601) div 400"

text \<open>The year of a day: the average length of a year gives it up to one, then it is corrected.\<close>

definition yearFromDay :: "int \<Rightarrow> int" where
  "yearFromDay d = (let y = 1970 + (400 * d) div 146097 in
     if dayFromYear (y + 1) \<le> d then y + 1 else if d < dayFromYear y then y - 1 else y)"

definition leap_year :: "int \<Rightarrow> bool" where
  "leap_year y \<longleftrightarrow> y mod 4 = 0 \<and> (y mod 100 \<noteq> 0 \<or> y mod 400 = 0)"

definition monthLengths :: "bool \<Rightarrow> int list" where
  "monthLengths leap = [31, if leap then 29 else 28, 31, 30, 31, 30, 31, 31, 30, 31, 30, 31]"

text \<open>Months are numbered from 0.\<close>

fun monthOf :: "int \<Rightarrow> int list \<Rightarrow> int \<Rightarrow> int" where
  "monthOf k [] d = k"
| "monthOf k (l # ls) d = (if d < l then k else monthOf (k + 1) ls (d - l))"

definition firstOfMonth :: "int \<Rightarrow> int \<Rightarrow> int" where
  "firstOfMonth y m = dayFromYear y + sum_list (take (nat m) (monthLengths (leap_year y)))"

definition monthFromDay :: "int \<Rightarrow> int" where
  "monthFromDay d = (let y = yearFromDay d in monthOf 0 (monthLengths (leap_year y)) (d - dayFromYear y))"

definition dateFromDay :: "int \<Rightarrow> int" where
  "dateFromDay d = d - firstOfMonth (yearFromDay d) (monthFromDay d) + 1"

text \<open>\<open>MakeDay\<close> of the standard: the month may be outside 0 to 11.\<close>

definition makeDay :: "int \<Rightarrow> int \<Rightarrow> int \<Rightarrow> int" where
  "makeDay y m dt = firstOfMonth (y + m div 12) (m mod 12) + dt - 1"

definition dayOf :: "int \<Rightarrow> int" where "dayOf t = t div MS_PER_DAY"

definition setMonth :: "int \<Rightarrow> int \<Rightarrow> int" where
  "setMonth t m = makeDay (yearFromDay (dayOf t)) m (dateFromDay (dayOf t)) * MS_PER_DAY + t mod MS_PER_DAY"

definition getMonth :: "int \<Rightarrow> int" where "getMonth t = monthFromDay (dayOf t)"
definition getFullYear :: "int \<Rightarrow> int" where "getFullYear t = yearFromDay (dayOf t)"

definition setFullYear :: "int \<Rightarrow> int \<Rightarrow> int" where
  "setFullYear t y = makeDay y (monthFromDay (dayOf t)) (dateFromDay (dayOf t)) * MS_PER_DAY + t mod MS_PER_DAY"

section \<open>ISO strings\<close>

text \<open>A number padded with zeros to a width.\<close>

definition pad :: "nat \<Rightarrow> int \<Rightarrow> string" where
  "pad n i = (let s = show_int i in replicate (n - length s) (CHR ''0'') @ s)"

definition isoDate :: "int \<Rightarrow> string" where
  "isoDate t = (let d = dayOf t; y = yearFromDay d in
     (if 0 \<le> y \<and> y \<le> 9999 then pad 4 y else if y < 0 then ''-'' @ pad 6 (- y) else ''+'' @ pad 6 y) @ ''-'' @
     pad 2 (monthFromDay d + 1) @ ''-'' @ pad 2 (dateFromDay d))"

definition isoTime :: "int \<Rightarrow> string" where
  "isoTime t = (let ms = t mod MS_PER_DAY in
     pad 2 (ms div 3600000) @ '':'' @ pad 2 (ms div 60000 mod 60) @ '':'' @ pad 2 (ms div 1000 mod 60) @ ''.'' @ pad 3 (ms mod 1000))"

definition MAX_TIME :: int where "MAX_TIME = 8640000000000000"

text \<open>\<open>new Date(t).toISOString()\<close>: a time value out of range is an invalid date, whose ISO string is a RangeError.\<close>

definition toISOString :: "int \<Rightarrow> error + string" where
  "toISOString t = (if \<bar>t\<bar> \<le> MAX_TIME then Inr (isoDate t @ ''T'' @ isoTime t @ ''Z'')
                    else Inl (PlainError ''Invalid time value''))"

section \<open>The civil date is right\<close>

lemma year_bounds: "dayFromYear (yearFromDay d) \<le> d \<and> d < dayFromYear (yearFromDay d + 1)"
proof -
  define q where "q = (400 * d) div 146097"
  have q: "146097 * q \<le> 400 * d" "400 * d < 146097 * q + 146097"
  proof -
    have "400 * d = 146097 * q + (400 * d) mod 146097" unfolding q_def by (simp only: mult_div_mod_eq)
    moreover have "0 \<le> (400 * d) mod 146097" "(400 * d) mod 146097 < 146097" by simp_all
    ultimately show "146097 * q \<le> 400 * d" "400 * d < 146097 * q + 146097" by linarith+
  qed
  have dfy: "365 * k + (k + 1) div 4 - (k + 69) div 100 + (k + 369) div 400 = dayFromYear (1970 + k)" for k
    by (simp add: dayFromYear_def algebra_simps)
  have div_bounds: "n * (a div n) \<le> a \<and> a < n * (a div n) + n" if "0 < n" for a n :: int
    using that mult_div_mod_eq [of n a] pos_mod_bound [of n a] pos_mod_sign [of n a] by linarith
  have lo: "dayFromYear (1970 + (q - 1)) \<le> d"
    using q div_bounds [of 4 q] div_bounds [of 100 "q + 68"] div_bounds [of 400 "q + 368"]
    unfolding dfy [symmetric] by simp
  have hi: "d < dayFromYear (1970 + (q + 2))"
    using q div_bounds [of 4 "q + 3"] div_bounds [of 100 "q + 71"] div_bounds [of 400 "q + 371"]
    unfolding dfy [symmetric] by simp
  show ?thesis
    using lo hi unfolding yearFromDay_def Let_def q_def [symmetric] by (auto simp: algebra_simps)
qed

lemma div_step:
  fixes n x :: int
  assumes "0 < n"
  shows "(x + 1) div n = x div n + (if n dvd x + 1 then 1 else 0)"
proof (cases "n dvd x + 1")
  case True
  then obtain k where k: "x + 1 = n * k" by blast
  then have "x = n * (k - 1) + (n - 1)" by (simp add: algebra_simps)
  then have q: "x div n = k - 1" using assms int_div_pos_eq [of x n "k - 1" "n - 1"] by simp
  have "(x + 1) div n = k" using k assms by simp
  then show ?thesis using True q by simp
next
  case False
  have "x mod n + 1 \<noteq> n"
  proof
    assume "x mod n + 1 = n"
    then have "x + 1 = n * (x div n + 1)" using mult_div_mod_eq [of n x] by (simp only: distrib_left mult_1_right)
    with False show False by simp
  qed
  then have "x mod n + 1 < n" using pos_mod_bound [OF assms, of x] by linarith
  moreover have "x + 1 = n * (x div n) + (x mod n + 1)" by simp
  ultimately have "(x + 1) div n = x div n"
    using assms int_div_pos_eq [of "x + 1" n "x div n" "x mod n + 1"] by simp
  then show ?thesis using False by simp
qed

lemma year_length: "dayFromYear (y + 1) - dayFromYear y = (if leap_year y then 366 else 365)"
proof -
  have s4: "(y + 1 - 1969) div 4 = (y - 1969) div 4 + (if 4 dvd y then 1 else 0)"
    using div_step [of 4 "y - 1969"] dvd_diff_left_iff [of 4 1968 y] by (simp add: algebra_simps)
  have s100: "(y + 1 - 1901) div 100 = (y - 1901) div 100 + (if 100 dvd y then 1 else 0)"
    using div_step [of 100 "y - 1901"] dvd_diff_left_iff [of 100 1900 y] by (simp add: algebra_simps)
  have s400: "(y + 1 - 1601) div 400 = (y - 1601) div 400 + (if 400 dvd y then 1 else 0)"
    using div_step [of 400 "y - 1601"] dvd_diff_left_iff [of 400 1600 y] by (simp add: algebra_simps)
  have regroup: "365 * (y + 1 - 1970) + (a + a') - (b + b') + (c + c') - (365 * (y - 1970) + a - b + c) = 365 + a' - b' + c'"
    for a a' b b' c c' :: int by simp
  have "(100::int) dvd 400" "(4::int) dvd 100" by simp_all
  then have d: "400 dvd y \<Longrightarrow> 100 dvd y" "100 dvd y \<Longrightarrow> 4 dvd y" using dvd_trans by blast+
  have "dayFromYear (y + 1) - dayFromYear y =
      365 + (if 4 dvd y then 1 else 0) - (if 100 dvd y then 1 else 0) + (if 400 dvd y then 1 else 0)"
    unfolding dayFromYear_def s4 s100 s400 by (rule regroup)
  moreover have "leap_year y \<longleftrightarrow> 4 dvd y \<and> (\<not> 100 dvd y \<or> 400 dvd y)"
    by (simp only: leap_year_def mod_eq_0_iff_dvd)
  ultimately show ?thesis using d by (simp only: split: if_split) auto
qed

lemma sum_monthLengths: "sum_list (monthLengths b) = (if b then 366 else 365)"
  by (simp add: monthLengths_def)

lemma length_monthLengths [simp]: "length (monthLengths b) = 12"
  by (simp add: monthLengths_def)

text \<open>The months of a year follow each other, and the next year's January follows December.\<close>

lemma all_months: "(\<forall>m::nat < 12. P m) \<longleftrightarrow> P 0 \<and> P 1 \<and> P 2 \<and> P 3 \<and> P 4 \<and> P 5 \<and> P 6 \<and> P 7 \<and> P 8 \<and> P 9 \<and> P 10 \<and> P 11"
  by (simp add: numeral_eq_Suc All_less_Suc2)

lemma monthLengths_pos: "m < 12 \<Longrightarrow> 28 \<le> monthLengths b ! m"
proof -
  have "\<forall>m::nat < 12. 28 \<le> monthLengths b ! m"
    unfolding all_months by (simp add: monthLengths_def)
  then show "m < 12 \<Longrightarrow> 28 \<le> monthLengths b ! m" by blast
qed

lemma next_month:
  assumes "0 \<le> m" "m < 12"
  shows "firstOfMonth y m + 28 \<le> firstOfMonth (y + (m + 1) div 12) ((m + 1) mod 12)"
proof (cases "m = 11")
  case True
  have "take 11 (monthLengths b) @ [31] = monthLengths b" for b by (simp add: monthLengths_def)
  then have "sum_list (take 11 (monthLengths b)) + 31 = sum_list (monthLengths b)" for b
    by (metis sum_list.Cons sum_list.Nil sum_list.append add_0_right)
  then have "sum_list (take 11 (monthLengths (leap_year y))) + 31 = dayFromYear (y + 1) - dayFromYear y"
    by (simp add: sum_monthLengths year_length)
  then show ?thesis using True by (simp add: firstOfMonth_def)
next
  case False
  then have m: "nat m < 12" "(m + 1) div 12 = 0" "(m + 1) mod 12 = m + 1" "nat (m + 1) = Suc (nat m)" using assms by auto
  have "sum_list (take (Suc (nat m)) (monthLengths b)) = sum_list (take (nat m) (monthLengths b)) + monthLengths b ! nat m" for b
    using m by (simp add: take_Suc_conv_app_nth)
  then show ?thesis using m monthLengths_pos [of "nat m"] by (simp add: firstOfMonth_def)
qed

lemma monthOf_bounds: "ls \<noteq> [] \<Longrightarrow> d < sum_list ls \<Longrightarrow> k \<le> monthOf k ls d \<and> monthOf k ls d < k + int (length ls)"
proof (induction k ls d rule: monthOf.induct)
  case (2 k l ls d)
  then show ?case by (cases "d < l"; cases ls) auto
qed simp

lemma monthFromDay_bounds: "0 \<le> monthFromDay d \<and> monthFromDay d < 12"
proof -
  let ?y = "yearFromDay d"
  have "d - dayFromYear ?y < sum_list (monthLengths (leap_year ?y))"
    using year_bounds [of d] year_length [of ?y] by (simp add: sum_monthLengths split: if_splits)
  then show ?thesis using monthOf_bounds [of "monthLengths (leap_year ?y)" "d - dayFromYear ?y" 0]
    by (simp add: monthFromDay_def Let_def monthLengths_def)
qed

text \<open>Moving a date one month or one year on moves it into the future.\<close>

lemma setMonth_later: "t < setMonth t (getMonth t + 1)"
proof -
  let ?d = "dayOf t"
  have "firstOfMonth (yearFromDay ?d) (monthFromDay ?d) + 28 \<le>
        firstOfMonth (yearFromDay ?d + (monthFromDay ?d + 1) div 12) ((monthFromDay ?d + 1) mod 12)"
    using monthFromDay_bounds by (intro next_month) auto
  then have "?d + 28 \<le> makeDay (yearFromDay ?d) (monthFromDay ?d + 1) (dateFromDay ?d)"
    by (simp add: makeDay_def dateFromDay_def)
  moreover have "t = ?d * MS_PER_DAY + t mod MS_PER_DAY" by (simp add: dayOf_def)
  ultimately show ?thesis by (simp add: setMonth_def getMonth_def MS_PER_DAY_def)
qed

lemma next_year:
  assumes "0 \<le> m" "m < 12"
  shows "firstOfMonth y m + 364 \<le> firstOfMonth (y + 1) m"
proof -
  have "\<forall>k::nat < 12. \<bar>sum_list (take k (monthLengths a)) - sum_list (take k (monthLengths b))\<bar> \<le> 1" for a b
    unfolding all_months by (simp add: monthLengths_def)
  then have "\<bar>sum_list (take (nat m) (monthLengths a)) - sum_list (take (nat m) (monthLengths b))\<bar> \<le> 1" for a b
    using assms by simp
  from this [of "leap_year y" "leap_year (y + 1)"] show ?thesis using year_length [of y]
    by (simp add: firstOfMonth_def split: if_splits)
qed

lemma setFullYear_later: "t < setFullYear t (getFullYear t + 1)"
proof -
  let ?d = "dayOf t"
  have b: "0 \<le> monthFromDay ?d" "monthFromDay ?d < 12" using monthFromDay_bounds by auto
  have "firstOfMonth (yearFromDay ?d) (monthFromDay ?d) + 364 \<le> firstOfMonth (yearFromDay ?d + 1) (monthFromDay ?d)"
    by (rule next_year [OF b])
  then have "?d + 364 \<le> makeDay (yearFromDay ?d + 1) (monthFromDay ?d) (dateFromDay ?d)"
    using b by (simp add: makeDay_def dateFromDay_def)
  moreover have "t = ?d * MS_PER_DAY + t mod MS_PER_DAY" by (simp add: dayOf_def)
  ultimately show ?thesis by (simp add: setFullYear_def getFullYear_def MS_PER_DAY_def)
qed

end
