(* ===== verification/Totp.thy ===== *)
theory Totp
  imports Js_Date "HOL-Library.Word"
begin

unbundle bit_operations_syntax

text \<open>
  Two-factor authentication of \<open>server/platform.ts\<close>: Base32 secrets, HOTP and TOTP codes, the
  encrypted storage of secrets and the enrolment procedures. HMAC-SHA-1, SHA-256, the Base64
  codec and AES-GCM are parameters; bytes are 8-bit words and the 31-bit truncation is computed
  on 32-bit words, as JavaScript's bit operations are.
\<close>

type_synonym byte = "8 word"

section \<open>Base32\<close>

definition base32Chars :: string where
  "base32Chars = ''ABCDEFGHIJKLMNOPQRSTUVWXYZ234567''"

fun indexOf :: "string \<Rightarrow> char \<Rightarrow> nat option" where
  "indexOf [] c = None"
| "indexOf (x # xs) c = (if x = c then Some 0 else map_option Suc (indexOf xs c))"

text \<open>\<open>n.toString(2).padStart(k, "0")\<close> of a number below \<open>2^k\<close>, and \<open>parseInt(bits, 2)\<close>.\<close>

fun toBits :: "nat \<Rightarrow> nat \<Rightarrow> bool list" where
  "toBits 0 n = []"
| "toBits (Suc k) n = toBits k (n div 2) @ [odd n]"

definition parseBits :: "bool list \<Rightarrow> nat" where
  "parseBits bs = foldl (\<lambda>v b. 2 * v + (if b then 1 else 0)) 0 bs"

text \<open>Complete groups of \<open>k\<close> bits.\<close>

definition groups :: "nat \<Rightarrow> bool list \<Rightarrow> bool list list" where
  "groups k bits = map (\<lambda>i. take k (drop (i * k) bits)) [0..<length bits div k]"

definition generateTotpSecret :: "byte list \<Rightarrow> string" where
  "generateTotpSecret bytes =
     map (\<lambda>g. base32Chars ! parseBits g) (groups 5 (concat (map (\<lambda>b. toBits 8 (unat b)) bytes)))"

definition secretBits :: "string \<Rightarrow> bool list" where
  "secretBits secret = concat (map (\<lambda>c. case indexOf base32Chars c of None \<Rightarrow> [] | Some i \<Rightarrow> toBits 5 i) (map to_upper secret))"

definition decodeSecret :: "string \<Rightarrow> byte list" where
  "decodeSecret secret = map (\<lambda>g. word_of_nat (parseBits g)) (groups 8 (secretBits secret))"

section \<open>Codes\<close>

definition be32 :: "32 word \<Rightarrow> byte list" where
  "be32 w = [ucast (drop_bit 24 w), ucast (drop_bit 16 w), ucast (drop_bit 8 w), ucast w]"

text \<open>The counter as eight bytes, high word first (\<open>counter >>> 0\<close> is its low 32 bits).\<close>

definition counterBuf :: "int \<Rightarrow> byte list" where
  "counterBuf counter = be32 (word_of_int (counter div 4294967296)) @ be32 (word_of_int counter)"

definition truncated :: "byte list \<Rightarrow> 32 word" where
  "truncated h =
     (let off = unat (last h AND 0x0f) in
        push_bit 24 (ucast (h ! off AND 0x7f)) OR push_bit 16 (ucast (h ! (off + 1))) OR
        push_bit 8 (ucast (h ! (off + 2))) OR ucast (h ! (off + 3)))"

text \<open>JavaScript's \<open>%\<close> has the sign of the dividend.\<close>

definition js_rem :: "int \<Rightarrow> int \<Rightarrow> int" where
  "js_rem a b = (if a < 0 then - ((- a) mod b) else a mod b)"

definition generateHotp :: "(byte list \<Rightarrow> byte list \<Rightarrow> byte list) \<Rightarrow> string \<Rightarrow> int \<Rightarrow> string" where
  "generateHotp hmac_sha1 secret counter =
     pad 6 (js_rem (sint (truncated (hmac_sha1 (decodeSecret secret) (counterBuf counter)))) 1000000)"

definition padEnd :: "nat \<Rightarrow> string \<Rightarrow> string" where
  "padEnd n s = s @ replicate (n - length s) (CHR 0x00)"

text \<open>All three windows are compared; \<open>now\<close> is in seconds.\<close>

definition validateTotp :: "(byte list \<Rightarrow> byte list \<Rightarrow> byte list) \<Rightarrow> int \<Rightarrow> string \<Rightarrow> string \<Rightarrow> bool" where
  "validateTotp hmac_sha1 now secret code =
     foldl (\<lambda>valid off.
        let expected = generateHotp hmac_sha1 secret ((now + off * 30) div 30);
            codeBuf = padEnd (length expected) code
        in if length expected = length codeBuf \<and> expected = codeBuf then True else valid) False [- 1, 0, 1]"

section \<open>Storage\<close>

definition TOTP_ENCRYPTION_PREFIX :: string where "TOTP_ENCRYPTION_PREFIX = ''bis-totp:v1:''"

text \<open>The cryptography of Node: Base64url, AES-256-GCM under the derived key, and SHA-256.\<close>

record totpCrypto =
  tc_encode :: "byte list \<Rightarrow> string"
  tc_decode :: "string \<Rightarrow> byte list"
  tc_seal :: "byte list \<Rightarrow> string \<Rightarrow> byte list \<times> byte list"
  tc_open :: "byte list \<Rightarrow> byte list \<Rightarrow> byte list \<Rightarrow> string option"
  tc_sha256 :: "string \<Rightarrow> string"

definition isEncryptedTotpSecret :: "string \<Rightarrow> bool" where
  "isEncryptedTotpSecret secret \<longleftrightarrow> take (length TOTP_ENCRYPTION_PREFIX) secret = TOTP_ENCRYPTION_PREFIX"

definition encryptTotpSecret :: "totpCrypto \<Rightarrow> byte list \<Rightarrow> string \<Rightarrow> string" where
  "encryptTotpSecret cr iv secret = (case tc_seal cr iv secret of (ciphertext, tag) \<Rightarrow>
     TOTP_ENCRYPTION_PREFIX @ tc_encode cr (iv @ tag @ ciphertext))"

definition decryptTotpSecret :: "totpCrypto \<Rightarrow> string \<Rightarrow> error + string" where
  "decryptTotpSecret cr stored =
     (if \<not> isEncryptedTotpSecret stored then Inr stored
      else let encrypted = tc_decode cr (drop (length TOTP_ENCRYPTION_PREFIX) stored) in
        if length encrypted < 29 then Inl (TRPCError BAD_REQUEST ''Stored TOTP seed is malformed'')
        else (case tc_open cr (take 12 encrypted) (take 16 (drop 12 encrypted)) (drop 28 encrypted) of
                None \<Rightarrow> Inl (TRPCError UNAUTHORIZED ''Stored TOTP seed could not be decrypted'')
              | Some s \<Rightarrow> Inr s))"

definition hashTotpBackupCode :: "totpCrypto \<Rightarrow> int \<Rightarrow> string \<Rightarrow> string" where
  "hashTotpBackupCode cr userId code = tc_sha256 cr (''bis-totp-backup:'' @ show_int userId @ '':'' @ code)"

section \<open>Enrolment\<close>

record totpRow =
  tp_id :: int
  tp_userId :: int
  tp_secret :: string
  tp_verified :: bool
  tp_backupCodes :: "string list"
  tp_enabledAt :: "int option"

definition totp_of :: "int \<Rightarrow> totpRow tbl \<Rightarrow> totpRow option" where
  "totp_of userId = tfind (\<lambda>r. tp_userId r = userId)"

definition totpDb :: "env \<Rightarrow> ('s, 'a) act \<Rightarrow> ('s, 'a) act" where
  "totpDb e = require (e_dbUp e) (TRPCError INTERNAL_SERVER_ERROR ''INTERNAL_SERVER_ERROR'')"

definition totp_status :: "env \<Rightarrow> ctx \<Rightarrow> (totpRow tbl, bool \<times> int option) act" where
  "totp_status e c = protectedProcedure e c (\<lambda>u. totpDb e (\<lambda>s.
     (Inr (case totp_of (u_id u) s of None \<Rightarrow> (False, None) | Some r \<Rightarrow> (tp_verified r, tp_enabledAt r)), s)))"

text \<open>
  The column \<open>secret\<close> of \<open>user\_totp\_secrets\<close> is a \<open>varchar(64)\<close> (\<open>drizzle/schema.ts\<close> and the
  baseline migration): a statement that stores a longer value is rejected.
\<close>

definition SECRET_WIDTH :: nat where "SECRET_WIDTH = 64"

text \<open>\<open>random\<close> are the 20 random bytes, \<open>iv\<close> the nonce of the encryption and \<open>codes\<close> the ten backup codes.\<close>

definition totp_setup :: "totpCrypto \<Rightarrow> env \<Rightarrow> ctx \<Rightarrow> byte list \<Rightarrow> byte list \<Rightarrow> string list \<Rightarrow> (totpRow tbl, string) act" where
  "totp_setup cr e c random iv codes = writeProcedure e c (\<lambda>u. totpDb e (\<lambda>s.
     let secret = generateTotpSecret random; stored = encryptTotpSecret cr iv secret;
         hashes = map (hashTotpBackupCode cr (u_id u)) codes
     in if SECRET_WIDTH < length stored then (Inl DbError, s)
        else (Inr secret,
         if totp_of (u_id u) s = None
         then tinsert (\<lambda>n. \<lparr>tp_id = n, tp_userId = u_id u, tp_secret = stored, tp_verified = False, tp_backupCodes = hashes, tp_enabledAt = None\<rparr>) s
         else tupdate (\<lambda>r. tp_userId r = u_id u)
                (\<lambda>r. r\<lparr>tp_secret := stored, tp_verified := False, tp_backupCodes := hashes\<rparr>) s)))"

definition code_ok :: "string \<Rightarrow> bool" where
  "code_ok code \<longleftrightarrow> length code = 6 \<and> all_digits code"

definition totp_verify ::
  "(byte list \<Rightarrow> byte list \<Rightarrow> byte list) \<Rightarrow> totpCrypto \<Rightarrow> env \<Rightarrow> ctx \<Rightarrow> byte list \<Rightarrow> string \<Rightarrow> (totpRow tbl, unit) act" where
  "totp_verify hmac_sha1 cr e c iv code = writeProcedure e c (\<lambda>u. zod (code_ok code) (totpDb e (\<lambda>s.
     case totp_of (u_id u) s of
       None \<Rightarrow> (Inl (TRPCError NOT_FOUND ''TOTP setup not initiated''), s)
     | Some r \<Rightarrow>
         (case decryptTotpSecret cr (tp_secret r) of
            Inl err \<Rightarrow> (Inl err, s)
          | Inr secret \<Rightarrow>
              if \<not> validateTotp hmac_sha1 (e_now e div 1000) secret code
              then (Inl (TRPCError BAD_REQUEST ''Invalid TOTP code''), s)
              else if \<not> isEncryptedTotpSecret (tp_secret r) \<and> SECRET_WIDTH < length (encryptTotpSecret cr iv (tp_secret r))
              then (Inl DbError, s)
              else (Inr (), tupdate (\<lambda>q. tp_userId q = u_id u)
                      (\<lambda>q. q\<lparr>tp_verified := True, tp_enabledAt := Some (e_now e),
                            tp_secret := (if isEncryptedTotpSecret (tp_secret r) then tp_secret q
                                          else encryptTotpSecret cr iv (tp_secret r))\<rparr>) s)))))"

definition totp_disable :: "env \<Rightarrow> ctx \<Rightarrow> (totpRow tbl, unit) act" where
  "totp_disable e c = writeProcedure e c (\<lambda>u. totpDb e (\<lambda>s. (Inr (), tdelete (\<lambda>r. tp_userId r = u_id u) s)))"

text \<open>\<open>migrateLegacyTotpSeedsAtRest\<close>: one pass at startup; \<open>ivs\<close> gives the nonce for each row's id.\<close>

definition is_hex64 :: "string \<Rightarrow> bool" where
  "is_hex64 s \<longleftrightarrow> length s = 64 \<and> list_all (\<lambda>ch. is_digit_char ch \<or> (let n = (of_char (to_lower ch) :: nat) in 97 \<le> n \<and> n \<le> 102)) s"

definition legacy_row :: "totpRow \<Rightarrow> bool" where
  "legacy_row r \<longleftrightarrow> \<not> isEncryptedTotpSecret (tp_secret r) \<or> list_ex (\<lambda>code. \<not> is_hex64 code) (tp_backupCodes r)"

definition migrate_row :: "totpCrypto \<Rightarrow> (int \<Rightarrow> byte list) \<Rightarrow> totpRow \<Rightarrow> totpRow" where
  "migrate_row cr ivs r =
     r\<lparr>tp_secret := (if isEncryptedTotpSecret (tp_secret r) then tp_secret r else encryptTotpSecret cr (ivs (tp_id r)) (tp_secret r)),
       tp_backupCodes := map (\<lambda>code. if is_hex64 code then code else hashTotpBackupCode cr (tp_id r) code) (tp_backupCodes r)\<rparr>"

text \<open>The rows one after the other: a rejected update ends the pass and leaves the earlier ones migrated.\<close>

fun migrate_rows :: "totpCrypto \<Rightarrow> (int \<Rightarrow> byte list) \<Rightarrow> totpRow list \<Rightarrow> nat \<Rightarrow> (totpRow tbl, nat) act" where
  "migrate_rows cr ivs [] n s = (Inr n, s)"
| "migrate_rows cr ivs (r # rs) n s =
     (if \<not> legacy_row r then migrate_rows cr ivs rs n s
      else if SECRET_WIDTH < length (tp_secret (migrate_row cr ivs r)) then (Inl DbError, s)
      else migrate_rows cr ivs rs (Suc n) (tupdate (\<lambda>q. tp_id q = tp_id r) (\<lambda>_. migrate_row cr ivs r) s))"

definition migrateLegacyTotpSeedsAtRest :: "totpCrypto \<Rightarrow> (int \<Rightarrow> byte list) \<Rightarrow> env \<Rightarrow> (totpRow tbl, nat) act" where
  "migrateLegacyTotpSeedsAtRest cr ivs e s = (if \<not> e_dbUp e then (Inr 0, s) else migrate_rows cr ivs (rows s) 0 s)"

end
