(* ===== verification/Billing_Schema.thy ===== *)
theory Billing_Schema
  imports Totp
begin

text \<open>
  The data of the billing subsystem: the tables of \<open>drizzle/0010\<close>, \<open>0012\<close>, \<open>0013\<close> and \<open>0024\<close>
  and of \<open>drizzle/schema.ts\<close> that the billing handlers read and write, the messages exchanged
  with the two services outside the repository (the TigerBeetle HTTP proxy and Paystack), and the
  billing database. The services are a parameter: a record of functions on an abstract world
  \<open>'w\<close>, which holds the ledger and the provider's state.
\<close>

section \<open>Payment intents, top-ups and webhook events\<close>

datatype intent_status = Initializing | Intent_pending | Verified | Credited | Intent_failed | Intent_cancelled
datatype purpose = Prepaid_credit | Subscription_invoice

record intent =
  pi_id :: string
  pi_tenant_id :: int
  pi_initiated_by :: int
  pi_provider_reference :: string
  pi_amount_kobo :: int
  pi_currency :: string
  pi_customer_email :: string
  pi_purpose :: purpose
  pi_status :: intent_status
  pi_access_code :: "string option"
  pi_initialized_at :: "int option"
  pi_verified_at :: "int option"
  pi_credited_at :: "int option"
  pi_expires_at :: int

record topup =
  to_id :: int
  to_tenantId :: string
  to_reference :: string
  to_amountKobo :: int
  to_channel :: string
  to_tbTransferId :: "string option"
  to_verifiedAt :: int

datatype webhook_status = Received | Processing | Processed | Retryable_failure | Terminal_failure

record webhookEvent =
  we_id :: string
  we_event_type :: string
  we_provider_reference :: "string option"
  we_payload_sha256 :: string
  we_received_at :: int
  we_processed_at :: "int option"
  we_status :: webhook_status
  we_attempt_count :: nat
  we_next_attempt_at :: "int option"
  we_last_error_code :: "string option"
  we_last_error_at :: "int option"

section \<open>The ledger and the provider\<close>

text \<open>A transfer as posted to \<open>/transfers/create\<close>.\<close>

record transfer =
  tr_id :: string
  tr_debit_account_id :: string
  tr_credit_account_id :: string
  tr_amount :: int
  tr_ledger :: int
  tr_code :: int
  tr_flags :: int
  tr_user_data_128 :: string
  tr_user_data_64 :: "int option"

record accountReq =
  ac_id :: string
  ac_ledger :: int
  ac_code :: int
  ac_flags :: int
  ac_user_data_128 :: "string option"

text \<open>
  A reply of a service: no response (the circuit breaker is open, a timeout, a network error:
  \<open>fetch\<close> throws), or a response with its status and body.
\<close>

datatype 'a reply = NoResponse | Response int 'a
datatype 'a json = NotJson | Json 'a

text \<open>\<open>GET /accounts/:id\<close>: the amounts are integers when present.\<close>

record account =
  la_credits_posted :: "int option"
  la_debits_posted :: "int option"
  la_debits_pending :: "int option"

text \<open>One entry of \<open>GET /accounts/:id/transfers\<close>.\<close>

record ledgerEntry =
  le_id :: string
  le_amount :: int
  le_code :: int
  le_timestamp :: "int option"
  le_user_data_128 :: "string option"
  le_user_data_64 :: "int option"

text \<open>
  A Paystack body: not an object, or an envelope with \<open>status === true\<close> as a boolean and its
  data when that is truthy.
\<close>

datatype 'a envelope = NotObject | Envelope bool "'a option"

record paystackTransaction =
  px_status :: string
  px_amount :: rat
  px_currency :: "string option"
  px_channel :: "string option"
  px_reference :: string

record initializeRequest =
  ir_email :: string
  ir_amount :: int
  ir_currency :: string
  ir_reference :: string
  ir_callback_url :: "string option"
  ir_intent_id :: string
  ir_purpose :: purpose

record initialized =
  in_authorization_url :: string
  in_access_code :: string
  in_reference :: string

text \<open>A parsed webhook body: its \<open>event\<close> and \<open>data.reference\<close> when those are strings.\<close>

datatype webhookBody = BodyNotObject | BodyObject "string option" "string option"

text \<open>
  The services: configuration (URL and key present), SHA-256 and HMAC-SHA-512 in hexadecimal,
  \<open>JSON.parse\<close> of a webhook body, the HTTP calls through the circuit breaker (which may send a
  request several times) and the object storage.
\<close>

record 'w services =
  sv_tigerBeetleUrl :: bool
  sv_paystackSecretKey :: bool
  sv_sha256 :: "string \<Rightarrow> string"
  sv_hmac512 :: "string \<Rightarrow> string"
  sv_parseBody :: "string \<Rightarrow> webhookBody option"
  sv_postAccounts :: "accountReq list \<Rightarrow> 'w \<Rightarrow> unit reply \<times> 'w"
  sv_postTransfers :: "transfer list \<Rightarrow> 'w \<Rightarrow> unit reply \<times> 'w"
  sv_getAccount :: "string \<Rightarrow> 'w \<Rightarrow> account option json reply"
  sv_getTransfers :: "string \<Rightarrow> int option \<Rightarrow> 'w \<Rightarrow> ledgerEntry list option json reply"
  sv_initialize :: "initializeRequest \<Rightarrow> 'w \<Rightarrow> initialized envelope json reply \<times> 'w"
  sv_verify :: "string \<Rightarrow> 'w \<Rightarrow> paystackTransaction envelope json reply"
  sv_storagePut :: "string \<Rightarrow> string \<Rightarrow> string option"

section \<open>Ledger claims, plans, entitlements and refunds\<close>

record tbTransferRow =
  tt_id :: int
  tt_transferId :: string
  tt_debitAccountId :: string
  tt_creditAccountId :: string
  tt_amount :: int
  tt_ledger :: int
  tt_code :: int
  tt_tenantId :: "int option"
  tt_txRef :: string
  tt_reconciledAt :: "int option"

datatype interval = Monthly | Annual

record plan =
  pl_id :: int
  pl_plan_code :: string
  pl_display_name :: string
  pl_billing_interval :: interval
  pl_price_kobo :: int
  pl_included_completed_checks :: int
  pl_overage_price_kobo :: int
  pl_active :: bool
  pl_version :: int

datatype provider = Paystack | Manual_contract
datatype sub_status = Sub_pending | Sub_active | Past_due | Cancelling | Cancelled | Suspended

record subscription =
  su_id :: string
  su_tenant_id :: int
  su_plan_id :: int
  su_provider :: provider
  su_provider_subscription_ref :: "string option"
  su_status :: sub_status
  su_current_period_start :: int
  su_current_period_end :: int
  su_cancel_at_period_end :: bool
  su_cancelled_at :: "int option"
  su_created_by :: int
  su_created_at :: int

datatype ent_status = Ent_active | Ent_expired | Ent_revoked

record entitlement =
  en_id :: string
  en_tenant_id :: int
  en_subscription_id :: "string option"
  en_total_units :: int
  en_consumed_units :: int
  en_reserved_units :: int
  en_period_start :: int
  en_period_end :: int
  en_status :: ent_status
  en_source_reference :: string

datatype res_status = Reserved | Consumed | Released | Res_expired
datatype res_tier = Tier_basic | Tier_standard | Tier_premium | Tier_intelligence

record reservation =
  rs_id :: string
  rs_tenant_id :: int
  rs_entitlement_id :: string
  rs_investigation_ref :: string
  rs_requested_tier :: res_tier
  rs_status :: res_status
  rs_idempotency_key :: string
  rs_reserved_by :: int
  rs_expires_at :: int
  rs_consumed_at :: "int option"

datatype usage_type = Completed_authorized_check | Usage_intelligence_assessment | Usage_reversal

record usageEvent =
  us_id :: string
  us_tenant_id :: int
  us_reservation_id :: string
  us_usage_type :: usage_type
  us_units :: int
  us_investigation_ref :: string
  us_occurred_at :: int
  us_recorded_by :: int

datatype refund_status = Refund_requested | Refund_approved | Refund_submitted | Refund_processed | Refund_rejected | Refund_failed

record refund =
  rf_id :: string
  rf_tenant_id :: int
  rf_payment_reference :: string
  rf_amount_kobo :: int
  rf_reason :: string
  rf_status :: refund_status
  rf_requested_by :: int
  rf_approved_by :: "int option"
  rf_requested_at :: int
  rf_approved_at :: "int option"

datatype signup_status = Signup_active | Payment_failed | Signup_cancelled

record planSignup =
  sg_id :: string
  sg_tenant_id :: int
  sg_plan_code :: string
  sg_status :: signup_status
  sg_billing_ref :: "string option"
  sg_idempotency_key :: string
  sg_created_by :: int

record auditEntry =
  au_tenantId :: int
  au_userId :: int
  au_action :: string
  au_targetRef :: string
  au_result :: string

section \<open>Metered assessments and their reconciliation\<close>

text \<open>
  The columns of \<open>investigation\_score\_assessments\<close> and its policy that metering reads; other
  components write these rows.
\<close>

record assessment =
  as_id :: string
  as_tenant_id :: int
  as_policy_code :: string
  as_decision_support_only :: bool
  as_superseded :: bool
  as_expires_at :: int
  as_calculated_at :: int
  as_created_by :: int

record meteringPolicy =
  mp_id :: string
  mp_tenant_id :: int
  mp_policy_code :: string
  mp_enabled :: bool
  mp_prepaid_price_kobo :: int
  mp_effective_from :: int
  mp_expires_at :: "int option"
  mp_approved_by :: "int option"
  mp_approved_at :: "int option"

datatype be_status =
  Be_pending | Be_leased | Be_settled | Be_retryable_failure | Be_payment_required
  | Be_awaiting_reconciliation | Be_dead_letter | Be_cancelled

record billingEvent =
  be_id :: string
  be_tenant_id :: int
  be_assessment_id :: string
  be_metering_policy_id :: string
  be_reservation_id :: "string option"
  be_requested_by :: int
  be_amount_kobo :: int
  be_status :: be_status
  be_idempotency_key :: string
  be_tigerbeetle_transfer_id :: "string option"
  be_attempt_count :: nat
  be_available_at :: int
  be_leased_at :: "int option"
  be_lease_owner :: "string option"
  be_settled_at :: "int option"
  be_last_error_code :: "string option"

datatype rec_status = Rec_open | Rec_under_review | Rec_approved_retry | Rec_confirmed_settled | Rec_confirmed_not_settled | Rec_cancelled

record reconciliation =
  rc_id :: string
  rc_billing_event_id :: string
  rc_tenant_id :: int
  rc_deterministic_transfer_id :: string
  rc_status :: rec_status
  rc_last_error_code :: string
  rc_ledger_evidence_ref :: "string option"
  rc_ledger_evidence_sha256 :: "string option"
  rc_requested_by :: int
  rc_requested_at :: int
  rc_reviewed_by :: "int option"
  rc_reviewed_at :: "int option"
  rc_resolution_rationale :: "string option"
  rc_closed_at :: "int option"

section \<open>Manual recovery\<close>

datatype retry_status = Retry_pending | Retry_processing | Retry_completed | Retry_dead_letter | Retry_resolved

record retryItem =
  rq_id :: int
  rq_reference :: string
  rq_tenantId :: string
  rq_amountKobo :: int
  rq_attempts :: nat
  rq_nextRetryAt :: int
  rq_status :: retry_status
  rq_leasedAt :: "int option"
  rq_lastError :: "string option"
  rq_createdAt :: int

datatype approval_status = Ap_pending | Ap_executing | Ap_executed | Ap_failed | Ap_rejected | Ap_expired

record approval =
  ap_id :: int
  ap_reference :: string
  ap_tenantId :: string
  ap_amountKobo :: int
  ap_auditNote :: string
  ap_status :: approval_status
  ap_requesterId :: int
  ap_approverId :: "int option"
  ap_approvalNote :: "string option"
  ap_ledgerTransferId :: "string option"
  ap_requestedAt :: int
  ap_expiresAt :: int
  ap_executedAt :: "int option"

record approverRow =
  av_userId :: int
  av_active :: bool
  av_designatedBy :: int
  av_designatedAt :: int
  av_revokedAt :: "int option"

text \<open>The payloads the recovery handlers put into \<open>event\_log\<close>.\<close>

datatype eventPayload =
    Threshold int int
  | CreditPayload string int "string option"
  | ApproverPayload int bool
  | MfaFailed int string
  | DualApproved int int int string

record eventLogRow =
  ev_id :: int
  ev_eventType :: string
  ev_aggregateId :: string
  ev_actorId :: "int option"
  ev_payload :: eventPayload
  ev_createdAt :: int

section \<open>The database\<close>

record 'w billdb =
  b_world :: 'w
  b_tenants :: "int list"
  b_users :: "user list"
  b_intents :: "intent list"
  b_topups :: "topup tbl"
  b_webhooks :: "webhookEvent list"
  b_claims :: "tbTransferRow tbl"
  b_plans :: "plan tbl"
  b_subscriptions :: "subscription list"
  b_entitlements :: "entitlement list"
  b_reservations :: "reservation list"
  b_usage :: "usageEvent list"
  b_refunds :: "refund list"
  b_signups :: "planSignup list"
  b_audit :: "auditEntry list"
  b_assessments :: "assessment list"
  b_policies :: "meteringPolicy list"
  b_events :: "billingEvent list"
  b_reconciliations :: "reconciliation list"
  b_retries :: "retryItem tbl"
  b_approvals :: "approval tbl"
  b_approvers :: "approverRow list"
  b_totp :: "totpRow tbl"
  b_threshold :: "rat option"
  b_eventlog :: "eventLogRow tbl"
  b_notifications :: "(int \<times> string) list"

section \<open>Numbers\<close>

definition MAX_INT32 :: int where "MAX_INT32 = 2147483647"

text \<open>\<open>Number.isSafeInteger\<close> of a JSON number.\<close>

definition is_safe_rat :: "rat \<Rightarrow> bool" where
  "is_safe_rat x \<longleftrightarrow> of_int \<lfloor>x\<rfloor> = x \<and> isSafeInteger \<lfloor>x\<rfloor>"

text \<open>The regular expression \<open>/^[1-9]\d*$/\<close> and the number such a string denotes.\<close>

definition canonical_id :: "string \<Rightarrow> bool" where
  "canonical_id s \<longleftrightarrow> (case s of [] \<Rightarrow> False | c # cs \<Rightarrow> is_digit_char c \<and> c \<noteq> CHR ''0'' \<and> all_digits cs)"

definition digit_value :: "char \<Rightarrow> int" where
  "digit_value c = int (of_char c) - 48"

definition parse_int :: "string \<Rightarrow> int" where
  "parse_int s = foldl (\<lambda>n c. 10 * n + digit_value c) 0 s"

lemma parse_snoc [simp]: "parse_int (s @ [c]) = 10 * parse_int s + digit_value c"
  by (simp add: parse_int_def)

lemma parse_show_nat [simp]: "parse_int (show_nat n) = int n"
proof (induction n rule: show_nat.induct)
  case (1 n)
  have d: "digit_value (char_of (m + 48)) = int m" if "m < 10" for m :: nat
    using that by (simp add: digit_value_def)
  show ?case
  proof (cases "n < 10")
    case True
    then show ?thesis using d by (subst show_nat.simps) (simp add: parse_int_def)
  next
    case False
    then have "parse_int (show_nat (n div 10)) = int (n div 10)" by (rule "1.IH")
    then show ?thesis using False d [of "n mod 10"]
      by (subst show_nat.simps) (simp, presburger)
  qed
qed

lemma show_int_inject: "0 \<le> m \<Longrightarrow> 0 \<le> n \<Longrightarrow> show_int m = show_int n \<Longrightarrow> m = n"
proof -
  assume nonneg: "0 \<le> m" "0 \<le> n" and eq: "show_int m = show_int n"
  have "show_int m = show_nat (nat m)" "show_int n = show_nat (nat n)" using nonneg by (auto simp: show_int_def)
  with eq have "parse_int (show_nat (nat m)) = parse_int (show_nat (nat n))" by metis
  with nonneg show "m = n" by simp
qed

end
