(* ===== verification/Billing_Ledger.thy ===== *)
theory Billing_Ledger
  imports Billing_Schema
begin

text \<open>
  The part of \<open>server/billingSettlement.ts\<close> that talks to the ledger and the provider: the HTTP
  helpers with their fail-closed errors, deterministic transfer identifiers, the available
  balance and the debit for a metered assessment. \<open>ledger\_laws\<close> states what the code relies
  on about TigerBeetle; it is a hypothesis of the theorems that need it.
\<close>

definition LEDGER_NGN :: int where "LEDGER_NGN = 566"
definition ACCOUNT_REVENUE :: string where "ACCOUNT_REVENUE = ''1''"
definition ACCOUNT_TENANT_PREFIX :: string where "ACCOUNT_TENANT_PREFIX = ''10000''"

definition serviceUnavailable :: "string \<Rightarrow> error" where
  "serviceUnavailable m = TRPCError SERVICE_UNAVAILABLE m"

definition providerFailure :: "string \<Rightarrow> error" where
  "providerFailure m = TRPCError PRECONDITION_FAILED m"

text \<open>\<open>response.ok\<close>.\<close>

definition http_ok :: "int \<Rightarrow> bool" where
  "http_ok status \<longleftrightarrow> 200 \<le> status \<and> status \<le> 299"

text \<open>\<open>const pool = await getPgPool(); if (!pool) throw \<dots>\<close>.\<close>

definition requirePool :: "env \<Rightarrow> string \<Rightarrow> ('s, 'a) act \<Rightarrow> ('s, 'a) act" where
  "requirePool e m = require (e_dbUp e) (serviceUnavailable m)"

lemma requirePool_simp [simp, act_simps]:
  "requirePool e m k s = (if e_dbUp e then k s else (Inl (serviceUnavailable m), s))"
  by (simp add: requirePool_def)

section \<open>Identifiers\<close>

definition topupTransferId :: "'w services \<Rightarrow> string \<Rightarrow> string" where
  "topupTransferId sv reference = take 32 (sv_sha256 sv (''bis:paystack-topup:v2:'' @ reference))"

definition intelligenceAssessmentTransferId :: "'w services \<Rightarrow> string \<Rightarrow> string" where
  "intelligenceAssessmentTransferId sv billingEventId =
     take 32 (sv_sha256 sv (''bis:intelligence-assessment:v1:'' @ billingEventId))"

definition paymentReference :: "string \<Rightarrow> string" where
  "paymentReference uuid = ''BIS-TOP-'' @ map to_upper (take 24 (filter (\<lambda>c. c \<noteq> CHR ''-'') uuid))"

definition tenantAccount :: "string \<Rightarrow> string" where
  "tenantAccount tenantId = ACCOUNT_TENANT_PREFIX @ tenantId"

section \<open>HTTP helpers\<close>

text \<open>\<open>parseProviderEnvelope\<close>.\<close>

definition parseProviderEnvelope :: "'a envelope \<Rightarrow> string \<Rightarrow> error + 'a" where
  "parseProviderEnvelope body op =
     (case body of
        NotObject \<Rightarrow> Inl (providerFailure (''Paystack '' @ op @ '' returned an invalid response''))
      | Envelope st data \<Rightarrow>
          (case data of
             Some d \<Rightarrow> if st then Inr d
                       else Inl (providerFailure (''Paystack '' @ op @ '' did not confirm the request''))
           | None \<Rightarrow> Inl (providerFailure (''Paystack '' @ op @ '' did not confirm the request''))))"

text \<open>\<open>paystackRequest\<close>, given the reply that \<open>fetch\<close> through the circuit breaker produced.\<close>

definition paystackReply :: "string \<Rightarrow> 'a envelope json reply \<Rightarrow> error + 'a" where
  "paystackReply path r =
     (case r of
        NoResponse \<Rightarrow> Inl (serviceUnavailable ''Paystack is unavailable; payment settlement was not attempted'')
      | Response status body \<Rightarrow>
          if \<not> http_ok status then
            (if 500 \<le> status \<or> status = 429
             then Inl (serviceUnavailable ''Paystack is temporarily unavailable; retry through reconciliation'')
             else Inl (providerFailure ''Paystack rejected the payment operation''))
          else (case body of
                  NotJson \<Rightarrow> Inl (providerFailure ''Paystack returned a non-JSON response'')
                | Json b \<Rightarrow> parseProviderEnvelope b path))"

definition paystackRequest ::
  "'w services \<Rightarrow> string \<Rightarrow> ('w \<Rightarrow> 'a envelope json reply \<times> 'w) \<Rightarrow> ('w billdb, 'a) act" where
  "paystackRequest sv path fetch s =
     (if \<not> sv_paystackSecretKey sv
      then (Inl (serviceUnavailable ''Paystack settlement is not configured''), s)
      else (case fetch (b_world s) of (r, w) \<Rightarrow> (paystackReply path r, s\<lparr>b_world := w\<rparr>)))"

definition tigerBeetlePost ::
  "'w services \<Rightarrow> ('w \<Rightarrow> unit reply \<times> 'w) \<Rightarrow> ('w billdb, unit) act" where
  "tigerBeetlePost sv fetch s =
     (if \<not> sv_tigerBeetleUrl sv
      then (Inl (serviceUnavailable ''TigerBeetle settlement is not configured''), s)
      else (case fetch (b_world s) of (r, w) \<Rightarrow>
              (case r of
                 NoResponse \<Rightarrow> (Inl (serviceUnavailable ''TigerBeetle is unavailable; no settlement decision was finalized''), s\<lparr>b_world := w\<rparr>)
               | Response status _ \<Rightarrow>
                   if http_ok status then (Inr (), s\<lparr>b_world := w\<rparr>)
                   else (Inl (serviceUnavailable ''TigerBeetle rejected the settlement request; reconciliation is required''), s\<lparr>b_world := w\<rparr>))))"

definition tigerBeetleGet :: "'w services \<Rightarrow> ('w \<Rightarrow> 'a json reply) \<Rightarrow> ('w billdb, 'a) act" where
  "tigerBeetleGet sv fetch s =
     (if \<not> sv_tigerBeetleUrl sv
      then (Inl (serviceUnavailable ''TigerBeetle settlement is not configured''), s)
      else (case fetch (b_world s) of
              NoResponse \<Rightarrow> (Inl (serviceUnavailable ''TigerBeetle is unavailable; no ledger balance can be represented''), s)
            | Response status body \<Rightarrow>
                if \<not> http_ok status
                then (Inl (serviceUnavailable ''TigerBeetle rejected the ledger balance query; the debit was not attempted''), s)
                else (case body of
                        NotJson \<Rightarrow> (Inl (serviceUnavailable ''TigerBeetle returned an invalid ledger balance response''), s)
                      | Json x \<Rightarrow> (Inr x, s))))"

section \<open>Balances and accounts\<close>

definition or_zero :: "int option \<Rightarrow> int" where
  "or_zero x = (case x of None \<Rightarrow> 0 | Some n \<Rightarrow> n)"

text \<open>Available = posted credits minus posted and pending debits; a missing account has nothing.\<close>

definition available_of :: "account option \<Rightarrow> int" where
  "available_of a = (case a of None \<Rightarrow> 0
     | Some r \<Rightarrow> or_zero (la_credits_posted r) - or_zero (la_debits_posted r) - or_zero (la_debits_pending r))"

definition getTenantAvailableBalanceKobo :: "'w services \<Rightarrow> string \<Rightarrow> ('w billdb, int) act" where
  "getTenantAvailableBalanceKobo sv tenantId =
     seq_act (tigerBeetleGet sv (sv_getAccount sv (tenantAccount tenantId))) (\<lambda>acc.
       let available = available_of acc in
       require (isSafeInteger available \<and> 0 \<le> available)
         (serviceUnavailable ''TigerBeetle returned an invalid available balance; the debit was not attempted'')
       (ret available))"

definition assertSufficientLedgerBalance :: "'w services \<Rightarrow> string \<Rightarrow> int \<Rightarrow> ('w billdb, int) act" where
  "assertSufficientLedgerBalance sv tenantId amountKobo =
     seq_act (getTenantAvailableBalanceKobo sv tenantId) (\<lambda>available.
       require (amountKobo \<le> available) (InsufficientFunds tenantId amountKobo available) (ret available))"

definition accountRequests :: "string \<Rightarrow> accountReq list" where
  "accountRequests tenantId =
     [\<lparr>ac_id = ACCOUNT_REVENUE, ac_ledger = LEDGER_NGN, ac_code = 2, ac_flags = 0, ac_user_data_128 = None\<rparr>,
      \<lparr>ac_id = tenantAccount tenantId, ac_ledger = LEDGER_NGN, ac_code = 1, ac_flags = 0, ac_user_data_128 = Some tenantId\<rparr>]"

definition ensureLedgerAccounts :: "'w services \<Rightarrow> string \<Rightarrow> ('w billdb, unit) act" where
  "ensureLedgerAccounts sv tenantId = tigerBeetlePost sv (sv_postAccounts sv (accountRequests tenantId))"

definition asAmount :: "int \<Rightarrow> error + int" where
  "asAmount v = (if isSafeInteger v \<and> 0 < v then Inr v else Inl (PlainError ''stored payment amount is invalid''))"

text \<open>\<open>debitTenantForIntelligenceAssessment\<close>.\<close>

definition assessmentTransfer :: "'w services \<Rightarrow> int \<Rightarrow> string \<Rightarrow> int \<Rightarrow> transfer" where
  "assessmentTransfer sv tenantId billingEventId amountKobo =
     \<lparr>tr_id = intelligenceAssessmentTransferId sv billingEventId,
      tr_debit_account_id = tenantAccount (show_int tenantId), tr_credit_account_id = ACCOUNT_REVENUE,
      tr_amount = amountKobo, tr_ledger = LEDGER_NGN, tr_code = 3, tr_flags = 0,
      tr_user_data_128 = billingEventId, tr_user_data_64 = None\<rparr>"

definition debitTenantForIntelligenceAssessment ::
  "'w services \<Rightarrow> int \<Rightarrow> string \<Rightarrow> int \<Rightarrow> ('w billdb, string) act" where
  "debitTenantForIntelligenceAssessment sv tenantId billingEventId amountKobo =
     require (0 < tenantId \<and> isSafeInteger amountKobo \<and> 0 < amountKobo)
       (TRPCError BAD_REQUEST ''A valid tenant and positive NGN assessment charge are required'')
     (seq_act (ensureLedgerAccounts sv (show_int tenantId)) (\<lambda>_.
      seq_act (assertSufficientLedgerBalance sv (show_int tenantId) amountKobo) (\<lambda>_.
      seq_act (tigerBeetlePost sv (sv_postTransfers sv [assessmentTransfer sv tenantId billingEventId amountKobo])) (\<lambda>_.
      ret (intelligenceAssessmentTransferId sv billingEventId)))))"

section \<open>What the code relies on about TigerBeetle\<close>

text \<open>
  \<open>posted w\<close> is the list of transfers the ledger holds. Posting one transfer leaves the list
  alone or appends the transfer, and does the latter only when no transfer with its identifier is
  there. Nothing is assumed about the answer: a request that fails may have been applied, and a
  2xx reply does not mean that the transfer is posted, because the proxy reports the outcome of
  each transfer in the body of a 200 (\<open>services/payment-rails/internal/tigerbeetle/client.go\<close>), which
  \<open>tigerBeetlePost\<close> does not read. Nothing else the billing code calls changes the list.
\<close>

definition ledger_laws :: "'w services \<Rightarrow> ('w \<Rightarrow> transfer list) \<Rightarrow> bool" where
  "ledger_laws sv posted \<longleftrightarrow>
     (\<forall>t w. posted (snd (sv_postTransfers sv [t] w)) = posted w \<or>
            (tr_id t \<notin> tr_id ` set (posted w) \<and> posted (snd (sv_postTransfers sv [t] w)) = posted w @ [t])) \<and>
     (\<forall>as w. posted (snd (sv_postAccounts sv as w)) = posted w) \<and>
     (\<forall>r w. posted (snd (sv_initialize sv r w)) = posted w)"

text \<open>What the code knows after a post: the ledger, asked in state \<open>w\<close> for one transfer, answered 2xx and went to state \<open>w'\<close>.\<close>

definition acknowledged :: "'w services \<Rightarrow> transfer \<Rightarrow> 'w \<Rightarrow> 'w \<Rightarrow> bool" where
  "acknowledged sv t w w' \<longleftrightarrow> snd (sv_postTransfers sv [t] w) = w' \<and>
     (case fst (sv_postTransfers sv [t] w) of NoResponse \<Rightarrow> False | Response st _ \<Rightarrow> http_ok st)"

lemma law_post:
  "ledger_laws sv posted \<Longrightarrow>
     posted (snd (sv_postTransfers sv [t] w)) = posted w \<or>
     (tr_id t \<notin> tr_id ` set (posted w) \<and> posted (snd (sv_postTransfers sv [t] w)) = posted w @ [t])"
  unfolding ledger_laws_def by blast

lemma law_accounts: "ledger_laws sv posted \<Longrightarrow> posted (snd (sv_postAccounts sv as w)) = posted w"
  and law_initialize: "ledger_laws sv posted \<Longrightarrow> posted (snd (sv_initialize sv r w)) = posted w"
  unfolding ledger_laws_def by blast+

section \<open>Facts about the helpers\<close>

text \<open>The helpers change nothing but the world, and the world only through the call they make.\<close>

lemma tigerBeetlePost_cases:
  assumes "tigerBeetlePost sv fetch s = (r, t)"
  obtains (unconfigured) e where "\<not> sv_tigerBeetleUrl sv" "r = Inl e" "t = s"
    | (fails) e where "r = Inl e" "t = s\<lparr>b_world := snd (fetch (b_world s))\<rparr>"
    | (accepted) st u where "r = Inr ()" "t = s\<lparr>b_world := snd (fetch (b_world s))\<rparr>"
        "fst (fetch (b_world s)) = Response st u" "http_ok st" "sv_tigerBeetleUrl sv"
  using assms by (auto simp: tigerBeetlePost_def split: if_splits prod.splits reply.splits)

lemma tigerBeetlePost_error: "tigerBeetlePost sv fetch s = (Inl e, t) \<Longrightarrow> error_code e = Some SERVICE_UNAVAILABLE"
  by (auto simp: tigerBeetlePost_def serviceUnavailable_def error_code_def split: if_splits prod.splits reply.splits)

lemma tigerBeetleGet_state: "tigerBeetleGet sv fetch s = (r, t) \<Longrightarrow> t = s"
  by (auto simp: tigerBeetleGet_def split: if_splits reply.splits json.splits)

lemma tigerBeetleGet_error: "tigerBeetleGet sv fetch s = (Inl e, t) \<Longrightarrow> error_code e = Some SERVICE_UNAVAILABLE"
  by (auto simp: tigerBeetleGet_def serviceUnavailable_def error_code_def split: if_splits reply.splits json.splits)

lemma paystackRequest_cases:
  assumes "paystackRequest sv path fetch s = (r, t)"
  obtains (unconfigured) e where "r = Inl e" "t = s"
    | (answered) "t = s\<lparr>b_world := snd (fetch (b_world s))\<rparr>" "r = paystackReply path (fst (fetch (b_world s)))"
  using assms by (auto simp: paystackRequest_def split: if_splits prod.splits)

lemma available_state: "getTenantAvailableBalanceKobo sv tid s = (r, t) \<Longrightarrow> t = s"
  by (auto simp: getTenantAvailableBalanceKobo_def Let_def elim!: seq_act_cases dest!: tigerBeetleGet_state split: if_splits)

lemma sufficient_state: "assertSufficientLedgerBalance sv tid a s = (r, t) \<Longrightarrow> t = s"
  by (auto simp: assertSufficientLedgerBalance_def elim!: seq_act_cases dest!: available_state split: if_splits)

text \<open>A debit passes the check only when the ledger's own answer covers it.\<close>

lemma sufficient_ok:
  assumes "assertSufficientLedgerBalance sv tid a s = (Inr v, t)"
  shows "\<exists>st acc. sv_getAccount sv (tenantAccount tid) (b_world s) = Response st (Json acc) \<and> http_ok st \<and>
           v = available_of acc \<and> 0 \<le> v \<and> a \<le> v"
proof -
  from assms obtain s' where v: "getTenantAvailableBalanceKobo sv tid s = (Inr v, s')" and le: "a \<le> v"
    by (auto simp: assertSufficientLedgerBalance_def elim!: seq_act_cases split: if_splits)
  then obtain acc s2 where g: "tigerBeetleGet sv (sv_getAccount sv (tenantAccount tid)) s = (Inr acc, s2)"
      and av: "v = available_of acc" "0 \<le> v"
    by (auto simp: getTenantAvailableBalanceKobo_def Let_def elim!: seq_act_cases split: if_splits)
  from g obtain st where "sv_getAccount sv (tenantAccount tid) (b_world s) = Response st (Json acc)" "http_ok st"
    by (auto simp: tigerBeetleGet_def split: if_splits reply.splits json.splits)
  with av le show ?thesis by blast
qed

lemma available_error:
  assumes "getTenantAvailableBalanceKobo sv tid s = (Inl e, t)"
  shows "error_code e = Some SERVICE_UNAVAILABLE"
  using assms by (auto simp: getTenantAvailableBalanceKobo_def Let_def serviceUnavailable_def error_code_def
    elim!: seq_act_cases dest: tigerBeetleGet_error split: if_splits)

text \<open>The only other way to fail is the typed rejection, and it is exact.\<close>

lemma sufficient_error:
  assumes "assertSufficientLedgerBalance sv tid a s = (Inl e, t)"
  shows "error_code e = Some SERVICE_UNAVAILABLE \<or> (\<exists>v. e = InsufficientFunds tid a v \<and> v < a)"
  using assms by (auto simp: assertSufficientLedgerBalance_def elim!: seq_act_cases dest: available_error split: if_splits)

lemma tenantAccount_inject [simp]: "tenantAccount a = tenantAccount b \<longleftrightarrow> a = b"
  by (simp add: tenantAccount_def)

lemma tenantAccount_revenue [simp]: "tenantAccount a \<noteq> ACCOUNT_REVENUE" "ACCOUNT_REVENUE \<noteq> tenantAccount a"
  by (simp_all add: tenantAccount_def ACCOUNT_REVENUE_def ACCOUNT_TENANT_PREFIX_def)

end
