(* ===== verification/Billing_Settlement.thy ===== *)
theory Billing_Settlement
  imports Billing_Ledger
begin

text \<open>
  \<open>server/billingSettlement.ts\<close>: starting a Paystack top-up against a server-created intent,
  the durable intake of webhooks, and the settlement of a payment, cut at the points where the
  source leaves a database transaction or calls a service: \<open>settle\_begin\<close> reads the intent,
  \<open>settle\_verify\<close> asks the provider, \<open>settle\_post\<close> posts the ledger transfer and
  \<open>settle\_finish\<close> records the outcome. \<open>settlePaystackPayment\<close> runs them in that order.
\<close>

definition TOPUP_MINIMUM_KOBO :: int where "TOPUP_MINIMUM_KOBO = 10000"
definition INTENT_TTL_MS :: int where "INTENT_TTL_MS = 30 * 60 * 1000"
definition MAX_WEBHOOK_ATTEMPTS :: nat where "MAX_WEBHOOK_ATTEMPTS = 10"

section \<open>Starting a top-up\<close>

record topupStart =
  ts_tenantId :: int
  ts_initiatedBy :: int
  ts_amountKobo :: int
  ts_email :: string
  ts_callbackUrl :: "string option"
  ts_purpose :: "purpose option"

record topupStarted =
  td_authorizationUrl :: string
  td_accessCode :: string
  td_reference :: string
  td_expiresAt :: int

text \<open>The constraints of \<open>billing\_payment\_intents\<close> (\<open>drizzle/0010\<close>).\<close>

definition intent_insertable :: "'w billdb \<Rightarrow> intent \<Rightarrow> bool" where
  "intent_insertable s i \<longleftrightarrow>
     pi_tenant_id i \<in> set (b_tenants s) \<and> pi_initiated_by i \<in> u_id ` set (b_users s) \<and>
     pi_id i \<notin> pi_id ` set (b_intents s) \<and>
     pi_provider_reference i \<notin> pi_provider_reference ` set (b_intents s) \<and>
     10000 \<le> pi_amount_kobo i \<and> length (pi_customer_email i) \<le> 320 \<and> length (pi_provider_reference i) \<le> 160"

definition insert_intent :: "intent \<Rightarrow> ('w billdb, unit) act" where
  "insert_intent i s = (if intent_insertable s i then (Inr (), s\<lparr>b_intents := b_intents s @ [i]\<rparr>) else (Inl DbError, s))"

definition new_intent :: "env \<Rightarrow> string \<Rightarrow> string \<Rightarrow> topupStart \<Rightarrow> intent" where
  "new_intent e uuid reference input =
     \<lparr>pi_id = uuid, pi_tenant_id = ts_tenantId input, pi_initiated_by = ts_initiatedBy input,
      pi_provider_reference = reference, pi_amount_kobo = ts_amountKobo input, pi_currency = ''NGN'',
      pi_customer_email = toLowerCase (ts_email input),
      pi_purpose = (case ts_purpose input of None \<Rightarrow> Prepaid_credit | Some p \<Rightarrow> p), pi_status = Initializing,
      pi_access_code = None, pi_initialized_at = None, pi_verified_at = None, pi_credited_at = None,
      pi_expires_at = e_now e + INTENT_TTL_MS\<rparr>"

definition initializeRequestOf :: "intent \<Rightarrow> string option \<Rightarrow> initializeRequest" where
  "initializeRequestOf i callbackUrl =
     \<lparr>ir_email = pi_customer_email i, ir_amount = pi_amount_kobo i, ir_currency = ''NGN'',
      ir_reference = pi_provider_reference i, ir_callback_url = callbackUrl, ir_intent_id = pi_id i,
      ir_purpose = pi_purpose i\<rparr>"

definition initializing_intent :: "string \<Rightarrow> intent \<Rightarrow> bool" where
  "initializing_intent uuid i \<longleftrightarrow> pi_id i = uuid \<and> pi_status i = Initializing"

definition mark_pending :: "env \<Rightarrow> string \<Rightarrow> string \<Rightarrow> ('w billdb, unit) act" where
  "mark_pending e uuid accessCode s =
     (if 160 < length accessCode \<and> (\<exists>i \<in> set (b_intents s). initializing_intent uuid i) then (Inl DbError, s)
      else (Inr (), s\<lparr>b_intents := lupdate (initializing_intent uuid)
              (\<lambda>i. i\<lparr>pi_status := Intent_pending, pi_access_code := Some accessCode, pi_initialized_at := Some (e_now e)\<rparr>)
              (b_intents s)\<rparr>))"

definition mark_failed :: "string \<Rightarrow> 'w billdb \<Rightarrow> 'w billdb" where
  "mark_failed uuid s = s\<lparr>b_intents := lupdate (initializing_intent uuid) (\<lambda>i. i\<lparr>pi_status := Intent_failed\<rparr>) (b_intents s)\<rparr>"

text \<open>\<open>uuid1\<close> and \<open>uuid2\<close> are the two random UUIDs: the intent's id and the source of its reference.\<close>

definition startPaystackTopup ::
  "'w services \<Rightarrow> env \<Rightarrow> string \<Rightarrow> string \<Rightarrow> topupStart \<Rightarrow> ('w billdb, topupStarted) act" where
  "startPaystackTopup sv e uuid1 uuid2 input =
     require (0 < ts_tenantId input) (TRPCError BAD_REQUEST ''A valid tenant is required'')
     (require (0 < ts_initiatedBy input) (TRPCError UNAUTHORIZED ''An authenticated payer is required'')
     (require (isSafeInteger (ts_amountKobo input) \<and> TOPUP_MINIMUM_KOBO \<le> ts_amountKobo input)
        (TRPCError BAD_REQUEST ''Top-up amount is below the approved minimum'')
     (requirePool e ''Durable payment-intent storage is unavailable''
     (let reference = paymentReference uuid2; i = new_intent e uuid1 reference input in
      seq_act (insert_intent i) (\<lambda>_.
      catch_act
        (seq_act (paystackRequest sv ''/transaction/initialize'' (sv_initialize sv (initializeRequestOf i (ts_callbackUrl input)))) (\<lambda>result.
         require (in_reference result = reference \<and> in_authorization_url result \<noteq> [] \<and> in_access_code result \<noteq> [])
           (providerFailure ''Paystack initialization did not preserve the server-created payment reference'')
         (seq_act (mark_pending e uuid1 (in_access_code result)) (\<lambda>_.
          ret \<lparr>td_authorizationUrl = in_authorization_url result, td_accessCode = in_access_code result,
               td_reference = reference, td_expiresAt = pi_expires_at i\<rparr>))))
        (\<lambda>err t. (Inl err, mark_failed uuid1 t)))))))"

section \<open>Webhook intake\<close>

record storedWebhook =
  sw_duplicate :: bool
  sw_eventHash :: string

text \<open>A webhook body's usable event type (at most 80 characters) and reference (at most 160).\<close>

definition bounded :: "nat \<Rightarrow> string option \<Rightarrow> string option" where
  "bounded n x = (case x of None \<Rightarrow> None | Some v \<Rightarrow> if length v \<le> n then Some v else None)"

text \<open>
  The insert of a new event (\<open>ON CONFLICT DO NOTHING\<close>: whether a row was written), and the statement after it, which
  is to reduce the stored payload: \<open>jsonb\_build\_object\<close> takes arguments of any type, so PostgreSQL cannot determine the type of
  the parameters \<open>$2\<close> and \<open>$3\<close> and rejects the statement.
\<close>

definition insert_webhook :: "env \<Rightarrow> string \<Rightarrow> string \<Rightarrow> string option \<Rightarrow> string \<Rightarrow> ('w billdb, bool) act" where
  "insert_webhook e uuid eventType reference eventHash s =
     (if eventHash \<in> we_payload_sha256 ` set (b_webhooks s) then (Inr False, s)
      else if uuid \<in> we_id ` set (b_webhooks s) then (Inl DbError, s)
      else (Inr True, s\<lparr>b_webhooks := b_webhooks s @ [\<lparr>we_id = uuid, we_event_type = eventType,
              we_provider_reference = reference, we_payload_sha256 = eventHash, we_received_at = e_now e,
              we_processed_at = None, we_status = Received, we_attempt_count = 0, we_next_attempt_at = None,
              we_last_error_code = None, we_last_error_at = None\<rparr>]\<rparr>))"

definition minimise_payload :: "string \<Rightarrow> ('w billdb, unit) act" where
  "minimise_payload uuid = throw DbError"

definition recordPaystackWebhook ::
  "'w services \<Rightarrow> env \<Rightarrow> string \<Rightarrow> string \<Rightarrow> webhookBody \<Rightarrow> ('w billdb, storedWebhook) act" where
  "recordPaystackWebhook sv e uuid rawBody event =
     requirePool e ''Durable webhook storage is unavailable; webhook was not accepted''
     (case event of
        BodyNotObject \<Rightarrow> throw (TRPCError BAD_REQUEST ''Paystack webhook payload is invalid'')
      | BodyObject ev ref \<Rightarrow>
          (let eventType = bounded 80 ev; eventHash = sv_sha256 sv rawBody in
           require (truthy_str eventType) (TRPCError BAD_REQUEST ''Paystack webhook event type is invalid'')
           (in_transaction
             (seq_act (insert_webhook e uuid (the eventType) (bounded 160 ref) eventHash) (\<lambda>new.
              if \<not> new then ret \<lparr>sw_duplicate = True, sw_eventHash = eventHash\<rparr>
              else seq_act (minimise_payload uuid) (\<lambda>_. ret \<lparr>sw_duplicate = False, sw_eventHash = eventHash\<rparr>))))))"

text \<open>
  \<open>POST /api/webhooks/paystack\<close> (\<open>server/\_core/index.ts\<close>): the status of the response and the
  database left behind. Nothing is stored unless the signature is the HMAC of the raw body.
\<close>

definition is_hex_char :: "char \<Rightarrow> bool" where
  "is_hex_char c \<longleftrightarrow> is_digit_char c \<or> (let n = (of_char (to_lower c) :: nat) in 97 \<le> n \<and> n \<le> 102)"

definition paystackWebhook ::
  "'w services \<Rightarrow> env \<Rightarrow> string \<Rightarrow> string \<Rightarrow> string option \<Rightarrow> 'w billdb \<Rightarrow> int \<times> 'w billdb" where
  "paystackWebhook sv e uuid rawBody signature s =
     (if \<not> sv_paystackSecretKey sv then (503, s)
      else if rawBody = [] then (400, s)
      else (case signature of
              None \<Rightarrow> (401, s)
            | Some sig \<Rightarrow>
                if \<not> (length sig = 128 \<and> list_all is_hex_char sig) then (401, s)
                else if toLowerCase sig \<noteq> sv_hmac512 sv rawBody then (401, s)
                else (case sv_parseBody sv rawBody of
                        None \<Rightarrow> (400, s)
                      | Some body \<Rightarrow>
                          (case recordPaystackWebhook sv e uuid rawBody body s of
                             (Inr _, t) \<Rightarrow> (200, t)
                           | (Inl _, t) \<Rightarrow> (503, t)))))"

section \<open>Settlement\<close>

record settled =
  sd_transferId :: string
  sd_idempotent :: bool
  sd_tenantId :: int
  sd_amountKobo :: int

definition intents_of :: "'w billdb \<Rightarrow> string \<Rightarrow> intent list" where
  "intents_of s reference = filter (\<lambda>i. pi_provider_reference i = reference) (b_intents s)"

datatype settle_begin = Already settled | Eligible intent

definition settle_begin :: "'w services \<Rightarrow> env \<Rightarrow> string \<Rightarrow> ('w billdb, settle_begin) act" where
  "settle_begin sv e reference s =
     (case intents_of s reference of
        [i] \<Rightarrow>
          if pi_status i = Credited then
            (case asAmount (pi_amount_kobo i) of
               Inl err \<Rightarrow> (Inl err, s)
             | Inr a \<Rightarrow> (Inr (Already \<lparr>sd_transferId = topupTransferId sv reference, sd_idempotent = True,
                                       sd_tenantId = pi_tenant_id i, sd_amountKobo = a\<rparr>), s))
          else if pi_status i \<noteq> Intent_pending \<and> pi_status i \<noteq> Verified
          then (Inl (TRPCError PRECONDITION_FAILED ''Payment intent is not eligible for settlement''), s)
          else if pi_expires_at i < e_now e
          then (Inl (TRPCError PRECONDITION_FAILED ''Payment intent has expired''), s)
          else (Inr (Eligible i), s)
      | _ \<Rightarrow> (Inl (TRPCError NOT_FOUND ''No server-created payment intent exists for this reference''), s))"

definition verifiedPaystackTransaction :: "'w services \<Rightarrow> string \<Rightarrow> ('w billdb, paystackTransaction) act" where
  "verifiedPaystackTransaction sv reference =
     seq_act (paystackRequest sv (''/transaction/verify/'' @ reference) (\<lambda>w. (sv_verify sv reference w, w))) (\<lambda>tx.
     require (px_status tx = ''success'' \<and> px_reference tx = reference)
       (providerFailure ''Paystack did not confirm a successful transaction for the expected reference'')
     (require (is_safe_rat (px_amount tx) \<and> 0 < px_amount tx \<and> px_currency tx = Some ''NGN'')
       (providerFailure ''Paystack transaction amount or currency is invalid'')
     (ret tx)))"

text \<open>The provider's transaction must be the intent's, to the kobo; the result is the amount and the channel.\<close>

definition settle_verify :: "'w services \<Rightarrow> string \<Rightarrow> intent \<Rightarrow> ('w billdb, int \<times> string) act" where
  "settle_verify sv reference i =
     seq_act (verifiedPaystackTransaction sv reference) (\<lambda>tx.
     case asAmount (pi_amount_kobo i) of
       Inl err \<Rightarrow> throw err
     | Inr expectedAmount \<Rightarrow>
         require (px_amount tx = of_int expectedAmount \<and> px_currency tx = Some (pi_currency i))
           (providerFailure ''Paystack transaction does not match the server-created amount and currency'')
         (ret (expectedAmount, (case px_channel tx of None \<Rightarrow> ''paystack'' | Some c \<Rightarrow> c))))"

definition topupTransfer :: "'w services \<Rightarrow> string \<Rightarrow> int \<Rightarrow> int \<Rightarrow> transfer" where
  "topupTransfer sv reference tenantId amount =
     \<lparr>tr_id = topupTransferId sv reference, tr_debit_account_id = ACCOUNT_REVENUE,
      tr_credit_account_id = tenantAccount (show_int tenantId), tr_amount = amount, tr_ledger = LEDGER_NGN,
      tr_code = 2, tr_flags = 0, tr_user_data_128 = reference, tr_user_data_64 = None\<rparr>"

definition settle_post :: "'w services \<Rightarrow> string \<Rightarrow> intent \<Rightarrow> int \<Rightarrow> ('w billdb, string) act" where
  "settle_post sv reference i amount =
     seq_act (ensureLedgerAccounts sv (show_int (pi_tenant_id i))) (\<lambda>_.
     seq_act (tigerBeetlePost sv (sv_postTransfers sv [topupTransfer sv reference (pi_tenant_id i) amount])) (\<lambda>_.
     ret (topupTransferId sv reference)))"

definition open_intent :: "string \<Rightarrow> intent \<Rightarrow> bool" where
  "open_intent uuid i \<longleftrightarrow> pi_id i = uuid \<and> (pi_status i = Intent_pending \<or> pi_status i = Verified)"

definition credit_intent :: "env \<Rightarrow> intent \<Rightarrow> intent" where
  "credit_intent e i = i\<lparr>pi_status := Credited,
     pi_verified_at := (case pi_verified_at i of None \<Rightarrow> Some (e_now e) | v \<Rightarrow> v), pi_credited_at := Some (e_now e)\<rparr>"

text \<open>
  The upsert of \<open>billing\_topups\<close>, whose \<open>amountKobo\<close> is a 32-bit integer column and whose
  \<open>channel\<close> has 64 characters.
\<close>

definition upsert_topup :: "env \<Rightarrow> string \<Rightarrow> string \<Rightarrow> int \<Rightarrow> string \<Rightarrow> string \<Rightarrow> ('w billdb, unit) act" where
  "upsert_topup e tenantId reference amount channel transferId s =
     (if MAX_INT32 < amount \<or> 64 < length channel \<or> 64 < length transferId \<or> 64 < length tenantId \<or> 256 < length reference
      then (Inl DbError, s)
      else if reference \<in> to_reference ` set (rows (b_topups s))
      then (Inr (), s\<lparr>b_topups := tupdate (\<lambda>r. to_reference r = reference) (\<lambda>r. r\<lparr>to_tbTransferId := Some transferId\<rparr>) (b_topups s)\<rparr>)
      else (Inr (), s\<lparr>b_topups := tinsert (\<lambda>n. \<lparr>to_id = n, to_tenantId = tenantId, to_reference = reference,
              to_amountKobo = amount, to_channel = channel, to_tbTransferId = Some transferId, to_verifiedAt = e_now e\<rparr>) (b_topups s)\<rparr>))"

definition settle_finish ::
  "env \<Rightarrow> string \<Rightarrow> intent \<Rightarrow> int \<Rightarrow> string \<Rightarrow> string \<Rightarrow> ('w billdb, settled) act" where
  "settle_finish e reference i amount channel transferId s =
     (if length (filter (open_intent (pi_id i)) (b_intents s)) \<noteq> 1
      then (Inl (serviceUnavailable ''Ledger transfer was accepted but payment settlement state requires reconciliation''),
            s\<lparr>b_intents := lupdate (open_intent (pi_id i)) (credit_intent e) (b_intents s)\<rparr>)
      else seq_act (upsert_topup e (show_int (pi_tenant_id i)) reference amount channel transferId)
             (\<lambda>_. ret \<lparr>sd_transferId = transferId, sd_idempotent = False, sd_tenantId = pi_tenant_id i, sd_amountKobo = amount\<rparr>)
             (s\<lparr>b_intents := lupdate (open_intent (pi_id i)) (credit_intent e) (b_intents s)\<rparr>))"

definition settlePaystackPayment :: "'w services \<Rightarrow> env \<Rightarrow> string \<Rightarrow> ('w billdb, settled) act" where
  "settlePaystackPayment sv e reference =
     requirePool e ''Durable payment settlement storage is unavailable''
     (seq_act (settle_begin sv e reference) (\<lambda>b.
      case b of
        Already r \<Rightarrow> ret r
      | Eligible i \<Rightarrow>
          seq_act (settle_verify sv reference i) (\<lambda>(amount, channel).
          seq_act (settle_post sv reference i amount) (\<lambda>transferId.
          settle_finish e reference i amount channel transferId))))"

section \<open>Webhook processing\<close>

definition set_webhook :: "string \<Rightarrow> (webhookEvent \<Rightarrow> webhookEvent) \<Rightarrow> 'w billdb \<Rightarrow> 'w billdb" where
  "set_webhook k f s = s\<lparr>b_webhooks := lupdate (\<lambda>w. we_id w = k) f (b_webhooks s)\<rparr>"

text \<open>The claiming transaction: \<open>None\<close> when there is nothing left to do.\<close>

definition claim_webhook :: "env \<Rightarrow> string \<Rightarrow> ('w billdb, webhookEvent option) act" where
  "claim_webhook e k s =
     (case filter (\<lambda>w. we_id w = k) (b_webhooks s) of
        [w] \<Rightarrow>
          if we_status w = Processed then (Inr None, s)
          else if MAX_WEBHOOK_ATTEMPTS \<le> we_attempt_count w
          then (Inr None, set_webhook k (\<lambda>w. w\<lparr>we_status := Terminal_failure, we_last_error_code := Some ''max_attempts'',
                                            we_last_error_at := Some (e_now e)\<rparr>) s)
          else (Inr (Some w), set_webhook k (\<lambda>w. w\<lparr>we_status := Processing, we_attempt_count := we_attempt_count w + 1\<rparr>) s)
      | _ \<Rightarrow> (Inl (PlainError ''stored payment webhook is missing''), s))"

definition mark_processed :: "env \<Rightarrow> string \<Rightarrow> 'w billdb \<Rightarrow> 'w billdb" where
  "mark_processed e k = set_webhook k (\<lambda>w. w\<lparr>we_status := Processed, we_processed_at := Some (e_now e), we_last_error_code := None\<rparr>)"

definition retryable :: "error \<Rightarrow> bool" where
  "retryable err \<longleftrightarrow> error_code err = Some SERVICE_UNAVAILABLE"

text \<open>
  The update that is to close or postpone a failed event. Its parameter \<open>$2\<close> is assigned to a \<open>varchar\<close>
  column and compared as \<open>text\<close> in the \<open>CASE\<close>, which PostgreSQL rejects (inconsistent types deduced for
  the parameter), so the event stays \<open>processing\<close> and the caller gets the database's error.
\<close>

definition mark_webhook_failure :: "env \<Rightarrow> string \<Rightarrow> error \<Rightarrow> ('w billdb, unit) act" where
  "mark_webhook_failure e k err = throw DbError"

definition settles :: "webhookEvent \<Rightarrow> bool" where
  "settles w \<longleftrightarrow> we_event_type w = ''charge.success'' \<and> truthy_str (we_provider_reference w)"

definition processPaystackWebhookEvent :: "'w services \<Rightarrow> env \<Rightarrow> string \<Rightarrow> ('w billdb, unit) act" where
  "processPaystackWebhookEvent sv e k =
     requirePool e ''Durable webhook processing storage is unavailable''
     (seq_act (claim_webhook e k) (\<lambda>c.
      case c of
        None \<Rightarrow> ret ()
      | Some w \<Rightarrow>
          catch_act
            (seq_act (if settles w then seq_act (settlePaystackPayment sv e (the (we_provider_reference w))) (\<lambda>_. ret ()) else ret ()) (\<lambda>_ t.
             (Inr (), mark_processed e k t)))
            (\<lambda>err. seq_act (mark_webhook_failure e k err) (\<lambda>_. if retryable err then throw err else ret ()))))"

definition webhook_due :: "env \<Rightarrow> webhookEvent \<Rightarrow> bool" where
  "webhook_due e w \<longleftrightarrow> (we_status w = Received \<or> we_status w = Retryable_failure) \<and>
     (case we_next_attempt_at w of None \<Rightarrow> True | Some t \<Rightarrow> t \<le> e_now e)"

fun process_webhooks :: "'w services \<Rightarrow> env \<Rightarrow> string list \<Rightarrow> ('w billdb, unit) act" where
  "process_webhooks sv e [] s = (Inr (), s)"
| "process_webhooks sv e (k # ks) s =
     (case processPaystackWebhookEvent sv e k s of
        (Inl err, t) \<Rightarrow> (Inl err, t)
      | (Inr _, t) \<Rightarrow> process_webhooks sv e ks t)"

definition due_webhooks :: "env \<Rightarrow> int \<Rightarrow> 'w billdb \<Rightarrow> webhookEvent list" where
  "due_webhooks e cnt s =
     take (nat (max 1 (min cnt 100))) (sort_key we_received_at (filter (webhook_due e) (b_webhooks s)))"

definition processDuePaystackWebhooks :: "'w services \<Rightarrow> env \<Rightarrow> int \<Rightarrow> ('w billdb, int) act" where
  "processDuePaystackWebhooks sv e cnt =
     requirePool e ''Durable webhook processing storage is unavailable''
     (\<lambda>s. let claimed = due_webhooks e cnt s in
          seq_act (process_webhooks sv e (map we_id claimed)) (\<lambda>_. ret (int (length claimed))) s)"

end
