(* ===== verification/Billing_Router.thy ===== *)
theory Billing_Router
  imports Billing_Settlement Js_Date
begin

text \<open>
  \<open>server/billing.ts\<close>: the commercial billing procedures. \<open>recordDebit\<close> is cut like the
  settlement: \<open>debit\_claim\<close> inserts the durable claim, \<open>debit\_check\<close> creates the accounts and
  compares the available balance, \<open>debit\_post\<close> posts the transfer, \<open>debit\_reconcile\<close> marks the
  claim. The other procedures read the ledger, start and verify top-ups, and export statements.
\<close>

datatype tier = Basic | Standard | Premium

definition tier_name :: "tier \<Rightarrow> string" where
  "tier_name t = (case t of Basic \<Rightarrow> ''basic'' | Standard \<Rightarrow> ''standard'' | Premium \<Rightarrow> ''premium'')"

definition TIER_AMOUNTS :: "tier \<Rightarrow> int" where
  "TIER_AMOUNTS t = (case t of Basic \<Rightarrow> 50000 | Standard \<Rightarrow> 150000 | Premium \<Rightarrow> 500000)"

definition tier_code :: "tier \<Rightarrow> int" where
  "tier_code t = (case t of Basic \<Rightarrow> 1 | Standard \<Rightarrow> 2 | Premium \<Rightarrow> 3)"

definition tb_unavailable :: "string \<Rightarrow> error" where
  "tb_unavailable m = TRPCError SERVICE_UNAVAILABLE m"

definition deterministicTopupTransferId :: "'w services \<Rightarrow> string \<Rightarrow> string" where
  "deterministicTopupTransferId sv reference = take 32 (sv_sha256 sv (''bis:paystack-topup:v2:'' @ reference))"

definition deterministicDebitTransferId :: "'w services \<Rightarrow> string \<Rightarrow> string \<Rightarrow> tier \<Rightarrow> int \<Rightarrow> string" where
  "deterministicDebitTransferId sv tenantId investigationId t amountKobo =
     take 32 (sv_sha256 sv (''bis:investigation-debit:v2:'' @ tenantId @ '':'' @ investigationId @ '':'' @ tier_name t @ '':'' @ show_int amountKobo))"

definition assertBillingTenantAccess :: "int option \<Rightarrow> string \<Rightarrow> ('s, 'a) act \<Rightarrow> ('s, 'a) act" where
  "assertBillingTenantAccess contextTenantId requestedTenantId k =
     require (canonical_id requestedTenantId) (TRPCError BAD_REQUEST ''A canonical tenant identifier is required'')
     (require (contextTenantId = None \<or> show_int (the contextTenantId) = requestedTenantId)
       (TRPCError FORBIDDEN ''Cross-tenant billing access is denied'') k)"

definition assertVerifiedTopupBinding ::
  "string \<Rightarrow> string \<Rightarrow> string \<Rightarrow> string option \<Rightarrow> ('s, 'a) act \<Rightarrow> ('s, 'a) act" where
  "assertVerifiedTopupBinding expectedReference expectedTenantId verifiedReference verifiedTenantId k =
     require (verifiedReference = expectedReference) (TRPCError BAD_REQUEST ''Paystack reference mismatch'')
     (require (verifiedTenantId = Some expectedTenantId)
       (TRPCError FORBIDDEN ''The verified payment is not bound to this tenant'') k)"

section \<open>Ledger calls of this module\<close>

definition tbPost :: "'w services \<Rightarrow> ('w \<Rightarrow> unit reply \<times> 'w) \<Rightarrow> ('w billdb, unit) act" where
  "tbPost sv fetch s =
     (if \<not> sv_tigerBeetleUrl sv
      then (Inl (tb_unavailable ''TigerBeetle is not configured; commercial ledger operations are disabled''), s)
      else (case fetch (b_world s) of (r, w) \<Rightarrow>
              (case r of
                 NoResponse \<Rightarrow> (Inl (tb_unavailable ''TigerBeetle is unavailable; the ledger operation was not finalized''), s\<lparr>b_world := w\<rparr>)
               | Response status _ \<Rightarrow>
                   if http_ok status then (Inr (), s\<lparr>b_world := w\<rparr>)
                   else (Inl (tb_unavailable ''TigerBeetle rejected the ledger operation; reconciliation is required''), s\<lparr>b_world := w\<rparr>))))"

definition tbGet :: "'w services \<Rightarrow> ('w \<Rightarrow> 'a json reply) \<Rightarrow> ('w billdb, 'a) act" where
  "tbGet sv fetch s =
     (if \<not> sv_tigerBeetleUrl sv
      then (Inl (tb_unavailable ''TigerBeetle is not configured; commercial ledger operations are disabled''), s)
      else (case fetch (b_world s) of
              NoResponse \<Rightarrow> (Inl (tb_unavailable ''TigerBeetle is unavailable; no ledger balance can be represented''), s)
            | Response status body \<Rightarrow>
                if \<not> http_ok status then (Inl (tb_unavailable ''TigerBeetle rejected the ledger query''), s)
                else (case body of
                        NotJson \<Rightarrow> (Inl (tb_unavailable ''TigerBeetle returned an invalid ledger response''), s)
                      | Json x \<Rightarrow> (Inr x, s))))"

definition ensureAccounts :: "'w services \<Rightarrow> string \<Rightarrow> ('w billdb, unit) act" where
  "ensureAccounts sv tenantId = tbPost sv (sv_postAccounts sv (accountRequests tenantId))"

definition creditTenantAccount :: "'w services \<Rightarrow> env \<Rightarrow> string \<Rightarrow> int \<Rightarrow> string \<Rightarrow> ('w billdb, string) act" where
  "creditTenantAccount sv e tenantId amountKobo reference =
     seq_act (settlePaystackPayment sv e reference) (\<lambda>settled.
     require (show_int (sd_tenantId settled) = tenantId \<and> sd_amountKobo settled = amountKobo)
       (TRPCError CONFLICT ''Payment settlement differs from the requested tenant or amount'')
     (ret (sd_transferId settled)))"

section \<open>Debits\<close>

record debitInput =
  di_tenantId :: string
  di_investigationId :: string
  di_tier :: tier
  di_amountKobo :: "int option"

definition debit_input_ok :: "debitInput \<Rightarrow> bool" where
  "debit_input_ok i \<longleftrightarrow> canonical_id (di_tenantId i) \<and>
     1 \<le> length (di_investigationId i) \<and> length (di_investigationId i) \<le> 128 \<and>
     (case di_amountKobo i of None \<Rightarrow> True | Some a \<Rightarrow> isSafeInteger a \<and> 0 < a)"

record debitResult =
  dr_transferId :: string
  dr_tenantId :: string
  dr_investigationId :: string
  dr_tier :: tier
  dr_amountKobo :: int
  dr_recorded :: bool
  dr_idempotent :: bool
  dr_pendingReconciliation :: "bool option"

definition debitTransfer :: "'w services \<Rightarrow> string \<Rightarrow> string \<Rightarrow> tier \<Rightarrow> int \<Rightarrow> transfer" where
  "debitTransfer sv tenantId investigationId t amount =
     \<lparr>tr_id = deterministicDebitTransferId sv tenantId investigationId t amount,
      tr_debit_account_id = tenantAccount tenantId, tr_credit_account_id = ACCOUNT_REVENUE, tr_amount = amount,
      tr_ledger = LEDGER_NGN, tr_code = 1, tr_flags = 0, tr_user_data_128 = investigationId,
      tr_user_data_64 = Some (tier_code t)\<rparr>"

definition claim_row :: "int option \<Rightarrow> transfer \<Rightarrow> int \<Rightarrow> tbTransferRow" where
  "claim_row ctxTenant tr n =
     \<lparr>tt_id = n, tt_transferId = tr_id tr, tt_debitAccountId = tr_debit_account_id tr,
      tt_creditAccountId = tr_credit_account_id tr, tt_amount = tr_amount tr, tt_ledger = tr_ledger tr,
      tt_code = tr_code tr, tt_tenantId = ctxTenant, tt_txRef = tr_user_data_128 tr, tt_reconciledAt = None\<rparr>"

text \<open>
  \<open>INSERT \<dots> ON CONFLICT DO NOTHING RETURNING\<close>: whether a row was inserted. Values too long
  for their columns and a context tenant that does not exist are errors of the database.
\<close>

definition insert_claim :: "int option \<Rightarrow> transfer \<Rightarrow> ('w billdb, bool) act" where
  "insert_claim ctxTenant tr s =
     (if 64 < length (tr_debit_account_id tr) \<or> 64 < length (tr_id tr) \<or> 128 < length (tr_user_data_128 tr)
      then (Inl DbError, s)
      else if tr_id tr \<in> tt_transferId ` set (rows (b_claims s)) then (Inr False, s)
      else if (case ctxTenant of None \<Rightarrow> False | Some t \<Rightarrow> t \<notin> set (b_tenants s)) then (Inl DbError, s)
      else (Inr True, s\<lparr>b_claims := tinsert (claim_row ctxTenant tr) (b_claims s)\<rparr>))"

definition find_claim :: "'w billdb \<Rightarrow> string \<Rightarrow> tbTransferRow option" where
  "find_claim s tid = tfind (\<lambda>r. tt_transferId r = tid) (b_claims s)"

definition debit_result :: "debitInput \<Rightarrow> transfer \<Rightarrow> bool \<Rightarrow> bool \<Rightarrow> bool option \<Rightarrow> debitResult" where
  "debit_result input tr rec idem pend =
     \<lparr>dr_transferId = tr_id tr, dr_tenantId = di_tenantId input, dr_investigationId = di_investigationId input,
      dr_tier = di_tier input, dr_amountKobo = tr_amount tr, dr_recorded = rec, dr_idempotent = idem,
      dr_pendingReconciliation = pend\<rparr>"

text \<open>The claim is ours (\<open>Inl ()\<close>), or an earlier attempt's outcome is replayed.\<close>

definition debit_claim :: "int option \<Rightarrow> debitInput \<Rightarrow> transfer \<Rightarrow> ('w billdb, unit + debitResult) act" where
  "debit_claim ctxTenant input tr =
     seq_act (insert_claim ctxTenant tr) (\<lambda>claimed s.
       if claimed then (Inr (Inl ()), s)
       else (case find_claim s (tr_id tr) of
               None \<Rightarrow> (Inl (TRPCError CONFLICT ''Ledger debit claim could not be recovered''), s)
             | Some existing \<Rightarrow>
                 if tt_reconciledAt existing = None
                 then (Inr (Inr (debit_result input tr False True (Some True))), s)
                 else (Inr (Inr (debit_result input tr True True (Some False))), s)))"

text \<open>
  The release of the claim is conditioned on \<open>tenantId = ctx.tenantId\<close>, which is never true for
  the SQL value NULL.
\<close>

definition release_claim :: "int option \<Rightarrow> string \<Rightarrow> 'w billdb \<Rightarrow> 'w billdb" where
  "release_claim ctxTenant tid s = s\<lparr>b_claims :=
     tdelete (\<lambda>r. tt_transferId r = tid \<and> ctxTenant \<noteq> None \<and> tt_tenantId r = ctxTenant) (b_claims s)\<rparr>"

definition is_insufficient :: "error \<Rightarrow> bool" where
  "is_insufficient err \<longleftrightarrow> (case err of InsufficientFunds _ _ _ \<Rightarrow> True | _ \<Rightarrow> False)"

definition debit_check :: "'w services \<Rightarrow> int option \<Rightarrow> string \<Rightarrow> transfer \<Rightarrow> ('w billdb, unit) act" where
  "debit_check sv ctxTenant tenantId tr =
     seq_act (ensureAccounts sv tenantId) (\<lambda>_.
     catch_act (seq_act (assertSufficientLedgerBalance sv tenantId (tr_amount tr)) (\<lambda>_. ret ()))
       (\<lambda>err s. (Inl err, if is_insufficient err then release_claim ctxTenant (tr_id tr) s else s)))"

definition debit_post :: "'w services \<Rightarrow> transfer \<Rightarrow> ('w billdb, unit) act" where
  "debit_post sv tr = tbPost sv (sv_postTransfers sv [tr])"

definition debit_reconcile :: "env \<Rightarrow> debitInput \<Rightarrow> transfer \<Rightarrow> ('w billdb, debitResult) act" where
  "debit_reconcile e input tr s =
     (let P = (\<lambda>r. tt_transferId r = tr_id tr); n = length (tselect P (b_claims s));
          s' = s\<lparr>b_claims := tupdate P (\<lambda>r. r\<lparr>tt_reconciledAt := Some (e_now e)\<rparr>) (b_claims s)\<rparr>
      in if n \<noteq> 1 then (Inl (tb_unavailable ''Ledger debit was accepted but reconciliation state requires operator recovery''), s')
         else (Inr (debit_result input tr True False None), s'))"

text \<open>The body of the procedure once the price is fixed.\<close>

definition debit_body :: "'w services \<Rightarrow> env \<Rightarrow> int option \<Rightarrow> debitInput \<Rightarrow> transfer \<Rightarrow> ('w billdb, debitResult) act" where
  "debit_body sv e ctxTenant input tr =
     seq_act (debit_claim ctxTenant input tr) (\<lambda>c.
     case c of
       Inr r \<Rightarrow> ret r
     | Inl _ \<Rightarrow>
         seq_act (debit_check sv ctxTenant (di_tenantId input) tr) (\<lambda>_.
         seq_act (debit_post sv tr) (\<lambda>_.
         debit_reconcile e input tr)))"

definition recordDebit :: "'w services \<Rightarrow> env \<Rightarrow> ctx \<Rightarrow> debitInput \<Rightarrow> ('w billdb, debitResult) act" where
  "recordDebit sv e c input =
     writeProcedure e c (\<lambda>u.
     zod (debit_input_ok input)
     (assertBillingTenantAccess (c_tenantId c) (di_tenantId input)
     (let price = TIER_AMOUNTS (di_tier input);
          amount = (case di_amountKobo input of None \<Rightarrow> price | Some a \<Rightarrow> a)
      in require (amount = price) (TRPCError FORBIDDEN ''Investigation tier pricing is server controlled'')
         (require (e_dbUp e) (tb_unavailable ''Durable ledger reconciliation storage is unavailable'')
         (debit_body sv e (c_tenantId c) input
            (debitTransfer sv (di_tenantId input) (di_investigationId input) (di_tier input) amount))))))"

section \<open>Balance, pricing, top-ups\<close>

definition getBalance :: "'w services \<Rightarrow> env \<Rightarrow> ctx \<Rightarrow> string \<Rightarrow> ('w billdb, int) act" where
  "getBalance sv e c tenantId =
     protectedProcedure e c (\<lambda>u.
     zod (canonical_id tenantId)
     (assertBillingTenantAccess (c_tenantId c) tenantId
     (seq_act (tbGet sv (sv_getAccount sv (tenantAccount tenantId))) (\<lambda>acc.
      let balance = (case acc of None \<Rightarrow> 0 | Some a \<Rightarrow> or_zero (la_credits_posted a) - or_zero (la_debits_posted a)) in
      require (isSafeInteger balance \<and> 0 \<le> balance) (tb_unavailable ''TigerBeetle returned an invalid posted balance'')
      (ret balance)))))"

definition creditAccount :: "env \<Rightarrow> ctx \<Rightarrow> string \<Rightarrow> int \<Rightarrow> string \<Rightarrow> ('w billdb, unit) act" where
  "creditAccount e c tenantId amountKobo reference =
     writeProcedure e c (\<lambda>u.
     zod (canonical_id tenantId \<and> isSafeInteger amountKobo \<and> 0 < amountKobo \<and> 1 \<le> length reference \<and> length reference \<le> 255)
     (assertBillingTenantAccess (c_tenantId c) tenantId
     (throw (TRPCError FORBIDDEN ''Direct crediting is disabled; use verified payment settlement or four-eyes recovery''))))"

definition getTierPricing :: "env \<Rightarrow> ctx \<Rightarrow> ('w billdb, (string \<times> int \<times> rat) list) act" where
  "getTierPricing e c = protectedProcedure e c (\<lambda>u.
     ret (map (\<lambda>t. (tier_name t, TIER_AMOUNTS t, of_int (TIER_AMOUNTS t) / 100)) [Basic, Standard, Premium]))"

text \<open>\<open>email\_ok\<close> and \<open>url\_ok\<close> are zod's tests of an address and of a URL.\<close>

definition initiateTopUp ::
  "(string \<Rightarrow> bool) \<Rightarrow> (string \<Rightarrow> bool) \<Rightarrow> 'w services \<Rightarrow> env \<Rightarrow> ctx \<Rightarrow> string \<Rightarrow> string \<Rightarrow> string \<Rightarrow> int \<Rightarrow> string \<Rightarrow> string option
     \<Rightarrow> ('w billdb, topupStarted) act" where
  "initiateTopUp email_ok url_ok sv e c uuid1 uuid2 tenantId amountKobo email callbackUrl =
     writeProcedure e c (\<lambda>u.
     zod (canonical_id tenantId \<and> isSafeInteger amountKobo \<and> 10000 \<le> amountKobo \<and> email_ok email \<and> length email \<le> 320 \<and>
          (case callbackUrl of None \<Rightarrow> True | Some x \<Rightarrow> url_ok x))
     (assertBillingTenantAccess (c_tenantId c) tenantId
     (startPaystackTopup sv e uuid1 uuid2
        \<lparr>ts_tenantId = parse_int tenantId, ts_initiatedBy = u_id u, ts_amountKobo = amountKobo, ts_email = email,
         ts_callbackUrl = callbackUrl, ts_purpose = None\<rparr>)))"

text \<open>\<open>/^BIS-TOP-[A-Z0-9]{24}$/\<close>.\<close>

definition is_upper_char :: "char \<Rightarrow> bool" where
  "is_upper_char ch = (let n = (of_char ch :: nat) in 65 \<le> n \<and> n \<le> 90)"

definition topup_reference :: "string \<Rightarrow> bool" where
  "topup_reference r \<longleftrightarrow> take 8 r = ''BIS-TOP-'' \<and> length r = 32 \<and>
     list_all (\<lambda>ch. is_upper_char ch \<or> is_digit_char ch) (drop 8 r)"

definition verifyTopUp :: "'w services \<Rightarrow> env \<Rightarrow> ctx \<Rightarrow> string \<Rightarrow> string \<Rightarrow> ('w billdb, settled) act" where
  "verifyTopUp sv e c tenantId reference =
     writeProcedure e c (\<lambda>u.
     zod (canonical_id tenantId \<and> topup_reference reference)
     (assertBillingTenantAccess (c_tenantId c) tenantId
     (seq_act (settlePaystackPayment sv e reference) (\<lambda>result.
      require (show_int (sd_tenantId result) = tenantId) (TRPCError FORBIDDEN ''The payment intent belongs to a different tenant'')
      (ret result)))))"

section \<open>Statements\<close>

datatype entryFilter = All_entries | Only_debit | Only_credit

record statementEntry =
  se_id :: string
  se_credit :: bool
  se_amountKobo :: int
  se_investigationRef :: "string option"
  se_timestamp :: int

text \<open>\<open>new Date(ns / 1\_000\_000)\<close>, truncated to a millisecond.\<close>

definition getLedger ::
  "'w services \<Rightarrow> env \<Rightarrow> ctx \<Rightarrow> string \<Rightarrow> int \<Rightarrow> entryFilter \<Rightarrow> ('w billdb, statementEntry list) act" where
  "getLedger sv e c tenantId cnt ty =
     protectedProcedure e c (\<lambda>u.
     zod (canonical_id tenantId \<and> 1 \<le> cnt \<and> cnt \<le> 500)
     (assertBillingTenantAccess (c_tenantId c) tenantId
     (seq_act (tbGet sv (sv_getTransfers sv (tenantAccount tenantId) (Some cnt))) (\<lambda>trs.
      ret (filter (\<lambda>x. ty = All_entries \<or> (ty = Only_credit \<longleftrightarrow> se_credit x))
        (map (\<lambda>t. \<lparr>se_id = le_id t, se_credit = (le_code t = 2), se_amountKobo = le_amount t,
               se_investigationRef = (if le_code t = 1 then le_user_data_128 t else None),
               se_timestamp = or_zero (le_timestamp t) div 1000000\<rparr>)
          (case trs of None \<Rightarrow> [] | Some ts \<Rightarrow> ts)))))))"

definition tierNames :: "int \<Rightarrow> string" where
  "tierNames n = (if n = 1 then ''basic'' else if n = 2 then ''standard'' else if n = 3 then ''premium'' else '''')"

text \<open>\<open>(amount / 100).toFixed(2)\<close> of an integer number of kobo.\<close>

definition toFixed2 :: "int \<Rightarrow> string" where
  "toFixed2 n = (if n < 0 then ''-'' else '''') @ show_int (\<bar>n\<bar> div 100) @ ''.'' @ pad 2 (\<bar>n\<bar> mod 100)"

definition export_selects :: "entryFilter \<Rightarrow> int option \<Rightarrow> int option \<Rightarrow> ledgerEntry \<Rightarrow> bool" where
  "export_selects ty from til t \<longleftrightarrow>
     (ty = Only_debit \<longrightarrow> le_code t = 1) \<and> (ty = Only_credit \<longrightarrow> le_code t = 2) \<and>
     (let ts = or_zero (le_timestamp t) * 1000 in
        (or_zero from = 0 \<or> or_zero from \<le> ts) \<and> (or_zero til = 0 \<or> ts \<le> or_zero til))"

definition export_row :: "ledgerEntry \<Rightarrow> error + string list" where
  "export_row t = (case toISOString (or_zero (le_timestamp t) * 1000) of
       Inl err \<Rightarrow> Inl err
     | Inr stamp \<Rightarrow> Inr [le_id t, stamp, if le_code t = 2 then ''credit'' else ''debit'', toFixed2 (le_amount t),
                      (case le_user_data_128 t of None \<Rightarrow> '''' | Some r \<Rightarrow> r), tierNames (or_zero (le_user_data_64 t))])"

fun export_rows :: "ledgerEntry list \<Rightarrow> error + string list list" where
  "export_rows [] = Inr []"
| "export_rows (t # ts) = (case export_row t of Inl err \<Rightarrow> Inl err
     | Inr r \<Rightarrow> (case export_rows ts of Inl err \<Rightarrow> Inl err | Inr rs \<Rightarrow> Inr (r # rs)))"

definition csv_escape :: "string \<Rightarrow> string" where
  "csv_escape v = CHR 0x22 # concat (map (\<lambda>ch. if ch = CHR 0x22 then [CHR 0x22, CHR 0x22] else [ch]) v) @ [CHR 0x22]"

fun join_with :: "string \<Rightarrow> string list \<Rightarrow> string" where
  "join_with sep [] = []"
| "join_with sep [x] = x"
| "join_with sep (x # y # ys) = x @ sep @ join_with sep (y # ys)"

definition export_csv :: "string list list \<Rightarrow> string" where
  "export_csv rs = join_with [CHR 0x0A]
     (''ID,Timestamp,Type,Amount (NGN),Reference,Tier'' # map (\<lambda>r. join_with '','' (map csv_escape r)) rs)"

record exportResult =
  xr_url :: string
  xr_fileKey :: string
  xr_rowCount :: int

definition exportLedger ::
  "'w services \<Rightarrow> env \<Rightarrow> ctx \<Rightarrow> string \<Rightarrow> string \<Rightarrow> int option \<Rightarrow> int option \<Rightarrow> entryFilter \<Rightarrow> ('w billdb, exportResult) act" where
  "exportLedger sv e c uuid tenantId from til ty =
     writeProcedure e c (\<lambda>u.
     zod (canonical_id tenantId)
     (assertBillingTenantAccess (c_tenantId c) tenantId
     (seq_act (tbGet sv (sv_getTransfers sv (tenantAccount tenantId) None)) (\<lambda>trs.
      case export_rows (filter (export_selects ty from til) (case trs of None \<Rightarrow> [] | Some ts \<Rightarrow> ts)) of
        Inl err \<Rightarrow> throw err
      | Inr rs \<Rightarrow>
          let key = ''billing-exports/'' @ tenantId @ ''/'' @ isoDate (e_now e) @ ''-'' @ uuid @ ''.csv'' in
          (case sv_storagePut sv key (export_csv rs) of
             None \<Rightarrow> throw (tb_unavailable ''Ledger export storage is unavailable; no unsigned fallback was generated'')
           | Some url \<Rightarrow> ret \<lparr>xr_url = url, xr_fileKey = key, xr_rowCount = int (length rs)\<rparr>)))))"

end
