(* ===== verification/Billing_Commercial.thy ===== *)
theory Billing_Commercial
  imports Billing_Ledger Js_Date
begin

text \<open>
  \<open>server/billingCommercial.ts\<close>: the plan catalogue, manual contracts, the reservation and
  consumption of entitled checks, and refunds. The constraints of \<open>drizzle/0010\<close> are the checks
  of the insertions. The handlers that open a database transaction are \<open>in\_transaction\<close>;
  \<open>locked\<close> are the entitlements that a concurrent transaction holds, which
  \<open>FOR UPDATE SKIP LOCKED\<close> passes over.
\<close>

definition reservationTtlMs :: int where "reservationTtlMs = 20 * 60 * 1000"

definition requireTenantScope :: "int option \<Rightarrow> int \<Rightarrow> ('s, 'a) act \<Rightarrow> ('s, 'a) act" where
  "requireTenantScope contextTenantId tenantId k =
     require (0 < tenantId) (TRPCError BAD_REQUEST ''A valid tenant is required'')
     (require (contextTenantId = None \<or> contextTenantId = Some tenantId)
       (TRPCError FORBIDDEN ''Cross-tenant commercial access is denied'') k)"

definition poolOrFail :: "env \<Rightarrow> ('s, 'a) act \<Rightarrow> ('s, 'a) act" where
  "poolOrFail e = require (e_dbUp e) (TRPCError SERVICE_UNAVAILABLE ''Commercial billing storage is unavailable'')"

lemma poolOrFail_simp [simp, act_simps]:
  "poolOrFail e k s = (if e_dbUp e then k s else (Inl (TRPCError SERVICE_UNAVAILABLE ''Commercial billing storage is unavailable''), s))"
  by (simp add: poolOrFail_def)

section \<open>Plans\<close>

text \<open>\<open>/^[a-z][a-z0-9\_]{2,63}$/\<close>.\<close>

definition is_lower_char :: "char \<Rightarrow> bool" where
  "is_lower_char ch = (let n = (of_char ch :: nat) in 97 \<le> n \<and> n \<le> 122)"

definition plan_code_ok :: "string \<Rightarrow> bool" where
  "plan_code_ok s \<longleftrightarrow> (case s of [] \<Rightarrow> False
     | ch # cs \<Rightarrow> is_lower_char ch \<and> 2 \<le> length cs \<and> length cs \<le> 63 \<and>
                list_all (\<lambda>x. is_lower_char x \<or> is_digit_char x \<or> x = CHR ''_'') cs)"

record planInput =
  pn_planCode :: string
  pn_displayName :: string
  pn_billingInterval :: interval
  pn_priceKobo :: int
  pn_includedCompletedChecks :: int
  pn_overagePriceKobo :: int

definition plan_input_ok :: "planInput \<Rightarrow> bool" where
  "plan_input_ok i \<longleftrightarrow> plan_code_ok (pn_planCode i) \<and> 3 \<le> length (pn_displayName i) \<and> length (pn_displayName i) \<le> 160 \<and>
     isSafeInteger (pn_priceKobo i) \<and> 0 \<le> pn_priceKobo i \<and>
     0 \<le> pn_includedCompletedChecks i \<and> pn_includedCompletedChecks i \<le> 100000 \<and>
     isSafeInteger (pn_overagePriceKobo i) \<and> 0 \<le> pn_overagePriceKobo i"

text \<open>\<open>ORDER BY price\_kobo, plan\_code\<close>; \<open>collate\<close> is the sort key of the database's collation.\<close>

definition active_plans :: "(string \<Rightarrow> 'k::linorder) \<Rightarrow> 'w billdb \<Rightarrow> plan list" where
  "active_plans collate s =
     sort_key pl_price_kobo (sort_key (\<lambda>p. collate (pl_plan_code p)) (tselect pl_active (b_plans s)))"

definition listPlans :: "(string \<Rightarrow> 'k::linorder) \<Rightarrow> env \<Rightarrow> ctx \<Rightarrow> ('w billdb, plan list) act" where
  "listPlans collate e c = protectedProcedure e c (\<lambda>u. poolOrFail e (\<lambda>s. (Inr (active_plans collate s), s)))"

definition updated_plan :: "planInput \<Rightarrow> plan \<Rightarrow> plan" where
  "updated_plan i p = p\<lparr>pl_display_name := pn_displayName i, pl_billing_interval := pn_billingInterval i,
     pl_price_kobo := pn_priceKobo i, pl_included_completed_checks := pn_includedCompletedChecks i,
     pl_overage_price_kobo := pn_overagePriceKobo i, pl_active := True, pl_version := pl_version p + 1\<rparr>"

definition new_plan :: "planInput \<Rightarrow> int \<Rightarrow> plan" where
  "new_plan i n = \<lparr>pl_id = n, pl_plan_code = pn_planCode i, pl_display_name = pn_displayName i,
     pl_billing_interval = pn_billingInterval i, pl_price_kobo = pn_priceKobo i,
     pl_included_completed_checks = pn_includedCompletedChecks i, pl_overage_price_kobo = pn_overagePriceKobo i,
     pl_active = True, pl_version = 1\<rparr>"

definition upsertPlan :: "env \<Rightarrow> ctx \<Rightarrow> planInput \<Rightarrow> ('w billdb, int \<times> string \<times> int) act" where
  "upsertPlan e c i =
     adminProcedure e c (\<lambda>u. zod (plan_input_ok i) (poolOrFail e (\<lambda>s.
       case tfind (\<lambda>p. pl_plan_code p = pn_planCode i) (b_plans s) of
         Some p \<Rightarrow>
           (Inr (pl_id p, pn_planCode i, pl_version p + 1),
            s\<lparr>b_plans := (tupdate (\<lambda>p. pl_plan_code p = pn_planCode i) (updated_plan i) (b_plans s))
                \<lparr>seq := seq (b_plans s) + 1\<rparr>\<rparr>)
       | None \<Rightarrow> (Inr (seq (b_plans s), pn_planCode i, 1), s\<lparr>b_plans := tinsert (new_plan i) (b_plans s)\<rparr>))))"

section \<open>Subscriptions and entitlements\<close>

definition live :: "subscription \<Rightarrow> bool" where
  "live u \<longleftrightarrow> su_status u = Sub_pending \<or> su_status u = Sub_active \<or> su_status u = Past_due \<or> su_status u = Cancelling"

definition cancel_live :: "env \<Rightarrow> int \<Rightarrow> 'w billdb \<Rightarrow> 'w billdb" where
  "cancel_live e tenantId s = s\<lparr>b_subscriptions :=
     lupdate (\<lambda>u. su_tenant_id u = tenantId \<and> live u)
       (\<lambda>u. u\<lparr>su_status := Cancelled, su_cancelled_at := Some (e_now e)\<rparr>) (b_subscriptions s)\<rparr>"

definition insert_subscription :: "subscription \<Rightarrow> ('w billdb, unit) act" where
  "insert_subscription u s =
     (if su_current_period_end u \<le> su_current_period_start u \<or> su_tenant_id u \<notin> set (b_tenants s) \<or>
         \<not> (\<exists>p \<in> set (rows (b_plans s)). pl_id p = su_plan_id u)
      then (Inl DbError, s)
      else if \<exists>v \<in> set (b_subscriptions s).
              su_id v = su_id u \<or>
              (su_provider v = su_provider u \<and> su_provider_subscription_ref v \<noteq> None \<and>
               su_provider_subscription_ref v = su_provider_subscription_ref u) \<or>
              (su_tenant_id v = su_tenant_id u \<and> live v \<and> live u)
      then (Inl UniqueViolation, s)
      else (Inr (), s\<lparr>b_subscriptions := b_subscriptions s @ [u]\<rparr>))"

definition insert_entitlement :: "entitlement \<Rightarrow> ('w billdb, unit) act" where
  "insert_entitlement n s =
     (if en_total_units n \<le> 0 \<or> en_period_end n \<le> en_period_start n \<or> 160 < length (en_source_reference n) \<or>
         en_tenant_id n \<notin> set (b_tenants s)
      then (Inl DbError, s)
      else if \<exists>m \<in> set (b_entitlements s). en_id m = en_id n \<or> en_source_reference m = en_source_reference n
      then (Inl UniqueViolation, s)
      else (Inr (), s\<lparr>b_entitlements := b_entitlements s @ [n]\<rparr>))"

definition new_entitlement :: "string \<Rightarrow> int \<Rightarrow> string \<Rightarrow> int \<Rightarrow> int \<Rightarrow> int \<Rightarrow> string \<Rightarrow> entitlement" where
  "new_entitlement uuid tenantId subscriptionId units start stop source =
     \<lparr>en_id = uuid, en_tenant_id = tenantId, en_subscription_id = Some subscriptionId, en_total_units = units,
      en_consumed_units = 0, en_reserved_units = 0, en_period_start = start, en_period_end = stop,
      en_status = Ent_active, en_source_reference = source\<rparr>"

record contractInput =
  ci_tenantId :: int
  ci_planCode :: string
  ci_periodStart :: int
  ci_periodEnd :: int
  ci_authorityReference :: string

definition contract_input_ok :: "contractInput \<Rightarrow> bool" where
  "contract_input_ok i \<longleftrightarrow> 0 < ci_tenantId i \<and> plan_code_ok (ci_planCode i) \<and>
     \<bar>ci_periodStart i\<bar> \<le> MAX_TIME \<and> \<bar>ci_periodEnd i\<bar> \<le> MAX_TIME \<and>
     8 \<le> length (ci_authorityReference i) \<and> length (ci_authorityReference i) \<le> 160"

definition find_active_plan :: "string \<Rightarrow> 'w billdb \<Rightarrow> plan option" where
  "find_active_plan code s = tfind (\<lambda>p. pl_plan_code p = code \<and> pl_active p) (b_plans s)"

definition contract_subscription :: "env \<Rightarrow> string \<Rightarrow> int \<Rightarrow> plan \<Rightarrow> contractInput \<Rightarrow> subscription" where
  "contract_subscription e uuid userId p i =
     \<lparr>su_id = uuid, su_tenant_id = ci_tenantId i, su_plan_id = pl_id p, su_provider = Manual_contract,
      su_provider_subscription_ref = Some (ci_authorityReference i), su_status = Sub_active,
      su_current_period_start = ci_periodStart i, su_current_period_end = ci_periodEnd i,
      su_cancel_at_period_end = False, su_cancelled_at = None, su_created_by = userId, su_created_at = e_now e\<rparr>"

definition activate_contract :: "env \<Rightarrow> string \<Rightarrow> string \<Rightarrow> int \<Rightarrow> contractInput \<Rightarrow> ('w billdb, string \<times> int) act" where
  "activate_contract e uuid1 uuid2 userId i s =
     (case find_active_plan (ci_planCode i) s of
        None \<Rightarrow> (Inl (TRPCError NOT_FOUND ''The requested active commercial plan does not exist''), s)
      | Some p \<Rightarrow>
          seq_act (insert_subscription (contract_subscription e uuid1 userId p i)) (\<lambda>_.
          let included = pl_included_completed_checks p in
          if 0 < included then
            (case toISOString (ci_periodStart i) of
               Inl err \<Rightarrow> throw err
             | Inr stamp \<Rightarrow>
                 seq_act (insert_entitlement (new_entitlement uuid2 (ci_tenantId i) uuid1 included (ci_periodStart i) (ci_periodEnd i)
                    (''manual-contract:'' @ ci_authorityReference i @ '':'' @ stamp)))
                 (\<lambda>_. ret (uuid1, included)))
          else ret (uuid1, included)) (cancel_live e (ci_tenantId i) s))"

definition activateManualContract ::
  "env \<Rightarrow> ctx \<Rightarrow> string \<Rightarrow> string \<Rightarrow> contractInput \<Rightarrow> ('w billdb, string \<times> int) act" where
  "activateManualContract e c uuid1 uuid2 i =
     adminProcedure e c (\<lambda>u. zod (contract_input_ok i)
     (require (ci_periodStart i < ci_periodEnd i) (TRPCError BAD_REQUEST ''Contract period end must be later than its start'')
     (poolOrFail e (in_transaction (activate_contract e uuid1 uuid2 (u_id u) i)))))"

section \<open>Reservations\<close>

definition available :: "env \<Rightarrow> int \<Rightarrow> entitlement \<Rightarrow> bool" where
  "available e tenantId n \<longleftrightarrow> en_tenant_id n = tenantId \<and> en_status n = Ent_active \<and>
     en_period_start n \<le> e_now e \<and> e_now e < en_period_end n \<and>
     en_consumed_units n + en_reserved_units n < en_total_units n"

definition pick_entitlement :: "env \<Rightarrow> (string \<Rightarrow> bool) \<Rightarrow> int \<Rightarrow> 'w billdb \<Rightarrow> entitlement option" where
  "pick_entitlement e locked tenantId s =
     (case sort_key en_period_end (filter (\<lambda>n. available e tenantId n \<and> \<not> locked (en_id n)) (b_entitlements s)) of
        [] \<Rightarrow> None | n # _ \<Rightarrow> Some n)"

text \<open>Updates of the two counters, under the CHECK constraints of the table.\<close>

definition units_ok :: "entitlement \<Rightarrow> bool" where
  "units_ok n \<longleftrightarrow> 0 \<le> en_consumed_units n \<and> en_consumed_units n \<le> en_total_units n \<and>
     0 \<le> en_reserved_units n \<and> en_reserved_units n \<le> en_total_units n"

definition move_units :: "string \<Rightarrow> int \<Rightarrow> int \<Rightarrow> ('w billdb, unit) act" where
  "move_units k dres dcons s =
     (let f = (\<lambda>n. n\<lparr>en_reserved_units := en_reserved_units n + dres, en_consumed_units := en_consumed_units n + dcons\<rparr>);
          ns = lupdate (\<lambda>n. en_id n = k) f (b_entitlements s)
      in if \<exists>n \<in> set (b_entitlements s). en_id n = k \<and> \<not> units_ok (f n) then (Inl DbError, s)
         else (Inr (), s\<lparr>b_entitlements := ns\<rparr>))"

definition insert_reservation :: "reservation \<Rightarrow> ('w billdb, unit) act" where
  "insert_reservation r s =
     (if \<not> (\<exists>n \<in> set (b_entitlements s). en_id n = rs_entitlement_id r) \<or> 128 < length (rs_investigation_ref r) then (Inl DbError, s)
      else if \<exists>q \<in> set (b_reservations s). rs_id q = rs_id r \<or>
              (rs_tenant_id q = rs_tenant_id r \<and>
               (rs_idempotency_key q = rs_idempotency_key r \<or> rs_investigation_ref q = rs_investigation_ref r))
      then (Inl UniqueViolation, s)
      else (Inr (), s\<lparr>b_reservations := b_reservations s @ [r]\<rparr>))"

definition insert_usage :: "usageEvent \<Rightarrow> ('w billdb, unit) act" where
  "insert_usage u s =
     (if \<exists>v \<in> set (b_usage s). us_id v = us_id u \<or>
           (us_reservation_id v = us_reservation_id u \<and> us_usage_type v = us_usage_type u)
      then (Inl UniqueViolation, s)
      else (Inr (), s\<lparr>b_usage := b_usage s @ [u]\<rparr>))"

record reserveInput =
  ri_tenantId :: int
  ri_investigationRef :: string
  ri_tier :: res_tier
  ri_idempotencyKey :: string

text \<open>\<open>uuid\_ok\<close> is zod's test of a UUID.\<close>

definition reserve_input_ok :: "(string \<Rightarrow> bool) \<Rightarrow> reserveInput \<Rightarrow> bool" where
  "reserve_input_ok uuid_ok i \<longleftrightarrow> 0 < ri_tenantId i \<and> 1 \<le> length (ri_investigationRef i) \<and> length (ri_investigationRef i) \<le> 128 \<and>
     ri_tier i \<noteq> Tier_intelligence \<and> uuid_ok (ri_idempotencyKey i)"

record reserveResult =
  rr_reservationId :: string
  rr_expiresAt :: int
  rr_idempotent :: bool

definition new_reservation :: "env \<Rightarrow> string \<Rightarrow> int \<Rightarrow> entitlement \<Rightarrow> reserveInput \<Rightarrow> reservation" where
  "new_reservation e uuid userId n i =
     \<lparr>rs_id = uuid, rs_tenant_id = ri_tenantId i, rs_entitlement_id = en_id n, rs_investigation_ref = ri_investigationRef i,
      rs_requested_tier = ri_tier i, rs_status = Reserved, rs_idempotency_key = ri_idempotencyKey i,
      rs_reserved_by = userId, rs_expires_at = e_now e + reservationTtlMs, rs_consumed_at = None\<rparr>"

definition reserve_check ::
  "env \<Rightarrow> (string \<Rightarrow> bool) \<Rightarrow> string \<Rightarrow> int \<Rightarrow> reserveInput \<Rightarrow> ('w billdb, reserveResult) act" where
  "reserve_check e locked uuid userId i s =
     (case filter (\<lambda>r. rs_tenant_id r = ri_tenantId i \<and> rs_idempotency_key r = ri_idempotencyKey i) (b_reservations s) of
        [r] \<Rightarrow>
          if rs_status r = Reserved \<and> e_now e < rs_expires_at r
          then (Inr \<lparr>rr_reservationId = rs_id r, rr_expiresAt = rs_expires_at r, rr_idempotent = True\<rparr>, s)
          else (Inl (TRPCError PRECONDITION_FAILED ''The idempotency key is bound to an unavailable commercial reservation''), s)
      | _ \<Rightarrow>
          (case pick_entitlement e locked (ri_tenantId i) s of
             None \<Rightarrow> (Inl (TRPCError PAYMENT_REQUIRED ''No active commercial entitlement is available for this completed check''), s)
           | Some n \<Rightarrow>
               seq_act (move_units (en_id n) 1 0) (\<lambda>_.
               seq_act (insert_reservation (new_reservation e uuid userId n i)) (\<lambda>_.
               ret \<lparr>rr_reservationId = uuid, rr_expiresAt = e_now e + reservationTtlMs, rr_idempotent = False\<rparr>)) s))"

definition reserveCompletedCheck ::
  "(string \<Rightarrow> bool) \<Rightarrow> env \<Rightarrow> ctx \<Rightarrow> (string \<Rightarrow> bool) \<Rightarrow> string \<Rightarrow> reserveInput \<Rightarrow> ('w billdb, reserveResult) act" where
  "reserveCompletedCheck uuid_ok e c locked uuid i =
     writeProcedure e c (\<lambda>u. zod (reserve_input_ok uuid_ok i)
     (requireTenantScope (c_tenantId c) (ri_tenantId i)
     (poolOrFail e (in_transaction (reserve_check e locked uuid (u_id u) i)))))"

definition consume_reservation :: "env \<Rightarrow> string \<Rightarrow> 'w billdb \<Rightarrow> 'w billdb" where
  "consume_reservation e k s = s\<lparr>b_reservations :=
     lupdate (\<lambda>r. rs_id r = k) (\<lambda>r. r\<lparr>rs_status := Consumed, rs_consumed_at := Some (e_now e)\<rparr>) (b_reservations s)\<rparr>"

definition consume_check :: "env \<Rightarrow> string \<Rightarrow> int \<Rightarrow> int \<Rightarrow> string \<Rightarrow> string \<Rightarrow> ('w billdb, bool) act" where
  "consume_check e uuid userId tenantId reservationId investigationRef s =
     (case filter (\<lambda>r. rs_id r = reservationId \<and> rs_tenant_id r = tenantId \<and> rs_investigation_ref r = investigationRef) (b_reservations s) of
        [r] \<Rightarrow>
          if rs_status r = Consumed then (Inr True, s)
          else if rs_status r \<noteq> Reserved \<or> rs_expires_at r \<le> e_now e
          then (Inl (TRPCError PRECONDITION_FAILED ''Commercial reservation is no longer valid''), s)
          else seq_act (move_units (rs_entitlement_id r) (- 1) 1) (\<lambda>_.
               seq_act (insert_usage \<lparr>us_id = uuid, us_tenant_id = tenantId, us_reservation_id = reservationId,
                  us_usage_type = Completed_authorized_check, us_units = 1, us_investigation_ref = investigationRef,
                  us_occurred_at = e_now e, us_recorded_by = userId\<rparr>) (\<lambda>_. ret False))
               (consume_reservation e reservationId s)
      | _ \<Rightarrow> (Inl (TRPCError NOT_FOUND ''Commercial reservation was not found''), s))"

text \<open>The result is the \<open>idempotent\<close> flag.\<close>

definition consumeReservedCheck ::
  "(string \<Rightarrow> bool) \<Rightarrow> env \<Rightarrow> ctx \<Rightarrow> string \<Rightarrow> int \<Rightarrow> string \<Rightarrow> string \<Rightarrow> ('w billdb, bool) act" where
  "consumeReservedCheck uuid_ok e c uuid tenantId reservationId investigationRef =
     writeProcedure e c (\<lambda>u.
     zod (0 < tenantId \<and> uuid_ok reservationId \<and> 1 \<le> length investigationRef \<and> length investigationRef \<le> 128)
     (requireTenantScope (c_tenantId c) tenantId
     (poolOrFail e (in_transaction (consume_check e uuid (u_id u) tenantId reservationId investigationRef)))))"

section \<open>Refunds\<close>

definition is_space :: "char \<Rightarrow> bool" where
  "is_space ch = (let n = (of_char ch :: nat) in n = 32 \<or> (9 \<le> n \<and> n \<le> 13))"

definition js_trim :: "string \<Rightarrow> string" where
  "js_trim s = List.rev (dropWhile is_space (List.rev (dropWhile is_space s)))"

definition requestRefund ::
  "env \<Rightarrow> ctx \<Rightarrow> string \<Rightarrow> int \<Rightarrow> string \<Rightarrow> int \<Rightarrow> string \<Rightarrow> ('w billdb, string) act" where
  "requestRefund e c uuid tenantId paidReference amountKobo reason =
     writeProcedure e c (\<lambda>u.
     zod (0 < tenantId \<and> 8 \<le> length paidReference \<and> length paidReference \<le> 160 \<and>
          isSafeInteger amountKobo \<and> 0 < amountKobo \<and> 10 \<le> length reason \<and> length reason \<le> 1024)
     (requireTenantScope (c_tenantId c) tenantId
     (poolOrFail e (\<lambda>s.
        if length (js_trim reason) < 10 \<or> tenantId \<notin> set (b_tenants s) \<or> uuid \<in> rf_id ` set (b_refunds s) then (Inl DbError, s)
        else (Inr uuid, s\<lparr>b_refunds := b_refunds s @ [\<lparr>rf_id = uuid, rf_tenant_id = tenantId,
           rf_payment_reference = paidReference, rf_amount_kobo = amountKobo, rf_reason = js_trim reason,
           rf_status = Refund_requested, rf_requested_by = u_id u, rf_approved_by = None,
           rf_requested_at = e_now e, rf_approved_at = None\<rparr>]\<rparr>)))))"

definition refund_open :: "string \<Rightarrow> int \<Rightarrow> refund \<Rightarrow> bool" where
  "refund_open k userId r \<longleftrightarrow> rf_id r = k \<and> rf_status r = Refund_requested \<and> rf_requested_by r \<noteq> userId"

text \<open>The reviewer's rationale is appended to the reason, whose column has 1024 characters.\<close>

definition approveRefund :: "(string \<Rightarrow> bool) \<Rightarrow> env \<Rightarrow> ctx \<Rightarrow> string \<Rightarrow> bool \<Rightarrow> string \<Rightarrow> ('w billdb, string \<times> refund_status) act" where
  "approveRefund uuid_ok e c refundId approve rationale =
     adminProcedure e c (\<lambda>u. zod (uuid_ok refundId \<and> 10 \<le> length rationale \<and> length rationale \<le> 1024)
     (poolOrFail e (\<lambda>s.
       let status = (if approve then Refund_approved else Refund_rejected);
           f = (\<lambda>r. r\<lparr>rf_status := status, rf_approved_by := Some (u_id u), rf_approved_at := Some (e_now e),
                   rf_reason := rf_reason r @ [CHR 0x0A] @ ''Reviewer: '' @ js_trim rationale\<rparr>);
           hit = filter (refund_open refundId (u_id u)) (b_refunds s)
       in if \<exists>r \<in> set hit. 1024 < length (rf_reason (f r)) then (Inl DbError, s)
          else if length hit \<noteq> 1
          then (Inl (TRPCError CONFLICT ''Refund cannot be approved by the requester or is no longer pending''),
                s\<lparr>b_refunds := lupdate (refund_open refundId (u_id u)) f (b_refunds s)\<rparr>)
          else (Inr (refundId, status), s\<lparr>b_refunds := lupdate (refund_open refundId (u_id u)) f (b_refunds s)\<rparr>))))"

end
