(* ===== verification/Billing_Signup.thy ===== *)
theory Billing_Signup
  imports Billing_Settlement Billing_Router Billing_Commercial
begin

text \<open>
  \<open>server/selfServiceBilling.ts\<close>: self-service subscription. A paid plan is settled through
  \<open>settlePaystackPayment\<close> before anything is activated; activation is one database transaction.
  An insertion into \<open>audit\_log\<close> that fails inside it is swallowed by the source, but leaves the
  PostgreSQL transaction aborted, so that its COMMIT rolls back without an error; the model does
  the same. Calendar arithmetic is in UTC.
\<close>

definition requireTenant :: "ctx \<Rightarrow> (int \<Rightarrow> int \<Rightarrow> ('s, 'a) act) \<Rightarrow> ('s, 'a) act" where
  "requireTenant c k s =
     (case c_user c of
        None \<Rightarrow> (Inl (TRPCError UNAUTHORIZED ''An authenticated operator is required''), s)
      | Some u \<Rightarrow>
          (case c_tenantId c of
             None \<Rightarrow> (Inl (TRPCError FORBIDDEN ''An explicit tenant context is required''), s)
           | Some t \<Rightarrow> if 0 < t then k t (u_id u) s
                       else (Inl (TRPCError FORBIDDEN ''An explicit tenant context is required''), s)))"

definition signupPool :: "env \<Rightarrow> ('s, 'a) act \<Rightarrow> ('s, 'a) act" where
  "signupPool e = require (e_dbUp e) (TRPCError SERVICE_UNAVAILABLE ''Self-service billing storage is unavailable'')"

text \<open>
  \<open>audit\_log.action\<close> has 255 characters and \<open>targetRef\<close> 64. The flag is whether the row was
  written.
\<close>

definition writeAuditLog :: "auditEntry \<Rightarrow> 'w billdb \<Rightarrow> bool \<times> 'w billdb" where
  "writeAuditLog a s =
     (if length (au_action a) \<le> 255 \<and> length (au_targetRef a) \<le> 64 then (True, s\<lparr>b_audit := b_audit s @ [a]\<rparr>)
      else (False, s))"

definition periodEndFor :: "interval \<Rightarrow> int \<Rightarrow> int" where
  "periodEndFor itv start = (case itv of
     Annual \<Rightarrow> setFullYear start (getFullYear start + 1)
   | Monthly \<Rightarrow> setMonth start (getMonth start + 1))"

lemma periodEndFor_later: "start < periodEndFor itv start"
  by (cases itv) (simp_all add: periodEndFor_def setMonth_later setFullYear_later)

definition isUniqueViolation :: "error \<Rightarrow> bool" where
  "isUniqueViolation err \<longleftrightarrow> err = UniqueViolation"

definition listPublicPlans :: "(string \<Rightarrow> 'k::linorder) \<Rightarrow> env \<Rightarrow> ('w billdb, plan list) act" where
  "listPublicPlans collate e = signupPool e (\<lambda>s. (Inr (active_plans collate s), s))"

section \<open>Signup\<close>

record signupInput =
  si_planCode :: string
  si_idempotencyKey :: string
  si_paymentReference :: "string option"

definition signup_input_ok :: "signupInput \<Rightarrow> bool" where
  "signup_input_ok i \<longleftrightarrow> plan_code_ok (si_planCode i) \<and>
     8 \<le> length (si_idempotencyKey i) \<and> length (si_idempotencyKey i) \<le> 128 \<and>
     (case si_paymentReference i of None \<Rightarrow> True | Some r \<Rightarrow> topup_reference r)"

record signupResult =
  sr_signupId :: string
  sr_subscriptionId :: "string option"
  sr_planCode :: string
  sr_status :: signup_status
  sr_billingRef :: "string option"
  sr_idempotent :: bool

definition prior_signup :: "'w billdb \<Rightarrow> int \<Rightarrow> string \<Rightarrow> planSignup list" where
  "prior_signup s tenantId key = filter (\<lambda>g. sg_tenant_id g = tenantId \<and> sg_idempotency_key g = key) (b_signups s)"

definition replayed :: "string option \<Rightarrow> planSignup \<Rightarrow> signupResult" where
  "replayed sub g = \<lparr>sr_signupId = sg_id g, sr_subscriptionId = sub, sr_planCode = sg_plan_code g,
     sr_status = sg_status g, sr_billingRef = sg_billing_ref g, sr_idempotent = True\<rparr>"

definition subscription_of :: "'w billdb \<Rightarrow> int \<Rightarrow> planSignup \<Rightarrow> string option" where
  "subscription_of s tenantId g =
     (if sg_status g = Signup_active \<and> truthy_str (sg_billing_ref g)
      then map_option su_id (List.find (\<lambda>u. su_tenant_id u = tenantId \<and> su_provider_subscription_ref u = sg_billing_ref g) (b_subscriptions s))
      else None)"

definition insert_signup :: "planSignup \<Rightarrow> ('w billdb, unit) act" where
  "insert_signup g s =
     (if sg_tenant_id g \<le> 0 then (Inl DbError, s)
      else if \<exists>h \<in> set (b_signups s). sg_id h = sg_id g \<or>
              (sg_tenant_id h = sg_tenant_id g \<and> sg_idempotency_key h = sg_idempotency_key g)
      then (Inl UniqueViolation, s)
      else (Inr (), s\<lparr>b_signups := b_signups s @ [g]\<rparr>))"

text \<open>The durable record of a failed payment: \<open>ON CONFLICT DO NOTHING\<close>, errors ignored.\<close>

definition record_failure :: "string \<Rightarrow> int \<Rightarrow> int \<Rightarrow> signupInput \<Rightarrow> 'w billdb \<Rightarrow> 'w billdb" where
  "record_failure uuid tenantId userId i s =
     snd (insert_signup \<lparr>sg_id = uuid, sg_tenant_id = tenantId, sg_plan_code = si_planCode i, sg_status = Payment_failed,
       sg_billing_ref = si_paymentReference i, sg_idempotency_key = si_idempotencyKey i, sg_created_by = userId\<rparr> s)"

definition failure_audit :: "int \<Rightarrow> int \<Rightarrow> signupInput \<Rightarrow> auditEntry" where
  "failure_audit tenantId userId i =
     \<lparr>au_tenantId = tenantId, au_userId = userId,
      au_action = ''Self-service signup payment failed for plan '' @ si_planCode i,
      au_targetRef = the (si_paymentReference i), au_result = ''failure''\<rparr>"

text \<open>Settlement of a paid plan: the reference must be an intent of this tenant, for a subscription, at the plan's price.\<close>

definition settle_plan :: "'w services \<Rightarrow> env \<Rightarrow> string \<Rightarrow> int \<Rightarrow> int \<Rightarrow> plan \<Rightarrow> signupInput \<Rightarrow> ('w billdb, string option) act" where
  "settle_plan sv e uuid tenantId userId p i =
     (if pl_price_kobo p \<le> 0 then ret None
      else (case si_paymentReference i of
        None \<Rightarrow> throw (TRPCError BAD_REQUEST ''A server-created subscription payment reference is required for a paid plan'')
      | Some reference \<Rightarrow>
          (\<lambda>s. case intents_of s reference of
             [it] \<Rightarrow>
               if pi_tenant_id it \<noteq> tenantId \<or> pi_purpose it \<noteq> Subscription_invoice
               then (Inl (TRPCError FORBIDDEN ''The payment intent is not bound to this tenant subscription''), s)
               else if pi_amount_kobo it \<noteq> pl_price_kobo p
               then (Inl (TRPCError CONFLICT ''The payment intent amount does not match the plan price''), s)
               else catch_act (seq_act (settlePaystackPayment sv e reference) (\<lambda>_. ret (Some reference)))
                      (\<lambda>err t.
                         (Inl (case error_code err of
                                 Some _ \<Rightarrow> err
                               | None \<Rightarrow> TRPCError PRECONDITION_FAILED ''Subscription payment could not be settled; no subscription was activated''),
                          snd (writeAuditLog (failure_audit tenantId userId i) (record_failure uuid tenantId userId i t)))) s
           | _ \<Rightarrow> (Inl (TRPCError NOT_FOUND ''No server-created payment intent exists for this reference''), s))))"

definition provider_ref :: "string option \<Rightarrow> int \<Rightarrow> string \<Rightarrow> string" where
  "provider_ref billingRef tenantId key =
     (case billingRef of Some r \<Rightarrow> r | None \<Rightarrow> ''self-serve-free:'' @ show_int tenantId @ '':'' @ key)"

definition signup_subscription :: "env \<Rightarrow> string \<Rightarrow> int \<Rightarrow> int \<Rightarrow> plan \<Rightarrow> string \<Rightarrow> subscription" where
  "signup_subscription e subscriptionId tenantId userId p ref =
     \<lparr>su_id = subscriptionId, su_tenant_id = tenantId, su_plan_id = pl_id p,
      su_provider = (if 0 < pl_price_kobo p then Paystack else Manual_contract),
      su_provider_subscription_ref = Some ref, su_status = Sub_active, su_current_period_start = e_now e,
      su_current_period_end = periodEndFor (pl_billing_interval p) (e_now e), su_cancel_at_period_end = False,
      su_cancelled_at = None, su_created_by = userId, su_created_at = e_now e\<rparr>"

record signupIds =
  id_signup :: string
  id_subscription :: string
  id_entitlement :: string
  id_failure :: string

definition signup_audit :: "int \<Rightarrow> int \<Rightarrow> signupInput \<Rightarrow> string \<Rightarrow> auditEntry" where
  "signup_audit tenantId userId i ref =
     \<lparr>au_tenantId = tenantId, au_userId = userId, au_action = ''Self-service plan signup activated: '' @ si_planCode i,
      au_targetRef = ref, au_result = ''success''\<rparr>"

text \<open>The statements of the activation transaction; the flag is false when the transaction ended up aborted.\<close>

definition activation_writes ::
  "env \<Rightarrow> signupIds \<Rightarrow> int \<Rightarrow> int \<Rightarrow> plan \<Rightarrow> signupInput \<Rightarrow> string \<Rightarrow> ('w billdb, bool) act" where
  "activation_writes e ids tenantId userId p i ref s =
     seq_act (insert_subscription (signup_subscription e (id_subscription ids) tenantId userId p ref)) (\<lambda>_.
     seq_act (if 0 < pl_included_completed_checks p
              then insert_entitlement (new_entitlement (id_entitlement ids) tenantId (id_subscription ids)
                     (pl_included_completed_checks p) (e_now e) (periodEndFor (pl_billing_interval p) (e_now e))
                     (''self-serve-signup:'' @ show_int tenantId @ '':'' @ si_idempotencyKey i))
              else ret ()) (\<lambda>_.
     seq_act (insert_signup \<lparr>sg_id = id_signup ids, sg_tenant_id = tenantId, sg_plan_code = si_planCode i,
                sg_status = Signup_active, sg_billing_ref = Some ref, sg_idempotency_key = si_idempotencyKey i,
                sg_created_by = userId\<rparr>) (\<lambda>_ t.
     (case writeAuditLog (signup_audit tenantId userId i ref) t of (written, t') \<Rightarrow> (Inr written, t')))))
     (cancel_live e tenantId s)"

text \<open>BEGIN, the statements, COMMIT: an exception rolls back and is rethrown; an aborted transaction is rolled back silently.\<close>

definition activate_signup ::
  "env \<Rightarrow> signupIds \<Rightarrow> int \<Rightarrow> int \<Rightarrow> plan \<Rightarrow> signupInput \<Rightarrow> string \<Rightarrow> ('w billdb, unit) act" where
  "activate_signup e ids tenantId userId p i ref s =
     (case activation_writes e ids tenantId userId p i ref s of
        (Inl err, _) \<Rightarrow> (Inl err, s)
      | (Inr written, t) \<Rightarrow> (Inr (), if written then t else s))"

definition signup_fresh ::
  "'w services \<Rightarrow> env \<Rightarrow> signupIds \<Rightarrow> int \<Rightarrow> int \<Rightarrow> plan \<Rightarrow> signupInput \<Rightarrow> ('w billdb, signupResult) act" where
  "signup_fresh sv e ids tenantId userId p i =
     seq_act (settle_plan sv e (id_failure ids) tenantId userId p i) (\<lambda>billingRef.
     let ref = provider_ref billingRef tenantId (si_idempotencyKey i) in
     catch_act
       (seq_act (activate_signup e ids tenantId userId p i ref) (\<lambda>_.
        ret \<lparr>sr_signupId = id_signup ids, sr_subscriptionId = Some (id_subscription ids), sr_planCode = si_planCode i,
             sr_status = Signup_active, sr_billingRef = Some ref, sr_idempotent = False\<rparr>))
       (\<lambda>err t.
          if isUniqueViolation err
          then (case prior_signup t tenantId (si_idempotencyKey i) of
                  [g] \<Rightarrow> (Inr (replayed None g), t)
                | _ \<Rightarrow> (Inl err, t))
          else (Inl err, t)))"

definition signup_body ::
  "'w services \<Rightarrow> env \<Rightarrow> signupIds \<Rightarrow> int \<Rightarrow> int \<Rightarrow> signupInput \<Rightarrow> ('w billdb, signupResult) act" where
  "signup_body sv e ids tenantId userId i s =
     (case prior_signup s tenantId (si_idempotencyKey i) of
        [g] \<Rightarrow> (Inr (replayed (subscription_of s tenantId g) g), s)
      | _ \<Rightarrow>
          (case find_active_plan (si_planCode i) s of
             None \<Rightarrow> (Inl (TRPCError NOT_FOUND ''The requested active plan does not exist''), s)
           | Some p \<Rightarrow> signup_fresh sv e ids tenantId userId p i s))"

definition signup :: "'w services \<Rightarrow> env \<Rightarrow> ctx \<Rightarrow> signupIds \<Rightarrow> signupInput \<Rightarrow> ('w billdb, signupResult) act" where
  "signup sv e c ids i =
     writeProcedure e c (\<lambda>u. zod (signup_input_ok i)
     (requireTenant c (\<lambda>tenantId userId. signupPool e (signup_body sv e ids tenantId userId i))))"

section \<open>Reading the subscription and its usage\<close>

record mySub =
  ms_subscriptionId :: string
  ms_status :: sub_status
  ms_plan :: plan
  ms_currentPeriodStart :: int
  ms_currentPeriodEnd :: int
  ms_cancelAtPeriodEnd :: bool

definition mySubscription :: "env \<Rightarrow> ctx \<Rightarrow> ('w billdb, mySub option) act" where
  "mySubscription e c = protectedProcedure e c (\<lambda>u. requireTenant c (\<lambda>tenantId _. signupPool e (\<lambda>s.
     (Inr (case order_desc su_created_at
                 (filter (\<lambda>v. su_tenant_id v = tenantId \<and> live v \<and> (\<exists>p \<in> set (rows (b_plans s)). pl_id p = su_plan_id v)) (b_subscriptions s)) of
             [] \<Rightarrow> None
           | v # _ \<Rightarrow> map_option (\<lambda>p. \<lparr>ms_subscriptionId = su_id v, ms_status = su_status v, ms_plan = p,
                        ms_currentPeriodStart = su_current_period_start v, ms_currentPeriodEnd = su_current_period_end v,
                        ms_cancelAtPeriodEnd = su_cancel_at_period_end v\<rparr>)
                      (tfind (\<lambda>p. pl_id p = su_plan_id v) (b_plans s))), s))))"

record usage =
  ug_includedChecks :: int
  ug_consumedChecks :: int
  ug_reservedChecks :: int
  ug_remainingChecks :: int
  ug_completedChecksLast30Days :: int

definition current_entitlements :: "env \<Rightarrow> int \<Rightarrow> 'w billdb \<Rightarrow> entitlement list" where
  "current_entitlements e tenantId s = filter (\<lambda>n. en_tenant_id n = tenantId \<and> en_status n = Ent_active \<and>
     en_period_start n \<le> e_now e \<and> e_now e < en_period_end n) (b_entitlements s)"

definition usage_of :: "env \<Rightarrow> int \<Rightarrow> 'w billdb \<Rightarrow> usage" where
  "usage_of e tenantId s =
     (let ns = current_entitlements e tenantId s;
          units = sum_list (map en_total_units ns); used = sum_list (map en_consumed_units ns);
          held = sum_list (map en_reserved_units ns)
      in \<lparr>ug_includedChecks = units, ug_consumedChecks = used, ug_reservedChecks = held,
          ug_remainingChecks = max 0 (units - used - held),
          ug_completedChecksLast30Days = int (length (filter (\<lambda>v. us_tenant_id v = tenantId \<and>
             us_usage_type v = Completed_authorized_check \<and> e_now e - 30 * MS_PER_DAY < us_occurred_at v) (b_usage s)))\<rparr>)"

definition usageSummary :: "env \<Rightarrow> ctx \<Rightarrow> ('w billdb, usage) act" where
  "usageSummary e c = protectedProcedure e c (\<lambda>u. requireTenant c (\<lambda>tenantId _. signupPool e (\<lambda>s. (Inr (usage_of e tenantId s), s))))"

end
