(* ===== verification/Billing_Meter.thy ===== *)
theory Billing_Meter
  imports Billing_Commercial
begin

text \<open>
  Metering of decision-support assessments: \<open>server/intelligenceAssessmentBillingWorker.ts\<close> turns
  approved assessments into billing events, settles each event with an entitled unit or a ledger
  debit, and escalates the tenth transient failure to a reconciliation;
  \<open>server/intelligenceBillingReconciliation.ts\<close> is the four-eyes resolution of those.
\<close>

definition METER_MAX_ATTEMPTS :: nat where "METER_MAX_ATTEMPTS = 10"
definition METER_LEASE_TIMEOUT_SECONDS :: int where "METER_LEASE_TIMEOUT_SECONDS = 300"

definition meter_amount :: "int \<Rightarrow> error + int" where
  "meter_amount v = (if isSafeInteger v \<and> 0 \<le> v then Inr v else Inl (PlainError ''Invalid assessment meter amount''))"

definition meterPool :: "env \<Rightarrow> ('s, 'a) act \<Rightarrow> ('s, 'a) act" where
  "meterPool e = require (e_dbUp e) (PlainError ''Assessment billing requires PostgreSQL'')"

lemma meterPool_simp [simp, act_simps]:
  "meterPool e k s = (if e_dbUp e then k s else (Inl (PlainError ''Assessment billing requires PostgreSQL''), s))"
  by (simp add: meterPool_def)

section \<open>Creating events\<close>

definition policy_applies :: "env \<Rightarrow> assessment \<Rightarrow> meteringPolicy \<Rightarrow> bool" where
  "policy_applies e a p \<longleftrightarrow> mp_tenant_id p = as_tenant_id a \<and> mp_policy_code p = as_policy_code a \<and> mp_enabled p \<and>
     mp_approved_by p \<noteq> None \<and> mp_approved_at p \<noteq> None \<and> mp_effective_from p \<le> e_now e \<and>
     (case mp_expires_at p of None \<Rightarrow> True | Some t \<Rightarrow> e_now e < t)"

text \<open>The rows of the join: an assessment that is current decision support, not yet metered, with its policy.\<close>

definition unmetered :: "env \<Rightarrow> 'w billdb \<Rightarrow> (assessment \<times> meteringPolicy) list" where
  "unmetered e s = concat (map (\<lambda>a. map (Pair a) (filter (policy_applies e a) (b_policies s)))
     (sort_key as_calculated_at
       (filter (\<lambda>a. as_decision_support_only a \<and> \<not> as_superseded a \<and> e_now e < as_expires_at a \<and>
          as_id a \<notin> be_assessment_id ` set (b_events s)) (b_assessments s))))"

definition new_event :: "env \<Rightarrow> string \<Rightarrow> assessment \<times> meteringPolicy \<Rightarrow> billingEvent" where
  "new_event e uuid ap =
     \<lparr>be_id = uuid, be_tenant_id = as_tenant_id (fst ap), be_assessment_id = as_id (fst ap),
      be_metering_policy_id = mp_id (snd ap), be_reservation_id = None, be_requested_by = as_created_by (fst ap),
      be_amount_kobo = mp_prepaid_price_kobo (snd ap), be_status = Be_pending, be_idempotency_key = as_id (fst ap),
      be_tigerbeetle_transfer_id = None, be_attempt_count = 0, be_available_at = e_now e, be_leased_at = None,
      be_lease_owner = None, be_settled_at = None, be_last_error_code = None\<rparr>"

text \<open>\<open>INSERT \<dots> SELECT \<dots> ON CONFLICT (assessment\_id) DO NOTHING\<close>, row after row.\<close>

fun insert_events :: "env \<Rightarrow> (nat \<Rightarrow> string) \<Rightarrow> (assessment \<times> meteringPolicy) list \<Rightarrow> billingEvent list \<Rightarrow> nat \<times> billingEvent list" where
  "insert_events e uuids [] bs = (0, bs)"
| "insert_events e uuids (ap # aps) bs =
     (if as_id (fst ap) \<in> be_assessment_id ` set bs then insert_events e uuids aps bs
      else (case insert_events e (\<lambda>n. uuids (Suc n)) aps (bs @ [new_event e (uuids 0) ap]) of (n, bs') \<Rightarrow> (Suc n, bs')))"

definition enqueueUnmeteredIntelligenceAssessments :: "env \<Rightarrow> (nat \<Rightarrow> string) \<Rightarrow> int \<Rightarrow> ('w billdb, nat) act" where
  "enqueueUnmeteredIntelligenceAssessments e uuids cnt = meterPool e (\<lambda>s.
     case insert_events e uuids (take (nat (max 1 (min cnt 500))) (unmetered e s)) (b_events s) of
       (n, bs) \<Rightarrow> (Inr n, s\<lparr>b_events := bs\<rparr>))"

section \<open>Settling one event\<close>

definition set_event :: "(billingEvent \<Rightarrow> bool) \<Rightarrow> (billingEvent \<Rightarrow> billingEvent) \<Rightarrow> 'w billdb \<Rightarrow> 'w billdb" where
  "set_event P f s = s\<lparr>b_events := lupdate P f (b_events s)\<rparr>"

record meterIds =
  mi_reservation :: string
  mi_usage :: string
  mi_reconciliation :: string

definition meter_reservation :: "env \<Rightarrow> meterIds \<Rightarrow> billingEvent \<Rightarrow> entitlement \<Rightarrow> reservation" where
  "meter_reservation e ids ev n =
     \<lparr>rs_id = mi_reservation ids, rs_tenant_id = be_tenant_id ev, rs_entitlement_id = en_id n,
      rs_investigation_ref = ''intelligence:'' @ be_assessment_id ev, rs_requested_tier = Tier_intelligence,
      rs_status = Consumed, rs_idempotency_key = be_id ev, rs_reserved_by = be_requested_by ev,
      rs_expires_at = e_now e, rs_consumed_at = None\<rparr>"

definition meter_usage :: "env \<Rightarrow> meterIds \<Rightarrow> billingEvent \<Rightarrow> usageEvent" where
  "meter_usage e ids ev =
     \<lparr>us_id = mi_usage ids, us_tenant_id = be_tenant_id ev, us_reservation_id = mi_reservation ids,
      us_usage_type = Usage_intelligence_assessment, us_units = 1,
      us_investigation_ref = ''intelligence:'' @ be_assessment_id ev, us_occurred_at = e_now e,
      us_recorded_by = be_requested_by ev\<rparr>"

definition reserve_unit :: "env \<Rightarrow> (string \<Rightarrow> bool) \<Rightarrow> meterIds \<Rightarrow> billingEvent \<Rightarrow> ('w billdb, bool) act" where
  "reserve_unit e locked ids ev s =
     (case filter (\<lambda>b. be_id b = be_id ev) (b_events s) of
        [b] \<Rightarrow>
          if truthy_str (be_reservation_id b) then (Inr True, s)
          else (case pick_entitlement e locked (be_tenant_id ev) s of
             None \<Rightarrow> (Inr False, s)
           | Some n \<Rightarrow>
               seq_act (move_units (en_id n) 1 0) (\<lambda>_.
               seq_act (insert_reservation (meter_reservation e ids ev n)) (\<lambda>_.
               seq_act (move_units (en_id n) (- 1) 1) (\<lambda>_.
               seq_act (insert_usage (meter_usage e ids ev)) (\<lambda>_ t.
               (Inr True, set_event (\<lambda>b. be_id b = be_id ev)
                  (\<lambda>b. b\<lparr>be_reservation_id := Some (mi_reservation ids), be_status := Be_settled, be_settled_at := Some (e_now e)\<rparr>) t))))) s)
      | _ \<Rightarrow> (Inl (PlainError ''Assessment billing event disappeared''), s))"

definition reserveAndConsumeEntitledUnit :: "env \<Rightarrow> (string \<Rightarrow> bool) \<Rightarrow> meterIds \<Rightarrow> billingEvent \<Rightarrow> ('w billdb, bool) act" where
  "reserveAndConsumeEntitledUnit e locked ids ev = meterPool e (in_transaction (reserve_unit e locked ids ev))"

text \<open>
  \<open>error.message\<close>; the messages of violated constraints name tables and constraints, none of
  which contains one of the words looked for.
\<close>

definition error_message :: "error \<Rightarrow> string" where
  "error_message err = (case err of
     TRPCError _ m \<Rightarrow> m | PlainError m \<Rightarrow> m | DbError \<Rightarrow> ''violates check constraint'' | UniqueViolation \<Rightarrow> ''violates unique constraint''
   | InsufficientFunds tid req av \<Rightarrow> ''INSUFFICIENT_FUNDS: requested '' @ show_int req @ '' kobo exceeds the available balance of '' @
       show_int av @ '' kobo for tenant '' @ tid)"

text \<open>\<open>/unavailable|timeout|connection|reconciliation/i.test(error.message)\<close>.\<close>

definition transient :: "error \<Rightarrow> bool" where
  "transient err \<longleftrightarrow> list_ex (str_includes (toLowerCase (error_message err)))
     [''unavailable'', ''timeout'', ''connection'', ''reconciliation'']"

definition claimable :: "string \<Rightarrow> billingEvent \<Rightarrow> bool" where
  "claimable k b \<longleftrightarrow> be_id b = k \<and> (be_status b = Be_pending \<or> be_status b = Be_retryable_failure) \<and> be_attempt_count b < METER_MAX_ATTEMPTS"

definition lease_event :: "env \<Rightarrow> string \<Rightarrow> billingEvent \<Rightarrow> billingEvent" where
  "lease_event e workerId b = b\<lparr>be_status := Be_leased, be_leased_at := Some (e_now e), be_lease_owner := Some workerId,
     be_attempt_count := be_attempt_count b + 1\<rparr>"

definition settle_event :: "env \<Rightarrow> string \<Rightarrow> string \<Rightarrow> ('w billdb, unit) act" where
  "settle_event e k transferId s =
     (let P = (\<lambda>b. be_id b = k \<and> be_status b = Be_leased);
          s' = set_event P (\<lambda>b. b\<lparr>be_status := Be_settled, be_tigerbeetle_transfer_id := Some transferId,
                 be_settled_at := Some (e_now e), be_last_error_code := None\<rparr>) s
      in if length (filter P (b_events s)) \<noteq> 1
         then (Inl (PlainError ''TigerBeetle transfer completed but assessment billing state requires reconciliation''), s')
         else (Inr (), s'))"

text \<open>The body of the \<open>try\<close>: an entitled unit, else a free event without entitlement, else the debit.\<close>

definition meter_attempt :: "'w services \<Rightarrow> env \<Rightarrow> (string \<Rightarrow> bool) \<Rightarrow> meterIds \<Rightarrow> billingEvent \<Rightarrow> ('w billdb, unit) act" where
  "meter_attempt sv e locked ids ev =
     seq_act (reserveAndConsumeEntitledUnit e locked ids ev) (\<lambda>done s.
       if done then (Inr (), s)
       else (case meter_amount (be_amount_kobo ev) of
          Inl err \<Rightarrow> (Inl err, s)
        | Inr charge \<Rightarrow>
            if charge = 0
            then (Inr (), set_event (\<lambda>b. be_id b = be_id ev)
                    (\<lambda>b. b\<lparr>be_status := Be_payment_required, be_last_error_code := Some ''no_entitlement''\<rparr>) s)
            else seq_act (debitTenantForIntelligenceAssessment sv (be_tenant_id ev) (be_id ev) charge)
                   (\<lambda>transferId. settle_event e (be_id ev) transferId) s))"

definition error_label :: "error \<Rightarrow> string" where
  "error_label err = (if transient err then ''ledger_unavailable'' else ''payment_or_integrity_failure'')"

definition open_reconciliation :: "'w services \<Rightarrow> env \<Rightarrow> string \<Rightarrow> billingEvent \<Rightarrow> error \<Rightarrow> reconciliation" where
  "open_reconciliation sv e uuid ev err =
     \<lparr>rc_id = uuid, rc_billing_event_id = be_id ev, rc_tenant_id = be_tenant_id ev,
      rc_deterministic_transfer_id = intelligenceAssessmentTransferId sv (be_id ev), rc_status = Rec_open,
      rc_last_error_code = error_label err, rc_ledger_evidence_ref = None, rc_ledger_evidence_sha256 = None,
      rc_requested_by = be_requested_by ev, rc_requested_at = e_now e, rc_reviewed_by = None, rc_reviewed_at = None,
      rc_resolution_rationale = None, rc_closed_at = None\<rparr>"

definition escalate :: "'w services \<Rightarrow> env \<Rightarrow> string \<Rightarrow> billingEvent \<Rightarrow> error \<Rightarrow> 'w billdb \<Rightarrow> 'w billdb" where
  "escalate sv e uuid ev err s =
     (let s1 = set_event (\<lambda>b. be_id b = be_id ev \<and> be_status b = Be_leased)
                 (\<lambda>b. b\<lparr>be_status := Be_awaiting_reconciliation,
                        be_tigerbeetle_transfer_id := (case be_tigerbeetle_transfer_id b of
                            None \<Rightarrow> Some (intelligenceAssessmentTransferId sv (be_id ev)) | t \<Rightarrow> t),
                        be_last_error_code := Some (error_label err)\<rparr>) s
      in if be_id ev \<in> rc_billing_event_id ` set (b_reconciliations s1) then s1
         else s1\<lparr>b_reconciliations := b_reconciliations s1 @ [open_reconciliation sv e uuid ev err]\<rparr>)"

definition meter_failure :: "'w services \<Rightarrow> env \<Rightarrow> meterIds \<Rightarrow> billingEvent \<Rightarrow> error \<Rightarrow> ('w billdb, unit) act" where
  "meter_failure sv e ids ev err s =
     (if transient err \<and> METER_MAX_ATTEMPTS \<le> be_attempt_count ev
      then (Inr (), escalate sv e (mi_reconciliation ids) ev err s)
      else let s' = set_event (\<lambda>b. be_id b = be_id ev)
                      (\<lambda>b. b\<lparr>be_status := (if transient err then Be_retryable_failure else Be_payment_required),
                             be_available_at := (if transient err then e_now e + 5 * 60 * 1000 else be_available_at b),
                             be_last_error_code := Some (error_label err)\<rparr>) s
           in if transient err then (Inl err, s') else (Inr (), s'))"

definition processIntelligenceAssessmentBillingEvent ::
  "'w services \<Rightarrow> env \<Rightarrow> (string \<Rightarrow> bool) \<Rightarrow> meterIds \<Rightarrow> string \<Rightarrow> string \<Rightarrow> ('w billdb, unit) act" where
  "processIntelligenceAssessmentBillingEvent sv e locked ids eventId workerId = meterPool e (\<lambda>s.
     case filter (claimable eventId) (b_events s) of
       [b] \<Rightarrow>
         let ev = lease_event e workerId b in
         catch_act (meter_attempt sv e locked ids ev) (meter_failure sv e ids ev)
           (set_event (claimable eventId) (lease_event e workerId) s)
     | _ \<Rightarrow> (Inr (), set_event (claimable eventId) (lease_event e workerId) s))"

section \<open>The worker's pass\<close>

definition stale :: "env \<Rightarrow> billingEvent \<Rightarrow> bool" where
  "stale e b \<longleftrightarrow> be_status b = Be_leased \<and>
     (case be_leased_at b of None \<Rightarrow> False | Some t \<Rightarrow> t < e_now e - METER_LEASE_TIMEOUT_SECONDS * 1000)"

definition recover_stale :: "env \<Rightarrow> 'w billdb \<Rightarrow> 'w billdb" where
  "recover_stale e = set_event (stale e)
     (\<lambda>b. b\<lparr>be_status := Be_retryable_failure, be_lease_owner := None, be_leased_at := None, be_available_at := e_now e\<rparr>)"

definition due_events :: "env \<Rightarrow> int \<Rightarrow> 'w billdb \<Rightarrow> billingEvent list" where
  "due_events e cnt s = take (nat (max 1 (min cnt 100)))
     (filter (\<lambda>b. (be_status b = Be_pending \<or> be_status b = Be_retryable_failure) \<and> be_available_at b \<le> e_now e) (b_events s))"

fun process_events :: "'w services \<Rightarrow> env \<Rightarrow> (string \<Rightarrow> bool) \<Rightarrow> (nat \<Rightarrow> meterIds) \<Rightarrow> string \<Rightarrow> string list \<Rightarrow> ('w billdb, unit) act" where
  "process_events sv e locked ids workerId [] s = (Inr (), s)"
| "process_events sv e locked ids workerId (k # ks) s =
     (case processIntelligenceAssessmentBillingEvent sv e locked (ids 0) k workerId s of
        (Inl err, t) \<Rightarrow> (Inl err, t)
      | (Inr _, t) \<Rightarrow> process_events sv e locked (\<lambda>n. ids (Suc n)) workerId ks t)"

definition processDueIntelligenceAssessmentBillingEvents ::
  "'w services \<Rightarrow> env \<Rightarrow> (string \<Rightarrow> bool) \<Rightarrow> (nat \<Rightarrow> string) \<Rightarrow> (nat \<Rightarrow> meterIds) \<Rightarrow> string \<Rightarrow> int \<Rightarrow> ('w billdb, nat) act" where
  "processDueIntelligenceAssessmentBillingEvents sv e locked uuids ids workerId cnt =
     meterPool e (seq_act (enqueueUnmeteredIntelligenceAssessments e uuids cnt) (\<lambda>_ s.
       let n = length (filter (stale e) (b_events s)); s1 = recover_stale e s; due = due_events e cnt s1
       in seq_act (process_events sv e locked ids workerId (map be_id due)) (\<lambda>_. ret (length due + n)) s1))"

section \<open>Reconciliation\<close>

definition reconPool :: "env \<Rightarrow> ('s, 'a) act \<Rightarrow> ('s, 'a) act" where
  "reconPool e = require (e_dbUp e) (TRPCError SERVICE_UNAVAILABLE ''Billing reconciliation storage is unavailable'')"

lemma reconPool_simp [simp, act_simps]:
  "reconPool e k s = (if e_dbUp e then k s else (Inl (TRPCError SERVICE_UNAVAILABLE ''Billing reconciliation storage is unavailable''), s))"
  by (simp add: reconPool_def)

text \<open>The input of the three decisions, after zod trimmed the texts.\<close>

record reconInput =
  ni_billingEventId :: string
  ni_rationale :: string
  ni_ledgerEvidenceRef :: "string option"
  ni_ledgerEvidenceSha256 :: "string option"

definition lower_hex64 :: "string \<Rightarrow> bool" where
  "lower_hex64 s \<longleftrightarrow> length s = 64 \<and> list_all (\<lambda>ch. is_digit_char ch \<or> (let n = (of_char ch :: nat) in 97 \<le> n \<and> n \<le> 102)) s"

definition recon_input_ok :: "(string \<Rightarrow> bool) \<Rightarrow> reconInput \<Rightarrow> bool" where
  "recon_input_ok uuid_ok i \<longleftrightarrow> uuid_ok (ni_billingEventId i) \<and>
     20 \<le> length (js_trim (ni_rationale i)) \<and> length (js_trim (ni_rationale i)) \<le> 2000 \<and>
     (case ni_ledgerEvidenceRef i of None \<Rightarrow> True | Some r \<Rightarrow> 8 \<le> length (js_trim r) \<and> length (js_trim r) \<le> 256) \<and>
     (case ni_ledgerEvidenceSha256 i of None \<Rightarrow> True | Some h \<Rightarrow> lower_hex64 h)"

definition has_event :: "'w billdb \<Rightarrow> string \<Rightarrow> bool" where
  "has_event s k \<longleftrightarrow> (\<exists>b \<in> set (b_events s). be_id b = k)"

text \<open>A reconciliation that this reviewer may decide: open or claimed, requested by someone else, in scope.\<close>

definition decidable_by :: "'w billdb \<Rightarrow> string \<Rightarrow> int \<Rightarrow> int option \<Rightarrow> reconciliation \<Rightarrow> bool" where
  "decidable_by s k userId ctxTenant r \<longleftrightarrow> rc_billing_event_id r = k \<and> has_event s k \<and>
     (rc_status r = Rec_open \<or> rc_status r = Rec_under_review) \<and> rc_requested_by r \<noteq> userId \<and>
     (ctxTenant = None \<or> ctxTenant = Some (rc_tenant_id r))"

definition set_recon :: "(reconciliation \<Rightarrow> bool) \<Rightarrow> (reconciliation \<Rightarrow> reconciliation) \<Rightarrow> 'w billdb \<Rightarrow> 'w billdb" where
  "set_recon P f s = s\<lparr>b_reconciliations := lupdate P f (b_reconciliations s)\<rparr>"

definition close_recon :: "env \<Rightarrow> int \<Rightarrow> rec_status \<Rightarrow> string \<Rightarrow> reconciliation \<Rightarrow> reconciliation" where
  "close_recon e userId st rationale r = r\<lparr>rc_status := st, rc_reviewed_by := Some userId, rc_reviewed_at := Some (e_now e),
     rc_closed_at := Some (e_now e), rc_resolution_rationale := Some rationale\<rparr>"

definition recon_listOpen :: "env \<Rightarrow> ctx \<Rightarrow> int option \<Rightarrow> ('w billdb, (reconciliation \<times> billingEvent) list) act" where
  "recon_listOpen e c tenant = adminProcedure e c (\<lambda>u. zod (case tenant of None \<Rightarrow> True | Some t \<Rightarrow> 0 < t) (reconPool e (\<lambda>s.
     let tid = (case tenant of None \<Rightarrow> c_tenantId c | Some t \<Rightarrow> Some t) in
     case tid of
       None \<Rightarrow> (Inl (TRPCError FORBIDDEN ''Cross-tenant billing reconciliation access is denied''), s)
     | Some t \<Rightarrow>
         if t = 0 \<or> (c_tenantId c \<noteq> None \<and> c_tenantId c \<noteq> Some t)
         then (Inl (TRPCError FORBIDDEN ''Cross-tenant billing reconciliation access is denied''), s)
         else (Inr (concat (map (\<lambda>r. map (Pair r) (filter (\<lambda>b. be_id b = rc_billing_event_id r) (b_events s)))
                 (sort_key rc_requested_at (filter (\<lambda>r. rc_tenant_id r = t \<and> (rc_status r = Rec_open \<or> rc_status r = Rec_under_review))
                    (b_reconciliations s))))), s))))"

definition recon_claim :: "(string \<Rightarrow> bool) \<Rightarrow> env \<Rightarrow> ctx \<Rightarrow> string \<Rightarrow> ('w billdb, string) act" where
  "recon_claim uuid_ok e c k = adminProcedure e c (\<lambda>u. zod (uuid_ok k) (reconPool e (\<lambda>s.
     let P = (\<lambda>r. rc_billing_event_id r = k \<and> (\<exists>b \<in> set (b_events s). be_id b = k \<and> be_tenant_id b = rc_tenant_id r) \<and>
                  rc_status r = Rec_open \<and> rc_requested_by r \<noteq> u_id u \<and>
                  (c_tenantId c = None \<or> c_tenantId c = Some (rc_tenant_id r)));
         s' = set_recon P (\<lambda>r. r\<lparr>rc_status := Rec_under_review, rc_reviewed_by := Some (u_id u), rc_reviewed_at := Some (e_now e)\<rparr>) s
     in case filter P (b_reconciliations s) of
          [r] \<Rightarrow> (Inr (rc_id r), s')
        | _ \<Rightarrow> (Inl (TRPCError CONFLICT ''Reconciliation is unavailable, cross-tenant, or cannot be claimed by its requester''), s'))))"

definition decide_recon ::
  "env \<Rightarrow> ctx \<Rightarrow> user \<Rightarrow> string \<Rightarrow> (reconciliation \<Rightarrow> reconciliation) \<Rightarrow> ('w billdb \<Rightarrow> 'w billdb) \<Rightarrow> string \<Rightarrow> ('w billdb, unit) act" where
  "decide_recon e c u k f g msg s =
     (let P = decidable_by s k (u_id u) (c_tenantId c) in
      if length (filter P (b_reconciliations s)) \<noteq> 1 then (Inl (TRPCError CONFLICT msg), set_recon P f s)
      else (Inr (), g (set_recon P f s)))"

definition awaiting :: "string \<Rightarrow> billingEvent \<Rightarrow> bool" where
  "awaiting k b \<longleftrightarrow> be_id b = k \<and> be_status b = Be_awaiting_reconciliation"

definition confirmSettled :: "(string \<Rightarrow> bool) \<Rightarrow> env \<Rightarrow> ctx \<Rightarrow> reconInput \<Rightarrow> ('w billdb, unit) act" where
  "confirmSettled uuid_ok e c i = adminProcedure e c (\<lambda>u. zod (recon_input_ok uuid_ok i)
     (require (truthy_str (ni_ledgerEvidenceRef i) \<and> truthy_str (ni_ledgerEvidenceSha256 i))
        (TRPCError BAD_REQUEST ''Independent ledger evidence reference and SHA-256 are required to confirm settlement'')
     (reconPool e (in_transaction
        (decide_recon e c u (ni_billingEventId i)
           (\<lambda>r. (close_recon e (u_id u) Rec_confirmed_settled (js_trim (ni_rationale i)) r)
              \<lparr>rc_ledger_evidence_ref := map_option js_trim (ni_ledgerEvidenceRef i),
               rc_ledger_evidence_sha256 := ni_ledgerEvidenceSha256 i\<rparr>)
           (set_event (awaiting (ni_billingEventId i))
              (\<lambda>b. b\<lparr>be_status := Be_settled, be_settled_at := (case be_settled_at b of None \<Rightarrow> Some (e_now e) | t \<Rightarrow> t),
                     be_last_error_code := None\<rparr>))
           ''Reconciliation cannot be confirmed by its requester or is not open'')))))"

definition confirmNotSettled :: "(string \<Rightarrow> bool) \<Rightarrow> env \<Rightarrow> ctx \<Rightarrow> reconInput \<Rightarrow> ('w billdb, unit) act" where
  "confirmNotSettled uuid_ok e c i = adminProcedure e c (\<lambda>u. zod (recon_input_ok uuid_ok i)
     (reconPool e
        (decide_recon e c u (ni_billingEventId i)
           (close_recon e (u_id u) Rec_confirmed_not_settled (js_trim (ni_rationale i))) (\<lambda>s. s)
           ''Reconciliation cannot be closed by its requester or is not open'')))"

definition approveDeterministicRetry :: "(string \<Rightarrow> bool) \<Rightarrow> env \<Rightarrow> ctx \<Rightarrow> reconInput \<Rightarrow> ('w billdb, unit) act" where
  "approveDeterministicRetry uuid_ok e c i = adminProcedure e c (\<lambda>u.
     zod (uuid_ok (ni_billingEventId i) \<and> 20 \<le> length (js_trim (ni_rationale i)) \<and> length (js_trim (ni_rationale i)) \<le> 2000)
     (reconPool e (in_transaction
        (decide_recon e c u (ni_billingEventId i)
           (close_recon e (u_id u) Rec_approved_retry (js_trim (ni_rationale i)))
           (set_event (awaiting (ni_billingEventId i))
              (\<lambda>b. b\<lparr>be_status := Be_retryable_failure, be_attempt_count := 0, be_available_at := e_now e,
                     be_leased_at := None, be_lease_owner := None,
                     be_last_error_code := Some ''human_approved_deterministic_retry''\<rparr>))
           ''Reconciliation retry cannot be approved by its requester or is not open''))))"

end
