(* ===== verification/Billing_Recovery.thy ===== *)
theory Billing_Recovery
  imports Billing_Router Backoff
begin

text \<open>
  Recovery of top-ups that the ledger did not record: the webhook retry queue of
  \<open>server/webhookRetry.ts\<close>, the dual-approval policy (\<open>forceCreditPolicy.ts\<close>,
  \<open>forceCreditExpiryPolicy.ts\<close>, \<open>forceCreditExpiry.ts\<close>) and the administrator procedures of
  \<open>admin.reconciliation\<close> in \<open>server/routers.ts\<close>. The statements of a procedure are not in one
  database transaction in the source, so an error leaves the earlier writes.
\<close>

definition isoNow :: "env \<Rightarrow> string" where
  "isoNow e = isoDate (e_now e) @ ''T'' @ isoTime (e_now e) @ ''Z''"

definition recoveryDb :: "env \<Rightarrow> ('s, 'a) act \<Rightarrow> ('s, 'a) act" where
  "recoveryDb e = require (e_dbUp e) (TRPCError INTERNAL_SERVER_ERROR ''Database unavailable'')"

lemma recoveryDb_simp [simp, act_simps]:
  "recoveryDb e k s = (if e_dbUp e then k s else (Inl (TRPCError INTERNAL_SERVER_ERROR ''Database unavailable''), s))"
  by (simp add: recoveryDb_def)

definition starts_with :: "string \<Rightarrow> string \<Rightarrow> bool" where
  "starts_with s p \<longleftrightarrow> take (length p) s = p"

section \<open>The retry queue\<close>

definition RETRY_MAX_ATTEMPTS :: nat where "RETRY_MAX_ATTEMPTS = 7"
definition RETRY_LEASE_TIMEOUT_MS :: int where "RETRY_LEASE_TIMEOUT_MS = 5 * 60000"

definition retryDelay :: "nat \<Rightarrow> int" where
  "retryDelay attempt = min (1000 * 2 ^ attempt) 60000"

interpretation webhook_backoff: backoff retryDelay 1000 60000
proof unfold_locales
  show "\<exists>N. \<forall>n\<ge>N. retryDelay n = 60000"
  proof (intro exI [where x = 10] allI impI)
    fix n :: nat assume "10 \<le> n"
    then show "retryDelay n = 60000" using capped_double_cap [of 60000 1000 10 n] by (simp add: retryDelay_def)
  qed
next
  fix m n :: nat assume "1 \<le> m" "m \<le> n"
  then show "retryDelay m \<le> retryDelay n" using capped_double_mono [of 1000 m n 60000] by (simp add: retryDelay_def)
next
  fix n :: nat assume "1 \<le> n"
  then show "1000 \<le> retryDelay n" using capped_double_lower [of 1000 60000 n] by (simp add: retryDelay_def)
qed (simp_all add: retryDelay_def)

text \<open>\<open>randomInt n\<close> is a number from 0 to below \<open>n\<close>.\<close>

definition calculateBackoff :: "(int \<Rightarrow> int) \<Rightarrow> nat \<Rightarrow> int" where
  "calculateBackoff randomInt attempt = retryDelay attempt + randomInt (retryDelay attempt div 10 + 1)"

definition enqueueFailedWebhook ::
  "(int \<Rightarrow> int) \<Rightarrow> env \<Rightarrow> string \<Rightarrow> string \<Rightarrow> int \<Rightarrow> string \<Rightarrow> ('w billdb, unit) act" where
  "enqueueFailedWebhook randomInt e reference tenantId amountKobo err s =
     (if \<not> e_dbUp e then (Inl (PlainError (''Cannot durably enqueue failed webhook '' @ reference @ '': database unavailable'')), s)
      else if 256 < length reference \<or> 64 < length tenantId \<or> amountKobo \<le> 0 \<or> MAX_INT32 < amountKobo \<or>
              reference \<in> rq_reference ` set (rows (b_retries s)) then (Inr (), s)
      else (Inr (), s\<lparr>b_retries := tinsert (\<lambda>n. \<lparr>rq_id = n, rq_reference = reference, rq_tenantId = tenantId,
              rq_amountKobo = amountKobo, rq_attempts = 0, rq_nextRetryAt = e_now e + calculateBackoff randomInt 0,
              rq_status = Retry_pending, rq_leasedAt = None, rq_lastError = Some err, rq_createdAt = e_now e\<rparr>) (b_retries s)\<rparr>))"

definition set_retry :: "(retryItem \<Rightarrow> bool) \<Rightarrow> (retryItem \<Rightarrow> retryItem) \<Rightarrow> 'w billdb \<Rightarrow> 'w billdb" where
  "set_retry P f s = s\<lparr>b_retries := tupdate P f (b_retries s)\<rparr>"

definition retry_lease_expired :: "env \<Rightarrow> retryItem \<Rightarrow> bool" where
  "retry_lease_expired e r \<longleftrightarrow> rq_status r = Retry_processing \<and>
     (case rq_leasedAt r of None \<Rightarrow> False | Some t \<Rightarrow> t < e_now e - RETRY_LEASE_TIMEOUT_MS)"

definition retry_due :: "env \<Rightarrow> retryItem \<Rightarrow> bool" where
  "retry_due e r \<longleftrightarrow> rq_status r = Retry_pending \<and> rq_nextRetryAt r \<le> e_now e"

record retryCounts =
  rt_processed :: nat
  rt_succeeded :: nat
  rt_deadLettered :: nat

definition retry_failed :: "(int \<Rightarrow> int) \<Rightarrow> env \<Rightarrow> nat \<Rightarrow> string \<Rightarrow> retryItem \<Rightarrow> retryItem" where
  "retry_failed randomInt e attempts msg r =
     (if RETRY_MAX_ATTEMPTS \<le> attempts
      then r\<lparr>rq_status := Retry_dead_letter, rq_attempts := attempts, rq_lastError := Some msg, rq_leasedAt := None\<rparr>
      else r\<lparr>rq_status := Retry_pending, rq_attempts := attempts, rq_nextRetryAt := e_now e + calculateBackoff randomInt attempts,
             rq_lastError := Some msg, rq_leasedAt := None\<rparr>)"

text \<open>The text of an error, as the queue records it.\<close>

definition error_text :: "error \<Rightarrow> string" where
  "error_text err = (case err of TRPCError _ m \<Rightarrow> m | PlainError m \<Rightarrow> m | DbError \<Rightarrow> ''constraint violation''
     | UniqueViolation \<Rightarrow> ''unique violation'' | InsufficientFunds _ _ _ \<Rightarrow> ''INSUFFICIENT_FUNDS'')"

fun process_retries ::
  "(int \<Rightarrow> int) \<Rightarrow> 'w services \<Rightarrow> env \<Rightarrow> retryItem list \<Rightarrow> retryCounts \<Rightarrow> 'w billdb \<Rightarrow> retryCounts \<times> 'w billdb" where
  "process_retries randomInt sv e [] n s = (n, s)"
| "process_retries randomInt sv e (item # items) n s =
     (let P = (\<lambda>r. rq_id r = rq_id item \<and> retry_due e r) in
      if tselect P (b_retries s) = [] then process_retries randomInt sv e items n s
      else let s1 = set_retry P (\<lambda>r. r\<lparr>rq_status := Retry_processing, rq_leasedAt := Some (e_now e)\<rparr>) s;
               n1 = n\<lparr>rt_processed := rt_processed n + 1\<rparr>;
               attempts = rq_attempts item + 1;
               same = (\<lambda>r. rq_reference r = rq_reference item)
           in (case creditTenantAccount sv e (rq_tenantId item) (rq_amountKobo item) (rq_reference item) s1 of
                 (Inr _, s2) \<Rightarrow>
                   process_retries randomInt sv e items (n1\<lparr>rt_succeeded := rt_succeeded n1 + 1\<rparr>)
                     (set_retry same (\<lambda>r. r\<lparr>rq_status := Retry_completed, rq_attempts := attempts, rq_leasedAt := None\<rparr>) s2)
               | (Inl err, s2) \<Rightarrow>
                   process_retries randomInt sv e items
                     (if RETRY_MAX_ATTEMPTS \<le> attempts then n1\<lparr>rt_deadLettered := rt_deadLettered n1 + 1\<rparr> else n1)
                     (set_retry same (retry_failed randomInt e attempts (error_text err)) s2)))"

definition due_retries :: "env \<Rightarrow> 'w billdb \<Rightarrow> retryItem list" where
  "due_retries e s = take 20 (sort_key rq_nextRetryAt (tselect (retry_due e) (b_retries s)))"

definition processRetryQueue :: "(int \<Rightarrow> int) \<Rightarrow> 'w services \<Rightarrow> env \<Rightarrow> 'w billdb \<Rightarrow> retryCounts \<times> 'w billdb" where
  "processRetryQueue randomInt sv e s =
     (let zero = \<lparr>rt_processed = 0, rt_succeeded = 0, rt_deadLettered = 0\<rparr> in
      if \<not> e_dbUp e then (zero, s)
      else let s1 = set_retry (retry_lease_expired e) (\<lambda>r. r\<lparr>rq_status := Retry_pending, rq_leasedAt := None\<rparr>) s
           in process_retries randomInt sv e (due_retries e s1) zero s1)"

section \<open>Policy\<close>

definition DEFAULT_FORCE_CREDIT_DUAL_APPROVAL_THRESHOLD_KOBO :: int where
  "DEFAULT_FORCE_CREDIT_DUAL_APPROVAL_THRESHOLD_KOBO = 5000000"

text \<open>A configured number (\<open>None\<close> for NaN) counts when it is a positive safe integer.\<close>

definition valid_threshold :: "rat option \<Rightarrow> int option" where
  "valid_threshold v = (case v of None \<Rightarrow> None
     | Some x \<Rightarrow> if is_safe_rat x \<and> 0 < x then Some \<lfloor>x\<rfloor> else None)"

definition getForceCreditDualApprovalThresholdKobo :: "rat option \<Rightarrow> int" where
  "getForceCreditDualApprovalThresholdKobo v =
     (case valid_threshold v of None \<Rightarrow> DEFAULT_FORCE_CREDIT_DUAL_APPROVAL_THRESHOLD_KOBO | Some t \<Rightarrow> t)"

definition requiresForceCreditDualApproval :: "int \<Rightarrow> int \<Rightarrow> bool" where
  "requiresForceCreditDualApproval amountKobo thresholdKobo \<longleftrightarrow> isSafeInteger amountKobo \<and> thresholdKobo \<le> amountKobo"

text \<open>\<open>envThreshold\<close> is \<open>Number(process.env.FORCE\_CREDIT\_DUAL\_APPROVAL\_THRESHOLD\_KOBO)\<close>.\<close>

definition getConfiguredForceCreditThresholdKobo :: "rat option \<Rightarrow> 'w billdb \<Rightarrow> int" where
  "getConfiguredForceCreditThresholdKobo envThreshold s =
     (case valid_threshold (b_threshold s) of
        None \<Rightarrow> getForceCreditDualApprovalThresholdKobo envThreshold | Some t \<Rightarrow> t)"

definition FORCE_CREDIT_APPROVAL_TTL_MS :: int where "FORCE_CREDIT_APPROVAL_TTL_MS = 24 * 60 * 60 * 1000"

definition getForceCreditApprovalExpiry :: "int \<Rightarrow> int" where
  "getForceCreditApprovalExpiry requestedAt = requestedAt + FORCE_CREDIT_APPROVAL_TTL_MS"

definition isForceCreditApprovalExpired :: "int \<Rightarrow> int \<Rightarrow> bool" where
  "isForceCreditApprovalExpired expiresAt now \<longleftrightarrow> expiresAt \<le> now"

text \<open>An insertion into \<open>event\_log\<close>, whose \<open>aggregateId\<close> has 128 characters.\<close>

definition log_event :: "env \<Rightarrow> string \<Rightarrow> string \<Rightarrow> int option \<Rightarrow> eventPayload \<Rightarrow> ('w billdb, unit) act" where
  "log_event e ty agg actor payload s =
     (if 128 < length agg then (Inl DbError, s)
      else (Inr (), s\<lparr>b_eventlog := tinsert (\<lambda>n. \<lparr>ev_id = n, ev_eventType = ty, ev_aggregateId = agg,
              ev_actorId = actor, ev_payload = payload, ev_createdAt = e_now e\<rparr>) (b_eventlog s)\<rparr>))"

definition assertDesignatedForceCreditApprover :: "int \<Rightarrow> ('w billdb, 'a) act \<Rightarrow> ('w billdb, 'a) act" where
  "assertDesignatedForceCreditApprover userId k s =
     require (\<exists>a \<in> set (b_approvers s). av_userId a = userId \<and> av_active a)
       (TRPCError FORBIDDEN ''Only a designated Force Credit approver may authorize high-value recoveries'') k s"

definition stepUpMfa :: "(byte list \<Rightarrow> byte list \<Rightarrow> byte list) \<Rightarrow> totpCrypto \<Rightarrow> env \<Rightarrow> int \<Rightarrow> string \<Rightarrow> 'w billdb \<Rightarrow> error option" where
  "stepUpMfa hmac_sha1 cr e userId totpCode s =
     (let missing = Some (TRPCError PRECONDITION_FAILED ''A verified authenticator app is required before authorizing a high-value Force Credit'') in
      case totp_of userId (b_totp s) of
        None \<Rightarrow> missing
      | Some r \<Rightarrow>
          if \<not> tp_verified r then missing
          else (case decryptTotpSecret cr (tp_secret r) of
                  Inl err \<Rightarrow> Some err
                | Inr secret \<Rightarrow>
                    if validateTotp hmac_sha1 (e_now e div 1000) secret totpCode then None
                    else Some (TRPCError UNAUTHORIZED ''The authenticator code is invalid or expired'')))"

section \<open>Unreconciled top-ups\<close>

definition unreconciled :: "topup \<Rightarrow> bool" where
  "unreconciled t \<longleftrightarrow> (case to_tbTransferId t of None \<Rightarrow> True | Some x \<Rightarrow> starts_with x ''fallback-'' \<or> starts_with x ''pending:'')"

definition listUnreconciled :: "env \<Rightarrow> ctx \<Rightarrow> int \<Rightarrow> ('w billdb, topup list) act" where
  "listUnreconciled e c cnt = adminProcedure e c (\<lambda>u. zod (1 \<le> cnt \<and> cnt \<le> 200) (\<lambda>s.
     (Inr (if \<not> e_dbUp e then [] else take (nat cnt) (order_desc to_verifiedAt (tselect unreconciled (b_topups s)))), s)))"

definition matching_topup :: "string \<Rightarrow> string \<Rightarrow> int \<Rightarrow> 'w billdb \<Rightarrow> topup option" where
  "matching_topup reference tenantId amountKobo s =
     tfind (\<lambda>t. to_reference t = reference \<and> to_tenantId t = tenantId \<and> to_amountKobo t = amountKobo) (b_topups s)"

definition set_transfer_id :: "string \<Rightarrow> string \<Rightarrow> 'w billdb \<Rightarrow> 'w billdb" where
  "set_transfer_id reference transferId s =
     s\<lparr>b_topups := tupdate (\<lambda>t. to_reference t = reference) (\<lambda>t. t\<lparr>to_tbTransferId := Some transferId\<rparr>) (b_topups s)\<rparr>"

definition retry_eligible :: "topup \<Rightarrow> bool" where
  "retry_eligible t \<longleftrightarrow> (case to_tbTransferId t of None \<Rightarrow> True
     | Some x \<Rightarrow> x = [] \<or> starts_with x ''pending:'' \<or> starts_with x ''fallback-'')"

definition credit_input_ok :: "string \<Rightarrow> string \<Rightarrow> int \<Rightarrow> bool" where
  "credit_input_ok reference tenantId amountKobo \<longleftrightarrow>
     1 \<le> length reference \<and> 1 \<le> length tenantId \<and> isSafeInteger amountKobo \<and> 0 < amountKobo"

definition retryCredit :: "'w services \<Rightarrow> env \<Rightarrow> ctx \<Rightarrow> string \<Rightarrow> string \<Rightarrow> int \<Rightarrow> ('w billdb, string) act" where
  "retryCredit sv e c reference tenantId amountKobo =
     adminProcedure e c (\<lambda>u. zod (credit_input_ok reference tenantId amountKobo) (recoveryDb e (\<lambda>s.
       case matching_topup reference tenantId amountKobo s of
         None \<Rightarrow> (Inl (TRPCError CONFLICT ''Top-up is not eligible for reconciliation retry''), s)
       | Some t \<Rightarrow>
           if \<not> retry_eligible t then (Inl (TRPCError CONFLICT ''Top-up is not eligible for reconciliation retry''), s)
           else seq_act (creditTenantAccount sv e tenantId amountKobo reference)
                  (\<lambda>transferId t. (Inr transferId, set_transfer_id reference transferId t)) s)))"

definition listDeadLetters :: "env \<Rightarrow> ctx \<Rightarrow> int \<Rightarrow> ('w billdb, retryItem list) act" where
  "listDeadLetters e c cnt = adminProcedure e c (\<lambda>u. zod (1 \<le> cnt \<and> cnt \<le> 200) (\<lambda>s.
     (Inr (if \<not> e_dbUp e then [] else take (nat cnt) (order_desc rq_createdAt (tselect (\<lambda>r. rq_status r = Retry_dead_letter) (b_retries s)))), s)))"

text \<open>Append a line to \<open>lastError\<close> and mark the item resolved, whatever its status was.\<close>

definition resolve_retry :: "string \<Rightarrow> string \<Rightarrow> 'w billdb \<Rightarrow> 'w billdb" where
  "resolve_retry reference entry = set_retry (\<lambda>r. rq_reference r = reference)
     (\<lambda>r. r\<lparr>rq_lastError := Some ((case rq_lastError r of None \<Rightarrow> '''' | Some x \<Rightarrow> x) @ [CHR 0x0A] @ entry),
            rq_status := Retry_resolved\<rparr>)"

definition display_name :: "user \<Rightarrow> string \<Rightarrow> string" where
  "display_name u fallback = (case u_name u of None \<Rightarrow> fallback | Some n \<Rightarrow> n)"

definition addResolutionNote :: "env \<Rightarrow> ctx \<Rightarrow> string \<Rightarrow> string \<Rightarrow> ('w billdb, unit) act" where
  "addResolutionNote e c reference note =
     adminProcedure e c (\<lambda>u. zod (1 \<le> length reference \<and> 1 \<le> length note \<and> length note \<le> 1000) (recoveryDb e (\<lambda>s.
       (Inr (), resolve_retry reference (''['' @ isoNow e @ ''] '' @ display_name u ''admin'' @ '': '' @ note) s))))"

section \<open>Force credit\<close>

definition recorded_in_ledger :: "topup \<Rightarrow> bool" where
  "recorded_in_ledger t \<longleftrightarrow> (case to_tbTransferId t of None \<Rightarrow> False | Some x \<Rightarrow> x \<noteq> [] \<and> \<not> starts_with x ''fallback-'')"

text \<open>\<open>openId\<close> is the caller's OpenID, shown when the account has no name.\<close>

definition forceCredit ::
  "rat option \<Rightarrow> 'w services \<Rightarrow> env \<Rightarrow> ctx \<Rightarrow> string \<Rightarrow> string \<Rightarrow> string \<Rightarrow> int \<Rightarrow> string \<Rightarrow> ('w billdb, string) act" where
  "forceCredit envThreshold sv e c openId reference tenantId amountKobo auditNote =
     adminProcedure e c (\<lambda>u. zod (credit_input_ok reference tenantId amountKobo \<and> 10 \<le> length auditNote) (recoveryDb e (\<lambda>s.
       if requiresForceCreditDualApproval amountKobo (getConfiguredForceCreditThresholdKobo envThreshold s)
       then (Inl (TRPCError PRECONDITION_FAILED ''Dual approval is required for Force Credit requests''), s)
       else (case matching_topup reference tenantId amountKobo s of
         None \<Rightarrow> (Inl (TRPCError NOT_FOUND ''Matching verified top-up was not found''), s)
       | Some t \<Rightarrow>
           if recorded_in_ledger t then (Inl (TRPCError CONFLICT ''Top-up is already recorded in the ledger''), s)
           else seq_act (creditTenantAccount sv e tenantId amountKobo reference) (\<lambda>transferId s1.
                seq_act (log_event e ''force_credit'' reference (Some (u_id u)) (CreditPayload tenantId amountKobo (Some transferId)))
                  (\<lambda>_. ret transferId)
                  (resolve_retry reference
                    (''[FORCE_CREDIT '' @ isoNow e @ ''] by '' @ display_name u openId @ '': '' @ auditNote)
                    (set_transfer_id reference transferId s1))) s))))"

definition forceCreditPolicy :: "rat option \<Rightarrow> env \<Rightarrow> ctx \<Rightarrow> ('w billdb, int) act" where
  "forceCreditPolicy envThreshold e c = adminProcedure e c (\<lambda>u s.
     (Inr (if e_dbUp e then getConfiguredForceCreditThresholdKobo envThreshold s
           else getForceCreditDualApprovalThresholdKobo envThreshold), s))"

text \<open>Who is recorded as the editor of a setting: a column of 255 characters.\<close>

definition updatedBy :: "user \<Rightarrow> string" where
  "updatedBy u = (case u_email u of Some x \<Rightarrow> x | None \<Rightarrow> (case u_name u of Some n \<Rightarrow> n | None \<Rightarrow> show_int (u_id u)))"

text \<open>The results are the new and the previous threshold.\<close>

definition change_threshold :: "rat option \<Rightarrow> env \<Rightarrow> user \<Rightarrow> string \<Rightarrow> int \<Rightarrow> ('w billdb, int \<times> int) act" where
  "change_threshold envThreshold e u ty thresholdKobo s =
     (let previous = getConfiguredForceCreditThresholdKobo envThreshold s in
      if 255 < length (updatedBy u) then (Inl DbError, s)
      else seq_act (log_event e ty ''force_credit_policy'' (Some (u_id u)) (Threshold previous thresholdKobo))
             (\<lambda>_. ret (thresholdKobo, previous)) (s\<lparr>b_threshold := Some (of_int thresholdKobo)\<rparr>))"

definition updateForceCreditPolicy :: "rat option \<Rightarrow> env \<Rightarrow> ctx \<Rightarrow> int \<Rightarrow> ('w billdb, int \<times> int) act" where
  "updateForceCreditPolicy envThreshold e c thresholdKobo =
     adminProcedure e c (\<lambda>u. zod (isSafeInteger thresholdKobo \<and> 10000 \<le> thresholdKobo)
     (recoveryDb e (change_threshold envThreshold e u ''force_credit_threshold_updated'' thresholdKobo)))"

definition threshold_event :: "eventLogRow \<Rightarrow> bool" where
  "threshold_event r \<longleftrightarrow> ev_aggregateId r = ''force_credit_policy'' \<and>
     (ev_eventType r = ''force_credit_threshold_updated'' \<or> ev_eventType r = ''force_credit_threshold_reverted'')"

definition forceCreditPolicyHistory :: "env \<Rightarrow> ctx \<Rightarrow> int \<Rightarrow> ('w billdb, eventLogRow list) act" where
  "forceCreditPolicyHistory e c cnt = adminProcedure e c (\<lambda>u. zod (1 \<le> cnt \<and> cnt \<le> 100) (\<lambda>s.
     (Inr (if \<not> e_dbUp e then [] else take (nat cnt) (order_desc ev_createdAt (tselect threshold_event (b_eventlog s)))), s)))"

definition rollbackForceCreditPolicy :: "rat option \<Rightarrow> env \<Rightarrow> ctx \<Rightarrow> int \<Rightarrow> ('w billdb, int \<times> int) act" where
  "rollbackForceCreditPolicy envThreshold e c historyEventId =
     adminProcedure e c (\<lambda>u. zod (0 < historyEventId) (recoveryDb e (\<lambda>s.
       case tfind (\<lambda>r. ev_id r = historyEventId \<and> threshold_event r) (b_eventlog s) of
         None \<Rightarrow> (Inl (TRPCError NOT_FOUND ''Threshold history event not found''), s)
       | Some r \<Rightarrow>
           (case ev_payload r of
              Threshold _ restored \<Rightarrow>
                if isSafeInteger restored \<and> 10000 \<le> restored
                then change_threshold envThreshold e u ''force_credit_threshold_reverted'' restored s
                else (Inl (TRPCError BAD_REQUEST ''History event does not contain a valid threshold''), s)
            | _ \<Rightarrow> (Inl (TRPCError BAD_REQUEST ''History event does not contain a valid threshold''), s)))))"

text \<open>\<open>collate\<close> is the sort key of a name, NULL included.\<close>

definition listForceCreditApprovers ::
  "(string option \<Rightarrow> 'k::linorder) \<Rightarrow> env \<Rightarrow> ctx \<Rightarrow> ('w billdb, (approverRow \<times> user) list) act" where
  "listForceCreditApprovers collate e c = adminProcedure e c (\<lambda>u s.
     (Inr (if \<not> e_dbUp e then []
           else let joined = sort_key (\<lambda>(a, v). collate (u_name v))
                  (concat (map (\<lambda>a. map (Pair a) (filter (\<lambda>v. u_id v = av_userId a) (b_users s))) (b_approvers s)))
                in filter (\<lambda>(a, v). av_active a) joined @ filter (\<lambda>(a, v). \<not> av_active a) joined), s))"

definition listForceCreditApproverCandidates ::
  "(string option \<Rightarrow> 'k::linorder) \<Rightarrow> env \<Rightarrow> ctx \<Rightarrow> ('w billdb, user list) act" where
  "listForceCreditApproverCandidates collate e c = adminProcedure e c (\<lambda>u s.
     (Inr (if \<not> e_dbUp e then [] else sort_key (\<lambda>v. collate (u_name v)) (filter (\<lambda>v. u_role v = RAdmin) (b_users s))), s))"

definition upsert_approver :: "env \<Rightarrow> int \<Rightarrow> int \<Rightarrow> bool \<Rightarrow> approverRow list \<Rightarrow> approverRow list" where
  "upsert_approver e by userId active rs =
     (if userId \<in> av_userId ` set rs
      then lupdate (\<lambda>a. av_userId a = userId)
             (\<lambda>a. a\<lparr>av_active := active, av_designatedBy := by,
                    av_designatedAt := (if active then e_now e else av_designatedAt a),
                    av_revokedAt := (if active then None else Some (e_now e))\<rparr>) rs
      else rs @ [\<lparr>av_userId = userId, av_active = active, av_designatedBy = by, av_designatedAt = e_now e,
                   av_revokedAt = (if active then None else Some (e_now e))\<rparr>])"

definition setForceCreditApprover :: "env \<Rightarrow> ctx \<Rightarrow> int \<Rightarrow> bool \<Rightarrow> ('w billdb, unit) act" where
  "setForceCreditApprover e c userId active =
     adminProcedure e c (\<lambda>u. zod (0 < userId) (recoveryDb e (\<lambda>s.
       case List.find (\<lambda>v. u_id v = userId) (b_users s) of
         None \<Rightarrow> (Inl (TRPCError NOT_FOUND ''User not found''), s)
       | Some target \<Rightarrow>
           if u_role target \<noteq> RAdmin
           then (Inl (TRPCError BAD_REQUEST ''Only administrators can be designated as Force Credit approvers''), s)
           else log_event e ''force_credit_approver_designation'' (show_int userId) (Some (u_id u)) (ApproverPayload userId active)
                  (s\<lparr>b_approvers := upsert_approver e (u_id u) userId active (b_approvers s)\<rparr>))))"

section \<open>Dual approval\<close>

definition new_approval :: "env \<Rightarrow> int \<Rightarrow> string \<Rightarrow> string \<Rightarrow> int \<Rightarrow> string \<Rightarrow> int \<Rightarrow> approval" where
  "new_approval e requester reference tenantId amountKobo auditNote n =
     \<lparr>ap_id = n, ap_reference = reference, ap_tenantId = tenantId, ap_amountKobo = amountKobo, ap_auditNote = auditNote,
      ap_status = Ap_pending, ap_requesterId = requester, ap_approverId = None, ap_approvalNote = None,
      ap_ledgerTransferId = None, ap_requestedAt = e_now e, ap_expiresAt = getForceCreditApprovalExpiry (e_now e),
      ap_executedAt = None\<rparr>"

definition requestForceCredit ::
  "rat option \<Rightarrow> env \<Rightarrow> ctx \<Rightarrow> string \<Rightarrow> string \<Rightarrow> int \<Rightarrow> string \<Rightarrow> ('w billdb, int) act" where
  "requestForceCredit envThreshold e c reference tenantId amountKobo auditNote =
     adminProcedure e c (\<lambda>u. zod (credit_input_ok reference tenantId amountKobo \<and> 10 \<le> length auditNote) (recoveryDb e (\<lambda>s.
       if \<not> requiresForceCreditDualApproval amountKobo (getConfiguredForceCreditThresholdKobo envThreshold s)
       then (Inl (TRPCError BAD_REQUEST ''This amount is below the dual-approval threshold; use the standard Force Credit recovery''), s)
       else (case matching_topup reference tenantId amountKobo s of
         None \<Rightarrow> (Inl (TRPCError NOT_FOUND ''Matching verified top-up was not found''), s)
       | Some t \<Rightarrow>
           if recorded_in_ledger t then (Inl (TRPCError CONFLICT ''Top-up is already recorded in the ledger''), s)
           else if \<exists>a \<in> set (rows (b_approvals s)). ap_reference a = reference \<and> (ap_status a = Ap_pending \<or> ap_status a = Ap_executing)
           then (Inl (TRPCError CONFLICT ''A Force Credit approval request is already pending for this payment''), s)
           else let designated = filter (\<lambda>a. av_active a \<and> av_userId a \<noteq> u_id u) (b_approvers s) in
                if designated = []
                then (Inl (TRPCError PRECONDITION_FAILED ''No independent designated Force Credit approver is available''), s)
                else if MAX_INT32 < amountKobo \<or> 256 < length reference \<or> 64 < length tenantId then (Inl DbError, s)
                else seq_act (log_event e ''force_credit_requested'' reference (Some (u_id u)) (CreditPayload tenantId amountKobo None))
                       (\<lambda>_ s1. (Inr (seq (b_approvals s)),
                          s1\<lparr>b_notifications := b_notifications s1 @
                            map (\<lambda>a. (av_userId a, ''force_credit_approval_requested'')) designated\<rparr>))
                       (s\<lparr>b_approvals := tinsert (new_approval e (u_id u) reference tenantId amountKobo auditNote) (b_approvals s)\<rparr>)))))"

definition listForceCreditApprovals :: "env \<Rightarrow> ctx \<Rightarrow> approval_status option \<Rightarrow> int \<Rightarrow> ('w billdb, approval list) act" where
  "listForceCreditApprovals e c st cnt = adminProcedure e c (\<lambda>u. zod (1 \<le> cnt \<and> cnt \<le> 200) (\<lambda>s.
     (Inr (if \<not> e_dbUp e then [] else take (nat cnt) (order_desc ap_requestedAt
        (tselect (\<lambda>a. st = None \<or> st = Some (ap_status a)) (b_approvals s)))), s)))"

definition set_approval :: "(approval \<Rightarrow> bool) \<Rightarrow> (approval \<Rightarrow> approval) \<Rightarrow> 'w billdb \<Rightarrow> 'w billdb" where
  "set_approval P f s = s\<lparr>b_approvals := tupdate P f (b_approvals s)\<rparr>"

definition approvable :: "env \<Rightarrow> int \<Rightarrow> int \<Rightarrow> approval \<Rightarrow> bool" where
  "approvable e approvalId userId a \<longleftrightarrow> ap_id a = approvalId \<and> ap_status a = Ap_pending \<and> e_now e < ap_expiresAt a \<and> ap_requesterId a \<noteq> userId"

definition approve_claim :: "int \<Rightarrow> string \<Rightarrow> approval \<Rightarrow> approval" where
  "approve_claim userId note a = a\<lparr>ap_status := Ap_executing, ap_approverId := Some userId, ap_approvalNote := Some note\<rparr>"

text \<open>The execution of a claimed approval: the credit through the ledger, then the bookkeeping.\<close>

definition execute_approval :: "'w services \<Rightarrow> env \<Rightarrow> user \<Rightarrow> string \<Rightarrow> string \<Rightarrow> approval \<Rightarrow> ('w billdb, string) act" where
  "execute_approval sv e u openId note a s =
     (let k = ap_id a; failed = set_approval (\<lambda>b. ap_id b = k) (\<lambda>b. b\<lparr>ap_status := Ap_failed\<rparr>) s in
      case matching_topup (ap_reference a) (ap_tenantId a) (ap_amountKobo a) s of
        None \<Rightarrow> (Inl (TRPCError CONFLICT ''Top-up is missing or already recorded in the ledger''), failed)
      | Some t \<Rightarrow>
          if recorded_in_ledger t then (Inl (TRPCError CONFLICT ''Top-up is missing or already recorded in the ledger''), failed)
          else seq_act (creditTenantAccount sv e (ap_tenantId a) (ap_amountKobo a) (ap_reference a)) (\<lambda>transferId s1.
            seq_act (log_event e ''force_credit_dual_approved'' (ap_reference a) (Some (u_id u))
                       (DualApproved k (ap_requesterId a) (u_id u) transferId))
              (\<lambda>_. ret transferId)
              (set_approval (\<lambda>b. ap_id b = k)
                 (\<lambda>b. b\<lparr>ap_status := Ap_executed, ap_ledgerTransferId := Some transferId, ap_executedAt := Some (e_now e)\<rparr>)
                (resolve_retry (ap_reference a)
                   (''[DUAL_APPROVED '' @ isoNow e @ ''] by '' @ display_name u openId @ '': '' @ note)
                   (set_transfer_id (ap_reference a) transferId s1)))) s)"

definition approveForceCredit ::
  "(byte list \<Rightarrow> byte list \<Rightarrow> byte list) \<Rightarrow> totpCrypto \<Rightarrow> 'w services \<Rightarrow> env \<Rightarrow> ctx \<Rightarrow> string \<Rightarrow> int \<Rightarrow> string \<Rightarrow> string
     \<Rightarrow> ('w billdb, string) act" where
  "approveForceCredit hmac_sha1 cr sv e c openId approvalId note totpCode =
     adminProcedure e c (\<lambda>u. zod (0 < approvalId \<and> 10 \<le> length note \<and> code_ok totpCode) (recoveryDb e
     (assertDesignatedForceCreditApprover (u_id u) (\<lambda>s.
       case stepUpMfa hmac_sha1 cr e (u_id u) totpCode s of
         Some err \<Rightarrow>
           seq_act (log_event e ''force_credit_mfa_failed''
              (case tfind (\<lambda>a. ap_id a = approvalId) (b_approvals s) of
                 None \<Rightarrow> ''approval:'' @ show_int approvalId | Some a \<Rightarrow> ap_reference a)
              (Some (u_id u)) (MfaFailed approvalId (error_text err))) (\<lambda>_. throw err) s
       | None \<Rightarrow>
           let P = approvable e approvalId (u_id u) in
           (case tfind P (b_approvals s) of
              None \<Rightarrow> (Inl (TRPCError CONFLICT ''Request is unavailable, already being processed, or requires a different approver''), s)
            | Some a \<Rightarrow>
                execute_approval sv e u openId note (approve_claim (u_id u) note a)
                  (set_approval P (approve_claim (u_id u) note) s))))))"

definition rejectForceCredit :: "env \<Rightarrow> ctx \<Rightarrow> int \<Rightarrow> string \<Rightarrow> ('w billdb, unit) act" where
  "rejectForceCredit e c approvalId note =
     adminProcedure e c (\<lambda>u. zod (0 < approvalId \<and> 10 \<le> length note) (recoveryDb e
     (assertDesignatedForceCreditApprover (u_id u) (\<lambda>s.
       let P = (\<lambda>a. ap_id a = approvalId \<and> ap_status a = Ap_pending \<and> ap_requesterId a \<noteq> u_id u) in
       (case tfind P (b_approvals s) of
          None \<Rightarrow> (Inl (TRPCError CONFLICT ''Request is unavailable, already decided, or requires a different approver''), s)
        | Some a \<Rightarrow>
            log_event e ''force_credit_rejected'' (ap_reference a) (Some (u_id u))
              (CreditPayload (ap_tenantId a) (ap_amountKobo a) None)
              (set_approval P (\<lambda>b. b\<lparr>ap_status := Ap_rejected, ap_approverId := Some (u_id u), ap_approvalNote := Some note\<rparr>) s))))))"

section \<open>Expiry\<close>

definition expirable :: "env \<Rightarrow> approval \<Rightarrow> bool" where
  "expirable e a \<longleftrightarrow> ap_status a = Ap_pending \<and> isForceCreditApprovalExpired (ap_expiresAt a) (e_now e)"

fun log_expired :: "env \<Rightarrow> approval list \<Rightarrow> ('w billdb, unit) act" where
  "log_expired e [] = ret ()"
| "log_expired e (a # as) = seq_act (log_event e ''force_credit_expired'' (ap_reference a) None
     (CreditPayload (ap_tenantId a) (ap_amountKobo a) None)) (\<lambda>_. log_expired e as)"

definition expirePendingForceCreditApprovals :: "env \<Rightarrow> ('w billdb, string list) act" where
  "expirePendingForceCreditApprovals e s =
     (if \<not> e_dbUp e then (Inl (PlainError ''Database unavailable''), s)
      else let expired = tselect (expirable e) (b_approvals s);
               s1 = set_approval (expirable e) (\<lambda>a. a\<lparr>ap_status := Ap_expired,
                      ap_approvalNote := Some ((case ap_approvalNote a of None \<Rightarrow> '''' | Some x \<Rightarrow> x) @ [CHR 0x0A] @
                        ''[SYSTEM_EXPIRED '' @ isoNow e @ ''] Unapproved after 24 hours.'')\<rparr>) s
           in seq_act (log_expired e expired) (\<lambda>_. ret (map ap_reference expired)) s1)"

end
