(* ===== verification/Billing_Money.thy ===== *)
theory Billing_Money
  imports Billing_Signup Billing_Meter Billing_Recovery State_Machine
begin

text \<open>
  The money of the billing subsystem as a state machine. A state is the database with the ledger
  behind it and the multiset of handlers that are under way, each between two of the points where
  the source leaves a transaction or waits for a service. Any handler may take its next step at
  any time, stop for good (a crash), or run beside another one for the same payment or charge.
  The invariant says which transfers can ever be in the ledger and what the tables say about them.
\<close>

datatype task =
    Verify string intent
  | Post string intent int string
  | Finish string intent int string
  | Check "int option" debitInput transfer
  | Charge debitInput transfer
  | Reconcile debitInput transfer

definition next_task :: "('a \<Rightarrow> task option) \<Rightarrow> (error + 'a) \<times> 's \<Rightarrow> task option \<times> 's" where
  "next_task f r = (case r of (Inl _, t) \<Rightarrow> (None, t) | (Inr x, t) \<Rightarrow> (f x, t))"

lemma next_task_simps [simp]: "next_task f (Inl e, t) = (None, t)" "next_task f (Inr x, t) = (f x, t)"
  by (simp_all add: next_task_def)

fun run_task :: "'w services \<Rightarrow> env \<Rightarrow> task \<Rightarrow> 'w billdb \<Rightarrow> task option \<times> 'w billdb" where
  "run_task sv e (Verify ref i) s = next_task (\<lambda>(a, ch). Some (Post ref i a ch)) (settle_verify sv ref i s)"
| "run_task sv e (Post ref i a ch) s = next_task (\<lambda>_. Some (Finish ref i a ch)) (settle_post sv ref i a s)"
| "run_task sv e (Finish ref i a ch) s = next_task (\<lambda>_. None) (settle_finish e ref i a ch (topupTransferId sv ref) s)"
| "run_task sv e (Check ct inp tr) s = next_task (\<lambda>_. Some (Charge inp tr)) (debit_check sv ct (di_tenantId inp) tr s)"
| "run_task sv e (Charge inp tr) s = next_task (\<lambda>_. Some (Reconcile inp tr)) (debit_post sv tr s)"
| "run_task sv e (Reconcile inp tr) s = next_task (\<lambda>_. None) (debit_reconcile e inp tr s)"

definition priced :: "'w services \<Rightarrow> debitInput \<Rightarrow> transfer" where
  "priced sv inp = debitTransfer sv (di_tenantId inp) (di_investigationId inp) (di_tier inp) (TIER_AMOUNTS (di_tier inp))"

definition kept_events :: "billingEvent list \<Rightarrow> billingEvent list \<Rightarrow> bool" where
  "kept_events E E' \<longleftrightarrow> (\<forall>ev \<in> set E. \<exists>ev' \<in> set E'. be_id ev' = be_id ev \<and> be_tenant_id ev' = be_tenant_id ev \<and>
     be_amount_kobo ev' = be_amount_kobo ev)"

text \<open>What the rest of the system may change: anything but intents, top-ups, claims and the ledger.\<close>

definition elsewhere :: "'w billdb \<Rightarrow> 'w billdb \<Rightarrow> bool" where
  "elsewhere s t \<longleftrightarrow> b_world t = b_world s \<and> b_intents t = b_intents s \<and> b_topups t = b_topups s \<and>
     b_claims t = b_claims s \<and> kept_events (b_events s) (b_events t)"

type_synonym 'w money = "'w billdb \<times> task multiset"

definition spawn :: "task option \<Rightarrow> task multiset" where
  "spawn n = (case n of None \<Rightarrow> {#} | Some t \<Rightarrow> {#t#})"

lemma spawn_simps [simp]: "spawn None = {#}" "spawn (Some t) = {#t#}"
  by (simp_all add: spawn_def)

inductive money_step :: "'w services \<Rightarrow> ('w \<Rightarrow> transfer list) \<Rightarrow> 'w money \<Rightarrow> 'w money \<Rightarrow> bool"
  for sv :: "'w services" and posted where
  ms_run: "run_task sv e k s = (n, t) \<Longrightarrow> money_step sv posted (s, add_mset k ts) (t, ts + spawn n)"
| ms_crash: "money_step sv posted (s, add_mset k ts) (s, ts)"
| ms_settle: "settle_begin sv e ref s = (Inr (Eligible i), t) \<Longrightarrow> money_step sv posted (s, ts) (t, add_mset (Verify ref i) ts)"
| ms_debit: "debit_claim ct inp (priced sv inp) s = (Inr (Inl ()), t) \<Longrightarrow>
    money_step sv posted (s, ts) (t, add_mset (Check ct inp (priced sv inp)) ts)"
| ms_intent: "isSafeInteger (ts_amountKobo inp) \<Longrightarrow> ts_purpose inp = None \<Longrightarrow>
    insert_intent (new_intent e uuid (paymentReference uuid2) inp) s = (Inr (), t) \<Longrightarrow> money_step sv posted (s, ts) (t, ts)"
| ms_initialize: "money_step sv posted (s, ts) (s\<lparr>b_world := snd (sv_initialize sv r (b_world s))\<rparr>, ts)"
| ms_pending: "mark_pending e uuid code s = (Inr (), t) \<Longrightarrow> money_step sv posted (s, ts) (t, ts)"
| ms_failed: "money_step sv posted (s, ts) (mark_failed uuid s, ts)"
| ms_meter: "ev \<in> set (b_events s) \<Longrightarrow>
    debitTenantForIntelligenceAssessment sv (be_tenant_id ev) (be_id ev) (be_amount_kobo ev) s = (r, t) \<Longrightarrow>
    money_step sv posted (s, ts) (t, ts)"
| ms_recover: "i \<in> set (b_intents s) \<Longrightarrow> pi_status i = Credited \<Longrightarrow>
    money_step sv posted (s, ts)
      (set_transfer_id (pi_provider_reference i) (topupTransferId sv (pi_provider_reference i)) s, ts)"
| ms_elsewhere: "elsewhere s t \<Longrightarrow> money_step sv posted (s, ts) (t, ts)"
| ms_world: "posted w = posted (b_world s) \<Longrightarrow> money_step sv posted (s, ts) (s\<lparr>b_world := w\<rparr>, ts)"

inductive_cases money_stepE: "money_step sv posted c d"

section \<open>The invariant\<close>

definition is_paid :: "intent \<Rightarrow> bool" where
  "is_paid i \<longleftrightarrow> pi_status i = Intent_pending \<or> pi_status i = Verified \<or> pi_status i = Credited"

definition credit_of :: "'w services \<Rightarrow> intent \<Rightarrow> transfer" where
  "credit_of sv i = topupTransfer sv (pi_provider_reference i) (pi_tenant_id i) (pi_amount_kobo i)"

definition is_debit :: "'w services \<Rightarrow> transfer \<Rightarrow> bool" where
  "is_debit sv p \<longleftrightarrow> (\<exists>inp. p = priced sv inp)"

text \<open>Where a transfer of one of the three codes of this subsystem comes from.\<close>

definition origin :: "'w services \<Rightarrow> intent list \<Rightarrow> tbTransferRow tbl \<Rightarrow> billingEvent list \<Rightarrow> transfer \<Rightarrow> bool" where
  "origin sv I C E p \<longleftrightarrow>
     (tr_code p = 2 \<longrightarrow> (\<exists>i \<in> set I. is_paid i \<and> p = credit_of sv i)) \<and>
     (tr_code p = 1 \<longrightarrow> is_debit sv p \<and> tr_id p \<in> tt_transferId ` set (rows C)) \<and>
     (tr_code p = 3 \<longrightarrow> (\<exists>ev \<in> set E. p = assessmentTransfer sv (be_tenant_id ev) (be_id ev) (be_amount_kobo ev)))"

definition ledger_inv :: "'w services \<Rightarrow> transfer list \<Rightarrow> intent list \<Rightarrow> tbTransferRow tbl \<Rightarrow> billingEvent list \<Rightarrow> bool" where
  "ledger_inv sv P I C E \<longleftrightarrow> distinct (map tr_id P) \<and> (\<forall>p \<in> set P. origin sv I C E p)"

definition intent_ok :: "intent \<Rightarrow> bool" where
  "intent_ok i \<longleftrightarrow> isSafeInteger (pi_amount_kobo i) \<and> 10000 \<le> pi_amount_kobo i \<and> pi_purpose i = Prepaid_credit \<and> pi_currency i = ''NGN''"

definition intents_inv :: "intent list \<Rightarrow> bool" where
  "intents_inv I \<longleftrightarrow> distinct (map pi_id I) \<and> distinct (map pi_provider_reference I) \<and> (\<forall>i \<in> set I. intent_ok i)"

definition topup_ok :: "'w services \<Rightarrow> intent list \<Rightarrow> topup \<Rightarrow> bool" where
  "topup_ok sv I r \<longleftrightarrow> (\<exists>i \<in> set I. pi_status i = Credited \<and> to_reference r = pi_provider_reference i \<and>
     to_tenantId r = show_int (pi_tenant_id i) \<and> to_amountKobo r = pi_amount_kobo i \<and>
     to_tbTransferId r = Some (topupTransferId sv (pi_provider_reference i)))"

definition topups_inv :: "'w services \<Rightarrow> intent list \<Rightarrow> topup tbl \<Rightarrow> bool" where
  "topups_inv sv I T \<longleftrightarrow> distinct (map to_reference (rows T)) \<and> (\<forall>r \<in> set (rows T). topup_ok sv I r)"

text \<open>A claim is that of a debit at the list price, reconciled or not.\<close>

definition claim_ok :: "'w services \<Rightarrow> tbTransferRow \<Rightarrow> bool" where
  "claim_ok sv c \<longleftrightarrow> (\<exists>inp ct n. c = (claim_row ct (priced sv inp) n)\<lparr>tt_reconciledAt := tt_reconciledAt c\<rparr>)"

definition claims_inv :: "'w services \<Rightarrow> tbTransferRow tbl \<Rightarrow> bool" where
  "claims_inv sv C \<longleftrightarrow> distinct (map tt_transferId (rows C)) \<and> (\<forall>c \<in> set (rows C). claim_ok sv c)"

text \<open>The intent a settlement is working on is still there, with its payment data, and has not been failed.\<close>

definition same_pay :: "intent \<Rightarrow> intent \<Rightarrow> bool" where
  "same_pay j i \<longleftrightarrow> pi_id j = pi_id i \<and> pi_provider_reference j = pi_provider_reference i \<and> pi_tenant_id j = pi_tenant_id i \<and>
     pi_amount_kobo j = pi_amount_kobo i \<and> pi_currency j = pi_currency i"

definition settling :: "intent list \<Rightarrow> string \<Rightarrow> intent \<Rightarrow> bool" where
  "settling I ref i \<longleftrightarrow> ref = pi_provider_reference i \<and> (\<exists>j \<in> set I. same_pay j i \<and> is_paid j)"

definition claimed :: "tbTransferRow tbl \<Rightarrow> int option \<Rightarrow> transfer \<Rightarrow> bool" where
  "claimed C ct tr \<longleftrightarrow> (\<exists>n. claim_row ct tr n \<in> set (rows C))"

fun task_inv :: "'w services \<Rightarrow> transfer list \<Rightarrow> intent list \<Rightarrow> tbTransferRow tbl \<Rightarrow> task \<Rightarrow> bool" where
  "task_inv sv P I C (Verify ref i) = settling I ref i"
| "task_inv sv P I C (Post ref i a ch) = (settling I ref i \<and> a = pi_amount_kobo i)"
| "task_inv sv P I C (Finish ref i a ch) = (settling I ref i \<and> a = pi_amount_kobo i)"
| "task_inv sv P I C (Check ct inp tr) = (is_debit sv tr \<and> claimed C ct tr \<and> (\<forall>p \<in> set P. tr_code p = 1 \<longrightarrow> tr_id p \<noteq> tr_id tr))"
| "task_inv sv P I C (Charge inp tr) = (is_debit sv tr \<and> (\<exists>ct. claimed C ct tr))"
| "task_inv sv P I C (Reconcile inp tr) = (is_debit sv tr \<and> (\<exists>ct. claimed C ct tr))"

fun debit_id :: "task \<Rightarrow> string list" where
  "debit_id (Check ct inp tr) = [tr_id tr]"
| "debit_id (Charge inp tr) = [tr_id tr]"
| "debit_id (Reconcile inp tr) = [tr_id tr]"
| "debit_id _ = []"

definition debit_ids :: "task multiset \<Rightarrow> string multiset" where
  "debit_ids ts = sum_mset (image_mset (\<lambda>k. mset (debit_id k)) ts)"

definition tasks_inv :: "'w services \<Rightarrow> transfer list \<Rightarrow> intent list \<Rightarrow> tbTransferRow tbl \<Rightarrow> task multiset \<Rightarrow> bool" where
  "tasks_inv sv P I C ts \<longleftrightarrow> (\<forall>k \<in># ts. task_inv sv P I C k) \<and> (\<forall>x. count (debit_ids ts) x \<le> 1)"

definition money_inv :: "'w services \<Rightarrow> ('w \<Rightarrow> transfer list) \<Rightarrow> 'w money \<Rightarrow> bool" where
  "money_inv sv posted c = (case c of (s, ts) \<Rightarrow>
     let P = posted (b_world s); I = b_intents s; C = b_claims s in
     ledger_inv sv P I C (b_events s) \<and> intents_inv I \<and> topups_inv sv I (b_topups s) \<and> claims_inv sv C \<and> tasks_inv sv P I C ts)"

definition money_start :: "('w \<Rightarrow> transfer list) \<Rightarrow> 'w money \<Rightarrow> bool" where
  "money_start posted c \<longleftrightarrow> b_intents (fst c) = [] \<and> b_topups (fst c) = empty_tbl \<and> b_claims (fst c) = empty_tbl \<and> snd c = {#} \<and>
     distinct (map tr_id (posted (b_world (fst c)))) \<and> (\<forall>p \<in> set (posted (b_world (fst c))). tr_code p \<notin> {1, 2, 3})"

lemma money_start_inv: "money_start posted c \<Longrightarrow> money_inv sv posted c"
  by (cases c) (auto simp: money_start_def money_inv_def ledger_inv_def origin_def intents_inv_def
    topups_inv_def claims_inv_def tasks_inv_def debit_ids_def empty_tbl_def)

end
