(* ===== verification/Billing_Money_Inv.thy ===== *)
theory Billing_Money_Inv
  imports Billing_Money
begin

text \<open>
  Every step of the money machine keeps its invariant. The first part says what each micro-step
  can do to the database; the second how the parts of the invariant carry over when the ledger
  grows, when intents move on and when claims change; the third puts them together.
\<close>

section \<open>Effects of the micro-steps\<close>

definition posts :: "('w \<Rightarrow> transfer list) \<Rightarrow> transfer \<Rightarrow> 'w \<Rightarrow> 'w \<Rightarrow> bool" where
  "posts posted tr w w' \<longleftrightarrow> posted w' = posted w \<or> (tr_id tr \<notin> tr_id ` set (posted w) \<and> posted w' = posted w @ [tr])"

lemma posts_same: "posted w' = posted w \<Longrightarrow> posts posted tr w w'"
  by (simp add: posts_def)

lemma posts_subset: "posts posted tr w w' \<Longrightarrow> set (posted w) \<subseteq> set (posted w')"
  by (auto simp: posts_def)

lemma posts_trans: "posted w1 = posted w \<Longrightarrow> posts posted tr w1 w2 \<Longrightarrow> posts posted tr w w2"
  by (simp add: posts_def)

lemma law_posts: "ledger_laws sv posted \<Longrightarrow> posts posted tr w (snd (sv_postTransfers sv [tr] w))"
  unfolding posts_def by (drule law_post [where t = tr and w = w]) blast

lemma tigerBeetlePost_transfer:
  assumes "ledger_laws sv posted" "tigerBeetlePost sv (sv_postTransfers sv [tr]) s = (r, t)"
  obtains w where "t = s\<lparr>b_world := w\<rparr>" "posts posted tr (b_world s) w"
  using assms(2)
proof (cases rule: tigerBeetlePost_cases)
  case (unconfigured e)
  then show thesis using that [of "b_world s"] by (simp add: posts_def)
next
  case (fails e)
  then show thesis using that [OF fails(2) law_posts [OF assms(1)]] by simp
next
  case (accepted st u)
  then show thesis using that [OF accepted(2) law_posts [OF assms(1)]] by simp
qed

lemma tigerBeetlePost_accounts:
  assumes "ledger_laws sv posted" "tigerBeetlePost sv (sv_postAccounts sv as) s = (r, t)"
  obtains w where "t = s\<lparr>b_world := w\<rparr>" "posted w = posted (b_world s)"
  using assms(2) that law_accounts [OF assms(1)]
  by (cases rule: tigerBeetlePost_cases) (metis surjective billdb.surjective billdb.update_convs(1))+

lemma tbPost_cases:
  assumes "tbPost sv fetch s = (r, t)"
  obtains (unconfigured) e where "r = Inl e" "t = s"
    | (fails) e where "r = Inl e" "t = s\<lparr>b_world := snd (fetch (b_world s))\<rparr>"
    | (accepted) st u where "r = Inr ()" "t = s\<lparr>b_world := snd (fetch (b_world s))\<rparr>"
        "fst (fetch (b_world s)) = Response st u" "http_ok st"
  using assms by (auto simp: tbPost_def split: if_splits prod.splits reply.splits)

lemma tbPost_transfer:
  assumes "ledger_laws sv posted" "tbPost sv (sv_postTransfers sv [tr]) s = (r, t)"
  obtains w where "t = s\<lparr>b_world := w\<rparr>" "posts posted tr (b_world s) w"
  using assms(2)
proof (cases rule: tbPost_cases)
  case (unconfigured e)
  then show thesis using that [of "b_world s"] by (simp add: posts_def)
next
  case (fails e)
  then show thesis using that [OF fails(2) law_posts [OF assms(1)]] by simp
next
  case (accepted st u)
  then show thesis using that [OF accepted(2) law_posts [OF assms(1)]] by simp
qed

lemma tbPost_accounts:
  assumes "ledger_laws sv posted" "tbPost sv (sv_postAccounts sv as) s = (r, t)"
  obtains w where "t = s\<lparr>b_world := w\<rparr>" "posted w = posted (b_world s)"
  using assms(2) that law_accounts [OF assms(1)]
  by (cases rule: tbPost_cases) (metis surjective billdb.surjective billdb.update_convs(1))+

lemma settle_begin_eligible:
  assumes "settle_begin sv e ref s = (Inr (Eligible i), t)"
  shows "t = s" "i \<in> set (b_intents s)" "pi_provider_reference i = ref" "pi_status i = Intent_pending \<or> pi_status i = Verified"
proof -
  have "t = s \<and> intents_of s ref = [i] \<and> (pi_status i = Intent_pending \<or> pi_status i = Verified)"
    using assms by (auto simp: settle_begin_def split: list.splits if_splits sum.splits)
  moreover have "intents_of s ref = [i] \<Longrightarrow> i \<in> set (b_intents s) \<and> pi_provider_reference i = ref"
    unfolding intents_of_def using filter_single [of _ "b_intents s" i] by blast
  ultimately show "t = s" "i \<in> set (b_intents s)" "pi_provider_reference i = ref"
    "pi_status i = Intent_pending \<or> pi_status i = Verified" by blast+
qed

lemma settle_begin_state: "settle_begin sv e ref s = (r, t) \<Longrightarrow> t = s"
  by (auto simp: settle_begin_def split: list.splits if_splits sum.splits)

lemma verified_state: "verifiedPaystackTransaction sv ref s = (r, t) \<Longrightarrow> t = s"
  unfolding verifiedPaystackTransaction_def
  by (erule seq_act_cases; auto split: if_splits elim!: paystackRequest_cases)

lemma settle_verify_state: "settle_verify sv ref i s = (r, t) \<Longrightarrow> t = s"
  unfolding settle_verify_def
  by (erule seq_act_cases; auto split: if_splits sum.splits dest!: verified_state)

lemma settle_verify_amount: "settle_verify sv ref i s = (Inr (a, ch), t) \<Longrightarrow> a = pi_amount_kobo i"
  unfolding settle_verify_def
  by (erule seq_act_cases; auto simp: asAmount_def split: if_splits sum.splits)

lemma settle_post_effect:
  assumes "ledger_laws sv posted" "settle_post sv ref i a s = (r, t)"
  obtains w where "t = s\<lparr>b_world := w\<rparr>" "posts posted (topupTransfer sv ref (pi_tenant_id i) a) (b_world s) w"
  using assms(2) unfolding settle_post_def
proof (cases rule: seq_act_cases)
  case (fails e)
  from tigerBeetlePost_accounts [OF assms(1) fails(1) [unfolded ensureLedgerAccounts_def]] obtain w
    where w: "t = s\<lparr>b_world := w\<rparr>" "posted w = posted (b_world s)" .
  show thesis by (rule that [OF w(1) posts_same]) (use w fails in auto)
next
  case (runs x s')
  from tigerBeetlePost_accounts [OF assms(1) runs(1) [unfolded ensureLedgerAccounts_def]] obtain w
    where w: "s' = s\<lparr>b_world := w\<rparr>" "posted w = posted (b_world s)" .
  let ?tr = "topupTransfer sv ref (pi_tenant_id i) a"
  from runs(2) obtain r' where p: "tigerBeetlePost sv (sv_postTransfers sv [?tr]) s' = (r', t)"
    by (auto elim!: seq_act_cases)
  from tigerBeetlePost_transfer [OF assms(1) p] obtain w'
    where w': "t = s'\<lparr>b_world := w'\<rparr>" "posts posted ?tr (b_world s') w'" .
  show thesis by (rule that [of w']) (use w w' in \<open>auto intro: posts_trans\<close>)
qed

lemma meter_debit_effect:
  assumes "ledger_laws sv posted" "debitTenantForIntelligenceAssessment sv tid k a s = (r, t)"
  obtains w where "t = s\<lparr>b_world := w\<rparr>" "posts posted (assessmentTransfer sv tid k a) (b_world s) w"
proof -
  let ?tr = "assessmentTransfer sv tid k a"
  have same: thesis if "t = s" using that that [symmetric] \<open>\<And>w. \<lbrakk>t = s\<lparr>b_world := w\<rparr>; posts posted ?tr (b_world s) w\<rbrakk> \<Longrightarrow> thesis\<close> [of "b_world s"]
    by (simp add: posts_def)
  show thesis
  proof (cases "0 < tid \<and> isSafeInteger a \<and> 0 < a")
    case False
    then show thesis using assms(2) same by (auto simp: debitTenantForIntelligenceAssessment_def)
  next
    case True
    then have "seq_act (ensureLedgerAccounts sv (show_int tid)) (\<lambda>_. seq_act (assertSufficientLedgerBalance sv (show_int tid) a) (\<lambda>_.
        seq_act (tigerBeetlePost sv (sv_postTransfers sv [?tr])) (\<lambda>_. ret (intelligenceAssessmentTransferId sv k)))) s = (r, t)"
      using assms(2) by (simp add: debitTenantForIntelligenceAssessment_def)
    then show thesis
    proof (cases rule: seq_act_cases)
      case (fails e)
      from tigerBeetlePost_accounts [OF assms(1) fails(1) [unfolded ensureLedgerAccounts_def]] show thesis
        using that by (metis posts_same)
    next
      case (runs x s1)
      from tigerBeetlePost_accounts [OF assms(1) runs(1) [unfolded ensureLedgerAccounts_def]] obtain w
        where w: "s1 = s\<lparr>b_world := w\<rparr>" "posted w = posted (b_world s)" .
      from runs(2) show thesis
      proof (cases rule: seq_act_cases)
        case (fails e)
        then have "t = s1" by (blast dest: sufficient_state)
        then show thesis using that [of w] w by (simp add: posts_same)
      next
        case (runs v s2)
        then have s2: "s2 = s1" by (blast dest: sufficient_state)
        from runs(2) obtain r' where p: "tigerBeetlePost sv (sv_postTransfers sv [?tr]) s2 = (r', t)"
          by (auto elim!: seq_act_cases)
        from tigerBeetlePost_transfer [OF assms(1) p] obtain w' where "t = s2\<lparr>b_world := w'\<rparr>" "posts posted ?tr (b_world s2) w'" .
        then show thesis using that [of w'] w s2 by (auto intro: posts_trans)
      qed
    qed
  qed
qed

lemma debit_check_effect:
  assumes "ledger_laws sv posted" "debit_check sv ct tid tr s = (r, t)"
  obtains (kept) w where "t = s\<lparr>b_world := w\<rparr>" "posted w = posted (b_world s)"
    | (released) w e where "t = release_claim ct (tr_id tr) (s\<lparr>b_world := w\<rparr>)" "posted w = posted (b_world s)" "r = Inl e"
  using assms(2) unfolding debit_check_def ensureAccounts_def
proof (cases rule: seq_act_cases)
  case (fails e)
  from tbPost_accounts [OF assms(1) fails(1)] kept show thesis by blast
next
  case (runs x s1)
  from tbPost_accounts [OF assms(1) runs(1)] obtain w where w: "s1 = s\<lparr>b_world := w\<rparr>" "posted w = posted (b_world s)" .
  from runs(2) show thesis
  proof (cases rule: catch_act_cases)
    case (handled e s2)
    from handled(1) have "s2 = s1" by (auto elim!: seq_act_cases dest: sufficient_state)
    with handled(2) w kept released show thesis by (cases "is_insufficient e") auto
  next
    case (passes y)
    from passes(1) have "t = s1" by (auto elim!: seq_act_cases dest: sufficient_state)
    with w kept show thesis by blast
  qed
qed

lemma settle_finish_effect:
  assumes "settle_finish e ref i a ch tid s = (r, t)"
  obtains (intents) "t = s\<lparr>b_intents := lupdate (open_intent (pi_id i)) (credit_intent e) (b_intents s)\<rparr>"
    | (updated) j where "j \<in> set (b_intents s)" "open_intent (pi_id i) j"
        "t = s\<lparr>b_intents := lupdate (open_intent (pi_id i)) (credit_intent e) (b_intents s),
               b_topups := tupdate (\<lambda>q. to_reference q = ref) (\<lambda>q. q\<lparr>to_tbTransferId := Some tid\<rparr>) (b_topups s)\<rparr>"
    | (inserted) j where "j \<in> set (b_intents s)" "open_intent (pi_id i) j" "ref \<notin> to_reference ` set (rows (b_topups s))"
        "t = s\<lparr>b_intents := lupdate (open_intent (pi_id i)) (credit_intent e) (b_intents s),
               b_topups := tinsert (\<lambda>n. \<lparr>to_id = n, to_tenantId = show_int (pi_tenant_id i), to_reference = ref,
                 to_amountKobo = a, to_channel = ch, to_tbTransferId = Some tid, to_verifiedAt = e_now e\<rparr>) (b_topups s)\<rparr>"
proof (cases "length (filter (open_intent (pi_id i)) (b_intents s)) = 1")
  case False
  then show thesis using assms intents by (simp add: settle_finish_def)
next
  case True
  then obtain j where "filter (open_intent (pi_id i)) (b_intents s) = [j]"
    by (cases "filter (open_intent (pi_id i)) (b_intents s)") auto
  then have j: "j \<in> set (b_intents s)" "open_intent (pi_id i) j" by (rule filter_single)+
  let ?s1 = "s\<lparr>b_intents := lupdate (open_intent (pi_id i)) (credit_intent e) (b_intents s)\<rparr>"
  obtain r' where u: "upsert_topup e (show_int (pi_tenant_id i)) ref a ch tid ?s1 = (r', t)"
    using assms True by (auto simp: settle_finish_def elim!: seq_act_cases)
  consider "t = ?s1"
    | "t = ?s1\<lparr>b_topups := tupdate (\<lambda>q. to_reference q = ref) (\<lambda>q. q\<lparr>to_tbTransferId := Some tid\<rparr>) (b_topups s)\<rparr>"
    | "ref \<notin> to_reference ` set (rows (b_topups s))"
      "t = ?s1\<lparr>b_topups := tinsert (\<lambda>n. \<lparr>to_id = n, to_tenantId = show_int (pi_tenant_id i), to_reference = ref,
                 to_amountKobo = a, to_channel = ch, to_tbTransferId = Some tid, to_verifiedAt = e_now e\<rparr>) (b_topups s)\<rparr>"
    using u by (simp add: upsert_topup_def split: if_splits)
  then show thesis
  proof cases
    case 1
    then show thesis by (rule intents)
  next
    case 2
    then show thesis using updated [OF j] by simp
  next
    case 3
    then show thesis using inserted [OF j 3(1)] by simp
  qed
qed

lemma debit_claim_effect:
  assumes "debit_claim ct inp tr s = (Inr (Inl ()), t)"
  shows "tr_id tr \<notin> tt_transferId ` set (rows (b_claims s))" "t = s\<lparr>b_claims := tinsert (claim_row ct tr) (b_claims s)\<rparr>"
  using assms by (auto simp: debit_claim_def insert_claim_def elim!: seq_act_cases split: if_splits option.splits)

lemma debit_claim_state:
  assumes "debit_claim ct inp tr s = (r, t)"
  obtains (fresh) "r = Inr (Inl ())" "t = s\<lparr>b_claims := tinsert (claim_row ct tr) (b_claims s)\<rparr>"
    | (other) "r \<noteq> Inr (Inl ())" "t = s"
  using assms by (auto simp: debit_claim_def insert_claim_def elim!: seq_act_cases split: if_splits option.splits)

section \<open>The parts of the invariant\<close>

text \<open>Intents only move forward: the payment data stays, a paid intent stays paid, a credited one credited.\<close>

definition moves_on :: "(intent \<Rightarrow> intent) \<Rightarrow> intent list \<Rightarrow> bool" where
  "moves_on f I \<longleftrightarrow> (\<forall>i \<in> set I. same_pay (f i) i \<and> pi_purpose (f i) = pi_purpose i \<and>
     (is_paid i \<longrightarrow> is_paid (f i)) \<and> (pi_status i = Credited \<longrightarrow> pi_status (f i) = Credited))"

lemma credit_of_same: "same_pay j i \<Longrightarrow> credit_of sv j = credit_of sv i"
  by (simp add: same_pay_def credit_of_def)

lemma same_pay_trans: "same_pay k j \<Longrightarrow> same_pay j i \<Longrightarrow> same_pay k i"
  by (simp add: same_pay_def)

lemma origin_moves:
  assumes "moves_on f I" "origin sv I C E p"
  shows "origin sv (map f I) C E p"
proof -
  have "\<exists>i \<in> set (map f I). is_paid i \<and> p = credit_of sv i" if "i \<in> set I" "is_paid i" "p = credit_of sv i" for i
  proof -
    have "same_pay (f i) i" "is_paid (f i)" using assms(1) that by (simp_all add: moves_on_def)
    then have "f i \<in> set (map f I)" "is_paid (f i)" "p = credit_of sv (f i)" using that credit_of_same [of "f i" i sv] by simp_all
    then show ?thesis by blast
  qed
  then show ?thesis using assms(2) unfolding origin_def by blast
qed

lemma settling_moves:
  assumes "moves_on f I" "settling I ref i"
  shows "settling (map f I) ref i"
proof -
  from assms(2) obtain j where j: "ref = pi_provider_reference i" "j \<in> set I" "same_pay j i" "is_paid j"
    unfolding settling_def by blast
  with assms(1) have "same_pay (f j) j" "is_paid (f j)" by (simp_all add: moves_on_def)
  with j show ?thesis by (auto simp: settling_def intro: same_pay_trans)
qed

lemma intents_inv_moves:
  assumes "moves_on f I" "intents_inv I"
  shows "intents_inv (map f I)"
proof -
  have "map pi_id (map f I) = map pi_id I" "map pi_provider_reference (map f I) = map pi_provider_reference I"
    using assms(1) by (simp_all add: moves_on_def same_pay_def)
  moreover have "\<forall>i \<in> set (map f I). intent_ok i"
    using assms by (auto simp: moves_on_def same_pay_def intents_inv_def intent_ok_def)
  ultimately show ?thesis using assms(2) unfolding intents_inv_def by metis
qed

lemma topup_ok_moves:
  assumes "moves_on f I" "topup_ok sv I r"
  shows "topup_ok sv (map f I) r"
proof -
  from assms(2) obtain i where i: "i \<in> set I" "pi_status i = Credited" "to_reference r = pi_provider_reference i"
      "to_tenantId r = show_int (pi_tenant_id i)" "to_amountKobo r = pi_amount_kobo i"
      "to_tbTransferId r = Some (topupTransferId sv (pi_provider_reference i))"
    unfolding topup_ok_def by blast
  with assms(1) have "same_pay (f i) i" "pi_status (f i) = Credited" by (simp_all add: moves_on_def)
  with i show ?thesis by (force simp: topup_ok_def same_pay_def)
qed

lemma task_inv_moves: "moves_on f I \<Longrightarrow> task_inv sv P I C k \<Longrightarrow> task_inv sv P (map f I) C k"
  by (cases k) (auto intro: settling_moves)

lemma ledger_inv_moves: "moves_on f I \<Longrightarrow> ledger_inv sv P I C E \<Longrightarrow> ledger_inv sv P (map f I) C E"
  unfolding ledger_inv_def using origin_moves by blast

lemma tasks_inv_moves: "moves_on f I \<Longrightarrow> tasks_inv sv P I C ts \<Longrightarrow> tasks_inv sv P (map f I) C ts"
  unfolding tasks_inv_def using task_inv_moves by blast

lemma topups_inv_moves: "moves_on f I \<Longrightarrow> topups_inv sv I T \<Longrightarrow> topups_inv sv (map f I) T"
  unfolding topups_inv_def using topup_ok_moves by blast

lemmas moves = ledger_inv_moves intents_inv_moves topups_inv_moves tasks_inv_moves

lemma lupdate_as_map: "lupdate P f xs = map (\<lambda>x. if P x then f x else x) xs"
  by (simp add: lupdate_def)

text \<open>A transfer more in the ledger.\<close>

lemma ledger_inv_posts:
  assumes "posts posted tr w w'" "ledger_inv sv (posted w) I C E" "origin sv I C E tr"
  shows "ledger_inv sv (posted w') I C E"
  using assms by (auto simp: posts_def ledger_inv_def)

lemma task_inv_posts:
  assumes "posts posted tr w w'" "task_inv sv (posted w) I C k" "tr_code tr = 1 \<Longrightarrow> tr_id tr \<notin> set (debit_id k)"
  shows "task_inv sv (posted w') I C k"
  using assms by (cases k) (auto simp: posts_def)

text \<open>The claims of the debits under way are different claims.\<close>

lemma debit_ids_add [simp]: "debit_ids (add_mset k ts) = mset (debit_id k) + debit_ids ts"
  by (simp add: debit_ids_def)

lemma debit_ids_plus [simp]: "debit_ids (ts + us) = debit_ids ts + debit_ids us"
  by (simp add: debit_ids_def)

lemma debit_ids_empty [simp]: "debit_ids {#} = {#}"
  by (simp add: debit_ids_def)

lemma in_debit_ids: "k \<in># ts \<Longrightarrow> x \<in> set (debit_id k) \<Longrightarrow> x \<in># debit_ids ts"
  by (auto simp: debit_ids_def)

lemma debit_ids_claimed:
  assumes "x \<in># debit_ids ts" "\<forall>k \<in># ts. task_inv sv P I C k"
  shows "x \<in> tt_transferId ` set (rows C)"
proof -
  from assms(1) obtain k where k: "k \<in># ts" "x \<in> set (debit_id k)" by (auto simp: debit_ids_def)
  with assms(2) have "task_inv sv P I C k" by blast
  then obtain ct tr n where "x = tr_id tr" "claim_row ct tr n \<in> set (rows C)"
    using k(2) by (cases k) (auto simp: claimed_def)
  then show ?thesis by (force simp: claim_row_def)
qed

lemma rest_differs:
  assumes "\<forall>x. count (debit_ids (add_mset k ts)) x \<le> 1" "x \<in> set (debit_id k)" "k' \<in># ts"
  shows "x \<notin> set (debit_id k')"
proof
  assume "x \<in> set (debit_id k')"
  with assms(3) have "x \<in># debit_ids ts" by (simp add: in_debit_ids)
  then have "1 \<le> count (debit_ids ts) x" by (simp only: count_greater_eq_one_iff)
  moreover have "1 \<le> count (mset (debit_id k)) x" using assms(2) by (simp only: count_greater_eq_one_iff set_mset_mset)
  moreover have "count (mset (debit_id k)) x + count (debit_ids ts) x \<le> 1"
    using assms(1) [rule_format, of x] by simp
  ultimately show False by linarith
qed

text \<open>Claims of other debits are not touched by what is done to the claim \<open>x\<close>.\<close>

lemma task_inv_claims:
  assumes "task_inv sv P I C k" "x \<notin> set (debit_id k)"
    and "\<And>c. c \<in> set (rows C) \<Longrightarrow> tt_transferId c \<noteq> x \<Longrightarrow> c \<in> set (rows C')"
  shows "task_inv sv P I C' k"
proof -
  have "claimed C' ct tr" if "claimed C ct tr" "x \<noteq> tr_id tr" for ct tr
    using that assms(3) unfolding claimed_def by (metis claim_row_def tbTransferRow.select_convs(2))
  then show ?thesis using assms(1,2) by (cases k) auto
qed

section \<open>Every step keeps the invariant\<close>

lemma money_invI:
  assumes "ledger_inv sv (posted (b_world s)) (b_intents s) (b_claims s) (b_events s)" "intents_inv (b_intents s)"
    "topups_inv sv (b_intents s) (b_topups s)" "claims_inv sv (b_claims s)" "tasks_inv sv (posted (b_world s)) (b_intents s) (b_claims s) ts"
  shows "money_inv sv posted (s, ts)"
  using assms by (simp add: money_inv_def Let_def)

lemma money_invD:
  assumes "money_inv sv posted (s, ts)"
  shows "ledger_inv sv (posted (b_world s)) (b_intents s) (b_claims s) (b_events s)" "intents_inv (b_intents s)"
    "topups_inv sv (b_intents s) (b_topups s)" "claims_inv sv (b_claims s)" "tasks_inv sv (posted (b_world s)) (b_intents s) (b_claims s) ts"
  using assms by (simp_all add: money_inv_def Let_def)

lemma tasks_inv_drop: "tasks_inv sv P I C (add_mset k ts) \<Longrightarrow> tasks_inv sv P I C ts"
  unfolding tasks_inv_def by (auto simp: add_leD2) (metis add_leD2 One_nat_def)

text \<open>Dropping a task, or replacing it by one on the same claim, keeps the debits apart.\<close>

lemma tasks_inv_replace:
  assumes "tasks_inv sv P I C (add_mset k ts)" "\<forall>k' \<in># ts. task_inv sv P' I' C' k'"
    "case n of None \<Rightarrow> True | Some k' \<Rightarrow> task_inv sv P' I' C' k' \<and> debit_id k' = debit_id k"
  shows "tasks_inv sv P' I' C' (ts + spawn n)"
proof -
  have c: "count (mset (debit_id k)) x + count (debit_ids ts) x \<le> 1" for x
    using assms(1) by (simp add: tasks_inv_def)
  show ?thesis
  proof (cases n)
    case None
    have "count (debit_ids ts) x \<le> 1" for x using c [of x] by linarith
    then show ?thesis using None assms(2) by (simp add: tasks_inv_def)
  next
    case (Some k')
    then show ?thesis using c assms(2,3) by (auto simp: tasks_inv_def add.commute)
  qed
qed

text \<open>A transfer is posted by the task \<open>k\<close>; nothing else changes.\<close>

lemma money_inv_posts:
  assumes inv: "money_inv sv posted (s, add_mset k ts)" and p: "posts posted tr (b_world s) w"
    and o: "origin sv (b_intents s) (b_claims s) (b_events s) tr"
    and k: "tr_code tr = 1 \<Longrightarrow> tr_id tr \<in> set (debit_id k)"
    and n: "case n of None \<Rightarrow> True | Some k' \<Rightarrow> task_inv sv (posted w) (b_intents s) (b_claims s) k' \<and> debit_id k' = debit_id k"
  shows "money_inv sv posted (s\<lparr>b_world := w\<rparr>, ts + spawn n)"
proof -
  note d = money_invD [OF inv]
  have rest: "\<forall>k' \<in># ts. task_inv sv (posted w) (b_intents s) (b_claims s) k'"
  proof
    fix k' assume k': "k' \<in># ts"
    have "task_inv sv (posted (b_world s)) (b_intents s) (b_claims s) k'" using d(5) k' by (simp add: tasks_inv_def)
    moreover have "tr_code tr = 1 \<Longrightarrow> tr_id tr \<notin> set (debit_id k')"
      using d(5) k k' rest_differs unfolding tasks_inv_def by blast
    ultimately show "task_inv sv (posted w) (b_intents s) (b_claims s) k'" by (rule task_inv_posts [OF p])
  qed
  show ?thesis
  proof (rule money_invI, simp_all)
    show "ledger_inv sv (posted w) (b_intents s) (b_claims s) (b_events s)" by (rule ledger_inv_posts [OF p d(1) o])
    show "tasks_inv sv (posted w) (b_intents s) (b_claims s) (ts + spawn n)"
      by (rule tasks_inv_replace [OF d(5) rest n])
  qed (fact d)+
qed

lemma money_inv_world:
  assumes "money_inv sv posted (s, ts)" "posted w = posted (b_world s)"
  shows "money_inv sv posted (s\<lparr>b_world := w\<rparr>, ts)"
  using assms by (simp add: money_inv_def)

lemma money_inv_crash: "money_inv sv posted (s, add_mset k ts) \<Longrightarrow> money_inv sv posted (s, ts)"
  using tasks_inv_drop by (auto simp: money_inv_def Let_def)

text \<open>A step that only moves intents on.\<close>

lemma money_inv_moves:
  assumes inv: "money_inv sv posted (s, ts)" and f: "moves_on f (b_intents s)"
  shows "money_inv sv posted (s\<lparr>b_intents := map f (b_intents s)\<rparr>, ts)"
  using money_invD [OF inv] f by (intro money_invI) (simp_all add: moves)

lemma settle_intent_unique:
  assumes "intents_inv I" "settling I ref i" "j \<in> set I" "open_intent (pi_id i) j"
  shows "same_pay j i"
proof -
  from assms(2) obtain j' where j': "j' \<in> set I" "same_pay j' i" unfolding settling_def by blast
  then have "j' = j" using assms by (auto simp: intents_inv_def same_pay_def open_intent_def intro: unique_key [of pi_id I])
  then show ?thesis using j' by simp
qed

lemma credit_moves:
  assumes "intents_inv I" "settling I ref i"
  shows "moves_on (\<lambda>x. if open_intent (pi_id i) x then credit_intent e x else x) I"
  by (auto simp: moves_on_def same_pay_def credit_intent_def is_paid_def)

lemma finish_inv:
  assumes inv: "money_inv sv posted (s, add_mset (Finish ref i a ch) ts)"
    and fin: "settle_finish e ref i a ch (topupTransferId sv ref) s = (r, t)"
  shows "money_inv sv posted (t, ts)"
proof -
  let ?f = "\<lambda>x. if open_intent (pi_id i) x then credit_intent e x else x"
  let ?I = "b_intents s" let ?J = "map ?f (b_intents s)" let ?P = "posted (b_world s)"
  note d = money_invD [OF inv]
  have st: "settling ?I ref i" "a = pi_amount_kobo i" using d(5) by (simp_all add: tasks_inv_def)
  note mv = credit_moves [OF d(2) st(1)]
  have base: "money_inv sv posted (s\<lparr>b_intents := ?J\<rparr>, ts)"
    by (rule money_inv_moves [OF money_inv_crash [OF inv] mv])
  have credited: "topup_ok sv ?J q" if "to_reference q = ref" "to_tenantId q = show_int (pi_tenant_id i)" "to_amountKobo q = a"
    "to_tbTransferId q = Some (topupTransferId sv ref)" "j \<in> set ?I" "open_intent (pi_id i) j" for q j
  proof -
    have "same_pay j i" by (rule settle_intent_unique [OF d(2) st(1) that(5,6)])
    moreover have "?f j \<in> set ?J" using that by simp
    ultimately show ?thesis using that st(1,2)
      by (auto simp: topup_ok_def same_pay_def credit_intent_def settling_def intro!: bexI [where x = "?f j"])
  qed
  note b = money_invD [OF base]
  have base': "tasks_inv sv ?P ?J (b_claims s) ts" "ledger_inv sv ?P ?J (b_claims s) (b_events s)"
    "intents_inv ?J" "topups_inv sv ?J (b_topups s)" "claims_inv sv (b_claims s)" using b by simp_all
  from fin show ?thesis
  proof (cases rule: settle_finish_effect)
    case intents
    then show ?thesis using base by (simp add: lupdate_as_map)
  next
    case (updated j)
    have "topups_inv sv ?J (tupdate (\<lambda>q. to_reference q = ref) (\<lambda>q. q\<lparr>to_tbTransferId := Some (topupTransferId sv ref)\<rparr>) (b_topups s))"
    proof -
      have "(if to_reference q = ref then q\<lparr>to_tbTransferId := Some (topupTransferId sv ref)\<rparr> else q) = q" if "q \<in> set (rows (b_topups s))" for q
        using base'(4) that by (auto simp: topups_inv_def topup_ok_def)
      then have "map (\<lambda>q. if to_reference q = ref then q\<lparr>to_tbTransferId := Some (topupTransferId sv ref)\<rparr> else q) (rows (b_topups s)) = rows (b_topups s)"
        by (simp add: map_idI)
      then show ?thesis using base'(4) by (simp add: topups_inv_def)
    qed
    then show ?thesis using updated(3) base' by (intro money_invI) (simp_all add: lupdate_as_map)
  next
    case (inserted j)
    have "topups_inv sv ?J (b_topups t)"
      using base'(4) inserted credited [OF _ _ _ _ inserted(1,2)] by (auto simp: topups_inv_def)
    then show ?thesis using inserted(4) base' by (intro money_invI) (simp_all add: lupdate_as_map)
  qed
qed

lemma ledger_inv_claims:
  assumes "ledger_inv sv P I C E" "\<And>p. p \<in> set P \<Longrightarrow> tr_code p = 1 \<Longrightarrow> tr_id p \<in> tt_transferId ` set (rows C')"
  shows "ledger_inv sv P I C' E"
  using assms by (simp add: ledger_inv_def origin_def)

lemma ledger_inv_claimD:
  "ledger_inv sv P I C E \<Longrightarrow> p \<in> set P \<Longrightarrow> tr_code p = 1 \<Longrightarrow> tr_id p \<in> tt_transferId ` set (rows C)"
  by (simp add: ledger_inv_def origin_def)

text \<open>A debit claims its identifier: no debit with that identifier is posted or under way.\<close>

lemma claim_inv:
  assumes inv: "money_inv sv posted (s, ts)" and c: "debit_claim ct inp (priced sv inp) s = (Inr (Inl ()), t)"
  shows "money_inv sv posted (t, add_mset (Check ct inp (priced sv inp)) ts)"
proof -
  let ?tr = "priced sv inp" let ?C = "tinsert (claim_row ct ?tr) (b_claims s)" let ?P = "posted (b_world s)"
  note d = money_invD [OF inv]
  note fresh = debit_claim_effect (1) [OF c] and t = debit_claim_effect (2) [OF c]
  have sub: "c \<in> set (rows (b_claims s)) \<Longrightarrow> c \<in> set (rows ?C)" for c by simp
  have id: "tt_transferId (claim_row ct ?tr n) = tr_id ?tr" "tt_reconciledAt (claim_row ct ?tr n) = None" for n
    by (simp_all add: claim_row_def)
  have "ledger_inv sv ?P (b_intents s) ?C (b_events s)" using d(1) by (auto simp: ledger_inv_def origin_def)
  moreover have "claims_inv sv ?C" using d(4) fresh by (auto simp: claims_inv_def claim_ok_def id claim_row_def)
  moreover have "tasks_inv sv ?P (b_intents s) ?C (add_mset (Check ct inp ?tr) ts)"
  proof -
    have notin: "tr_id ?tr \<notin># debit_ids ts" using debit_ids_claimed d(5) fresh unfolding tasks_inv_def by metis
    have "\<forall>k \<in># ts. task_inv sv ?P (b_intents s) ?C k"
    proof
      fix k assume k: "k \<in># ts"
      with notin in_debit_ids have "tr_id ?tr \<notin> set (debit_id k)" by metis
      moreover have "task_inv sv ?P (b_intents s) (b_claims s) k" using d(5) k by (simp add: tasks_inv_def)
      ultimately show "task_inv sv ?P (b_intents s) ?C k" using task_inv_claims [of sv ?P "b_intents s" "b_claims s" k "tr_id ?tr" ?C] sub by blast
    qed
    moreover have "task_inv sv ?P (b_intents s) ?C (Check ct inp ?tr)"
    proof -
      have "claimed ?C ct ?tr" by (auto simp: claimed_def)
      moreover have "is_debit sv ?tr" by (auto simp: is_debit_def)
      moreover have "\<forall>p \<in> set ?P. tr_code p = 1 \<longrightarrow> tr_id p \<noteq> tr_id ?tr"
        using ledger_inv_claimD [OF d(1)] fresh by metis
      ultimately show ?thesis by simp
    qed
    moreover have "count (debit_ids (add_mset (Check ct inp ?tr) ts)) x \<le> 1" for x
      using d(5) notin by (auto simp: tasks_inv_def not_in_iff)
    ultimately show ?thesis by (simp add: tasks_inv_def)
  qed
  ultimately show ?thesis using d t by (intro money_invI) simp_all
qed

text \<open>Releasing a claim: nothing was posted under it.\<close>

lemma release_inv:
  assumes inv: "money_inv sv posted (s, add_mset (Check ct inp tr) ts)"
  shows "money_inv sv posted (release_claim ct (tr_id tr) s, ts)"
proof -
  let ?P = "posted (b_world s)"
  let ?C = "tdelete (\<lambda>r. tt_transferId r = tr_id tr \<and> ct \<noteq> None \<and> tt_tenantId r = ct) (b_claims s)"
  note d = money_invD [OF inv]
  have unposted: "\<forall>p \<in> set ?P. tr_code p = 1 \<longrightarrow> tr_id p \<noteq> tr_id tr" using d(5) by (simp add: tasks_inv_def)
  have keep: "c \<in> set (rows (b_claims s)) \<Longrightarrow> tt_transferId c \<noteq> tr_id tr \<Longrightarrow> c \<in> set (rows ?C)" for c by simp
  have "ledger_inv sv ?P (b_intents s) ?C (b_events s)"
  proof -
    have "tr_id p \<in> tt_transferId ` set (rows ?C)" if "p \<in> set ?P" "tr_code p = 1" for p
    proof -
      have "tr_id p \<in> tt_transferId ` set (rows (b_claims s))" by (rule ledger_inv_claimD [OF d(1) that])
      then obtain c where "c \<in> set (rows (b_claims s))" "tt_transferId c = tr_id p" by auto
      moreover from this have "c \<in> set (rows ?C)" using unposted that by (intro keep) auto
      ultimately show ?thesis by (intro image_eqI [where x = c]) simp_all
    qed
    then show ?thesis by (rule ledger_inv_claims [OF d(1)])
  qed
  moreover have "claims_inv sv ?C" using d(4) by (auto simp: claims_inv_def distinct_map_filter)
  moreover have "tasks_inv sv ?P (b_intents s) ?C (ts + spawn None)"
  proof (rule tasks_inv_replace [OF d(5)])
    show "\<forall>k \<in># ts. task_inv sv ?P (b_intents s) ?C k"
    proof
      fix k assume k: "k \<in># ts"
      then have "task_inv sv ?P (b_intents s) (b_claims s) k" using d(5) by (simp add: tasks_inv_def)
      moreover have "tr_id tr \<notin> set (debit_id k)"
        using rest_differs [of "Check ct inp tr" ts "tr_id tr" k] d(5) k by (simp add: tasks_inv_def)
      ultimately show "task_inv sv ?P (b_intents s) ?C k" using task_inv_claims [of sv ?P "b_intents s" "b_claims s" k "tr_id tr" ?C] keep by blast
    qed
  qed simp
  ultimately show ?thesis using d by (intro money_invI) (simp_all add: release_claim_def)
qed

text \<open>Marking a claim reconciled.\<close>

lemma reconcile_inv:
  assumes inv: "money_inv sv posted (s, add_mset (Reconcile inp tr) ts)"
    and r: "debit_reconcile e inp tr s = (res, t)"
  shows "money_inv sv posted (t, ts)"
proof -
  let ?P = "posted (b_world s)"
  let ?g = "\<lambda>c. if tt_transferId c = tr_id tr then c\<lparr>tt_reconciledAt := Some (e_now e)\<rparr> else c"
  let ?C = "tupdate (\<lambda>c. tt_transferId c = tr_id tr) (\<lambda>c. c\<lparr>tt_reconciledAt := Some (e_now e)\<rparr>) (b_claims s)"
  note d = money_invD [OF inv]
  have t: "t = s\<lparr>b_claims := ?C\<rparr>" using r by (auto simp: debit_reconcile_def Let_def split: if_splits)
  from d(5) have k: "is_debit sv tr" and cl: "\<exists>ct. claimed (b_claims s) ct tr" by (simp_all add: tasks_inv_def)
  from cl obtain ct n where row: "claim_row ct tr n \<in> set (rows (b_claims s))" unfolding claimed_def by blast
  have dist: "distinct (map tt_transferId (rows (b_claims s)))" using d(4) by (simp add: claims_inv_def)
  have ids: "map tt_transferId (rows ?C) = map tt_transferId (rows (b_claims s))" by (simp add: comp_def)
  have keep: "c \<in> set (rows (b_claims s)) \<Longrightarrow> tt_transferId c \<noteq> tr_id tr \<Longrightarrow> c \<in> set (rows ?C)" for c
    by (rule tupdate_miss)
  have "ledger_inv sv ?P (b_intents s) ?C (b_events s)"
  proof -
    have "tt_transferId ` set (rows ?C) = tt_transferId ` set (rows (b_claims s))" using ids by (metis set_map)
    then show ?thesis using ledger_inv_claimD [OF d(1)] by (intro ledger_inv_claims [OF d(1)]) simp
  qed
  moreover have "claims_inv sv ?C"
  proof -
    have "claim_ok sv (?g c)" if "claim_ok sv c" for c
    proof -
      from that obtain inp ct n where "c = (claim_row ct (priced sv inp) n)\<lparr>tt_reconciledAt := tt_reconciledAt c\<rparr>"
        unfolding claim_ok_def by blast
      then have "?g c = (claim_row ct (priced sv inp) n)\<lparr>tt_reconciledAt := tt_reconciledAt (?g c)\<rparr>"
        by (cases c) (simp add: claim_row_def)
      then show ?thesis unfolding claim_ok_def by blast
    qed
    then have "claim_ok sv (?g c)" if "c \<in> set (rows (b_claims s))" for c
      using that d(4) unfolding claims_inv_def by blast
    moreover have "rows ?C = map ?g (rows (b_claims s))" by simp
    ultimately have "\<forall>c \<in> set (rows ?C). claim_ok sv c" by (metis (no_types, lifting) imageE set_map)
    then show ?thesis unfolding claims_inv_def ids using dist by blast
  qed
  moreover have "tasks_inv sv ?P (b_intents s) ?C (ts + spawn None)"
  proof (rule tasks_inv_replace [OF d(5)])
    show "\<forall>k \<in># ts. task_inv sv ?P (b_intents s) ?C k"
    proof
      fix k assume k: "k \<in># ts"
      then have "task_inv sv ?P (b_intents s) (b_claims s) k" using d(5) by (simp add: tasks_inv_def)
      moreover have "tr_id tr \<notin> set (debit_id k)"
        using rest_differs [of "Reconcile inp tr" ts "tr_id tr" k] d(5) k by (simp add: tasks_inv_def)
      ultimately show "task_inv sv ?P (b_intents s) ?C k" using task_inv_claims [of sv ?P "b_intents s" "b_claims s" k "tr_id tr" ?C] keep by blast
    qed
  qed simp
  ultimately show ?thesis using d t by (intro money_invI) simp_all
qed

text \<open>What a running settlement posts is the credit of an intent; what a running debit posts is its priced debit.\<close>

lemma settle_origin:
  assumes "settling I ref i"
  shows "origin sv I C E (topupTransfer sv ref (pi_tenant_id i) (pi_amount_kobo i))"
proof -
  from assms obtain j where j: "j \<in> set I" "same_pay j i" "is_paid j" "ref = pi_provider_reference i" unfolding settling_def by blast
  then have eq: "topupTransfer sv ref (pi_tenant_id i) (pi_amount_kobo i) = credit_of sv j" by (simp add: credit_of_def same_pay_def)
  have "tr_code (credit_of sv j) = 2" by (simp add: credit_of_def topupTransfer_def)
  with j show ?thesis unfolding eq origin_def by auto
qed

lemma debit_origin:
  assumes "is_debit sv tr" "claimed C ct tr"
  shows "origin sv I C E tr" "tr_code tr = 1"
proof -
  have "tr_id tr \<in> tt_transferId ` set (rows C)" using assms(2) by (force simp: claimed_def claim_row_def)
  then show "origin sv I C E tr" "tr_code tr = 1" using assms(1)
    by (auto simp: origin_def is_debit_def priced_def debitTransfer_def)
qed

lemma run_inv:
  assumes laws: "ledger_laws sv posted" and inv: "money_inv sv posted (s, add_mset k ts)" and r: "run_task sv e k s = (n, t)"
  shows "money_inv sv posted (t, ts + spawn n)"
proof -
  note d = money_invD [OF inv]
  have task: "task_inv sv (posted (b_world s)) (b_intents s) (b_claims s) k" using d(5) by (simp add: tasks_inv_def)
  have drop: "money_inv sv posted (s, ts)" by (rule money_inv_crash [OF inv])
  have stay: "money_inv sv posted (s, ts + spawn n')"
    if "case n' of None \<Rightarrow> True | Some k' \<Rightarrow> task_inv sv (posted (b_world s)) (b_intents s) (b_claims s) k' \<and> debit_id k' = debit_id k" for n'
    using d tasks_inv_replace [OF d(5) _ that] by (intro money_invI) (simp_all add: tasks_inv_def)
  show ?thesis
  proof (cases k)
    case (Verify ref i)
    obtain x u where v: "settle_verify sv ref i s = (x, u)" by (cases "settle_verify sv ref i s")
    then have u: "u = s" by (rule settle_verify_state)
    show ?thesis
    proof (cases x)
      case (Inl err)
      then show ?thesis using r v u Verify drop by simp
    next
      case (Inr p)
      obtain a ch where p: "p = (a, ch)" by (cases p)
      then have "a = pi_amount_kobo i" using v Inr settle_verify_amount by blast
      then have "task_inv sv (posted (b_world s)) (b_intents s) (b_claims s) (Post ref i a ch)" using task Verify by simp
      then have "money_inv sv posted (s, ts + spawn (Some (Post ref i a ch)))" using Verify by (intro stay) simp
      moreover have "n = Some (Post ref i a ch)" "t = s" using r v u Verify Inr p by simp_all
      ultimately show ?thesis by simp
    qed
  next
    case (Post ref i a ch)
    have st: "settling (b_intents s) ref i" "a = pi_amount_kobo i" using task Post by simp_all
    obtain x u where v: "settle_post sv ref i a s = (x, u)" by (cases "settle_post sv ref i a s")
    from settle_post_effect [OF laws v] obtain w where w: "u = s\<lparr>b_world := w\<rparr>"
        "posts posted (topupTransfer sv ref (pi_tenant_id i) a) (b_world s) w" .
    have o: "origin sv (b_intents s) (b_claims s) (b_events s) (topupTransfer sv ref (pi_tenant_id i) a)"
      using settle_origin [OF st(1)] st(2) by simp
    have n: "n = (case x of Inl _ \<Rightarrow> None | Inr _ \<Rightarrow> Some (Finish ref i a ch))" "t = u"
      using r v Post by (cases x; simp)+
    have "case n of None \<Rightarrow> True | Some k' \<Rightarrow> task_inv sv (posted w) (b_intents s) (b_claims s) k' \<and> debit_id k' = debit_id k"
      using n st Post by (cases x) auto
    then show ?thesis using money_inv_posts [OF inv w(2) o] w(1) n(2) by (simp add: topupTransfer_def)
  next
    case (Finish ref i a ch)
    obtain x u where v: "settle_finish e ref i a ch (topupTransferId sv ref) s = (x, u)"
      by (cases "settle_finish e ref i a ch (topupTransferId sv ref) s")
    have "n = None" "t = u" using r v Finish by (cases x; simp)+
    then show ?thesis using finish_inv inv v Finish by fastforce
  next
    case (Check ct inp tr)
    obtain x u where v: "debit_check sv ct (di_tenantId inp) tr s = (x, u)" by (cases "debit_check sv ct (di_tenantId inp) tr s")
    have n: "n = (case x of Inl _ \<Rightarrow> None | Inr _ \<Rightarrow> Some (Charge inp tr))" "t = u" using r v Check by (cases x; simp)+
    from laws v show ?thesis
    proof (cases rule: debit_check_effect)
      case (kept w)
      have "money_inv sv posted (s, ts + spawn n)"
        using task Check n by (intro stay) (cases x; auto)
      from money_inv_world [OF this kept(2)] show ?thesis using kept(1) n(2) by simp
    next
      case (released w err)
      have "money_inv sv posted (s\<lparr>b_world := w\<rparr>, add_mset (Check ct inp tr) ts)"
        using money_inv_world [OF inv released(2)] Check by simp
      from release_inv [OF this] show ?thesis using released(1,3) n by simp
    qed
  next
    case (Charge inp tr)
    from task Charge obtain ct where c: "is_debit sv tr" "claimed (b_claims s) ct tr" by auto
    obtain x u where v: "debit_post sv tr s = (x, u)" by (cases "debit_post sv tr s")
    from tbPost_transfer [OF laws v [unfolded debit_post_def]] obtain w where
      w: "u = s\<lparr>b_world := w\<rparr>" "posts posted tr (b_world s) w" .
    have n: "n = (case x of Inl _ \<Rightarrow> None | Inr _ \<Rightarrow> Some (Reconcile inp tr))" "t = u" using r v Charge by (cases x; simp)+
    have "case n of None \<Rightarrow> True | Some k' \<Rightarrow> task_inv sv (posted w) (b_intents s) (b_claims s) k' \<and> debit_id k' = debit_id k"
      using n c Charge by (cases x) auto
    then show ?thesis using money_inv_posts [OF inv w(2) debit_origin(1) [OF c]] w(1) n(2) Charge by simp
  next
    case (Reconcile inp tr)
    obtain x u where v: "debit_reconcile e inp tr s = (x, u)" by (cases "debit_reconcile e inp tr s")
    have "n = None" "t = u" using r v Reconcile by (cases x; simp)+
    then show ?thesis using reconcile_inv inv v Reconcile by fastforce
  qed
qed

lemma settle_start_inv:
  assumes inv: "money_inv sv posted (s, ts)" and b: "settle_begin sv e ref s = (Inr (Eligible i), t)"
  shows "money_inv sv posted (t, add_mset (Verify ref i) ts)"
proof -
  note d = money_invD [OF inv] and b = settle_begin_eligible [OF b]
  have "settling (b_intents s) ref i" using b by (auto simp: settling_def same_pay_def is_paid_def)
  then have "tasks_inv sv (posted (b_world s)) (b_intents s) (b_claims s) (add_mset (Verify ref i) ts)"
    using d(5) by (simp add: tasks_inv_def)
  with d b(1) show ?thesis by (intro money_invI) simp_all
qed

lemma insert_intent_inv:
  assumes inv: "money_inv sv posted (s, ts)" and safe: "isSafeInteger (ts_amountKobo inp)" and p: "ts_purpose inp = None"
    and ins: "insert_intent (new_intent e uuid ref inp) s = (Inr (), t)"
  shows "money_inv sv posted (t, ts)"
proof -
  let ?i = "new_intent e uuid ref inp"
  note d = money_invD [OF inv]
  have ok: "intent_insertable s ?i" and t: "t = s\<lparr>b_intents := b_intents s @ [?i]\<rparr>"
    using ins by (simp_all add: insert_intent_def split: if_splits)
  have "intent_ok ?i" using ok safe p by (simp add: intent_ok_def new_intent_def intent_insertable_def)
  then have "intents_inv (b_intents s @ [?i])" using d(2) ok by (auto simp: intents_inv_def intent_insertable_def)
  moreover have "ledger_inv sv (posted (b_world s)) (b_intents s @ [?i]) (b_claims s) (b_events s)"
  proof -
    have "origin sv (b_intents s @ [?i]) (b_claims s) (b_events s) p"
      if "origin sv (b_intents s) (b_claims s) (b_events s) p" for p
      using that unfolding origin_def by (metis UnCI set_append)
    then show ?thesis using d(1) by (simp add: ledger_inv_def)
  qed
  moreover have "topups_inv sv (b_intents s @ [?i]) (b_topups s)"
  proof -
    have "topup_ok sv (b_intents s @ [?i]) r" if "topup_ok sv (b_intents s) r" for r
      using that unfolding topup_ok_def by (metis UnCI set_append)
    then show ?thesis using d(3) by (simp add: topups_inv_def)
  qed
  moreover have "tasks_inv sv (posted (b_world s)) (b_intents s @ [?i]) (b_claims s) ts"
  proof -
    have "settling (b_intents s @ [?i]) r i" if "settling (b_intents s) r i" for r i
      using that by (auto simp: settling_def)
    then have "task_inv sv P (b_intents s @ [?i]) C k" if "task_inv sv P (b_intents s) C k" for P C k
      using that by (cases k) auto
    then show ?thesis using d(5) by (simp add: tasks_inv_def)
  qed
  ultimately show ?thesis using d t by (intro money_invI) simp_all
qed

text \<open>Initialised or failed: only an intent that is still initialising changes.\<close>

lemma initializing_moves:
  assumes "\<And>i. same_pay (f i) i \<and> pi_purpose (f i) = pi_purpose i"
  shows "moves_on (\<lambda>i. if initializing_intent uuid i then f i else i) I"
  using assms by (auto simp: moves_on_def initializing_intent_def is_paid_def same_pay_def)

lemma pending_inv:
  assumes inv: "money_inv sv posted (s, ts)" and m: "mark_pending e uuid code s = (Inr (), t)"
  shows "money_inv sv posted (t, ts)"
proof -
  let ?f = "\<lambda>i. i\<lparr>pi_status := Intent_pending, pi_access_code := Some code, pi_initialized_at := Some (e_now e)\<rparr>"
  have t: "t = s\<lparr>b_intents := map (\<lambda>i. if initializing_intent uuid i then ?f i else i) (b_intents s)\<rparr>"
    using m by (simp add: mark_pending_def lupdate_as_map split: if_splits)
  show ?thesis unfolding t
    by (rule money_inv_moves [OF inv initializing_moves])
      (simp_all add: same_pay_def)
qed

lemma failed_inv:
  assumes inv: "money_inv sv posted (s, ts)"
  shows "money_inv sv posted (mark_failed uuid s, ts)"
  unfolding mark_failed_def lupdate_as_map
  by (rule money_inv_moves [OF inv initializing_moves])
    (simp_all add: same_pay_def)

lemma meter_inv:
  assumes laws: "ledger_laws sv posted" and inv: "money_inv sv posted (s, ts)" and ev: "ev \<in> set (b_events s)"
    and m: "debitTenantForIntelligenceAssessment sv (be_tenant_id ev) (be_id ev) (be_amount_kobo ev) s = (r, t)"
  shows "money_inv sv posted (t, ts)"
proof -
  let ?tr = "assessmentTransfer sv (be_tenant_id ev) (be_id ev) (be_amount_kobo ev)"
  note d = money_invD [OF inv]
  from meter_debit_effect [OF laws m] obtain w where w: "t = s\<lparr>b_world := w\<rparr>" "posts posted ?tr (b_world s) w" .
  have code: "tr_code ?tr = 3" by (simp add: assessmentTransfer_def)
  have o: "origin sv (b_intents s) (b_claims s) (b_events s) ?tr" using ev code by (auto simp: origin_def)
  have "tasks_inv sv (posted w) (b_intents s) (b_claims s) ts"
  proof -
    have "task_inv sv (posted w) (b_intents s) (b_claims s) k" if "task_inv sv (posted (b_world s)) (b_intents s) (b_claims s) k" for k
      by (rule task_inv_posts [OF w(2) that]) (simp add: code)
    then show ?thesis using d(5) unfolding tasks_inv_def by blast
  qed
  then show ?thesis using d w(1) ledger_inv_posts [OF w(2) d(1) o]
    by (intro money_invI) simp_all
qed

lemma recover_inv:
  assumes inv: "money_inv sv posted (s, ts)" and i: "i \<in> set (b_intents s)" "pi_status i = Credited"
  shows "money_inv sv posted (set_transfer_id (pi_provider_reference i) (topupTransferId sv (pi_provider_reference i)) s, ts)"
proof -
  let ?ref = "pi_provider_reference i"
  note d = money_invD [OF inv]
  have "(if to_reference q = ?ref then q\<lparr>to_tbTransferId := Some (topupTransferId sv ?ref)\<rparr> else q) = q"
    if "q \<in> set (rows (b_topups s))" for q
    using d(3) that by (auto simp: topups_inv_def topup_ok_def)
  then have "map (\<lambda>q. if to_reference q = ?ref then q\<lparr>to_tbTransferId := Some (topupTransferId sv ?ref)\<rparr> else q) (rows (b_topups s)) = rows (b_topups s)"
    by (simp add: map_idI)
  then have "topups_inv sv (b_intents s) (tupdate (\<lambda>q. to_reference q = ?ref) (\<lambda>q. q\<lparr>to_tbTransferId := Some (topupTransferId sv ?ref)\<rparr>) (b_topups s))"
    using d(3) by (simp add: topups_inv_def)
  with d show ?thesis by (intro money_invI) (simp_all add: set_transfer_id_def)
qed

lemma elsewhere_inv:
  assumes inv: "money_inv sv posted (s, ts)" and e: "elsewhere s t"
  shows "money_inv sv posted (t, ts)"
proof -
  note d = money_invD [OF inv]
  have "ledger_inv sv (posted (b_world s)) (b_intents s) (b_claims s) (b_events t)"
  proof -
    have "origin sv (b_intents s) (b_claims s) (b_events t) p"
      if "origin sv (b_intents s) (b_claims s) (b_events s) p" for p
      using that e unfolding origin_def elsewhere_def kept_events_def by metis
    then show ?thesis using d(1) by (simp add: ledger_inv_def)
  qed
  with d e show ?thesis by (intro money_invI) (simp_all add: elsewhere_def)
qed

theorem money_step_inv:
  assumes laws: "ledger_laws sv posted" and inv: "money_inv sv posted c" and step: "money_step sv posted c c'"
  shows "money_inv sv posted c'"
  using step inv
proof cases
  case (ms_run e k s n t ts)
  then show ?thesis using run_inv [OF laws] inv by simp
next
  case (ms_crash s k ts)
  then show ?thesis using money_inv_crash inv by simp
next
  case (ms_settle e ref s i t ts)
  then show ?thesis using settle_start_inv inv by simp
next
  case (ms_debit ct inp s t ts)
  then show ?thesis using claim_inv inv by simp
next
  case (ms_intent inp e uuid uuid2 s t ts)
  then show ?thesis using insert_intent_inv inv by simp
next
  case (ms_initialize s ts r)
  then show ?thesis using money_inv_world [of sv posted s ts "snd (sv_initialize sv r (b_world s))"] inv
      law_initialize [OF laws] by simp
next
  case (ms_pending e uuid code s t ts)
  then show ?thesis using pending_inv inv by simp
next
  case (ms_failed s ts uuid)
  then show ?thesis using failed_inv inv by simp
next
  case (ms_meter ev s r t ts)
  then show ?thesis using meter_inv [OF laws] inv by simp
next
  case (ms_recover i s ts)
  then show ?thesis using recover_inv inv by simp
next
  case (ms_elsewhere s t ts)
  then show ?thesis using elsewhere_inv inv by simp
next
  case (ms_world w s ts)
  then show ?thesis using money_inv_world inv by simp
qed

text \<open>The machine as an instance of the shared one; the ledger's laws are a hypothesis of its invariant.\<close>

interpretation money_machine: state_machine "money_start posted" "money_step sv posted"
    "\<lambda>c. ledger_laws sv posted \<longrightarrow> money_inv sv posted c" for sv :: "'w services" and posted :: "'w \<Rightarrow> transfer list"
proof unfold_locales
  fix c :: "'w money" assume "money_start posted c"
  then show "ledger_laws sv posted \<longrightarrow> money_inv sv posted c" using money_start_inv by blast
next
  fix c c' :: "'w money" assume "ledger_laws sv posted \<longrightarrow> money_inv sv posted c" "money_step sv posted c c'"
  then show "ledger_laws sv posted \<longrightarrow> money_inv sv posted c'" using money_step_inv by blast
qed

lemma money_reachable:
  assumes "ledger_laws sv posted" "reach (money_start posted) (money_step sv posted) (s, ts)"
  shows "money_inv sv posted (s, ts)"
  using money_machine.inv_reachable [OF assms(2)] assms(1) by blast

end
