(* ===== verification/Totp_Properties.thy ===== *)
theory Totp_Properties
  imports Totp State_Machine
begin

unbundle bit_operations_syntax

text \<open>
  What two-factor authentication guarantees: a generated Base32 secret decodes to its random
  bytes, a stored secret decrypts to itself, a code always has six digits, and validation is
  membership in the three windows around the clock. The last section follows the table of
  secrets through any sequence of the procedures.
\<close>

section \<open>Bits\<close>

lemma length_toBits [simp]: "length (toBits k n) = k"
  by (induction k arbitrary: n) auto

lemma parseBits_snoc [simp]: "parseBits (bs @ [b]) = 2 * parseBits bs + (if b then 1 else 0)"
  by (simp add: parseBits_def)

lemma parseBits_Nil [simp]: "parseBits [] = 0"
  by (simp add: parseBits_def)

lemma parse_toBits [simp]: "parseBits (toBits k n) = n mod 2 ^ k"
proof (induction k arbitrary: n)
  case (Suc k)
  have "n mod (2 * 2 ^ k) = 2 * (n div 2 mod 2 ^ k) + n mod 2" by (simp add: mod_mult2_eq)
  then show ?case using Suc by (simp add: mod_2_eq_odd)
qed simp

lemma toBits_parse [simp]: "toBits (length bs) (parseBits bs) = bs"
  by (induction bs rule: rev_induct) auto

lemma parseBits_less: "parseBits bs < 2 ^ length bs"
  using parse_toBits [of "length bs" "parseBits bs"] by (metis mod_less_divisor pos2 toBits_parse zero_less_power)

text \<open>Cutting into groups undoes concatenation, and the other way round when the length fits.\<close>

lemma groups_Cons: "0 < k \<Longrightarrow> length g = k \<Longrightarrow> groups k (g @ bits) = g # groups k bits"
proof -
  assume k: "0 < k" "length g = k"
  then have "length (g @ bits) div k = Suc (length bits div k)" by (simp add: div_add_self1)
  moreover have "map (\<lambda>i. take k (drop (i * k) (g @ bits))) [0..<Suc n] =
      g # map (\<lambda>i. take k (drop (i * k) bits)) [0..<n]" for n
    using k by (induction n) (simp_all add: add.commute)
  ultimately show ?thesis by (simp add: groups_def del: upt_Suc)
qed

lemma groups_concat: "0 < k \<Longrightarrow> \<forall>g \<in> set gs. length g = k \<Longrightarrow> groups k (concat gs) = gs"
  by (induction gs) (auto simp: groups_Cons, simp add: groups_def)

lemma concat_groups:
  assumes "0 < k" and "k dvd length bits"
  shows "concat (groups k bits) = bits \<and> (\<forall>g \<in> set (groups k bits). length g = k)"
proof -
  obtain n where n: "length bits = n * k" using assms(2) by (metis dvd_def mult.commute)
  have "\<exists>gs. bits = concat gs \<and> (\<forall>g \<in> set gs. length g = k)" using n
  proof (induction n arbitrary: bits)
    case 0
    then show ?case by (intro exI [where x = "[]"]) simp
  next
    case (Suc n)
    then have "length (drop k bits) = n * k" by simp
    from Suc.IH [OF this] obtain gs where gs: "drop k bits = concat gs" "\<forall>g \<in> set gs. length g = k" by blast
    have "length (take k bits) = k" using Suc.prems by simp
    with gs show ?case
      by (intro exI [where x = "take k bits # gs"]) (simp, metis append_take_drop_id)
  qed
  then obtain gs where "bits = concat gs" "\<forall>g \<in> set gs. length g = k" by blast
  then show ?thesis using groups_concat [OF assms(1)] by metis
qed

section \<open>Base32\<close>

lemma base32_index: "i < 32 \<Longrightarrow> indexOf base32Chars (base32Chars ! i) = Some i \<and> to_upper (base32Chars ! i) = base32Chars ! i"
proof -
  have "\<forall>i \<in> set [0..<32]. indexOf base32Chars (base32Chars ! i) = Some i \<and> to_upper (base32Chars ! i) = base32Chars ! i"
    by code_simp
  then show "i < 32 \<Longrightarrow> ?thesis" by simp
qed

lemma secretBits_groups:
  assumes "\<forall>g \<in> set gs. length g = 5"
  shows "secretBits (map (\<lambda>g. base32Chars ! parseBits g) gs) = concat gs"
  using assms
proof (induction gs)
  case (Cons g gs)
  have "parseBits g < 32" using parseBits_less [of g] Cons.prems by simp
  moreover have "toBits 5 (parseBits g) = g" using toBits_parse [of g] Cons.prems by simp
  ultimately show ?case using Cons base32_index [of "parseBits g"] by (simp add: secretBits_def)
qed (simp add: secretBits_def)

lemma decode_bytes: "map (\<lambda>g. word_of_nat (parseBits g) :: byte) (groups 8 (concat (map (\<lambda>b. toBits 8 (unat b)) bytes))) = bytes"
proof -
  have "groups 8 (concat (map (\<lambda>b. toBits 8 (unat b)) bytes)) = map (\<lambda>b. toBits 8 (unat b)) bytes" for bytes :: "byte list"
    by (rule groups_concat) auto
  moreover have "word_of_nat (unat b mod 2 ^ 8) = b" for b :: byte
    using unsigned_less [of b, where ?'a = nat] by simp
  ultimately show ?thesis by (simp add: map_idI)
qed

text \<open>C32: A generated secret is the Base32 form of its random bytes: the verifier decodes it to
  exactly those bytes, for every whole number of 5-byte groups (20 bytes in the source).\<close>

theorem totp_secret_roundtrip:
  assumes "5 dvd length bytes"
  shows "decodeSecret (generateTotpSecret bytes) = bytes"
proof -
  let ?bits = "concat (map (\<lambda>b. toBits 8 (unat b)) bytes)"
  have "length ?bits = 8 * length bytes" by (induction bytes) auto
  then have "5 dvd length ?bits" using assms by simp
  then have "secretBits (generateTotpSecret bytes) = ?bits"
    using concat_groups [of 5 ?bits] by (simp add: generateTotpSecret_def secretBits_groups)
  then show ?thesis by (simp add: decodeSecret_def decode_bytes)
qed

theorem totp_secret_roundtrip_witness: "decodeSecret (generateTotpSecret [1, 2, 3, 4, 255]) = [1, 2, 3, 4, 255]"
  by (rule totp_secret_roundtrip) code_simp

section \<open>Codes\<close>

lemma show_nat_width: "0 < k \<Longrightarrow> n < 10 ^ k \<Longrightarrow> length (show_nat n) \<le> k"
proof (induction n arbitrary: k rule: show_nat.induct)
  case (1 n)
  show ?case
  proof (cases "n < 10")
    case True
    then show ?thesis using "1.prems" by (subst show_nat.simps) simp
  next
    case False
    with "1.prems" have "1 < k" by (cases "k = 1") auto
    moreover from this "1.prems" have "n div 10 < 10 ^ (k - 1)"
      by (simp add: less_mult_imp_div_less flip: power_Suc2)
    ultimately have "length (show_nat (n div 10)) \<le> k - 1" using "1.IH" [OF False, of "k - 1"] by simp
    then show ?thesis using False \<open>1 < k\<close> by (subst show_nat.simps) simp
  qed
qed

lemma pad_digits: "0 \<le> i \<Longrightarrow> i < 10 ^ k \<Longrightarrow> 0 < k \<Longrightarrow> length (pad k i) = k \<and> all_digits (pad k i)"
proof -
  assume i: "0 \<le> i" "i < 10 ^ k" "0 < k"
  then have "nat i < 10 ^ k" by (simp add: nat_less_iff)
  then have "length (show_nat (nat i)) \<le> k" using show_nat_width i(3) by blast
  moreover have "is_digit_char (CHR ''0'')" by code_simp
  ultimately show "length (pad k i) = k \<and> all_digits (pad k i)"
    using i show_nat_digits [of "nat i"] by (auto simp: pad_def show_int_def Let_def all_digits_def list_all_iff)
qed

text \<open>The sign bit of the truncated value is clear.\<close>

lemma truncated_nonneg: "0 \<le> sint (truncated h) \<and> sint (truncated h) < 2 ^ 31"
proof -
  let ?w = "truncated h"
  have "\<not> bit ?w 31"
    by (simp add: truncated_def Let_def bit_simps bit_or_iff bit_push_bit_iff bit_and_iff) (auto dest: bit_imp_le_length)
  then have "sint ?w = take_bit 31 (uint ?w)"
    by (simp add: sint_uint signed_take_bit_eq_if_positive bit_uint_iff)
  then show ?thesis using take_bit_int_less_exp [of 31 "uint ?w"] by simp
qed

text \<open>C33: Whatever the HMAC is, a code has exactly six decimal digits, so the input pattern of the
  procedures never excludes it.\<close>

theorem totp_code_format: "length (generateHotp hmac_sha1 secret counter) = 6 \<and> all_digits (generateHotp hmac_sha1 secret counter)"
proof -
  let ?n = "sint (truncated (hmac_sha1 (decodeSecret secret) (counterBuf counter)))"
  have "0 \<le> ?n" using truncated_nonneg by blast
  then have "0 \<le> js_rem ?n 1000000 \<and> js_rem ?n 1000000 < 10 ^ 6" by (simp add: js_rem_def)
  then show ?thesis unfolding generateHotp_def using pad_digits [of "js_rem ?n 1000000" 6] by simp
qed

lemma hotp_length: "length (generateHotp hmac_sha1 secret counter) = 6"
proof -
  let ?n = "sint (truncated (hmac_sha1 (decodeSecret secret) (counterBuf counter)))"
  have "0 \<le> ?n" using truncated_nonneg by blast
  then have "0 \<le> js_rem ?n 1000000 \<and> js_rem ?n 1000000 < 10 ^ 6" by (simp add: js_rem_def)
  then show ?thesis unfolding generateHotp_def using pad_digits [of "js_rem ?n 1000000" 6] by simp
qed

lemma window: "((now::int) + off * 30) div 30 = now div 30 + off"
  by (simp add: div_mult_self1)

text \<open>A code passes exactly when it is the code of the current 30-second step, of the one
  before or of the one after; it keeps passing for as long as that holds, so it can be used
  again within the window.\<close>

theorem totp_window:
  assumes "length code = 6"
  shows "validateTotp hmac_sha1 now secret code \<longleftrightarrow>
    code \<in> {generateHotp hmac_sha1 secret (now div 30 - 1), generateHotp hmac_sha1 secret (now div 30),
            generateHotp hmac_sha1 secret (now div 30 + 1)}"
proof -
  have w: "(now - 30) div 30 = now div 30 - 1" "(now + 30) div 30 = now div 30 + 1"
    using window [of now "-1"] window [of now 1] by simp_all
  have "padEnd 6 code = code" using assms by (simp add: padEnd_def)
  then show ?thesis
    using assms by (auto simp: validateTotp_def Let_def hotp_length w add.commute)
qed

definition flat_hmac :: "byte list \<Rightarrow> byte list \<Rightarrow> byte list" where
  "flat_hmac k m = replicate 20 0"

theorem totp_window_witness: "validateTotp flat_hmac 1700000000 ''ABC'' ''000000''"
proof -
  have "truncated (replicate 20 0) = 0" by (simp add: truncated_def Let_def)
  moreover have "pad 6 (js_rem 0 1000000) = ''000000''" by code_simp
  ultimately have "generateHotp flat_hmac ''ABC'' (1700000000 div 30) = ''000000''"
    by (simp add: generateHotp_def flat_hmac_def)
  then show ?thesis using totp_window [of "''000000''" flat_hmac 1700000000 "''ABC''"] by simp
qed

section \<open>Storage\<close>

text \<open>
  What the code relies on about Node's cryptography: Base64url is injective and has four
  characters per three bytes without padding, AES-GCM keeps the length, has a 16-byte tag and
  opens what it sealed.
\<close>

definition crypto_laws :: "totpCrypto \<Rightarrow> bool" where
  "crypto_laws cr \<longleftrightarrow>
     (\<forall>bs. tc_decode cr (tc_encode cr bs) = bs) \<and>
     (\<forall>bs. length (tc_encode cr bs) = (4 * length bs + 2) div 3) \<and>
     (\<forall>iv s. length (fst (tc_seal cr iv s)) = length s \<and> length (snd (tc_seal cr iv s)) = 16) \<and>
     (\<forall>iv s. tc_open cr iv (snd (tc_seal cr iv s)) (fst (tc_seal cr iv s)) = Some s)"

text \<open>A secret encrypted under a 12-byte nonce is recognised as encrypted and decrypts to
  itself; the only exception would be the empty secret, which is refused as malformed.\<close>

theorem totp_storage_roundtrip:
  assumes "crypto_laws cr" and "length iv = 12" and "secret \<noteq> []"
  shows "decryptTotpSecret cr (encryptTotpSecret cr iv secret) = Inr secret"
proof -
  obtain ct tag where seal: "tc_seal cr iv secret = (ct, tag)" by (cases "tc_seal cr iv secret")
  with assms(1) have len: "length ct = length secret" "length tag = 16" and op: "tc_open cr iv tag ct = Some secret"
    and dec: "tc_decode cr (tc_encode cr (iv @ tag @ ct)) = iv @ tag @ ct"
    unfolding crypto_laws_def by (metis fst_conv snd_conv)+
  have parts: "take 12 (iv @ tag @ ct) = iv" "take 16 (drop 12 (iv @ tag @ ct)) = tag" "drop 28 (iv @ tag @ ct) = ct"
    using assms(2) len by simp_all
  have "\<not> length (iv @ tag @ ct) < 29" using assms(2,3) len by (cases secret) auto
  with parts op dec seal show ?thesis
    by (simp add: encryptTotpSecret_def decryptTotpSecret_def isEncryptedTotpSecret_def Let_def del: append_assoc)
qed

text \<open>Toy cryptography with the right lengths: bytes as characters, a tag of zeros.\<close>

definition toy_crypto :: totpCrypto where
  "toy_crypto = \<lparr>tc_encode = (\<lambda>bs. map (\<lambda>b. char_of (unat b)) bs @ replicate ((4 * length bs + 2) div 3 - length bs) (CHR ''='')),
     tc_decode = (\<lambda>s. map (\<lambda>c. word_of_nat (of_char c)) (take (3 * length s div 4) s)),
     tc_seal = (\<lambda>iv s. (map (\<lambda>c. word_of_nat (of_char c)) s, replicate 16 0)),
     tc_open = (\<lambda>iv tag ct. Some (map (\<lambda>b. char_of (unat b)) ct)), tc_sha256 = (\<lambda>s. s)\<rparr>"

lemma toy_crypto_laws: "crypto_laws toy_crypto"
proof -
  have byte: "word_of_nat (unat b mod 256) = b" for b :: byte
    using unsigned_less [of b, where ?'a = nat] by simp
  have chr: "char_of (unat (word_of_nat (of_char c) :: byte)) = c" for c
  proof -
    have "(of_char c :: nat) < 256" using nat_of_char_less_256 [of c] by simp
    then have "unat (word_of_nat (of_char c) :: byte) = of_char c" by (simp add: unat_of_nat)
    then show ?thesis by simp
  qed
  have cut: "3 * ((4 * n + 2) div 3) div 4 = n" for n :: nat by arith
  show ?thesis
    by (simp add: crypto_laws_def toy_crypto_def cut comp_def byte chr map_idI)
qed

theorem totp_storage_roundtrip_witness:
  "decryptTotpSecret toy_crypto (encryptTotpSecret toy_crypto (replicate 12 0) ''ABC'') = Inr ''ABC''"
  by (rule totp_storage_roundtrip [OF toy_crypto_laws]) simp_all

section \<open>The table of secrets\<close>

text \<open>A secret of \<open>n\<close> characters needs \<open>12 + (4 (n + 28) + 2) / 3\<close> characters of storage.\<close>

lemma stored_length:
  assumes "crypto_laws cr" and "length iv = 12"
  shows "length (encryptTotpSecret cr iv secret) = 12 + (4 * (length secret + 28) + 2) div 3"
proof -
  obtain ct tag where seal: "tc_seal cr iv secret = (ct, tag)" by (cases "tc_seal cr iv secret")
  with assms(1) have "length ct = length secret" "length tag = 16"
    and "length (tc_encode cr (iv @ tag @ ct)) = (4 * length (iv @ tag @ ct) + 2) div 3"
    unfolding crypto_laws_def by (metis fst_conv snd_conv)+
  with assms(2) seal show ?thesis by (simp add: encryptTotpSecret_def TOTP_ENCRYPTION_PREFIX_def add.commute)
qed

lemma length_generated: "length (generateTotpSecret bytes) = 8 * length bytes div 5"
proof -
  have "length (concat (map (\<lambda>b. toBits 8 (unat b)) bytes)) = 8 * length bytes" by (induction bytes) auto
  then show ?thesis by (simp add: generateTotpSecret_def groups_def)
qed

text \<open>The operations of the router and of the startup migration, with the sizes the source uses.\<close>

inductive totp_step ::
  "(byte list \<Rightarrow> byte list \<Rightarrow> byte list) \<Rightarrow> totpCrypto \<Rightarrow> totpRow tbl \<Rightarrow> totpRow tbl \<Rightarrow> bool" for hmac_sha1 cr where
  ts_setup: "length random = 20 \<Longrightarrow> length iv = 12 \<Longrightarrow> totp_setup cr e c random iv codes s = (r, t) \<Longrightarrow> totp_step hmac_sha1 cr s t"
| ts_verify: "length iv = 12 \<Longrightarrow> totp_verify hmac_sha1 cr e c iv code s = (r, t) \<Longrightarrow> totp_step hmac_sha1 cr s t"
| ts_disable: "totp_disable e c s = (r, t) \<Longrightarrow> totp_step hmac_sha1 cr s t"
| ts_migrate: "(\<forall>k. length (ivs k) = 12) \<Longrightarrow> migrateLegacyTotpSeedsAtRest cr ivs e s = (r, t) \<Longrightarrow> totp_step hmac_sha1 cr s t"

lemma setup_fails:
  assumes "crypto_laws cr" "length random = 20" "length iv = 12" "totp_setup cr e c random iv codes s = (r, t)"
  shows "t = s \<and> (\<exists>err. r = Inl err)"
proof -
  have "SECRET_WIDTH < length (encryptTotpSecret cr iv (generateTotpSecret random))"
    using stored_length [OF assms(1,3)] assms(2) by (simp add: length_generated SECRET_WIDTH_def)
  with assms(4) show ?thesis
    by (auto simp: totp_setup_def totpDb_def Let_def writeProcedure_def split: option.splits if_splits)
qed

text \<open>C34: No user can enrol a second factor: the encrypted form of a generated secret has 92
  characters and the column holds 64, so \<open>setup\<close> fails for every caller, every random choice and
  every state of the table, and changes nothing.\<close>

theorem totp_setup_never_succeeds:
  assumes "crypto_laws cr" and "length random = 20" and "length iv = 12"
  shows "snd (totp_setup cr e c random iv codes s) = s \<and> (\<exists>err. fst (totp_setup cr e c random iv codes s) = Inl err)"
proof -
  obtain r t where rt: "totp_setup cr e c random iv codes s = (r, t)" by (cases "totp_setup cr e c random iv codes s")
  from setup_fails [OF assms rt] rt show ?thesis by simp
qed

theorem totp_setup_never_succeeds_witness:
  "snd (totp_setup toy_crypto sample_env analyst_ctx (replicate 20 0) (replicate 12 0) [] empty_tbl) = empty_tbl \<and>
   (\<exists>err. fst (totp_setup toy_crypto sample_env analyst_ctx (replicate 20 0) (replicate 12 0) [] empty_tbl) = Inl err)"
  by (rule totp_setup_never_succeeds [OF toy_crypto_laws]) simp_all

lemma verify_rows:
  assumes "totp_verify hmac_sha1 cr e c iv code s = (r, t)"
  shows "rows s = [] \<longrightarrow> rows t = []"
  using assms by (auto simp: totp_verify_def totpDb_def writeProcedure_def Let_def split: if_splits option.splits sum.splits)

lemma migrate_rows_empty: "migrate_rows cr ivs rs n s = (r, t) \<Longrightarrow> rows s = [] \<Longrightarrow> rows t = []"
  by (induction cr ivs rs n s rule: migrate_rows.induct) (auto split: if_splits)

lemma totp_step_empty:
  assumes "crypto_laws cr" "totp_step hmac_sha1 cr s t" "rows s = []"
  shows "rows t = []"
  using assms(2)
proof cases
  case (ts_setup random iv e c codes r)
  then show ?thesis using setup_fails [OF assms(1)] assms(3) by blast
next
  case (ts_verify iv e c code r)
  then show ?thesis using verify_rows assms(3) by blast
next
  case (ts_disable e c r)
  then show ?thesis using assms(3)
    by (auto simp: totp_disable_def totpDb_def writeProcedure_def split: option.splits if_splits)
next
  case (ts_migrate ivs e r)
  then show ?thesis using assms(3) migrate_rows_empty
    by (fastforce simp: migrateLegacyTotpSeedsAtRest_def split: if_splits)
qed

lemma totp_machine:
  assumes "crypto_laws cr"
  shows "state_machine (\<lambda>s. rows s = []) (totp_step hmac_sha1 cr) (\<lambda>s. rows s = [])"
  by unfold_locales (auto intro: totp_step_empty [OF assms])

lemma totp_reachable:
  "crypto_laws cr \<Longrightarrow> reach (\<lambda>s. rows s = []) (totp_step hmac_sha1 cr) s \<Longrightarrow> rows s = []"
  by (rule state_machine.inv_reachable [OF totp_machine])

end
