(* ===== verification/Billing_Entitlements.thy ===== *)
theory Billing_Entitlements
  imports Billing_Money_Inv
begin

text \<open>
  The entitled units of a tenant as a state machine over the handlers that touch them: manual
  contracts and signups grant units, \<open>reserveCompletedCheck\<close> holds one, \<open>consumeReservedCheck\<close>
  uses a held one, the metering worker holds and uses one at once. The counters of an
  entitlement are counts of reservations, never exceed the units granted, and every use has one
  usage event.
\<close>

section \<open>Counting reservations\<close>

definition tally :: "reservation list \<Rightarrow> (string \<times> res_status) multiset" where
  "tally R = mset (map (\<lambda>r. (rs_entitlement_id r, rs_status r)) R)"

lemma tally_simps [simp]: "tally [] = {#}" "tally (R @ [r]) = add_mset (rs_entitlement_id r, rs_status r) (tally R)"
  by (simp_all add: tally_def)

text \<open>An update of the row with a given key replaces one element of the multiset of images.\<close>

lemma mset_lupdate_key:
  assumes "distinct (map key R)" "r \<in> set R"
  shows "mset (map g (lupdate (\<lambda>x. key x = key r) f R)) = add_mset (g (f r)) (mset (map g R) - {#g r#})"
  using assms
proof (induction R)
  case (Cons a R)
  show ?case
  proof (cases "a = r")
    case True
    have "\<forall>x \<in> set R. \<not> key x = key r" using Cons.prems(1) True by (force simp: image_iff)
    with True show ?thesis by (simp add: lupdate_none)
  next
    case False
    with Cons.prems have r: "r \<in> set R" and ne: "key a \<noteq> key r" by (auto simp: image_iff)
    then have "g r \<in># mset (map g R)" by simp
    with Cons r ne show ?thesis by simp
  qed
qed simp

definition used :: "reservation list \<Rightarrow> string multiset" where
  "used R = image_mset fst (filter_mset (\<lambda>p. snd p = Consumed) (mset (map (\<lambda>r. (rs_id r, rs_status r)) R)))"

lemma used_append [simp]: "used (R @ [r]) = (if rs_status r = Consumed then add_mset (rs_id r) (used R) else used R)"
  by (simp add: used_def)

section \<open>The invariant\<close>

definition unit_ok :: "reservation list \<Rightarrow> entitlement \<Rightarrow> bool" where
  "unit_ok R n \<longleftrightarrow>
     en_reserved_units n = int (count (tally R) (en_id n, Reserved)) \<and>
     en_consumed_units n = int (count (tally R) (en_id n, Consumed)) \<and>
     en_consumed_units n + en_reserved_units n \<le> en_total_units n"

definition ent_inv :: "'w billdb \<Rightarrow> bool" where
  "ent_inv s \<longleftrightarrow>
     distinct (map en_id (b_entitlements s)) \<and> distinct (map rs_id (b_reservations s)) \<and>
     (\<forall>r \<in> set (b_reservations s). rs_entitlement_id r \<in> en_id ` set (b_entitlements s)) \<and>
     (\<forall>n \<in> set (b_entitlements s). unit_ok (b_reservations s) n) \<and>
     mset (map us_reservation_id (b_usage s)) = used (b_reservations s)"

definition ent_same :: "'w billdb \<Rightarrow> 'w billdb \<Rightarrow> bool" where
  "ent_same s t \<longleftrightarrow> b_entitlements t = b_entitlements s \<and> b_reservations t = b_reservations s \<and> b_usage t = b_usage s"

lemma ent_same_refl [simp]: "ent_same s s"
  by (simp add: ent_same_def)

lemma ent_same_trans: "ent_same s t \<Longrightarrow> ent_same t u \<Longrightarrow> ent_same s u"
  by (simp add: ent_same_def)

lemma ent_inv_same: "ent_same s t \<Longrightarrow> ent_inv s \<Longrightarrow> ent_inv t"
  by (simp add: ent_same_def ent_inv_def)

section \<open>The statements\<close>

lemma insert_subscription_frame: "insert_subscription u s = (r, t) \<Longrightarrow> ent_same s t"
  by (auto simp: insert_subscription_def ent_same_def split: if_splits)

lemma insert_signup_frame: "insert_signup g s = (r, t) \<Longrightarrow> ent_same s t"
  by (auto simp: insert_signup_def ent_same_def split: if_splits)

lemma audit_frame: "writeAuditLog a s = (b, t) \<Longrightarrow> ent_same s t"
  by (auto simp: writeAuditLog_def ent_same_def split: if_splits)

lemma cancel_frame [simp]: "ent_same s (cancel_live e tid s)"
  by (simp add: cancel_live_def ent_same_def)

lemma insert_entitlement_inv:
  assumes inv: "ent_inv s" and ins: "insert_entitlement n s = (Inr u, t)"
    and fresh: "en_consumed_units n = 0" "en_reserved_units n = 0"
  shows "ent_inv t"
proof -
  from ins have t: "t = s\<lparr>b_entitlements := b_entitlements s @ [n]\<rparr>" and pos: "0 < en_total_units n"
    and new: "en_id n \<notin> en_id ` set (b_entitlements s)"
    by (auto simp: insert_entitlement_def split: if_splits)
  from inv new have "(en_id n, st) \<notin># tally (b_reservations s)" for st
    unfolding ent_inv_def tally_def by auto
  then have "count (tally (b_reservations s)) (en_id n, st) = 0" for st by (simp add: not_in_iff)
  with inv new t pos fresh show ?thesis by (auto simp: ent_inv_def unit_ok_def)
qed

lemma move_units_ok:
  "move_units k dres dcons s = (Inr u, t) \<Longrightarrow>
     t = s\<lparr>b_entitlements := lupdate (\<lambda>n. en_id n = k)
            (\<lambda>n. n\<lparr>en_reserved_units := en_reserved_units n + dres, en_consumed_units := en_consumed_units n + dcons\<rparr>)
            (b_entitlements s)\<rparr>"
  by (auto simp: move_units_def Let_def split: if_splits)

lemma map_en_id [simp]:
  "map en_id (lupdate P (\<lambda>n. n\<lparr>en_reserved_units := f n, en_consumed_units := g n\<rparr>) N) = map en_id N"
  by (rule map_lupdate) simp

lemma set_en_id [simp]:
  "en_id ` set (lupdate P (\<lambda>n. n\<lparr>en_reserved_units := f n, en_consumed_units := g n\<rparr>) N) = en_id ` set N"
  by (simp flip: set_map)

lemma pick_available:
  "pick_entitlement e locked tid s = Some n \<Longrightarrow> n \<in> set (b_entitlements s) \<and> available e tid n \<and> \<not> locked (en_id n)"
proof -
  assume "pick_entitlement e locked tid s = Some n"
  then obtain ns where "sort_key en_period_end (filter (\<lambda>n. available e tid n \<and> \<not> locked (en_id n)) (b_entitlements s)) = n # ns"
    by (auto simp: pick_entitlement_def split: list.splits)
  then have "n \<in> set (sort_key en_period_end (filter (\<lambda>n. available e tid n \<and> \<not> locked (en_id n)) (b_entitlements s)))"
    by (metis list.set_intros(1))
  then show ?thesis by simp
qed

text \<open>A new reservation of a unit that was free, held (\<open>Reserved\<close>) or used at once (\<open>Consumed\<close>).\<close>

lemma unit_ok_take:
  assumes "unit_ok R n" "en_consumed_units n + en_reserved_units n < en_total_units n"
    "rs_entitlement_id r = en_id n" "rs_status r = Reserved \<or> rs_status r = Consumed"
  shows "unit_ok (R @ [r]) (n\<lparr>en_reserved_units := en_reserved_units n + (if rs_status r = Reserved then 1 else 0),
    en_consumed_units := en_consumed_units n + (if rs_status r = Consumed then 1 else 0)\<rparr>)"
  using assms by (auto simp: unit_ok_def)

lemma unit_ok_other: "unit_ok R n \<Longrightarrow> rs_entitlement_id r \<noteq> en_id n \<Longrightarrow> unit_ok (R @ [r]) n"
  by (simp add: unit_ok_def)

lemma take_unit_inv:
  assumes inv: "ent_inv s" and n: "n \<in> set (b_entitlements s)" "en_consumed_units n + en_reserved_units n < en_total_units n"
    and r: "rs_entitlement_id r = en_id n" "rs_status r = Reserved \<or> rs_status r = Consumed"
      "rs_id r \<notin> rs_id ` set (b_reservations s)"
    and ent: "b_entitlements t = lupdate (\<lambda>m. en_id m = en_id n)
      (\<lambda>m. m\<lparr>en_reserved_units := en_reserved_units m + (if rs_status r = Reserved then 1 else 0),
             en_consumed_units := en_consumed_units m + (if rs_status r = Consumed then 1 else 0)\<rparr>) (b_entitlements s)"
    and res: "b_reservations t = b_reservations s @ [r]"
    and usage: "mset (map us_reservation_id (b_usage t)) =
      (if rs_status r = Consumed then add_mset (rs_id r) (mset (map us_reservation_id (b_usage s)))
       else mset (map us_reservation_id (b_usage s)))"
  shows "ent_inv t"
proof -
  have dist: "distinct (map en_id (b_entitlements s))" and ok: "\<forall>m \<in> set (b_entitlements s). unit_ok (b_reservations s) m"
    using inv by (simp_all add: ent_inv_def)
  have "unit_ok (b_reservations t) m" if "m \<in> set (b_entitlements t)" for m
    using that [unfolded ent]
  proof (cases rule: in_lupdateE)
    case (hit m0)
    then have "m0 = n" using unique_key [OF dist] n(1) by blast
    with hit(3) show ?thesis unfolding res using unit_ok_take [OF bspec [OF ok n(1)] n(2) r(1,2)] by simp
  next
    case miss
    with r(1) show ?thesis unfolding res using unit_ok_other [OF bspec [OF ok miss(1)], of r] by simp
  qed
  moreover have "distinct (map en_id (b_entitlements t))" "en_id ` set (b_entitlements t) = en_id ` set (b_entitlements s)"
    unfolding ent using dist by simp_all
  moreover have "distinct (map rs_id (b_reservations t))" using inv r(3) by (simp add: ent_inv_def res)
  moreover have "rs_entitlement_id q \<in> en_id ` set (b_entitlements s)" if "q \<in> set (b_reservations t)" for q
    using that inv n(1) r(1) by (auto simp: ent_inv_def res)
  moreover have "mset (map us_reservation_id (b_usage t)) = used (b_reservations t)"
    unfolding usage res used_append using inv by (simp add: ent_inv_def)
  ultimately show ?thesis by (simp add: ent_inv_def)
qed

text \<open>A held unit becomes a used one.\<close>

lemma use_unit_inv:
  assumes inv: "ent_inv s" and r: "r \<in> set (b_reservations s)" "rs_status r = Reserved"
    and ent: "b_entitlements t = lupdate (\<lambda>m. en_id m = rs_entitlement_id r)
      (\<lambda>m. m\<lparr>en_reserved_units := en_reserved_units m + (- 1), en_consumed_units := en_consumed_units m + 1\<rparr>) (b_entitlements s)"
    and res: "b_reservations t = lupdate (\<lambda>q. rs_id q = rs_id r)
      (\<lambda>q. q\<lparr>rs_status := Consumed, rs_consumed_at := when\<rparr>) (b_reservations s)"
    and usage: "mset (map us_reservation_id (b_usage t)) = add_mset (rs_id r) (mset (map us_reservation_id (b_usage s)))"
  shows "ent_inv t"
proof -
  let ?f = "\<lambda>q. q\<lparr>rs_status := Consumed, rs_consumed_at := when\<rparr>"
  have dn: "distinct (map en_id (b_entitlements s))" and dr: "distinct (map rs_id (b_reservations s))"
    and ok: "\<forall>m \<in> set (b_entitlements s). unit_ok (b_reservations s) m"
    using inv by (simp_all add: ent_inv_def)
  have tal: "tally (b_reservations t) = add_mset (rs_entitlement_id r, Consumed)
      (tally (b_reservations s) - {#(rs_entitlement_id r, Reserved)#})"
    unfolding res tally_def using mset_lupdate_key [OF dr r(1), of "\<lambda>q. (rs_entitlement_id q, rs_status q)" ?f] r(2) by simp
  have held: "(rs_entitlement_id r, Reserved) \<in># tally (b_reservations s)"
    using r by (force simp: tally_def)
  have "unit_ok (b_reservations t) m" if "m \<in> set (b_entitlements t)" for m
    using that [unfolded ent]
  proof (cases rule: in_lupdateE)
    case (hit m0)
    then have m: "unit_ok (b_reservations s) m0" "en_id m0 = rs_entitlement_id r" using ok by auto
    have "0 < count (tally (b_reservations s)) (en_id m0, Reserved)" using held m(2) by simp
    with hit m show ?thesis unfolding unit_ok_def tal by (auto simp: of_nat_diff)
  next
    case miss
    with ok show ?thesis unfolding unit_ok_def tal by auto
  qed
  moreover have "distinct (map en_id (b_entitlements t))" "en_id ` set (b_entitlements t) = en_id ` set (b_entitlements s)"
    unfolding ent using dn by simp_all
  moreover have "map rs_id (b_reservations t) = map rs_id (b_reservations s)" unfolding res by (rule map_lupdate) simp
  moreover have "\<forall>q \<in> set (b_reservations t). rs_entitlement_id q \<in> en_id ` set (b_entitlements s)"
    unfolding res using inv by (auto simp: ent_inv_def elim!: in_lupdateE)
  moreover have "used (b_reservations t) = add_mset (rs_id r) (used (b_reservations s))"
    unfolding res used_def using mset_lupdate_key [OF dr r(1), of "\<lambda>q. (rs_id q, rs_status q)" ?f] r(2) by simp
  ultimately show ?thesis using inv usage by (simp add: ent_inv_def)
qed

section \<open>Handlers that leave the units alone\<close>

lemma same_world [simp]: "ent_same s (s\<lparr>b_world := w\<rparr>)"
  by (simp add: ent_same_def)

lemma seq_same:
  assumes "seq_act m k s = (r, t)"
    and "\<And>r t. m s = (r, t) \<Longrightarrow> ent_same s t" and "\<And>x u r t. k x u = (r, t) \<Longrightarrow> ent_same u t"
  shows "ent_same s t"
  using assms(1)
proof (cases rule: seq_act_cases)
  case (fails e)
  then show ?thesis using assms(2) by blast
next
  case (runs x u)
  then show ?thesis using assms(2,3) ent_same_trans by blast
qed

lemma tigerBeetlePost_same: "tigerBeetlePost sv f s = (r, t) \<Longrightarrow> ent_same s t"
  by (erule tigerBeetlePost_cases) simp_all

lemma seq_rel:
  assumes "seq_act m k s = (r, t)" "transp R"
    and "\<And>r t. m s = (r, t) \<Longrightarrow> R s t" and "\<And>x u r t. k x u = (r, t) \<Longrightarrow> R u t"
  shows "R s t"
  using assms(1)
proof (cases rule: seq_act_cases)
  case (fails e)
  then show ?thesis using assms(3) by blast
next
  case (runs x u)
  from transpD [OF assms(2) assms(3) [OF runs(1)] assms(4) [OF runs(2)]] show ?thesis .
qed

text \<open>A settlement touches the world, the intents and the top-ups, whatever relation one wants to see kept.\<close>

lemma settle_frame:
  assumes run: "settlePaystackPayment sv e ref s = (r, t)"
    and refl: "\<And>s. R s s" and trans: "transp R"
    and world: "\<And>s w. R s (s\<lparr>b_world := w\<rparr>)" and intents: "\<And>s I. R s (s\<lparr>b_intents := I\<rparr>)"
    and topups: "\<And>s T. R s (s\<lparr>b_topups := T\<rparr>)"
  shows "R s t"
proof -
  have post: "R s t" if "tigerBeetlePost sv f s = (r, t)" for f s r t
    using that by (rule tigerBeetlePost_cases) (simp_all add: refl world)
  have settle: "R s t" if "settle_post sv ref i a s = (r, t)" for i a s r t
    using that unfolding settle_post_def ensureLedgerAccounts_def
    by (rule seq_rel [OF _ trans]) (erule post, erule seq_rel [OF _ trans], erule post, simp add: refl)
  have finish: "R s t" if "settle_finish e ref i a ch tid s = (r, t)" for i a ch tid s r t
  proof -
    have up: "R s t" if "upsert_topup e tn ref a ch tid s = (r, t)" for tn s r t
      using that by (auto simp: upsert_topup_def refl topups split: if_splits)
    show ?thesis
    proof (cases "length (filter (open_intent (pi_id i)) (b_intents s)) = 1")
      case True
      with that have "seq_act (upsert_topup e (show_int (pi_tenant_id i)) ref a ch tid)
             (\<lambda>_. ret \<lparr>sd_transferId = tid, sd_idempotent = False, sd_tenantId = pi_tenant_id i, sd_amountKobo = a\<rparr>)
             (s\<lparr>b_intents := lupdate (open_intent (pi_id i)) (credit_intent e) (b_intents s)\<rparr>) = (r, t)"
        by (simp add: settle_finish_def)
      then have "R (s\<lparr>b_intents := lupdate (open_intent (pi_id i)) (credit_intent e) (b_intents s)\<rparr>) t"
        by (rule seq_rel [OF _ trans]) (erule up, simp add: refl)
      from transpD [OF trans intents this] show ?thesis .
    qed (use that intents in \<open>auto simp: settle_finish_def\<close>)
  qed
  show ?thesis
  proof (cases "e_dbUp e")
    case True
    with run have "seq_act (settle_begin sv e ref) (\<lambda>b. case b of Already r \<Rightarrow> ret r
        | Eligible i \<Rightarrow> seq_act (settle_verify sv ref i) (\<lambda>(amount, channel).
            seq_act (settle_post sv ref i amount) (\<lambda>transferId. settle_finish e ref i amount channel transferId))) s = (r, t)"
      by (simp add: settlePaystackPayment_def)
    then show ?thesis
    proof (rule seq_rel [OF _ trans])
      show "R s t" if "settle_begin sv e ref s = (r, t)" for r t using settle_begin_state [OF that] refl by simp
    next
      fix b u r t
      assume k: "(case b of Already r \<Rightarrow> ret r
        | Eligible i \<Rightarrow> seq_act (settle_verify sv ref i) (\<lambda>(amount, channel).
            seq_act (settle_post sv ref i amount) (\<lambda>transferId. settle_finish e ref i amount channel transferId))) u = (r, t)"
      show "R u t"
      proof (cases b)
        case (Eligible i)
        with k have "seq_act (settle_verify sv ref i) (\<lambda>(amount, channel).
            seq_act (settle_post sv ref i amount) (\<lambda>transferId. settle_finish e ref i amount channel transferId)) u = (r, t)" by simp
        then show ?thesis
        proof (rule seq_rel [OF _ trans])
          show "R u t" if "settle_verify sv ref i u = (r, t)" for r t using settle_verify_state [OF that] refl by simp
        next
          fix x v r t
          assume "(case x of (amount, channel) \<Rightarrow>
              seq_act (settle_post sv ref i amount) (\<lambda>transferId. settle_finish e ref i amount channel transferId)) v = (r, t)"
          then show "R v t" by (cases x) (simp, erule seq_rel [OF _ trans], erule settle, erule finish)
        qed
      qed (use k refl in simp)
    qed
  qed (use run refl in \<open>simp add: settlePaystackPayment_def\<close>)
qed

lemma settle_same: "settlePaystackPayment sv e ref s = (r, t) \<Longrightarrow> ent_same s t"
  by (erule settle_frame) (auto simp: ent_same_def intro: transpI)

lemma debit_same:
  "debitTenantForIntelligenceAssessment sv tid k a s = (r, t) \<Longrightarrow> ent_same s t"
  unfolding debitTenantForIntelligenceAssessment_def ensureLedgerAccounts_def require_simp
  by (simp split: if_splits, erule seq_same, erule tigerBeetlePost_same, erule seq_same, drule sufficient_state, simp,
      erule seq_same, erule tigerBeetlePost_same, simp)

lemma set_event_same [simp]: "ent_same s (set_event P f s)"
  by (simp add: set_event_def ent_same_def)

lemma settle_event_same: "settle_event e k tid s = (r, t) \<Longrightarrow> ent_same s t"
  by (auto simp: settle_event_def Let_def split: if_splits)

lemma meter_failure_same: "meter_failure sv e ids ev err s = (r, t) \<Longrightarrow> ent_same s t"
  by (auto simp: meter_failure_def escalate_def set_event_def ent_same_def Let_def split: if_splits)

lemma settle_plan_cases:
  assumes "settle_plan sv e k tid uid p i s = (r, t)"
  obtains (unchanged) "t = s"
    | (settled) ref u q where "settlePaystackPayment sv e ref s = (q, u)"
        "t = u \<or> t = snd (writeAuditLog (failure_audit tid uid i) (record_failure k tid uid i u))"
proof (cases "pl_price_kobo p \<le> 0 \<or> si_paymentReference i = None")
  case True
  then show ?thesis using assms unchanged by (auto simp: settle_plan_def split: if_splits)
next
  case False
  then obtain ref where price: "\<not> pl_price_kobo p \<le> 0" and ref: "si_paymentReference i = Some ref" by auto
  obtain q u where su: "settlePaystackPayment sv e ref s = (q, u)" by (cases "settlePaystackPayment sv e ref s")
  have "t = s \<or> t = u \<or> t = snd (writeAuditLog (failure_audit tid uid i) (record_failure k tid uid i u))"
  proof (cases q)
    case (Inl err)
    then show ?thesis using assms price ref su by (auto simp: settle_plan_def split: list.splits if_splits)
  next
    case (Inr x)
    then show ?thesis using assms price ref su by (auto simp: settle_plan_def split: list.splits if_splits)
  qed
  then show ?thesis using unchanged settled [OF su] by blast
qed

lemma settle_plan_same: "settle_plan sv e k tid uid p i s = (r, t) \<Longrightarrow> ent_same s t"
proof (erule settle_plan_cases)
  fix ref u q
  assume su: "settlePaystackPayment sv e ref s = (q, u)"
    and t: "t = u \<or> t = snd (writeAuditLog (failure_audit tid uid i) (record_failure k tid uid i u))"
  have "ent_same u (record_failure k tid uid i u)"
    unfolding record_failure_def using insert_signup_frame by (metis prod.collapse)
  moreover have "ent_same v (snd (writeAuditLog a v))" for a v using audit_frame by (metis prod.collapse)
  ultimately show "ent_same s t" using settle_same [OF su] t ent_same_trans by metis
qed simp

section \<open>Handlers that move units\<close>

lemma insert_reservation_ok:
  "insert_reservation r s = (Inr u, t) \<Longrightarrow>
     rs_id r \<notin> rs_id ` set (b_reservations s) \<and> t = s\<lparr>b_reservations := b_reservations s @ [r]\<rparr>"
  by (auto simp: insert_reservation_def split: if_splits)

lemma insert_usage_ok: "insert_usage v s = (Inr u, t) \<Longrightarrow> t = s\<lparr>b_usage := b_usage s @ [v]\<rparr>"
  by (auto simp: insert_usage_def split: if_splits)

lemma available_room: "available e tid n \<Longrightarrow> en_consumed_units n + en_reserved_units n < en_total_units n"
  by (simp add: available_def)

text \<open>What a reservation does, spelled out: the picked entitlement loses one unit to the new row.\<close>

lemma reserve_check_effect:
  assumes "reserve_check e locked uuid uid i s = (Inr x, t)"
  obtains (replay) q where "t = s" "q \<in> set (b_reservations s)" "rs_status q = Reserved" "rr_reservationId x = rs_id q"
    | (fresh) n u where "pick_entitlement e locked (ri_tenantId i) s = Some n"
        "u = s\<lparr>b_entitlements := lupdate (\<lambda>m. en_id m = en_id n)
           (\<lambda>m. m\<lparr>en_reserved_units := en_reserved_units m + 1, en_consumed_units := en_consumed_units m + 0\<rparr>) (b_entitlements s)\<rparr>"
        "rs_id (new_reservation e uuid uid n i) \<notin> rs_id ` set (b_reservations s)"
        "t = u\<lparr>b_reservations := b_reservations s @ [new_reservation e uuid uid n i]\<rparr>"
proof -
  let ?old = "filter (\<lambda>r. rs_tenant_id r = ri_tenantId i \<and> rs_idempotency_key r = ri_idempotencyKey i) (b_reservations s)"
  show ?thesis
  proof (cases "\<exists>q. ?old = [q]")
    case True
    then obtain q where q: "?old = [q]" by blast
    with assms have "t = s" "rs_status q = Reserved" "rr_reservationId x = rs_id q"
      by (auto simp: reserve_check_def split: if_splits)
    then show ?thesis using replay filter_single [OF q] by blast
  next
    case False
    have "reserve_check e locked uuid uid i s =
      (case pick_entitlement e locked (ri_tenantId i) s of
             None \<Rightarrow> (Inl (TRPCError PAYMENT_REQUIRED ''No active commercial entitlement is available for this completed check''), s)
           | Some n \<Rightarrow>
               seq_act (move_units (en_id n) 1 0) (\<lambda>_.
               seq_act (insert_reservation (new_reservation e uuid uid n i)) (\<lambda>_.
               ret \<lparr>rr_reservationId = uuid, rr_expiresAt = e_now e + reservationTtlMs, rr_idempotent = False\<rparr>)) s)"
      using False by (simp add: reserve_check_def split: list.splits)
    with assms obtain n where n: "pick_entitlement e locked (ri_tenantId i) s = Some n"
      and run: "seq_act (move_units (en_id n) 1 0) (\<lambda>_.
               seq_act (insert_reservation (new_reservation e uuid uid n i)) (\<lambda>_.
               ret \<lparr>rr_reservationId = uuid, rr_expiresAt = e_now e + reservationTtlMs, rr_idempotent = False\<rparr>)) s = (Inr x, t)"
      by (auto split: option.splits)
    from run obtain u1 u where mv: "move_units (en_id n) 1 0 s = (Inr u1, u)"
      and rest: "seq_act (insert_reservation (new_reservation e uuid uid n i)) (\<lambda>_.
               ret \<lparr>rr_reservationId = uuid, rr_expiresAt = e_now e + reservationTtlMs, rr_idempotent = False\<rparr>) u = (Inr x, t)"
      by (auto elim: seq_act_cases)
    from rest obtain u2 where ins: "insert_reservation (new_reservation e uuid uid n i) u = (Inr u2, t)"
      by (auto elim: seq_act_cases)
    note u = move_units_ok [OF mv]
    from insert_reservation_ok [OF ins] u show ?thesis using fresh [OF n u] by simp
  qed
qed

lemma reserve_check_inv:
  assumes "reserve_check e locked uuid uid i s = (Inr x, t)" and inv: "ent_inv s"
  shows "ent_inv t"
  using assms(1)
proof (cases rule: reserve_check_effect)
  case (fresh n u)
  note n = pick_available [OF fresh(1)]
  show ?thesis
    by (rule take_unit_inv [OF inv _ available_room, of n e "ri_tenantId i" "new_reservation e uuid uid n i"])
      (use n fresh in \<open>simp_all add: new_reservation_def\<close>)
qed (use inv in simp)

lemma consume_check_effect:
  assumes "consume_check e uuid uid tid k ref s = (Inr b, t)"
  obtains (replay) "t = s" b | (fresh) r v where "r \<in> set (b_reservations s)" "rs_id r = k" "rs_tenant_id r = tid"
      "rs_status r = Reserved" "e_now e < rs_expires_at r" "us_reservation_id v = k" "\<not> b"
      "t = s\<lparr>b_reservations := lupdate (\<lambda>q. rs_id q = k) (\<lambda>q. q\<lparr>rs_status := Consumed, rs_consumed_at := Some (e_now e)\<rparr>) (b_reservations s),
            b_entitlements := lupdate (\<lambda>m. en_id m = rs_entitlement_id r)
              (\<lambda>m. m\<lparr>en_reserved_units := en_reserved_units m + (- 1), en_consumed_units := en_consumed_units m + 1\<rparr>) (b_entitlements s),
            b_usage := b_usage s @ [v]\<rparr>"
proof -
  let ?hit = "filter (\<lambda>r. rs_id r = k \<and> rs_tenant_id r = tid \<and> rs_investigation_ref r = ref) (b_reservations s)"
  obtain r where r: "?hit = [r]" using assms by (auto simp: consume_check_def split: list.splits)
  note m = filter_single [OF r]
  define v where "v = \<lparr>us_id = uuid, us_tenant_id = tid, us_reservation_id = k,
                  us_usage_type = Completed_authorized_check, us_units = 1, us_investigation_ref = ref,
                  us_occurred_at = e_now e, us_recorded_by = uid\<rparr>"
  show ?thesis
  proof (cases "rs_status r = Consumed")
    case True
    with assms r show ?thesis using replay by (auto simp: consume_check_def)
  next
    case False
    with assms r have ok: "rs_status r = Reserved" "e_now e < rs_expires_at r"
      and run: "seq_act (move_units (rs_entitlement_id r) (- 1) 1) (\<lambda>_. seq_act (insert_usage v) (\<lambda>_. ret False))
                 (consume_reservation e k s) = (Inr b, t)"
      by (auto simp: consume_check_def v_def split: if_splits)
    from run obtain u1 u where mv: "move_units (rs_entitlement_id r) (- 1) 1 (consume_reservation e k s) = (Inr u1, u)"
      and rest: "seq_act (insert_usage v) (\<lambda>_. ret False) u = (Inr b, t)"
      by (auto elim: seq_act_cases)
    from rest obtain u2 where ins: "insert_usage v u = (Inr u2, t)" and b: "\<not> b" by (auto elim: seq_act_cases)
    have "us_reservation_id v = k" by (simp add: v_def)
    from fresh [of r v] m ok this b move_units_ok [OF mv] insert_usage_ok [OF ins]
    show ?thesis by (simp add: consume_reservation_def)
  qed
qed

lemma consume_check_inv:
  assumes "consume_check e uuid uid tid k ref s = (Inr b, t)" and inv: "ent_inv s"
  shows "ent_inv t"
  using assms(1)
proof (cases rule: consume_check_effect)
  case (fresh r v)
  show ?thesis by (rule use_unit_inv [OF inv fresh(1,4), of _ "Some (e_now e)"]) (use fresh in simp_all)
qed (use inv in simp)

lemma lupdate_twice:
  assumes "\<And>m. P (f m) = P m"
  shows "lupdate P g (lupdate P f N) = lupdate P (\<lambda>m. g (f m)) N"
  using assms by (induction N) auto

lemma reserve_unit_inv:
  assumes "reserve_unit e locked ids ev s = (Inr b, t)" and inv: "ent_inv s"
  shows "ent_inv t"
proof (cases "t = s")
  case False
  then obtain n where pick: "pick_entitlement e locked (be_tenant_id ev) s = Some n" and
    run: "seq_act (move_units (en_id n) 1 0) (\<lambda>_.
               seq_act (insert_reservation (meter_reservation e ids ev n)) (\<lambda>_.
               seq_act (move_units (en_id n) (- 1) 1) (\<lambda>_.
               seq_act (insert_usage (meter_usage e ids ev)) (\<lambda>_ t.
               (Inr True, set_event (\<lambda>b. be_id b = be_id ev)
                  (\<lambda>b. b\<lparr>be_reservation_id := Some (mi_reservation ids), be_status := Be_settled, be_settled_at := Some (e_now e)\<rparr>) t))))) s
          = (Inr b, t)"
    using assms(1) by (auto simp: reserve_unit_def split: list.splits if_splits option.splits)
  from run obtain s1 s2 s3 s4 u1 u2 u3 u4 where
    mv: "move_units (en_id n) 1 0 s = (Inr u1, s1)" and ins: "insert_reservation (meter_reservation e ids ev n) s1 = (Inr u2, s2)"
    and mv': "move_units (en_id n) (- 1) 1 s2 = (Inr u3, s3)" and us: "insert_usage (meter_usage e ids ev) s3 = (Inr u4, s4)"
    and t: "t = set_event (\<lambda>b. be_id b = be_id ev)
                  (\<lambda>b. b\<lparr>be_reservation_id := Some (mi_reservation ids), be_status := Be_settled, be_settled_at := Some (e_now e)\<rparr>) s4"
    by (auto elim!: seq_act_cases)
  note n = pick_available [OF pick]
  note e1 = move_units_ok [OF mv]
  note e2 = insert_reservation_ok [OF ins]
  note e3 = move_units_ok [OF mv']
  note e4 = insert_usage_ok [OF us]
  let ?r = "meter_reservation e ids ev n"
  have ent: "b_entitlements t = lupdate (\<lambda>m. en_id m = en_id n)
      (\<lambda>m. m\<lparr>en_reserved_units := en_reserved_units m + 0, en_consumed_units := en_consumed_units m + 1\<rparr>) (b_entitlements s)"
    using t e4 e3 e2 e1 by (simp add: set_event_def lupdate_twice)
  have res: "b_reservations t = b_reservations s @ [?r]" using t e4 e3 e2 e1 by (simp add: set_event_def)
  have usage: "b_usage t = b_usage s @ [meter_usage e ids ev]" using t e4 e3 e2 e1 by (simp add: set_event_def)
  have new: "rs_id ?r \<notin> rs_id ` set (b_reservations s)" using e2 e1 by simp
  have st: "rs_status ?r = Consumed" "rs_entitlement_id ?r = en_id n" "rs_id ?r = us_reservation_id (meter_usage e ids ev)"
    by (simp_all add: meter_reservation_def meter_usage_def)
  show ?thesis
    by (rule take_unit_inv [OF inv _ available_room, of n e "be_tenant_id ev" ?r]) (use n new st ent res usage in simp_all)
qed (use inv in simp)

lemma granted_inv:
  assumes "insert_entitlement (new_entitlement uuid tid sub units a b src) s = (Inr u, t)" "ent_inv s"
  shows "ent_inv t"
  by (rule insert_entitlement_inv [OF assms(2,1)]) (simp_all add: new_entitlement_def)

lemma activate_contract_inv:
  assumes "activate_contract e uuid1 uuid2 uid i s = (Inr x, t)" and inv: "ent_inv s"
  shows "ent_inv t"
proof -
  obtain p where run: "seq_act (insert_subscription (contract_subscription e uuid1 uid p i)) (\<lambda>_.
          let included = pl_included_completed_checks p in
          if 0 < included then
            (case toISOString (ci_periodStart i) of
               Inl err \<Rightarrow> throw err
             | Inr stamp \<Rightarrow>
                 seq_act (insert_entitlement (new_entitlement uuid2 (ci_tenantId i) uuid1 included (ci_periodStart i) (ci_periodEnd i)
                    (''manual-contract:'' @ ci_authorityReference i @ '':'' @ stamp)))
                 (\<lambda>_. ret (uuid1, included)))
          else ret (uuid1, included)) (cancel_live e (ci_tenantId i) s) = (Inr x, t)"
    using assms(1) by (auto simp: activate_contract_def split: option.splits)
  from run obtain u1 u where sub: "insert_subscription (contract_subscription e uuid1 uid p i) (cancel_live e (ci_tenantId i) s) = (Inr u1, u)"
    and rest: "(let included = pl_included_completed_checks p in
          if 0 < included then
            (case toISOString (ci_periodStart i) of
               Inl err \<Rightarrow> throw err
             | Inr stamp \<Rightarrow>
                 seq_act (insert_entitlement (new_entitlement uuid2 (ci_tenantId i) uuid1 included (ci_periodStart i) (ci_periodEnd i)
                    (''manual-contract:'' @ ci_authorityReference i @ '':'' @ stamp)))
                 (\<lambda>_. ret (uuid1, included)))
          else ret (uuid1, included)) u = (Inr x, t)"
    by (auto elim: seq_act_cases)
  have u: "ent_inv u" using inv insert_subscription_frame [OF sub] cancel_frame ent_inv_same by blast
  show ?thesis
  proof (cases "t = u")
    case False
    then obtain k a b c src u2 where "insert_entitlement (new_entitlement uuid2 k uuid1 a b c src) u = (Inr u2, t)"
      using rest by (auto simp: Let_def elim!: seq_act_cases split: if_splits sum.splits)
    then show ?thesis using granted_inv u by blast
  qed (use u in simp)
qed

lemma activation_writes_inv:
  assumes "activation_writes e ids tid uid p i ref s = (Inr w, t)" and inv: "ent_inv s"
  shows "ent_inv t"
proof -
  let ?ent = "\<lambda>u. if 0 < pl_included_completed_checks p
              then insert_entitlement (new_entitlement (id_entitlement ids) tid (id_subscription ids)
                     (pl_included_completed_checks p) (e_now e) (periodEndFor (pl_billing_interval p) (e_now e))
                     (''self-serve-signup:'' @ show_int tid @ '':'' @ si_idempotencyKey i)) u
              else ret () u"
  from assms(1) obtain u1 u2 u3 s1 s2 s3 where
    sub: "insert_subscription (signup_subscription e (id_subscription ids) tid uid p ref) (cancel_live e tid s) = (Inr u1, s1)" and
    ent: "?ent s1 = (Inr u2, s2)" and
    sg: "insert_signup \<lparr>sg_id = id_signup ids, sg_tenant_id = tid, sg_plan_code = si_planCode i,
                sg_status = Signup_active, sg_billing_ref = Some ref, sg_idempotency_key = si_idempotencyKey i,
                sg_created_by = uid\<rparr> s2 = (Inr u3, s3)" and
    au: "writeAuditLog (signup_audit tid uid i ref) s3 = (w, t)"
    unfolding activation_writes_def by (auto elim!: seq_act_cases split: prod.splits if_splits)
  have "ent_inv s1" using inv insert_subscription_frame [OF sub] cancel_frame ent_inv_same by blast
  then have "ent_inv s2" using ent granted_inv by (auto split: if_splits)
  then show ?thesis using insert_signup_frame [OF sg] audit_frame [OF au] ent_inv_same by blast
qed

lemma activate_signup_inv:
  "activate_signup e ids tid uid p i ref s = (r, t) \<Longrightarrow> ent_inv s \<Longrightarrow> ent_inv t"
  using activation_writes_inv by (auto simp: activate_signup_def split: prod.splits sum.splits if_splits)

lemma signup_inv:
  assumes "signup sv e c ids i s = (r, t)" and inv: "ent_inv s"
  shows "ent_inv t"
proof (cases "t = s")
  case False
  then obtain tid uid where body: "signup_body sv e ids tid uid i s = (r, t)"
    using assms(1) by (auto simp: signup_def writeProcedure_def requireTenant_def signupPool_def split: option.splits if_splits)
  with False obtain p where fresh: "signup_fresh sv e ids tid uid p i s = (r, t)"
    by (auto simp: signup_body_def split: list.splits option.splits)
  then show ?thesis unfolding signup_fresh_def Let_def
  proof (cases rule: seq_act_cases)
    case (fails err)
    then show ?thesis using settle_plan_same ent_inv_same inv by blast
  next
    case (runs ref u)
    have u: "ent_inv u" using settle_plan_same [OF runs(1)] ent_inv_same inv by blast
    from runs(2) show ?thesis
    proof (cases rule: catch_act_cases)
      case (handled err v)
      from handled(1) have "ent_inv v" by (cases rule: seq_act_cases) (use u activate_signup_inv in auto)
      then show ?thesis using handled(2) by (auto split: if_splits list.splits)
    next
      case (passes x)
      from passes(1) show ?thesis by (cases rule: seq_act_cases) (use u activate_signup_inv in auto)
    qed
  qed
qed (use inv in simp)

lemma meter_event_inv:
  assumes "processIntelligenceAssessmentBillingEvent sv e locked ids k w s = (r, t)" and inv: "ent_inv s"
  shows "ent_inv t"
proof -
  have attempt: "ent_inv u" if "meter_attempt sv e locked ids ev v = (q, u)" "ent_inv v" for ev v q u
    using that(1) unfolding meter_attempt_def
  proof (cases rule: seq_act_cases)
    case (fails err)
    then show ?thesis using that(2) reserve_unit_inv
      by (auto simp: reserveAndConsumeEntitledUnit_def in_transaction_def split: if_splits prod.splits sum.splits)
  next
    case (runs b u')
    have u': "ent_inv u'" using runs(1) that(2) reserve_unit_inv
      by (auto simp: reserveAndConsumeEntitledUnit_def in_transaction_def split: if_splits prod.splits sum.splits)
    have "ent_same u' u" using runs(2)
      by (auto split: if_splits sum.splits elim!: seq_act_cases dest: debit_same settle_event_same intro: ent_same_trans)
    then show ?thesis using u' ent_inv_same by blast
  qed
  show ?thesis
  proof (cases "e_dbUp e \<and> (\<exists>b. filter (claimable k) (b_events s) = [b])")
    case True
    then obtain b where "catch_act (meter_attempt sv e locked ids (lease_event e w b)) (meter_failure sv e ids (lease_event e w b))
         (set_event (claimable k) (lease_event e w) s) = (r, t)"
      using assms(1) by (auto simp: processIntelligenceAssessmentBillingEvent_def Let_def)
    moreover have "ent_inv (set_event (claimable k) (lease_event e w) s)" using ent_inv_same [OF set_event_same inv] .
    ultimately show ?thesis
      using attempt meter_failure_same ent_inv_same by (elim catch_act_cases) blast+
  next
    case False
    then have "t = s \<or> t = set_event (claimable k) (lease_event e w) s"
      using assms(1) by (auto simp: processIntelligenceAssessmentBillingEvent_def split: list.splits if_splits)
    then show ?thesis using inv ent_inv_same [OF set_event_same inv] by blast
  qed
qed

section \<open>The machine\<close>

inductive ent_step :: "'w services \<Rightarrow> 'w billdb \<Rightarrow> 'w billdb \<Rightarrow> bool" for sv where
  es_contract: "activateManualContract e c uuid1 uuid2 i s = (r, t) \<Longrightarrow> ent_step sv s t"
| es_signup: "signup sv e c ids si s = (r', t) \<Longrightarrow> ent_step sv s t"
| es_reserve: "reserveCompletedCheck uuid_ok e c locked uuid ri s = (r'', t) \<Longrightarrow> ent_step sv s t"
| es_consume: "consumeReservedCheck uuid_ok e c uuid tid k ref s = (rb, t) \<Longrightarrow> ent_step sv s t"
| es_meter: "processIntelligenceAssessmentBillingEvent sv e locked ids' k w s = (ru, t) \<Longrightarrow> ent_step sv s t"
| es_elsewhere: "ent_same s t \<Longrightarrow> ent_step sv s t"

definition ent_start :: "'w billdb \<Rightarrow> bool" where
  "ent_start s \<longleftrightarrow> b_entitlements s = [] \<and> b_reservations s = [] \<and> b_usage s = []"

lemma ent_step_inv:
  assumes "ent_step sv s t" and inv: "ent_inv s"
  shows "ent_inv t"
  using assms(1)
proof cases
  case (es_contract e c uuid1 uuid2 i r)
  then show ?thesis using inv activate_contract_inv
    by (auto simp: activateManualContract_def adminProcedure_def in_transaction_def split: option.splits if_splits prod.splits sum.splits)
next
  case (es_signup e c ids i r)
  then show ?thesis using inv signup_inv by blast
next
  case (es_reserve uuid_ok e c locked uuid i r)
  then show ?thesis using inv reserve_check_inv
    by (auto simp: reserveCompletedCheck_def writeProcedure_def requireTenantScope_def in_transaction_def
      split: option.splits if_splits prod.splits sum.splits)
next
  case (es_consume uuid_ok e c uuid tid k ref r)
  then show ?thesis using inv consume_check_inv
    by (auto simp: consumeReservedCheck_def writeProcedure_def requireTenantScope_def in_transaction_def
      split: option.splits if_splits prod.splits sum.splits)
next
  case (es_meter e locked ids k w r)
  then show ?thesis using inv meter_event_inv by blast
next
  case es_elsewhere
  then show ?thesis using inv ent_inv_same by blast
qed

lemma ent_start_inv: "ent_start s \<Longrightarrow> ent_inv s"
  by (simp add: ent_start_def ent_inv_def used_def)

interpretation entitlement_machine: state_machine ent_start "ent_step sv" ent_inv
  by unfold_locales (auto intro: ent_start_inv ent_step_inv)

end
