(* ===== verification/Billing_Sample.thy ===== *)
theory Billing_Sample
  imports Billing_Entitlements Totp_Properties
begin

text \<open>
  A small concrete ledger and provider at which the theorems are evaluated: the world is the
  list of posted transfers, a repeated transfer is accepted and a reused identifier refused, the
  provider confirms every payment at a fixed amount, and the hash of a text is the text read backwards.
\<close>

definition account_total :: "(transfer \<Rightarrow> string) \<Rightarrow> string \<Rightarrow> transfer list \<Rightarrow> int" where
  "account_total side k w = sum_list (map tr_amount (filter (\<lambda>t. side t = k) w))"

definition toy_account :: "string \<Rightarrow> transfer list \<Rightarrow> account" where
  "toy_account k w = \<lparr>la_credits_posted = Some (account_total tr_credit_account_id k w),
     la_debits_posted = Some (account_total tr_debit_account_id k w), la_debits_pending = None\<rparr>"

definition toy_post :: "transfer list \<Rightarrow> transfer list \<Rightarrow> unit reply \<times> transfer list" where
  "toy_post ts w = (case ts of
     [t] \<Rightarrow> if t \<in> set w then (Response 200 (), w)
            else if tr_id t \<in> tr_id ` set w then (Response 409 (), w)
            else (Response 201 (), w @ [t])
   | _ \<Rightarrow> (Response 400 (), w))"

definition toy_services :: "int \<Rightarrow> transfer list services" where
  "toy_services paid =
     \<lparr>sv_tigerBeetleUrl = True, sv_paystackSecretKey = True, sv_sha256 = List.rev, sv_hmac512 = (\<lambda>s. replicate 128 (CHR ''a'')),
      sv_parseBody = (\<lambda>s. Some (BodyObject (Some ''charge.success'') (Some s))),
      sv_postAccounts = (\<lambda>as w. (Response 200 (), w)), sv_postTransfers = toy_post,
      sv_getAccount = (\<lambda>k w. Response 200 (Json (Some (toy_account k w)))),
      sv_getTransfers = (\<lambda>k n w. Response 200 (Json None)),
      sv_initialize = (\<lambda>r w. (Response 200 (Json (Envelope True (Some \<lparr>in_authorization_url = ''https://pay'',
         in_access_code = ''code'', in_reference = ir_reference r\<rparr>))), w)),
      sv_verify = (\<lambda>ref w. Response 200 (Json (Envelope True (Some \<lparr>px_status = ''success'', px_amount = of_int paid,
         px_currency = Some ''NGN'', px_channel = Some ''card'', px_reference = ref\<rparr>)))),
      sv_storagePut = (\<lambda>k v. Some k)\<rparr>"

definition toy_posted :: "transfer list \<Rightarrow> transfer list" where "toy_posted w = w"

lemma toy_laws: "ledger_laws (toy_services paid) toy_posted"
  by (auto simp: ledger_laws_def toy_services_def toy_posted_def toy_post_def http_ok_def)

definition empty_billdb :: "transfer list billdb" where
  "empty_billdb = \<lparr>b_world = [], b_tenants = [7], b_users = [sample_admin, sample_analyst], b_intents = [], b_topups = empty_tbl,
     b_webhooks = [], b_claims = empty_tbl, b_plans = empty_tbl, b_subscriptions = [], b_entitlements = [], b_reservations = [],
     b_usage = [], b_refunds = [], b_signups = [], b_audit = [], b_assessments = [], b_policies = [], b_events = [],
     b_reconciliations = [], b_retries = empty_tbl, b_approvals = empty_tbl, b_approvers = [], b_totp = empty_tbl,
     b_threshold = None, b_eventlog = empty_tbl, b_notifications = []\<rparr>"

text \<open>One plan with two included checks, and the ledger with one million kobo of tenant 7.\<close>

definition toy_plan :: plan where
  "toy_plan = \<lparr>pl_id = 1, pl_plan_code = ''starter'', pl_display_name = ''Starter'', pl_billing_interval = Monthly,
     pl_price_kobo = 0, pl_included_completed_checks = 2, pl_overage_price_kobo = 0, pl_active = True, pl_version = 1\<rparr>"

definition toy_entitlement :: entitlement where
  "toy_entitlement = \<lparr>en_id = ''e1'', en_tenant_id = 7, en_subscription_id = None, en_total_units = 2, en_consumed_units = 0,
     en_reserved_units = 0, en_period_start = 1600000000000, en_period_end = 1800000000000, en_status = Ent_active,
     en_source_reference = ''contract''\<rparr>"

definition toy_intent :: intent where
  "toy_intent = \<lparr>pi_id = ''i1'', pi_tenant_id = 7, pi_initiated_by = 2, pi_provider_reference = ''BIS-TOP-1'',
     pi_amount_kobo = 200000, pi_currency = ''NGN'', pi_customer_email = ''a@b.c'', pi_purpose = Prepaid_credit,
     pi_status = Intent_pending, pi_access_code = Some ''code'', pi_initialized_at = None, pi_verified_at = None,
     pi_credited_at = None, pi_expires_at = 1700000001000\<rparr>"

lemmas toys = toy_services_def toy_post_def toy_account_def account_total_def empty_billdb_def toy_plan_def
  toy_entitlement_def toy_intent_def

lemma empty_billdb_simps [simp]:
  "b_world empty_billdb = []" "b_intents empty_billdb = []" "b_topups empty_billdb = empty_tbl" "b_claims empty_billdb = empty_tbl"
  "b_events empty_billdb = []" "b_tenants empty_billdb = [7]" "b_entitlements empty_billdb = []"
  "b_reservations empty_billdb = []" "b_usage empty_billdb = []"
  by (simp_all add: empty_billdb_def)

lemma toy_services_simps [simp]:
  "sv_tigerBeetleUrl (toy_services paid)" "sv_paystackSecretKey (toy_services paid)" "sv_sha256 (toy_services paid) = List.rev"
  "sv_postTransfers (toy_services paid) = toy_post" "sv_postAccounts (toy_services paid) = (\<lambda>as w. (Response 200 (), w))"
  by (simp_all add: toy_services_def)

end
