(* ===== verification/Billing_Refine.thy ===== *)
theory Billing_Refine
  imports Billing_Entitlements
begin

text \<open>
  The handlers refine the money machine: every call of a billing procedure or worker, run from
  any database and beside any handlers already under way, is a path of \<open>money\_step\<close>. With the
  machine's invariant this carries over to every history of calls (\<open>billing\_call\<close>).
\<close>

definition money_path :: "'w services \<Rightarrow> ('w \<Rightarrow> transfer list) \<Rightarrow> 'w billdb \<Rightarrow> 'w billdb \<Rightarrow> bool" where
  "money_path sv posted s t \<longleftrightarrow> (\<forall>ts. steps (money_step sv posted) (s, ts) (t, ts))"

lemma path_refl [simp]: "money_path sv posted s s"
  by (simp add: money_path_def steps_refl)

lemma path_trans: "money_path sv posted s t \<Longrightarrow> money_path sv posted t u \<Longrightarrow> money_path sv posted s u"
  unfolding money_path_def by (rule allI, rule steps_trans, erule spec, erule spec)

lemma path_step: "(\<And>ts. money_step sv posted (s, ts) (t, ts)) \<Longrightarrow> money_path sv posted s t"
  unfolding money_path_def by (intro allI steps_single)

lemma path_elsewhere: "elsewhere s t \<Longrightarrow> money_path sv posted s t"
  by (rule path_step) (rule ms_elsewhere)

lemma seq_path:
  assumes "seq_act m k s = (r, t)"
    and "\<And>r t. m s = (r, t) \<Longrightarrow> money_path sv posted s t"
    and "\<And>x u. m s = (Inr x, u) \<Longrightarrow> k x u = (r, t) \<Longrightarrow> money_path sv posted u t"
  shows "money_path sv posted s t"
  using assms(1)
proof (cases rule: seq_act_cases)
  case (fails e)
  then show ?thesis using assms(2) by blast
next
  case (runs x u)
  then show ?thesis using assms(2) [OF runs(1)] assms(3) [OF runs] path_trans by blast
qed

lemma catch_path:
  assumes "catch_act m h s = (r, t)"
    and "\<And>r t. m s = (r, t) \<Longrightarrow> money_path sv posted s t"
    and "\<And>err u. m s = (Inl err, u) \<Longrightarrow> h err u = (r, t) \<Longrightarrow> money_path sv posted u t"
  shows "money_path sv posted s t"
  using assms(1)
proof (cases rule: catch_act_cases)
  case (handled e u)
  then show ?thesis using assms(2) [OF handled(1)] assms(3) [OF handled] path_trans by blast
next
  case (passes x)
  then show ?thesis using assms(2) by blast
qed

section \<open>Tasks\<close>

lemma task_fails:
  "run_task sv e k s = (None, t) \<Longrightarrow> steps (money_step sv posted) (s, add_mset k ts) (t, ts)"
  using steps_single [where step = "money_step sv posted", OF ms_run [of sv e k s None t posted ts]] by simp

lemma task_goes_on:
  "run_task sv e k s = (Some k', t) \<Longrightarrow> steps (money_step sv posted) (s, add_mset k ts) (t, add_mset k' ts)"
  using steps_single [where step = "money_step sv posted", OF ms_run [of sv e k s "Some k'" t posted ts]] by simp

text \<open>A settlement is the start of a task and its three micro-steps.\<close>

lemma settle_path:
  assumes "settlePaystackPayment sv e ref s = (r, t)"
  shows "money_path sv posted s t"
proof (cases "e_dbUp e")
  case True
  with assms have run: "seq_act (settle_begin sv e ref) (\<lambda>b. case b of Already r \<Rightarrow> ret r
      | Eligible i \<Rightarrow> seq_act (settle_verify sv ref i) (\<lambda>(amount, channel).
          seq_act (settle_post sv ref i amount) (\<lambda>transferId. settle_finish e ref i amount channel transferId))) s = (r, t)"
    by (simp add: settlePaystackPayment_def)
  show ?thesis
  proof (cases "\<exists>i. settle_begin sv e ref s = (Inr (Eligible i), s)")
    case False
    obtain q u where b: "settle_begin sv e ref s = (q, u)" by (cases "settle_begin sv e ref s")
    then have "u = s" by (rule settle_begin_state)
    with b False have "q \<noteq> Inr (Eligible i)" for i by auto
    with run b \<open>u = s\<close> have "t = s" by (cases q) (auto simp: seq_act_def split: settle_begin.splits)
    then show ?thesis by simp
  next
    case True
    then obtain i where i: "settle_begin sv e ref s = (Inr (Eligible i), s)" by blast
    with run have run2: "seq_act (settle_verify sv ref i) (\<lambda>(amount, channel).
          seq_act (settle_post sv ref i amount) (\<lambda>transferId. settle_finish e ref i amount channel transferId)) s = (r, t)"
      by simp
    have "steps (money_step sv posted) (s, ts) (t, ts)" for ts
    proof -
      have start: "steps (money_step sv posted) (s, ts) (s, add_mset (Verify ref i) ts)"
        by (rule steps_single, rule ms_settle [OF i])
      from run2 have "steps (money_step sv posted) (s, add_mset (Verify ref i) ts) (t, ts)"
      proof (cases rule: seq_act_cases)
        case (fails err)
        then show ?thesis by (intro task_fails [where e = e]) simp
      next
        case (runs x u)
        obtain a ch where x: "x = (a, ch)" by (cases x)
        have v: "steps (money_step sv posted) (s, add_mset (Verify ref i) ts) (u, add_mset (Post ref i a ch) ts)"
          using runs(1) x by (intro task_goes_on [where e = e]) simp
        from runs(2) x have "seq_act (settle_post sv ref i a) (\<lambda>transferId. settle_finish e ref i a ch transferId) u = (r, t)" by simp
        then have "steps (money_step sv posted) (u, add_mset (Post ref i a ch) ts) (t, ts)"
        proof (cases rule: seq_act_cases)
          case (fails err)
          then show ?thesis by (intro task_fails [where e = e]) simp
        next
          case (runs tid v)
          have p: "steps (money_step sv posted) (u, add_mset (Post ref i a ch) ts) (v, add_mset (Finish ref i a ch) ts)"
            using runs(1) by (intro task_goes_on [where e = e]) simp
          have "tid = topupTransferId sv ref" using runs(1) by (auto simp: settle_post_def elim!: seq_act_cases)
          with runs(2) have "run_task sv e (Finish ref i a ch) v = (None, t)" by (cases r) auto
          from steps_trans [OF task_fails [OF this] p] show ?thesis .
        qed
        from steps_trans [OF this v] show ?thesis .
      qed
      from steps_trans [OF this start] show ?thesis .
    qed
    then show ?thesis by (simp add: money_path_def)
  qed
qed (use assms in \<open>simp add: settlePaystackPayment_def\<close>)

text \<open>An investigation debit claims, checks, charges and reconciles.\<close>

lemma debit_path:
  assumes "debit_body sv e ct inp (priced sv inp) s = (r, t)"
  shows "money_path sv posted s t"
  using assms unfolding debit_body_def
proof (cases rule: seq_act_cases)
  case (fails err)
  then have "t = s" by (cases rule: debit_claim_state) auto
  then show ?thesis by simp
next
  case (runs c u)
  show ?thesis
  proof (cases c)
    case (Inr x)
    from runs(1) have "u = s" by (cases rule: debit_claim_state) (use Inr in auto)
    with runs(2) Inr show ?thesis by simp
  next
    case (Inl y)
    let ?tr = "priced sv inp"
    from Inl runs(2) have rest: "seq_act (debit_check sv ct (di_tenantId inp) ?tr) (\<lambda>_.
         seq_act (debit_post sv ?tr) (\<lambda>_. debit_reconcile e inp ?tr)) u = (r, t)" by simp
    have "steps (money_step sv posted) (s, ts) (t, ts)" for ts
    proof -
      have start: "steps (money_step sv posted) (s, ts) (u, add_mset (Check ct inp ?tr) ts)"
        by (rule steps_single, rule ms_debit) (use runs(1) Inl in simp)
      from rest have "steps (money_step sv posted) (u, add_mset (Check ct inp ?tr) ts) (t, ts)"
      proof (cases rule: seq_act_cases)
        case (fails err)
        then show ?thesis by (intro task_fails [where e = e]) simp
      next
        case (runs x v)
        have c: "steps (money_step sv posted) (u, add_mset (Check ct inp ?tr) ts) (v, add_mset (Charge inp ?tr) ts)"
          using runs(1) by (intro task_goes_on [where e = e]) simp
        from runs(2) have "steps (money_step sv posted) (v, add_mset (Charge inp ?tr) ts) (t, ts)"
        proof (cases rule: seq_act_cases)
          case (fails err)
          then show ?thesis by (intro task_fails [where e = e]) simp
        next
          case (runs y w)
          have p: "steps (money_step sv posted) (v, add_mset (Charge inp ?tr) ts) (w, add_mset (Reconcile inp ?tr) ts)"
            using runs(1) by (intro task_goes_on [where e = e]) simp
          have "run_task sv e (Reconcile inp ?tr) w = (None, t)" using runs(2) by (cases r) auto
          from steps_trans [OF task_fails [OF this] p] show ?thesis .
        qed
        from steps_trans [OF this c] show ?thesis .
      qed
      from steps_trans [OF this start] show ?thesis .
    qed
    then show ?thesis by (simp add: money_path_def)
  qed
qed

section \<open>What a settlement leaves behind\<close>

lemma settle_run:
  assumes "settlePaystackPayment sv e ref s = (Inr x, t)"
  obtains (replay) i where "t = s" "i \<in> set (b_intents s)" "pi_provider_reference i = ref" "pi_status i = Credited"
      "x = \<lparr>sd_transferId = topupTransferId sv ref, sd_idempotent = True, sd_tenantId = pi_tenant_id i, sd_amountKobo = pi_amount_kobo i\<rparr>"
    | (fresh) i a ch u where "settle_begin sv e ref s = (Inr (Eligible i), s)" "settle_verify sv ref i s = (Inr (a, ch), s)"
      "settle_post sv ref i a s = (Inr (topupTransferId sv ref), u)"
      "settle_finish e ref i a ch (topupTransferId sv ref) u = (Inr x, t)"
proof -
  from assms have up: "e_dbUp e" by (auto simp: settlePaystackPayment_def split: if_splits)
  with assms have run: "seq_act (settle_begin sv e ref) (\<lambda>b. case b of Already r \<Rightarrow> ret r
      | Eligible i \<Rightarrow> seq_act (settle_verify sv ref i) (\<lambda>(amount, channel).
          seq_act (settle_post sv ref i amount) (\<lambda>transferId. settle_finish e ref i amount channel transferId))) s = (Inr x, t)"
    by (simp add: settlePaystackPayment_def)
  then obtain b u where b: "settle_begin sv e ref s = (Inr b, u)" and k: "(case b of Already r \<Rightarrow> ret r
      | Eligible i \<Rightarrow> seq_act (settle_verify sv ref i) (\<lambda>(amount, channel).
          seq_act (settle_post sv ref i amount) (\<lambda>transferId. settle_finish e ref i amount channel transferId))) u = (Inr x, t)"
    by (auto elim: seq_act_cases)
  have u: "u = s" using settle_begin_state [OF b] .
  show thesis
  proof (cases b)
    case (Already r)
    obtain i where i: "intents_of s ref = [i]" "pi_status i = Credited"
      "r = \<lparr>sd_transferId = topupTransferId sv ref, sd_idempotent = True, sd_tenantId = pi_tenant_id i, sd_amountKobo = pi_amount_kobo i\<rparr>"
      using b Already by (auto simp: settle_begin_def asAmount_def split: list.splits if_splits sum.splits)
    have "i \<in> set (b_intents s)" "pi_provider_reference i = ref"
      using i(1) filter_single [of _ "b_intents s" i] unfolding intents_of_def by blast+
    then show thesis using replay i Already k u by simp
  next
    case (Eligible i)
    with k u have "seq_act (settle_verify sv ref i) (\<lambda>(amount, channel).
          seq_act (settle_post sv ref i amount) (\<lambda>transferId. settle_finish e ref i amount channel transferId)) s = (Inr x, t)" by simp
    then obtain ac v where v: "settle_verify sv ref i s = (Inr ac, v)" and k2: "(case ac of (amount, channel) \<Rightarrow>
          seq_act (settle_post sv ref i amount) (\<lambda>transferId. settle_finish e ref i amount channel transferId)) v = (Inr x, t)"
      by (auto elim: seq_act_cases)
    obtain a ch where ac: "ac = (a, ch)" by (cases ac)
    have vs: "v = s" using settle_verify_state [OF v] .
    from k2 ac vs obtain tid w where p: "settle_post sv ref i a s = (Inr tid, w)" and f: "settle_finish e ref i a ch tid w = (Inr x, t)"
      by (auto elim: seq_act_cases)
    have "tid = topupTransferId sv ref" using p by (auto simp: settle_post_def elim!: seq_act_cases)
    then show thesis using fresh b Eligible u v ac vs p f by blast
  qed
qed

lemma settle_post_frame: "settle_post sv ref i a s = (r, t) \<Longrightarrow> \<exists>w. t = s\<lparr>b_world := w\<rparr>"
  unfolding settle_post_def ensureLedgerAccounts_def
  by (auto elim!: seq_act_cases tigerBeetlePost_cases) (metis billdb.surjective billdb.update_convs(1))+

lemma settle_ok:
  assumes "settlePaystackPayment sv e ref s = (Inr x, t)"
  shows "sd_transferId x = topupTransferId sv ref \<and> (\<exists>i \<in> set (b_intents t). pi_provider_reference i = ref \<and> pi_status i = Credited \<and>
    sd_tenantId x = pi_tenant_id i \<and> sd_amountKobo x = pi_amount_kobo i)"
  using assms
proof (cases rule: settle_run)
  case (fresh i a ch u)
  note i = settle_begin_eligible [OF fresh(1)]
  obtain w where "u = s\<lparr>b_world := w\<rparr>" using settle_post_frame [OF fresh(3)] by blast
  with i(2) have iu: "i \<in> set (b_intents u)" by simp
  have a: "a = pi_amount_kobo i" using settle_verify_amount [OF fresh(2)] .
  from fresh(4) have t: "b_intents t = lupdate (open_intent (pi_id i)) (credit_intent e) (b_intents u)"
    and x: "x = \<lparr>sd_transferId = topupTransferId sv ref, sd_idempotent = False, sd_tenantId = pi_tenant_id i, sd_amountKobo = a\<rparr>"
    by (auto simp: settle_finish_def upsert_topup_def elim!: seq_act_cases split: if_splits)
  have "credit_intent e i \<in> set (b_intents t)"
    unfolding t by (rule lupdate_hit [OF iu]) (use i(4) in \<open>simp add: open_intent_def\<close>)
  then show ?thesis using x a i(3) by (intro conjI bexI [where x = "credit_intent e i"]) (simp_all add: credit_intent_def)
qed auto

section \<open>Handlers that leave the money alone\<close>

lemma events_kept_refl [simp]: "kept_events E E"
  by (auto simp: kept_events_def)

lemma events_kept_append [simp]: "kept_events E (E @ F)"
  by (auto simp: kept_events_def)

lemma events_kept_lupdate:
  assumes "\<And>b. be_id (f b) = be_id b \<and> be_tenant_id (f b) = be_tenant_id b \<and> be_amount_kobo (f b) = be_amount_kobo b"
  shows "kept_events E (lupdate P f E)"
  unfolding kept_events_def
proof
  fix b assume b: "b \<in> set E"
  show "\<exists>b' \<in> set (lupdate P f E). be_id b' = be_id b \<and> be_tenant_id b' = be_tenant_id b \<and> be_amount_kobo b' = be_amount_kobo b"
  proof (cases "P b")
    case True
    then show ?thesis using lupdate_hit [of b E P f] b assms by blast
  next
    case False
    then show ?thesis using lupdate_miss [of b E P f] b by blast
  qed
qed

lemma events_kept_trans: "kept_events E F \<Longrightarrow> kept_events F G \<Longrightarrow> kept_events E G"
  unfolding kept_events_def by metis

lemma elsewhere_refl [simp]: "elsewhere s s"
  by (simp add: elsewhere_def)

lemma elsewhere_trans: "elsewhere s t \<Longrightarrow> elsewhere t u \<Longrightarrow> elsewhere s u"
  unfolding elsewhere_def using events_kept_trans by metis

lemma seq_elsewhere:
  assumes "seq_act m k s = (r, t)"
    and "\<And>r t. m s = (r, t) \<Longrightarrow> elsewhere s t" and "\<And>x u. m s = (Inr x, u) \<Longrightarrow> k x u = (r, t) \<Longrightarrow> elsewhere u t"
  shows "elsewhere s t"
  using assms(1)
proof (cases rule: seq_act_cases)
  case (fails e)
  then show ?thesis using assms(2) by blast
next
  case (runs x u)
  then show ?thesis using assms(2) [OF runs(1)] assms(3) [OF runs] elsewhere_trans by blast
qed

lemma transaction_elsewhere:
  assumes "in_transaction m s = (r, t)" "\<And>r t. m s = (r, t) \<Longrightarrow> elsewhere s t"
  shows "elsewhere s t"
  using assms by (auto simp: in_transaction_def split: prod.splits sum.splits)

lemma set_event_elsewhere:
  assumes "\<And>b. be_id (f b) = be_id b \<and> be_tenant_id (f b) = be_tenant_id b \<and> be_amount_kobo (f b) = be_amount_kobo b"
  shows "elsewhere s (set_event P f s)"
  unfolding elsewhere_def set_event_def using events_kept_lupdate [OF assms] by simp

lemma elsewhere_updates [simp]:
  "elsewhere s (s\<lparr>b_webhooks := a1\<rparr>)" "elsewhere s (s\<lparr>b_plans := a2\<rparr>)" "elsewhere s (s\<lparr>b_subscriptions := a3\<rparr>)"
  "elsewhere s (s\<lparr>b_entitlements := a4\<rparr>)" "elsewhere s (s\<lparr>b_reservations := a5\<rparr>)" "elsewhere s (s\<lparr>b_usage := a6\<rparr>)"
  "elsewhere s (s\<lparr>b_refunds := a7\<rparr>)" "elsewhere s (s\<lparr>b_signups := a8\<rparr>)" "elsewhere s (s\<lparr>b_audit := a9\<rparr>)"
  "elsewhere s (s\<lparr>b_reconciliations := a10\<rparr>)" "elsewhere s (s\<lparr>b_retries := a11\<rparr>)" "elsewhere s (s\<lparr>b_approvals := a12\<rparr>)"
  "elsewhere s (s\<lparr>b_approvers := a13\<rparr>)" "elsewhere s (s\<lparr>b_totp := a14\<rparr>)" "elsewhere s (s\<lparr>b_threshold := a15\<rparr>)"
  "elsewhere s (s\<lparr>b_eventlog := a16\<rparr>)" "elsewhere s (s\<lparr>b_notifications := a17\<rparr>)"
  by (simp_all add: elsewhere_def)

lemma statements_elsewhere:
  "insert_subscription u s = (r, t) \<Longrightarrow> elsewhere s t"
  "insert_entitlement n s = (r, t) \<Longrightarrow> elsewhere s t"
  "insert_reservation q s = (r, t) \<Longrightarrow> elsewhere s t"
  "insert_usage v s = (r, t) \<Longrightarrow> elsewhere s t"
  "insert_signup g s = (r, t) \<Longrightarrow> elsewhere s t"
  "move_units k i j s = (r, t) \<Longrightarrow> elsewhere s t"
  "writeAuditLog a s = (b, t) \<Longrightarrow> elsewhere s t"
  "log_event e ty agg actor payload s = (r, t) \<Longrightarrow> elsewhere s t"
  by (auto simp: insert_subscription_def insert_entitlement_def insert_reservation_def insert_usage_def insert_signup_def
    move_units_def writeAuditLog_def log_event_def Let_def split: if_splits)

lemma cancel_elsewhere [simp]: "elsewhere s (cancel_live e tid s)" "elsewhere s (consume_reservation e k s)"
  "elsewhere s (set_retry P f s)" "elsewhere s (set_approval P' g s)" "elsewhere s (resolve_retry ref entry s)"
  "elsewhere s (set_recon P'' h s)" "elsewhere s (set_webhook w fw s)"
  by (simp_all add: cancel_live_def consume_reservation_def set_retry_def set_approval_def resolve_retry_def set_recon_def
    set_webhook_def elsewhere_def)

end
