(* ===== verification/Billing_Calls.thy ===== *)
theory Billing_Calls
  imports Billing_Refine Totp_Properties
begin

text \<open>
  Every procedure and worker of the billing subsystem as a path of the money machine, and the
  histories of such calls.
\<close>

section \<open>Statements outside the money tables\<close>

lemma reserve_check_elsewhere: "reserve_check e locked uuid uid i s = (r, t) \<Longrightarrow> elsewhere s t"
  by (auto simp: reserve_check_def split: list.splits if_splits option.splits
    elim!: seq_elsewhere dest: statements_elsewhere)

lemma consume_check_elsewhere:
  assumes "consume_check e uuid uid tid k ref s = (r, t)"
  shows "elsewhere s t"
proof -
  have "elsewhere s t" if "seq_act (move_units a b c) (\<lambda>_. seq_act (insert_usage v) (\<lambda>_. ret False)) (consume_reservation e k s) = (r, t)"
    for a b c v
  proof -
    from that have "elsewhere (consume_reservation e k s) t"
      by (elim seq_elsewhere) (auto dest: statements_elsewhere)
    then show ?thesis using cancel_elsewhere(2) elsewhere_trans by blast
  qed
  with assms show ?thesis by (auto simp: consume_check_def split: list.splits if_splits)
qed

lemma activate_contract_elsewhere:
  assumes "activate_contract e uuid1 uuid2 uid i s = (r, t)"
  shows "elsewhere s t"
proof (cases "find_active_plan (ci_planCode i) s")
  case None
  with assms show ?thesis by (simp add: activate_contract_def)
next
  case (Some p)
  with assms have "seq_act (insert_subscription (contract_subscription e uuid1 uid p i)) (\<lambda>_.
          let included = pl_included_completed_checks p in
          if 0 < included then
            (case toISOString (ci_periodStart i) of
               Inl err \<Rightarrow> throw err
             | Inr stamp \<Rightarrow>
                 seq_act (insert_entitlement (new_entitlement uuid2 (ci_tenantId i) uuid1 included (ci_periodStart i) (ci_periodEnd i)
                    (''manual-contract:'' @ ci_authorityReference i @ '':'' @ stamp)))
                 (\<lambda>_. ret (uuid1, included)))
          else ret (uuid1, included)) (cancel_live e (ci_tenantId i) s) = (r, t)"
    by (simp add: activate_contract_def)
  then have "elsewhere (cancel_live e (ci_tenantId i) s) t"
    by (rule seq_elsewhere) (auto simp: Let_def dest: statements_elsewhere elim!: seq_elsewhere split: if_splits sum.splits)
  then show ?thesis using cancel_elsewhere(1) elsewhere_trans by blast
qed

lemma activation_writes_elsewhere:
  assumes "activation_writes e ids tid uid p i ref s = (r, t)"
  shows "elsewhere s t"
proof -
  from assms have "elsewhere (cancel_live e tid s) t"
    unfolding activation_writes_def
    by (elim seq_elsewhere) (auto dest: statements_elsewhere split: if_splits prod.splits)
  then show ?thesis using cancel_elsewhere(1) elsewhere_trans by blast
qed

lemma reserve_unit_elsewhere: "reserve_unit e locked ids ev s = (r, t) \<Longrightarrow> elsewhere s t"
  by (auto simp: reserve_unit_def split: list.splits if_splits option.splits
    elim!: seq_elsewhere dest: statements_elsewhere intro!: set_event_elsewhere)

lemma claim_webhook_elsewhere: "claim_webhook e k s = (r, t) \<Longrightarrow> elsewhere s t"
  by (auto simp: claim_webhook_def split: list.splits if_splits)

lemma record_webhook_elsewhere: "recordPaystackWebhook sv e uuid raw body s = (r, t) \<Longrightarrow> elsewhere s t"
  by (auto simp: recordPaystackWebhook_def insert_webhook_def minimise_payload_def in_transaction_def Let_def
    split: if_splits webhookBody.splits prod.splits sum.splits elim!: seq_act_cases)

lemma paystackWebhook_elsewhere: "paystackWebhook sv e uuid raw sig s = (st, t) \<Longrightarrow> elsewhere s t"
  by (auto simp: paystackWebhook_def split: if_splits option.splits prod.splits sum.splits dest: record_webhook_elsewhere)

lemma mark_elsewhere [simp]: "elsewhere s (mark_processed e k s)"
  by (simp add: mark_processed_def)

lemma insert_events_kept: "insert_events e uuids aps bs = (n, bs') \<Longrightarrow> kept_events bs bs'"
proof (induction e uuids aps bs arbitrary: n bs' rule: insert_events.induct)
  case (2 e uuids ap aps bs)
  show ?case
  proof (cases "as_id (fst ap) \<in> be_assessment_id ` set bs")
    case True
    then show ?thesis using 2 by simp
  next
    case False
    then obtain m where "insert_events e (\<lambda>n. uuids (Suc n)) aps (bs @ [new_event e (uuids 0) ap]) = (m, bs')"
      using "2.prems" by (auto split: prod.splits)
    then have "kept_events (bs @ [new_event e (uuids 0) ap]) bs'" using "2.IH"(2) False by blast
    then show ?thesis using events_kept_append events_kept_trans by blast
  qed
qed simp

lemma enqueue_elsewhere: "enqueueUnmeteredIntelligenceAssessments e uuids cnt s = (r, t) \<Longrightarrow> elsewhere s t"
  by (auto simp: enqueueUnmeteredIntelligenceAssessments_def elsewhere_def split: if_splits prod.splits dest: insert_events_kept)

lemma lease_elsewhere [simp]: "elsewhere s (set_event P (lease_event e w) s)"
  by (rule set_event_elsewhere) (simp add: lease_event_def)

lemma recover_stale_elsewhere [simp]: "elsewhere s (recover_stale e s)"
  unfolding recover_stale_def by (rule set_event_elsewhere) simp

lemma settle_event_elsewhere: "settle_event e k tid s = (r, t) \<Longrightarrow> elsewhere s t"
  by (auto simp: settle_event_def Let_def intro!: set_event_elsewhere split: if_splits)

lemma meter_failure_elsewhere:
  assumes "meter_failure sv e ids ev err s = (r, t)"
  shows "elsewhere s t"
proof (cases "transient err \<and> METER_MAX_ATTEMPTS \<le> be_attempt_count ev")
  case True
  have "elsewhere s (escalate sv e (mi_reconciliation ids) ev err s)"
    unfolding escalate_def Let_def
    by (auto intro!: set_event_elsewhere elsewhere_trans [OF set_event_elsewhere elsewhere_updates(10)])
  with assms True show ?thesis by (simp add: meter_failure_def)
next
  case False
  with assms show ?thesis by (auto simp: meter_failure_def Let_def intro!: set_event_elsewhere split: if_splits)
qed

lemma decide_recon_elsewhere:
  assumes "decide_recon e c u k f g msg s = (r, t)" "\<And>s. elsewhere s (g s)"
  shows "elsewhere s t"
  using assms by (auto simp: decide_recon_def Let_def intro: elsewhere_trans [OF cancel_elsewhere(6)] split: if_splits)

section \<open>Composite handlers\<close>

lemma credit_path: "creditTenantAccount sv e tid a ref s = (r, t) \<Longrightarrow> money_path sv posted s t"
  unfolding creditTenantAccount_def by (erule seq_path) (auto dest: settle_path split: if_splits)

lemma credit_ok:
  assumes "creditTenantAccount sv e tid a ref s = (Inr x, t)"
  shows "x = topupTransferId sv ref \<and> (\<exists>i \<in> set (b_intents t). pi_provider_reference i = ref \<and> pi_status i = Credited \<and>
    show_int (pi_tenant_id i) = tid \<and> pi_amount_kobo i = a)"
proof -
  from assms obtain y where y: "settlePaystackPayment sv e ref s = (Inr y, t)"
    "show_int (sd_tenantId y) = tid" "sd_amountKobo y = a" "x = sd_transferId y"
    by (auto simp: creditTenantAccount_def elim!: seq_act_cases split: if_splits)
  from settle_ok [OF y(1)] y(2-4) show ?thesis by auto
qed

text \<open>The recovered transfer identifier is the one the settled intent already has.\<close>

lemma recover_path:
  assumes "i \<in> set (b_intents s)" "pi_status i = Credited" "pi_provider_reference i = ref"
  shows "money_path sv posted s (set_transfer_id ref (topupTransferId sv ref) s)"
  using path_step [OF ms_recover [OF assms(1,2)]] assms(3) by simp

lemma start_path:
  assumes "startPaystackTopup sv e uuid1 uuid2 inp s = (r, t)" "ts_purpose inp = None"
  shows "money_path sv posted s t"
proof (cases "e_dbUp e \<and> 0 < ts_tenantId inp \<and> 0 < ts_initiatedBy inp \<and> isSafeInteger (ts_amountKobo inp) \<and>
    TOPUP_MINIMUM_KOBO \<le> ts_amountKobo inp")
  case False
  with assms(1) have "t = s" by (auto simp: startPaystackTopup_def split: if_splits)
  then show ?thesis by simp
next
  case True
  let ?ref = "paymentReference uuid2"
  let ?i = "new_intent e uuid1 ?ref inp"
  from True assms(1) have "seq_act (insert_intent ?i) (\<lambda>_.
      catch_act
        (seq_act (paystackRequest sv ''/transaction/initialize'' (sv_initialize sv (initializeRequestOf ?i (ts_callbackUrl inp)))) (\<lambda>result.
         require (in_reference result = ?ref \<and> in_authorization_url result \<noteq> [] \<and> in_access_code result \<noteq> [])
           (providerFailure ''Paystack initialization did not preserve the server-created payment reference'')
         (seq_act (mark_pending e uuid1 (in_access_code result)) (\<lambda>_.
          ret \<lparr>td_authorizationUrl = in_authorization_url result, td_accessCode = in_access_code result,
               td_reference = ?ref, td_expiresAt = pi_expires_at ?i\<rparr>))))
        (\<lambda>err t. (Inl err, mark_failed uuid1 t))) s = (r, t)"
    by (simp add: startPaystackTopup_def Let_def)
  then show ?thesis
  proof (rule seq_path)
    fix q u assume ins: "insert_intent ?i s = (q, u)"
    show "money_path sv posted s u"
    proof (cases "u = s")
      case False
      with ins have "insert_intent ?i s = (Inr (), u)" by (auto simp: insert_intent_def split: if_splits)
      then show ?thesis using True assms(2) by (intro path_step ms_intent) auto
    qed simp
  next
    fix x u
    assume "catch_act
        (seq_act (paystackRequest sv ''/transaction/initialize'' (sv_initialize sv (initializeRequestOf ?i (ts_callbackUrl inp)))) (\<lambda>result.
         require (in_reference result = ?ref \<and> in_authorization_url result \<noteq> [] \<and> in_access_code result \<noteq> [])
           (providerFailure ''Paystack initialization did not preserve the server-created payment reference'')
         (seq_act (mark_pending e uuid1 (in_access_code result)) (\<lambda>_.
          ret \<lparr>td_authorizationUrl = in_authorization_url result, td_accessCode = in_access_code result,
               td_reference = ?ref, td_expiresAt = pi_expires_at ?i\<rparr>))))
        (\<lambda>err t. (Inl err, mark_failed uuid1 t)) u = (r, t)"
    then show "money_path sv posted u t"
    proof (rule catch_path)
      fix q v
      assume "seq_act (paystackRequest sv ''/transaction/initialize'' (sv_initialize sv (initializeRequestOf ?i (ts_callbackUrl inp)))) (\<lambda>result.
         require (in_reference result = ?ref \<and> in_authorization_url result \<noteq> [] \<and> in_access_code result \<noteq> [])
           (providerFailure ''Paystack initialization did not preserve the server-created payment reference'')
         (seq_act (mark_pending e uuid1 (in_access_code result)) (\<lambda>_.
          ret \<lparr>td_authorizationUrl = in_authorization_url result, td_accessCode = in_access_code result,
               td_reference = ?ref, td_expiresAt = pi_expires_at ?i\<rparr>))) u = (q, v)"
      then show "money_path sv posted u v"
      proof (rule seq_path)
        fix q v assume "paystackRequest sv ''/transaction/initialize'' (sv_initialize sv (initializeRequestOf ?i (ts_callbackUrl inp))) u = (q, v)"
        then show "money_path sv posted u v"
          by (cases rule: paystackRequest_cases) (simp_all add: path_step ms_initialize)
      next
        fix y w
        assume k: "require (in_reference y = ?ref \<and> in_authorization_url y \<noteq> [] \<and> in_access_code y \<noteq> [])
           (providerFailure ''Paystack initialization did not preserve the server-created payment reference'')
         (seq_act (mark_pending e uuid1 (in_access_code y)) (\<lambda>_.
          ret \<lparr>td_authorizationUrl = in_authorization_url y, td_accessCode = in_access_code y,
               td_reference = ?ref, td_expiresAt = pi_expires_at ?i\<rparr>)) w = (q, v)"
        show "money_path sv posted w v"
        proof (cases "v = w")
          case False
          with k have "mark_pending e uuid1 (in_access_code y) w = (Inr (), v)"
            by (auto simp: mark_pending_def split: if_splits elim!: seq_act_cases)
          then show ?thesis by (intro path_step ms_pending)
        qed simp
      qed
    next
      fix err v assume "(Inl err, mark_failed uuid1 v) = (r, t)"
      then show "money_path sv posted v t" by (auto intro: path_step ms_failed)
    qed
  qed
qed

lemma webhook_event_path:
  assumes "processPaystackWebhookEvent sv e k s = (r, t)"
  shows "money_path sv posted s t"
proof (cases "e_dbUp e")
  case True
  with assms have "seq_act (claim_webhook e k) (\<lambda>c.
      case c of
        None \<Rightarrow> ret ()
      | Some w \<Rightarrow>
          catch_act
            (seq_act (if settles w then seq_act (settlePaystackPayment sv e (the (we_provider_reference w))) (\<lambda>_. ret ()) else ret ()) (\<lambda>_ t.
             (Inr (), mark_processed e k t)))
            (\<lambda>err. seq_act (mark_webhook_failure e k err) (\<lambda>_. if retryable err then throw err else ret ()))) s = (r, t)"
    by (simp add: processPaystackWebhookEvent_def)
  then show ?thesis
  proof (rule seq_path)
    fix q u assume "claim_webhook e k s = (q, u)"
    then show "money_path sv posted s u" by (intro path_elsewhere claim_webhook_elsewhere)
  next
    fix c u
    assume k: "(case c of
        None \<Rightarrow> ret ()
      | Some w \<Rightarrow>
          catch_act
            (seq_act (if settles w then seq_act (settlePaystackPayment sv e (the (we_provider_reference w))) (\<lambda>_. ret ()) else ret ()) (\<lambda>_ t.
             (Inr (), mark_processed e k t)))
            (\<lambda>err. seq_act (mark_webhook_failure e k err) (\<lambda>_. if retryable err then throw err else ret ()))) u = (r, t)"
    show "money_path sv posted u t"
    proof (cases c)
      case (Some w)
      have inner: "money_path sv posted v v'"
        if "(if settles w then seq_act (settlePaystackPayment sv e (the (we_provider_reference w))) (\<lambda>_. ret ()) else ret ()) v = (q, v')"
        for v q v'
        using that by (cases "settles w") (auto elim!: seq_path intro: settle_path)
      from k Some have "catch_act
            (seq_act (if settles w then seq_act (settlePaystackPayment sv e (the (we_provider_reference w))) (\<lambda>_. ret ()) else ret ()) (\<lambda>_ t.
             (Inr (), mark_processed e k t)))
            (\<lambda>err. seq_act (mark_webhook_failure e k err) (\<lambda>_. if retryable err then throw err else ret ())) u = (r, t)" by simp
      then show ?thesis
      proof (rule catch_path)
        fix q v
        assume "seq_act (if settles w then seq_act (settlePaystackPayment sv e (the (we_provider_reference w))) (\<lambda>_. ret ()) else ret ()) (\<lambda>_ t.
             (Inr (), mark_processed e k t)) u = (q, v)"
        then show "money_path sv posted u v" by (rule seq_path) (auto intro: inner path_elsewhere)
      next
        fix err v
        assume "seq_act (mark_webhook_failure e k err) (\<lambda>_. if retryable err then throw err else ret ()) v = (r, t)"
        then have "t = v" by (simp add: mark_webhook_failure_def)
        then show "money_path sv posted v t" by (simp add: path_elsewhere)
      qed
    qed (use k in simp)
  qed
qed (use assms in \<open>simp add: processPaystackWebhookEvent_def\<close>)

lemma process_webhooks_path: "process_webhooks sv e ks s = (r, t) \<Longrightarrow> money_path sv posted s t"
proof (induction ks arbitrary: s)
  case (Cons k ks)
  obtain q u where q: "processPaystackWebhookEvent sv e k s = (q, u)" by (cases "processPaystackWebhookEvent sv e k s")
  note p = webhook_event_path [OF q]
  show ?case
  proof (cases q)
    case (Inl err)
    with Cons.prems q p show ?thesis by simp
  next
    case (Inr y)
    with Cons.prems q have "process_webhooks sv e ks u = (r, t)" by simp
    from path_trans [OF p Cons.IH [OF this]] show ?thesis .
  qed
qed simp

lemma signup_path:
  assumes "signup sv e c ids i s = (r, t)"
  shows "money_path sv posted s t"
proof (cases "t = s")
  case False
  then obtain tid uid where body: "signup_body sv e ids tid uid i s = (r, t)"
    using assms by (auto simp: signup_def writeProcedure_def requireTenant_def signupPool_def split: option.splits if_splits)
  with False obtain p where fresh: "signup_fresh sv e ids tid uid p i s = (r, t)"
    by (auto simp: signup_body_def split: list.splits option.splits)
  have act: "money_path sv posted u v" if "activate_signup e ids tid uid p i ref u = (q, v)" for u q v ref
    using that by (auto simp: activate_signup_def intro!: path_elsewhere dest: activation_writes_elsewhere
      split: prod.splits sum.splits if_splits)
  from fresh show ?thesis unfolding signup_fresh_def Let_def
  proof (rule seq_path)
    fix q u assume sp: "settle_plan sv e (id_failure ids) tid uid p i s = (q, u)"
    then show "money_path sv posted s u"
    proof (cases rule: settle_plan_cases)
      case (settled ref v q')
      have "elsewhere v (record_failure (id_failure ids) tid uid i v)"
        unfolding record_failure_def using statements_elsewhere(5) by (metis prod.collapse)
      moreover have "elsewhere w (snd (writeAuditLog a w))" for a w using statements_elsewhere(7) by (metis prod.collapse)
      ultimately have "elsewhere v u" using settled(2) elsewhere_trans by (metis elsewhere_refl)
      from path_trans [OF settle_path [OF settled(1)] path_elsewhere [OF this]] show ?thesis .
    qed simp
  next
    fix b u
    assume "catch_act
       (seq_act (activate_signup e ids tid uid p i (provider_ref b tid (si_idempotencyKey i))) (\<lambda>_.
        ret \<lparr>sr_signupId = id_signup ids, sr_subscriptionId = Some (id_subscription ids), sr_planCode = si_planCode i,
             sr_status = Signup_active, sr_billingRef = Some (provider_ref b tid (si_idempotencyKey i)), sr_idempotent = False\<rparr>))
       (\<lambda>err t.
          if isUniqueViolation err
          then (case prior_signup t tid (si_idempotencyKey i) of
                  [g] \<Rightarrow> (Inr (replayed None g), t)
                | _ \<Rightarrow> (Inl err, t))
          else (Inl err, t)) u = (r, t)"
    then show "money_path sv posted u t"
    proof (rule catch_path)
      fix q v
      assume "seq_act (activate_signup e ids tid uid p i (provider_ref b tid (si_idempotencyKey i))) (\<lambda>_.
        ret \<lparr>sr_signupId = id_signup ids, sr_subscriptionId = Some (id_subscription ids), sr_planCode = si_planCode i,
             sr_status = Signup_active, sr_billingRef = Some (provider_ref b tid (si_idempotencyKey i)), sr_idempotent = False\<rparr>) u = (q, v)"
      then show "money_path sv posted u v" by (rule seq_path) (auto intro: act)
    next
      fix err v
      assume "(if isUniqueViolation err
          then (case prior_signup v tid (si_idempotencyKey i) of
                  [g] \<Rightarrow> (Inr (replayed None g), v)
                | _ \<Rightarrow> (Inl err, v))
          else (Inl err, v)) = (r, t)"
      then have "t = v" by (auto split: if_splits list.splits)
      then show "money_path sv posted v t" by simp
    qed
  qed
qed simp

text \<open>A metered event: the lease and the unit are elsewhere, the debit is the machine's metering step.\<close>

lemma meter_event_path:
  assumes "processIntelligenceAssessmentBillingEvent sv e locked ids k w s = (r, t)"
  shows "money_path sv posted s t"
proof (cases "e_dbUp e \<and> (\<exists>b. filter (claimable k) (b_events s) = [b])")
  case False
  then have "t = s \<or> t = set_event (claimable k) (lease_event e w) s"
    using assms by (auto simp: processIntelligenceAssessmentBillingEvent_def split: list.splits if_splits)
  then show ?thesis using lease_elsewhere path_elsewhere path_refl by blast
next
  case True
  then obtain b where b: "filter (claimable k) (b_events s) = [b]" by blast
  let ?ev = "lease_event e w b"
  let ?s1 = "set_event (claimable k) (lease_event e w) s"
  from assms True b have run: "catch_act (meter_attempt sv e locked ids ?ev) (meter_failure sv e ids ?ev) ?s1 = (r, t)"
    by (simp add: processIntelligenceAssessmentBillingEvent_def Let_def)
  have ev: "?ev \<in> set (b_events ?s1)"
    using filter_single [OF b] by (simp add: set_event_def lupdate_hit)
  have "money_path sv posted ?s1 t"
    using run
  proof (rule catch_path)
    fix q u assume "meter_attempt sv e locked ids ?ev ?s1 = (q, u)"
    then show "money_path sv posted ?s1 u" unfolding meter_attempt_def
    proof (rule seq_path)
      fix q v assume "reserveAndConsumeEntitledUnit e locked ids ?ev ?s1 = (q, v)"
      then show "money_path sv posted ?s1 v"
        by (auto simp: reserveAndConsumeEntitledUnit_def intro!: path_elsewhere elim!: transaction_elsewhere
          dest: reserve_unit_elsewhere split: if_splits)
    next
      fix d v
      assume unit: "reserveAndConsumeEntitledUnit e locked ids ?ev ?s1 = (Inr d, v)"
        and k: "(if d then (Inr (), v)
       else (case meter_amount (be_amount_kobo ?ev) of
          Inl err \<Rightarrow> (Inl err, v)
        | Inr charge \<Rightarrow>
            if charge = 0
            then (Inr (), set_event (\<lambda>b. be_id b = be_id ?ev)
                    (\<lambda>b. b\<lparr>be_status := Be_payment_required, be_last_error_code := Some ''no_entitlement''\<rparr>) v)
            else seq_act (debitTenantForIntelligenceAssessment sv (be_tenant_id ?ev) (be_id ?ev) charge)
                   (\<lambda>transferId. settle_event e (be_id ?ev) transferId) v)) = (q, u)"
      show "money_path sv posted v u"
      proof (cases "d \<or> \<not> (\<exists>c. meter_amount (be_amount_kobo ?ev) = Inr c \<and> c \<noteq> 0)")
        case True
        with k have "u = v \<or> u = set_event (\<lambda>b. be_id b = be_id ?ev)
                    (\<lambda>b. b\<lparr>be_status := Be_payment_required, be_last_error_code := Some ''no_entitlement''\<rparr>) v"
          by (auto split: if_splits sum.splits)
        moreover have "elsewhere v (set_event (\<lambda>b. be_id b = be_id ?ev)
                    (\<lambda>b. b\<lparr>be_status := Be_payment_required, be_last_error_code := Some ''no_entitlement''\<rparr>) v)"
          by (rule set_event_elsewhere) simp
        ultimately show ?thesis using path_elsewhere path_refl by blast
      next
        case False
        then have amt: "meter_amount (be_amount_kobo ?ev) = Inr (be_amount_kobo ?ev)" and nd: "\<not> d"
          by (auto simp: meter_amount_def split: if_splits)
        have "v = ?s1" using unit nd
          by (auto simp: reserveAndConsumeEntitledUnit_def in_transaction_def reserve_unit_def
            elim!: seq_act_cases split: if_splits prod.splits sum.splits list.splits option.splits)
        with ev have ev': "?ev \<in> set (b_events v)" by simp
        from k nd amt False have "seq_act (debitTenantForIntelligenceAssessment sv (be_tenant_id ?ev) (be_id ?ev) (be_amount_kobo ?ev))
                   (\<lambda>transferId. settle_event e (be_id ?ev) transferId) v = (q, u)" by (auto split: if_splits)
        then show ?thesis
          by (rule seq_path) (auto intro: path_step ms_meter [OF ev'] path_elsewhere settle_event_elsewhere)
      qed
    qed
  next
    fix err u assume "meter_failure sv e ids ?ev err u = (r, t)"
    then show "money_path sv posted u t" by (intro path_elsewhere meter_failure_elsewhere)
  qed
  from path_trans [OF path_elsewhere [OF lease_elsewhere] this] show ?thesis .
qed

lemma process_events_path: "process_events sv e locked ids w ks s = (r, t) \<Longrightarrow> money_path sv posted s t"
proof (induction ks arbitrary: ids s)
  case (Cons k ks)
  obtain q u where q: "processIntelligenceAssessmentBillingEvent sv e locked (ids 0) k w s = (q, u)"
    by (cases "processIntelligenceAssessmentBillingEvent sv e locked (ids 0) k w s")
  note p = meter_event_path [OF q]
  show ?case
  proof (cases q)
    case (Inl err)
    with Cons.prems q p show ?thesis by simp
  next
    case (Inr y)
    with Cons.prems q have "process_events sv e locked (\<lambda>n. ids (Suc n)) w ks u = (r, t)" by simp
    from path_trans [OF p Cons.IH [OF this]] show ?thesis .
  qed
qed simp

lemma meter_pass_path:
  assumes "processDueIntelligenceAssessmentBillingEvents sv e locked uuids ids w cnt s = (r, t)"
  shows "money_path sv posted s t"
proof (cases "e_dbUp e")
  case True
  with assms have "seq_act (enqueueUnmeteredIntelligenceAssessments e uuids cnt) (\<lambda>_ s.
       let n = length (filter (stale e) (b_events s)); s1 = recover_stale e s; due = due_events e cnt s1
       in seq_act (process_events sv e locked ids w (map be_id due)) (\<lambda>_. ret (length due + n)) s1) s = (r, t)"
    by (simp add: processDueIntelligenceAssessmentBillingEvents_def)
  then show ?thesis
  proof (rule seq_path)
    fix q u assume "enqueueUnmeteredIntelligenceAssessments e uuids cnt s = (q, u)"
    then show "money_path sv posted s u" by (intro path_elsewhere enqueue_elsewhere)
  next
    fix x u
    assume "(let n = length (filter (stale e) (b_events u)); s1 = recover_stale e u; due = due_events e cnt s1
       in seq_act (process_events sv e locked ids w (map be_id due)) (\<lambda>_. ret (length due + n)) s1) = (r, t)"
    then have "money_path sv posted (recover_stale e u) t"
      by (auto simp: Let_def elim!: seq_path intro: process_events_path)
    from path_trans [OF path_elsewhere [OF recover_stale_elsewhere] this] show "money_path sv posted u t" .
  qed
qed (use assms in \<open>simp add: processDueIntelligenceAssessmentBillingEvents_def\<close>)

section \<open>Recovery\<close>

lemma process_retries_path: "process_retries rnd sv e items n s = (m, t) \<Longrightarrow> money_path sv posted s t"
proof (induction items arbitrary: n s)
  case (Cons item items)
  let ?P = "\<lambda>r. rq_id r = rq_id item \<and> retry_due e r"
  let ?s1 = "set_retry ?P (\<lambda>r. r\<lparr>rq_status := Retry_processing, rq_leasedAt := Some (e_now e)\<rparr>) s"
  let ?same = "\<lambda>r. rq_reference r = rq_reference item"
  show ?case
  proof (cases "tselect ?P (b_retries s) = []")
    case True
    then show ?thesis using Cons.prems Cons.IH by simp
  next
    case False
    obtain q u where q: "creditTenantAccount sv e (rq_tenantId item) (rq_amountKobo item) (rq_reference item) ?s1 = (q, u)"
      by (cases "creditTenantAccount sv e (rq_tenantId item) (rq_amountKobo item) (rq_reference item) ?s1")
    have "\<exists>f n'. process_retries rnd sv e items n' (set_retry ?same f u) = (m, t)"
      using Cons.prems False q by (cases q) (auto simp: Let_def)
    then obtain f n' where rest: "process_retries rnd sv e items n' (set_retry ?same f u) = (m, t)" by blast
    have "money_path sv posted s ?s1" by (rule path_elsewhere) simp
    note path_trans [OF this credit_path [OF q]]
    from path_trans [OF path_trans [OF this path_elsewhere [OF cancel_elsewhere(3)]] Cons.IH [OF rest]] show ?thesis .
  qed
qed simp

lemma retry_queue_path: "processRetryQueue rnd sv e s = (m, t) \<Longrightarrow> money_path sv posted s t"
proof (cases "e_dbUp e")
  case True
  let ?s1 = "set_retry (retry_lease_expired e) (\<lambda>r. r\<lparr>rq_status := Retry_pending, rq_leasedAt := None\<rparr>) s"
  assume "processRetryQueue rnd sv e s = (m, t)"
  with True have "process_retries rnd sv e (due_retries e ?s1) \<lparr>rt_processed = 0, rt_succeeded = 0, rt_deadLettered = 0\<rparr> ?s1 = (m, t)"
    by (simp add: processRetryQueue_def Let_def)
  from path_trans [OF path_elsewhere [OF cancel_elsewhere(3)] process_retries_path [OF this]] show ?thesis .
qed (simp add: processRetryQueue_def Let_def)

text \<open>The credit of a recovery, the identifier it writes back, and the bookkeeping after it.\<close>

lemma recovery_path:
  assumes "seq_act (creditTenantAccount sv e tid a ref) k s = (r, t)"
    and "\<And>u. k (topupTransferId sv ref) u = (r, t) \<Longrightarrow> elsewhere (set_transfer_id ref (topupTransferId sv ref) u) t"
  shows "money_path sv posted s t"
  using assms(1)
proof (rule seq_path)
  fix q u assume "creditTenantAccount sv e tid a ref s = (q, u)"
  then show "money_path sv posted s u" by (rule credit_path)
next
  fix x u
  assume c: "creditTenantAccount sv e tid a ref s = (Inr x, u)" and k: "k x u = (r, t)"
  from credit_ok [OF c] obtain i where x: "x = topupTransferId sv ref"
    and i: "i \<in> set (b_intents u)" "pi_status i = Credited" "pi_provider_reference i = ref" by blast
  from path_trans [OF recover_path [OF i] path_elsewhere [OF assms(2)]] k x show "money_path sv posted u t" by simp
qed

lemma retryCredit_path:
  assumes "retryCredit sv e c ref tid a s = (r, t)"
  shows "money_path sv posted s t"
proof (cases "t = s")
  case False
  with assms have "seq_act (creditTenantAccount sv e tid a ref) (\<lambda>transferId t. (Inr transferId, set_transfer_id ref transferId t)) s = (r, t)"
    by (auto simp: retryCredit_def adminProcedure_def split: option.splits if_splits)
  then show ?thesis by (rule recovery_path) auto
qed simp

lemma forceCredit_path:
  assumes "forceCredit thr sv e c openId ref tid a note s = (r, t)"
  shows "money_path sv posted s t"
proof (cases "t = s")
  case False
  with assms obtain u where "seq_act (creditTenantAccount sv e tid a ref) (\<lambda>transferId s1.
                seq_act (log_event e ''force_credit'' ref (Some (u_id u)) (CreditPayload tid a (Some transferId)))
                  (\<lambda>_. ret transferId)
                  (resolve_retry ref
                    (''[FORCE_CREDIT '' @ isoNow e @ ''] by '' @ display_name u openId @ '': '' @ note)
                    (set_transfer_id ref transferId s1))) s = (r, t)"
    by (auto simp: forceCredit_def adminProcedure_def split: option.splits if_splits)
  then show ?thesis
    by (rule recovery_path)
      (rule elsewhere_trans [OF cancel_elsewhere(5)], auto elim!: seq_elsewhere dest: statements_elsewhere)
qed simp

lemma execute_path:
  assumes "execute_approval sv e u openId note a s = (r, t)"
  shows "money_path sv posted s t"
proof (cases "\<exists>tu. matching_topup (ap_reference a) (ap_tenantId a) (ap_amountKobo a) s = Some tu \<and> \<not> recorded_in_ledger tu")
  case False
  with assms have "elsewhere s t" by (auto simp: execute_approval_def Let_def split: option.splits if_splits)
  then show ?thesis by (rule path_elsewhere)
next
  case True
  with assms have "seq_act (creditTenantAccount sv e (ap_tenantId a) (ap_amountKobo a) (ap_reference a)) (\<lambda>transferId s1.
            seq_act (log_event e ''force_credit_dual_approved'' (ap_reference a) (Some (u_id u))
                       (DualApproved (ap_id a) (ap_requesterId a) (u_id u) transferId))
              (\<lambda>_. ret transferId)
              (set_approval (\<lambda>b. ap_id b = ap_id a)
                 (\<lambda>b. b\<lparr>ap_status := Ap_executed, ap_ledgerTransferId := Some transferId, ap_executedAt := Some (e_now e)\<rparr>)
                (resolve_retry (ap_reference a)
                   (''[DUAL_APPROVED '' @ isoNow e @ ''] by '' @ display_name u openId @ '': '' @ note)
                   (set_transfer_id (ap_reference a) transferId s1)))) s = (r, t)"
    by (auto simp: execute_approval_def Let_def)
  then show ?thesis
    by (rule recovery_path)
      (rule elsewhere_trans [OF cancel_elsewhere(5)], rule elsewhere_trans [OF cancel_elsewhere(4)],
       auto elim!: seq_elsewhere dest: statements_elsewhere)
qed

lemma approve_path:
  assumes "approveForceCredit hm cr sv e c openId k note code s = (r, t)"
  shows "money_path sv posted s t"
proof (cases "t = s")
  case False
  with assms obtain u where u: "c_user c = Some u" by (auto simp: approveForceCredit_def adminProcedure_def split: option.splits)
  with assms False have rest: "(case stepUpMfa hm cr e (u_id u) code s of
         Some err \<Rightarrow>
           seq_act (log_event e ''force_credit_mfa_failed''
              (case tfind (\<lambda>a. ap_id a = k) (b_approvals s) of
                 None \<Rightarrow> ''approval:'' @ show_int k | Some a \<Rightarrow> ap_reference a)
              (Some (u_id u)) (MfaFailed k (error_text err))) (\<lambda>_. throw err) s
       | None \<Rightarrow>
           let P = approvable e k (u_id u) in
           (case tfind P (b_approvals s) of
              None \<Rightarrow> (Inl (TRPCError CONFLICT ''Request is unavailable, already being processed, or requires a different approver''), s)
            | Some a \<Rightarrow>
                execute_approval sv e u openId note (approve_claim (u_id u) note a)
                  (set_approval P (approve_claim (u_id u) note) s))) = (r, t)"
    by (auto simp: approveForceCredit_def adminProcedure_def assertDesignatedForceCreditApprover_def split: if_splits)
  show ?thesis
  proof (cases "stepUpMfa hm cr e (u_id u) code s")
    case (Some err)
    with rest have "elsewhere s t" by (auto elim!: seq_elsewhere dest: statements_elsewhere)
    then show ?thesis by (rule path_elsewhere)
  next
    case None
    let ?P = "approvable e k (u_id u)"
    show ?thesis
    proof (cases "tfind ?P (b_approvals s)")
      case (Some a)
      with None rest have "execute_approval sv e u openId note (approve_claim (u_id u) note a)
          (set_approval ?P (approve_claim (u_id u) note) s) = (r, t)" by (simp add: Let_def)
      from path_trans [OF path_elsewhere [OF cancel_elsewhere(4)] execute_path [OF this]] show ?thesis .
    qed (use None rest False in simp)
  qed
qed simp

section \<open>Histories of calls\<close>

inductive billing_call :: "'w services \<Rightarrow> 'w billdb \<Rightarrow> 'w billdb \<Rightarrow> bool" for sv :: "'w services" where
  bc_debit: "recordDebit sv e c inp s = (r1, t) \<Longrightarrow> billing_call sv s t"
| bc_topup: "initiateTopUp email_ok url_ok sv e c uuid1 uuid2 tid a email cb s = (r2, t) \<Longrightarrow> billing_call sv s t"
| bc_verify: "verifyTopUp sv e c tid ref s = (r3, t) \<Longrightarrow> billing_call sv s t"
| bc_webhook: "paystackWebhook sv e uuid raw sig s = (st, t) \<Longrightarrow> billing_call sv s t"
| bc_webhooks: "processDuePaystackWebhooks sv e cnt s = (r4, t) \<Longrightarrow> billing_call sv s t"
| bc_plan: "upsertPlan e c pn s = (r5, t) \<Longrightarrow> billing_call sv s t"
| bc_contract: "activateManualContract e c uuid1 uuid2 ci s = (r6, t) \<Longrightarrow> billing_call sv s t"
| bc_reserve: "reserveCompletedCheck uuid_ok e c locked uuid ri s = (r7, t) \<Longrightarrow> billing_call sv s t"
| bc_consume: "consumeReservedCheck uuid_ok e c uuid tid' k ref s = (r8, t) \<Longrightarrow> billing_call sv s t"
| bc_refund: "requestRefund e c uuid tid' ref a reason s = (r9, t) \<Longrightarrow> billing_call sv s t"
| bc_approveRefund: "approveRefund uuid_ok e c k decision rationale s = (r10, t) \<Longrightarrow> billing_call sv s t"
| bc_signup: "signup sv e c ids si s = (r11, t) \<Longrightarrow> billing_call sv s t"
| bc_meter: "processDueIntelligenceAssessmentBillingEvents sv e locked uuids mids w n s = (r12, t) \<Longrightarrow> billing_call sv s t"
| bc_reconClaim: "recon_claim uuid_ok e c k s = (r13, t) \<Longrightarrow> billing_call sv s t"
| bc_settled: "confirmSettled uuid_ok e c ni s = (r14, t) \<Longrightarrow> billing_call sv s t"
| bc_notSettled: "confirmNotSettled uuid_ok e c ni s = (r14, t) \<Longrightarrow> billing_call sv s t"
| bc_reconRetry: "approveDeterministicRetry uuid_ok e c ni s = (r14, t) \<Longrightarrow> billing_call sv s t"
| bc_enqueue: "enqueueFailedWebhook rnd e ref tid a msg s = (r15, t) \<Longrightarrow> billing_call sv s t"
| bc_retryQueue: "processRetryQueue rnd sv e s = (m, t) \<Longrightarrow> billing_call sv s t"
| bc_retryCredit: "retryCredit sv e c ref tid a s = (r16, t) \<Longrightarrow> billing_call sv s t"
| bc_note: "addResolutionNote e c ref note s = (r17, t) \<Longrightarrow> billing_call sv s t"
| bc_force: "forceCredit thr sv e c openId ref tid a note s = (r16, t) \<Longrightarrow> billing_call sv s t"
| bc_policy: "updateForceCreditPolicy thr e c amount s = (r18, t) \<Longrightarrow> billing_call sv s t"
| bc_rollback: "rollbackForceCreditPolicy thr e c amount s = (r18, t) \<Longrightarrow> billing_call sv s t"
| bc_approver: "setForceCreditApprover e c uid active s = (r17, t) \<Longrightarrow> billing_call sv s t"
| bc_request: "requestForceCredit thr e c ref tid a note s = (r19, t) \<Longrightarrow> billing_call sv s t"
| bc_approve: "approveForceCredit hm cr sv e c openId apid note code s = (r16, t) \<Longrightarrow> billing_call sv s t"
| bc_reject: "rejectForceCredit e c apid note s = (r17, t) \<Longrightarrow> billing_call sv s t"
| bc_expire: "expirePendingForceCreditApprovals e s = (r20, t) \<Longrightarrow> billing_call sv s t"
| bc_totp: "totp_step hm cr (b_totp s) T \<Longrightarrow> billing_call sv s (s\<lparr>b_totp := T\<rparr>)"

lemma log_expired_elsewhere: "log_expired e as s = (r, t) \<Longrightarrow> elsewhere s t"
  by (induction as arbitrary: s) (auto elim!: seq_elsewhere dest: statements_elsewhere)

lemma change_threshold_elsewhere:
  assumes "change_threshold thr e u ty a s = (r, t)"
  shows "elsewhere s t"
proof (cases "255 < length (updatedBy u)")
  case False
  with assms have "seq_act (log_event e ty ''force_credit_policy'' (Some (u_id u))
        (Threshold (getConfiguredForceCreditThresholdKobo thr s) a))
      (\<lambda>_. ret (a, getConfiguredForceCreditThresholdKobo thr s)) (s\<lparr>b_threshold := Some (of_int a)\<rparr>) = (r, t)"
    by (simp add: change_threshold_def Let_def)
  then have "elsewhere (s\<lparr>b_threshold := Some (of_int a)\<rparr>) t" by (elim seq_elsewhere) (auto dest: statements_elsewhere)
  then show ?thesis using elsewhere_updates(15) elsewhere_trans by blast
qed (use assms in \<open>simp add: change_threshold_def Let_def\<close>)

lemma request_tail:
  assumes "seq_act (log_event e ty ref actor payload) (\<lambda>_ s1. (Inr k, s1\<lparr>b_notifications := f s1\<rparr>)) (s\<lparr>b_approvals := q\<rparr>) = (r, t)"
  shows "elsewhere s t"
proof -
  from assms have "elsewhere (s\<lparr>b_approvals := q\<rparr>) t" by (elim seq_elsewhere) (auto dest: statements_elsewhere(8))
  then show ?thesis using elsewhere_updates(12) elsewhere_trans by blast
qed

lemma request_elsewhere: "requestForceCredit thr e c ref tid a note s = (r, t) \<Longrightarrow> elsewhere s t"
  by (auto simp: requestForceCredit_def adminProcedure_def Let_def split: option.splits if_splits dest: request_tail)

lemma approver_elsewhere: "setForceCreditApprover e c uid active s = (r, t) \<Longrightarrow> elsewhere s t"
  by (auto simp: setForceCreditApprover_def adminProcedure_def split: option.splits if_splits
    dest!: statements_elsewhere(8) intro: elsewhere_trans [OF elsewhere_updates(13)])

lemma reject_elsewhere: "rejectForceCredit e c k note s = (r, t) \<Longrightarrow> elsewhere s t"
  by (auto simp: rejectForceCredit_def adminProcedure_def assertDesignatedForceCreditApprover_def Let_def split: option.splits if_splits
    dest!: statements_elsewhere(8) intro: elsewhere_trans [OF cancel_elsewhere(4)])

lemma expire_elsewhere:
  assumes "expirePendingForceCreditApprovals e s = (r, t)"
  shows "elsewhere s t"
proof (cases "t = s")
  case False
  with assms obtain as f where "seq_act (log_expired e as) (\<lambda>_. ret (map ap_reference as)) (set_approval (expirable e) f s) = (r, t)"
    by (auto simp: expirePendingForceCreditApprovals_def Let_def split: if_splits)
  then have "elsewhere (set_approval (expirable e) f s) t" by (elim seq_elsewhere) (auto dest: log_expired_elsewhere)
  then show ?thesis using cancel_elsewhere(4) elsewhere_trans by blast
qed simp

lemma recon_elsewhere:
  "recon_claim uuid_ok e c k s = (r1, t) \<Longrightarrow> elsewhere s t"
  "confirmSettled uuid_ok e c ni s = (r, t) \<Longrightarrow> elsewhere s t"
  "confirmNotSettled uuid_ok e c ni s = (r, t) \<Longrightarrow> elsewhere s t"
  "approveDeterministicRetry uuid_ok e c ni s = (r, t) \<Longrightarrow> elsewhere s t"
proof -
  show "recon_claim uuid_ok e c k s = (r1, t) \<Longrightarrow> elsewhere s t"
    by (auto simp: recon_claim_def adminProcedure_def Let_def split: option.splits if_splits list.splits)
  have ev: "elsewhere s (set_event P (\<lambda>b. b\<lparr>be_status := st, be_settled_at := f b, be_last_error_code := x\<rparr>) s)"
    "elsewhere s (set_event P (\<lambda>b. b\<lparr>be_status := st, be_attempt_count := n, be_available_at := av, be_leased_at := l, be_lease_owner := ow,
       be_last_error_code := x\<rparr>) s)" for P st f x n av l ow s
    by (rule set_event_elsewhere, simp)+
  show "confirmSettled uuid_ok e c ni s = (r, t) \<Longrightarrow> elsewhere s t"
    by (auto simp: confirmSettled_def adminProcedure_def elim!: transaction_elsewhere intro: decide_recon_elsewhere ev
      split: option.splits if_splits)
  show "confirmNotSettled uuid_ok e c ni s = (r, t) \<Longrightarrow> elsewhere s t"
    by (auto simp: confirmNotSettled_def adminProcedure_def intro: decide_recon_elsewhere split: option.splits if_splits)
  show "approveDeterministicRetry uuid_ok e c ni s = (r, t) \<Longrightarrow> elsewhere s t"
    by (auto simp: approveDeterministicRetry_def adminProcedure_def elim!: transaction_elsewhere intro: decide_recon_elsewhere ev
      split: option.splits if_splits)
qed

lemma commercial_elsewhere:
  "upsertPlan e c pn s = (r5, t) \<Longrightarrow> elsewhere s t"
  "activateManualContract e c uuid1 uuid2 ci s = (r6, t) \<Longrightarrow> elsewhere s t"
  "reserveCompletedCheck uuid_ok e c locked uuid ri s = (r7, t) \<Longrightarrow> elsewhere s t"
  "consumeReservedCheck uuid_ok e c uuid tid k ref s = (r8, t) \<Longrightarrow> elsewhere s t"
  "requestRefund e c uuid tid ref a reason s = (r9, t) \<Longrightarrow> elsewhere s t"
  "approveRefund uuid_ok e c k decision rationale s = (r10, t) \<Longrightarrow> elsewhere s t"
  "enqueueFailedWebhook rnd e ref tid' a msg s = (r15, t) \<Longrightarrow> elsewhere s t"
  "addResolutionNote e c ref note s = (r17, t) \<Longrightarrow> elsewhere s t"
proof -
  show "upsertPlan e c pn s = (r5, t) \<Longrightarrow> elsewhere s t"
    by (auto simp: upsertPlan_def adminProcedure_def split: option.splits if_splits)
  show "activateManualContract e c uuid1 uuid2 ci s = (r6, t) \<Longrightarrow> elsewhere s t"
    by (auto simp: activateManualContract_def adminProcedure_def elim!: transaction_elsewhere dest: activate_contract_elsewhere
      split: option.splits if_splits)
  show "reserveCompletedCheck uuid_ok e c locked uuid ri s = (r7, t) \<Longrightarrow> elsewhere s t"
    by (auto simp: reserveCompletedCheck_def writeProcedure_def requireTenantScope_def elim!: transaction_elsewhere
      dest: reserve_check_elsewhere split: option.splits if_splits)
  show "consumeReservedCheck uuid_ok e c uuid tid k ref s = (r8, t) \<Longrightarrow> elsewhere s t"
    by (auto simp: consumeReservedCheck_def writeProcedure_def requireTenantScope_def elim!: transaction_elsewhere
      dest: consume_check_elsewhere split: option.splits if_splits)
  show "requestRefund e c uuid tid ref a reason s = (r9, t) \<Longrightarrow> elsewhere s t"
    by (auto simp: requestRefund_def writeProcedure_def requireTenantScope_def split: option.splits if_splits)
  show "approveRefund uuid_ok e c k decision rationale s = (r10, t) \<Longrightarrow> elsewhere s t"
    by (auto simp: approveRefund_def adminProcedure_def Let_def split: option.splits if_splits)
  show "enqueueFailedWebhook rnd e ref tid' a msg s = (r15, t) \<Longrightarrow> elsewhere s t"
    by (auto simp: enqueueFailedWebhook_def split: if_splits)
  show "addResolutionNote e c ref note s = (r17, t) \<Longrightarrow> elsewhere s t"
    by (auto simp: addResolutionNote_def adminProcedure_def split: option.splits if_splits)
qed

lemma policy_elsewhere:
  "updateForceCreditPolicy thr e c amount s = (r, t) \<Longrightarrow> elsewhere s t"
  "rollbackForceCreditPolicy thr e c amount s = (r, t) \<Longrightarrow> elsewhere s t"
  by (auto simp: updateForceCreditPolicy_def rollbackForceCreditPolicy_def adminProcedure_def dest: change_threshold_elsewhere
    split: option.splits if_splits eventPayload.splits)

lemma recordDebit_path:
  assumes "recordDebit sv e c inp s = (r, t)"
  shows "money_path sv posted s t"
proof (cases "t = s")
  case False
  with assms have "debit_body sv e (c_tenantId c) inp (priced sv inp) s = (r, t)"
    by (auto simp: recordDebit_def writeProcedure_def assertBillingTenantAccess_def Let_def priced_def split: option.splits if_splits)
  then show ?thesis by (rule debit_path)
qed simp

lemma verifyTopUp_path:
  assumes "verifyTopUp sv e c tid ref s = (r, t)"
  shows "money_path sv posted s t"
proof (cases "t = s")
  case False
  with assms have "seq_act (settlePaystackPayment sv e ref) (\<lambda>result.
      require (show_int (sd_tenantId result) = tid) (TRPCError FORBIDDEN ''The payment intent belongs to a different tenant'')
      (ret result)) s = (r, t)"
    by (auto simp: verifyTopUp_def writeProcedure_def assertBillingTenantAccess_def split: option.splits if_splits)
  then show ?thesis by (rule seq_path) (auto intro: settle_path split: if_splits)
qed simp

lemma initiateTopUp_path:
  "initiateTopUp email_ok url_ok sv e c uuid1 uuid2 tid a email cb s = (r, t) \<Longrightarrow> money_path sv posted s t"
  by (auto simp: initiateTopUp_def writeProcedure_def assertBillingTenantAccess_def split: option.splits if_splits dest!: start_path)

lemma processDue_path:
  assumes "processDuePaystackWebhooks sv e cnt s = (r, t)"
  shows "money_path sv posted s t"
proof (cases "e_dbUp e")
  case True
  with assms have "seq_act (process_webhooks sv e (map we_id (due_webhooks e cnt s))) (\<lambda>_. ret (int (length (due_webhooks e cnt s)))) s = (r, t)"
    by (simp add: processDuePaystackWebhooks_def Let_def)
  then show ?thesis by (rule seq_path) (auto intro: process_webhooks_path)
qed (use assms in \<open>simp add: processDuePaystackWebhooks_def\<close>)

lemmas call_paths = recordDebit_path initiateTopUp_path verifyTopUp_path processDue_path signup_path meter_pass_path retry_queue_path
  retryCredit_path forceCredit_path approve_path

lemmas call_elsewheres = paystackWebhook_elsewhere commercial_elsewhere recon_elsewhere policy_elsewhere approver_elsewhere
  request_elsewhere reject_elsewhere expire_elsewhere

lemma call_path: "billing_call sv s t \<Longrightarrow> money_path sv posted s t"
proof (induction rule: billing_call.induct)
qed ((erule call_paths | (rule path_elsewhere, erule call_elsewheres) | (rule path_elsewhere, simp))+)

definition billing_start :: "('w \<Rightarrow> transfer list) \<Rightarrow> 'w billdb \<Rightarrow> bool" where
  "billing_start posted s \<longleftrightarrow> money_start posted (s, {#})"

text \<open>A history of whole calls is a run of the machine, so its invariant holds with nothing under way.\<close>

lemma history_reachable:
  "reach (billing_start posted) (billing_call sv) s \<Longrightarrow> reach (money_start posted) (money_step sv posted) (s, {#})"
proof (induction rule: reach.induct)
  case (reach_init s)
  then show ?case by (simp add: billing_start_def reach.reach_init)
next
  case (reach_step s t)
  from call_path [OF reach_step(2)] have "steps (money_step sv posted) (s, {#}) (t, {#})" by (simp add: money_path_def)
  from reach_steps [OF this reach_step(3)] show ?case .
qed

end
