(* ===== verification/Billing_Scenario.thy ===== *)
theory Billing_Scenario
  imports Billing_Calls Billing_Sample
begin

text \<open>
  A concrete history at which the theorems on billing are evaluated: tenant 7 tops up 200000 kobo
  through the provider, verifies the payment and pays for a standard investigation.
\<close>

definition toy_uuid :: string where "toy_uuid = ''00112233445566778899-aabbcc''"
definition toy_ref :: string where "toy_ref = ''BIS-TOP-00112233445566778899AABB''"

lemma toy_texts: "paymentReference toy_uuid = toy_ref" "canonical_id ''7''" "parse_int ''7'' = 7" "show_int 7 = ''7''"
  "toLowerCase ''a@b.c'' = ''a@b.c''" "topup_reference toy_ref" "length toy_ref = 32"
  by code_simp+

definition toy_paying :: "intent_status \<Rightarrow> intent" where
  "toy_paying st = \<lparr>pi_id = ''i1'', pi_tenant_id = 7, pi_initiated_by = 2, pi_provider_reference = toy_ref,
     pi_amount_kobo = 200000, pi_currency = ''NGN'', pi_customer_email = ''a@b.c'', pi_purpose = Prepaid_credit,
     pi_status = st, pi_access_code = Some ''code'', pi_initialized_at = Some 1700000000000, 
     pi_verified_at = (if st = Credited then Some 1700000000000 else None),
     pi_credited_at = (if st = Credited then Some 1700000000000 else None), pi_expires_at = 1700001800000\<rparr>"

definition opened :: "transfer list billdb" where
  "opened = empty_billdb\<lparr>b_intents := [toy_paying Intent_pending]\<rparr>"

definition paid :: "transfer list billdb" where
  "paid = empty_billdb\<lparr>b_world := [topupTransfer (toy_services 200000) toy_ref 7 200000], b_intents := [toy_paying Credited],
     b_topups := tinsert (\<lambda>n. \<lparr>to_id = n, to_tenantId = ''7'', to_reference = toy_ref, to_amountKobo = 200000, to_channel = ''card'',
       to_tbTransferId = Some (topupTransferId (toy_services 200000) toy_ref), to_verifiedAt = 1700000000000\<rparr>) empty_tbl\<rparr>"

lemma open_run:
  "initiateTopUp (\<lambda>_. True) (\<lambda>_. True) (toy_services 200000) sample_env analyst_ctx ''i1'' toy_uuid ''7'' 200000 ''a@b.c'' None empty_billdb
   = (Inr \<lparr>td_authorizationUrl = ''https://pay'', td_accessCode = ''code'', td_reference = toy_ref, td_expiresAt = 1700001800000\<rparr>, opened)"
  by code_simp

lemma pay_run:
  "verifyTopUp (toy_services 200000) sample_env analyst_ctx ''7'' toy_ref opened
   = (Inr \<lparr>sd_transferId = topupTransferId (toy_services 200000) toy_ref, sd_idempotent = False, sd_tenantId = 7, sd_amountKobo = 200000\<rparr>, paid)"
  by code_simp

definition toy_debit :: "tier \<Rightarrow> debitInput" where
  "toy_debit t = \<lparr>di_tenantId = ''7'', di_investigationId = ''case-1'', di_tier = t, di_amountKobo = None\<rparr>"

definition toy_charge :: transfer where
  "toy_charge = priced (toy_services 200000) (toy_debit Standard)"

definition spent :: "transfer list billdb" where
  "spent = paid\<lparr>b_world := b_world paid @ [toy_charge],
     b_claims := tinsert (\<lambda>n. (claim_row (Some 7) toy_charge n)\<lparr>tt_reconciledAt := Some 1700000000000\<rparr>) empty_tbl\<rparr>"

lemma toy_number: "show_int 150000 = ''150000''" "show_int 500000 = ''500000''"
  by (simp_all add: show_int_def show_nat.simps) (code_simp+)

lemma toy_charge:
  "toy_charge = \<lparr>tr_id = ''000051:dradnats:1-esac:7:2v:tibe'', tr_debit_account_id = ''100007'', tr_credit_account_id = ''1'',
     tr_amount = 150000, tr_ledger = 566, tr_code = 1, tr_flags = 0, tr_user_data_128 = ''case-1'', tr_user_data_64 = Some 2\<rparr>"
  by (simp add: toy_charge_def priced_def toy_debit_def debitTransfer_def deterministicDebitTransferId_def toy_number TIER_AMOUNTS_def
      tenantAccount_def ACCOUNT_TENANT_PREFIX_def ACCOUNT_REVENUE_def LEDGER_NGN_def tier_code_def tier_name_def)

lemma toy_credit:
  "topupTransfer (toy_services 200000) toy_ref 7 200000 = \<lparr>tr_id = ''BBAA99887766554433221100-POT-SIB'', tr_debit_account_id = ''1'',
     tr_credit_account_id = ''100007'', tr_amount = 200000, tr_ledger = 566, tr_code = 2, tr_flags = 0, tr_user_data_128 = toy_ref,
     tr_user_data_64 = None\<rparr>"
  by (simp add: topupTransfer_def topupTransferId_def toy_ref_def toy_texts
      tenantAccount_def ACCOUNT_TENANT_PREFIX_def ACCOUNT_REVENUE_def LEDGER_NGN_def)

lemma spend_run:
  "recordDebit (toy_services 200000) sample_env analyst_ctx (toy_debit Standard) paid
   = (Inr (debit_result (toy_debit Standard) toy_charge True False None), spent)"
proof -
  have tr: "debitTransfer (toy_services 200000) ''7'' ''case-1'' Standard (TIER_AMOUNTS Standard) = toy_charge"
    by (simp add: toy_charge_def priced_def toy_debit_def)
  have "debit_body (toy_services 200000) sample_env (Some 7) (toy_debit Standard) toy_charge paid =
    (Inr (debit_result (toy_debit Standard) toy_charge True False None), spent)"
    unfolding toy_charge spent_def paid_def toy_credit by code_simp
  then show ?thesis
    by (simp add: recordDebit_def writeProcedure_def debit_input_ok_def toy_debit_def toy_texts assertBillingTenantAccess_def tr)
qed

lemma toy_premium:
  "priced (toy_services 200000) (toy_debit Premium) = \<lparr>tr_id = ''000005:muimerp:1-esac:7:2v:tibed'',
     tr_debit_account_id = ''100007'', tr_credit_account_id = ''1'', tr_amount = 500000, tr_ledger = 566, tr_code = 1, tr_flags = 0,
     tr_user_data_128 = ''case-1'', tr_user_data_64 = Some 3\<rparr>"
  by (simp add: priced_def toy_debit_def debitTransfer_def deterministicDebitTransferId_def toy_number TIER_AMOUNTS_def
      tenantAccount_def ACCOUNT_TENANT_PREFIX_def ACCOUNT_REVENUE_def LEDGER_NGN_def tier_code_def tier_name_def)

lemma overspend_run:
  "recordDebit (toy_services 200000) sample_env analyst_ctx (toy_debit Premium) spent
   = (Inl (InsufficientFunds ''7'' 500000 50000), spent\<lparr>b_claims := (b_claims spent)\<lparr>seq := 3\<rparr>\<rparr>)"
proof -
  have tr: "debitTransfer (toy_services 200000) ''7'' ''case-1'' Premium (TIER_AMOUNTS Premium) =
      priced (toy_services 200000) (toy_debit Premium)"
    by (simp add: priced_def toy_debit_def)
  have "debit_body (toy_services 200000) sample_env (Some 7) (toy_debit Premium) (priced (toy_services 200000) (toy_debit Premium)) spent =
    (Inl (InsufficientFunds ''7'' 500000 50000), spent\<lparr>b_claims := (b_claims spent)\<lparr>seq := 3\<rparr>\<rparr>)"
    unfolding toy_premium toy_charge spent_def paid_def toy_credit by code_simp
  then show ?thesis
    by (simp add: recordDebit_def writeProcedure_def debit_input_ok_def toy_debit_def toy_texts assertBillingTenantAccess_def tr)
qed

lemma start_empty: "billing_start toy_posted empty_billdb"
  by (simp add: billing_start_def money_start_def toy_posted_def)

lemma reach_start: "reach (billing_start toy_posted) (billing_call sv) empty_billdb"
  by (rule reach_init) (rule start_empty)

lemma reach_opened: "reach (billing_start toy_posted) (billing_call (toy_services 200000)) opened"
  using reach_step [OF reach_start bc_topup [OF open_run]] .

lemma reach_paid: "reach (billing_start toy_posted) (billing_call (toy_services 200000)) paid"
  using reach_step [OF reach_opened bc_verify [OF pay_run]] .

lemma reach_spent: "reach (billing_start toy_posted) (billing_call (toy_services 200000)) spent"
  using reach_step [OF reach_paid bc_debit [OF spend_run]] .

text \<open>A top-up beyond the 32-bit column, and one with a hash in hexadecimal digits.\<close>

abbreviation big_intent :: intent where "big_intent \<equiv> (toy_paying Intent_pending)\<lparr>pi_amount_kobo := 3000000000\<rparr>"

definition opened_big :: "transfer list billdb" where
  "opened_big = empty_billdb\<lparr>b_intents := [big_intent]\<rparr>"

lemma open_big_run:
  "initiateTopUp (\<lambda>_. True) (\<lambda>_. True) (toy_services 3000000000) sample_env analyst_ctx ''i1'' toy_uuid ''7'' 3000000000 ''a@b.c'' None empty_billdb
   = (Inr \<lparr>td_authorizationUrl = ''https://pay'', td_accessCode = ''code'', td_reference = toy_ref, td_expiresAt = 1700001800000\<rparr>, opened_big)"
  by code_simp

lemma reach_opened_big: "reach (billing_start toy_posted) (billing_call (toy_services 3000000000)) opened_big"
  using reach_step [OF reach_start bc_topup [OF open_big_run]] .

definition hex_services :: "transfer list services" where
  "hex_services = (toy_services 200000)\<lparr>sv_sha256 := (\<lambda>s. replicate 64 (CHR ''a''))\<rparr>"

definition paid_hex :: "transfer list billdb" where
  "paid_hex = snd (verifyTopUp hex_services sample_env analyst_ctx ''7'' toy_ref opened)"

lemma open_hex_run:
  "initiateTopUp (\<lambda>_. True) (\<lambda>_. True) hex_services sample_env analyst_ctx ''i1'' toy_uuid ''7'' 200000 ''a@b.c'' None empty_billdb
   = (Inr \<lparr>td_authorizationUrl = ''https://pay'', td_accessCode = ''code'', td_reference = toy_ref, td_expiresAt = 1700001800000\<rparr>, opened)"
  by code_simp

lemma pay_hex_run: "verifyTopUp hex_services sample_env analyst_ctx ''7'' toy_ref opened =
    (Inr \<lparr>sd_transferId = replicate 32 (CHR ''a''), sd_idempotent = False, sd_tenantId = 7, sd_amountKobo = 200000\<rparr>, paid_hex)"
  by code_simp

lemma reach_paid_hex: "reach (billing_start toy_posted) (billing_call hex_services) paid_hex"
  using reach_step [OF reach_step [OF reach_start bc_topup [OF open_hex_run]] bc_verify [OF pay_hex_run]] .

lemma hex_laws: "ledger_laws hex_services toy_posted"
  by (auto simp: ledger_laws_def hex_services_def toy_services_def toy_posted_def toy_post_def http_ok_def)

lemmas machine_paid = history_reachable [OF reach_paid]
lemmas machine_spent = history_reachable [OF reach_spent]

end
