(* ===== verification/Billing_Properties.thy ===== *)
theory Billing_Properties
  imports Billing_Scenario
begin

text \<open>
  What the billing subsystem guarantees about money, in every reachable state of the machine of
  \<open>Billing_Money\<close>: any interleaving of the pieces of settlements and debits, with crashes in
  between. The hypotheses on TigerBeetle are \<open>ledger_laws\<close>.
\<close>

section \<open>Calls are runs of the machine\<close>

text \<open>C3: Every procedure and worker of the billing subsystem, however many statements and remote calls it makes, is a run of
  the money machine that leaves the operations already under way alone. So whatever is proved of the machine, which
  interleaves the pieces of concurrent settlements and debits and crashes between them, holds of every history of calls.
\<close>

theorem billing_calls_refine:
  assumes "billing_call sv s t"
  shows "steps (money_step sv posted) (s, ts) (t, ts)"
  using call_path [OF assms] by (simp add: money_path_def)

theorem billing_calls_refine_witness:
  "billing_call (toy_services 200000) paid spent \<and> steps (money_step (toy_services 200000) toy_posted) (paid, {#}) (spent, {#})"
  using billing_calls_refine [OF bc_debit [OF spend_run]] bc_debit [OF spend_run] by blast

section \<open>Credits\<close>

text \<open>The parts of the invariant that the theorems use.\<close>

lemma reachable_parts:
  assumes "ledger_laws sv posted" "reach (money_start posted) (money_step sv posted) (s, ts)"
  shows "ledger_inv sv (posted (b_world s)) (b_intents s) (b_claims s) (b_events s)" "intents_inv (b_intents s)"
    "topups_inv sv (b_intents s) (b_topups s)" "claims_inv sv (b_claims s)"
  using money_invD [OF money_reachable [OF assms]] by blast+

lemma posted_id_unique:
  assumes "ledger_inv sv P I C E" "p \<in> set P" "q \<in> set P" "tr_id p = tr_id q"
  shows "p = q"
  using assms unique_key [of tr_id P] by (auto simp: ledger_inv_def)

lemma posted_sources:
  assumes "ledger_inv sv P I C E" "p \<in> set P"
  shows "tr_code p = 2 \<Longrightarrow> \<exists>i \<in> set I. is_paid i \<and> p = credit_of sv i"
    and "tr_code p = 1 \<Longrightarrow> is_debit sv p \<and> tr_id p \<in> tt_transferId ` set (rows C)"
    and "tr_code p = 3 \<Longrightarrow> \<exists>ev \<in> set E. p = assessmentTransfer sv (be_tenant_id ev) (be_id ev) (be_amount_kobo ev)"
  using assms unfolding ledger_inv_def origin_def by blast+

lemma credit_of_simps [simp]:
  "tr_user_data_128 (credit_of sv i) = pi_provider_reference i" "tr_amount (credit_of sv i) = pi_amount_kobo i"
  "tr_credit_account_id (credit_of sv i) = tenantAccount (show_int (pi_tenant_id i))"
  "tr_code (credit_of sv i) = 2" "tr_id (credit_of sv i) = topupTransferId sv (pi_provider_reference i)"
  by (simp_all add: credit_of_def topupTransfer_def)

text \<open>C4: No money from nothing. In every reachable state each posted top-up transfer credits exactly one server-created payment
  intent, one that was initialized with the provider and has not failed, to that intent's tenant and for its amount of at
  least 10000 kobo, and no second top-up transfer carries the same reference: retried webhooks, manual verifications, retry
  queues and administrators cannot credit a payment twice.
\<close>

theorem topups_are_paid_intents:
  assumes "ledger_laws sv posted" "reach (money_start posted) (money_step sv posted) (s, ts)"
    and "p \<in> set (posted (b_world s))" "tr_code p = 2"
  shows "(\<exists>i \<in> set (b_intents s). is_paid i \<and> p = credit_of sv i \<and> 10000 \<le> tr_amount p) \<and>
    (\<forall>q \<in> set (posted (b_world s)). tr_code q = 2 \<and> tr_user_data_128 q = tr_user_data_128 p \<longrightarrow> q = p)"
proof
  note inv = reachable_parts [OF assms(1,2)]
  have src: "\<exists>i \<in> set (b_intents s). is_paid i \<and> q = credit_of sv i" if "q \<in> set (posted (b_world s))" "tr_code q = 2" for q
    using posted_sources(1) [OF inv(1) that] .
  from src [OF assms(3,4)] obtain i where i: "i \<in> set (b_intents s)" "is_paid i" "p = credit_of sv i" by blast
  moreover have "10000 \<le> pi_amount_kobo i" using inv(2) i(1) by (auto simp: intents_inv_def intent_ok_def)
  ultimately show "\<exists>i \<in> set (b_intents s). is_paid i \<and> p = credit_of sv i \<and> 10000 \<le> tr_amount p" by auto
  show "\<forall>q \<in> set (posted (b_world s)). tr_code q = 2 \<and> tr_user_data_128 q = tr_user_data_128 p \<longrightarrow> q = p"
  proof (intro ballI impI, elim conjE)
    fix q assume q: "q \<in> set (posted (b_world s))" "tr_code q = 2" "tr_user_data_128 q = tr_user_data_128 p"
    from src [OF q(1,2)] obtain j where "q = credit_of sv j" by blast
    with i(3) q(3) have "tr_id q = tr_id p" by simp
    then show "q = p" using posted_id_unique [OF inv(1) q(1) assms(3)] by blast
  qed
qed

theorem topups_are_paid_intents_witness:
  "\<exists>i \<in> set (b_intents spent). is_paid i \<and> topupTransfer (toy_services 200000) toy_ref 7 200000 = credit_of (toy_services 200000) i"
  using topups_are_paid_intents [OF toy_laws machine_spent, of "topupTransfer (toy_services 200000) toy_ref 7 200000"]
  by (simp add: spent_def paid_def toy_posted_def topupTransfer_def)

text \<open>The posted top-ups of a tenant, named by its decimal identifier, and what its paid intents add up to.\<close>

definition credits_to :: "string \<Rightarrow> transfer list \<Rightarrow> int" where
  "credits_to tid P = sum_list (map tr_amount (filter (\<lambda>p. tr_code p = 2 \<and> tr_credit_account_id p = tenantAccount tid) P))"

definition paid_by :: "string \<Rightarrow> intent list \<Rightarrow> int" where
  "paid_by tid I = sum_list (map pi_amount_kobo (filter (\<lambda>i. show_int (pi_tenant_id i) = tid \<and> is_paid i) I))"

text \<open>C2: Conservation of credit. In every reachable state the ledger has credited a tenant through top-ups at most the sum of
  the tenant's payment intents that are pending at the provider, verified or credited.
\<close>

theorem credit_conservation:
  assumes "ledger_laws sv posted" "reach (money_start posted) (money_step sv posted) (s, ts)"
  shows "credits_to tid (posted (b_world s)) \<le> paid_by tid (b_intents s)"
proof -
  note inv = reachable_parts [OF assms]
  let ?P = "filter (\<lambda>p. tr_code p = 2 \<and> tr_credit_account_id p = tenantAccount tid) (posted (b_world s))"
  let ?I = "filter (\<lambda>i. show_int (pi_tenant_id i) = tid \<and> is_paid i) (b_intents s)"
  have nonneg: "0 \<le> pi_amount_kobo i" if "i \<in> set ?I" for i
    using that inv(2) by (fastforce simp: intents_inv_def intent_ok_def)
  have sub: "set ?P \<subseteq> credit_of sv ` set ?I"
  proof
    fix p assume "p \<in> set ?P"
    then have p: "p \<in> set (posted (b_world s))" "tr_code p = 2" "tr_credit_account_id p = tenantAccount tid" by auto
    then obtain i where i: "i \<in> set (b_intents s)" "is_paid i" "p = credit_of sv i" using posted_sources(1) [OF inv(1)] by blast
    with p(3) have "show_int (pi_tenant_id i) = tid" by simp
    with i show "p \<in> credit_of sv ` set ?I" by auto
  qed
  have dP: "distinct ?P" using inv(1) by (simp add: ledger_inv_def distinct_map)
  have dI: "distinct ?I" using inv(2) by (simp add: intents_inv_def distinct_map)
  have "credits_to tid (posted (b_world s)) = sum tr_amount (set ?P)"
    unfolding credits_to_def using dP by (simp add: sum_list_distinct_conv_sum_set)
  also have "\<dots> \<le> sum tr_amount (credit_of sv ` set ?I)"
    by (rule sum_mono2 [OF _ sub]) (use nonneg in auto)
  also have "\<dots> \<le> sum (\<lambda>i. tr_amount (credit_of sv i)) (set ?I)"
    using sum_image_le [of "set ?I" tr_amount "credit_of sv"] nonneg by (simp add: comp_def)
  also have "\<dots> = paid_by tid (b_intents s)"
    unfolding paid_by_def using dI by (simp add: sum_list_distinct_conv_sum_set)
  finally show ?thesis .
qed

theorem credit_conservation_witness:
  "credits_to ''7'' (b_world spent) = 200000 \<and> credits_to ''7'' (b_world spent) \<le> paid_by ''7'' (b_intents spent)"
proof -
  have "credits_to ''7'' (b_world spent) \<le> paid_by ''7'' (b_intents spent)"
    using credit_conservation [OF toy_laws machine_spent, of "''7''"] by (simp add: toy_posted_def)
  moreover have "credits_to ''7'' (b_world spent) = 200000"
    by (simp add: credits_to_def spent_def paid_def toy_credit toy_charge toy_texts tenantAccount_def ACCOUNT_TENANT_PREFIX_def)
  ultimately show ?thesis by blast
qed

section \<open>Charges\<close>

lemma priced_simps [simp]:
  "tr_debit_account_id (priced sv inp) = tenantAccount (di_tenantId inp)" "tr_credit_account_id (priced sv inp) = ACCOUNT_REVENUE"
  "tr_user_data_128 (priced sv inp) = di_investigationId inp" "tr_user_data_64 (priced sv inp) = Some (tier_code (di_tier inp))"
  "tr_amount (priced sv inp) = TIER_AMOUNTS (di_tier inp)" "tr_code (priced sv inp) = 1"
  by (simp_all add: priced_def debitTransfer_def)

lemma tier_code_inject [simp]: "tier_code t = tier_code u \<longleftrightarrow> t = u"
  by (cases t; cases u) (simp_all add: tier_code_def)

lemma priced_determined:
  "di_tenantId inp = di_tenantId inp' \<Longrightarrow> di_investigationId inp = di_investigationId inp' \<Longrightarrow> di_tier inp = di_tier inp' \<Longrightarrow>
     priced sv inp = priced sv inp'"
  by (simp add: priced_def)

text \<open>C8: Each investigation is charged once per tier, at the list price. In every reachable state a posted debit moves the price of
  its tier from the tenant's account to the revenue account, its claim is in the database, and no other posted debit of the
  same tenant has the same investigation and tier, whatever concurrent calls, crashes and retries happened.
\<close>

theorem investigation_charged_once:
  assumes "ledger_laws sv posted" "reach (money_start posted) (money_step sv posted) (s, ts)"
    and "p \<in> set (posted (b_world s))" "tr_code p = 1"
  shows "(\<exists>inp. p = priced sv inp \<and> tr_amount p = TIER_AMOUNTS (di_tier inp)) \<and> tr_credit_account_id p = ACCOUNT_REVENUE \<and>
    tr_id p \<in> tt_transferId ` set (rows (b_claims s)) \<and>
    (\<forall>q \<in> set (posted (b_world s)). tr_code q = 1 \<and> tr_debit_account_id q = tr_debit_account_id p \<and>
       tr_user_data_128 q = tr_user_data_128 p \<and> tr_user_data_64 q = tr_user_data_64 p \<longrightarrow> q = p)"
proof -
  note inv = reachable_parts [OF assms(1,2)]
  from posted_sources(2) [OF inv(1) assms(3,4)] obtain inp where inp: "p = priced sv inp"
    and row: "tr_id p \<in> tt_transferId ` set (rows (b_claims s))" by (auto simp: is_debit_def)
  have "q = p" if q: "q \<in> set (posted (b_world s))" "tr_code q = 1" "tr_debit_account_id q = tr_debit_account_id p"
      "tr_user_data_128 q = tr_user_data_128 p" "tr_user_data_64 q = tr_user_data_64 p" for q
  proof -
    from posted_sources(2) [OF inv(1) q(1,2)] obtain inp' where "q = priced sv inp'" by (auto simp: is_debit_def)
    with q(3-5) inp priced_determined [of inp' inp sv] show ?thesis by simp
  qed
  with inp row show ?thesis by auto
qed

theorem investigation_charged_once_witness:
  "toy_charge \<in> set (b_world spent) \<and> tr_amount toy_charge = 150000 \<and> tr_id toy_charge \<in> tt_transferId ` set (rows (b_claims spent))"
proof -
  have p: "toy_charge \<in> set (b_world spent)" "tr_code toy_charge = 1" "tr_amount toy_charge = 150000"
    by (simp_all add: spent_def toy_charge)
  with investigation_charged_once [OF toy_laws machine_spent, of toy_charge] show ?thesis by (simp add: toy_posted_def)
qed

text \<open>C9: A metered assessment is charged to the ledger at most once: in every reachable state a posted assessment transfer is that of
  a billing event, from the event's tenant and for its amount, and no second transfer carries the same event.
\<close>

theorem assessment_charged_once:
  assumes "ledger_laws sv posted" "reach (money_start posted) (money_step sv posted) (s, ts)"
    and "p \<in> set (posted (b_world s))" "tr_code p = 3"
  shows "(\<exists>ev \<in> set (b_events s). p = assessmentTransfer sv (be_tenant_id ev) (be_id ev) (be_amount_kobo ev)) \<and>
    (\<forall>q \<in> set (posted (b_world s)). tr_code q = 3 \<and> tr_user_data_128 q = tr_user_data_128 p \<longrightarrow> q = p)"
proof -
  note inv = reachable_parts [OF assms(1,2)]
  note src = posted_sources(3) [OF inv(1)]
  from src [OF assms(3,4)] obtain ev where ev: "ev \<in> set (b_events s)"
    "p = assessmentTransfer sv (be_tenant_id ev) (be_id ev) (be_amount_kobo ev)" by blast
  have "q = p" if q: "q \<in> set (posted (b_world s))" "tr_code q = 3" "tr_user_data_128 q = tr_user_data_128 p" for q
  proof -
    from src [OF q(1,2)] obtain ev' :: billingEvent where "q = assessmentTransfer sv (be_tenant_id ev') (be_id ev') (be_amount_kobo ev')" by blast
    with ev(2) q(3) have "tr_id q = tr_id p" by (simp add: assessmentTransfer_def)
    then show ?thesis using posted_id_unique [OF inv(1) q(1) assms(3)] by blast
  qed
  with ev show ?thesis by blast
qed

text \<open>The tables tell of each payment once and with the data it was made with. In every reachable state a row of
  \<open>billing\_topups\<close> is that of a credited intent, with its tenant, amount and transfer identifier, and no two rows have the
  same reference; a row of \<open>tb\_transfers\<close> written by a debit is that of a tier at its list price, from the tenant's account to the
  revenue account, and no two rows have the same transfer.
\<close>

theorem tables_follow_payments:
  assumes "ledger_laws sv posted" "reach (money_start posted) (money_step sv posted) (s, ts)"
  shows "distinct (map to_reference (rows (b_topups s))) \<and>
    (\<forall>r \<in> set (rows (b_topups s)). \<exists>i \<in> set (b_intents s). pi_status i = Credited \<and> to_reference r = pi_provider_reference i \<and>
       to_tenantId r = show_int (pi_tenant_id i) \<and> to_amountKobo r = pi_amount_kobo i \<and>
       to_tbTransferId r = Some (topupTransferId sv (pi_provider_reference i))) \<and>
    distinct (map tt_transferId (rows (b_claims s))) \<and>
    (\<forall>c \<in> set (rows (b_claims s)). \<exists>inp. tt_transferId c = tr_id (priced sv inp) \<and> tt_amount c = TIER_AMOUNTS (di_tier inp) \<and>
       tt_debitAccountId c = tenantAccount (di_tenantId inp) \<and> tt_creditAccountId c = ACCOUNT_REVENUE)"
proof (intro conjI ballI)
  note inv = reachable_parts [OF assms]
  show "distinct (map to_reference (rows (b_topups s)))" "distinct (map tt_transferId (rows (b_claims s)))"
    using inv(3,4) by (simp_all add: topups_inv_def claims_inv_def)
  show "\<exists>i \<in> set (b_intents s). pi_status i = Credited \<and> to_reference r = pi_provider_reference i \<and>
       to_tenantId r = show_int (pi_tenant_id i) \<and> to_amountKobo r = pi_amount_kobo i \<and>
       to_tbTransferId r = Some (topupTransferId sv (pi_provider_reference i))" if "r \<in> set (rows (b_topups s))" for r
    using that inv(3) unfolding topups_inv_def topup_ok_def by blast
  show "\<exists>inp. tt_transferId c = tr_id (priced sv inp) \<and> tt_amount c = TIER_AMOUNTS (di_tier inp) \<and>
       tt_debitAccountId c = tenantAccount (di_tenantId inp) \<and> tt_creditAccountId c = ACCOUNT_REVENUE"
    if "c \<in> set (rows (b_claims s))" for c
  proof -
    from inv(4) that obtain inp ct n where "c = (claim_row ct (priced sv inp) n)\<lparr>tt_reconciledAt := tt_reconciledAt c\<rparr>"
      unfolding claims_inv_def claim_ok_def by blast
    then show ?thesis by (intro exI [where x = inp]) (cases c, auto simp: claim_row_def)
  qed
qed

theorem tables_follow_payments_witness:
  "(\<exists>r \<in> set (rows (b_topups spent)). to_amountKobo r = 200000 \<and> to_tbTransferId r = Some (topupTransferId (toy_services 200000) toy_ref)) \<and>
   distinct (map tt_transferId (rows (b_claims spent)))"
proof -
  have "\<exists>r \<in> set (rows (b_topups spent)). to_amountKobo r = 200000 \<and> to_reference r = toy_ref"
    by (simp add: spent_def paid_def empty_tbl_def)
  with tables_follow_payments [OF toy_laws machine_spent] show ?thesis by fastforce
qed

end
