(* ===== verification/Billing_Outcomes.thy ===== *)
theory Billing_Outcomes
  imports Billing_Properties
begin

text \<open>
  What single calls of the billing procedures do: debits, settlements, recoveries, webhooks.
\<close>

section \<open>Debits\<close>

lemma debit_covered:
  assumes "ledger_laws sv posted" "debit_check sv ct tid tr s = (Inr x, t)"
  shows "\<exists>w st acc. t = s\<lparr>b_world := w\<rparr> \<and> posted w = posted (b_world s) \<and>
    sv_getAccount sv (tenantAccount tid) w = Response st (Json acc) \<and> http_ok st \<and> tr_amount tr \<le> available_of acc"
  using assms(2) unfolding debit_check_def ensureAccounts_def
proof (cases rule: seq_act_cases)
  case (runs y s1)
  from tbPost_accounts [OF assms(1) runs(1)] obtain w where w: "s1 = s\<lparr>b_world := w\<rparr>" "posted w = posted (b_world s)" .
  from runs(2) obtain v where "assertSufficientLedgerBalance sv tid (tr_amount tr) s1 = (Inr v, t)"
    by (auto elim!: catch_act_cases seq_act_cases)
  with sufficient_ok [OF this] sufficient_state [OF this] w show ?thesis by auto
qed auto

lemma tbPost_acknowledged:
  "tbPost sv (sv_postTransfers sv [tr]) s = (Inr x, t) \<Longrightarrow> acknowledged sv tr (b_world s) (b_world t) \<and> t = s\<lparr>b_world := b_world t\<rparr>"
  by (erule tbPost_cases) (auto simp: acknowledged_def)

lemma debit_run:
  assumes laws: "ledger_laws sv posted" and run: "debit_body sv e ct inp tr s = (Inr r, t)"
  obtains (replay) c where "t = s" "c \<in> set (rows (b_claims s))" "tt_transferId c = tr_id tr"
      "r = debit_result inp tr (tt_reconciledAt c \<noteq> None) True (Some (tt_reconciledAt c = None))"
    | (fresh) w st acc where "tr_id tr \<notin> tt_transferId ` set (rows (b_claims s))" "posted w = posted (b_world s)"
      "sv_getAccount sv (tenantAccount (di_tenantId inp)) w = Response st (Json acc)" "http_ok st" "tr_amount tr \<le> available_of acc"
      "acknowledged sv tr w (b_world t)" "r = debit_result inp tr True False None"
      "(\<exists>c \<in> set (rows (b_claims t)). tt_transferId c = tr_id tr \<and> tt_reconciledAt c \<noteq> None)"
proof -
  from run obtain c u where c: "debit_claim ct inp tr s = (Inr c, u)" and k: "(case c of Inr r \<Rightarrow> ret r
     | Inl _ \<Rightarrow> seq_act (debit_check sv ct (di_tenantId inp) tr) (\<lambda>_. seq_act (debit_post sv tr) (\<lambda>_. debit_reconcile e inp tr))) u = (Inr r, t)"
    unfolding debit_body_def by (auto elim: seq_act_cases)
  show thesis
  proof (cases c)
    case (Inr q)
    from c Inr have u: "u = s" by (cases rule: debit_claim_state) simp_all
    from c Inr obtain row where "find_claim s (tr_id tr) = Some row"
      "q = debit_result inp tr (tt_reconciledAt row \<noteq> None) True (Some (tt_reconciledAt row = None))"
      by (auto simp: debit_claim_def insert_claim_def elim!: seq_act_cases split: if_splits option.splits)
    with k Inr u show thesis using tfind_SomeD [of _ "b_claims s" row] by (intro replay [of row]) (auto simp: find_claim_def)
  next
    case (Inl q)
    with c have c': "debit_claim ct inp tr s = (Inr (Inl ()), u)" by simp
    note claim = debit_claim_effect [OF c']
    from k Inl obtain x1 u1 x2 u2 where chk: "debit_check sv ct (di_tenantId inp) tr u = (Inr x1, u1)"
      and post: "debit_post sv tr u1 = (Inr x2, u2)" and rec: "debit_reconcile e inp tr u2 = (Inr r, t)"
      by (auto elim!: seq_act_cases)
    from debit_covered [OF laws chk] obtain w st acc where w: "u1 = u\<lparr>b_world := w\<rparr>" "posted w = posted (b_world u)"
      "sv_getAccount sv (tenantAccount (di_tenantId inp)) w = Response st (Json acc)" "http_ok st" "tr_amount tr \<le> available_of acc" by blast
    from tbPost_acknowledged [OF post [unfolded debit_post_def]] obtain w2 where w2: "u2 = u1\<lparr>b_world := w2\<rparr>"
      "acknowledged sv tr w w2" using w(1) by (metis billdb.select_convs(1) billdb.surjective billdb.update_convs(1))
    from rec have t: "t = u2\<lparr>b_claims := tupdate (\<lambda>r. tt_transferId r = tr_id tr) (\<lambda>r. r\<lparr>tt_reconciledAt := Some (e_now e)\<rparr>) (b_claims u2)\<rparr>"
      and r: "r = debit_result inp tr True False None" by (auto simp: debit_reconcile_def Let_def split: if_splits)
    have "claim_row ct tr (seq (b_claims s)) \<in> set (rows (b_claims u2))" using claim(2) w(1) w2(1) by simp
    then have "(claim_row ct tr (seq (b_claims s)))\<lparr>tt_reconciledAt := Some (e_now e)\<rparr> \<in> set (rows (b_claims t))"
      unfolding t by (simp del: rows_tupdate) (rule tupdate_hit, simp_all add: claim_row_def)
    then have "\<exists>c \<in> set (rows (b_claims t)). tt_transferId c = tr_id tr \<and> tt_reconciledAt c \<noteq> None"
      by (rule rev_bexI) (simp add: claim_row_def)
    moreover have "posted w = posted (b_world s)" using w(2) claim(2) by simp
    moreover have "acknowledged sv tr w (b_world t)" using t w2 by simp
    ultimately show thesis using fresh claim(1) w(3-5) r by blast
  qed
qed

lemma recordDebit_body:
  assumes "recordDebit sv e c inp s = (r, t)"
  shows "(\<exists>err. r = Inl err \<and> t = s \<and> \<not> is_insufficient err) \<or> debit_body sv e (c_tenantId c) inp (priced sv inp) s = (r, t)"
  using assms by (auto simp: recordDebit_def writeProcedure_def assertBillingTenantAccess_def Let_def priced_def is_insufficient_def
    tb_unavailable_def split: option.splits if_splits)

text \<open>C15: The success branches of a debit. \<open>recordDebit\<close> answers with the deterministic identifier and the list price of the tier.
  A fresh answer means that no claim had this identifier, that in one state of the ledger, with the transfers that were posted when
  the call began, the tenant's available balance covered the price and the ledger answered 2xx to a post of exactly this
  transfer, and that the durable claim is marked. A replayed answer changes nothing, and says \<open>recorded\<close> just when the claim
  with this identifier is marked.
\<close>

theorem debit_success:
  assumes "ledger_laws sv posted" "recordDebit sv e c inp s = (Inr r, t)"
  shows "dr_transferId r = tr_id (priced sv inp) \<and> dr_amountKobo r = TIER_AMOUNTS (di_tier inp) \<and>
    (if dr_idempotent r
     then t = s \<and> (\<exists>q \<in> set (rows (b_claims s)). tt_transferId q = dr_transferId r \<and> (dr_recorded r \<longleftrightarrow> tt_reconciledAt q \<noteq> None))
     else dr_recorded r \<and> dr_transferId r \<notin> tt_transferId ` set (rows (b_claims s)) \<and>
          (\<exists>w st acc. posted w = posted (b_world s) \<and> sv_getAccount sv (tenantAccount (di_tenantId inp)) w = Response st (Json acc) \<and>
             http_ok st \<and> TIER_AMOUNTS (di_tier inp) \<le> available_of acc \<and> acknowledged sv (priced sv inp) w (b_world t)) \<and>
          (\<exists>q \<in> set (rows (b_claims t)). tt_transferId q = dr_transferId r \<and> tt_reconciledAt q \<noteq> None))"
proof -
  have "debit_body sv e (c_tenantId c) inp (priced sv inp) s = (Inr r, t)" using recordDebit_body [OF assms(2)] by simp
  with assms(1) show ?thesis
  proof (cases rule: debit_run)
    case (replay q)
    then show ?thesis by (auto simp: debit_result_def)
  next
    case (fresh w st acc)
    then show ?thesis by (auto simp: debit_result_def)
  qed
qed

theorem debit_success_witness:
  "(\<exists>w. acknowledged (toy_services 200000) toy_charge w (b_world spent)) \<and>
   \<not> dr_idempotent (debit_result (toy_debit Standard) toy_charge True False None)"
  using debit_success [OF toy_laws spend_run] by (auto simp: debit_result_def toy_charge_def)

lemma tbPost_plain: "tbPost sv fetch s = (Inl err, t) \<Longrightarrow> \<not> is_insufficient err"
  by (auto simp: tbPost_def is_insufficient_def tb_unavailable_def split: if_splits prod.splits reply.splits)

lemma sufficient_refused:
  assumes "assertSufficientLedgerBalance sv tid a s = (Inl err, t)" "is_insufficient err"
  shows "\<exists>v. err = InsufficientFunds tid a v \<and> v < a"
  using sufficient_error [OF assms(1)] assms(2) by (auto simp: is_insufficient_def error_code_def split: error.splits)

lemma debit_refused:
  assumes laws: "ledger_laws sv posted" and run: "debit_body sv e ct inp tr s = (Inl err, t)" and ins: "is_insufficient err"
  obtains w v where "tr_id tr \<notin> tt_transferId ` set (rows (b_claims s))" "posted w = posted (b_world s)"
    "t = release_claim ct (tr_id tr) (s\<lparr>b_claims := tinsert (claim_row ct tr) (b_claims s), b_world := w\<rparr>)"
    "err = InsufficientFunds (di_tenantId inp) (tr_amount tr) v" "v < tr_amount tr"
  using run unfolding debit_body_def
proof (cases rule: seq_act_cases)
  case (fails e')
  then show thesis using ins
    by (auto simp: debit_claim_def insert_claim_def is_insufficient_def elim!: seq_act_cases split: if_splits option.splits)
next
  case (runs c u)
  then have ci: "c = Inl ()" by (cases c) auto
  with runs have c: "debit_claim ct inp tr s = (Inr (Inl ()), u)" by simp
  note claim = debit_claim_effect [OF c]
  from runs ci have "seq_act (debit_check sv ct (di_tenantId inp) tr) (\<lambda>_. seq_act (debit_post sv tr) (\<lambda>_. debit_reconcile e inp tr)) u = (Inl err, t)"
    by simp
  then have chk: "debit_check sv ct (di_tenantId inp) tr u = (Inl err, t)"
    using ins by (auto simp: debit_post_def debit_reconcile_def Let_def is_insufficient_def tb_unavailable_def
      elim!: seq_act_cases dest!: tbPost_plain split: if_splits)
  then obtain s1 x where acc: "ensureAccounts sv (di_tenantId inp) u = (Inr x, s1)" and bal:
    "catch_act (seq_act (assertSufficientLedgerBalance sv (di_tenantId inp) (tr_amount tr)) (\<lambda>_. ret ()))
       (\<lambda>err s. (Inl err, if is_insufficient err then release_claim ct (tr_id tr) s else s)) s1 = (Inl err, t)"
    using ins unfolding debit_check_def ensureAccounts_def by (auto elim!: seq_act_cases dest: tbPost_plain)
  from tbPost_accounts [OF laws acc [unfolded ensureAccounts_def]] obtain w where w: "s1 = u\<lparr>b_world := w\<rparr>" "posted w = posted (b_world u)" .
  from bal obtain s2 where "assertSufficientLedgerBalance sv (di_tenantId inp) (tr_amount tr) s1 = (Inl err, s2)"
    "t = release_claim ct (tr_id tr) s2" using ins by (auto elim!: catch_act_cases seq_act_cases)
  with sufficient_refused [OF this(1) ins] sufficient_state [OF this(1)] that [of w] claim w show thesis by auto
qed

text \<open>C16: The refusal branch of a debit. An \<open>INSUFFICIENT\_FUNDS\<close> answer names the tenant, the list price and a smaller available
  balance; the ledger has not changed and holds no debit with this identifier. A caller with a tenant finds its claim released
  and can try again; for a caller without one, an administrator, the release compares the claim's tenant with NULL and the
  unreconciled claim stays in the table.
\<close>

theorem debit_refusal:
  assumes "ledger_laws sv posted" "reach (money_start posted) (money_step sv posted) (s, ts)"
    and "recordDebit sv e c inp s = (Inl (InsufficientFunds tid amount funds), t)"
  shows "tid = di_tenantId inp \<and> amount = TIER_AMOUNTS (di_tier inp) \<and> funds < amount \<and>
    posted (b_world t) = posted (b_world s) \<and> (\<forall>p \<in> set (posted (b_world t)). tr_code p = 1 \<longrightarrow> tr_id p \<noteq> tr_id (priced sv inp)) \<and>
    (tr_id (priced sv inp) \<in> tt_transferId ` set (rows (b_claims t)) \<longleftrightarrow> c_tenantId c = None)"
proof -
  let ?err = "InsufficientFunds tid amount funds"
  have ins: "is_insufficient ?err" by (simp add: is_insufficient_def)
  with recordDebit_body [OF assms(3)] have "debit_body sv e (c_tenantId c) inp (priced sv inp) s = (Inl ?err, t)" by auto
  from assms(1) this ins show ?thesis
  proof (rule debit_refused)
    fix w v
    assume w: "tr_id (priced sv inp) \<notin> tt_transferId ` set (rows (b_claims s))" "posted w = posted (b_world s)"
      "t = release_claim (c_tenantId c) (tr_id (priced sv inp))
             (s\<lparr>b_claims := tinsert (claim_row (c_tenantId c) (priced sv inp)) (b_claims s), b_world := w\<rparr>)"
      "?err = InsufficientFunds (di_tenantId inp) (tr_amount (priced sv inp)) v" "v < tr_amount (priced sv inp)"
    have "tr_id p \<noteq> tr_id (priced sv inp)" if "p \<in> set (posted (b_world s))" "tr_code p = 1" for p
      using posted_sources(2) [OF reachable_parts(1) [OF assms(1,2)] that] w(1) by auto
    with w show ?thesis by (auto simp: release_claim_def claim_row_def)
  qed
qed

theorem debit_refusal_witness:
  "toy_posted (b_world (spent\<lparr>b_claims := (b_claims spent)\<lparr>seq := 3\<rparr>\<rparr>)) = b_world spent \<and>
   tr_id (priced (toy_services 200000) (toy_debit Premium)) \<notin> tt_transferId ` set (rows (b_claims spent))"
  using debit_refusal [OF toy_laws machine_spent overspend_run] by (simp add: toy_posted_def)

section \<open>Settlements\<close>

lemma settle_begin_details:
  assumes "settle_begin sv e ref s = (Inr (Eligible i), t)"
  shows "intents_of s ref = [i]" "pi_status i = Intent_pending \<or> pi_status i = Verified" "e_now e \<le> pi_expires_at i"
  using assms by (auto simp: settle_begin_def split: list.splits if_splits sum.splits)

lemma paystackRequest_ok:
  "paystackRequest sv path fetch s = (Inr d, t) \<Longrightarrow> \<exists>st. fst (fetch (b_world s)) = Response st (Json (Envelope True (Some d)))"
  by (auto simp: paystackRequest_def paystackReply_def parseProviderEnvelope_def
      split: if_splits reply.splits json.splits envelope.splits option.splits prod.splits)

lemma settle_verify_details:
  assumes "settle_verify sv ref i s = (Inr (a, ch), t)"
  obtains tx st where "sv_verify sv ref (b_world s) = Response st (Json (Envelope True (Some tx)))" "px_status tx = ''success''"
    "px_reference tx = ref" "px_amount tx = of_int (pi_amount_kobo i)" "px_currency tx = Some (pi_currency i)"
proof -
  from assms obtain tx u where v: "verifiedPaystackTransaction sv ref s = (Inr tx, u)"
    and m: "px_amount tx = of_int (pi_amount_kobo i)" "px_currency tx = Some (pi_currency i)"
    unfolding settle_verify_def by (auto simp: asAmount_def elim!: seq_act_cases split: if_splits)
  from v obtain u' where "paystackRequest sv (''/transaction/verify/'' @ ref) (\<lambda>w. (sv_verify sv ref w, w)) s = (Inr tx, u')"
    and ok: "px_status tx = ''success''" "px_reference tx = ref"
    unfolding verifiedPaystackTransaction_def by (auto elim!: seq_act_cases split: if_splits)
  from paystackRequest_ok [OF this(1)] ok m that show thesis by auto
qed

lemma settle_finish_row:
  assumes "settle_finish e ref i a ch tid s = (Inr x, t)"
  shows "b_world t = b_world s \<and> sd_idempotent x = False \<and>
    (\<exists>r \<in> set (rows (b_topups t)). to_reference r = ref \<and> to_tbTransferId r = Some tid)"
proof -
  let ?s1 = "s\<lparr>b_intents := lupdate (open_intent (pi_id i)) (credit_intent e) (b_intents s)\<rparr>"
  from assms have up: "upsert_topup e (show_int (pi_tenant_id i)) ref a ch tid ?s1 = (Inr (), t)" and x: "\<not> sd_idempotent x"
    by (auto simp: settle_finish_def elim!: seq_act_cases split: if_splits)
  show ?thesis
  proof (cases "ref \<in> to_reference ` set (rows (b_topups s))")
    case True
    then obtain r where r: "r \<in> set (rows (b_topups s))" "to_reference r = ref" by blast
    from up True have t: "t = ?s1\<lparr>b_topups := tupdate (\<lambda>r. to_reference r = ref) (\<lambda>r. r\<lparr>to_tbTransferId := Some tid\<rparr>) (b_topups s)\<rparr>"
      by (auto simp: upsert_topup_def split: if_splits)
    have "r\<lparr>to_tbTransferId := Some tid\<rparr> \<in> set (rows (b_topups t))"
      unfolding t by (simp del: rows_tupdate) (rule tupdate_hit, use r in simp_all)
    with r t x show ?thesis by (intro conjI bexI [where x = "r\<lparr>to_tbTransferId := Some tid\<rparr>"]) simp_all
  next
    case False
    with up x show ?thesis by (auto simp: upsert_topup_def split: if_splits)
  qed
qed

lemma tigerBeetlePost_acknowledged:
  "tigerBeetlePost sv (sv_postTransfers sv [tr]) s = (Inr x, t) \<Longrightarrow> acknowledged sv tr (b_world s) (b_world t)"
  by (erule tigerBeetlePost_cases) (auto simp: acknowledged_def)

lemma settle_post_acknowledged:
  assumes "ledger_laws sv posted" "settle_post sv ref i a s = (Inr x, t)"
  obtains w where "posted w = posted (b_world s)" "acknowledged sv (topupTransfer sv ref (pi_tenant_id i) a) w (b_world t)"
proof -
  let ?tr = "topupTransfer sv ref (pi_tenant_id i) a"
  from assms(2) obtain u s1 where 1: "tigerBeetlePost sv (sv_postAccounts sv (accountRequests (show_int (pi_tenant_id i)))) s = (Inr u, s1)"
    and k: "seq_act (tigerBeetlePost sv (sv_postTransfers sv [?tr])) (\<lambda>_. ret (topupTransferId sv ref)) s1 = (Inr x, t)"
    unfolding settle_post_def ensureLedgerAccounts_def by (rule seq_act_cases) auto
  from k obtain u1 where 2: "tigerBeetlePost sv (sv_postTransfers sv [?tr]) s1 = (Inr u1, t)" by (rule seq_act_cases) auto
  from tigerBeetlePost_accounts [OF assms(1) 1] obtain w where "s1 = s\<lparr>b_world := w\<rparr>" "posted w = posted (b_world s)" .
  then have "posted (b_world s1) = posted (b_world s)" by simp
  then show thesis using that tigerBeetlePost_acknowledged [OF 2] by blast
qed

text \<open>C10: A settlement credits exactly what the provider confirmed. When \<open>settlePaystackPayment\<close> succeeds, the intent of the
  reference is credited and the answer is its tenant and amount. A fresh success means that there was one unexpired pending
  intent, that the provider's answer was a successful transaction with this reference, in the intent's currency and to the kobo
  its amount, that the ledger, with the transfers that were posted when the call began, answered 2xx to a post of exactly the
  transfer that credits the intent, and that the top-up row carries its identifier; a replay changes nothing.
\<close>

theorem settlement_exact:
  assumes "ledger_laws sv posted" "settlePaystackPayment sv e ref s = (Inr x, t)"
  shows "sd_transferId x = topupTransferId sv ref \<and>
    (\<exists>i \<in> set (b_intents t). pi_provider_reference i = ref \<and> pi_status i = Credited \<and> sd_tenantId x = pi_tenant_id i \<and>
       sd_amountKobo x = pi_amount_kobo i) \<and>
    (if sd_idempotent x then t = s
     else (\<exists>i tx st. intents_of s ref = [i] \<and> (pi_status i = Intent_pending \<or> pi_status i = Verified) \<and> e_now e \<le> pi_expires_at i \<and>
            sv_verify sv ref (b_world s) = Response st (Json (Envelope True (Some tx))) \<and> px_status tx = ''success'' \<and>
            px_reference tx = ref \<and> px_amount tx = of_int (pi_amount_kobo i) \<and> px_currency tx = Some (pi_currency i) \<and>
            (\<exists>w. posted w = posted (b_world s) \<and>
               acknowledged sv (topupTransfer sv ref (pi_tenant_id i) (pi_amount_kobo i)) w (b_world t))) \<and>
          (\<exists>r \<in> set (rows (b_topups t)). to_reference r = ref \<and> to_tbTransferId r = Some (sd_transferId x)))"
  using assms(2)
proof (cases rule: settle_run)
  case (replay i)
  then show ?thesis by auto
next
  case (fresh i a ch u)
  note b = settle_begin_details [OF fresh(1)]
  from settle_verify_details [OF fresh(2)] obtain tx st where tx: "sv_verify sv ref (b_world s) = Response st (Json (Envelope True (Some tx)))"
    "px_status tx = ''success''" "px_reference tx = ref" "px_amount tx = of_int (pi_amount_kobo i)" "px_currency tx = Some (pi_currency i)" .
  have a: "a = pi_amount_kobo i" using settle_verify_amount [OF fresh(2)] .
  from settle_post_acknowledged [OF assms(1) fresh(3)] obtain w where "posted w = posted (b_world s)"
    "acknowledged sv (topupTransfer sv ref (pi_tenant_id i) a) w (b_world u)" .
  with settle_finish_row [OF fresh(4)] a have "\<exists>w. posted w = posted (b_world s) \<and>
      acknowledged sv (topupTransfer sv ref (pi_tenant_id i) (pi_amount_kobo i)) w (b_world t)" by auto
  with b tx settle_ok [OF assms(2)] settle_finish_row [OF fresh(4)] show ?thesis by auto
qed

lemma settle_from_verify:
  "verifyTopUp sv e c tid ref s = (Inr x, t) \<Longrightarrow> settlePaystackPayment sv e ref s = (Inr x, t)"
  by (auto simp: verifyTopUp_def writeProcedure_def assertBillingTenantAccess_def elim!: seq_act_cases split: option.splits if_splits)

theorem settlement_exact_witness:
  "acknowledged (toy_services 200000) (topupTransfer (toy_services 200000) toy_ref 7 200000) (b_world opened) (b_world paid)"
  using settlement_exact [OF toy_laws settle_from_verify [OF pay_run]]
  by (auto simp: toy_posted_def opened_def intents_of_def toy_paying_def)

text \<open>
  The provider confirms the payment of an intent; the ledger answers 2xx to a transfer, and posts it (\<open>accepts\<close>), or
  reports in the body of the answer that it was refused (\<open>declines\<close>).
\<close>

definition confirms :: "'w services \<Rightarrow> intent \<Rightarrow> string option \<Rightarrow> 'w \<Rightarrow> bool" where
  "confirms sv i ch w \<longleftrightarrow> sv_paystackSecretKey sv \<and> sv_verify sv (pi_provider_reference i) w = Response 200 (Json (Envelope True (Some
     \<lparr>px_status = ''success'', px_amount = of_int (pi_amount_kobo i), px_currency = Some ''NGN'', px_channel = ch,
      px_reference = pi_provider_reference i\<rparr>)))"

definition answers :: "'w services \<Rightarrow> ('w \<Rightarrow> transfer list) \<Rightarrow> transfer \<Rightarrow> 'w \<Rightarrow> bool" where
  "answers sv posted tr w \<longleftrightarrow> sv_tigerBeetleUrl sv \<and> (\<forall>as w. fst (sv_postAccounts sv as w) = Response 200 ()) \<and>
     (\<forall>w'. posted w' = posted w \<longrightarrow> fst (sv_postTransfers sv [tr] w') \<in> {Response 200 (), Response 201 ()})"

definition accepts :: "'w services \<Rightarrow> ('w \<Rightarrow> transfer list) \<Rightarrow> transfer \<Rightarrow> 'w \<Rightarrow> bool" where
  "accepts sv posted tr w \<longleftrightarrow> sv_tigerBeetleUrl sv \<and> (\<forall>as w. fst (sv_postAccounts sv as w) = Response 200 ()) \<and>
     (\<forall>w'. posted w' = posted w \<longrightarrow> fst (sv_postTransfers sv [tr] w') \<in> {Response 200 (), Response 201 ()} \<and>
        tr \<in> set (posted (snd (sv_postTransfers sv [tr] w'))))"

definition declines :: "'w services \<Rightarrow> ('w \<Rightarrow> transfer list) \<Rightarrow> transfer \<Rightarrow> 'w \<Rightarrow> bool" where
  "declines sv posted tr w \<longleftrightarrow> sv_tigerBeetleUrl sv \<and> (\<forall>as w. fst (sv_postAccounts sv as w) = Response 200 ()) \<and>
     (\<forall>w'. posted w' = posted w \<longrightarrow> fst (sv_postTransfers sv [tr] w') = Response 200 () \<and>
        posted (snd (sv_postTransfers sv [tr] w')) = posted w')"

lemma accepts_answers: "accepts sv posted tr w \<Longrightarrow> answers sv posted tr w"
  and declines_answers: "declines sv posted tr w \<Longrightarrow> answers sv posted tr w"
  by (auto simp: accepts_def declines_def answers_def)

lemma tigerBeetlePost_up:
  "sv_tigerBeetleUrl sv \<Longrightarrow> fst (fetch (b_world s)) = Response st u \<Longrightarrow> http_ok st \<Longrightarrow>
     tigerBeetlePost sv fetch s = (Inr (), s\<lparr>b_world := snd (fetch (b_world s))\<rparr>)"
  by (cases "fetch (b_world s)") (simp add: tigerBeetlePost_def)

lemma settle_runs_through:
  assumes laws: "ledger_laws sv posted" and r: "reach (money_start posted) (money_step sv posted) (s, ts)"
    and i: "i \<in> set (b_intents s)" "pi_status i = Intent_pending" "e_now e \<le> pi_expires_at i"
    and up: "e_dbUp e" "confirms sv i ch (b_world s)" "answers sv posted (credit_of sv i) (b_world s)"
  obtains w where "\<exists>w0. posted w0 = posted (b_world s) \<and> w = snd (sv_postTransfers sv [credit_of sv i] w0)"
    "settlePaystackPayment sv e (pi_provider_reference i) s =
       settle_finish e (pi_provider_reference i) i (pi_amount_kobo i) (case ch of None \<Rightarrow> ''paystack'' | Some c \<Rightarrow> c)
         (topupTransferId sv (pi_provider_reference i)) (s\<lparr>b_world := w\<rparr>)"
proof -
  let ?ref = "pi_provider_reference i" and ?a = "pi_amount_kobo i" and ?c = "case ch of None \<Rightarrow> ''paystack'' | Some c \<Rightarrow> c"
  note inv = reachable_parts(2) [OF laws r]
  have ok: "isSafeInteger ?a" "0 < ?a" "pi_currency i = ''NGN''" using inv i(1) by (auto simp: intents_inv_def intent_ok_def)
  have "intents_of s ?ref = [i]"
    unfolding intents_of_def using filter_unique [of pi_provider_reference "b_intents s" i] inv i(1) by (simp add: intents_inv_def)
  then have b: "settle_begin sv e ?ref s = (Inr (Eligible i), s)" using i by (simp add: settle_begin_def)
  have v: "settle_verify sv ?ref i s = (Inr (?a, ?c), s)"
    using up(2) ok by (simp add: confirms_def settle_verify_def verifiedPaystackTransaction_def paystackRequest_def paystackReply_def
      http_ok_def parseProviderEnvelope_def is_safe_rat_def asAmount_def isSafeInteger_def)
  obtain u where p: "settle_post sv ?ref i ?a s = (Inr (topupTransferId sv ?ref), u)"
  proof -
    let ?req = "sv_postAccounts sv (accountRequests (show_int (pi_tenant_id i)))" and ?tr = "topupTransfer sv ?ref (pi_tenant_id i) ?a"
    let ?s1 = "s\<lparr>b_world := snd (?req (b_world s))\<rparr>"
    from up(3) have "tigerBeetlePost sv ?req s = (Inr (), ?s1)" by (simp add: answers_def tigerBeetlePost_up http_ok_def)
    moreover have "posted (b_world ?s1) = posted (b_world s)" using law_accounts [OF laws] by simp
    then have "fst (sv_postTransfers sv [?tr] (b_world ?s1)) \<in> {Response 200 (), Response 201 ()}"
      using up(3) unfolding answers_def credit_of_def by blast
    then have "\<exists>u. tigerBeetlePost sv (sv_postTransfers sv [?tr]) ?s1 = (Inr (), u)"
      using up(3) tigerBeetlePost_up [of sv "sv_postTransfers sv [?tr]" ?s1] by (auto simp: answers_def http_ok_def)
    ultimately show thesis using that by (auto simp: settle_post_def ensureLedgerAccounts_def)
  qed
  from settle_post_effect [OF laws p] obtain w where w: "u = s\<lparr>b_world := w\<rparr>" by blast
  from settle_post_acknowledged [OF laws p] w have "\<exists>w0. posted w0 = posted (b_world s) \<and> w = snd (sv_postTransfers sv [credit_of sv i] w0)"
    by (auto simp: acknowledged_def credit_of_def)
  with w that b v p up(1) show thesis by (simp add: settlePaystackPayment_def)
qed

lemma credited_replays:
  assumes "i \<in> set (b_intents s)" "distinct (map pi_provider_reference (b_intents s))" "pi_status i = Credited"
    "isSafeInteger (pi_amount_kobo i)" "0 < pi_amount_kobo i" "e_dbUp e"
  shows "settlePaystackPayment sv e (pi_provider_reference i) s = (Inr \<lparr>sd_transferId = topupTransferId sv (pi_provider_reference i),
    sd_idempotent = True, sd_tenantId = pi_tenant_id i, sd_amountKobo = pi_amount_kobo i\<rparr>, s)"
  using assms filter_unique [OF assms(2,1)]
  by (simp add: settlePaystackPayment_def settle_begin_def intents_of_def asAmount_def)

lemma upsert_fits:
  assumes "amount \<le> MAX_INT32" "length channel \<le> 64" "length transferId \<le> 64" "length tenantId \<le> 64" "length ref \<le> 256"
  obtains T where "upsert_topup e tenantId ref amount channel transferId s = (Inr (), s\<lparr>b_topups := T\<rparr>)"
  using assms by (cases "ref \<in> to_reference ` set (rows (b_topups s))") (simp_all add: upsert_topup_def)

lemma lupdate_open:
  assumes "distinct (map pi_id I)" "i \<in> set I" "pi_status i = Intent_pending"
  shows "length (filter (open_intent (pi_id i)) I) = 1" "credit_intent e i \<in> set (lupdate (open_intent (pi_id i)) (credit_intent e) I)"
    "map pi_provider_reference (lupdate (open_intent (pi_id i)) (credit_intent e) I) = map pi_provider_reference I"
proof -
  have "filter (open_intent (pi_id i)) I = filter (\<lambda>j. pi_status j = Intent_pending \<or> pi_status j = Verified) (filter (\<lambda>j. pi_id j = pi_id i) I)"
    by (simp add: open_intent_def [abs_def] conj_commute)
  with filter_unique [OF assms(1,2)] assms(3) show "length (filter (open_intent (pi_id i)) I) = 1" by simp
  show "credit_intent e i \<in> set (lupdate (open_intent (pi_id i)) (credit_intent e) I)"
    by (rule lupdate_hit [OF assms(2)]) (simp add: open_intent_def assms(3))
  show "map pi_provider_reference (lupdate (open_intent (pi_id i)) (credit_intent e) I) = map pi_provider_reference I"
    by (rule map_lupdate) (simp add: credit_intent_def)
qed

lemma settle_finish_fits:
  assumes "distinct (map pi_id (b_intents s))" "i \<in> set (b_intents s)" "pi_status i = Intent_pending"
    and "pi_amount_kobo i \<le> MAX_INT32" "length (show_int (pi_tenant_id i)) \<le> 64" "length (pi_provider_reference i) \<le> 160" "length ch \<le> 64"
  shows "\<exists>t. settle_finish e (pi_provider_reference i) i (pi_amount_kobo i) ch (topupTransferId sv (pi_provider_reference i)) (s\<lparr>b_world := w\<rparr>) =
      (Inr \<lparr>sd_transferId = topupTransferId sv (pi_provider_reference i), sd_idempotent = False, sd_tenantId = pi_tenant_id i,
         sd_amountKobo = pi_amount_kobo i\<rparr>, t) \<and> b_world t = w \<and>
      b_intents t = lupdate (open_intent (pi_id i)) (credit_intent e) (b_intents s)"
proof -
  let ?tid = "topupTransferId sv (pi_provider_reference i)"
  have "length ?tid \<le> 64" by (simp add: topupTransferId_def)
  with assms(4-7) obtain T where "upsert_topup e (show_int (pi_tenant_id i)) (pi_provider_reference i) (pi_amount_kobo i) ch ?tid
      (s\<lparr>b_world := w, b_intents := lupdate (open_intent (pi_id i)) (credit_intent e) (b_intents s)\<rparr>) =
      (Inr (), s\<lparr>b_world := w, b_intents := lupdate (open_intent (pi_id i)) (credit_intent e) (b_intents s), b_topups := T\<rparr>)"
    using upsert_fits [of "pi_amount_kobo i" ch ?tid "show_int (pi_tenant_id i)" "pi_provider_reference i" e
      "s\<lparr>b_world := w, b_intents := lupdate (open_intent (pi_id i)) (credit_intent e) (b_intents s)\<rparr>"] by auto
  with lupdate_open(1) [OF assms(1-3)] show ?thesis by (simp add: settle_finish_def)
qed

text \<open>C11: A confirmed payment is credited. In a reachable state with the database, the provider and the ledger up, settling an
  unexpired pending intent whose amount fits the 32-bit column succeeds: the intent becomes credited, its transfer is posted and
  its top-up row is there. Every later settlement of the same reference answers with the same data, marked idempotent, and
  changes nothing.
\<close>

theorem settlement_succeeds:
  assumes "ledger_laws sv posted" "reach (money_start posted) (money_step sv posted) (s, ts)"
    and "i \<in> set (b_intents s)" "pi_status i = Intent_pending" "e_now e \<le> pi_expires_at i"
    and "e_dbUp e" "confirms sv i ch (b_world s)" "accepts sv posted (credit_of sv i) (b_world s)"
    and "pi_amount_kobo i \<le> MAX_INT32" "length (show_int (pi_tenant_id i)) \<le> 64" "length (pi_provider_reference i) \<le> 160"
      "length (case ch of None \<Rightarrow> ''paystack'' | Some c \<Rightarrow> c) \<le> 64"
  shows "\<exists>t x. settlePaystackPayment sv e (pi_provider_reference i) s = (Inr x, t) \<and> \<not> sd_idempotent x \<and>
    sd_amountKobo x = pi_amount_kobo i \<and> credit_of sv i \<in> set (posted (b_world t)) \<and> credit_intent e i \<in> set (b_intents t) \<and>
    pi_provider_reference i \<in> to_reference ` set (rows (b_topups t)) \<and>
    (\<forall>e'. e_dbUp e' \<longrightarrow> settlePaystackPayment sv e' (pi_provider_reference i) t = (Inr (x\<lparr>sd_idempotent := True\<rparr>), t))"
proof -
  let ?ref = "pi_provider_reference i" and ?c = "case ch of None \<Rightarrow> ''paystack'' | Some c \<Rightarrow> c" and ?tid = "topupTransferId sv (pi_provider_reference i)"
  from settle_runs_through [OF assms(1-7) accepts_answers [OF assms(8)]] obtain w
    where w0: "\<exists>w0. posted w0 = posted (b_world s) \<and> w = snd (sv_postTransfers sv [credit_of sv i] w0)" and run:
    "settlePaystackPayment sv e ?ref s = settle_finish e ?ref i (pi_amount_kobo i) ?c ?tid (s\<lparr>b_world := w\<rparr>)" .
  from w0 assms(8) have w: "credit_of sv i \<in> set (posted w)" unfolding accepts_def by blast
  note inv = reachable_parts(2) [OF assms(1,2)]
  have ids: "distinct (map pi_id (b_intents s))" "distinct (map pi_provider_reference (b_intents s))"
    and amt: "isSafeInteger (pi_amount_kobo i)" "0 < pi_amount_kobo i"
    using inv assms(3) by (auto simp: intents_inv_def intent_ok_def)
  note op = lupdate_open [OF ids(1) assms(3,4)] and fin = settle_finish_fits [OF ids(1) assms(3,4,9-12), of e sv w]
  from fin obtain t where fin: "settle_finish e ?ref i (pi_amount_kobo i) ?c ?tid (s\<lparr>b_world := w\<rparr>) =
      (Inr \<lparr>sd_transferId = ?tid, sd_idempotent = False, sd_tenantId = pi_tenant_id i, sd_amountKobo = pi_amount_kobo i\<rparr>, t)"
    and t: "b_world t = w" "b_intents t = lupdate (open_intent (pi_id i)) (credit_intent e) (b_intents s)" by blast
  have "?ref \<in> to_reference ` set (rows (b_topups t))" using settle_finish_row [OF fin] by (auto intro: rev_image_eqI)
  moreover have "settlePaystackPayment sv e' ?ref t = (Inr \<lparr>sd_transferId = ?tid, sd_idempotent = True, sd_tenantId = pi_tenant_id i,
      sd_amountKobo = pi_amount_kobo i\<rparr>, t)" if "e_dbUp e'" for e'
    using credited_replays [of "credit_intent e i" t e' sv] op(2,3) ids(2) t(2) amt that by (simp add: credit_intent_def)
  ultimately show ?thesis using run fin w t op(2) by simp
qed

text \<open>C38: A top-up above 2147483647 kobo is credited in the ledger and then lost to the top-up table. The same settlement of a larger
  intent posts the transfer and credits the intent, but then fails on the 32-bit column \<open>amountKobo\<close>; every retry answers
  success as a replay and never writes the row, so no list of top-ups or reconciliation query will show the payment.
\<close>

theorem large_topup_never_recorded:
  assumes "ledger_laws sv posted" "reach (money_start posted) (money_step sv posted) (s, ts)"
    and "i \<in> set (b_intents s)" "pi_status i = Intent_pending" "e_now e \<le> pi_expires_at i"
    and "e_dbUp e" "confirms sv i ch (b_world s)" "accepts sv posted (credit_of sv i) (b_world s)"
    and "MAX_INT32 < pi_amount_kobo i" "pi_provider_reference i \<notin> to_reference ` set (rows (b_topups s))"
  shows "\<exists>t x. settlePaystackPayment sv e (pi_provider_reference i) s = (Inl DbError, t) \<and>
    credit_of sv i \<in> set (posted (b_world t)) \<and> credit_intent e i \<in> set (b_intents t) \<and>
    pi_provider_reference i \<notin> to_reference ` set (rows (b_topups t)) \<and> sd_idempotent x \<and>
    (\<forall>e'. e_dbUp e' \<longrightarrow> settlePaystackPayment sv e' (pi_provider_reference i) t = (Inr x, t))"
proof -
  let ?ref = "pi_provider_reference i" and ?c = "case ch of None \<Rightarrow> ''paystack'' | Some c \<Rightarrow> c" and ?tid = "topupTransferId sv (pi_provider_reference i)"
  from settle_runs_through [OF assms(1-7) accepts_answers [OF assms(8)]] obtain w
    where w0: "\<exists>w0. posted w0 = posted (b_world s) \<and> w = snd (sv_postTransfers sv [credit_of sv i] w0)" and run:
    "settlePaystackPayment sv e ?ref s = settle_finish e ?ref i (pi_amount_kobo i) ?c ?tid (s\<lparr>b_world := w\<rparr>)" .
  from w0 assms(8) have w: "credit_of sv i \<in> set (posted w)" unfolding accepts_def by blast
  note inv = reachable_parts(2) [OF assms(1,2)]
  have ids: "distinct (map pi_id (b_intents s))" "distinct (map pi_provider_reference (b_intents s))"
    and amt: "isSafeInteger (pi_amount_kobo i)" "0 < pi_amount_kobo i"
    using inv assms(3) by (auto simp: intents_inv_def intent_ok_def)
  note op = lupdate_open [OF ids(1) assms(3,4)]
  let ?t = "s\<lparr>b_world := w, b_intents := lupdate (open_intent (pi_id i)) (credit_intent e) (b_intents s)\<rparr>"
  have fin: "settle_finish e ?ref i (pi_amount_kobo i) ?c ?tid (s\<lparr>b_world := w\<rparr>) = (Inl DbError, ?t)"
    using op(1) assms(9) by (simp add: settle_finish_def upsert_topup_def)
  have "settlePaystackPayment sv e' ?ref ?t = (Inr \<lparr>sd_transferId = ?tid, sd_idempotent = True, sd_tenantId = pi_tenant_id i,
      sd_amountKobo = pi_amount_kobo i\<rparr>, ?t)" if "e_dbUp e'" for e'
    using credited_replays [of "credit_intent e i" ?t e' sv] op(2,3) ids(2) amt that by (simp add: credit_intent_def)
  with run fin w op(2) assms(10) show ?thesis
    by (intro exI [where x = ?t] exI [where x = "\<lparr>sd_transferId = ?tid, sd_idempotent = True, sd_tenantId = pi_tenant_id i,
      sd_amountKobo = pi_amount_kobo i\<rparr>"]) simp
qed

text \<open>C5: A transfer the ledger refused is credited all the same. The ledger answers 200 and reports in the body that it did not
  post the transfer; the settlement, which does not read the body, succeeds: the intent becomes credited and its top-up row
  carries the identifier of a transfer that is not posted. Every later settlement of the same reference answers
  success, marked idempotent, and does not ask the ledger again.
\<close>

theorem refused_transfer_is_credited:
  assumes "ledger_laws sv posted" "reach (money_start posted) (money_step sv posted) (s, ts)"
    and "i \<in> set (b_intents s)" "pi_status i = Intent_pending" "e_now e \<le> pi_expires_at i"
    and "e_dbUp e" "confirms sv i ch (b_world s)" "declines sv posted (credit_of sv i) (b_world s)"
    and "credit_of sv i \<notin> set (posted (b_world s))"
    and "pi_amount_kobo i \<le> MAX_INT32" "length (show_int (pi_tenant_id i)) \<le> 64" "length (pi_provider_reference i) \<le> 160"
      "length (case ch of None \<Rightarrow> ''paystack'' | Some c \<Rightarrow> c) \<le> 64"
  shows "\<exists>t x. settlePaystackPayment sv e (pi_provider_reference i) s = (Inr x, t) \<and> \<not> sd_idempotent x \<and>
    posted (b_world t) = posted (b_world s) \<and> credit_of sv i \<notin> set (posted (b_world t)) \<and> credit_intent e i \<in> set (b_intents t) \<and>
    (\<exists>r \<in> set (rows (b_topups t)). to_reference r = pi_provider_reference i \<and> to_tbTransferId r = Some (tr_id (credit_of sv i))) \<and>
    (\<forall>e'. e_dbUp e' \<longrightarrow> settlePaystackPayment sv e' (pi_provider_reference i) t = (Inr (x\<lparr>sd_idempotent := True\<rparr>), t))"
proof -
  let ?ref = "pi_provider_reference i" and ?c = "case ch of None \<Rightarrow> ''paystack'' | Some c \<Rightarrow> c" and ?tid = "topupTransferId sv (pi_provider_reference i)"
  from settle_runs_through [OF assms(1-7) declines_answers [OF assms(8)]] obtain w
    where w0: "\<exists>w0. posted w0 = posted (b_world s) \<and> w = snd (sv_postTransfers sv [credit_of sv i] w0)" and run:
    "settlePaystackPayment sv e ?ref s = settle_finish e ?ref i (pi_amount_kobo i) ?c ?tid (s\<lparr>b_world := w\<rparr>)" .
  from w0 assms(8) have w: "posted w = posted (b_world s)" unfolding declines_def by auto
  note inv = reachable_parts(2) [OF assms(1,2)]
  have ids: "distinct (map pi_id (b_intents s))" "distinct (map pi_provider_reference (b_intents s))"
    and amt: "isSafeInteger (pi_amount_kobo i)" "0 < pi_amount_kobo i"
    using inv assms(3) by (auto simp: intents_inv_def intent_ok_def)
  note op = lupdate_open [OF ids(1) assms(3,4)] and fin = settle_finish_fits [OF ids(1) assms(3,4,10-13), of e sv w]
  from fin obtain t where fin: "settle_finish e ?ref i (pi_amount_kobo i) ?c ?tid (s\<lparr>b_world := w\<rparr>) =
      (Inr \<lparr>sd_transferId = ?tid, sd_idempotent = False, sd_tenantId = pi_tenant_id i, sd_amountKobo = pi_amount_kobo i\<rparr>, t)"
    and t: "b_world t = w" "b_intents t = lupdate (open_intent (pi_id i)) (credit_intent e) (b_intents s)" by blast
  have "settlePaystackPayment sv e' ?ref t = (Inr \<lparr>sd_transferId = ?tid, sd_idempotent = True, sd_tenantId = pi_tenant_id i,
      sd_amountKobo = pi_amount_kobo i\<rparr>, t)" if "e_dbUp e'" for e'
    using credited_replays [of "credit_intent e i" t e' sv] op(2,3) ids(2) t(2) amt that by (simp add: credit_intent_def)
  with run fin w t op(2) assms(9) settle_finish_row [OF fin] show ?thesis by simp
qed

theorem settlement_succeeds_witness:
  "e_now sample_env \<le> pi_expires_at (toy_paying Intent_pending) \<and>
   (\<exists>t x. settlePaystackPayment (toy_services 200000) sample_env toy_ref opened = (Inr x, t) \<and> sd_amountKobo x = 200000)"
proof -
  have i: "toy_paying Intent_pending \<in> set (b_intents opened)" by (simp add: opened_def)
  have acc: "accepts (toy_services 200000) toy_posted (credit_of (toy_services 200000) (toy_paying Intent_pending)) (b_world opened)"
    by (simp add: accepts_def toy_posted_def opened_def toy_post_def)
  have con: "confirms (toy_services 200000) (toy_paying Intent_pending) (Some ''card'') (b_world opened)"
    by (simp add: confirms_def toy_services_def toy_paying_def)
  have "length (show_int (pi_tenant_id (toy_paying Intent_pending))) \<le> 64" "length (pi_provider_reference (toy_paying Intent_pending)) \<le> 160"
    "pi_amount_kobo (toy_paying Intent_pending) \<le> MAX_INT32"
    by (simp_all add: toy_paying_def toy_texts MAX_INT32_def)
  with settlement_succeeds [OF toy_laws history_reachable [OF reach_opened] i _ _ _ con acc, of sample_env] show ?thesis
    by (auto simp: toy_paying_def)
qed

text \<open>A ledger that answers 200 to every transfer and posts none.\<close>

definition refusing_services :: "transfer list services" where
  "refusing_services = (toy_services 200000)\<lparr>sv_postTransfers := (\<lambda>ts w. (Response 200 (), w))\<rparr>"

lemma refusing_laws: "ledger_laws refusing_services toy_posted"
  by (auto simp: ledger_laws_def refusing_services_def toy_services_def toy_posted_def)

lemma open_refusing_run:
  "initiateTopUp (\<lambda>_. True) (\<lambda>_. True) refusing_services sample_env analyst_ctx ''i1'' toy_uuid ''7'' 200000 ''a@b.c'' None empty_billdb
   = (Inr \<lparr>td_authorizationUrl = ''https://pay'', td_accessCode = ''code'', td_reference = toy_ref, td_expiresAt = 1700001800000\<rparr>, opened)"
  by code_simp

theorem refused_transfer_is_credited_witness:
  "\<exists>t x. settlePaystackPayment refusing_services sample_env toy_ref opened = (Inr x, t) \<and> b_world t = [] \<and>
     (\<exists>j \<in> set (b_intents t). pi_status j = Credited)"
proof -
  let ?i = "toy_paying Intent_pending"
  have i: "?i \<in> set (b_intents opened)" by (simp add: opened_def)
  have dec: "declines refusing_services toy_posted (credit_of refusing_services ?i) (b_world opened)"
    by (simp add: declines_def refusing_services_def toy_services_def toy_posted_def)
  have con: "confirms refusing_services ?i (Some ''card'') (b_world opened)"
    by (simp add: confirms_def refusing_services_def toy_services_def toy_paying_def)
  have r: "reach (billing_start toy_posted) (billing_call refusing_services) opened"
    using reach_step [OF reach_start bc_topup [OF open_refusing_run]] .
  have "length (show_int (pi_tenant_id ?i)) \<le> 64" "length (pi_provider_reference ?i) \<le> 160" "pi_amount_kobo ?i \<le> MAX_INT32"
    "credit_of refusing_services ?i \<notin> set (toy_posted (b_world opened))"
    by (simp_all add: toy_paying_def toy_texts MAX_INT32_def toy_posted_def opened_def)
  with refused_transfer_is_credited [OF refusing_laws history_reachable [OF r] i _ _ _ con dec, of sample_env]
  obtain t x where t: "settlePaystackPayment refusing_services sample_env toy_ref opened = (Inr x, t)" "b_world t = []"
    "credit_intent sample_env ?i \<in> set (b_intents t)" by (auto simp: toy_paying_def toy_posted_def opened_def)
  have "pi_status (credit_intent sample_env ?i) = Credited" by (simp add: credit_intent_def)
  with t show ?thesis by blast
qed

theorem large_topup_never_recorded_witness:
  "3000000000 = pi_amount_kobo big_intent \<and>
   (\<exists>t. settlePaystackPayment (toy_services 3000000000) sample_env toy_ref opened_big = (Inl DbError, t) \<and>
      toy_ref \<notin> to_reference ` set (rows (b_topups t)))"
proof -
  let ?sv = "toy_services 3000000000"
  have i: "big_intent \<in> set (b_intents opened_big)" by (simp add: opened_big_def)
  have acc: "accepts ?sv toy_posted (credit_of ?sv big_intent) (b_world opened_big)"
    by (simp add: accepts_def toy_posted_def opened_big_def toy_post_def)
  have con: "confirms ?sv big_intent (Some ''card'') (b_world opened_big)"
    by (simp add: confirms_def toy_services_def toy_paying_def)
  from large_topup_never_recorded [OF toy_laws history_reachable [OF reach_opened_big] i _ _ _ con acc, of sample_env]
  obtain t x where "settlePaystackPayment ?sv sample_env (pi_provider_reference big_intent) opened_big = (Inl DbError, t)"
    "pi_provider_reference big_intent \<notin> to_reference ` set (rows (b_topups t))"
    by (auto simp: toy_paying_def MAX_INT32_def opened_big_def empty_tbl_def)
  then show ?thesis by (simp add: toy_paying_def)
qed

section \<open>Recovery\<close>

definition hex_digest :: "'w services \<Rightarrow> bool" where
  "hex_digest sv \<longleftrightarrow> (\<forall>x. list_all is_hex_char (sv_sha256 sv x) \<and> sv_sha256 sv x \<noteq> [])"

lemma no_such_prefix: "list_all P x \<Longrightarrow> c \<in> set p \<Longrightarrow> \<not> P c \<Longrightarrow> \<not> starts_with x p"
  unfolding starts_with_def list_all_iff by (metis in_set_takeD)

lemma transfer_id_shape:
  assumes "hex_digest sv"
  shows "topupTransferId sv ref \<noteq> []" "\<not> starts_with (topupTransferId sv ref) ''fallback-''" "\<not> starts_with (topupTransferId sv ref) ''pending:''"
proof -
  have h: "list_all is_hex_char (topupTransferId sv ref)" and ne: "topupTransferId sv ref \<noteq> []"
    using assms by (auto simp: hex_digest_def topupTransferId_def list_all_iff dest: in_set_takeD)
  from ne show "topupTransferId sv ref \<noteq> []" .
  have "\<not> is_hex_char (CHR ''l'')" "\<not> is_hex_char (CHR ''p'')" by code_simp+
  then show "\<not> starts_with (topupTransferId sv ref) ''fallback-''" "\<not> starts_with (topupTransferId sv ref) ''pending:''"
    using no_such_prefix [OF h, of "CHR ''l''" "''fallback-''"] no_such_prefix [OF h, of "CHR ''p''" "''pending:''"] by simp_all
qed

lemma topups_recorded:
  assumes "ledger_laws sv posted" "hex_digest sv" "reach (money_start posted) (money_step sv posted) (s, ts)" "r \<in> set (rows (b_topups s))"
  shows "recorded_in_ledger r" "\<not> retry_eligible r" "\<not> unreconciled r"
proof -
  from reachable_parts(3) [OF assms(1,3)] assms(4) obtain ref where "to_tbTransferId r = Some (topupTransferId sv ref)"
    unfolding topups_inv_def topup_ok_def by blast
  then show "recorded_in_ledger r" "\<not> retry_eligible r" "\<not> unreconciled r"
    using transfer_id_shape [OF assms(2)] by (simp_all add: recorded_in_ledger_def retry_eligible_def unreconciled_def)
qed

lemma matching_in: "matching_topup ref tid a s = Some r \<Longrightarrow> r \<in> set (rows (b_topups s))"
  unfolding matching_topup_def by (drule tfind_SomeD) simp

text \<open>The recovery of top-ups has nothing to recover. Only a settlement writes \<open>billing\_topups\<close>, and always with the ledger's
  identifier, so in every reachable state no top-up is listed as unreconciled, and \<open>retryCredit\<close>, \<open>forceCredit\<close> and
  \<open>requestForceCredit\<close> refuse every request and leave the database alone: a payment that was accepted but never credited has no row
  for them to match.
\<close>

theorem recovery_has_nothing_to_do:
  assumes "ledger_laws sv posted" "hex_digest sv" "reach (money_start posted) (money_step sv posted) (s, ts)"
  shows "tselect unreconciled (b_topups s) = [] \<and>
    (\<exists>err. retryCredit sv e c ref tid amount s = (Inl err, s)) \<and>
    (\<exists>err. forceCredit thr sv e c openId ref tid amount note s = (Inl err, s)) \<and>
    (\<exists>err. requestForceCredit thr e c ref tid amount note s = (Inl err, s))"
proof (intro conjI)
  note rec = topups_recorded [OF assms]
  show "tselect unreconciled (b_topups s) = []" using rec(3) by (auto simp: tselect_def filter_empty_conv)
  show "\<exists>err. retryCredit sv e c ref tid amount s = (Inl err, s)"
    by (auto simp: retryCredit_def adminProcedure_def dest: rec(2) [OF matching_in] split: option.splits if_splits)
  show "\<exists>err. forceCredit thr sv e c openId ref tid amount note s = (Inl err, s)"
    by (auto simp: forceCredit_def adminProcedure_def dest: rec(1) [OF matching_in] split: option.splits if_splits)
  show "\<exists>err. requestForceCredit thr e c ref tid amount note s = (Inl err, s)"
    by (auto simp: requestForceCredit_def adminProcedure_def dest: rec(1) [OF matching_in] split: option.splits if_splits)
qed

theorem recovery_has_nothing_to_do_witness:
  "\<exists>err. retryCredit hex_services sample_env admin_ctx toy_ref ''7'' 200000 paid_hex = (Inl err, paid_hex)"
proof -
  have "hex_digest hex_services" by (simp add: hex_digest_def hex_services_def list_all_iff) code_simp
  from recovery_has_nothing_to_do [OF hex_laws this history_reachable [OF reach_paid_hex]] show ?thesis by blast
qed

lemma seq_throws: "\<exists>err'. fst (seq_act m (\<lambda>_. throw err) s) = Inl err'"
  by (cases "m s"; cases "fst (m s)") auto

text \<open>No high-value recovery can be approved. The TOTP table is only written by enrolments that store an encrypted secret of 92
  characters in a column of 64, so in every state reachable from an empty table \<open>approveForceCredit\<close> finds no verified
  authenticator and every call is refused.
\<close>

theorem force_credit_never_approved:
  assumes "crypto_laws cr" "reach (\<lambda>t. rows t = []) (totp_step hmac cr) (b_totp s)"
  shows "\<exists>err. fst (approveForceCredit hmac cr sv e c openId k note code s) = Inl err"
proof -
  have "rows (b_totp s) = []" using totp_reachable [OF assms] .
  then have "stepUpMfa hmac cr e uid code s = Some (TRPCError PRECONDITION_FAILED
      ''A verified authenticator app is required before authorizing a high-value Force Credit'')" for uid
    by (simp add: stepUpMfa_def totp_of_def tfind_def)
  then show ?thesis
    by (auto simp: approveForceCredit_def adminProcedure_def assertDesignatedForceCreditApprover_def seq_throws
      split: option.splits if_splits)
qed

end
