(* ===== verification/Commercial_Properties.thy ===== *)
theory Commercial_Properties
  imports Billing_Outcomes Billing_Entitlements
begin

text \<open>
  What the commercial side guarantees: entitled units, reservations, contracts, self-service
  signups and refunds.
\<close>

section \<open>Entitled units\<close>

text \<open>C7: Entitled units are never oversold. In every state reachable through contracts, signups, reservations, consumptions and
  metering, the two counters of an entitlement are exactly the numbers of its held and used reservations, together at most the
  units granted, and the usage events are one per used reservation.
\<close>

theorem units_never_oversold:
  assumes "reach ent_start (ent_step sv) s" "n \<in> set (b_entitlements s)"
  shows "en_reserved_units n = int (count (tally (b_reservations s)) (en_id n, Reserved)) \<and>
    en_consumed_units n = int (count (tally (b_reservations s)) (en_id n, Consumed)) \<and>
    en_consumed_units n + en_reserved_units n \<le> en_total_units n \<and>
    mset (map us_reservation_id (b_usage s)) = used (b_reservations s)"
proof -
  have "unit_ok (b_reservations s) n" "mset (map us_reservation_id (b_usage s)) = used (b_reservations s)"
    using entitlement_machine.inv_reachable [OF assms(1)] assms(2) by (simp_all add: ent_inv_def)
  then show ?thesis by (simp add: unit_ok_def)
qed

text \<open>What a call to \<open>reserveCompletedCheck\<close> does once it is past its guards.\<close>

lemma reserve_call:
  assumes "reserveCompletedCheck uuid_ok e c locked uuid i s = (r, t)"
  obtains (refused) err where "r = Inl err" "t = s"
    | (admitted) u where "c_user c = Some u" "in_transaction (reserve_check e locked uuid (u_id u) i) s = (r, t)"
        "c_tenantId c = None \<or> c_tenantId c = Some (ri_tenantId i)"
  using assms by (auto simp: reserveCompletedCheck_def writeProcedure_def requireTenantScope_def split: option.splits if_splits)

text \<open>The entitlement of a tenant that a reservation takes its unit from.\<close>

lemma pick_earliest:
  assumes "pick_entitlement e locked tid s = Some n" "m \<in> set (b_entitlements s)" "available e tid m" "\<not> locked (en_id m)"
  shows "en_period_end n \<le> en_period_end m"
proof -
  let ?l = "sort_key en_period_end (filter (\<lambda>n. available e tid n \<and> \<not> locked (en_id n)) (b_entitlements s))"
  from assms(1) obtain ns where l: "?l = n # ns" by (auto simp: pick_entitlement_def split: list.splits)
  have "sorted (map en_period_end ?l)" by simp
  then have "\<forall>k \<in> set ns. en_period_end n \<le> en_period_end k" by (simp add: l)
  moreover have "m \<in> set ?l" using assms(2-4) by simp
  ultimately show ?thesis unfolding l by auto
qed

text \<open>C19: The branches of a reservation. A refused call changes nothing. A replayed one changes nothing and names a held reservation.
  A fresh one takes one unit from an active entitlement of the tenant that had a unit left, the one that ends first among those
  no concurrent transaction has locked, and adds one held reservation that expires after twenty minutes.
\<close>

theorem reserve_outcome:
  assumes "reserveCompletedCheck uuid_ok e c locked uuid i s = (r, t)"
  shows "case r of Inl err \<Rightarrow> t = s
    | Inr x \<Rightarrow>
        (t = s \<and> (\<exists>q \<in> set (b_reservations s). rs_id q = rr_reservationId x \<and> rs_status q = Reserved)) \<or>
        (\<exists>n u. n \<in> set (b_entitlements s) \<and> available e (ri_tenantId i) n \<and> \<not> locked (en_id n) \<and>
           (\<forall>m \<in> set (b_entitlements s). available e (ri_tenantId i) m \<and> \<not> locked (en_id m) \<longrightarrow> en_period_end n \<le> en_period_end m) \<and>
           b_reservations t = b_reservations s @ [new_reservation e uuid u n i] \<and> rr_reservationId x = uuid \<and>
           rr_expiresAt x = e_now e + 20 * 60 * 1000 \<and> uuid \<notin> rs_id ` set (b_reservations s) \<and>
           b_entitlements t = lupdate (\<lambda>m. en_id m = en_id n) (\<lambda>m. m\<lparr>en_reserved_units := en_reserved_units m + 1\<rparr>) (b_entitlements s) \<and>
           b_usage t = b_usage s)"
  using assms
proof (cases rule: reserve_call)
  case (admitted u)
  show ?thesis
  proof (cases r)
    case (Inl err)
    with admitted(2) show ?thesis by (simp add: in_transaction_error)
  next
    case (Inr x)
    with admitted(2) have run: "reserve_check e locked uuid (u_id u) i s = (Inr x, t)" by (simp add: in_transaction_ok)
    then show ?thesis
    proof (cases rule: reserve_check_effect)
      case (replay q)
      then show ?thesis using Inr by auto
    next
      case (fresh n v)
      have "b_reservations t \<noteq> b_reservations s" using fresh(4) by simp
      then have "t \<noteq> s" by blast
      have x: "rr_reservationId x = uuid" "rr_expiresAt x = e_now e + 20 * 60 * 1000"
        using run fresh(1) \<open>t \<noteq> s\<close> by (auto simp: reserve_check_def reservationTtlMs_def elim!: seq_act_cases split: list.splits if_splits)
      from fresh pick_available [OF fresh(1)] pick_earliest [OF fresh(1)] x Inr show ?thesis
        by (auto simp: new_reservation_def)
    qed
  qed
qed simp

lemma consume_call:
  assumes "consumeReservedCheck uuid_ok e c uuid tid k ref s = (r, t)"
  obtains (refused) err where "r = Inl err" "t = s"
    | (admitted) u where "c_user c = Some u" "in_transaction (consume_check e uuid (u_id u) tid k ref) s = (r, t)"
        "c_tenantId c = None \<or> c_tenantId c = Some tid"
  using assms by (auto simp: consumeReservedCheck_def writeProcedure_def requireTenantScope_def split: option.splits if_splits)

text \<open>C20: The branches of a consumption. A refused call changes nothing and a replayed one neither. A fresh one needs a held
  reservation of the tenant that has not expired; it marks it used, moves its unit from the held to the used counter of its
  entitlement and writes one usage event for it.
\<close>

theorem consume_outcome:
  assumes "consumeReservedCheck uuid_ok e c uuid tid k ref s = (r, t)"
  shows "case r of Inl err \<Rightarrow> t = s
    | Inr True \<Rightarrow> t = s
    | Inr False \<Rightarrow> (\<exists>q v. q \<in> set (b_reservations s) \<and> rs_id q = k \<and> rs_tenant_id q = tid \<and> rs_status q = Reserved \<and> e_now e < rs_expires_at q \<and>
        b_reservations t = lupdate (\<lambda>q. rs_id q = k) (\<lambda>q. q\<lparr>rs_status := Consumed, rs_consumed_at := Some (e_now e)\<rparr>) (b_reservations s) \<and>
        b_entitlements t = lupdate (\<lambda>m. en_id m = rs_entitlement_id q)
          (\<lambda>m. m\<lparr>en_reserved_units := en_reserved_units m - 1, en_consumed_units := en_consumed_units m + 1\<rparr>) (b_entitlements s) \<and>
        b_usage t = b_usage s @ [v] \<and> us_reservation_id v = k)"
  using assms
proof (cases rule: consume_call)
  case (admitted u)
  show ?thesis
  proof (cases r)
    case (Inl err)
    with admitted(2) show ?thesis by (simp add: in_transaction_error)
  next
    case (Inr b)
    with admitted(2) have run: "consume_check e uuid (u_id u) tid k ref s = (Inr b, t)" by (simp add: in_transaction_ok)
    then show ?thesis
    proof (cases rule: consume_check_effect)
      case replay
      show ?thesis
      proof (cases b)
        case False
        with run have "b_usage t \<noteq> b_usage s" by (auto simp: consume_check_def insert_usage_def move_units_def Let_def consume_reservation_def
          elim!: seq_act_cases split: list.splits if_splits)
        with replay show ?thesis by blast
      qed (use Inr replay in simp)
    next
      case (fresh q v)
      then show ?thesis using Inr by (intro exI [where x = q] exI [where x = v] | simp)+
    qed
  qed
qed simp

text \<open>An expired reservation is a unit lost. Once a held reservation has expired, no call can use it, and its idempotency key and
  its investigation can never be reserved again: every such call is refused and changes nothing. No operation releases a held
  unit, so it stays counted against the entitlement.
\<close>

lemma reserve_taken:
  assumes "q \<in> set (b_reservations s)" "rs_tenant_id q = ri_tenantId i" "rs_idempotency_key q = ri_idempotencyKey i \<or> rs_investigation_ref q = ri_investigationRef i"
    and "\<And>x. filter (\<lambda>r. rs_tenant_id r = ri_tenantId i \<and> rs_idempotency_key r = ri_idempotencyKey i) (b_reservations s) = [x] \<Longrightarrow>
      \<not> (rs_status x = Reserved \<and> e_now e < rs_expires_at x)"
  shows "\<exists>err. fst (reserve_check e locked uuid uid i s) = Inl err"
proof -
  have "\<exists>err. fst (seq_act (move_units (en_id n) 1 0) (\<lambda>_.
      seq_act (insert_reservation (new_reservation e uuid uid n i)) (\<lambda>_. ret x)) s) = Inl err" for n x
  proof (cases "move_units (en_id n) 1 0 s")
    case (Pair r u)
    have "\<exists>err. insert_reservation (new_reservation e uuid uid n i) u = (Inl err, u)" if "r = Inr ()"
    proof -
      from move_units_ok [of "en_id n" 1 0 s "()" u] Pair that have "b_reservations u = b_reservations s" by simp
      with assms(1-3) show ?thesis by (auto simp: insert_reservation_def new_reservation_def)
    qed
    then show ?thesis using Pair by (cases r) auto
  qed
  then show ?thesis using assms(4) by (auto simp: reserve_check_def split: list.splits option.splits)
qed

theorem expired_reservation_is_dead:
  assumes "reach ent_start (ent_step sv) s" "q \<in> set (b_reservations s)" "rs_status q = Reserved" "rs_expires_at q \<le> e_now e"
    and "ri_tenantId i = rs_tenant_id q"
    and "ri_idempotencyKey i = rs_idempotency_key q \<or> (ri_investigationRef i = rs_investigation_ref q \<and>
      ri_idempotencyKey i \<notin> rs_idempotency_key ` set (b_reservations s))"
  shows "(\<exists>err. consumeReservedCheck uuid_ok e c uuid tid (rs_id q) ref s = (Inl err, s)) \<and>
    (\<exists>err. reserveCompletedCheck uuid_ok e c locked uuid i s = (Inl err, s))"
proof
  have dist: "distinct (map rs_id (b_reservations s))"
    using entitlement_machine.inv_reachable [OF assms(1)] by (simp add: ent_inv_def)
  obtain r t where run: "consumeReservedCheck uuid_ok e c uuid tid (rs_id q) ref s = (r, t)" by fastforce
  from run show "\<exists>err. consumeReservedCheck uuid_ok e c uuid tid (rs_id q) ref s = (Inl err, s)"
  proof (cases rule: consume_call)
    case (admitted u)
    have "\<exists>err. consume_check e uuid (u_id u) tid (rs_id q) ref s = (Inl err, s)"
    proof (cases "filter (\<lambda>r. rs_id r = rs_id q \<and> rs_tenant_id r = tid \<and> rs_investigation_ref r = ref) (b_reservations s)")
      case (Cons x xs)
      then have "x \<in> set (b_reservations s)" "rs_id x = rs_id q" by (auto dest: filter_eq_ConsD)
      then have "x = q" using unique_key [OF dist] assms(2) by blast
      with Cons assms(3,4) show ?thesis by (cases xs) (simp_all add: consume_check_def)
    qed (simp add: consume_check_def)
    then show ?thesis using admitted(2) run by (auto simp: in_transaction_def)
  qed (use run in simp)
next
  obtain r t where run: "reserveCompletedCheck uuid_ok e c locked uuid i s = (r, t)" by fastforce
  have late: "\<not> (rs_status x = Reserved \<and> e_now e < rs_expires_at x)"
    if x: "filter (\<lambda>r. rs_tenant_id r = ri_tenantId i \<and> rs_idempotency_key r = ri_idempotencyKey i) (b_reservations s) = [x]" for x
  proof -
    have "ri_idempotencyKey i \<in> rs_idempotency_key ` set (b_reservations s)"
      using filter_single [OF x] by (auto intro: rev_image_eqI)
    with assms(6) have k: "ri_idempotencyKey i = rs_idempotency_key q" by auto
    have "q \<in> set (filter (\<lambda>r. rs_tenant_id r = ri_tenantId i \<and> rs_idempotency_key r = ri_idempotencyKey i) (b_reservations s))"
      using assms(2,5) k by simp
    then have "x = q" unfolding x by simp
    with assms(4) show ?thesis by simp
  qed
  have taken: "rs_tenant_id q = ri_tenantId i"
    "rs_idempotency_key q = ri_idempotencyKey i \<or> rs_investigation_ref q = ri_investigationRef i" using assms(5,6) by auto
  have err: "\<exists>err. fst (reserve_check e locked uuid uid i s) = Inl err" for uid
    by (rule reserve_taken [OF assms(2) taken late])
  from run show "\<exists>err. reserveCompletedCheck uuid_ok e c locked uuid i s = (Inl err, s)"
  proof (cases rule: reserve_call)
    case (admitted u)
    with err [of "u_id u"] show ?thesis using run by (auto simp: in_transaction_def split: prod.splits)
  qed (use run in simp)
qed

section \<open>Contracts\<close>

lemma insert_subscription_ok:
  "insert_subscription u s = (Inr x, t) \<Longrightarrow> t = s\<lparr>b_subscriptions := b_subscriptions s @ [u]\<rparr> \<and>
     (\<forall>v \<in> set (b_subscriptions s). \<not> (su_tenant_id v = su_tenant_id u \<and> live v \<and> live u))"
  by (auto simp: insert_subscription_def split: if_splits)

lemma insert_entitlement_ok:
  "insert_entitlement n s = (Inr x, t) \<Longrightarrow> t = s\<lparr>b_entitlements := b_entitlements s @ [n]\<rparr>"
  by (auto simp: insert_entitlement_def split: if_splits)

definition live_of :: "int \<Rightarrow> subscription list \<Rightarrow> subscription list" where
  "live_of tid us = filter (\<lambda>u. su_tenant_id u = tid \<and> live u) us"

definition others :: "int \<Rightarrow> subscription list \<Rightarrow> subscription list" where
  "others tid us = filter (\<lambda>u. su_tenant_id u \<noteq> tid) us"

lemma cancel_live_effect:
  "live_of tid (b_subscriptions (cancel_live e tid s)) = []" "others tid (b_subscriptions (cancel_live e tid s)) = others tid (b_subscriptions s)"
proof -
  have "live_of tid (lupdate (\<lambda>u. su_tenant_id u = tid \<and> live u) (\<lambda>u. u\<lparr>su_status := Cancelled, su_cancelled_at := x\<rparr>) us) = [] \<and>
      others tid (lupdate (\<lambda>u. su_tenant_id u = tid \<and> live u) (\<lambda>u. u\<lparr>su_status := Cancelled, su_cancelled_at := x\<rparr>) us) = others tid us"
    for us x by (induction us) (auto simp: live_of_def others_def live_def)
  then show "live_of tid (b_subscriptions (cancel_live e tid s)) = []"
    "others tid (b_subscriptions (cancel_live e tid s)) = others tid (b_subscriptions s)" by (simp_all add: cancel_live_def)
qed

text \<open>C21: The branches of a manual contract. A refused activation changes nothing. A successful one leaves the tenant with exactly one
  live subscription, the new one to the requested active plan, with the earlier ones cancelled and those of other tenants as they
  were, and grants exactly the plan's included checks for the contract's period.
\<close>

theorem contract_outcome:
  assumes "activateManualContract e c uuid1 uuid2 i s = (r, t)"
  shows "case r of Inl err \<Rightarrow> t = s
    | Inr (k, granted) \<Rightarrow> k = uuid1 \<and> (\<exists>p u. find_active_plan (ci_planCode i) s = Some p \<and> granted = pl_included_completed_checks p \<and>
        live_of (ci_tenantId i) (b_subscriptions t) = [contract_subscription e uuid1 u p i] \<and>
        others (ci_tenantId i) (b_subscriptions t) = others (ci_tenantId i) (b_subscriptions s) \<and>
        (if 0 < granted
         then \<exists>src. b_entitlements t = b_entitlements s @ [new_entitlement uuid2 (ci_tenantId i) uuid1 granted (ci_periodStart i) (ci_periodEnd i) src]
         else b_entitlements t = b_entitlements s))"
proof (cases r)
  case (Inl err)
  with assms show ?thesis by (auto simp: activateManualContract_def adminProcedure_def split: option.splits if_splits dest: in_transaction_error)
next
  case (Inr x)
  with assms obtain u :: user where run: "activate_contract e uuid1 uuid2 (u_id u) i s = (Inr x, t)"
    by (auto simp: activateManualContract_def adminProcedure_def in_transaction_ok split: option.splits if_splits)
  let ?tid = "ci_tenantId i"
  obtain p where p: "find_active_plan (ci_planCode i) s = Some p" using run by (auto simp: activate_contract_def split: option.splits)
  let ?sub = "contract_subscription e uuid1 (u_id u) p i" and ?n = "pl_included_completed_checks p"
  from run p obtain y v where ins: "insert_subscription ?sub (cancel_live e ?tid s) = (Inr y, v)"
    and rest: "(let included = pl_included_completed_checks p in
          if 0 < included then
            (case toISOString (ci_periodStart i) of
               Inl err \<Rightarrow> throw err
             | Inr stamp \<Rightarrow>
                 seq_act (insert_entitlement (new_entitlement uuid2 ?tid uuid1 included (ci_periodStart i) (ci_periodEnd i)
                    (''manual-contract:'' @ ci_authorityReference i @ '':'' @ stamp)))
                 (\<lambda>_. ret (uuid1, included)))
          else ret (uuid1, included)) v = (Inr x, t)"
    by (auto simp: activate_contract_def elim!: seq_act_cases)
  have v: "v = (cancel_live e ?tid s)\<lparr>b_subscriptions := b_subscriptions (cancel_live e ?tid s) @ [?sub]\<rparr>"
    using insert_subscription_ok [OF ins] by blast
  have sub: "su_tenant_id ?sub = ?tid" "live ?sub" by (simp_all add: contract_subscription_def live_def)
  have ents: "x = (uuid1, ?n) \<and> b_subscriptions t = b_subscriptions v \<and> (if 0 < ?n
      then \<exists>src. b_entitlements t = b_entitlements v @ [new_entitlement uuid2 ?tid uuid1 ?n (ci_periodStart i) (ci_periodEnd i) src]
      else b_entitlements t = b_entitlements v)"
    using rest by (auto simp: Let_def elim!: seq_act_cases dest!: insert_entitlement_ok split: if_splits sum.splits) blast?
  have "live_of ?tid (b_subscriptions v) = [?sub]" "others ?tid (b_subscriptions v) = others ?tid (b_subscriptions s)"
    using cancel_live_effect [of ?tid e s] sub by (simp_all add: v live_of_def others_def)
  moreover have "b_entitlements v = b_entitlements s" by (simp add: v cancel_live_def)
  ultimately show ?thesis using Inr p ents by auto
qed

section \<open>Self-service signup\<close>

lemma signup_call:
  assumes "signup sv e c ids i s = (r, t)"
  obtains (refused) err where "r = Inl err" "t = s"
    | (admitted) tid uid where "c_tenantId c = Some tid" "signup_body sv e ids tid uid i s = (r, t)"
  using assms by (auto simp: signup_def writeProcedure_def requireTenant_def signupPool_def split: option.splits if_splits)

text \<open>A signup is applied once per idempotency key. When the tenant already has a signup with this key, a successful call changes
  nothing and answers with the recorded signup, marked idempotent, whatever plan or payment it now names.
\<close>

theorem signup_replay:
  assumes "signup sv e c ids i s = (Inr x, t)" "c_tenantId c = Some tid" "prior_signup s tid (si_idempotencyKey i) = [g]"
  shows "t = s \<and> sr_idempotent x \<and> sr_signupId x = sg_id g \<and> sr_planCode x = sg_plan_code g \<and> sr_status x = sg_status g \<and>
    sr_billingRef x = sg_billing_ref g"
  using assms(1)
proof (cases rule: signup_call)
  case (admitted tid' uid)
  with assms(2,3) show ?thesis by (auto simp: signup_body_def replayed_def)
qed simp

text \<open>A plan with a price cannot be bought. In every reachable state all payment intents were started as prepaid credit, no
  procedure starts one for a subscription invoice, so a signup for a plan with a price that is not a replay is refused.
\<close>

theorem paid_signup_refused:
  assumes "ledger_laws sv posted" "reach (money_start posted) (money_step sv posted) (s, ts)"
    and "find_active_plan (si_planCode i) s = Some p" "0 < pl_price_kobo p"
    and "c_tenantId c = Some tid" "prior_signup s tid (si_idempotencyKey i) = []"
  shows "\<exists>err. signup sv e c ids i s = (Inl err, s)"
proof -
  have purpose: "pi_purpose j \<noteq> Subscription_invoice" if "j \<in> set (b_intents s)" for j
    using that reachable_parts(2) [OF assms(1,2)] by (auto simp: intents_inv_def intent_ok_def)
  have plan: "\<exists>err. settle_plan sv e k tid uid p i s = (Inl err, s)" for k uid
  proof (cases "si_paymentReference i")
    case (Some ref)
    have "pi_purpose j \<noteq> Subscription_invoice" if "intents_of s ref = [j]" for j
      using purpose filter_single(1) that unfolding intents_of_def by fast
    then show ?thesis using Some assms(4) by (auto simp: settle_plan_def split: list.splits)
  qed (use assms(4) in \<open>simp add: settle_plan_def\<close>)
  obtain r t where run: "signup sv e c ids i s = (r, t)" by fastforce
  from run show ?thesis
  proof (cases rule: signup_call)
    case (admitted tid' uid)
    then have "signup_fresh sv e ids tid uid p i s = (r, t)" using assms(3,5,6) by (simp add: signup_body_def)
    moreover obtain err where "settle_plan sv e (id_failure ids) tid uid p i s = (Inl err, s)" using plan by blast
    ultimately show ?thesis using run by (auto simp: signup_fresh_def)
  qed (use run in simp)
qed

text \<open>Where the subscriptions, entitlements and active signups are, a settlement and a recorded failure leave them.\<close>

definition commerce :: "'w billdb \<Rightarrow> subscription list \<times> entitlement list \<times> planSignup list" where
  "commerce s = (b_subscriptions s, b_entitlements s, filter (\<lambda>g. sg_status g = Signup_active) (b_signups s))"

lemma commerce_settle: "settlePaystackPayment sv e ref s = (r, t) \<Longrightarrow> commerce t = commerce s"
  by (erule settle_frame [where R = "\<lambda>s t. commerce t = commerce s"]) (auto simp: commerce_def intro: transpI)

lemma commerce_audit [simp]: "commerce (snd (writeAuditLog a s)) = commerce s"
  by (simp add: writeAuditLog_def commerce_def)

lemma commerce_failure [simp]: "commerce (record_failure k tid uid i s) = commerce s"
  by (simp add: record_failure_def insert_signup_def commerce_def)

lemma commerce_plan: "settle_plan sv e k tid uid p i s = (r, t) \<Longrightarrow> commerce t = commerce s"
  by (erule settle_plan_cases) (auto dest: commerce_settle)

text \<open>The activation transaction, when no statement of it failed.\<close>

lemma activation_effect:
  assumes "activation_writes e ids tid uid p i ref s = (Inr w, t)"
  shows "live_of tid (b_subscriptions t) = [signup_subscription e (id_subscription ids) tid uid p ref]"
    "others tid (b_subscriptions t) = others tid (b_subscriptions s)"
    "if 0 < pl_included_completed_checks p then \<exists>src. b_entitlements t = b_entitlements s @
        [new_entitlement (id_entitlement ids) tid (id_subscription ids) (pl_included_completed_checks p) (e_now e)
           (periodEndFor (pl_billing_interval p) (e_now e)) src]
     else b_entitlements t = b_entitlements s"
    "w \<longleftrightarrow> length ref \<le> 64 \<and> length (au_action (signup_audit tid uid i ref)) \<le> 255"
proof -
  let ?sub = "signup_subscription e (id_subscription ids) tid uid p ref"
  let ?ent = "\<lambda>u. if 0 < pl_included_completed_checks p
              then insert_entitlement (new_entitlement (id_entitlement ids) tid (id_subscription ids)
                     (pl_included_completed_checks p) (e_now e) (periodEndFor (pl_billing_interval p) (e_now e))
                     (''self-serve-signup:'' @ show_int tid @ '':'' @ si_idempotencyKey i)) u
              else ret () u"
  from assms obtain u1 u2 u3 s1 s2 s3 where
    sub: "insert_subscription ?sub (cancel_live e tid s) = (Inr u1, s1)" and ent: "?ent s1 = (Inr u2, s2)" and
    sg: "insert_signup \<lparr>sg_id = id_signup ids, sg_tenant_id = tid, sg_plan_code = si_planCode i,
                sg_status = Signup_active, sg_billing_ref = Some ref, sg_idempotency_key = si_idempotencyKey i,
                sg_created_by = uid\<rparr> s2 = (Inr u3, s3)" and
    au: "writeAuditLog (signup_audit tid uid i ref) s3 = (w, t)"
    unfolding activation_writes_def by (auto elim!: seq_act_cases split: prod.splits if_splits)
  have s1: "s1 = (cancel_live e tid s)\<lparr>b_subscriptions := b_subscriptions (cancel_live e tid s) @ [?sub]\<rparr>"
    using insert_subscription_ok [OF sub] by blast
  have s2: "b_subscriptions s2 = b_subscriptions s1" using ent by (auto dest: insert_entitlement_ok split: if_splits)
  have t: "b_subscriptions t = b_subscriptions s2" "b_entitlements t = b_entitlements s2"
    using sg au by (auto simp: insert_signup_def writeAuditLog_def split: if_splits)
  have "su_tenant_id ?sub = tid" "live ?sub" by (simp_all add: signup_subscription_def live_def)
  with cancel_live_effect [of tid e s] s1 s2 t
  show "live_of tid (b_subscriptions t) = [?sub]" "others tid (b_subscriptions t) = others tid (b_subscriptions s)"
    by (simp_all add: live_of_def others_def)
  have "b_entitlements s1 = b_entitlements s" by (simp add: s1 cancel_live_def)
  with ent t show "if 0 < pl_included_completed_checks p then \<exists>src. b_entitlements t = b_entitlements s @
        [new_entitlement (id_entitlement ids) tid (id_subscription ids) (pl_included_completed_checks p) (e_now e)
           (periodEndFor (pl_billing_interval p) (e_now e)) src]
     else b_entitlements t = b_entitlements s"
    by (auto dest!: insert_entitlement_ok split: if_splits) blast?
  show "w \<longleftrightarrow> length ref \<le> 64 \<and> length (au_action (signup_audit tid uid i ref)) \<le> 255"
    using au by (auto simp: writeAuditLog_def signup_audit_def split: if_splits)
qed

lemma activate_commerce:
  assumes "activate_signup e ids tid uid p i ref s = (Inl err, t)"
  shows "t = s"
  using assms by (auto simp: activate_signup_def split: prod.splits sum.splits)

text \<open>C23: A signup that fails activates nothing. When \<open>signup\<close> answers with an error, whichever step failed, the subscriptions, the
  entitlements and the active signups are those from before the call.
\<close>

theorem signup_fails_closed:
  assumes "signup sv e c ids i s = (Inl err, t)"
  shows "b_subscriptions t = b_subscriptions s \<and> b_entitlements t = b_entitlements s \<and>
    filter (\<lambda>g. sg_status g = Signup_active) (b_signups t) = filter (\<lambda>g. sg_status g = Signup_active) (b_signups s)"
proof -
  have "commerce t = commerce s"
    using assms
  proof (cases rule: signup_call)
    case (admitted tid uid)
    show ?thesis
    proof (cases "t = s")
      case False
      with admitted(2) obtain p where "signup_fresh sv e ids tid uid p i s = (Inl err, t)"
        by (auto simp: signup_body_def split: list.splits option.splits)
      then show ?thesis unfolding signup_fresh_def
      proof (cases rule: seq_act_cases)
        case (runs b u)
        from runs(2) have "t = u"
          unfolding Let_def by (auto elim!: catch_act_cases seq_act_cases dest: activate_commerce split: if_splits list.splits)
        with commerce_plan [OF runs(1)] show ?thesis by simp
      qed (auto dest: commerce_plan)
    qed simp
  qed simp
  then show ?thesis by (simp add: commerce_def)
qed

text \<open>C22: The success branch of a signup. A fresh success is for an active plan. When the reference it records has at most 64
  characters, the tenant is left with exactly one live subscription, to that plan, and with the plan's included checks for one
  period; other tenants keep theirs. When the reference is longer, which the key of a plan without a price can make it, the
  audit insert aborts the transaction: nothing was written, and the answer still says active.
\<close>

theorem signup_outcome:
  assumes "signup sv e c ids i s = (Inr x, t)" "\<not> sr_idempotent x" "c_tenantId c = Some tid" "length (si_planCode i) \<le> 64"
  shows "sr_status x = Signup_active \<and> (\<exists>p ref uid. find_active_plan (si_planCode i) s = Some p \<and> sr_billingRef x = Some ref \<and>
    (if length ref \<le> 64
     then live_of tid (b_subscriptions t) = [signup_subscription e (id_subscription ids) tid uid p ref] \<and>
       others tid (b_subscriptions t) = others tid (b_subscriptions s) \<and>
       (if 0 < pl_included_completed_checks p
        then \<exists>src. b_entitlements t = b_entitlements s @ [new_entitlement (id_entitlement ids) tid (id_subscription ids)
          (pl_included_completed_checks p) (e_now e) (periodEndFor (pl_billing_interval p) (e_now e)) src]
        else b_entitlements t = b_entitlements s)
     else b_subscriptions t = b_subscriptions s \<and> b_entitlements t = b_entitlements s))"
  using assms(1)
proof (cases rule: signup_call)
  case (admitted tid' uid)
  with assms(2,3) obtain p where p: "find_active_plan (si_planCode i) s = Some p" "signup_fresh sv e ids tid uid p i s = (Inr x, t)"
    by (auto simp: signup_body_def replayed_def split: list.splits option.splits)
  from p(2) obtain b u where plan: "settle_plan sv e (id_failure ids) tid uid p i s = (Inr b, u)"
    and k: "catch_act
       (seq_act (activate_signup e ids tid uid p i (provider_ref b tid (si_idempotencyKey i))) (\<lambda>_.
        ret \<lparr>sr_signupId = id_signup ids, sr_subscriptionId = Some (id_subscription ids), sr_planCode = si_planCode i,
             sr_status = Signup_active, sr_billingRef = Some (provider_ref b tid (si_idempotencyKey i)), sr_idempotent = False\<rparr>))
       (\<lambda>err t.
          if isUniqueViolation err
          then (case prior_signup t tid (si_idempotencyKey i) of
                  [g] \<Rightarrow> (Inr (replayed None g), t)
                | _ \<Rightarrow> (Inl err, t))
          else (Inl err, t)) u = (Inr x, t)"
    by (auto simp: signup_fresh_def Let_def elim!: seq_act_cases)
  let ?ref = "provider_ref b tid (si_idempotencyKey i)"
  from k assms(2) obtain y where act: "activate_signup e ids tid uid p i ?ref u = (Inr y, t)"
    and x: "sr_status x = Signup_active" "sr_billingRef x = Some ?ref"
    by (auto elim!: catch_act_cases seq_act_cases simp: replayed_def split: if_splits list.splits)
  from act obtain w v where wr: "activation_writes e ids tid uid p i ?ref u = (Inr w, v)" and t: "t = (if w then v else u)"
    by (auto simp: activate_signup_def split: prod.splits sum.splits)
  note eff = activation_effect [OF wr]
  have "length (au_action (signup_audit tid uid i ?ref)) \<le> 255" using assms(4) by (simp add: signup_audit_def)
  with eff(4) have w: "w \<longleftrightarrow> length ?ref \<le> 64" by blast
  have same: "b_subscriptions u = b_subscriptions s" "b_entitlements u = b_entitlements s"
    using commerce_plan [OF plan] by (simp_all add: commerce_def)
  show ?thesis
  proof (intro conjI exI)
    show "if length ?ref \<le> 64 then live_of tid (b_subscriptions t) = [signup_subscription e (id_subscription ids) tid uid p ?ref] \<and>
       others tid (b_subscriptions t) = others tid (b_subscriptions s) \<and>
       (if 0 < pl_included_completed_checks p
        then \<exists>src. b_entitlements t = b_entitlements s @ [new_entitlement (id_entitlement ids) tid (id_subscription ids)
          (pl_included_completed_checks p) (e_now e) (periodEndFor (pl_billing_interval p) (e_now e)) src]
        else b_entitlements t = b_entitlements s)
     else b_subscriptions t = b_subscriptions s \<and> b_entitlements t = b_entitlements s"
      using eff(1-3) [unfolded same] t w same by (cases "length ?ref \<le> 64") simp_all
  qed (use p x in simp_all)
qed simp

section \<open>Refunds\<close>

lemma refund_hits:
  assumes "distinct (map rf_id (b_refunds s))"
  shows "length (filter (refund_open k v) (b_refunds s)) \<le> 1"
    "filter (refund_open k v) (b_refunds s) = [q] \<Longrightarrow> x \<in> set (b_refunds s) \<Longrightarrow> refund_open k v x \<longleftrightarrow> rf_id x = k"
proof -
  have u: "x = y" if "x \<in> set (b_refunds s)" "y \<in> set (b_refunds s)" "rf_id x = rf_id y" for x y
    using unique_key [OF assms that] .
  show "length (filter (refund_open k v) (b_refunds s)) \<le> 1"
  proof (rule ccontr)
    assume "\<not> length (filter (refund_open k v) (b_refunds s)) \<le> 1"
    then obtain x y zs where xs: "filter (refund_open k v) (b_refunds s) = x # y # zs"
      by (cases "filter (refund_open k v) (b_refunds s)"; cases "tl (filter (refund_open k v) (b_refunds s))") auto
    then have "x \<in> set (filter (refund_open k v) (b_refunds s))" "y \<in> set (filter (refund_open k v) (b_refunds s))" by simp_all
    then have "x \<in> set (b_refunds s)" "y \<in> set (b_refunds s)" "rf_id x = k" "rf_id y = k" by (simp_all add: refund_open_def)
    then have "x = y" using u by simp
    moreover have "distinct (filter (refund_open k v) (b_refunds s))" using assms by (simp add: distinct_map)
    ultimately show False using xs by simp
  qed
  show "refund_open k v x \<longleftrightarrow> rf_id x = k"
    if "filter (refund_open k v) (b_refunds s) = [q]" "x \<in> set (b_refunds s)"
  proof -
    have "q \<in> set (filter (refund_open k v) (b_refunds s))" using that(1) by simp
    then have q: "q \<in> set (b_refunds s)" "refund_open k v q" by auto
    show ?thesis using u [OF that(2) q(1)] q(2) by (auto simp: refund_open_def)
  qed
qed

text \<open>C24: Refunds need four eyes and are decided once. A decision succeeds only for an administrator, on a refund that is still
  requested and was requested by another user; it changes exactly the row with that identifier, to the decision, the reviewer, the
  time and the reason with the rationale appended. Whatever the answer, a refund that has been decided is left alone, and an
  error leaves everything alone.
\<close>

theorem refund_four_eyes:
  assumes "approveRefund uuid_ok e c k decision rationale s = (r, t)" "distinct (map rf_id (b_refunds s))"
  shows "(case r of
      Inl err \<Rightarrow> t = s
    | Inr x \<Rightarrow> (\<exists>u q. c_user c = Some u \<and> u_role u = RAdmin \<and> q \<in> set (b_refunds s) \<and> rf_id q = k \<and> rf_status q = Refund_requested \<and>
        rf_requested_by q \<noteq> u_id u \<and> x = (k, if decision then Refund_approved else Refund_rejected) \<and>
        t = s\<lparr>b_refunds := map (\<lambda>y. if rf_id y = k
              then y\<lparr>rf_status := (if decision then Refund_approved else Refund_rejected), rf_approved_by := Some (u_id u),
                     rf_approved_at := Some (e_now e), rf_reason := rf_reason y @ [CHR 0x0A] @ ''Reviewer: '' @ js_trim rationale\<rparr>
              else y) (b_refunds s)\<rparr>)) \<and>
    (\<forall>q \<in> set (b_refunds s). rf_status q \<noteq> Refund_requested \<longrightarrow> q \<in> set (b_refunds t))"
proof (cases "t = s \<and> (\<exists>err. r = Inl err)")
  case False
  then obtain u f where u: "c_user c = Some u" "u_role u = RAdmin"
    and t: "t = s\<lparr>b_refunds := lupdate (refund_open k (u_id u)) f (b_refunds s)\<rparr>"
    and f: "f = (\<lambda>r. r\<lparr>rf_status := (if decision then Refund_approved else Refund_rejected), rf_approved_by := Some (u_id u),
       rf_approved_at := Some (e_now e), rf_reason := rf_reason r @ [CHR 0x0A] @ ''Reviewer: '' @ js_trim rationale\<rparr>)"
    and r: "r = (if length (filter (refund_open k (u_id u)) (b_refunds s)) = 1 then Inr (k, if decision then Refund_approved else Refund_rejected)
       else Inl (TRPCError CONFLICT ''Refund cannot be approved by the requester or is no longer pending''))"
    using assms(1) by (auto simp: approveRefund_def adminProcedure_def Let_def split: option.splits if_splits)
  have kept: "q \<in> set (b_refunds t)" if "q \<in> set (b_refunds s)" "rf_status q \<noteq> Refund_requested" for q
    unfolding t using that by (auto intro: lupdate_miss simp: refund_open_def)
  have one: "length (filter (refund_open k (u_id u)) (b_refunds s)) = 1"
  proof (rule ccontr)
    assume n: "\<not> ?thesis"
    with refund_hits(1) [OF assms(2), of k "u_id u"] have "length (filter (refund_open k (u_id u)) (b_refunds s)) = 0" by linarith
    then have "filter (refund_open k (u_id u)) (b_refunds s) = []" by simp
    then have "t = s" unfolding t lupdate_as_map by (simp add: filter_empty_conv map_idI)
    with n r False show False by simp
  qed
  then obtain q where q: "filter (refund_open k (u_id u)) (b_refunds s) = [q]"
    by (cases "filter (refund_open k (u_id u)) (b_refunds s)") auto
  then have q': "q \<in> set (b_refunds s)" "refund_open k (u_id u) q" using filter_single [OF q] by blast+
  have "lupdate (refund_open k (u_id u)) f (b_refunds s) = map (\<lambda>y. if rf_id y = k then f y else y) (b_refunds s)"
    unfolding lupdate_as_map by (rule map_cong [OF refl]) (simp add: refund_hits(2) [OF assms(2) q])
  with r one t u q' kept show ?thesis by (auto simp: refund_open_def f)
qed auto

end
