(* ===== verification/Commercial_Witnesses.thy ===== *)
theory Commercial_Witnesses
  imports Commercial_Properties
begin

text \<open>
  A concrete commercial history, and the theorems of \<open>Commercial\_Properties\<close> applied along it: an
  administrator publishes a plan, tenant 7 signs up, holds a check and uses it.
\<close>

definition starter :: planInput where
  "starter = \<lparr>pn_planCode = ''starter'', pn_displayName = ''Starter'', pn_billingInterval = Monthly, pn_priceKobo = 0,
     pn_includedCompletedChecks = 2, pn_overagePriceKobo = 0\<rparr>"

definition planned :: "transfer list billdb" where
  "planned = empty_billdb\<lparr>b_plans := tinsert (new_plan starter) empty_tbl\<rparr>"

lemma plan_run: "upsertPlan sample_env admin_ctx starter empty_billdb = (Inr (1, ''starter'', 1), planned)"
  by code_simp

definition toy_ids :: signupIds where
  "toy_ids = \<lparr>id_signup = ''g1'', id_subscription = ''s1'', id_entitlement = ''e1'', id_failure = ''f1''\<rparr>"

definition toy_signup :: signupInput where
  "toy_signup = \<lparr>si_planCode = ''starter'', si_idempotencyKey = ''key-0001'', si_paymentReference = None\<rparr>"

definition signed :: "transfer list billdb" where
  "signed = snd (signup (toy_services 0) sample_env analyst_ctx toy_ids toy_signup planned)"

definition toy_reserve :: reserveInput where
  "toy_reserve = \<lparr>ri_tenantId = 7, ri_investigationRef = ''case-1'', ri_tier = Tier_basic, ri_idempotencyKey = ''k1''\<rparr>"

definition held :: "transfer list billdb" where
  "held = snd (reserveCompletedCheck (\<lambda>_. True) sample_env analyst_ctx (\<lambda>_. False) ''r1'' toy_reserve signed)"

definition checked :: "transfer list billdb" where
  "checked = snd (consumeReservedCheck (\<lambda>_. True) sample_env analyst_ctx ''u1'' 7 ''r1'' ''case-1'' held)"

lemma sign_run: "signup (toy_services 0) sample_env analyst_ctx toy_ids toy_signup planned =
  (Inr \<lparr>sr_signupId = ''g1'', sr_subscriptionId = Some ''s1'', sr_planCode = ''starter'', sr_status = Signup_active,
        sr_billingRef = Some ''self-serve-free:7:key-0001'', sr_idempotent = False\<rparr>, signed)"
  by code_simp

lemma hold_run: "reserveCompletedCheck (\<lambda>_. True) sample_env analyst_ctx (\<lambda>_. False) ''r1'' toy_reserve signed =
  (Inr \<lparr>rr_reservationId = ''r1'', rr_expiresAt = 1700001200000, rr_idempotent = False\<rparr>, held)"
  by code_simp

lemma check_run: "consumeReservedCheck (\<lambda>_. True) sample_env analyst_ctx ''u1'' 7 ''r1'' ''case-1'' held = (Inr False, checked)"
  by code_simp

lemma ent_planned: "reach ent_start (ent_step (toy_services 0)) planned"
proof -
  have "reach ent_start (ent_step (toy_services 0)) empty_billdb" by (rule reach_init) (simp add: ent_start_def)
  then show ?thesis by (rule reach_step) (rule es_elsewhere, simp add: ent_same_def planned_def)
qed

lemma ent_signed: "reach ent_start (ent_step (toy_services 0)) signed"
  using reach_step [OF ent_planned es_signup [OF sign_run]] .

lemma ent_held: "reach ent_start (ent_step (toy_services 0)) held"
  using reach_step [OF ent_signed es_reserve [OF hold_run]] .

lemma ent_checked: "reach ent_start (ent_step (toy_services 0)) checked"
  using reach_step [OF ent_held es_consume [OF check_run]] .

definition toy_unit :: "int \<Rightarrow> int \<Rightarrow> entitlement" where
  "toy_unit m n = \<lparr>en_id = ''e1'', en_tenant_id = 7, en_subscription_id = Some ''s1'', en_total_units = 2,
     en_consumed_units = m, en_reserved_units = n, en_period_start = 1700000000000, en_period_end = 1702592000000,
     en_status = Ent_active, en_source_reference = ''self-serve-signup:7:key-0001''\<rparr>"

definition toy_held :: reservation where
  "toy_held = \<lparr>rs_id = ''r1'', rs_tenant_id = 7, rs_entitlement_id = ''e1'', rs_investigation_ref = ''case-1'',
     rs_requested_tier = Tier_basic, rs_status = Reserved, rs_idempotency_key = ''k1'', rs_reserved_by = 2,
     rs_expires_at = 1700001200000, rs_consumed_at = None\<rparr>"

lemma toy_units:
  "b_entitlements signed = [toy_unit 0 0]" "b_entitlements held = [toy_unit 0 1]" "b_entitlements checked = [toy_unit 1 0]"
  "b_reservations held = [toy_held]" "map us_reservation_id (b_usage checked) = [''r1'']"
  by code_simp+

theorem units_never_oversold_witness:
  "toy_unit 1 0 \<in> set (b_entitlements checked) \<and> int (count (tally (b_reservations checked)) (''e1'', Consumed)) = 1"
  using units_never_oversold [OF ent_checked, of "toy_unit 1 0"] by (simp add: toy_units) (simp add: toy_unit_def)

theorem reserve_outcome_witness:
  "available sample_env 7 (toy_unit 0 0) \<and> b_usage held = b_usage signed"
  using reserve_outcome [OF hold_run] by (auto simp: toy_units toy_reserve_def) (code_simp+)

theorem consume_outcome_witness:
  "\<exists>q. q \<in> set (b_reservations held) \<and> rs_status q = Reserved \<and> e_now sample_env < rs_expires_at q"
  using consume_outcome [OF check_run] by auto

theorem expired_reservation_is_dead_witness:
  "(\<exists>err. consumeReservedCheck (\<lambda>_. True) (sample_env\<lparr>e_now := 1700001200000\<rparr>) analyst_ctx ''u1'' 7 ''r1'' ''case-1'' held = (Inl err, held)) \<and>
   (\<exists>err. reserveCompletedCheck (\<lambda>_. True) (sample_env\<lparr>e_now := 1700001200000\<rparr>) analyst_ctx (\<lambda>_. False) ''r2'' toy_reserve held = (Inl err, held))"
proof -
  have "toy_held \<in> set (b_reservations held)" by (simp add: toy_units)
  from expired_reservation_is_dead [OF ent_held this, of "sample_env\<lparr>e_now := 1700001200000\<rparr>" toy_reserve "\<lambda>_. True" analyst_ctx]
  show ?thesis by (auto simp: toy_held_def toy_reserve_def)
qed

definition toy_contract :: contractInput where
  "toy_contract = \<lparr>ci_tenantId = 7, ci_planCode = ''starter'', ci_periodStart = 1700000000000, ci_periodEnd = 1702592000000,
     ci_authorityReference = ''AUTH-001''\<rparr>"

lemma contract_run:
  "fst (activateManualContract sample_env admin_ctx ''s2'' ''e2'' toy_contract signed) = Inr (''s2'', 2)"
  by code_simp

theorem contract_outcome_witness:
  "\<exists>t p u. activateManualContract sample_env admin_ctx ''s2'' ''e2'' toy_contract signed = (Inr (''s2'', 2), t) \<and>
     live_of 7 (b_subscriptions t) = [contract_subscription sample_env ''s2'' u p toy_contract]"
proof -
  obtain t where "activateManualContract sample_env admin_ctx ''s2'' ''e2'' toy_contract signed = (Inr (''s2'', 2), t)"
    using contract_run by (metis prod.collapse)
  with contract_outcome [OF this] show ?thesis by (auto simp: toy_contract_def)
qed

theorem signup_replay_witness:
  "\<exists>x. signup (toy_services 0) sample_env analyst_ctx toy_ids toy_signup signed = (Inr x, signed) \<and> sr_idempotent x \<and> sr_signupId x = ''g1''"
proof -
  have run: "fst (signup (toy_services 0) sample_env analyst_ctx toy_ids toy_signup signed) = Inr \<lparr>sr_signupId = ''g1'',
      sr_subscriptionId = Some ''s1'', sr_planCode = ''starter'', sr_status = Signup_active,
      sr_billingRef = Some ''self-serve-free:7:key-0001'', sr_idempotent = True\<rparr>" by code_simp
  define g where "g = \<lparr>sg_id = ''g1'', sg_tenant_id = 7, sg_plan_code = ''starter'', sg_status = Signup_active,
      sg_billing_ref = Some ''self-serve-free:7:key-0001'', sg_idempotency_key = ''key-0001'', sg_created_by = 2\<rparr>"
  have "prior_signup signed 7 (si_idempotencyKey toy_signup) = [g]" unfolding g_def by code_simp
  with signup_replay [of "toy_services 0" sample_env analyst_ctx toy_ids toy_signup signed _ _ 7 g] run
  show ?thesis by (cases "signup (toy_services 0) sample_env analyst_ctx toy_ids toy_signup signed") auto
qed

theorem signup_outcome_witness:
  "live_of 7 (b_subscriptions signed) \<noteq> [] \<and> length ''self-serve-free:7:key-0001'' \<le> 64"
  using signup_outcome [OF sign_run] by (auto simp: toy_signup_def)

theorem signup_fails_closed_witness:
  "\<exists>err t. signup (toy_services 0) sample_env analyst_ctx toy_ids (toy_signup\<lparr>si_planCode := ''missing''\<rparr>) planned = (Inl err, t) \<and>
     b_subscriptions t = []"
proof -
  have "fst (signup (toy_services 0) sample_env analyst_ctx toy_ids (toy_signup\<lparr>si_planCode := ''missing''\<rparr>) planned) =
    Inl (TRPCError NOT_FOUND ''The requested active plan does not exist'')" by code_simp
  moreover have "b_subscriptions planned = []" by code_simp
  ultimately show ?thesis
    using signup_fails_closed [of "toy_services 0" sample_env analyst_ctx toy_ids "toy_signup\<lparr>si_planCode := ''missing''\<rparr>" planned]
    by (cases "signup (toy_services 0) sample_env analyst_ctx toy_ids (toy_signup\<lparr>si_planCode := ''missing''\<rparr>) planned") auto
qed

text \<open>A plan with a price, next to the pending intent of \<open>Billing\_Scenario\<close>.\<close>

definition priced_plan :: planInput where "priced_plan = starter\<lparr>pn_priceKobo := 200000\<rparr>"

definition offered :: "transfer list billdb" where
  "offered = opened\<lparr>b_plans := tinsert (new_plan priced_plan) empty_tbl\<rparr>"

lemma offer_run: "upsertPlan sample_env admin_ctx priced_plan opened = (Inr (1, ''starter'', 1), offered)"
  by code_simp

theorem paid_signup_refused_witness:
  "\<exists>err. signup (toy_services 200000) sample_env analyst_ctx toy_ids (toy_signup\<lparr>si_paymentReference := Some toy_ref\<rparr>) offered = (Inl err, offered)"
proof -
  have r: "reach (money_start toy_posted) (money_step (toy_services 200000) toy_posted) (offered, {#})"
    by (rule history_reachable) (rule reach_step [OF reach_opened bc_plan [OF offer_run]])
  have plan: "find_active_plan ''starter'' offered = Some (new_plan priced_plan 1)" by code_simp
  have none: "prior_signup offered 7 ''key-0001'' = []" by code_simp
  show ?thesis
    by (rule paid_signup_refused [OF toy_laws r, of _ "new_plan priced_plan 1" _ 7])
      (simp_all add: toy_signup_def plan none, simp_all add: new_plan_def priced_plan_def starter_def)
qed

definition asked :: "transfer list billdb" where
  "asked = snd (requestRefund sample_env analyst_ctx ''rf1'' 7 ''BIS-TOP-1'' 200000 ''paid twice by mistake'' signed)"

lemma refund_run: "fst (approveRefund (\<lambda>_. True) sample_env admin_ctx ''rf1'' True ''checked with the bank'' asked) = Inr (''rf1'', Refund_approved)"
  by code_simp

theorem refund_four_eyes_witness:
  "\<exists>q. q \<in> set (b_refunds asked) \<and> rf_requested_by q \<noteq> 1 \<and> rf_status q = Refund_requested \<and>
     map rf_status (b_refunds (snd (approveRefund (\<lambda>_. True) sample_env admin_ctx ''rf1'' True ''checked with the bank'' asked))) = [Refund_approved]"
proof -
  obtain t where run: "approveRefund (\<lambda>_. True) sample_env admin_ctx ''rf1'' True ''checked with the bank'' asked = (Inr (''rf1'', Refund_approved), t)"
    using refund_run by (metis prod.collapse)
  have ids: "map rf_id (b_refunds asked) = [''rf1'']" by code_simp
  then obtain q where "b_refunds asked = [q]" "rf_id q = ''rf1''" by auto
  moreover have "u_id sample_admin = 1" "c_user admin_ctx = Some sample_admin" by code_simp+
  ultimately show ?thesis using refund_four_eyes [OF run] ids by (auto simp: run)
qed

theorem force_credit_never_approved_witness:
  "rows (b_totp signed) = [] \<and> (\<exists>err. fst (approveForceCredit flat_hmac toy_crypto (toy_services 0) sample_env admin_ctx ''root'' 1
     ''agreed with finance'' ''123456'' signed) = Inl err)"
proof -
  have e: "rows (b_totp signed) = []" by code_simp
  then have "reach (\<lambda>t. rows t = []) (totp_step flat_hmac toy_crypto) (b_totp signed)" by (rule reach_init)
  with e show ?thesis using force_credit_never_approved [OF toy_crypto_laws] by blast
qed

end
