(* ===== verification/Billing_Workers.thy ===== *)
theory Billing_Workers
  imports Billing_Outcomes Billing_Entitlements
begin

text \<open>
  The background workers of billing: webhook intake and processing, the retry queue, the metering
  of assessments and the reconciliation of its exhausted events.
\<close>

section \<open>Webhooks\<close>

text \<open>No webhook is ever stored: the transaction that records a new one is rolled back by its second statement, and a
  provider that repeats its notification gets the same answer, 503, each time. The answer 200 is left for a body with the
  hash of an event that was there from the start.
\<close>

lemma webhooks_never_stored:
  assumes "paystackWebhook sv e uuid raw signature s = (st, t)"
  shows "t = s" "st = 200 \<Longrightarrow> sv_sha256 sv raw \<in> we_payload_sha256 ` set (b_webhooks s)"
  using assms
  by (auto simp: paystackWebhook_def recordPaystackWebhook_def insert_webhook_def minimise_payload_def in_transaction_def Let_def
    split: if_splits option.splits webhookBody.splits prod.splits sum.splits elim!: seq_act_cases)

text \<open>An event that were there and could not be settled would stay \<open>processing\<close>, which no later pass takes up.\<close>

lemma failed_webhook_stays_processing:
  assumes "filter (\<lambda>w. we_id w = k) (b_webhooks s) = [w]" "we_status w = Received" "we_attempt_count w < MAX_WEBHOOK_ATTEMPTS"
    and "settles w" "\<And>u. b_intents u = b_intents s \<Longrightarrow> \<exists>err. settlePaystackPayment sv e (the (we_provider_reference w)) u = (Inl err, u)"
    and "e_dbUp e"
  shows "processPaystackWebhookEvent sv e k s = (Inl DbError,
    set_webhook k (\<lambda>w. w\<lparr>we_status := Processing, we_attempt_count := we_attempt_count w + 1\<rparr>) s)"
proof -
  let ?u = "set_webhook k (\<lambda>w. w\<lparr>we_status := Processing, we_attempt_count := we_attempt_count w + 1\<rparr>) s"
  obtain err where "settlePaystackPayment sv e (the (we_provider_reference w)) ?u = (Inl err, ?u)"
    using assms(5) [of ?u] by (auto simp: set_webhook_def)
  then show ?thesis using assms(1-4,6)
    by (simp add: processPaystackWebhookEvent_def claim_webhook_def mark_webhook_failure_def)
qed

section \<open>The retry queue\<close>

definition undecided :: "retryItem \<Rightarrow> bool" where
  "undecided r \<longleftrightarrow> rq_status r = Retry_pending \<or> rq_status r = Retry_processing"

definition attempts_left :: "retryItem \<Rightarrow> nat" where
  "attempts_left r = (if undecided r then RETRY_MAX_ATTEMPTS - rq_attempts r else 0)"

definition retry_budget :: "'w billdb \<Rightarrow> nat" where
  "retry_budget s = sum_list (map attempts_left (rows (b_retries s)))"

text \<open>The constraints of the table, and that no undecided item has used up its attempts.\<close>

definition retries_ok :: "'w billdb \<Rightarrow> bool" where
  "retries_ok s \<longleftrightarrow> distinct (map rq_id (rows (b_retries s))) \<and> distinct (map rq_reference (rows (b_retries s))) \<and>
     (\<forall>r \<in> set (rows (b_retries s)). undecided r \<longrightarrow> rq_attempts r < RETRY_MAX_ATTEMPTS)"

lemma sum_list_update:
  assumes "distinct (map key rs)" "r \<in> set rs"
  shows "sum_list (map g (map (\<lambda>x. if key x = key r then f x else x) rs)) + g r = sum_list (map g rs) + (g (f r) :: nat)"
  using assms
proof (induction rs)
  case (Cons a rs)
  show ?case
  proof (cases "a = r")
    case True
    then have "map (\<lambda>x. if key x = key r then f x else x) rs = rs"
      using Cons.prems(1) by (intro map_idI) (auto simp: image_iff)
    with True show ?thesis by simp
  next
    case False
    then have r: "r \<in> set rs" "key a \<noteq> key r" using Cons.prems by (auto simp: image_iff)
    with Cons show ?thesis by simp
  qed
qed simp

text \<open>Settling a credit leaves the retry queue alone.\<close>

lemma credit_retries: "creditTenantAccount sv e tid a ref s = (q, u) \<Longrightarrow> b_retries u = b_retries s"
proof -
  have "b_retries u = b_retries s" if "settlePaystackPayment sv e ref s = (q, u)" for q u
    using that by (rule settle_frame [where R = "\<lambda>s t. b_retries t = b_retries s"]) (auto intro: transpI)
  then show "creditTenantAccount sv e tid a ref s = (q, u) \<Longrightarrow> b_retries u = b_retries s"
    by (auto simp: creditTenantAccount_def elim!: seq_act_cases split: if_splits)
qed

text \<open>One item of a pass: its row is replaced by its outcome.\<close>

definition outcome :: "(int \<Rightarrow> int) \<Rightarrow> env \<Rightarrow> retryItem \<Rightarrow> error option \<Rightarrow> retryItem \<Rightarrow> retryItem" where
  "outcome rnd e item err r = (case err of
     None \<Rightarrow> r\<lparr>rq_status := Retry_completed, rq_attempts := rq_attempts item + 1, rq_leasedAt := None\<rparr>
   | Some x \<Rightarrow> retry_failed rnd e (rq_attempts item + 1) (error_text x) r)"

lemma outcome_simps [simp]:
  "rq_id (outcome rnd e item err r) = rq_id r" "rq_reference (outcome rnd e item err r) = rq_reference r"
  by (simp_all add: outcome_def retry_failed_def split: option.splits)

lemma outcome_left:
  assumes "rq_attempts item < RETRY_MAX_ATTEMPTS"
  shows "attempts_left (outcome rnd e item err r) < RETRY_MAX_ATTEMPTS - rq_attempts item"
    "undecided (outcome rnd e item err r) \<Longrightarrow> rq_attempts (outcome rnd e item err r) < RETRY_MAX_ATTEMPTS"
  using assms by (auto simp: outcome_def retry_failed_def attempts_left_def undecided_def split: option.splits if_splits)

definition lease_retry :: "env \<Rightarrow> retryItem \<Rightarrow> retryItem" where
  "lease_retry e r = r\<lparr>rq_status := Retry_processing, rq_leasedAt := Some (e_now e)\<rparr>"

lemma lease_retry_simps [simp]: "rq_id (lease_retry e r) = rq_id r" "rq_reference (lease_retry e r) = rq_reference r"
  by (simp_all add: lease_retry_def)

lemma two_updates:
  assumes "distinct (map rq_id R)" "distinct (map rq_reference R)" "item \<in> set R" "retry_due e item"
  shows "map (\<lambda>r. if rq_reference r = rq_reference item then f r else r)
      (map (\<lambda>r. if rq_id r = rq_id item \<and> retry_due e r then lease_retry e r else r) R) =
    map (\<lambda>r. if rq_id r = rq_id item then f (lease_retry e item) else r) R"
proof -
  have "(if rq_reference x = rq_reference item then f x else x) = (if rq_id r = rq_id item then f (lease_retry e item) else r)"
    if "r \<in> set R" "x = (if rq_id r = rq_id item \<and> retry_due e r then lease_retry e r else r)" for r x
  proof (cases "rq_id r = rq_id item")
    case True
    then have "r = item" using unique_key [OF assms(1) that(1) assms(3)] by blast
    with that(2) assms(4) show ?thesis by simp
  next
    case False
    then have "rq_reference r \<noteq> rq_reference item" using unique_key [OF assms(2) that(1) assms(3)] by blast
    with False that(2) show ?thesis by simp
  qed
  then show ?thesis by simp
qed

lemma process_step:
  assumes "item \<in> set (rows (b_retries s))" "retry_due e item" "retries_ok s"
  shows "\<exists>err u n'. process_retries rnd sv e (item # items) n s = process_retries rnd sv e items n' u \<and> rt_processed n' = rt_processed n + 1 \<and>
    rows (b_retries u) = map (\<lambda>r. if rq_id r = rq_id item then outcome rnd e item err (lease_retry e item) else r) (rows (b_retries s))"
proof -
  let ?P = "\<lambda>r. rq_id r = rq_id item \<and> retry_due e r" and ?same = "\<lambda>r. rq_reference r = rq_reference item"
  let ?s1 = "set_retry ?P (\<lambda>r. r\<lparr>rq_status := Retry_processing, rq_leasedAt := Some (e_now e)\<rparr>) s"
  have hit: "tselect ?P (b_retries s) \<noteq> []" using assms(1,2) by (auto simp: tselect_def filter_empty_conv)
  obtain q u where q: "creditTenantAccount sv e (rq_tenantId item) (rq_amountKobo item) (rq_reference item) ?s1 = (q, u)"
    by (cases "creditTenantAccount sv e (rq_tenantId item) (rq_amountKobo item) (rq_reference item) ?s1")
  define err where "err = (case q of Inl x \<Rightarrow> Some x | Inr _ \<Rightarrow> None)"
  have "rows (b_retries u) = map (\<lambda>r. if ?P r then lease_retry e r else r) (rows (b_retries s))"
    by (simp add: credit_retries [OF q] set_retry_def lease_retry_def)
  then have "rows (b_retries (set_retry ?same (outcome rnd e item err) u)) =
      map (\<lambda>r. if rq_id r = rq_id item then outcome rnd e item err (lease_retry e item) else r) (rows (b_retries s))"
    using two_updates [of "rows (b_retries s)" item e "outcome rnd e item err"] assms by (simp add: set_retry_def retries_ok_def)
  moreover have "\<exists>n'. process_retries rnd sv e (item # items) n s = process_retries rnd sv e items n' (set_retry ?same (outcome rnd e item err) u) \<and>
      rt_processed n' = rt_processed n + 1"
    using hit q by (cases q) (auto simp: Let_def err_def outcome_def [abs_def])
  ultimately show ?thesis by blast
qed

lemma process_retries_budget:
  assumes "process_retries rnd sv e items n s = (m, t)" "retries_ok s" "distinct (map rq_id items)"
    "set items \<subseteq> set (rows (b_retries s))" "\<forall>x \<in> set items. retry_due e x"
  shows "retries_ok t \<and> retry_budget t + rt_processed m \<le> retry_budget s + rt_processed n \<and>
    length (rows (b_retries t)) = length (rows (b_retries s))"
  using assms
proof (induction items arbitrary: n s)
  case (Cons item items)
  have item: "item \<in> set (rows (b_retries s))" "retry_due e item" using Cons.prems by auto
  from process_step [OF item Cons.prems(2), of rnd sv items n] obtain err u n' where
    step: "process_retries rnd sv e (item # items) n s = process_retries rnd sv e items n' u" "rt_processed n' = rt_processed n + 1"
    and u: "rows (b_retries u) = map (\<lambda>r. if rq_id r = rq_id item then outcome rnd e item err (lease_retry e item) else r) (rows (b_retries s))"
    by blast
  have ok: "distinct (map rq_id (rows (b_retries s)))" "distinct (map rq_reference (rows (b_retries s)))"
    "\<forall>r \<in> set (rows (b_retries s)). undecided r \<longrightarrow> rq_attempts r < RETRY_MAX_ATTEMPTS"
    using Cons.prems(2) by (simp_all add: retries_ok_def)
  have und: "undecided item" using item(2) by (simp add: undecided_def retry_due_def)
  then have att: "rq_attempts item < RETRY_MAX_ATTEMPTS" using ok(3) item(1) by blast
  have ids: "map rq_id (rows (b_retries u)) = map rq_id (rows (b_retries s))" by (simp add: u)
  have refs: "map rq_reference (rows (b_retries u)) = map rq_reference (rows (b_retries s))"
    using unique_key [OF ok(1) _ item(1)] by (auto simp: u)
  have oku: "retries_ok u" unfolding retries_ok_def ids refs
    using ok outcome_left(2) [OF att] by (auto simp: u)
  have "retry_budget u + attempts_left item = retry_budget s + attempts_left (outcome rnd e item err (lease_retry e item))"
    using sum_list_update [OF ok(1) item(1), of attempts_left "\<lambda>_. outcome rnd e item err (lease_retry e item)"]
    by (simp add: retry_budget_def u)
  moreover have "attempts_left (outcome rnd e item err (lease_retry e item)) < attempts_left item"
    using outcome_left(1) [OF att] und by (simp add: attempts_left_def)
  ultimately have budget: "retry_budget u + 1 \<le> retry_budget s" by simp
  have rest: "set items \<subseteq> set (rows (b_retries u))"
  proof
    fix x assume "x \<in> set items"
    then have "x \<in> set (rows (b_retries s))" "rq_id x \<noteq> rq_id item" using Cons.prems(3,4) by (auto simp: image_iff)
    then show "x \<in> set (rows (b_retries u))" unfolding u by force
  qed
  from Cons.IH [of n' u] Cons.prems(1,3,5) step oku rest
  have "retries_ok t \<and> retry_budget t + rt_processed m \<le> retry_budget u + rt_processed n' \<and>
      length (rows (b_retries t)) = length (rows (b_retries u))" by simp
  with budget step(2) u show ?case by simp
qed simp

text \<open>A pass of the worker, and the passes of its whole life.\<close>

lemma pass_budget:
  assumes "processRetryQueue rnd sv e s = (m, t)" "retries_ok s"
  shows "retries_ok t \<and> retry_budget t + rt_processed m \<le> retry_budget s \<and> length (rows (b_retries t)) = length (rows (b_retries s))"
proof (cases "e_dbUp e")
  case False
  with assms show ?thesis by (auto simp: processRetryQueue_def Let_def)
next
  case True
  let ?f = "\<lambda>r. r\<lparr>rq_status := Retry_pending, rq_leasedAt := None\<rparr>"
  let ?s1 = "set_retry (retry_lease_expired e) ?f s"
  let ?zero = "\<lparr>rt_processed = 0, rt_succeeded = 0, rt_deadLettered = 0\<rparr>"
  from assms True have run: "process_retries rnd sv e (due_retries e ?s1) ?zero ?s1 = (m, t)" by (simp add: processRetryQueue_def Let_def)
  have left: "attempts_left (if retry_lease_expired e r then ?f r else r) = attempts_left r"
    "undecided (if retry_lease_expired e r then ?f r else r) = undecided r"
    "rq_attempts (if retry_lease_expired e r then ?f r else r) = rq_attempts r"
    "rq_id (if retry_lease_expired e r then ?f r else r) = rq_id r"
    "rq_reference (if retry_lease_expired e r then ?f r else r) = rq_reference r" for r
    by (auto simp: attempts_left_def undecided_def retry_lease_expired_def)
  have rows: "rows (b_retries ?s1) = map (\<lambda>r. if retry_lease_expired e r then ?f r else r) (rows (b_retries s))"
    by (simp add: set_retry_def)
  have keys: "map rq_id (rows (b_retries ?s1)) = map rq_id (rows (b_retries s))"
    "map rq_reference (rows (b_retries ?s1)) = map rq_reference (rows (b_retries s))" unfolding rows by (simp_all add: comp_def left)
  have "rq_attempts x < RETRY_MAX_ATTEMPTS" if x: "x \<in> set (rows (b_retries ?s1))" "undecided x" for x
  proof -
    from x(1) obtain r where "r \<in> set (rows (b_retries s))" "x = (if retry_lease_expired e r then ?f r else r)"
      unfolding rows set_map by blast
    with x(2) left(2,3) [of r] assms(2) show ?thesis by (simp add: retries_ok_def)
  qed
  then have ok: "retries_ok ?s1" using assms(2) unfolding retries_ok_def keys by blast
  have budget: "retry_budget ?s1 = retry_budget s" by (simp add: retry_budget_def set_retry_def comp_def left)
  have sub: "set (due_retries e ?s1) \<subseteq> set (rows (b_retries ?s1))"
    by (auto simp: due_retries_def tselect_def dest: in_set_takeD)
  have "distinct (map rq_id (due_retries e ?s1))"
    using ok sub unfolding retries_ok_def distinct_map
    by (auto simp: due_retries_def tselect_def intro: inj_on_subset)
  moreover note sub
  moreover have "\<forall>x \<in> set (due_retries e ?s1). retry_due e x"
    by (auto simp: due_retries_def tselect_def dest: in_set_takeD)
  ultimately have "retries_ok t \<and> retry_budget t + rt_processed m \<le> retry_budget ?s1 + rt_processed ?zero \<and>
      length (rows (b_retries t)) = length (rows (b_retries ?s1))"
    using process_retries_budget [OF run ok] by blast
  then show ?thesis using budget by (simp add: set_retry_def)
qed

fun passes :: "(nat \<Rightarrow> int \<Rightarrow> int) \<Rightarrow> 'w services \<Rightarrow> env list \<Rightarrow> 'w billdb \<Rightarrow> nat \<times> 'w billdb" where
  "passes rnd sv [] s = (0, s)"
| "passes rnd sv (e # es) s = (case processRetryQueue (rnd (length es)) sv e s of
     (m, t) \<Rightarrow> (case passes rnd sv es t of (n, u) \<Rightarrow> (rt_processed m + n, u)))"

lemma passes_budget:
  "passes rnd sv es s = (n, t) \<Longrightarrow> retries_ok s \<Longrightarrow> retry_budget t + n \<le> retry_budget s"
proof (induction es arbitrary: n s)
  case (Cons e es)
  obtain m u where m: "processRetryQueue (rnd (length es)) sv e s = (m, u)" by fastforce
  obtain k v where k: "passes rnd sv es u = (k, v)" by fastforce
  from Cons.prems(1) m k have "n = rt_processed m + k" "t = v" by auto
  with pass_budget [OF m Cons.prems(2)] Cons.IH [of u k] k show ?case by simp
qed simp

lemma retry_budget_bound: "retry_budget s \<le> RETRY_MAX_ATTEMPTS * length (rows (b_retries s))"
proof -
  have "sum_list (map attempts_left R) \<le> RETRY_MAX_ATTEMPTS * length R" for R
    by (induction R) (auto simp: attempts_left_def)
  then show ?thesis by (simp add: retry_budget_def)
qed

text \<open>C25: The retry queue comes to an end. However many passes the worker makes over a queue whose items have attempts left, at
  whatever times and whatever the ledger and the provider answer, all passes together treat items at most seven times the number
  of rows: every treatment completes an item, dead-letters it or uses up one of its attempts.
\<close>

theorem retry_queue_terminates:
  assumes "retries_ok s" "passes rnd sv es s = (n, t)"
  shows "n \<le> retry_budget s \<and> n \<le> 7 * length (rows (b_retries s))"
proof -
  have "n \<le> retry_budget s" using passes_budget [OF assms(2,1)] by simp
  with retry_budget_bound [of s] show ?thesis by (simp add: RETRY_MAX_ATTEMPTS_def)
qed

text \<open>The delay before the next retry is between one second and sixty-six: it doubles with each attempt up to a minute, with a
  jitter of at most a tenth, and from the sixth attempt on it is at least a minute.
\<close>

theorem calculateBackoff_bounds:
  assumes "1 \<le> attempt" "\<And>n. 0 < n \<Longrightarrow> 0 \<le> randomInt n \<and> randomInt n < n"
  shows "1000 \<le> calculateBackoff randomInt attempt \<and> calculateBackoff randomInt attempt \<le> 66000 \<and>
    retryDelay attempt \<le> calculateBackoff randomInt attempt \<and> (6 \<le> attempt \<longrightarrow> 60000 \<le> calculateBackoff randomInt attempt)"
proof -
  have lo: "1000 \<le> retryDelay attempt" using webhook_backoff.delay_lower [OF assms(1)] .
  have hi: "retryDelay attempt \<le> 60000" using webhook_backoff.delay_upper .
  have jit: "0 \<le> randomInt (retryDelay attempt div 10 + 1)" "randomInt (retryDelay attempt div 10 + 1) < retryDelay attempt div 10 + 1"
    using assms(2) [of "retryDelay attempt div 10 + 1"] lo by auto
  have "60000 \<le> retryDelay attempt" if "6 \<le> attempt"
    using webhook_backoff.delay_mono [of 6 attempt] that by (simp add: retryDelay_def)
  with lo hi jit show ?thesis by (auto simp: calculateBackoff_def)
qed

section \<open>Metering\<close>

lemma decide_recon_ok:
  assumes "decide_recon e c u k f g msg s = (Inr x, t)"
  obtains q where "q \<in> set (b_reconciliations s)" "decidable_by s k (u_id u) (c_tenantId c) q"
    "t = g (set_recon (decidable_by s k (u_id u) (c_tenantId c)) f s)"
proof -
  let ?P = "decidable_by s k (u_id u) (c_tenantId c)"
  from assms have one: "length (filter ?P (b_reconciliations s)) = 1" and t: "t = g (set_recon ?P f s)"
    by (auto simp: decide_recon_def Let_def split: if_splits)
  from one obtain q where "q \<in> set (filter ?P (b_reconciliations s))" by (cases "filter ?P (b_reconciliations s)") auto
  with that t show thesis by auto
qed

text \<open>An exhausted metering event is settled only by a second person with evidence. \<open>confirmSettled\<close> succeeds only for an
  administrator of the event's tenant scope who did not request the assessment, on a reconciliation that is open or under review,
  with a ledger reference and a hash; the reconciliation is closed in the reviewer's name and exactly the events with this
  identifier that await reconciliation become settled.
\<close>

theorem settlement_confirmed_by_second_person:
  assumes "confirmSettled uuid_ok e c i s = (Inr (), t)"
  shows "\<exists>u q q'. c_user c = Some u \<and> u_role u = RAdmin \<and> q \<in> set (b_reconciliations s) \<and>
    rc_billing_event_id q = ni_billingEventId i \<and> (rc_status q = Rec_open \<or> rc_status q = Rec_under_review) \<and>
    rc_requested_by q \<noteq> u_id u \<and> (c_tenantId c = None \<or> c_tenantId c = Some (rc_tenant_id q)) \<and>
    truthy_str (ni_ledgerEvidenceRef i) \<and> truthy_str (ni_ledgerEvidenceSha256 i) \<and>
    q' \<in> set (b_reconciliations t) \<and> rc_id q' = rc_id q \<and> rc_status q' = Rec_confirmed_settled \<and> rc_reviewed_by q' = Some (u_id u) \<and>
    b_events t = lupdate (awaiting (ni_billingEventId i))
      (\<lambda>b. b\<lparr>be_status := Be_settled, be_settled_at := (case be_settled_at b of None \<Rightarrow> Some (e_now e) | t \<Rightarrow> t),
             be_last_error_code := None\<rparr>) (b_events s)"
proof -
  let ?k = "ni_billingEventId i"
  let ?g = "set_event (awaiting ?k) (\<lambda>b. b\<lparr>be_status := Be_settled,
    be_settled_at := (case be_settled_at b of None \<Rightarrow> Some (e_now e) | t \<Rightarrow> t), be_last_error_code := None\<rparr>)"
  define f where "f u r = (close_recon e u Rec_confirmed_settled (js_trim (ni_rationale i)) r)
              \<lparr>rc_ledger_evidence_ref := map_option js_trim (ni_ledgerEvidenceRef i),
               rc_ledger_evidence_sha256 := ni_ledgerEvidenceSha256 i\<rparr>" for u r
  from assms obtain u :: user where u: "c_user c = Some u" "u_role u = RAdmin"
    "truthy_str (ni_ledgerEvidenceRef i)" "truthy_str (ni_ledgerEvidenceSha256 i)"
    and run: "decide_recon e c u ?k (f (u_id u)) ?g ''Reconciliation cannot be confirmed by its requester or is not open'' s = (Inr (), t)"
    unfolding f_def by (auto simp: confirmSettled_def adminProcedure_def in_transaction_ok split: option.splits if_splits)
  from run show ?thesis
  proof (rule decide_recon_ok)
    fix q assume q: "q \<in> set (b_reconciliations s)" "decidable_by s ?k (u_id u) (c_tenantId c) q"
      and t: "t = ?g (set_recon (decidable_by s ?k (u_id u) (c_tenantId c)) (f (u_id u)) s)"
    have "f (u_id u) q \<in> set (b_reconciliations t)"
      using lupdate_hit [OF q(1), of "decidable_by s ?k (u_id u) (c_tenantId c)" "f (u_id u)"] q(2)
      by (simp add: t set_event_def set_recon_def)
    moreover have "rc_id (f (u_id u) q) = rc_id q \<and> rc_status (f (u_id u) q) = Rec_confirmed_settled \<and> rc_reviewed_by (f (u_id u) q) = Some (u_id u)"
      by (simp add: f_def close_recon_def)
    moreover have "b_events t = b_events (?g s)" by (simp add: t set_event_def set_recon_def)
    ultimately show ?thesis using u q by (auto simp: decidable_by_def set_event_def)
  qed
qed

text \<open>A closed reconciliation can be neither claimed nor decided.\<close>

lemma closed_reconciliation_refuses:
  assumes "\<And>q. q \<in> set (b_reconciliations t) \<Longrightarrow> rc_billing_event_id q = k \<Longrightarrow> rc_status q \<noteq> Rec_open \<and> rc_status q \<noteq> Rec_under_review"
    and "ni_billingEventId i = k"
  shows "\<exists>x. recon_claim uuid_ok e' c k t = (Inl x, t)" "\<exists>x. confirmSettled uuid_ok e' c i t = (Inl x, t)"
    "\<exists>x. confirmNotSettled uuid_ok e' c i t = (Inl x, t)" "\<exists>x. approveDeterministicRetry uuid_ok e' c i t = (Inl x, t)"
proof -
  have none: "filter (\<lambda>r. rc_billing_event_id r = k \<and> X r \<and> rc_status r = Rec_open \<and> Y r) (b_reconciliations t) = []" for X Y
    using assms(1) by (auto simp: filter_empty_conv)
  have undec: "\<not> decidable_by t k uid ten q" if "q \<in> set (b_reconciliations t)" for uid ten q
    using assms(1) that by (auto simp: decidable_by_def)
  have same: "set_recon (decidable_by t k uid ten) f t = t" for uid ten f
  proof -
    have "lupdate (decidable_by t k uid ten) f (b_reconciliations t) = b_reconciliations t"
      using undec by (intro lupdate_none) blast
    then show ?thesis by (simp add: set_recon_def)
  qed
  have dec: "decide_recon e' c u k f g msg t = (Inl (TRPCError CONFLICT msg), t)" for u f g msg
    using undec [of _ "u_id u" "c_tenantId c"] same
    by (simp add: decide_recon_def Let_def filter_False)
  have claim: "set_recon (\<lambda>r. rc_billing_event_id r = k \<and> X r \<and> rc_status r = Rec_open \<and> Y r) f t = t" for X Y f
  proof -
    have "lupdate (\<lambda>r. rc_billing_event_id r = k \<and> X r \<and> rc_status r = Rec_open \<and> Y r) f (b_reconciliations t) = b_reconciliations t"
      using assms(1) by (intro lupdate_none) auto
    then show ?thesis by (simp add: set_recon_def)
  qed
  show "\<exists>x. recon_claim uuid_ok e' c k t = (Inl x, t)"
    by (auto simp: recon_claim_def adminProcedure_def Let_def none claim split: option.splits)
  show "\<exists>x. confirmSettled uuid_ok e' c i t = (Inl x, t)" "\<exists>x. confirmNotSettled uuid_ok e' c i t = (Inl x, t)"
    "\<exists>x. approveDeterministicRetry uuid_ok e' c i t = (Inl x, t)"
    using assms(2) by (auto simp: confirmSettled_def confirmNotSettled_def approveDeterministicRetry_def adminProcedure_def
      in_transaction_def dec split: option.splits)
qed

text \<open>C40: A second exhaustion has nobody to resolve it. When a metering event fails for the tenth time and its reconciliation was
  closed before, by an approved retry for instance, the event waits for a reconciliation that is not reopened: no administrator
  can claim it or decide it, and the worker does not touch it again.
\<close>

theorem second_exhaustion_is_unresolvable:
  assumes "b \<in> set (b_events s)" "be_id b = k" "be_status b = Be_leased" "transient err" "METER_MAX_ATTEMPTS \<le> be_attempt_count b"
    and "distinct (map be_id (b_events s))" "k \<in> rc_billing_event_id ` set (b_reconciliations s)"
    and "\<And>q. q \<in> set (b_reconciliations s) \<Longrightarrow> rc_billing_event_id q = k \<Longrightarrow> rc_status q \<noteq> Rec_open \<and> rc_status q \<noteq> Rec_under_review"
    and "ni_billingEventId i = k"
  shows "\<exists>t b'. meter_failure sv e ids b err s = (Inr (), t) \<and> b' \<in> set (b_events t) \<and> be_id b' = k \<and>
    be_status b' = Be_awaiting_reconciliation \<and>
    (\<exists>x. recon_claim uuid_ok e' c k t = (Inl x, t)) \<and> (\<exists>x. confirmSettled uuid_ok e' c i t = (Inl x, t)) \<and>
    (\<exists>x. confirmNotSettled uuid_ok e' c i t = (Inl x, t)) \<and> (\<exists>x. approveDeterministicRetry uuid_ok e' c i t = (Inl x, t)) \<and>
    (e_dbUp e' \<longrightarrow> processIntelligenceAssessmentBillingEvent sv e' locked ids' k w t = (Inr (), t))"
proof -
  let ?P = "\<lambda>b. be_id b = k \<and> be_status b = Be_leased"
  let ?f = "\<lambda>b. b\<lparr>be_status := Be_awaiting_reconciliation, be_tigerbeetle_transfer_id := (case be_tigerbeetle_transfer_id b of
      None \<Rightarrow> Some (intelligenceAssessmentTransferId sv k) | t \<Rightarrow> t), be_last_error_code := Some (error_label err)\<rparr>"
  define t where "t = set_event ?P ?f s"
  have run: "meter_failure sv e ids b err s = (Inr (), t)"
    using assms(4,5,7) unfolding meter_failure_def escalate_def assms(2) by (simp add: t_def set_event_def)
  have recs: "b_reconciliations t = b_reconciliations s" by (simp add: t_def set_event_def)
  have b': "?f b \<in> set (b_events t)" using lupdate_hit [OF assms(1), of ?P ?f] assms(2,3) by (simp add: t_def set_event_def)
  have idle: "\<not> claimable k x" if "x \<in> set (b_events t)" for x
  proof (cases "be_id x = k")
    case True
    have "map be_id (b_events t) = map be_id (b_events s)" unfolding t_def set_event_def by (simp, rule map_lupdate) simp
    then have "x = ?f b" using unique_key [of be_id "b_events t" x "?f b"] that b' assms(2,6) True by simp
    then show ?thesis by (simp add: claimable_def)
  qed (simp add: claimable_def)
  then have "filter (claimable k) (b_events t) = []" "set_event (claimable k) (lease_event e' w) t = t"
    by (simp_all add: filter_empty_conv set_event_def lupdate_none)
  then have "e_dbUp e' \<longrightarrow> processIntelligenceAssessmentBillingEvent sv e' locked ids' k w t = (Inr (), t)"
    by (simp add: processIntelligenceAssessmentBillingEvent_def)
  moreover have "\<exists>x. recon_claim uuid_ok e' c k t = (Inl x, t)" "\<exists>x. confirmSettled uuid_ok e' c i t = (Inl x, t)"
    "\<exists>x. confirmNotSettled uuid_ok e' c i t = (Inl x, t)" "\<exists>x. approveDeterministicRetry uuid_ok e' c i t = (Inl x, t)"
    by (rule closed_reconciliation_refuses [OF _ assms(9)]; use assms(8) recs in simp)+
  ultimately show ?thesis using run b' assms(2) by (intro exI [where x = t] exI [where x = "?f b"]) simp
qed

end
