(* ===== verification/Worker_Witnesses.thy ===== *)
theory Worker_Witnesses
  imports Billing_Workers Commercial_Witnesses
begin

text \<open>
  The theorems on the billing workers at concrete inputs: a retry queue of two items, and an assessment that is metered, by a ledger that answers and
  by one that applies a transfer but whose answer is lost.
\<close>

section \<open>Retries\<close>

definition toy_retry :: "int \<Rightarrow> string \<Rightarrow> retryItem" where
  "toy_retry n r = \<lparr>rq_id = n, rq_reference = r, rq_tenantId = ''7'', rq_amountKobo = 200000, rq_attempts = 5,
     rq_nextRetryAt = 1700000000000, rq_status = Retry_pending, rq_leasedAt = None, rq_lastError = None, rq_createdAt = 1700000000000\<rparr>"

definition queued :: "transfer list billdb" where
  "queued = opened\<lparr>b_retries := tinsert (\<lambda>n. toy_retry n ''lost'') (tinsert (\<lambda>n. toy_retry n toy_ref) empty_tbl)\<rparr>"

lemma queued_rows: "rows (b_retries queued) = [toy_retry 1 toy_ref, toy_retry 2 ''lost'']"
  by code_simp

lemma queued_ok: "retries_ok queued"
  by (simp add: retries_ok_def queued_rows) (simp add: toy_retry_def toy_ref_def RETRY_MAX_ATTEMPTS_def)

theorem retry_queue_terminates_witness:
  "fst (passes (\<lambda>_ _. 0) (toy_services 200000) [sample_env, sample_env\<lparr>e_now := 1700000900000\<rparr>] queued) \<le> 14"
proof -
  obtain n t where "passes (\<lambda>_ _. 0) (toy_services 200000) [sample_env, sample_env\<lparr>e_now := 1700000900000\<rparr>] queued = (n, t)" by fastforce
  with retry_queue_terminates [OF queued_ok this] show ?thesis by (simp add: queued_rows)
qed

theorem calculateBackoff_bounds_witness:
  "calculateBackoff (\<lambda>_. 0) 6 \<le> 66000 \<and> 60000 \<le> calculateBackoff (\<lambda>_. 0) 6"
  using calculateBackoff_bounds [of 6 "\<lambda>_. 0"] by simp

section \<open>Metering\<close>

definition toy_funds :: transfer where
  "toy_funds = \<lparr>tr_id = ''funds'', tr_debit_account_id = ''1'', tr_credit_account_id = ''100007'', tr_amount = 1000,
     tr_ledger = 566, tr_code = 9, tr_flags = 0, tr_user_data_128 = [], tr_user_data_64 = None\<rparr>"

definition toy_assessment :: assessment where
  "toy_assessment = \<lparr>as_id = ''a1'', as_tenant_id = 7, as_policy_code = ''p'', as_decision_support_only = True,
     as_superseded = False, as_expires_at = 1800000000000, as_calculated_at = 1600000000000, as_created_by = 2\<rparr>"

definition toy_policy :: meteringPolicy where
  "toy_policy = \<lparr>mp_id = ''m1'', mp_tenant_id = 7, mp_policy_code = ''p'', mp_enabled = True, mp_prepaid_price_kobo = 100,
     mp_effective_from = 0, mp_expires_at = None, mp_approved_by = Some 1, mp_approved_at = Some 0\<rparr>"

definition assessed :: "transfer list billdb" where
  "assessed = empty_billdb\<lparr>b_world := [toy_funds], b_assessments := [toy_assessment], b_policies := [toy_policy],
     b_plans := tinsert (new_plan starter) empty_tbl\<rparr>"

definition meter_ids :: meterIds where
  "meter_ids = \<lparr>mi_reservation = ''r1'', mi_usage = ''u1'', mi_reconciliation = ''q1''\<rparr>"

definition meter_pass :: "transfer list services \<Rightarrow> int \<Rightarrow> transfer list billdb \<Rightarrow> (error + nat) \<times> transfer list billdb" where
  "meter_pass sv now = processDueIntelligenceAssessmentBillingEvents sv (sample_env\<lparr>e_now := now\<rparr>) (\<lambda>_. False) (\<lambda>_. ''b1'')
     (\<lambda>_. meter_ids) ''worker'' 25"

lemma pass_reach:
  "reach (billing_start toy_posted) (billing_call sv) s \<Longrightarrow> reach (billing_start toy_posted) (billing_call sv) (snd (meter_pass sv now s))"
  unfolding meter_pass_def by (rule reach_step, assumption) (rule bc_meter [OF prod.collapse [symmetric]])

lemma reach_assessed: "reach (billing_start toy_posted) (billing_call sv) assessed"
  by (rule reach_init) (simp add: billing_start_def money_start_def toy_posted_def assessed_def toy_funds_def)

definition metered :: "transfer list billdb" where
  "metered = snd (meter_pass (toy_services 0) 1700000000000 assessed)"

abbreviation toy_metered :: transfer where "toy_metered \<equiv> assessmentTransfer (toy_services 0) 7 ''b1'' 100"

lemma metered_run: "fst (meter_pass (toy_services 0) 1700000000000 assessed) = Inr 1"
    "b_world metered = [toy_funds, toy_metered]" "map be_status (b_events metered) = [Be_settled]"
  by code_simp+

theorem assessment_charged_once_witness:
  "toy_metered \<in> set (b_world metered) \<and> (\<exists>ev \<in> set (b_events metered). toy_metered =
     assessmentTransfer (toy_services 0) (be_tenant_id ev) (be_id ev) (be_amount_kobo ev))"
proof -
  have r: "reach (money_start toy_posted) (money_step (toy_services 0) toy_posted) (metered, {#})"
    unfolding metered_def by (rule history_reachable [OF pass_reach [OF reach_assessed]])
  have p: "toy_metered \<in> set (b_world metered)" "tr_code toy_metered = 3" by (simp_all add: metered_run assessmentTransfer_def)
  with assessment_charged_once [OF toy_laws r, of toy_metered] show ?thesis by (simp add: toy_posted_def)
qed

text \<open>A ledger that applies each transfer, but whose answer never arrives.\<close>

definition deaf_services :: "transfer list services" where
  "deaf_services = (toy_services 0)\<lparr>sv_postTransfers := (\<lambda>ts w. (NoResponse, snd (toy_post ts w)))\<rparr>"

lemma deaf_laws: "ledger_laws deaf_services toy_posted"
  by (auto simp: ledger_laws_def deaf_services_def toy_services_def toy_posted_def toy_post_def http_ok_def)

definition charged :: "transfer list billdb" where "charged = snd (meter_pass deaf_services 1700000000000 assessed)"
definition subscribed :: "transfer list billdb" where
  "subscribed = snd (signup deaf_services sample_env analyst_ctx toy_ids toy_signup charged)"
definition charged_twice :: "transfer list billdb" where
  "charged_twice = snd (meter_pass deaf_services 1700000400000 subscribed)"

text \<open>An assessment can be paid twice. There is a history that ends in a settled event with both payments: the ledger applies the
  debit but its answer is lost, so the worker puts the event back; meanwhile the tenant receives an entitlement; and the second
  attempt, which looks for an entitlement before the ledger, uses up a unit and settles the event, with the debit still posted.
\<close>

lemma assessment_paid_twice:
  "ledger_laws deaf_services toy_posted \<and> reach (billing_start toy_posted) (billing_call deaf_services) charged_twice \<and>
   (\<exists>ev. b_events charged_twice = [ev] \<and> be_status ev = Be_settled \<and> be_reservation_id ev = Some ''r1'' \<and>
     assessmentTransfer deaf_services (be_tenant_id ev) (be_id ev) (be_amount_kobo ev) \<in> set (b_world charged_twice)) \<and>
   map en_consumed_units (b_entitlements charged_twice) = [1] \<and> map us_reservation_id (b_usage charged_twice) = [''r1'']"
proof -
  have "reach (billing_start toy_posted) (billing_call deaf_services) subscribed"
    unfolding subscribed_def charged_def
    by (rule reach_step [OF pass_reach [OF reach_assessed] bc_signup [OF prod.collapse [symmetric]]])
  then have r: "reach (billing_start toy_posted) (billing_call deaf_services) charged_twice"
    unfolding charged_twice_def by (rule pass_reach)
  have "map be_status (b_events charged_twice) = [Be_settled]" "map be_reservation_id (b_events charged_twice) = [Some ''r1'']"
    "map (\<lambda>ev. (be_tenant_id ev, be_id ev, be_amount_kobo ev)) (b_events charged_twice) = [(7, ''b1'', 100)]"
    "assessmentTransfer deaf_services 7 ''b1'' 100 \<in> set (b_world charged_twice)"
    "map en_consumed_units (b_entitlements charged_twice) = [1]" "map us_reservation_id (b_usage charged_twice) = [''r1'']"
    by code_simp+
  then show ?thesis using deaf_laws r by auto
qed

text \<open>The tenth failure, the reconciliation it opens, and a second exhaustion.\<close>

definition worn :: "be_status \<Rightarrow> billingEvent" where
  "worn st = \<lparr>be_id = ''b1'', be_tenant_id = 7, be_assessment_id = ''a1'', be_metering_policy_id = ''m1'', be_reservation_id = None,
     be_requested_by = 2, be_amount_kobo = 100, be_status = st, be_idempotency_key = ''a1'', be_tigerbeetle_transfer_id = None,
     be_attempt_count = 10, be_available_at = 0, be_leased_at = Some 0, be_lease_owner = Some ''worker'', be_settled_at = None,
     be_last_error_code = None\<rparr>"

definition lost_ledger :: error where "lost_ledger = PlainError ''ledger unavailable''"

definition escalated :: "transfer list billdb" where
  "escalated = escalate (toy_services 0) sample_env ''q1'' (worn Be_leased) lost_ledger (assessed\<lparr>b_events := [worn Be_leased]\<rparr>)"

definition toy_evidence :: reconInput where
  "toy_evidence = \<lparr>ni_billingEventId = ''b1'', ni_rationale = ''the ledger shows the transfer'',
     ni_ledgerEvidenceRef = Some ''statement-17'', ni_ledgerEvidenceSha256 = Some (replicate 64 (CHR ''a''))\<rparr>"

lemma evidence_run: "fst (confirmSettled (\<lambda>_. True) sample_env admin_ctx toy_evidence escalated) = Inr ()"
  by code_simp

theorem settlement_confirmed_by_second_person_witness:
  "\<exists>q \<in> set (b_reconciliations escalated). rc_status q = Rec_open \<or> rc_status q = Rec_under_review"
proof -
  obtain t where "confirmSettled (\<lambda>_. True) sample_env admin_ctx toy_evidence escalated = (Inr (), t)"
    using evidence_run by (metis prod.collapse)
  from settlement_confirmed_by_second_person [OF this] show ?thesis by blast
qed

definition retried :: "transfer list billdb" where
  "retried = (snd (approveDeterministicRetry (\<lambda>_. True) sample_env admin_ctx toy_evidence escalated))\<lparr>b_events := [worn Be_leased]\<rparr>"

lemma retried: "b_events retried = [worn Be_leased]" "map rc_status (b_reconciliations retried) = [Rec_approved_retry]"
  "map rc_billing_event_id (b_reconciliations retried) = [''b1'']" "transient lost_ledger" "METER_MAX_ATTEMPTS \<le> 10"
  by code_simp+

theorem second_exhaustion_is_unresolvable_witness:
  "\<exists>t err. meter_failure (toy_services 0) sample_env meter_ids (worn Be_leased) lost_ledger retried = (Inr (), t) \<and>
     confirmSettled (\<lambda>_. True) sample_env admin_ctx toy_evidence t = (Inl err, t)"
proof -
  from retried(2,3) obtain q where q: "b_reconciliations retried = [q]" "rc_status q = Rec_approved_retry" "rc_billing_event_id q = ''b1''" by auto
  have "worn Be_leased \<in> set (b_events retried)" "be_id (worn Be_leased) = ''b1''" "be_status (worn Be_leased) = Be_leased"
    "METER_MAX_ATTEMPTS \<le> be_attempt_count (worn Be_leased)" "ni_billingEventId toy_evidence = ''b1''"
    by (simp_all add: retried(1) worn_def toy_evidence_def METER_MAX_ATTEMPTS_def)
  from second_exhaustion_is_unresolvable [OF this(1,2,3) retried(4) this(4), of toy_evidence "toy_services 0" sample_env meter_ids "\<lambda>_. True" sample_env admin_ctx
      "\<lambda>_. False" meter_ids "''worker''"] q this(5)
  show ?thesis by (auto simp: retried(1))
qed

end
