(* ===== verification/Gov_Schema.thy ===== *)
theory Gov_Schema
  imports Js_Date Bis_Prelude
begin

text \<open>
  The tables of consumer disputes and adverse actions (migrations 0008, 0009, 0014 to 0016 under
  \<open>drizzle/\<close>): rows, enumerations and the constraints their writers can meet. Tables keyed by a
  UUID are lists, tables with a BIGSERIAL are \<open>tbl\<close>. Texts that SHA-256 or HMAC produce satisfy
  their format CHECKs by what those functions are, so these are left out, as are foreign keys.
\<close>

section \<open>JSON values\<close>

datatype jval = JNull | JBool bool | JNum int | JStr string | JArr "jval list" | JObj "(string \<times> jval) list"

definition jget :: "string \<Rightarrow> jval \<Rightarrow> jval option" where
  "jget k v = (case v of JObj kvs \<Rightarrow> map_of kvs k | _ \<Rightarrow> None)"

definition jopt :: "('a \<Rightarrow> jval) \<Rightarrow> 'a option \<Rightarrow> jval" where
  "jopt f x = (case x of None \<Rightarrow> JNull | Some y \<Rightarrow> f y)"

definition isoInstant :: "int \<Rightarrow> string" where
  "isoInstant t = isoDate t @ ''T'' @ isoTime t @ ''Z''"

section \<open>Configuration and services\<close>

text \<open>
  The configuration read from the environment, and the services called: SHA-256 of a text followed by
  the JSON text of a value, HMAC-SHA-256 of a JSON text (\<open>None\<close> when its key is not configured), Vault Transit
  encryption and decryption of a JSON value under a key name and authenticated data (with the key
  version that was used), and the key ring of the provider outbox with its cipher.
\<close>

record transitKey =
  tk_id :: int
  tk_keyVersion :: string
  tk_externalKeyRef :: string
  tk_providerKeyVersion :: int

record govServices =
  gs_complianceEnabled :: bool
  gs_fcraEnabled :: bool
  gs_fcraCasesEnabled :: bool
  gs_deploymentEnv :: "string option"
  gs_digest :: "string \<Rightarrow> jval option \<Rightarrow> string"
  gs_hmac :: "(jval \<Rightarrow> string) option"
  gs_encrypt :: "transitKey \<Rightarrow> string \<Rightarrow> jval \<Rightarrow> error + (string \<times> int)"
  gs_decrypt :: "transitKey \<Rightarrow> string \<Rightarrow> string \<Rightarrow> error + jval"
  gs_keyring :: "int \<Rightarrow> error + unit"
  gs_seal :: "string \<Rightarrow> jval \<Rightarrow> string"
  gs_unseal :: "string \<Rightarrow> string \<Rightarrow> error + jval"

definition sha256_json :: "govServices \<Rightarrow> jval \<Rightarrow> string" where
  "sha256_json sv v = gs_digest sv [] (Some v)"

section \<open>Adverse actions\<close>

datatype framework = Ndpa | Fcra | Dual
datatype notice_type = Pre_adverse | Final_adverse | Undeliverable_notice | Dispute_hold | Dispute_result
datatype channel = Portal | Email | Postal | Manual

datatype aa_status =
    Draft | Pre_notice_queued | Pre_notice_delivered | Waiting | Paused_for_dispute | Canceled
  | Final_notice_queued | Aa_completed | Undeliverable | Manual_delivery

record aaCase =
  aa_id :: string
  aa_case_ref :: string
  aa_tenant_id :: int
  aa_screening_order_id :: int
  aa_candidate_id :: int
  aa_report_snapshot_id :: int
  aa_jurisdiction_code :: string
  aa_framework :: framework
  aa_status :: aa_status
  aa_waiting_period_days :: int
  aa_pre_notice_due_at :: "int option"
  aa_final_notice_eligible_at :: "int option"
  aa_final_notice_sent_at :: "int option"
  aa_initiated_by :: int
  aa_employer_attestation :: string
  aa_fcra_attested_at :: "int option"
  aa_fcra_attestation_text :: "string option"
  aa_paused_from_status :: "aa_status option"
  aa_paused_at :: "int option"
  aa_created_at :: int

text \<open>The CHECK constraints of a case that the code can run into.\<close>

definition aa_pausable :: "aa_status \<Rightarrow> bool" where
  "aa_pausable st \<longleftrightarrow> st \<in> {Pre_notice_queued, Pre_notice_delivered, Waiting, Final_notice_queued}"

definition aa_row_ok :: "aaCase \<Rightarrow> bool" where
  "aa_row_ok a \<longleftrightarrow> 5 \<le> aa_waiting_period_days a \<and> aa_waiting_period_days a \<le> 30 \<and>
     (case aa_paused_from_status a of None \<Rightarrow> True | Some st \<Rightarrow> aa_pausable st) \<and>
     ((aa_status a = Paused_for_dispute) = (aa_paused_at a \<noteq> None)) \<and>
     (aa_framework a = Ndpa \<or> (aa_jurisdiction_code a = ''US'' \<and> aa_fcra_attested_at a \<noteq> None \<and>
        (case aa_fcra_attestation_text a of None \<Rightarrow> False | Some x \<Rightarrow> 40 \<le> length x)))"

datatype dl_status = Dl_queued | Dl_sent | Dl_delivered | Dl_opened | Dl_undeliverable | Dl_manual_required | Dl_canceled

record delivery =
  dl_id :: string
  dl_case_id :: string
  dl_template_id :: string
  dl_notice_type :: notice_type
  dl_channel :: channel
  dl_status :: dl_status
  dl_content_sha256 :: string
  dl_provider_message_ref :: "string option"
  dl_queued_at :: int
  dl_sent_at :: "int option"
  dl_delivered_at :: "int option"

datatype ob_state = Ob_pending | Ob_leased | Ob_delivered | Ob_dead_letter | Ob_cancelled

record noticeOutbox =
  no_id :: string
  no_tenant_id :: int
  no_case_id :: string
  no_delivery_id :: string
  no_ciphertext :: string
  no_key_version :: string
  no_provider_key_version :: int
  no_key_registry_id :: int
  no_payload_sha256 :: string
  no_idempotency_key :: string
  no_state :: ob_state
  no_attempt_count :: nat
  no_available_at :: int
  no_leased_at :: "int option"
  no_delivered_at :: "int option"
  no_last_error_code :: "string option"
  no_created_at :: int

record aaItem =
  ai_case_id :: string
  ai_screening_result_id :: int
  ai_ciphertext :: string
  ai_key_registry_id :: int

record template =
  tm_id :: string
  tm_tenant_id :: int
  tm_key :: notice_type
  tm_jurisdiction_code :: string
  tm_version :: string
  tm_body_ciphertext :: string
  tm_content_sha256 :: string
  tm_approved_by :: int
  tm_counsel_reference :: string
  tm_key_registry_id :: int
  tm_superseded_at :: "int option"

datatype aa_event =
    Ev_created | Ev_pre_notice_queued | Ev_pre_notice_delivered | Ev_paused_for_dispute | Ev_resumed | Ev_canceled
  | Ev_final_notice_queued | Ev_final_notice_delivered | Ev_manual_delivery_required | Ev_manual_delivery_resolved | Ev_completed

record aaEvent =
  ae_case_id :: string
  ae_actor :: "int option"
  ae_type :: aa_event
  ae_detail :: jval
  ae_integrity_hash :: string
  ae_created_at :: int

record templateEvent =
  te_template_id :: string
  te_actor :: int
  te_type :: string
  te_detail :: jval
  te_integrity_hash :: string
  te_created_at :: int

section \<open>What other components write\<close>

record screeningOrder =
  so_id :: int
  so_orderRef :: string
  so_tenantId :: int
  so_candidateId :: int
  so_completed :: bool

record screeningResult =
  sr_id :: int
  sr_orderId :: int
  sr_screeningType :: string
  sr_status :: string
  sr_outcome :: "string option"
  sr_dataSourceRef :: "string option"
  sr_externalRef :: "string option"
  sr_completedAt :: "int option"
  sr_expiresAt :: "int option"

record candidate =
  cd_id :: int
  cd_candidateRef :: string
  cd_tenantId :: int

record consent =
  cs_consentRef :: string
  cs_candidateId :: int
  cs_orderId :: "int option"
  cs_signedAt :: "int option"
  cs_revokedAt :: "int option"

record encryptionKey =
  ek_id :: int
  ek_tenant_id :: int
  ek_key_version :: string
  ek_external_key_ref :: string
  ek_vault :: bool
  ek_provider_key_name :: "string option"
  ek_provider_key_version :: "int option"
  ek_status :: string
  ek_retires_at :: "int option"

section \<open>Consumer disputes\<close>

datatype assurance = Account_verified | Identity_verified | Manual_verified

record binding =
  bn_id :: int
  bn_user_id :: int
  bn_tenant_id :: int
  bn_candidate_id :: int
  bn_assurance :: assurance
  bn_verification_reference :: string
  bn_verified_at :: int
  bn_revoked_at :: "int option"

record snapshot =
  sn_id :: int
  sn_ref :: string
  sn_tenant_id :: int
  sn_candidate_id :: int
  sn_screening_order_id :: int
  sn_jurisdiction_code :: string
  sn_report_purpose :: string
  sn_content_sha256 :: string
  sn_manifest :: jval

datatype dispute_type = Accuracy | Completeness | Source_provenance | Suppression | Objection | Deletion | Method_description

datatype dc_status =
    Identity_pending | Received | Accepted | Source_pending | Investigating | Awaiting_consumer | Frivolous
  | Resolved | Withdrawn | Escalated

record disputeCase =
  dc_id :: int
  dc_case_ref :: string
  dc_tenant_id :: int
  dc_requester_user_id :: int
  dc_subject_binding_id :: int
  dc_report_snapshot_id :: int
  dc_framework :: framework
  dc_jurisdiction_code :: string
  dc_case_type :: dispute_type
  dc_status :: dc_status
  dc_received_at :: int
  dc_accepted_at :: "int option"
  dc_reinvestigation_due_at :: "int option"
  dc_extension_due_at :: "int option"
  dc_source_notice_due_at :: "int option"
  dc_result_notice_due_at :: "int option"
  dc_method_description_due_at :: "int option"
  dc_assigned_to_user_id :: "int option"
  dc_completed_at :: "int option"

datatype disposition = Pending | Verified | Corrected | Deleted | Partially_resolved | Unverifiable | Not_in_scope

record disputeItem =
  di_id :: int
  di_item_ref :: string
  di_case_id :: int
  di_screening_result_id :: int
  di_report_item_key :: string
  di_disputed_value :: jval
  di_statement :: string
  di_disposition :: disposition
  di_rationale :: "string option"
  di_held_at :: "int option"
  di_resolved_at :: "int option"

datatype custody = Initiated | Custody_verified | Quarantined | Custody_deleted

record evidence =
  ev_ref :: string
  ev_case_id :: int
  ev_submitted_by :: int
  ev_idempotency_key :: string
  ev_object_key :: string
  ev_object_version_id :: "string option"
  ev_kms_key_id :: string
  ev_sha256 :: string
  ev_content_type :: string
  ev_byte_size :: int
  ev_custody :: custody
  ev_expires_at :: int
  ev_created_at :: int
  ev_verified_at :: "int option"

datatype task_status = Task_pending | Task_dispatched | Task_acknowledged | Task_responded | Task_failed | Task_cancelled

record sourceTask =
  st_id :: int
  st_task_ref :: string
  st_case_id :: int
  st_item_id :: int
  st_authorization_id :: int
  st_data_source_id :: int
  st_source_record_ref :: "string option"
  st_idempotency_key :: string
  st_status :: task_status
  st_manifest_sha256 :: string
  st_response_due_at :: "int option"
  st_response_received_at :: "int option"
  st_response_disposition :: "string option"

record providerOutbox =
  po_id :: string
  po_case_id :: int
  po_source_task_id :: int
  po_ciphertext :: string
  po_payload_sha256 :: string
  po_idempotency_key :: string
  po_state :: ob_state
  po_attempt_count :: nat
  po_available_at :: int
  po_leased_at :: "int option"
  po_last_error_code :: "string option"
  po_created_at :: int

record authorization =
  az_id :: int
  az_ref :: string
  az_tenant_id :: "int option"
  az_data_source_id :: int
  az_provider_code :: string
  az_contract_version :: string
  az_environment :: string
  az_active :: bool
  az_use_cases :: "string list"
  az_jurisdictions :: "string list"
  az_effective_at :: "int option"
  az_expires_at :: "int option"
  az_suspended_at :: "int option"
  az_suspension_reason :: "string option"

record disputeNotice =
  dn_ref :: string
  dn_case_id :: int
  dn_type :: string
  dn_template_version :: string
  dn_recipient :: string
  dn_status :: string
  dn_content_sha256 :: string
  dn_queued_at :: int

record disputeEvent =
  de_case_id :: int
  de_actor :: "int option"
  de_actor_kind :: string
  de_type :: string
  de_detail :: jval
  de_integrity_hash :: string
  de_created_at :: int

datatype deadline = Source_notice_due | Reinvestigation_due | Result_notice_due | Method_description_due
datatype es_status = Es_open | Es_acknowledged | Es_resolved

record escalation =
  es_id :: int
  es_case_id :: int
  es_type :: deadline
  es_due_at :: int
  es_status :: es_status
  es_acknowledged_at :: "int option"
  es_acknowledged_by :: "int option"
  es_resolved_at :: "int option"
  es_resolved_by :: "int option"
  es_note :: "string option"

section \<open>The database\<close>

record govdb =
  g_users :: "int list"
  g_candidates :: "candidate list"
  g_orders :: "screeningOrder list"
  g_results :: "screeningResult list"
  g_consents :: "consent list"
  g_keys :: "encryptionKey list"
  g_templates :: "template list"
  g_cases :: "aaCase list"
  g_items :: "aaItem list"
  g_deliveries :: "delivery list"
  g_outbox :: "noticeOutbox list"
  g_events :: "aaEvent list"
  g_template_events :: "templateEvent list"
  g_bindings :: "binding tbl"
  g_snapshots :: "snapshot tbl"
  g_disputes :: "disputeCase tbl"
  g_dispute_items :: "disputeItem tbl"
  g_evidence :: "evidence list"
  g_tasks :: "sourceTask tbl"
  g_provider_outbox :: "providerOutbox list"
  g_authorizations :: "authorization list"
  g_notices :: "disputeNotice list"
  g_dispute_events :: "disputeEvent list"
  g_escalations :: "escalation tbl"

end
