(* ===== verification/Adverse_Action.thy ===== *)
theory Adverse_Action
  imports Gov_Schema
begin

text \<open>
  \<open>server/complianceWorkflow.ts\<close>: the life of an adverse-action case, from the pre-adverse notice
  over the waiting period to the final notice, with pauses for consumer disputes. Texts in inputs
  are those zod returns, trimmed. Every procedure is one transaction; \<open>NOW()\<close> is its start.
\<close>

section \<open>Guards\<close>

definition complianceProcedure ::
  "govServices \<Rightarrow> env \<Rightarrow> ctx \<Rightarrow> string \<Rightarrow> role list \<Rightarrow> (int \<Rightarrow> user \<Rightarrow> ('s, 'a) act) \<Rightarrow> ('s, 'a) act" where
  "complianceProcedure sv e c permission roles k = writeProcedure e c (\<lambda>u s.
     case c_tenantId c of
       None \<Rightarrow> (Inl (TRPCError FORBIDDEN ''Tenant context is required.''), s)
     | Some t \<Rightarrow>
         if e_isProduction e \<and> \<not> gs_complianceEnabled sv
         then (Inl (TRPCError FORBIDDEN ''Adverse-action workflows are disabled pending counsel and operational approval.''), s)
         else if u_role u \<notin> set roles
         then (Inl (TRPCError FORBIDDEN ''A designated adverse-action compliance role is required.''), s)
         else if e_isProduction e \<and> \<not> e_permify e ''platform'' (show_int t) permission (u_id u)
         then (Inl (TRPCError FORBIDDEN ''Adverse-action permission denied.''), s)
         else k t u s)"

definition adjudicatorProcedure :: "govServices \<Rightarrow> env \<Rightarrow> ctx \<Rightarrow> (int \<Rightarrow> user \<Rightarrow> ('s, 'a) act) \<Rightarrow> ('s, 'a) act" where
  "adjudicatorProcedure sv e c = complianceProcedure sv e c ''manage_adverse_actions'' [RAdmin, RSupervisor, RAnalyst]"

definition administratorProcedure :: "govServices \<Rightarrow> env \<Rightarrow> ctx \<Rightarrow> (int \<Rightarrow> user \<Rightarrow> ('s, 'a) act) \<Rightarrow> ('s, 'a) act" where
  "administratorProcedure sv e c = complianceProcedure sv e c ''supervise_adverse_actions'' [RAdmin, RSupervisor]"

text \<open>
  \<open>pool()\<close> and \<open>beginTenantTransaction\<close> (\<open>server/tenantRls.ts\<close>); the session variable it sets
  restricts the key registry to the tenant, which its queries ask for anyway.
\<close>

definition tenantTransaction :: "env \<Rightarrow> int \<Rightarrow> ('s, 'a) act \<Rightarrow> ('s, 'a) act" where
  "tenantTransaction e t body =
     require (e_dbUp e) (TRPCError SERVICE_UNAVAILABLE ''PostgreSQL is unavailable.'')
     (require (isSafeInteger t \<and> 0 < t) (PlainError ''A positive trusted tenant ID is required for PostgreSQL RLS context.'')
     (in_transaction body))"

text \<open>\<open>/^BIS-AA-[A-Z0-9]{18}$/\<close> and its siblings.\<close>

definition upper_alnum :: "char \<Rightarrow> bool" where
  "upper_alnum ch \<longleftrightarrow> is_digit_char ch \<or> (let n = (of_char ch :: nat) in 65 \<le> n \<and> n \<le> 90)"

definition ref_ok :: "string \<Rightarrow> string \<Rightarrow> bool" where
  "ref_ok prefix r \<longleftrightarrow> take (length prefix) r = prefix \<and> length r = length prefix + 18 \<and> list_all upper_alnum (drop (length prefix) r)"

definition ref_of :: "string \<Rightarrow> string \<Rightarrow> string" where
  "ref_of prefix uuid = prefix @ map to_upper (take 18 (filter (\<lambda>ch. ch \<noteq> CHR ''-'') uuid))"

abbreviation case_ref_ok :: "string \<Rightarrow> bool" where "case_ref_ok \<equiv> ref_ok ''BIS-AA-''"

text \<open>\<open>/^[A-Z]{2}$/\<close>.\<close>

definition jurisdiction_ok :: "string \<Rightarrow> bool" where
  "jurisdiction_ok s \<longleftrightarrow> length s = 2 \<and> list_all (\<lambda>ch. let n = (of_char ch :: nat) in 65 \<le> n \<and> n \<le> 90) s"

section \<open>Audit events\<close>

definition aa_event_name :: "aa_event \<Rightarrow> string" where
  "aa_event_name v = (case v of
     Ev_created \<Rightarrow> ''created'' | Ev_pre_notice_queued \<Rightarrow> ''pre_notice_queued'' | Ev_pre_notice_delivered \<Rightarrow> ''pre_notice_delivered''
   | Ev_paused_for_dispute \<Rightarrow> ''paused_for_dispute'' | Ev_resumed \<Rightarrow> ''resumed'' | Ev_canceled \<Rightarrow> ''canceled''
   | Ev_final_notice_queued \<Rightarrow> ''final_notice_queued'' | Ev_final_notice_delivered \<Rightarrow> ''final_notice_delivered''
   | Ev_manual_delivery_required \<Rightarrow> ''manual_delivery_required'' | Ev_manual_delivery_resolved \<Rightarrow> ''manual_delivery_resolved''
   | Ev_completed \<Rightarrow> ''completed'')"

definition aa_canonical :: "string \<Rightarrow> int option \<Rightarrow> aa_event \<Rightarrow> jval \<Rightarrow> int \<Rightarrow> jval" where
  "aa_canonical caseId actor ty detail now =
     JObj [(''adverseActionCaseId'', JStr caseId), (''actorUserId'', jopt JNum actor), (''eventType'', JStr (aa_event_name ty)),
           (''detail'', detail), (''createdAt'', JStr (isoInstant now))]"

definition appendEvent :: "govServices \<Rightarrow> env \<Rightarrow> string \<Rightarrow> int option \<Rightarrow> aa_event \<Rightarrow> jval \<Rightarrow> (govdb, unit) act" where
  "appendEvent sv e caseId actor ty detail s =
     (case gs_hmac sv of
        None \<Rightarrow> (Inl (TRPCError SERVICE_UNAVAILABLE ''Audit integrity key is unavailable.''), s)
      | Some hmac \<Rightarrow> (Inr (), s\<lparr>g_events := g_events s @ [\<lparr>ae_case_id = caseId, ae_actor = actor, ae_type = ty, ae_detail = detail,
            ae_integrity_hash = hmac (aa_canonical caseId actor ty detail (e_now e)), ae_created_at = e_now e\<rparr>]\<rparr>))"

definition appendTemplateEvent :: "govServices \<Rightarrow> env \<Rightarrow> string \<Rightarrow> int \<Rightarrow> string \<Rightarrow> jval \<Rightarrow> (govdb, unit) act" where
  "appendTemplateEvent sv e templateId actor ty detail s =
     (case gs_hmac sv of
        None \<Rightarrow> (Inl (TRPCError SERVICE_UNAVAILABLE ''Audit integrity key is unavailable.''), s)
      | Some hmac \<Rightarrow> (Inr (), s\<lparr>g_template_events := g_template_events s @ [\<lparr>te_template_id = templateId, te_actor = actor,
            te_type = ty, te_detail = detail,
            te_integrity_hash = hmac (JObj [(''templateId'', JStr templateId), (''actorUserId'', JNum actor), (''eventType'', JStr ty),
              (''detail'', detail), (''createdAt'', JStr (isoInstant (e_now e)))]), te_created_at = e_now e\<rparr>]\<rparr>))"

section \<open>Statements\<close>

definition lockedCase :: "string \<Rightarrow> int \<Rightarrow> (govdb, aaCase) act" where
  "lockedCase ref t s =
     (case filter (\<lambda>a. aa_case_ref a = ref \<and> aa_tenant_id a = t) (g_cases s) of
        a # _ \<Rightarrow> (Inr a, s)
      | [] \<Rightarrow> (Inl (TRPCError NOT_FOUND ''Adverse-action case not found.''), s))"

text \<open>\<open>UPDATE compliance\_adverse\_action\_cases SET \<dots> WHERE P\<close>, under the CHECKs of the table.\<close>

definition update_cases :: "(aaCase \<Rightarrow> bool) \<Rightarrow> (aaCase \<Rightarrow> aaCase) \<Rightarrow> (govdb, unit) act" where
  "update_cases P f s =
     (if \<exists>a \<in> set (g_cases s). P a \<and> \<not> aa_row_ok (f a) then (Inl DbError, s)
      else (Inr (), s\<lparr>g_cases := lupdate P f (g_cases s)\<rparr>))"

definition set_deliveries :: "(delivery \<Rightarrow> bool) \<Rightarrow> (delivery \<Rightarrow> delivery) \<Rightarrow> (govdb, unit) act" where
  "set_deliveries P f s = (Inr (), s\<lparr>g_deliveries := lupdate P f (g_deliveries s)\<rparr>)"

definition set_outbox :: "(noticeOutbox \<Rightarrow> bool) \<Rightarrow> (noticeOutbox \<Rightarrow> noticeOutbox) \<Rightarrow> (govdb, unit) act" where
  "set_outbox P f s = (Inr (), s\<lparr>g_outbox := lupdate P f (g_outbox s)\<rparr>)"

definition cancel_deliveries :: "string \<Rightarrow> (govdb, unit) act" where
  "cancel_deliveries k = set_deliveries (\<lambda>d. dl_case_id d = k \<and> (dl_status d = Dl_queued \<or> dl_status d = Dl_sent))
     (\<lambda>d. d\<lparr>dl_status := Dl_canceled\<rparr>)"

definition ob_open :: "ob_state \<Rightarrow> bool" where
  "ob_open st \<longleftrightarrow> st = Ob_pending \<or> st = Ob_leased"

definition cancel_outbox :: "(noticeOutbox \<Rightarrow> bool) \<Rightarrow> string \<Rightarrow> (govdb, unit) act" where
  "cancel_outbox P code = set_outbox (\<lambda>o'. P o' \<and> ob_open (no_state o')) (\<lambda>o'. o'\<lparr>no_state := Ob_cancelled, no_last_error_code := Some code\<rparr>)"

definition dispute_open :: "disputeCase \<Rightarrow> bool" where
  "dispute_open d \<longleftrightarrow> dc_status d \<notin> {Resolved, Withdrawn, Frivolous}"

definition open_disputes :: "govdb \<Rightarrow> int \<Rightarrow> int \<Rightarrow> disputeCase list" where
  "open_disputes s candidateId t = filter (\<lambda>d. dc_tenant_id d = t \<and> dispute_open d \<and>
     (\<exists>b \<in> set (rows (g_bindings s)). bn_id b = dc_subject_binding_id d \<and> bn_candidate_id b = candidateId)) (rows (g_disputes s))"

definition assertNoOpenDispute :: "int \<Rightarrow> int \<Rightarrow> (govdb, unit) act" where
  "assertNoOpenDispute candidateId t s =
     (if open_disputes s candidateId t = [] then (Inr (), s)
      else (Inl (TRPCError PRECONDITION_FAILED ''A consumer dispute is open; adverse action must remain paused.''), s))"

section \<open>Encryption\<close>

text \<open>\<open>activeTenantEncryptionRegistry\<close> (\<open>server/piiKeyRegistry.ts\<close>).\<close>

definition known_key_status :: "string \<Rightarrow> bool" where
  "known_key_status st \<longleftrightarrow> st \<in> {''active'', ''retiring'', ''retired'', ''compromised'', ''staged''}"

definition rowToRegistry :: "encryptionKey \<Rightarrow> int \<Rightarrow> error + transitKey" where
  "rowToRegistry r t =
     (if ek_tenant_id r \<noteq> t \<or> \<not> ek_vault r \<or> \<not> truthy_str (ek_provider_key_name r) \<or>
         (case ek_provider_key_version r of None \<Rightarrow> True | Some v \<Rightarrow> v = 0) \<or> \<not> known_key_status (ek_status r)
      then Inl (TRPCError SERVICE_UNAVAILABLE ''Encryption key registry is not a valid tenant-scoped Vault Transit key.'')
      else Inr \<lparr>tk_id = ek_id r, tk_keyVersion = ek_key_version r, tk_externalKeyRef = ek_external_key_ref r,
                tk_providerKeyVersion = the (ek_provider_key_version r)\<rparr>)"

definition activeTenantEncryptionRegistry :: "env \<Rightarrow> int \<Rightarrow> (govdb, transitKey) act" where
  "activeTenantEncryptionRegistry e t s =
     (case filter (\<lambda>r. ek_tenant_id r = t \<and> ek_status r = ''active'' \<and> ek_vault r \<and>
             (case ek_retires_at r of None \<Rightarrow> True | Some x \<Rightarrow> e_now e < x)) (g_keys s) of
        [r] \<Rightarrow> (rowToRegistry r t, s)
      | _ \<Rightarrow> (Inl (TRPCError SERVICE_UNAVAILABLE ''Exactly one active tenant Vault Transit encryption key registry is required.''), s))"

text \<open>\<open>piiAad\<close> and \<open>encryptPiiEnvelope\<close> (\<open>server/piiEnvelopeCrypto.ts\<close>).\<close>

definition purpose_char :: "char \<Rightarrow> bool" where
  "purpose_char ch \<longleftrightarrow> upper_alnum (to_upper ch) \<or> ch = CHR '':'' \<or> ch = CHR ''_'' \<or> ch = CHR ''-''"

definition piiAad :: "int \<Rightarrow> int \<Rightarrow> string \<Rightarrow> error + string" where
  "piiAad t candidateId purpose =
     (if t < 1 \<or> candidateId < 1 \<or> purpose = [] \<or> 128 < length purpose \<or> \<not> list_all purpose_char purpose
      then Inl (TRPCError SERVICE_UNAVAILABLE ''PII authenticated-data binding is invalid.'')
      else Inr (''bis-pii-envelope:v2|'' @ show_int t @ ''|candidate_profile|'' @ show_int candidateId @ ''|'' @ purpose))"

definition encryptPiiEnvelope :: "govServices \<Rightarrow> transitKey \<Rightarrow> error + string \<Rightarrow> jval \<Rightarrow> (govdb, string) act" where
  "encryptPiiEnvelope sv key aad plaintext s =
     (case aad of
        Inl err \<Rightarrow> (Inl err, s)
      | Inr a \<Rightarrow>
          (case gs_encrypt sv key a plaintext of
             Inl err \<Rightarrow> (Inl err, s)
           | Inr (ciphertext, v) \<Rightarrow>
               if v \<noteq> tk_providerKeyVersion key
               then (Inl (TRPCError SERVICE_UNAVAILABLE ''Vault Transit encryption key version differs from the approved tenant registry version.''), s)
               else (Inr ciphertext, s)))"

section \<open>Notices\<close>

definition notice_name :: "notice_type \<Rightarrow> string" where
  "notice_name n = (case n of Pre_adverse \<Rightarrow> ''pre_adverse'' | Final_adverse \<Rightarrow> ''final_adverse''
     | Undeliverable_notice \<Rightarrow> ''undeliverable'' | Dispute_hold \<Rightarrow> ''dispute_hold'' | Dispute_result \<Rightarrow> ''dispute_result'')"

definition channel_name :: "channel \<Rightarrow> string" where
  "channel_name ch = (case ch of Portal \<Rightarrow> ''portal'' | Email \<Rightarrow> ''email'' | Postal \<Rightarrow> ''postal'' | Manual \<Rightarrow> ''manual'')"

definition framework_name :: "framework \<Rightarrow> string" where
  "framework_name f = (case f of Ndpa \<Rightarrow> ''ndpa'' | Fcra \<Rightarrow> ''fcra'' | Dual \<Rightarrow> ''dual'')"

record noticeIds =
  ni_delivery :: string
  ni_outbox :: string
  ni_idempotency :: string

definition notice_payload :: "aaCase \<Rightarrow> template \<Rightarrow> notice_type \<Rightarrow> channel \<Rightarrow> string \<Rightarrow> jval" where
  "notice_payload a t ty ch deliveryId =
     JObj [(''caseRef'', JStr (aa_case_ref a)), (''candidateId'', JNum (aa_candidate_id a)), (''templateId'', JStr (tm_id t)),
           (''templateKey'', JStr (notice_name (tm_key t))), (''jurisdictionCode'', JStr (tm_jurisdiction_code t)),
           (''templateVersion'', JStr (tm_version t)), (''noticeType'', JStr (notice_name ty)),
           (''channel'', JStr (channel_name ch)), (''deliveryId'', JStr deliveryId)]"

definition new_delivery :: "govServices \<Rightarrow> env \<Rightarrow> string \<Rightarrow> aaCase \<Rightarrow> template \<Rightarrow> notice_type \<Rightarrow> channel \<Rightarrow> delivery" where
  "new_delivery sv e k a t ty ch =
     \<lparr>dl_id = k, dl_case_id = aa_id a, dl_template_id = tm_id t, dl_notice_type = ty, dl_channel = ch, dl_status = Dl_queued,
      dl_content_sha256 = sha256_json sv (JObj [(''caseRef'', JStr (aa_case_ref a)), (''noticeType'', JStr (notice_name ty)),
        (''templateId'', JStr (tm_id t)), (''templateContentSha256'', JStr (tm_content_sha256 t))]),
      dl_provider_message_ref = None, dl_queued_at = e_now e, dl_sent_at = None, dl_delivered_at = None\<rparr>"

definition insert_delivery :: "delivery \<Rightarrow> (govdb, unit) act" where
  "insert_delivery d s = (if dl_id d \<in> dl_id ` set (g_deliveries s) then (Inl UniqueViolation, s)
     else (Inr (), s\<lparr>g_deliveries := g_deliveries s @ [d]\<rparr>))"

definition insert_outbox :: "noticeOutbox \<Rightarrow> (govdb, unit) act" where
  "insert_outbox o' s =
     (if \<exists>p \<in> set (g_outbox s). no_id p = no_id o' \<or> no_delivery_id p = no_delivery_id o' \<or> no_idempotency_key p = no_idempotency_key o'
      then (Inl UniqueViolation, s)
      else if \<not> (\<exists>a \<in> set (g_cases s). aa_id a = no_case_id o' \<and> aa_tenant_id a = no_tenant_id o') \<or>
              \<not> (\<exists>d \<in> set (g_deliveries s). dl_id d = no_delivery_id o' \<and> dl_case_id d = no_case_id o') \<or>
              no_provider_key_version o' \<le> 0
      then (Inl DbError, s)
      else (Inr (), s\<lparr>g_outbox := g_outbox s @ [o']\<rparr>))"

text \<open>The part of \<open>queueNotice\<close> for a channel that the worker serves.\<close>

definition outbox_row ::
  "govServices \<Rightarrow> env \<Rightarrow> noticeIds \<Rightarrow> int \<Rightarrow> string \<Rightarrow> transitKey \<Rightarrow> jval \<Rightarrow> string \<Rightarrow> noticeOutbox" where
  "outbox_row sv e ids tid caseId key payload ciphertext =
     \<lparr>no_id = ni_outbox ids, no_tenant_id = tid, no_case_id = caseId, no_delivery_id = ni_delivery ids,
      no_ciphertext = ciphertext, no_key_version = tk_keyVersion key, no_provider_key_version = tk_providerKeyVersion key,
      no_key_registry_id = tk_id key, no_payload_sha256 = sha256_json sv payload, no_idempotency_key = ni_idempotency ids,
      no_state = Ob_pending, no_attempt_count = 0, no_available_at = e_now e, no_leased_at = None, no_delivered_at = None,
      no_last_error_code = None, no_created_at = e_now e\<rparr>"

definition enqueueNotice ::
  "govServices \<Rightarrow> env \<Rightarrow> noticeIds \<Rightarrow> int \<Rightarrow> aaCase \<Rightarrow> jval \<Rightarrow> (govdb, string \<times> string option) act" where
  "enqueueNotice sv e ids tid a payload =
     seq_act (activeTenantEncryptionRegistry e tid) (\<lambda>key.
     seq_act (encryptPiiEnvelope sv key (piiAad tid (aa_candidate_id a) (''compliance-notice-outbox:'' @ ni_outbox ids)) payload) (\<lambda>ciphertext.
     seq_act (insert_outbox (outbox_row sv e ids tid (aa_id a) key payload ciphertext)) (\<lambda>_.
     ret (ni_delivery ids, Some (ni_outbox ids)))))"

definition queueNotice ::
  "govServices \<Rightarrow> env \<Rightarrow> noticeIds \<Rightarrow> int \<Rightarrow> aaCase \<Rightarrow> template \<Rightarrow> notice_type \<Rightarrow> channel \<Rightarrow> (govdb, string \<times> string option) act" where
  "queueNotice sv e ids tid a t ty ch =
     seq_act (insert_delivery (new_delivery sv e (ni_delivery ids) a t ty ch)) (\<lambda>_.
     if ch = Manual then ret (ni_delivery ids, None)
     else enqueueNotice sv e ids tid a (notice_payload a t ty ch (ni_delivery ids)))"

definition templateFor :: "int \<Rightarrow> notice_type \<Rightarrow> string \<Rightarrow> string \<Rightarrow> (govdb, template) act" where
  "templateFor tid ty jurisdiction version s =
     (case filter (\<lambda>t. tm_tenant_id t = tid \<and> tm_key t = ty \<and> tm_jurisdiction_code t = jurisdiction \<and> tm_version t = version \<and>
             tm_superseded_at t = None) (g_templates s) of
        t # _ \<Rightarrow> (Inr t, s)
      | [] \<Rightarrow> (Inl (TRPCError PRECONDITION_FAILED ''An active counsel-approved notice template is unavailable.''), s))"

section \<open>Pausing for a dispute\<close>

definition remaining_wait :: "env \<Rightarrow> aaCase \<Rightarrow> int option" where
  "remaining_wait e a = map_option (\<lambda>t. max 0 (- ((e_now e - t) div 1000))) (aa_final_notice_eligible_at a)"

definition pause_case :: "govServices \<Rightarrow> env \<Rightarrow> string \<Rightarrow> int option \<Rightarrow> aaCase \<Rightarrow> (govdb, unit) act" where
  "pause_case sv e disputeRef actor a =
     seq_act (update_cases (\<lambda>b. aa_id b = aa_id a)
       (\<lambda>b. b\<lparr>aa_status := Paused_for_dispute, aa_paused_from_status := Some (aa_status a), aa_paused_at := Some (e_now e)\<rparr>)) (\<lambda>_.
     seq_act (cancel_deliveries (aa_id a)) (\<lambda>_.
     seq_act (cancel_outbox (\<lambda>o'. no_case_id o' = aa_id a) ''COMPLIANCE_NOTICE_PAUSED_FOR_DISPUTE'') (\<lambda>_.
     appendEvent sv e (aa_id a) actor Ev_paused_for_dispute
       (JObj [(''disputeCaseRef'', JStr disputeRef), (''automatic'', JBool True), (''remainingWaitSeconds'', jopt JNum (remaining_wait e a))]))))"

fun pause_cases :: "govServices \<Rightarrow> env \<Rightarrow> string \<Rightarrow> int option \<Rightarrow> aaCase list \<Rightarrow> (govdb, unit) act" where
  "pause_cases sv e disputeRef actor [] s = (Inr (), s)"
| "pause_cases sv e disputeRef actor (a # as) s =
     (case pause_case sv e disputeRef actor a s of
        (Inl err, t) \<Rightarrow> (Inl err, t)
      | (Inr _, t) \<Rightarrow> pause_cases sv e disputeRef actor as t)"

definition pausable_cases :: "int \<Rightarrow> int \<Rightarrow> govdb \<Rightarrow> aaCase list" where
  "pausable_cases tid candidateId s =
     filter (\<lambda>a. aa_tenant_id a = tid \<and> aa_candidate_id a = candidateId \<and> aa_pausable (aa_status a)) (g_cases s)"

definition pauseAdverseActionsForOpenDispute ::
  "govServices \<Rightarrow> env \<Rightarrow> int \<Rightarrow> int \<Rightarrow> string \<Rightarrow> int option \<Rightarrow> (govdb, nat) act" where
  "pauseAdverseActionsForOpenDispute sv e tid candidateId disputeRef actor s =
     (let as = pausable_cases tid candidateId s
      in seq_act (pause_cases sv e disputeRef actor as) (\<lambda>_. ret (length as)) s)"

section \<open>Templates\<close>

record templateInput =
  ti_key :: notice_type
  ti_jurisdiction :: string
  ti_version :: string
  ti_body :: string
  ti_counselReference :: string

text \<open>\<open>/^[A-Z]{2}(-[A-Z0-9]{1,8})?$/\<close>.\<close>

definition region_ok :: "string \<Rightarrow> bool" where
  "region_ok s \<longleftrightarrow> jurisdiction_ok (take 2 s) \<and>
     (case drop 2 s of [] \<Rightarrow> True | ch # cs \<Rightarrow> ch = CHR ''-'' \<and> 1 \<le> length cs \<and> length cs \<le> 8 \<and> list_all upper_alnum cs)"

definition template_input_ok :: "templateInput \<Rightarrow> bool" where
  "template_input_ok i \<longleftrightarrow> region_ok (ti_jurisdiction i) \<and> 1 \<le> length (ti_version i) \<and> length (ti_version i) \<le> 32 \<and>
     32 \<le> length (ti_body i) \<and> length (ti_body i) \<le> 100000 \<and>
     12 \<le> length (ti_counselReference i) \<and> length (ti_counselReference i) \<le> 256"

definition insert_template :: "template \<Rightarrow> (govdb, unit) act" where
  "insert_template t s =
     (if \<exists>u \<in> set (g_templates s). tm_id u = tm_id t \<or> (tm_tenant_id u = tm_tenant_id t \<and> tm_key u = tm_key t \<and>
           tm_jurisdiction_code u = tm_jurisdiction_code t \<and> tm_version u = tm_version t)
      then (Inl UniqueViolation, s)
      else (Inr (), s\<lparr>g_templates := g_templates s @ [t]\<rparr>))"

definition createNoticeTemplate :: "govServices \<Rightarrow> env \<Rightarrow> ctx \<Rightarrow> string \<Rightarrow> templateInput \<Rightarrow> (govdb, string \<times> string) act" where
  "createNoticeTemplate sv e c uuid i = administratorProcedure sv e c (\<lambda>tid u. zod (template_input_ok i) (tenantTransaction e tid
     (seq_act (activeTenantEncryptionRegistry e tid) (\<lambda>key.
      seq_act (encryptPiiEnvelope sv key (Inr (''bis-compliance-template:v2|'' @ show_int tid @ ''|'' @ notice_name (ti_key i) @ ''|'' @
           ti_jurisdiction i @ ''|'' @ ti_version i)) (JObj [(''body'', JStr (ti_body i))])) (\<lambda>ciphertext.
      seq_act (insert_template \<lparr>tm_id = uuid, tm_tenant_id = tid, tm_key = ti_key i, tm_jurisdiction_code = ti_jurisdiction i,
           tm_version = ti_version i, tm_body_ciphertext = ciphertext,
           tm_content_sha256 = sha256_json sv (JObj [(''body'', JStr (ti_body i))]), tm_approved_by = u_id u,
           tm_counsel_reference = ti_counselReference i, tm_key_registry_id = tk_id key, tm_superseded_at = None\<rparr>) (\<lambda>_.
      seq_act (appendTemplateEvent sv e uuid (u_id u) ''created'' (JObj [(''templateKey'', JStr (notice_name (ti_key i))),
           (''jurisdictionCode'', JStr (ti_jurisdiction i)), (''version'', JStr (ti_version i)),
           (''counselApprovalReference'', JStr (ti_counselReference i))])) (\<lambda>_.
      ret (uuid, ti_version i))))))))"

definition supersedeNoticeTemplate :: "govServices \<Rightarrow> (string \<Rightarrow> bool) \<Rightarrow> env \<Rightarrow> ctx \<Rightarrow> string \<Rightarrow> string \<Rightarrow> (govdb, string) act" where
  "supersedeNoticeTemplate sv uuid_ok e c templateId reason = administratorProcedure sv e c (\<lambda>tid u.
     zod (uuid_ok templateId \<and> 20 \<le> length reason \<and> length reason \<le> 4000) (tenantTransaction e tid (\<lambda>s.
       let P = (\<lambda>t. tm_id t = templateId \<and> tm_tenant_id t = tid \<and> tm_superseded_at t = None) in
       if filter P (g_templates s) = [] then (Inl (TRPCError PRECONDITION_FAILED ''Active notice template not found.''), s)
       else seq_act (appendTemplateEvent sv e templateId (u_id u) ''superseded'' (JObj [(''reason'', JStr reason)])) (\<lambda>_. ret templateId)
              (s\<lparr>g_templates := lupdate P (\<lambda>t. t\<lparr>tm_superseded_at := Some (e_now e)\<rparr>) (g_templates s)\<rparr>))))"

section \<open>Initiation\<close>

record initiateInput =
  ii_screeningOrderId :: int
  ii_reportSnapshotId :: int
  ii_candidateConsentRef :: string
  ii_framework :: framework
  ii_jurisdiction :: string
  ii_attestation :: "string option"
  ii_waitingPeriodDays :: int
  ii_templateVersion :: string
  ii_channel :: channel
  ii_items :: "(int \<times> string) list"
  ii_employerAttestation :: string

definition initiate_input_ok :: "initiateInput \<Rightarrow> bool" where
  "initiate_input_ok i \<longleftrightarrow> 0 < ii_screeningOrderId i \<and> 0 < ii_reportSnapshotId i \<and>
     8 \<le> length (ii_candidateConsentRef i) \<and> length (ii_candidateConsentRef i) \<le> 32 \<and> jurisdiction_ok (ii_jurisdiction i) \<and>
     (case ii_attestation i of None \<Rightarrow> True | Some x \<Rightarrow> 40 \<le> length x \<and> length x \<le> 4000) \<and>
     5 \<le> ii_waitingPeriodDays i \<and> ii_waitingPeriodDays i \<le> 30 \<and>
     1 \<le> length (ii_templateVersion i) \<and> length (ii_templateVersion i) \<le> 32 \<and>
     1 \<le> length (ii_items i) \<and> length (ii_items i) \<le> 50 \<and>
     list_all (\<lambda>(r, x). 0 < r \<and> 20 \<le> length x \<and> length x \<le> 4000) (ii_items i) \<and>
     40 \<le> length (ii_employerAttestation i) \<and> length (ii_employerAttestation i) \<le> 4000"

definition assertFcraEnabled :: "govServices \<Rightarrow> framework \<Rightarrow> string \<Rightarrow> string option \<Rightarrow> ('s, 'a) act \<Rightarrow> ('s, 'a) act" where
  "assertFcraEnabled sv f jurisdiction attestation k s =
     (if f = Ndpa then k s
      else if jurisdiction \<noteq> ''US'' then (Inl (TRPCError BAD_REQUEST ''FCRA adverse-action workflows require the US jurisdiction.''), s)
      else if \<not> gs_fcraEnabled sv
      then (Inl (TRPCError FORBIDDEN ''FCRA adverse action is not counsel-approved and enabled for this environment.''), s)
      else if (case attestation of None \<Rightarrow> True | Some x \<Rightarrow> length x < 40)
      then (Inl (TRPCError PRECONDITION_FAILED ''A case-specific FCRA eligibility attestation is required.''), s)
      else k s)"

text \<open>The join of a completed order, its snapshot and a signed consent; the result is the candidate.\<close>

definition initiation_source :: "int \<Rightarrow> initiateInput \<Rightarrow> govdb \<Rightarrow> int list" where
  "initiation_source tid i s = map so_candidateId (filter (\<lambda>so'. so_id so' = ii_screeningOrderId i \<and> so_tenantId so' = tid \<and> so_completed so' \<and>
     (\<exists>rs \<in> set (rows (g_snapshots s)). sn_id rs = ii_reportSnapshotId i \<and> sn_tenant_id rs = tid \<and>
        sn_screening_order_id rs = so_id so' \<and> sn_candidate_id rs = so_candidateId so') \<and>
     (\<exists>cc \<in> set (g_consents s). cs_consentRef cc = ii_candidateConsentRef i \<and> cs_candidateId cc = so_candidateId so' \<and>
        (cs_orderId cc = None \<or> cs_orderId cc = Some (so_id so')) \<and> cs_signedAt cc \<noteq> None \<and> cs_revokedAt cc = None)) (g_orders s))"

definition insert_case :: "aaCase \<Rightarrow> (govdb, unit) act" where
  "insert_case a s =
     (if \<not> aa_row_ok a \<or> \<not> case_ref_ok (aa_case_ref a) then (Inl DbError, s)
      else if \<exists>b \<in> set (g_cases s). aa_id b = aa_id a \<or> aa_case_ref b = aa_case_ref a \<or>
              (aa_tenant_id b = aa_tenant_id a \<and> aa_screening_order_id b = aa_screening_order_id a)
      then (Inl UniqueViolation, s)
      else (Inr (), s\<lparr>g_cases := g_cases s @ [a]\<rparr>))"

fun insert_items :: "govServices \<Rightarrow> transitKey \<Rightarrow> int \<Rightarrow> aaCase \<Rightarrow> (int \<times> string) list \<Rightarrow> (govdb, unit) act" where
  "insert_items sv key tid a [] s = (Inr (), s)"
| "insert_items sv key tid a ((r, rationale) # xs) s =
     (if \<not> (\<exists>q \<in> set (g_results s). sr_id q = r \<and> sr_orderId q = aa_screening_order_id a)
      then (Inl (TRPCError BAD_REQUEST ''Selected adverse-action item is not in this screening order.''), s)
      else seq_act (encryptPiiEnvelope sv key
             (piiAad tid (aa_candidate_id a) (''adverse-rationale:'' @ aa_case_ref a @ '':'' @ show_int r)) (JObj [(''rationale'', JStr rationale)]))
           (\<lambda>ciphertext t.
             if \<exists>x \<in> set (g_items t). ai_case_id x = aa_id a \<and> ai_screening_result_id x = r then (Inl UniqueViolation, t)
             else insert_items sv key tid a xs (t\<lparr>g_items := g_items t @ [\<lparr>ai_case_id = aa_id a, ai_screening_result_id = r,
                    ai_ciphertext = ciphertext, ai_key_registry_id = tk_id key\<rparr>]\<rparr>)) s)"

definition new_case :: "env \<Rightarrow> string \<Rightarrow> string \<Rightarrow> int \<Rightarrow> int \<Rightarrow> int \<Rightarrow> initiateInput \<Rightarrow> aaCase" where
  "new_case e k ref tid candidateId userId i =
     \<lparr>aa_id = k, aa_case_ref = ref, aa_tenant_id = tid, aa_screening_order_id = ii_screeningOrderId i, aa_candidate_id = candidateId,
      aa_report_snapshot_id = ii_reportSnapshotId i, aa_jurisdiction_code = ii_jurisdiction i, aa_framework = ii_framework i,
      aa_status = Pre_notice_queued, aa_waiting_period_days = ii_waitingPeriodDays i, aa_pre_notice_due_at = None,
      aa_final_notice_eligible_at = None, aa_final_notice_sent_at = None, aa_initiated_by = userId,
      aa_employer_attestation = ii_employerAttestation i,
      aa_fcra_attested_at = (if ii_framework i = Ndpa then None else Some (e_now e)),
      aa_fcra_attestation_text = (if ii_framework i = Ndpa then None else ii_attestation i),
      aa_paused_from_status = None, aa_paused_at = None, aa_created_at = e_now e\<rparr>"

definition queued_detail :: "string \<Rightarrow> string \<times> string option \<Rightarrow> channel \<Rightarrow> jval" where
  "queued_detail version q ch = JObj [(''templateVersion'', JStr version), (''deliveryId'', JStr (fst q)), (''outboxId'', jopt JStr (snd q)),
     (''channel'', JStr (channel_name ch))]"

text \<open>The transaction once the candidate is known.\<close>

definition initiate_writes ::
  "govServices \<Rightarrow> env \<Rightarrow> string \<Rightarrow> string \<Rightarrow> noticeIds \<Rightarrow> initiateInput \<Rightarrow> int \<Rightarrow> user \<Rightarrow> int \<Rightarrow> (govdb, string \<times> string) act" where
  "initiate_writes sv e caseId refUuid ids i tid u candidateId =
     (let ref = ref_of ''BIS-AA-'' refUuid; a = new_case e caseId ref tid candidateId (u_id u) i in
      seq_act (assertNoOpenDispute candidateId tid) (\<lambda>_.
      seq_act (templateFor tid Pre_adverse (ii_jurisdiction i) (ii_templateVersion i)) (\<lambda>t.
      seq_act (insert_case a) (\<lambda>_.
      seq_act (activeTenantEncryptionRegistry e tid) (\<lambda>key.
      seq_act (insert_items sv key tid a (ii_items i)) (\<lambda>_.
      seq_act (queueNotice sv e ids tid a t Pre_adverse (ii_channel i)) (\<lambda>q.
      seq_act (appendEvent sv e caseId (Some (u_id u)) Ev_created (JObj [(''caseRef'', JStr ref),
        (''framework'', JStr (framework_name (ii_framework i))), (''itemCount'', JNum (int (length (ii_items i)))),
        (''jurisdiction'', JStr (ii_jurisdiction i))])) (\<lambda>_.
      seq_act (appendEvent sv e caseId (Some (u_id u)) Ev_pre_notice_queued (queued_detail (ii_templateVersion i) q (ii_channel i))) (\<lambda>_.
      ret (ref, fst q))))))))))"

definition initiatePreAdverse ::
  "govServices \<Rightarrow> env \<Rightarrow> ctx \<Rightarrow> string \<Rightarrow> string \<Rightarrow> noticeIds \<Rightarrow> initiateInput \<Rightarrow> (govdb, string \<times> string) act" where
  "initiatePreAdverse sv e c caseId refUuid ids i = adjudicatorProcedure sv e c (\<lambda>tid u. zod (initiate_input_ok i)
     (assertFcraEnabled sv (ii_framework i) (ii_jurisdiction i) (ii_attestation i) (tenantTransaction e tid (\<lambda>s.
       case initiation_source tid i s of
         [] \<Rightarrow> (Inl (TRPCError PRECONDITION_FAILED ''A completed tenant order, matching immutable snapshot, and active signed candidate consent are required.''), s)
       | candidateId # _ \<Rightarrow> initiate_writes sv e caseId refUuid ids i tid u candidateId s))))"

section \<open>Delivery\<close>

text \<open>What \<open>recordDelivery\<close> can report.\<close>

datatype outcome = Out_delivered | Out_undeliverable | Out_manual_required

definition outcome_name :: "outcome \<Rightarrow> string" where
  "outcome_name x = (case x of Out_delivered \<Rightarrow> ''delivered'' | Out_undeliverable \<Rightarrow> ''undeliverable'' | Out_manual_required \<Rightarrow> ''manual_required'')"

definition outcome_status :: "outcome \<Rightarrow> dl_status" where
  "outcome_status x = (case x of Out_delivered \<Rightarrow> Dl_delivered | Out_undeliverable \<Rightarrow> Dl_undeliverable | Out_manual_required \<Rightarrow> Dl_manual_required)"

definition recordable :: "delivery \<Rightarrow> bool" where
  "recordable d \<longleftrightarrow> dl_status d = Dl_queued \<or> (dl_status d = Dl_manual_required \<and> dl_channel d = Manual)"

definition record_on :: "env \<Rightarrow> outcome \<Rightarrow> string option \<Rightarrow> delivery \<Rightarrow> delivery" where
  "record_on e x msgRef d = d\<lparr>dl_status := outcome_status x,
     dl_sent_at := (if x = Out_delivered then Some (e_now e) else dl_sent_at d),
     dl_delivered_at := (if x = Out_delivered then Some (e_now e) else dl_delivered_at d),
     dl_provider_message_ref := msgRef\<rparr>"

definition MS_DAY :: int where "MS_DAY = 86400000"

definition start_waiting :: "env \<Rightarrow> aaCase \<Rightarrow> aaCase" where
  "start_waiting e a = a\<lparr>aa_status := Waiting, aa_pre_notice_due_at := Some (e_now e),
     aa_final_notice_eligible_at := Some (e_now e + aa_waiting_period_days a * MS_DAY)\<rparr>"

definition complete_case :: "env \<Rightarrow> aaCase \<Rightarrow> aaCase" where
  "complete_case e a = a\<lparr>aa_status := Aa_completed, aa_final_notice_sent_at := Some (e_now e)\<rparr>"

abbreviation on_case :: "string \<Rightarrow> (aaCase \<Rightarrow> aaCase) \<Rightarrow> (govdb, unit) act" where
  "on_case k f \<equiv> update_cases (\<lambda>a. aa_id a = k) f"

definition manual_detail :: "string \<Rightarrow> channel \<Rightarrow> jval" where
  "manual_detail deliveryId ch = JObj [(''deliveryId'', JStr deliveryId), (''manual'', JBool (ch = Manual))]"

definition recordDelivery ::
  "govServices \<Rightarrow> (string \<Rightarrow> bool) \<Rightarrow> env \<Rightarrow> ctx \<Rightarrow> string \<Rightarrow> string \<Rightarrow> outcome \<Rightarrow> string option \<Rightarrow> (govdb, outcome) act" where
  "recordDelivery sv uuid_ok e c ref deliveryId x msgRef = adjudicatorProcedure sv e c (\<lambda>tid u.
     zod (case_ref_ok ref \<and> uuid_ok deliveryId \<and> (case msgRef of None \<Rightarrow> True | Some m \<Rightarrow> 4 \<le> length m \<and> length m \<le> 256))
     (tenantTransaction e tid (seq_act (lockedCase ref tid) (\<lambda>a s.
       case filter (\<lambda>d. dl_id d = deliveryId \<and> dl_case_id d = aa_id a) (g_deliveries s) of
         [] \<Rightarrow> (Inl (TRPCError PRECONDITION_FAILED ''An eligible queued or manual notice delivery was not found.''), s)
       | d # _ \<Rightarrow>
           if \<not> recordable d then (Inl (TRPCError PRECONDITION_FAILED ''An eligible queued or manual notice delivery was not found.''), s)
           else seq_act (set_deliveries (\<lambda>d. dl_id d = deliveryId) (record_on e x msgRef)) (\<lambda>_.
                seq_act (cancel_outbox (\<lambda>o'. no_delivery_id o' = deliveryId) ''COMPLIANCE_DELIVERY_RECORDED_MANUALLY'') (\<lambda>_.
                seq_act
                 (if x = Out_delivered \<and> dl_notice_type d = Pre_adverse then
                    seq_act (on_case (aa_id a) (start_waiting e)) (\<lambda>_.
                    appendEvent sv e (aa_id a) (Some (u_id u)) Ev_pre_notice_delivered (manual_detail deliveryId (dl_channel d)))
                  else if x = Out_delivered \<and> dl_notice_type d = Final_adverse then
                    seq_act (on_case (aa_id a) (complete_case e)) (\<lambda>_.
                    seq_act (appendEvent sv e (aa_id a) (Some (u_id u)) Ev_final_notice_delivered (manual_detail deliveryId (dl_channel d))) (\<lambda>_.
                    appendEvent sv e (aa_id a) (Some (u_id u)) Ev_completed (JObj [(''deliveryId'', JStr deliveryId)])))
                  else
                    seq_act (on_case (aa_id a) (\<lambda>a. a\<lparr>aa_status := (if x = Out_undeliverable then Undeliverable else Manual_delivery)\<rparr>)) (\<lambda>_.
                    appendEvent sv e (aa_id a) (Some (u_id u)) Ev_manual_delivery_required
                      (JObj [(''deliveryId'', JStr deliveryId), (''status'', JStr (outcome_name x))])))
                (\<lambda>_. ret x))) s))))"

section \<open>Disputes\<close>

definition dispute_ref_ok :: "string \<Rightarrow> bool" where "dispute_ref_ok = ref_ok ''BIS-DR-''"

definition pauseForDispute :: "govServices \<Rightarrow> env \<Rightarrow> ctx \<Rightarrow> string \<Rightarrow> string \<Rightarrow> (govdb, unit) act" where
  "pauseForDispute sv e c ref disputeRef = adjudicatorProcedure sv e c (\<lambda>tid u. zod (case_ref_ok ref \<and> dispute_ref_ok disputeRef)
     (tenantTransaction e tid (seq_act (lockedCase ref tid) (\<lambda>a s.
       if aa_status a \<noteq> Waiting \<and> aa_status a \<noteq> Pre_notice_delivered
       then (Inl (TRPCError PRECONDITION_FAILED ''Only a delivered pre-adverse case in its waiting period can be paused.''), s)
       else if \<not> (\<exists>d \<in> set (open_disputes s (aa_candidate_id a) tid). dc_case_ref d = disputeRef)
       then (Inl (TRPCError PRECONDITION_FAILED ''An open dispute bound to this candidate is required to pause adverse action.''), s)
       else seq_act (pauseAdverseActionsForOpenDispute sv e tid (aa_candidate_id a) disputeRef (Some (u_id u))) (\<lambda>n.
            require (n = 1) (TRPCError PRECONDITION_FAILED ''Adverse-action case was not eligible for a dispute hold.'') (ret ())) s))))"

text \<open>
  \<open>GREATEST(0, EXTRACT(EPOCH FROM (final\_notice\_eligible\_at - paused\_at)))::integer\<close>: a NULL
  argument of GREATEST is ignored, and the cast rounds to the nearest second.
\<close>

definition remaining_seconds :: "aaCase \<Rightarrow> int" where
  "remaining_seconds a = (case (aa_final_notice_eligible_at a, aa_paused_at a) of
     (Some x, Some p) \<Rightarrow> (max 0 (x - p) + 500) div 1000 | _ \<Rightarrow> 0)"

definition unpause :: "aa_status \<Rightarrow> aaCase \<Rightarrow> aaCase" where
  "unpause st a = a\<lparr>aa_status := st, aa_paused_from_status := None, aa_paused_at := None\<rparr>"

definition awaits_notice :: "aa_status \<Rightarrow> notice_type option" where
  "awaits_notice st = (if st = Pre_notice_queued then Some Pre_adverse else if st = Final_notice_queued then Some Final_adverse else None)"

definition status_name :: "aa_status \<Rightarrow> string" where
  "status_name st = (case st of Draft \<Rightarrow> ''draft'' | Pre_notice_queued \<Rightarrow> ''pre_notice_queued'' | Pre_notice_delivered \<Rightarrow> ''pre_notice_delivered''
     | Waiting \<Rightarrow> ''waiting'' | Paused_for_dispute \<Rightarrow> ''paused_for_dispute'' | Canceled \<Rightarrow> ''canceled''
     | Final_notice_queued \<Rightarrow> ''final_notice_queued'' | Aa_completed \<Rightarrow> ''completed'' | Undeliverable \<Rightarrow> ''undeliverable''
     | Manual_delivery \<Rightarrow> ''manual_delivery'')"

text \<open>The notices of a case with their templates, newest first, that meet a condition.\<close>

definition notices_with :: "(delivery \<Rightarrow> bool) \<Rightarrow> string \<Rightarrow> govdb \<Rightarrow> (delivery \<times> template) list" where
  "notices_with P k s = concat (map (\<lambda>d. map (Pair d) (filter (\<lambda>t. tm_id t = dl_template_id d) (g_templates s)))
     (order_desc dl_queued_at (filter (\<lambda>d. dl_case_id d = k \<and> P d) (g_deliveries s))))"

definition resume_requeue ::
  "govServices \<Rightarrow> env \<Rightarrow> noticeIds \<Rightarrow> int \<Rightarrow> int \<Rightarrow> string \<Rightarrow> aaCase \<Rightarrow> aa_status \<Rightarrow> notice_type \<Rightarrow> (govdb, aa_status) act" where
  "resume_requeue sv e ids tid userId resolution a from ty s =
     (case notices_with (\<lambda>d. dl_status d = Dl_canceled \<and> dl_notice_type d = ty) (aa_id a) s of
        [] \<Rightarrow> (Inl (TRPCError PRECONDITION_FAILED ''The original paused notice cannot be safely re-queued.''), s)
      | (d, t) # _ \<Rightarrow>
          seq_act (queueNotice sv e ids tid a t (dl_notice_type d) (dl_channel d)) (\<lambda>q.
          seq_act (on_case (aa_id a) (unpause from)) (\<lambda>_.
          seq_act (appendEvent sv e (aa_id a) (Some userId) Ev_resumed (JObj [(''resolutionReference'', JStr resolution),
            (''deliveryId'', JStr (fst q)), (''outboxId'', jopt JStr (snd q)), (''requeued'', JBool True)])) (\<lambda>_.
          ret from))) s)"

definition resume_waiting :: "govServices \<Rightarrow> env \<Rightarrow> int \<Rightarrow> string \<Rightarrow> aaCase \<Rightarrow> (govdb, aa_status) act" where
  "resume_waiting sv e userId resolution a =
     seq_act (on_case (aa_id a) (\<lambda>b. (unpause Waiting b)\<lparr>aa_final_notice_eligible_at := Some (e_now e + remaining_seconds a * 1000)\<rparr>)) (\<lambda>_.
     seq_act (appendEvent sv e (aa_id a) (Some userId) Ev_resumed (JObj [(''resolutionReference'', JStr resolution),
       (''remainingWaitSeconds'', JNum (remaining_seconds a))])) (\<lambda>_.
     ret Waiting))"

definition resumeAfterDispute :: "govServices \<Rightarrow> env \<Rightarrow> ctx \<Rightarrow> noticeIds \<Rightarrow> string \<Rightarrow> string \<Rightarrow> (govdb, aa_status) act" where
  "resumeAfterDispute sv e c ids ref resolution = administratorProcedure sv e c (\<lambda>tid u.
     zod (case_ref_ok ref \<and> 12 \<le> length resolution \<and> length resolution \<le> 256)
     (tenantTransaction e tid (seq_act (lockedCase ref tid) (\<lambda>a s.
       case (if aa_status a = Paused_for_dispute then aa_paused_from_status a else None) of
         None \<Rightarrow> (Inl (TRPCError PRECONDITION_FAILED ''Case is not eligible for dispute-resolution resumption.''), s)
       | Some from \<Rightarrow>
           if \<not> aa_pausable from
           then (Inl (TRPCError PRECONDITION_FAILED ''Case is not eligible for dispute-resolution resumption.''), s)
           else seq_act (assertNoOpenDispute (aa_candidate_id a) tid) (\<lambda>_.
             case awaits_notice from of
               Some ty \<Rightarrow> resume_requeue sv e ids tid (u_id u) resolution a from ty
             | None \<Rightarrow> resume_waiting sv e (u_id u) resolution a) s))))"

section \<open>The final notice\<close>

definition queueFinalAdverse ::
  "govServices \<Rightarrow> env \<Rightarrow> ctx \<Rightarrow> noticeIds \<Rightarrow> string \<Rightarrow> string \<Rightarrow> channel \<Rightarrow> (govdb, string) act" where
  "queueFinalAdverse sv e c ids ref version ch = adjudicatorProcedure sv e c (\<lambda>tid u.
     zod (case_ref_ok ref \<and> 1 \<le> length version \<and> length version \<le> 32)
     (tenantTransaction e tid (seq_act (lockedCase ref tid) (\<lambda>a.
       require (aa_status a = Waiting \<and> (case aa_final_notice_eligible_at a of None \<Rightarrow> False | Some t \<Rightarrow> t \<le> e_now e))
         (TRPCError PRECONDITION_FAILED ''Pre-adverse waiting period has not completed.'')
       (seq_act (assertNoOpenDispute (aa_candidate_id a) tid) (\<lambda>_.
        seq_act (templateFor tid Final_adverse (aa_jurisdiction_code a) version) (\<lambda>t.
        seq_act (queueNotice sv e ids tid a t Final_adverse ch) (\<lambda>q.
        seq_act (on_case (aa_id a) (\<lambda>b. b\<lparr>aa_status := Final_notice_queued\<rparr>)) (\<lambda>_.
        seq_act (appendEvent sv e (aa_id a) (Some (u_id u)) Ev_final_notice_queued (queued_detail version q ch)) (\<lambda>_.
        ret (fst q)))))))))))"

section \<open>Recovery and cancellation\<close>

definition resolveManualDelivery ::
  "govServices \<Rightarrow> (string \<Rightarrow> bool) \<Rightarrow> env \<Rightarrow> ctx \<Rightarrow> noticeIds \<Rightarrow> string \<Rightarrow> string \<Rightarrow> channel \<Rightarrow> string \<Rightarrow> (govdb, string) act" where
  "resolveManualDelivery sv uuid_ok e c ids ref deliveryId ch resolution = administratorProcedure sv e c (\<lambda>tid u.
     zod (case_ref_ok ref \<and> uuid_ok deliveryId \<and> 12 \<le> length resolution \<and> length resolution \<le> 256)
     (tenantTransaction e tid (seq_act (lockedCase ref tid) (\<lambda>a s.
       if aa_status a \<noteq> Manual_delivery \<and> aa_status a \<noteq> Undeliverable
       then (Inl (TRPCError PRECONDITION_FAILED ''Case does not require manual delivery recovery.''), s)
       else (case notices_with (\<lambda>d. dl_id d = deliveryId \<and> (dl_status d = Dl_undeliverable \<or> dl_status d = Dl_manual_required)) (aa_id a) s of
         [] \<Rightarrow> (Inl (TRPCError PRECONDITION_FAILED ''Undeliverable or manual notice delivery not found.''), s)
       | (d, t) # _ \<Rightarrow>
           if dl_notice_type d \<noteq> Pre_adverse \<and> dl_notice_type d \<noteq> Final_adverse
           then (Inl (TRPCError BAD_REQUEST ''Only adverse-action notice deliveries can be recovered.''), s)
           else seq_act (queueNotice sv e ids tid a t (dl_notice_type d) ch) (\<lambda>q.
                seq_act (on_case (aa_id a) (\<lambda>b. b\<lparr>aa_status := (if dl_notice_type d = Pre_adverse then Pre_notice_queued else Final_notice_queued)\<rparr>)) (\<lambda>_.
                seq_act (appendEvent sv e (aa_id a) (Some (u_id u)) Ev_manual_delivery_resolved (JObj [(''priorDeliveryId'', JStr deliveryId),
                  (''deliveryId'', JStr (fst q)), (''outboxId'', jopt JStr (snd q)), (''resolutionReference'', JStr resolution),
                  (''channel'', JStr (channel_name ch))])) (\<lambda>_.
                ret (fst q)))) s)))))"

definition aa_cancel :: "govServices \<Rightarrow> env \<Rightarrow> ctx \<Rightarrow> string \<Rightarrow> string \<Rightarrow> (govdb, unit) act" where
  "aa_cancel sv e c ref reason = adjudicatorProcedure sv e c (\<lambda>tid u.
     zod (case_ref_ok ref \<and> 20 \<le> length reason \<and> length reason \<le> 4000)
     (tenantTransaction e tid (seq_act (lockedCase ref tid) (\<lambda>a.
       require (aa_status a \<noteq> Aa_completed \<and> aa_status a \<noteq> Canceled)
         (TRPCError PRECONDITION_FAILED ''Completed or canceled adverse action cannot be changed.'')
       (seq_act (on_case (aa_id a) (\<lambda>b. b\<lparr>aa_status := Canceled\<rparr>)) (\<lambda>_.
        seq_act (cancel_deliveries (aa_id a)) (\<lambda>_.
        seq_act (cancel_outbox (\<lambda>o'. no_case_id o' = aa_id a) ''COMPLIANCE_CASE_CANCELLED'') (\<lambda>_.
        appendEvent sv e (aa_id a) (Some (u_id u)) Ev_canceled (JObj [(''reason'', JStr reason)])))))))))"

definition aa_list :: "govServices \<Rightarrow> env \<Rightarrow> ctx \<Rightarrow> aa_status option \<Rightarrow> (govdb, aaCase list) act" where
  "aa_list sv e c st = protectedProcedure e c (\<lambda>u s.
     case c_tenantId c of
       None \<Rightarrow> (Inl (TRPCError FORBIDDEN ''Tenant context is required.''), s)
     | Some t \<Rightarrow>
         if e_isProduction e \<and> \<not> gs_complianceEnabled sv
         then (Inl (TRPCError FORBIDDEN ''Adverse-action workflows are disabled pending counsel and operational approval.''), s)
         else if u_role u \<notin> {RAdmin, RSupervisor, RAnalyst, RAuditor}
         then (Inl (TRPCError FORBIDDEN ''A designated compliance read role is required.''), s)
         else if e_isProduction e \<and> \<not> e_permify e ''platform'' (show_int t) ''manage_adverse_actions'' (u_id u)
         then (Inl (TRPCError FORBIDDEN ''Adverse-action permission denied.''), s)
         else if \<not> e_dbUp e then (Inl (TRPCError SERVICE_UNAVAILABLE ''PostgreSQL is unavailable.''), s)
         else (Inr (take 200 (order_desc aa_created_at (filter (\<lambda>a. aa_tenant_id a = t \<and> (st = None \<or> st = Some (aa_status a))) (g_cases s)))), s))"

end
