(* ===== verification/Notice_Worker.thy ===== *)
theory Notice_Worker
  imports Adverse_Action Backoff
begin

text \<open>
  \<open>server/complianceNoticeDeliveryWorker.ts\<close>: the worker that takes notices from the outbox. A run
  leases a batch of due notices in one transaction and treats them one by one, each in transactions
  of its own; what it knows of a notice is what it read when it leased it. Its adapter for sending is
  a parameter; the one of the source has no implementation and always throws.
\<close>

definition DISPATCH_BATCH_SIZE :: nat where "DISPATCH_BATCH_SIZE = 25"
definition MAX_DISPATCH_ATTEMPTS :: nat where "MAX_DISPATCH_ATTEMPTS = 12"

definition boundedBackoff :: "nat \<Rightarrow> int" where
  "boundedBackoff attempt = min 300 (2 ^ min attempt 8)"

interpretation notice_backoff: backoff boundedBackoff 2 256
proof unfold_locales
  show "\<exists>N. \<forall>n\<ge>N. boundedBackoff n = 256"
    by (rule exI [where x = 8]) (simp add: boundedBackoff_def min_def)
next
  fix m n :: nat assume "1 \<le> m" "m \<le> n"
  then have "(2::int) ^ min m 8 \<le> 2 ^ min n 8" by (intro power_increasing) auto
  then show "boundedBackoff m \<le> boundedBackoff n" unfolding boundedBackoff_def by (rule min.mono [OF order_refl])
next
  fix n :: nat assume "1 \<le> n"
  then have "(2::int) ^ 1 \<le> 2 ^ min n 8" by (intro power_increasing) auto
  then show "2 \<le> boundedBackoff n" by (simp add: boundedBackoff_def)
next
  fix n :: nat
  have "(2::int) ^ min n 8 \<le> 2 ^ 8" by (intro power_increasing) auto
  then show "boundedBackoff n \<le> 256" by (simp add: boundedBackoff_def)
qed simp

section \<open>Leasing\<close>

text \<open>A leased notice: the outbox row with what the query joins to it.\<close>

record leasedNotice =
  ln_row :: noticeOutbox
  ln_case_ref :: string
  ln_case_status :: aa_status
  ln_notice_type :: notice_type
  ln_channel :: channel
  ln_delivery_status :: dl_status
  ln_candidate_id :: int

definition LEASE_MS :: int where "LEASE_MS = 300000"

definition expire_lease :: "env \<Rightarrow> noticeOutbox \<Rightarrow> noticeOutbox" where
  "expire_lease e o' = o'\<lparr>no_state := Ob_pending, no_leased_at := None, no_available_at := e_now e,
     no_last_error_code := Some (case no_last_error_code o' of None \<Rightarrow> ''COMPLIANCE_NOTICE_LEASE_EXPIRED'' | Some x \<Rightarrow> x)\<rparr>"

definition notice_lease_expired :: "env \<Rightarrow> noticeOutbox \<Rightarrow> bool" where
  "notice_lease_expired e o' \<longleftrightarrow> no_state o' = Ob_leased \<and> (case no_leased_at o' of None \<Rightarrow> False | Some t \<Rightarrow> t < e_now e - LEASE_MS)"

definition notice_due :: "env \<Rightarrow> noticeOutbox \<Rightarrow> bool" where
  "notice_due e o' \<longleftrightarrow> no_state o' = Ob_pending \<and> no_available_at o' \<le> e_now e"

text \<open>The joins of an outbox row with its case and its delivery.\<close>

definition joined :: "govdb \<Rightarrow> noticeOutbox \<Rightarrow> leasedNotice list" where
  "joined s o' = concat (map (\<lambda>a. map (\<lambda>d. \<lparr>ln_row = o', ln_case_ref = aa_case_ref a, ln_case_status = aa_status a,
       ln_notice_type = dl_notice_type d, ln_channel = dl_channel d, ln_delivery_status = dl_status d, ln_candidate_id = aa_candidate_id a\<rparr>)
     (filter (\<lambda>d. dl_id d = no_delivery_id o') (g_deliveries s))) (filter (\<lambda>a. aa_id a = no_case_id o') (g_cases s)))"

text \<open>\<open>ORDER BY available\_at, created\_at\<close>: a stable sort by the second key first.\<close>

definition lease_batch :: "env \<Rightarrow> govdb \<Rightarrow> leasedNotice list" where
  "lease_batch e s = take DISPATCH_BATCH_SIZE (concat (map (joined s)
     (sort_key no_available_at (sort_key no_created_at (filter (notice_due e) (g_outbox s))))))"

definition leaseNotices :: "env \<Rightarrow> (govdb, leasedNotice list) act" where
  "leaseNotices e = require (e_dbUp e) (PlainError ''compliance notice delivery worker requires PostgreSQL'') (\<lambda>s.
     let s1 = s\<lparr>g_outbox := lupdate (notice_lease_expired e) (expire_lease e) (g_outbox s)\<rparr>;
         batch = lease_batch e s1
     in (Inr batch, s1\<lparr>g_outbox := lupdate (\<lambda>o'. no_id o' \<in> set (map (no_id \<circ> ln_row) batch) \<and> no_state o' = Ob_pending)
           (\<lambda>o'. o'\<lparr>no_state := Ob_leased, no_leased_at := Some (e_now e)\<rparr>) (g_outbox s1)\<rparr>))"

section \<open>Treating a notice\<close>

definition workerTransaction :: "env \<Rightarrow> ('s, 'a) act \<Rightarrow> ('s, 'a) act" where
  "workerTransaction e body = require (e_dbUp e) (PlainError ''compliance notice delivery worker requires PostgreSQL'') (in_transaction body)"

definition appendSystemEvent :: "govServices \<Rightarrow> env \<Rightarrow> string \<Rightarrow> aa_event \<Rightarrow> jval \<Rightarrow> (govdb, unit) act" where
  "appendSystemEvent sv e caseId ty detail s =
     (case gs_hmac sv of
        None \<Rightarrow> (Inl (PlainError ''AUDIT_HMAC_SECRET is required for compliance notice worker''), s)
      | Some hmac \<Rightarrow> (Inr (), s\<lparr>g_events := g_events s @ [\<lparr>ae_case_id = caseId, ae_actor = None, ae_type = ty, ae_detail = detail,
            ae_integrity_hash = hmac (aa_canonical caseId None ty detail (e_now e)), ae_created_at = e_now e\<rparr>]\<rparr>))"

definition leased_by :: "leasedNotice \<Rightarrow> noticeOutbox \<Rightarrow> bool" where
  "leased_by n o' \<longleftrightarrow> no_id o' = no_id (ln_row n) \<and> no_state o' = Ob_leased"

abbreviation ln_case_id :: "leasedNotice \<Rightarrow> string" where "ln_case_id n \<equiv> no_case_id (ln_row n)"
abbreviation ln_delivery_id :: "leasedNotice \<Rightarrow> string" where "ln_delivery_id n \<equiv> no_delivery_id (ln_row n)"

definition cancelLeased :: "env \<Rightarrow> leasedNotice \<Rightarrow> string \<Rightarrow> (govdb, unit) act" where
  "cancelLeased e n code = workerTransaction e
     (seq_act (set_outbox (leased_by n) (\<lambda>o'. o'\<lparr>no_state := Ob_cancelled, no_last_error_code := Some code\<rparr>)) (\<lambda>_.
      set_deliveries (\<lambda>d. dl_id d = ln_delivery_id n \<and> dl_status d = Dl_queued) (\<lambda>d. d\<lparr>dl_status := Dl_canceled\<rparr>)))"

datatype treated = Retried | Dead_lettered

definition restore_row :: "env \<Rightarrow> bool \<Rightarrow> nat \<Rightarrow> string \<Rightarrow> noticeOutbox \<Rightarrow> noticeOutbox" where
  "restore_row e terminal attempt code o' = o'\<lparr>no_state := (if terminal then Ob_dead_letter else Ob_pending), no_attempt_count := attempt,
     no_last_error_code := Some code,
     no_available_at := (if terminal then no_available_at o' else e_now e + boundedBackoff attempt * 1000)\<rparr>"

text \<open>The writes of a terminal failure, and of a delivery.\<close>

definition deadLetter :: "govServices \<Rightarrow> env \<Rightarrow> leasedNotice \<Rightarrow> string \<Rightarrow> (govdb, treated) act" where
  "deadLetter sv e n code =
     seq_act (set_deliveries (\<lambda>d. dl_id d = ln_delivery_id n \<and> (dl_status d = Dl_queued \<or> dl_status d = Dl_sent))
       (\<lambda>d. d\<lparr>dl_status := Dl_manual_required\<rparr>)) (\<lambda>_.
     seq_act (update_cases (\<lambda>a. aa_id a = ln_case_id n \<and> aa_status a \<noteq> Aa_completed \<and> aa_status a \<noteq> Canceled)
       (\<lambda>a. a\<lparr>aa_status := Manual_delivery\<rparr>)) (\<lambda>_.
     seq_act (appendSystemEvent sv e (ln_case_id n) Ev_manual_delivery_required (JObj [(''outboxId'', JStr (no_id (ln_row n))),
       (''deliveryId'', JStr (ln_delivery_id n)), (''failureCode'', JStr code), (''terminal'', JBool True)])) (\<lambda>_.
     ret Dead_lettered)))"

definition restoreOrDeadLetter :: "govServices \<Rightarrow> env \<Rightarrow> leasedNotice \<Rightarrow> string \<Rightarrow> bool \<Rightarrow> (govdb, treated) act" where
  "restoreOrDeadLetter sv e n code retryable = workerTransaction e
     (let attempt = no_attempt_count (ln_row n) + 1; terminal = (\<not> retryable \<or> MAX_DISPATCH_ATTEMPTS \<le> attempt) in
      seq_act (set_outbox (leased_by n) (restore_row e terminal attempt code)) (\<lambda>_.
      if terminal then deadLetter sv e n code else ret Retried))"

definition sent_by :: "env \<Rightarrow> string \<Rightarrow> delivery \<Rightarrow> delivery" where
  "sent_by e msgRef d = d\<lparr>dl_status := Dl_delivered, dl_sent_at := Some (e_now e), dl_delivered_at := Some (e_now e),
     dl_provider_message_ref := Some msgRef\<rparr>"

definition not_deliverable :: "aa_status \<Rightarrow> bool" where
  "not_deliverable st \<longleftrightarrow> st \<in> {Canceled, Paused_for_dispute, Undeliverable, Manual_delivery}"

definition state_changed :: "leasedNotice \<Rightarrow> govdb \<Rightarrow> bool" where
  "state_changed n s = (case (filter (\<lambda>a. aa_id a = ln_case_id n) (g_cases s),
       filter (\<lambda>d. dl_id d = ln_delivery_id n \<and> dl_case_id d = ln_case_id n) (g_deliveries s)) of
     (a # _, d # _) \<Rightarrow> dl_status d \<noteq> Dl_queued \<or> not_deliverable (aa_status a)
   | _ \<Rightarrow> True)"

definition advance_case :: "govServices \<Rightarrow> env \<Rightarrow> leasedNotice \<Rightarrow> (govdb, unit) act" where
  "advance_case sv e n =
     (if ln_notice_type n = Pre_adverse then
        seq_act (on_case (ln_case_id n) (start_waiting e)) (\<lambda>_.
        appendSystemEvent sv e (ln_case_id n) Ev_pre_notice_delivered (JObj [(''deliveryId'', JStr (ln_delivery_id n))]))
      else if ln_notice_type n = Final_adverse then
        seq_act (on_case (ln_case_id n) (complete_case e)) (\<lambda>_.
        seq_act (appendSystemEvent sv e (ln_case_id n) Ev_final_notice_delivered (JObj [(''deliveryId'', JStr (ln_delivery_id n))])) (\<lambda>_.
        appendSystemEvent sv e (ln_case_id n) Ev_completed (JObj [(''deliveryId'', JStr (ln_delivery_id n))])))
      else ret ())"

definition markDelivered :: "govServices \<Rightarrow> env \<Rightarrow> leasedNotice \<Rightarrow> string \<Rightarrow> (govdb, unit) act" where
  "markDelivered sv e n msgRef = workerTransaction e (\<lambda>s.
     if state_changed n s
     then set_outbox (leased_by n) (\<lambda>o'. o'\<lparr>no_state := Ob_cancelled, no_last_error_code := Some ''COMPLIANCE_NOTICE_STATE_CHANGED''\<rparr>) s
     else seq_act (set_outbox (leased_by n) (\<lambda>o'. o'\<lparr>no_state := Ob_delivered, no_delivered_at := Some (e_now e)\<rparr>)) (\<lambda>_.
          seq_act (set_deliveries (\<lambda>d. dl_id d = ln_delivery_id n) (sent_by e msgRef)) (\<lambda>_.
          advance_case sv e n)) s)"

section \<open>A run\<close>

text \<open>\<open>tenantEncryptionRegistryById\<close> (\<open>server/piiKeyRegistry.ts\<close>), seen through row-level security.\<close>

definition tenantEncryptionRegistryById :: "int \<Rightarrow> int \<Rightarrow> (govdb, transitKey) act" where
  "tenantEncryptionRegistryById tid i s =
     (case filter (\<lambda>r. ek_id r = i \<and> ek_tenant_id r = tid) (g_keys s) of
        [r] \<Rightarrow> (case rowToRegistry r tid of
           Inl err \<Rightarrow> (Inl err, s)
         | Inr k \<Rightarrow> if ek_status r = ''active'' \<or> ek_status r = ''retiring'' then (Inr k, s)
                   else (Inl (TRPCError SERVICE_UNAVAILABLE ''Tenant encryption key registry is not available for this operation.''), s))
      | _ \<Rightarrow> (Inl (TRPCError SERVICE_UNAVAILABLE ''Tenant encryption key registry is unavailable.''), s))"

definition deliveryKey :: "env \<Rightarrow> leasedNotice \<Rightarrow> (govdb, transitKey) act" where
  "deliveryKey e n = (let r = ln_row n in
     require (no_key_registry_id r \<noteq> 0 \<and> no_provider_key_version r \<noteq> 0) (PlainError ''COMPLIANCE_NOTICE_VAULT_TRANSIT_METADATA_INVALID'')
     (workerTransaction e (require (isSafeInteger (no_tenant_id r) \<and> 0 < no_tenant_id r)
       (PlainError ''A positive trusted tenant ID is required for PostgreSQL RLS context.'')
       (tenantEncryptionRegistryById (no_tenant_id r) (no_key_registry_id r)))))"

definition decryptPiiEnvelope :: "govServices \<Rightarrow> transitKey \<Rightarrow> error + string \<Rightarrow> string \<Rightarrow> string \<Rightarrow> error + jval" where
  "decryptPiiEnvelope sv key aad keyVersion ciphertext =
     (case aad of
        Inl err \<Rightarrow> Inl err
      | Inr a \<Rightarrow> if keyVersion \<noteq> tk_keyVersion key
                 then Inl (TRPCError SERVICE_UNAVAILABLE ''PII envelope key version does not match its registry reference.'')
                 else gs_decrypt sv key a ciphertext)"

definition DIGEST_INVALID :: string where "DIGEST_INVALID = ''COMPLIANCE_NOTICE_PAYLOAD_DIGEST_INVALID''"

definition notice_payload_of :: "govServices \<Rightarrow> env \<Rightarrow> leasedNotice \<Rightarrow> (govdb, jval) act" where
  "notice_payload_of sv e n = seq_act (deliveryKey e n) (\<lambda>key s.
     case decryptPiiEnvelope sv key (piiAad (no_tenant_id (ln_row n)) (ln_candidate_id n) (''compliance-notice-outbox:'' @ no_id (ln_row n)))
            (no_key_version (ln_row n)) (no_ciphertext (ln_row n)) of
       Inl err \<Rightarrow> (Inl err, s)
     | Inr payload \<Rightarrow> if sha256_json sv payload \<noteq> no_payload_sha256 (ln_row n) then (Inl (PlainError DIGEST_INVALID), s) else (Inr payload, s))"

text \<open>
  An adapter answers with the provider's reference, or throws: \<open>None\<close> is the error that no adapter is
  installed, which is all that \<open>dispatchWithApprovedAdapter\<close> of the source ever does.
\<close>

type_synonym adapter = "leasedNotice \<Rightarrow> jval \<Rightarrow> (error option) + string"

definition dispatchWithApprovedAdapter :: adapter where
  "dispatchWithApprovedAdapter n payload = Inl None"

definition failure_code :: "error option \<Rightarrow> string" where
  "failure_code err = (case err of
     None \<Rightarrow> ''COMPLIANCE_NOTICE_ADAPTER_NOT_INSTALLED''
   | Some (PlainError m) \<Rightarrow> if m = DIGEST_INVALID then m else ''COMPLIANCE_NOTICE_DISPATCH_FAILURE''
   | _ \<Rightarrow> ''COMPLIANCE_NOTICE_DISPATCH_FAILURE'')"

record noticeRun =
  nr_leased :: nat
  nr_delivered :: nat
  nr_retried :: nat
  nr_deadLettered :: nat
  nr_cancelled :: nat

definition notDispatchable :: "leasedNotice \<Rightarrow> bool" where
  "notDispatchable n \<longleftrightarrow> ln_delivery_status n \<noteq> Dl_queued \<or> not_deliverable (ln_case_status n) \<or> ln_case_status n = Aa_completed"

definition treat_failure :: "govServices \<Rightarrow> env \<Rightarrow> leasedNotice \<Rightarrow> error option \<Rightarrow> noticeRun \<Rightarrow> (govdb, noticeRun) act" where
  "treat_failure sv e n err r =
     seq_act (restoreOrDeadLetter sv e n (failure_code err) (failure_code err = ''COMPLIANCE_NOTICE_DISPATCH_FAILURE'')) (\<lambda>x.
     ret (if x = Dead_lettered then r\<lparr>nr_deadLettered := nr_deadLettered r + 1\<rparr> else r\<lparr>nr_retried := nr_retried r + 1\<rparr>))"

text \<open>The body of the loop: everything up to the count is inside the \<open>try\<close>.\<close>

definition treat_notice :: "govServices \<Rightarrow> adapter \<Rightarrow> env \<Rightarrow> leasedNotice \<Rightarrow> noticeRun \<Rightarrow> (govdb, noticeRun) act" where
  "treat_notice sv adapter e n r s =
     (if notDispatchable n then
        (case cancelLeased e n ''COMPLIANCE_NOTICE_CASE_OR_DELIVERY_NOT_DISPATCHABLE'' s of
           (Inr _, t) \<Rightarrow> (Inr (r\<lparr>nr_cancelled := nr_cancelled r + 1\<rparr>), t)
         | (Inl err, t) \<Rightarrow> treat_failure sv e n (Some err) r t)
      else (case notice_payload_of sv e n s of
         (Inl err, t) \<Rightarrow> treat_failure sv e n (Some err) r t
       | (Inr payload, t) \<Rightarrow>
           (case adapter n payload of
              Inl err \<Rightarrow> treat_failure sv e n err r t
            | Inr msgRef \<Rightarrow>
                (case markDelivered sv e n msgRef t of
                   (Inr _, t') \<Rightarrow> (Inr (r\<lparr>nr_delivered := nr_delivered r + 1\<rparr>), t')
                 | (Inl err, t') \<Rightarrow> treat_failure sv e n (Some err) r t'))))"

fun treat_notices :: "govServices \<Rightarrow> adapter \<Rightarrow> env \<Rightarrow> leasedNotice list \<Rightarrow> noticeRun \<Rightarrow> (govdb, noticeRun) act" where
  "treat_notices sv adapter e [] r s = (Inr r, s)"
| "treat_notices sv adapter e (n # ns) r s =
     (case treat_notice sv adapter e n r s of
        (Inl err, t) \<Rightarrow> (Inl err, t)
      | (Inr r', t) \<Rightarrow> treat_notices sv adapter e ns r' t)"

definition runComplianceNoticeDeliveryWorker :: "govServices \<Rightarrow> adapter \<Rightarrow> env \<Rightarrow> (govdb, noticeRun) act" where
  "runComplianceNoticeDeliveryWorker sv adapter e = seq_act (leaseNotices e) (\<lambda>batch.
     treat_notices sv adapter e batch \<lparr>nr_leased = length batch, nr_delivered = 0, nr_retried = 0, nr_deadLettered = 0, nr_cancelled = 0\<rparr>)"

end
