(* ===== verification/Disputes.thy ===== *)
theory Disputes
  imports Adverse_Action
begin

text \<open>
  \<open>server/consumerDisputes.ts\<close>: bindings of consumers to candidates, immutable report snapshots,
  and the life of a dispute from its opening over evidence, source tasks and dispositions to its
  completion. Opening a dispute pauses every adverse action against the candidate in the same
  transaction. Identifiers drawn at random are arguments.
\<close>

section \<open>Guards\<close>

definition caseworkerProcedure ::
  "env \<Rightarrow> ctx \<Rightarrow> string \<Rightarrow> role list \<Rightarrow> (user \<Rightarrow> ('s, 'a) act) \<Rightarrow> ('s, 'a) act" where
  "caseworkerProcedure e c permission roles k = writeProcedure e c (\<lambda>u s.
     if u_role u \<notin> set roles
     then (Inl (TRPCError FORBIDDEN ''A designated consumer-rights case role is required.''), s)
     else if e_isProduction e \<and>
       \<not> e_permify e ''platform'' (case c_tenantId c of None \<Rightarrow> ''null'' | Some t \<Rightarrow> show_int t) permission (u_id u)
     then (Inl (TRPCError FORBIDDEN ''Consumer-rights permission denied.''), s)
     else k u s)"

definition caseworkerWriteProcedure :: "env \<Rightarrow> ctx \<Rightarrow> (user \<Rightarrow> ('s, 'a) act) \<Rightarrow> ('s, 'a) act" where
  "caseworkerWriteProcedure e c = caseworkerProcedure e c ''manage_consumer_disputes'' [RAdmin, RAnalyst, RSupervisor]"

definition supervisorWriteProcedure :: "env \<Rightarrow> ctx \<Rightarrow> (user \<Rightarrow> ('s, 'a) act) \<Rightarrow> ('s, 'a) act" where
  "supervisorWriteProcedure e c = caseworkerProcedure e c ''supervise_consumer_disputes'' [RAdmin, RSupervisor]"

definition requireTenant :: "ctx \<Rightarrow> (int \<Rightarrow> ('s, 'a) act) \<Rightarrow> ('s, 'a) act" where
  "requireTenant c k s = (case c_tenantId c of
     None \<Rightarrow> (Inl (TRPCError FORBIDDEN ''A tenant-scoped account is required for this action.''), s) | Some t \<Rightarrow> k t s)"

definition poolOrThrow :: "env \<Rightarrow> ('s, 'a) act \<Rightarrow> ('s, 'a) act" where
  "poolOrThrow e = require (e_dbUp e) (TRPCError SERVICE_UNAVAILABLE ''PostgreSQL is unavailable.'')"

text \<open>An administrator works across tenants, any other caseworker within the own one.\<close>

definition scopeTenant :: "ctx \<Rightarrow> user \<Rightarrow> (int option \<Rightarrow> ('s, 'a) act) \<Rightarrow> ('s, 'a) act" where
  "scopeTenant c u k = (if u_role u = RAdmin then k None else requireTenant c (\<lambda>t. k (Some t)))"

definition requireFcraModule :: "govServices \<Rightarrow> framework \<Rightarrow> string \<Rightarrow> ('s, 'a) act \<Rightarrow> ('s, 'a) act" where
  "requireFcraModule sv f jurisdiction k s =
     (if f = Ndpa then k s
      else if jurisdiction \<noteq> ''US''
      then (Inl (TRPCError BAD_REQUEST ''FCRA reinvestigation cases require the US jurisdiction configuration.''), s)
      else if \<not> gs_fcraCasesEnabled sv
      then (Inl (TRPCError FORBIDDEN ''The FCRA case module is not counsel-approved and enabled for this environment.''), s)
      else k s)"

section \<open>Events and notices\<close>

definition dispute_canonical :: "string \<Rightarrow> int option \<Rightarrow> string \<Rightarrow> string \<Rightarrow> jval \<Rightarrow> int \<Rightarrow> jval" where
  "dispute_canonical caseRef actor kind ty detail now =
     JObj [(''caseRef'', JStr caseRef), (''actorUserId'', jopt JNum actor), (''actorKind'', JStr kind), (''eventType'', JStr ty),
           (''detail'', detail), (''occurredAt'', JStr (isoInstant now))]"

definition appendConsumerDisputeEvent ::
  "govServices \<Rightarrow> env \<Rightarrow> int \<Rightarrow> string \<Rightarrow> int option \<Rightarrow> string \<Rightarrow> string \<Rightarrow> jval \<Rightarrow> (govdb, unit) act" where
  "appendConsumerDisputeEvent sv e caseId caseRef actor kind ty detail s =
     (case gs_hmac sv of
        None \<Rightarrow> (Inl (TRPCError SERVICE_UNAVAILABLE ''Audit integrity key is unavailable.''), s)
      | Some hmac \<Rightarrow> (Inr (), s\<lparr>g_dispute_events := g_dispute_events s @ [\<lparr>de_case_id = caseId, de_actor = actor, de_actor_kind = kind,
            de_type = ty, de_detail = detail, de_integrity_hash = hmac (dispute_canonical caseRef actor kind ty detail (e_now e)),
            de_created_at = e_now e\<rparr>]\<rparr>))"

text \<open>\<open>queueNotice\<close> of this router, with the reference made from a random UUID.\<close>

definition queueDisputeNotice ::
  "govServices \<Rightarrow> env \<Rightarrow> string \<Rightarrow> disputeCase \<Rightarrow> string \<Rightarrow> string \<Rightarrow> int option \<Rightarrow> string \<Rightarrow> jval \<Rightarrow> (govdb, string) act" where
  "queueDisputeNotice sv e uuid d ty version actor kind payload s =
     (let ref = ref_of ''BIS-NOT-'' uuid in
      if ref \<in> dn_ref ` set (g_notices s) then (Inl UniqueViolation, s)
      else seq_act (appendConsumerDisputeEvent sv e (dc_id d) (dc_case_ref d) actor kind ''notice_queued''
             (JObj [(''noticeRef'', JStr ref), (''noticeType'', JStr ty), (''recipientKind'', JStr ''consumer''), (''templateVersion'', JStr version)]))
             (\<lambda>_. ret ref)
           (s\<lparr>g_notices := g_notices s @ [\<lparr>dn_ref = ref, dn_case_id = dc_id d, dn_type = ty, dn_template_version = version,
              dn_recipient = ''consumer'', dn_status = ''queued'',
              dn_content_sha256 = sha256_json sv (JObj [(''noticeRef'', JStr ref), (''caseRef'', JStr (dc_case_ref d)), (''type'', JStr ty),
                (''payload'', payload)]), dn_queued_at = e_now e\<rparr>]\<rparr>))"

section \<open>Cases\<close>

definition assertConsumerCaseOwner :: "string \<Rightarrow> int \<Rightarrow> int \<Rightarrow> (govdb, disputeCase) act" where
  "assertConsumerCaseOwner ref userId t s =
     (case tfind (\<lambda>d. dc_case_ref d = ref \<and> dc_requester_user_id d = userId \<and> dc_tenant_id d = t) (g_disputes s) of
        None \<Rightarrow> (Inl (TRPCError NOT_FOUND ''Consumer dispute case not found.''), s) | Some d \<Rightarrow> (Inr d, s))"

definition assertInternalCase :: "string \<Rightarrow> int option \<Rightarrow> (govdb, disputeCase) act" where
  "assertInternalCase ref t s =
     (case tfind (\<lambda>d. dc_case_ref d = ref \<and> (t = None \<or> t = Some (dc_tenant_id d))) (g_disputes s) of
        None \<Rightarrow> (Inl (TRPCError NOT_FOUND ''Consumer dispute case not found.''), s) | Some d \<Rightarrow> (Inr d, s))"

text \<open>
  \<open>UPDATE consumer\_dispute\_cases \<dots> WHERE id\<close>, under the trigger that refuses to resolve a case
  with an unresolved deadline escalation.
\<close>

definition blocked_completion :: "govdb \<Rightarrow> disputeCase \<Rightarrow> bool" where
  "blocked_completion s d \<longleftrightarrow> (\<exists>x \<in> set (rows (g_escalations s)). es_case_id x = dc_id d \<and> es_status x \<noteq> Es_resolved)"

definition update_dispute :: "int \<Rightarrow> (disputeCase \<Rightarrow> disputeCase) \<Rightarrow> (govdb, unit) act" where
  "update_dispute k f s =
     (if \<exists>d \<in> set (rows (g_disputes s)). dc_id d = k \<and> dc_status (f d) = Resolved \<and> dc_status d \<noteq> Resolved \<and> blocked_completion s d
      then (Inl DbError, s)
      else (Inr (), s\<lparr>g_disputes := tupdate (\<lambda>d. dc_id d = k) f (g_disputes s)\<rparr>))"

definition consumerTransaction :: "env \<Rightarrow> ctx \<Rightarrow> (int \<Rightarrow> ('s, 'a) act) \<Rightarrow> ('s, 'a) act" where
  "consumerTransaction e c body = requireTenant c (\<lambda>t. poolOrThrow e (in_transaction (body t)))"

definition onConsumerCase :: "env \<Rightarrow> ctx \<Rightarrow> user \<Rightarrow> string \<Rightarrow> (int \<Rightarrow> disputeCase \<Rightarrow> (govdb, 'a) act) \<Rightarrow> (govdb, 'a) act" where
  "onConsumerCase e c u ref k = consumerTransaction e c (\<lambda>t. seq_act (assertConsumerCaseOwner ref (u_id u) t) (k t))"

definition onInternalCase :: "env \<Rightarrow> ctx \<Rightarrow> user \<Rightarrow> string \<Rightarrow> (disputeCase \<Rightarrow> (govdb, 'a) act) \<Rightarrow> (govdb, 'a) act" where
  "onInternalCase e c u ref k = poolOrThrow e (in_transaction (scopeTenant c u (\<lambda>t. seq_act (assertInternalCase ref t) k)))"

section \<open>Bindings and snapshots\<close>

record bindInput =
  bi_consumerUserId :: int
  bi_candidateRef :: string
  bi_verificationReference :: string
  bi_assurance :: assurance

definition bind_input_ok :: "bindInput \<Rightarrow> bool" where
  "bind_input_ok i \<longleftrightarrow> 0 < bi_consumerUserId i \<and> 8 \<le> length (bi_candidateRef i) \<and> length (bi_candidateRef i) \<le> 32 \<and>
     12 \<le> length (bi_verificationReference i) \<and> length (bi_verificationReference i) \<le> 160 \<and>
     (bi_assurance i = Identity_verified \<or> bi_assurance i = Manual_verified)"

definition bindSubject :: "env \<Rightarrow> ctx \<Rightarrow> bindInput \<Rightarrow> (govdb, int) act" where
  "bindSubject e c i = supervisorWriteProcedure e c (\<lambda>u. zod (bind_input_ok i) (consumerTransaction e c (\<lambda>t s.
     case filter (\<lambda>p. cd_candidateRef p = bi_candidateRef i \<and> cd_tenantId p = t) (g_candidates s) of
       [] \<Rightarrow> (Inl (TRPCError NOT_FOUND ''Candidate not found in this tenant.''), s)
     | p # _ \<Rightarrow>
         if bi_consumerUserId i \<notin> set (g_users s) then (Inl (TRPCError NOT_FOUND ''Consumer user account not found.''), s)
         else (let revoked = tupdate (\<lambda>b. bn_tenant_id b = t \<and> bn_candidate_id b = cd_id p \<and> bn_revoked_at b = None)
                               (\<lambda>b. b\<lparr>bn_revoked_at := Some (e_now e)\<rparr>) (g_bindings s) in
               (Inr (seq revoked), s\<lparr>g_bindings := tinsert (\<lambda>n. \<lparr>bn_id = n, bn_user_id = bi_consumerUserId i, bn_tenant_id = t,
                  bn_candidate_id = cd_id p, bn_assurance = bi_assurance i, bn_verification_reference = bi_verificationReference i,
                  bn_verified_at = e_now e, bn_revoked_at = None\<rparr>) revoked\<rparr>)))))"

definition result_item :: "screeningResult \<Rightarrow> jval" where
  "result_item r = JObj [(''reportItemKey'', JStr (''screening-result:'' @ show_int (sr_id r))), (''screeningResultId'', JNum (sr_id r)),
     (''screeningType'', JStr (sr_screeningType r)), (''status'', JStr (sr_status r)), (''outcome'', jopt JStr (sr_outcome r)),
     (''dataSourceRef'', jopt JStr (sr_dataSourceRef r)), (''externalRef'', jopt JStr (sr_externalRef r)),
     (''completedAt'', jopt (JStr \<circ> isoInstant) (sr_completedAt r)), (''expiresAt'', jopt (JStr \<circ> isoInstant) (sr_expiresAt r))]"

definition report_manifest :: "env \<Rightarrow> string \<Rightarrow> string \<Rightarrow> string \<Rightarrow> screeningResult list \<Rightarrow> jval" where
  "report_manifest e orderRef jurisdiction purpose rs =
     JObj [(''schemaVersion'', JNum 1), (''orderRef'', JStr orderRef), (''jurisdictionCode'', JStr jurisdiction),
           (''reportPurpose'', JStr purpose), (''generatedAt'', JStr (isoInstant (e_now e))), (''items'', JArr (map result_item rs))]"

definition insert_snapshot :: "(int \<Rightarrow> snapshot) \<Rightarrow> (govdb, unit) act" where
  "insert_snapshot mk s = (let n = mk (seq (g_snapshots s)) in
     if \<exists>x \<in> set (rows (g_snapshots s)). sn_ref x = sn_ref n \<or> (sn_tenant_id x = sn_tenant_id n \<and> sn_content_sha256 x = sn_content_sha256 n)
     then (Inl UniqueViolation, s) else (Inr (), s\<lparr>g_snapshots := tinsert mk (g_snapshots s)\<rparr>))"

definition snapshotCompletedOrder ::
  "govServices \<Rightarrow> env \<Rightarrow> ctx \<Rightarrow> string \<Rightarrow> string \<Rightarrow> string \<Rightarrow> string \<Rightarrow> (govdb, string \<times> string \<times> nat) act" where
  "snapshotCompletedOrder sv e c uuid orderRef jurisdiction purpose = caseworkerWriteProcedure e c (\<lambda>u.
     zod (8 \<le> length orderRef \<and> length orderRef \<le> 32 \<and> jurisdiction_ok jurisdiction \<and> 3 \<le> length purpose \<and> length purpose \<le> 96)
     (consumerTransaction e c (\<lambda>t s.
       case filter (\<lambda>o'. so_orderRef o' = orderRef \<and> so_tenantId o' = t \<and> so_completed o') (g_orders s) of
         [] \<Rightarrow> (Inl (TRPCError PRECONDITION_FAILED ''Only a completed tenant screening order can be snapshotted.''), s)
       | o' # _ \<Rightarrow>
           (let rs = sort_key sr_id (filter (\<lambda>r. sr_orderId r = so_id o') (g_results s));
                manifest = report_manifest e orderRef jurisdiction purpose rs; ref = ref_of ''BIS-RPT-'' uuid; digest = sha256_json sv manifest in
            if rs = [] then (Inl (TRPCError PRECONDITION_FAILED ''A report snapshot requires at least one screening result.''), s)
            else seq_act (insert_snapshot (\<lambda>n. \<lparr>sn_id = n, sn_ref = ref, sn_tenant_id = t, sn_candidate_id = so_candidateId o',
                   sn_screening_order_id = so_id o', sn_jurisdiction_code = jurisdiction, sn_report_purpose = purpose,
                   sn_content_sha256 = digest, sn_manifest = manifest\<rparr>)) (\<lambda>_. ret (ref, digest, length rs)) s))))"

section \<open>Opening a dispute\<close>

record disputeItemInput =
  it_reportItemKey :: string
  it_screeningResultId :: "int option"
  it_adverseItemId :: "int option"
  it_disputedValue :: "jval option"

record openInput =
  oi_reportSnapshotRef :: string
  oi_framework :: framework
  oi_jurisdiction :: string
  oi_caseType :: dispute_type
  oi_statement :: string
  oi_items :: "disputeItemInput list"

definition positive_opt :: "int option \<Rightarrow> bool" where
  "positive_opt x = (case x of None \<Rightarrow> True | Some n \<Rightarrow> 0 < n)"

definition open_input_ok :: "openInput \<Rightarrow> bool" where
  "open_input_ok i \<longleftrightarrow> ref_ok ''BIS-RPT-'' (oi_reportSnapshotRef i) \<and> jurisdiction_ok (oi_jurisdiction i) \<and>
     10 \<le> length (oi_statement i) \<and> length (oi_statement i) \<le> 4000 \<and> 1 \<le> length (oi_items i) \<and> length (oi_items i) \<le> 20 \<and>
     list_all (\<lambda>x. 1 \<le> length (it_reportItemKey x) \<and> length (it_reportItemKey x) \<le> 128 \<and> positive_opt (it_screeningResultId x) \<and>
       positive_opt (it_adverseItemId x)) (oi_items i)"

text \<open>\<open>allowedItems\<close>: a later entry for the same result replaces an earlier one.\<close>

definition manifest_items :: "jval \<Rightarrow> jval list" where
  "manifest_items m = (case jget ''items'' m of Some (JArr xs) \<Rightarrow> xs | _ \<Rightarrow> [])"

definition allowed_items :: "jval \<Rightarrow> int \<Rightarrow> string option" where
  "allowed_items m = fold (\<lambda>x f. case (jget ''screeningResultId'' x, jget ''reportItemKey'' x) of
     (Some (JNum n), Some (JStr k)) \<Rightarrow> f(n \<mapsto> k) | _ \<Rightarrow> f) (manifest_items m) Map.empty"

definition item_matches :: "jval \<Rightarrow> disputeItemInput \<Rightarrow> bool" where
  "item_matches m x = (case it_screeningResultId x of None \<Rightarrow> False | Some r \<Rightarrow> allowed_items m r = Some (it_reportItemKey x))"

fun check_items :: "jval \<Rightarrow> disputeItemInput list \<Rightarrow> ('s, 'a) act \<Rightarrow> ('s, 'a) act" where
  "check_items m [] k s = k s"
| "check_items m (x # xs) k s =
     (if \<not> item_matches m x
      then (Inl (TRPCError BAD_REQUEST ''Each disputed item must match an immutable screening result and report item in the selected snapshot.''), s)
      else if it_adverseItemId x \<noteq> None
      then (Inl (TRPCError BAD_REQUEST ''Adverse-item disputes require a snapshot format that records the adverse item reference.''), s)
      else check_items m xs k s)"

text \<open>The verified bindings of the user to the candidate of the report, each with the report.\<close>

definition dispute_subjects :: "govdb \<Rightarrow> string \<Rightarrow> int \<Rightarrow> int \<Rightarrow> (binding \<times> snapshot) list" where
  "dispute_subjects s ref t userId = filter (\<lambda>(b, n). bn_candidate_id b = sn_candidate_id n)
     (List.product (filter (\<lambda>b. bn_user_id b = userId \<and> bn_tenant_id b = t \<and> bn_revoked_at b = None \<and>
                              (bn_assurance b = Identity_verified \<or> bn_assurance b = Manual_verified)) (rows (g_bindings s)))
                   (filter (\<lambda>n. sn_ref n = ref \<and> sn_tenant_id n = t) (rows (g_snapshots s))))"

definition clock :: "framework \<Rightarrow> env \<Rightarrow> int \<Rightarrow> int option" where
  "clock f e days = (if f = Ndpa then None else Some (e_now e + days * MS_DAY))"

definition new_dispute :: "env \<Rightarrow> string \<Rightarrow> int \<Rightarrow> int \<Rightarrow> binding \<Rightarrow> snapshot \<Rightarrow> openInput \<Rightarrow> int \<Rightarrow> disputeCase" where
  "new_dispute e ref t userId b n i k =
     \<lparr>dc_id = k, dc_case_ref = ref, dc_tenant_id = t, dc_requester_user_id = userId, dc_subject_binding_id = bn_id b,
      dc_report_snapshot_id = sn_id n, dc_framework = oi_framework i, dc_jurisdiction_code = oi_jurisdiction i, dc_case_type = oi_caseType i,
      dc_status = Received, dc_received_at = e_now e, dc_accepted_at = None, dc_reinvestigation_due_at = clock (oi_framework i) e 30,
      dc_extension_due_at = None, dc_source_notice_due_at = clock (oi_framework i) e 5, dc_result_notice_due_at = clock (oi_framework i) e 5,
      dc_method_description_due_at = None, dc_assigned_to_user_id = None, dc_completed_at = None\<rparr>"

definition insert_dispute :: "snapshot \<Rightarrow> (int \<Rightarrow> disputeCase) \<Rightarrow> (govdb, disputeCase) act" where
  "insert_dispute n mk s = (let d = mk (seq (g_disputes s)) in
     if \<not> (\<exists>o' \<in> set (g_orders s). so_id o' = sn_screening_order_id n \<and> so_tenantId o' = dc_tenant_id d \<and> so_candidateId o' = sn_candidate_id n)
     then (Inl DbError, s)
     else if dc_case_ref d \<in> dc_case_ref ` set (rows (g_disputes s)) then (Inl UniqueViolation, s)
     else (Inr d, s\<lparr>g_disputes := tinsert mk (g_disputes s)\<rparr>))"

fun insert_dispute_items ::
  "env \<Rightarrow> snapshot \<Rightarrow> disputeCase \<Rightarrow> string \<Rightarrow> (disputeItemInput \<times> string) list \<Rightarrow> (govdb, unit) act" where
  "insert_dispute_items e n d statement [] s = (Inr (), s)"
| "insert_dispute_items e n d statement ((x, uuid) # xs) s =
     (let r = the (it_screeningResultId x); ref = ref_of ''BIS-DI-'' uuid in
      if \<not> (\<exists>q \<in> set (g_results s). sr_id q = r \<and> sr_orderId q = sn_screening_order_id n) then (Inl DbError, s)
      else if ref \<in> di_item_ref ` set (rows (g_dispute_items s)) then (Inl UniqueViolation, s)
      else insert_dispute_items e n d statement xs (s\<lparr>g_dispute_items := tinsert (\<lambda>k. \<lparr>di_id = k, di_item_ref = ref, di_case_id = dc_id d,
             di_screening_result_id = r, di_report_item_key = it_reportItemKey x,
             di_disputed_value = (case it_disputedValue x of None \<Rightarrow> JObj [] | Some v \<Rightarrow> v), di_statement = statement,
             di_disposition = Pending, di_rationale = None, di_held_at = Some (e_now e), di_resolved_at = None\<rparr>) (g_dispute_items s)\<rparr>))"

fun hold_events :: "govServices \<Rightarrow> env \<Rightarrow> disputeCase \<Rightarrow> disputeItemInput list \<Rightarrow> (govdb, unit) act" where
  "hold_events sv e d [] s = (Inr (), s)"
| "hold_events sv e d (x # xs) s =
     (case appendConsumerDisputeEvent sv e (dc_id d) (dc_case_ref d) (Some (dc_requester_user_id d)) ''consumer'' ''item_held''
             (JObj [(''reportItemKey'', JStr (it_reportItemKey x))]) s of
        (Inl err, s') \<Rightarrow> (Inl err, s')
      | (Inr _, s') \<Rightarrow> hold_events sv e d xs s')"

definition type_name :: "dispute_type \<Rightarrow> string" where
  "type_name t = (case t of Accuracy \<Rightarrow> ''accuracy'' | Completeness \<Rightarrow> ''completeness'' | Source_provenance \<Rightarrow> ''source_provenance''
     | Suppression \<Rightarrow> ''suppression'' | Objection \<Rightarrow> ''objection'' | Deletion \<Rightarrow> ''deletion'' | Method_description \<Rightarrow> ''method_description'')"

text \<open>What follows the insert of the case, with its row: the pause of the adverse actions first.\<close>

definition open_tail ::
  "govServices \<Rightarrow> env \<Rightarrow> (nat \<Rightarrow> string) \<Rightarrow> string \<Rightarrow> snapshot \<Rightarrow> openInput \<Rightarrow> disputeCase \<Rightarrow> (govdb, string \<times> string) act" where
  "open_tail sv e itemUuids noticeUuid n i d =
     seq_act (insert_dispute_items e n d (oi_statement i) (zip (oi_items i) (map itemUuids [0..<length (oi_items i)]))) (\<lambda>_.
     seq_act (appendConsumerDisputeEvent sv e (dc_id d) (dc_case_ref d) (Some (dc_requester_user_id d)) ''consumer'' ''submitted''
       (JObj [(''framework'', JStr (framework_name (oi_framework i))), (''jurisdictionCode'', JStr (oi_jurisdiction i)),
              (''caseType'', JStr (type_name (oi_caseType i))), (''itemCount'', JNum (int (length (oi_items i))))])) (\<lambda>_.
     seq_act (hold_events sv e d (oi_items i)) (\<lambda>_.
     seq_act (queueDisputeNotice sv e noticeUuid d ''acknowledgement'' ''consumer-dispute-v1'' (Some (dc_requester_user_id d)) ''consumer''
       (JObj [(''framework'', JStr (framework_name (oi_framework i))), (''caseType'', JStr (type_name (oi_caseType i)))])) (\<lambda>ref.
     ret (dc_case_ref d, ref)))))"

definition open_rest ::
  "govServices \<Rightarrow> env \<Rightarrow> (nat \<Rightarrow> string) \<Rightarrow> string \<Rightarrow> snapshot \<Rightarrow> openInput \<Rightarrow> disputeCase \<Rightarrow> (govdb, string \<times> string) act" where
  "open_rest sv e itemUuids noticeUuid n i d =
     seq_act (pauseAdverseActionsForOpenDispute sv e (dc_tenant_id d) (sn_candidate_id n) (dc_case_ref d) (Some (dc_requester_user_id d)))
       (\<lambda>_. open_tail sv e itemUuids noticeUuid n i d)"

definition open_tx ::
  "govServices \<Rightarrow> env \<Rightarrow> string \<Rightarrow> (nat \<Rightarrow> string) \<Rightarrow> string \<Rightarrow> openInput \<Rightarrow> int \<Rightarrow> int \<Rightarrow> (govdb, string \<times> string) act" where
  "open_tx sv e caseUuid itemUuids noticeUuid i t userId s =
     (case dispute_subjects s (oi_reportSnapshotRef i) t userId of
        [] \<Rightarrow> (Inl (TRPCError FORBIDDEN ''A verified subject binding for this report is required before opening a dispute.''), s)
      | (b, n) # _ \<Rightarrow> check_items (sn_manifest n) (oi_items i)
          (seq_act (insert_dispute n (new_dispute e (ref_of ''BIS-DR-'' caseUuid) t userId b n i))
            (open_rest sv e itemUuids noticeUuid n i)) s)"

definition openDispute ::
  "govServices \<Rightarrow> env \<Rightarrow> ctx \<Rightarrow> string \<Rightarrow> (nat \<Rightarrow> string) \<Rightarrow> string \<Rightarrow> openInput \<Rightarrow> (govdb, string \<times> string) act" where
  "openDispute sv e c caseUuid itemUuids noticeUuid i = writeProcedure e c (\<lambda>u.
     zod (open_input_ok i)
     (requireTenant c (\<lambda>t. requireFcraModule sv (oi_framework i) (oi_jurisdiction i) (poolOrThrow e (in_transaction
       (open_tx sv e caseUuid itemUuids noticeUuid i t (u_id u)))))))"

section \<open>The consumer's own cases\<close>

definition mine :: "env \<Rightarrow> ctx \<Rightarrow> (govdb, disputeCase list) act" where
  "mine e c = protectedProcedure e c (\<lambda>u. requireTenant c (\<lambda>t. poolOrThrow e (\<lambda>s.
     (Inr (take 100 (order_desc dc_received_at (tselect (\<lambda>d. dc_requester_user_id d = u_id u \<and> dc_tenant_id d = t) (g_disputes s)))), s))))"

definition getMine ::
  "env \<Rightarrow> ctx \<Rightarrow> string \<Rightarrow> (govdb, disputeCase \<times> disputeItem list \<times> disputeNotice list \<times> disputeEvent list) act" where
  "getMine e c ref = protectedProcedure e c (\<lambda>u. zod (dispute_ref_ok ref) (requireTenant c (\<lambda>t. poolOrThrow e
     (seq_act (assertConsumerCaseOwner ref (u_id u) t) (\<lambda>d s.
       (Inr (d, tselect (\<lambda>x. di_case_id x = dc_id d) (g_dispute_items s),
             sort_key dn_queued_at (filter (\<lambda>x. dn_case_id x = dc_id d) (g_notices s)),
             sort_key de_created_at (filter (\<lambda>x. de_case_id x = dc_id d) (g_dispute_events s))), s))))))"

definition task_active :: "sourceTask \<Rightarrow> bool" where
  "task_active t \<longleftrightarrow> st_status t \<in> {Task_pending, Task_dispatched, Task_acknowledged}"

definition withdraw :: "govServices \<Rightarrow> env \<Rightarrow> ctx \<Rightarrow> string \<Rightarrow> (govdb, string) act" where
  "withdraw sv e c ref = writeProcedure e c (\<lambda>u. zod (dispute_ref_ok ref) (onConsumerCase e c u ref (\<lambda>t d s.
     if dc_status d = Resolved \<or> dc_status d = Withdrawn
     then (Inl (TRPCError CONFLICT ''This consumer dispute is already terminal.''), s)
     else if dc_status d = Escalated
     then (Inl (TRPCError FORBIDDEN ''An escalated dispute cannot be withdrawn through self-service.''), s)
     else seq_act (update_dispute (dc_id d) (\<lambda>d. d\<lparr>dc_status := Withdrawn, dc_completed_at := Some (e_now e)\<rparr>)) (\<lambda>_.
          seq_act (appendConsumerDisputeEvent sv e (dc_id d) (dc_case_ref d) (Some (u_id u)) ''consumer'' ''withdrawn'' (JObj [])) (\<lambda>_.
          ret ref)) (s\<lparr>g_tasks := tupdate (\<lambda>x. st_case_id x = dc_id d \<and> task_active x) (\<lambda>x. x\<lparr>st_status := Task_cancelled\<rparr>) (g_tasks s)\<rparr>))))"

definition requestMethodDescription :: "govServices \<Rightarrow> env \<Rightarrow> ctx \<Rightarrow> string \<Rightarrow> string \<Rightarrow> (govdb, string) act" where
  "requestMethodDescription sv e c uuid ref = writeProcedure e c (\<lambda>u. zod (dispute_ref_ok ref) (onConsumerCase e c u ref (\<lambda>t d.
     require (dc_framework d = Fcra \<or> dc_framework d = Dual)
       (TRPCError BAD_REQUEST ''A reinvestigation-method request is unavailable for this case framework.'')
     (seq_act (queueDisputeNotice sv e uuid d ''method_description'' ''fcra-method-description-v1'' (Some (u_id u)) ''consumer'' (JObj [])) (\<lambda>noticeRef.
      seq_act (appendConsumerDisputeEvent sv e (dc_id d) (dc_case_ref d) (Some (u_id u)) ''consumer'' ''method_description_requested'' (JObj [])) (\<lambda>_.
      ret noticeRef))))))"

end
