(* ===== verification/Dispute_Casework.thy ===== *)
theory Dispute_Casework
  imports Disputes
begin

text \<open>
  The rest of \<open>server/consumerDisputes.ts\<close>: custody of evidence uploaded to an object store, and the
  caseworkers' operations on a case: assignment, deadline escalations, source tasks and their
  responses, dispositions, completion, and the suspension of provider authorizations.
\<close>

section \<open>Evidence\<close>

text \<open>
  The object store: its configuration (\<open>evidenceStorage\<close> of \<open>server/fieldEvidence.ts\<close> throws when it
  is incomplete; otherwise the KMS key), what a HEAD request returns (\<open>None\<close> when it fails), the
  bytes of a base64 text, and the signing of an upload.
\<close>

record s3Object =
  ob_sha256 :: string
  ob_evidence_id :: string
  ob_checksum :: "string option"
  ob_contentType :: "string option"
  ob_contentLength :: "int option"
  ob_sse :: "string option"
  ob_kmsKeyId :: "string option"
  ob_versionId :: "string option"

record evidenceStore =
  eo_config :: "error + string"
  eo_head :: "string \<Rightarrow> s3Object option"
  eo_base64 :: "string \<Rightarrow> int list"
  eo_sign :: "string \<Rightarrow> string \<Rightarrow> int \<Rightarrow> error + string"

definition evidenceStorage :: "evidenceStore \<Rightarrow> (string \<Rightarrow> ('s, 'a) act) \<Rightarrow> ('s, 'a) act" where
  "evidenceStorage st k s = (case eo_config st of Inl err \<Rightarrow> (Inl err, s) | Inr kms \<Rightarrow> k kms s)"

definition hex_digit :: "char \<Rightarrow> int option" where
  "hex_digit ch = (let n = (of_char ch :: int) in
     if 48 \<le> n \<and> n \<le> 57 then Some (n - 48) else if 97 \<le> n \<and> n \<le> 102 then Some (n - 87) else None)"

text \<open>\<open>/^[0-9a-f]{64}$/\<close> and \<open>Buffer.from(\<dots>, "hex")\<close>.\<close>

definition sha256_hex_ok :: "string \<Rightarrow> bool" where
  "sha256_hex_ok s \<longleftrightarrow> length s = 64 \<and> list_all (\<lambda>ch. hex_digit ch \<noteq> None) s"

fun hex_bytes :: "string \<Rightarrow> int list" where
  "hex_bytes (a # b # cs) = (case (hex_digit a, hex_digit b) of (Some x, Some y) \<Rightarrow> (16 * x + y) # hex_bytes cs | _ \<Rightarrow> [])"
| "hex_bytes _ = []"

definition s3ChecksumMatchesSha256Hex :: "evidenceStore \<Rightarrow> string \<Rightarrow> string option \<Rightarrow> bool" where
  "s3ChecksumMatchesSha256Hex st expected observed \<longleftrightarrow> sha256_hex_ok expected \<and> truthy_str observed \<and>
     hex_bytes expected = eo_base64 st (the observed)"

definition set_evidence :: "(evidence \<Rightarrow> bool) \<Rightarrow> (evidence \<Rightarrow> evidence) \<Rightarrow> govdb \<Rightarrow> govdb" where
  "set_evidence P f s = s\<lparr>g_evidence := lupdate P f (g_evidence s)\<rparr>"

definition custody_open :: "string \<Rightarrow> evidence \<Rightarrow> bool" where
  "custody_open ref x \<longleftrightarrow> ev_ref x = ref \<and> ev_custody x = Initiated"

text \<open>Quarantine with its event; \<open>d\<close> carries the id and reference of the case.\<close>

definition quarantine :: "govServices \<Rightarrow> env \<Rightarrow> user \<Rightarrow> disputeCase \<Rightarrow> string \<Rightarrow> string \<Rightarrow> (govdb, unit) act" where
  "quarantine sv e u d ref reason s =
     appendConsumerDisputeEvent sv e (dc_id d) (dc_case_ref d) (Some (u_id u)) ''consumer'' ''evidence_quarantined''
       (JObj [(''evidenceRef'', JStr ref), (''reason'', JStr reason)]) (set_evidence (custody_open ref) (\<lambda>x. x\<lparr>ev_custody := Quarantined\<rparr>) s)"

record evidenceInput =
  vi_caseRef :: string
  vi_contentType :: string
  vi_contentLength :: int
  vi_sha256 :: string
  vi_idempotencyKey :: string

definition MAX_DISPUTE_EVIDENCE_BYTES :: int where "MAX_DISPUTE_EVIDENCE_BYTES = 10485760"
definition EVIDENCE_TTL_MS :: int where "EVIDENCE_TTL_MS = 900000"

definition evidence_input_ok :: "(string \<Rightarrow> bool) \<Rightarrow> evidenceInput \<Rightarrow> bool" where
  "evidence_input_ok uuid_ok i \<longleftrightarrow> dispute_ref_ok (vi_caseRef i) \<and>
     vi_contentType i \<in> {''image/jpeg'', ''image/png'', ''application/pdf''} \<and>
     1 \<le> vi_contentLength i \<and> vi_contentLength i \<le> MAX_DISPUTE_EVIDENCE_BYTES \<and> sha256_hex_ok (vi_sha256 i) \<and> uuid_ok (vi_idempotencyKey i)"

definition insert_evidence :: "evidence \<Rightarrow> (govdb, unit) act" where
  "insert_evidence x s =
     (if \<exists>y \<in> set (g_evidence s). ev_ref y = ev_ref x \<or> ev_object_key y = ev_object_key x
      then (Inl UniqueViolation, s) else (Inr (), s\<lparr>g_evidence := g_evidence s @ [x]\<rparr>))"

text \<open>
  The transaction of \<open>initiateEvidence\<close>. It yields the authorization, or the refusal that is thrown
  only after the quarantine of an expired one has been committed.
\<close>

definition initiate_evidence_tx ::
  "govServices \<Rightarrow> evidenceStore \<Rightarrow> env \<Rightarrow> user \<Rightarrow> string \<Rightarrow> evidenceInput \<Rightarrow> int \<Rightarrow> disputeCase \<Rightarrow> (govdb, error + evidence) act" where
  "initiate_evidence_tx sv st e u uuid i t d s =
     (if dc_status d \<in> {Resolved, Withdrawn, Frivolous}
      then (Inl (TRPCError CONFLICT ''Evidence cannot be added to this consumer dispute state.''), s)
      else case filter (\<lambda>x. ev_case_id x = dc_id d \<and> ev_submitted_by x = u_id u \<and> ev_idempotency_key x = vi_idempotencyKey i) (g_evidence s) of
        x # _ \<Rightarrow>
          if ev_custody x \<noteq> Initiated
          then (Inl (TRPCError CONFLICT ''This evidence upload has already reached a terminal custody state.''), s)
          else if ev_expires_at x \<le> e_now e
          then seq_act (quarantine sv e u d (ev_ref x) ''upload_authorization_expired'')
                 (\<lambda>_. ret (Inl (TRPCError CONFLICT ''The prior evidence upload authorization expired; use a new idempotency key.''))) s
          else (Inr (Inr x), s)
      | [] \<Rightarrow> evidenceStorage st (\<lambda>kms.
          let ref = ref_of ''BIS-DE-'' uuid;
              x = \<lparr>ev_ref = ref, ev_case_id = dc_id d, ev_submitted_by = u_id u, ev_idempotency_key = vi_idempotencyKey i,
                   ev_object_key = ''consumer-disputes/'' @ show_int t @ ''/'' @ show_int (dc_id d) @ ''/'' @ ref, ev_object_version_id = None,
                   ev_kms_key_id = kms, ev_sha256 = vi_sha256 i, ev_content_type = vi_contentType i, ev_byte_size = vi_contentLength i,
                   ev_custody = Initiated, ev_expires_at = e_now e + EVIDENCE_TTL_MS, ev_created_at = e_now e, ev_verified_at = None\<rparr>
          in seq_act (insert_evidence x) (\<lambda>_.
             seq_act (appendConsumerDisputeEvent sv e (dc_id d) (dc_case_ref d) (Some (u_id u)) ''consumer'' ''evidence_initiated''
               (JObj [(''evidenceRef'', JStr ref), (''contentType'', JStr (vi_contentType i)), (''contentLength'', JNum (vi_contentLength i))])) (\<lambda>_.
             ret (Inr x)))) s)"

definition initiateEvidence ::
  "govServices \<Rightarrow> evidenceStore \<Rightarrow> (string \<Rightarrow> bool) \<Rightarrow> env \<Rightarrow> ctx \<Rightarrow> string \<Rightarrow> evidenceInput \<Rightarrow> (govdb, string \<times> string \<times> int) act" where
  "initiateEvidence sv st uuid_ok e c uuid i = writeProcedure e c (\<lambda>u. zod (evidence_input_ok uuid_ok i)
     (seq_act (onConsumerCase e c u (vi_caseRef i) (initiate_evidence_tx sv st e u uuid i)) (\<lambda>r s.
        case r of
          Inl err \<Rightarrow> (Inl err, s)
        | Inr x \<Rightarrow> evidenceStorage st (\<lambda>kms s.
            case eo_sign st (ev_object_key x) (ev_ref x) (max 1 ((ev_expires_at x - e_now e) div 1000)) of
              Inl err \<Rightarrow> (Inl err, s) | Inr url \<Rightarrow> (Inr (ev_ref x, url, ev_expires_at x), s)) s)))"

text \<open>The checks of a HEAD answer against the row it was made for.\<close>

definition object_valid :: "evidenceStore \<Rightarrow> evidence \<Rightarrow> s3Object \<Rightarrow> bool" where
  "object_valid st x o' \<longleftrightarrow> ob_sha256 o' = ev_sha256 x \<and> s3ChecksumMatchesSha256Hex st (ev_sha256 x) (ob_checksum o') \<and>
     ob_evidence_id o' = ev_ref x \<and> ob_contentType o' = Some (ev_content_type x) \<and> ob_contentLength o' = Some (ev_byte_size x) \<and>
     ob_sse o' = Some ''aws:kms'' \<and> ob_kmsKeyId o' = Some (ev_kms_key_id x)"

definition finalized_elsewhere :: error where
  "finalized_elsewhere = TRPCError CONFLICT ''Evidence custody was finalized by another request.''"

text \<open>
  What \<open>completeEvidence\<close> does after the HEAD request, with the row \<open>x\<close> it read before; the row
  may have changed since.
\<close>

definition finishEvidence ::
  "govServices \<Rightarrow> evidenceStore \<Rightarrow> env \<Rightarrow> user \<Rightarrow> disputeCase \<Rightarrow> evidence \<Rightarrow> s3Object option \<Rightarrow> (govdb, string option) act" where
  "finishEvidence sv st e u d x obj =
     (case obj of
        None \<Rightarrow> seq_act (in_transaction (quarantine sv e u d (ev_ref x) ''object_not_available_for_verification''))
                  (\<lambda>_. throw (TRPCError BAD_REQUEST ''Evidence object could not be verified.''))
      | Some o' \<Rightarrow>
          if \<not> object_valid st x o' then
            (\<lambda>s. if list_ex (custody_open (ev_ref x)) (g_evidence s)
                 then seq_act (in_transaction (quarantine sv e u d (ev_ref x) ''object_integrity_or_encryption_validation_failed''))
                        (\<lambda>_. throw (TRPCError BAD_REQUEST ''Evidence object integrity or encryption verification failed.'')) s
                 else (Inl finalized_elsewhere, s))
          else
            (\<lambda>s. if list_ex (custody_open (ev_ref x)) (g_evidence s)
                 then in_transaction (\<lambda>s. seq_act
                   (appendConsumerDisputeEvent sv e (dc_id d) (dc_case_ref d) (Some (u_id u)) ''consumer'' ''evidence_verified''
                     (JObj [(''evidenceRef'', JStr (ev_ref x)), (''objectVersionId'', jopt JStr (ob_versionId o')), (''kmsKeyId'', JStr (ev_kms_key_id x))]))
                   (\<lambda>_. ret (ob_versionId o'))
                   (set_evidence (custody_open (ev_ref x)) (\<lambda>y. y\<lparr>ev_custody := Custody_verified, ev_object_version_id := ob_versionId o',
                      ev_verified_at := Some (e_now e)\<rparr>) s)) s
                 else (Inl finalized_elsewhere, s)))"

definition completeEvidence ::
  "govServices \<Rightarrow> evidenceStore \<Rightarrow> env \<Rightarrow> ctx \<Rightarrow> string \<Rightarrow> string \<Rightarrow> (govdb, string option) act" where
  "completeEvidence sv st e c caseRef evidenceRef = writeProcedure e c (\<lambda>u.
     zod (dispute_ref_ok caseRef \<and> ref_ok ''BIS-DE-'' evidenceRef) (requireTenant c (\<lambda>t. poolOrThrow e (\<lambda>s.
       case [(d, x). d \<leftarrow> rows (g_disputes s), x \<leftarrow> g_evidence s, ev_ref x = evidenceRef \<and> ev_case_id x = dc_id d \<and>
               dc_case_ref d = caseRef \<and> dc_requester_user_id d = u_id u \<and> dc_tenant_id d = t] of
         [] \<Rightarrow> (Inl (TRPCError NOT_FOUND ''Consumer dispute evidence authorization not found.''), s)
       | (d, x) # _ \<Rightarrow>
           if ev_custody x = Custody_verified then (Inr (ev_object_version_id x), s)
           else if ev_custody x \<noteq> Initiated \<or> ev_expires_at x \<le> e_now e
           then (Inl (TRPCError CONFLICT ''Consumer dispute evidence authorization is no longer active.''), s)
           else evidenceStorage st (\<lambda>kms. finishEvidence sv st e u d x (eo_head st (ev_object_key x))) s))))"

section \<open>The queue and its deadlines\<close>

definition coalesce :: "'a option \<Rightarrow> 'a option \<Rightarrow> 'a option" where
  "coalesce x y = (case x of None \<Rightarrow> y | Some _ \<Rightarrow> x)"

definition reinvestigation_due :: "disputeCase \<Rightarrow> int option" where
  "reinvestigation_due d = coalesce (dc_extension_due_at d) (dc_reinvestigation_due_at d)"

definition dispute_queue :: "env \<Rightarrow> ctx \<Rightarrow> dc_status option \<Rightarrow> bool \<Rightarrow> (govdb, disputeCase list) act" where
  "dispute_queue e c st overdueOnly = caseworkerWriteProcedure e c (\<lambda>u.
     zod (case st of None \<Rightarrow> True | Some x \<Rightarrow> x \<in> {Received, Accepted, Source_pending, Investigating, Awaiting_consumer, Frivolous, Escalated})
     (poolOrThrow e (scopeTenant c u (\<lambda>t s.
       (Inr (take 200 (sort_key (\<lambda>d. case reinvestigation_due d of None \<Rightarrow> dc_received_at d | Some x \<Rightarrow> x)
          (tselect (\<lambda>d. (t = None \<or> t = Some (dc_tenant_id d)) \<and> (st = None \<or> st = Some (dc_status d)) \<and>
             (\<not> overdueOnly \<or> (case reinvestigation_due d of None \<Rightarrow> False | Some x \<Rightarrow> x < e_now e)) \<and>
             dc_status d \<noteq> Resolved \<and> dc_status d \<noteq> Withdrawn) (g_disputes s)))), s)))))"

definition assign :: "govServices \<Rightarrow> env \<Rightarrow> ctx \<Rightarrow> string \<Rightarrow> int \<Rightarrow> (govdb, unit) act" where
  "assign sv e c ref assignee = supervisorWriteProcedure e c (\<lambda>u. zod (dispute_ref_ok ref \<and> 0 < assignee) (onInternalCase e c u ref (\<lambda>d s.
     if dc_status d = Resolved \<or> dc_status d = Withdrawn then (Inl (TRPCError CONFLICT ''A terminal case cannot be assigned.''), s)
     else if assignee \<notin> set (g_users s) then (Inl DbError, s)
     else seq_act (update_dispute (dc_id d) (\<lambda>d. d\<lparr>dc_assigned_to_user_id := Some assignee,
            dc_status := (if dc_status d = Received then Accepted else dc_status d), dc_accepted_at := coalesce (dc_accepted_at d) (Some (e_now e))\<rparr>)) (\<lambda>_.
          appendConsumerDisputeEvent sv e (dc_id d) (dc_case_ref d) (Some (u_id u)) ''supervisor'' ''assigned''
            (JObj [(''assigneeUserId'', JNum assignee)])) s)))"

definition es_status_name :: "es_status \<Rightarrow> string" where
  "es_status_name st = (case st of Es_open \<Rightarrow> ''open'' | Es_acknowledged \<Rightarrow> ''acknowledged'' | Es_resolved \<Rightarrow> ''resolved'')"

definition deadline_name :: "deadline \<Rightarrow> string" where
  "deadline_name k = (case k of Source_notice_due \<Rightarrow> ''source_notice_due'' | Reinvestigation_due \<Rightarrow> ''reinvestigation_due''
     | Result_notice_due \<Rightarrow> ''result_notice_due'' | Method_description_due \<Rightarrow> ''method_description_due'')"

definition deadlineEscalations :: "env \<Rightarrow> ctx \<Rightarrow> string \<Rightarrow> es_status option \<Rightarrow> (govdb, escalation list) act" where
  "deadlineEscalations e c ref st = supervisorWriteProcedure e c (\<lambda>u. zod (dispute_ref_ok ref) (poolOrThrow e (scopeTenant c u (\<lambda>t s.
     (Inr (sort_key es_due_at (sort_key es_id (tselect (\<lambda>x. (st = None \<or> st = Some (es_status x)) \<and>
        (\<exists>d \<in> set (rows (g_disputes s)). dc_id d = es_case_id x \<and> dc_case_ref d = ref \<and> (t = None \<or> t = Some (dc_tenant_id d))))
        (g_escalations s)))), s)))))"

definition set_escalation :: "int \<Rightarrow> (escalation \<Rightarrow> escalation) \<Rightarrow> govdb \<Rightarrow> govdb" where
  "set_escalation k f s = s\<lparr>g_escalations := tupdate (\<lambda>x. es_id x = k) f (g_escalations s)\<rparr>"

definition escalation_detail :: "escalation \<Rightarrow> (string \<times> jval) list" where
  "escalation_detail x = [(''escalationId'', JStr (show_int (es_id x))), (''escalationType'', JStr (deadline_name (es_type x))),
     (''dueAt'', JStr (isoInstant (es_due_at x)))]"

definition caseEscalation :: "disputeCase \<Rightarrow> int \<Rightarrow> (govdb, escalation) act" where
  "caseEscalation d k s = (case tfind (\<lambda>x. es_id x = k \<and> es_case_id x = dc_id d) (g_escalations s) of
     None \<Rightarrow> (Inl (TRPCError NOT_FOUND ''Deadline escalation not found in this case.''), s) | Some x \<Rightarrow> (Inr x, s))"

definition acknowledgeDeadlineEscalation :: "govServices \<Rightarrow> env \<Rightarrow> ctx \<Rightarrow> string \<Rightarrow> int \<Rightarrow> (govdb, unit) act" where
  "acknowledgeDeadlineEscalation sv e c ref k = supervisorWriteProcedure e c (\<lambda>u. zod (dispute_ref_ok ref \<and> 0 < k) (onInternalCase e c u ref (\<lambda>d.
     seq_act (caseEscalation d k) (\<lambda>x s.
       if es_status x = Es_resolved then (Inl (TRPCError CONFLICT ''A resolved deadline escalation cannot be acknowledged.''), s)
       else if es_status x = Es_open
       then appendConsumerDisputeEvent sv e (dc_id d) (dc_case_ref d) (Some (u_id u)) ''supervisor'' ''deadline_acknowledged'' (JObj (escalation_detail x))
              (set_escalation k (\<lambda>x. x\<lparr>es_status := Es_acknowledged, es_acknowledged_at := Some (e_now e), es_acknowledged_by := Some (u_id u)\<rparr>) s)
       else (Inr (), s)))))"

definition resolve_escalation :: "env \<Rightarrow> user \<Rightarrow> string \<Rightarrow> escalation \<Rightarrow> escalation" where
  "resolve_escalation e u note x = x\<lparr>es_status := Es_resolved, es_acknowledged_at := coalesce (es_acknowledged_at x) (Some (e_now e)),
     es_acknowledged_by := coalesce (es_acknowledged_by x) (Some (u_id u)), es_resolved_at := Some (e_now e),
     es_resolved_by := Some (u_id u), es_note := Some note\<rparr>"

definition resolveDeadlineEscalation :: "govServices \<Rightarrow> env \<Rightarrow> ctx \<Rightarrow> string \<Rightarrow> int \<Rightarrow> string \<Rightarrow> (govdb, string option) act" where
  "resolveDeadlineEscalation sv e c ref k note = supervisorWriteProcedure e c (\<lambda>u.
     zod (dispute_ref_ok ref \<and> 0 < k \<and> 10 \<le> length note \<and> length note \<le> 4000) (onInternalCase e c u ref (\<lambda>d.
     seq_act (caseEscalation d k) (\<lambda>x s.
       if es_status x = Es_resolved then (Inr (es_note x), s)
       else seq_act (appendConsumerDisputeEvent sv e (dc_id d) (dc_case_ref d) (Some (u_id u)) ''supervisor'' ''deadline_resolved''
              (JObj (escalation_detail x @ [(''resolutionNote'', JStr note)]))) (\<lambda>_. ret (Some note))
              (set_escalation k (resolve_escalation e u note) s)))))"

section \<open>Source tasks\<close>

record taskInput =
  ki_caseRef :: string
  ki_itemRef :: string
  ki_authorizationRef :: string
  ki_dataSourceId :: int
  ki_sourceRecordRef :: "string option"
  ki_responseDueAt :: "int option"

definition item_ref_ok :: "string \<Rightarrow> bool" where "item_ref_ok = ref_ok ''BIS-DI-''"
definition task_ref_ok :: "string \<Rightarrow> bool" where "task_ref_ok = ref_ok ''BIS-DST-''"

definition task_input_ok :: "taskInput \<Rightarrow> bool" where
  "task_input_ok i \<longleftrightarrow> dispute_ref_ok (ki_caseRef i) \<and> item_ref_ok (ki_itemRef i) \<and>
     8 \<le> length (ki_authorizationRef i) \<and> length (ki_authorizationRef i) \<le> 96 \<and> 0 < ki_dataSourceId i \<and>
     (case ki_sourceRecordRef i of None \<Rightarrow> True | Some x \<Rightarrow> 1 \<le> length x \<and> length x \<le> 160)"

definition deployment :: "govServices \<Rightarrow> env \<Rightarrow> string" where
  "deployment sv e = (case gs_deploymentEnv sv of Some x \<Rightarrow> x | None \<Rightarrow> if e_isProduction e then ''production'' else ''staging'')"

definition authorization_current :: "env \<Rightarrow> authorization \<Rightarrow> bool" where
  "authorization_current e a \<longleftrightarrow> az_active a \<and> (case az_effective_at a of None \<Rightarrow> False | Some t \<Rightarrow> t \<le> e_now e) \<and>
     (case az_expires_at a of None \<Rightarrow> False | Some t \<Rightarrow> e_now e < t)"

definition authorization_for :: "govServices \<Rightarrow> env \<Rightarrow> taskInput \<Rightarrow> disputeCase \<Rightarrow> authorization \<Rightarrow> bool" where
  "authorization_for sv e i d a \<longleftrightarrow> az_ref a = ki_authorizationRef i \<and> az_data_source_id a = ki_dataSourceId i \<and> authorization_current e a \<and>
     az_environment a = deployment sv e \<and> dc_jurisdiction_code d \<in> set (az_jurisdictions a) \<and> ''reinvestigation'' \<in> set (az_use_cases a) \<and>
     (az_tenant_id a = None \<or> az_tenant_id a = Some (dc_tenant_id d))"

definition evidence_manifest :: "govdb \<Rightarrow> disputeCase \<Rightarrow> jval" where
  "evidence_manifest s d = JArr (map (\<lambda>x. JObj [(''evidenceRef'', JStr (ev_ref x)), (''ciphertextSha256'', JStr (ev_sha256 x)),
       (''objectVersionId'', jopt JStr (ev_object_version_id x))])
     (sort_key ev_created_at (filter (\<lambda>x. ev_case_id x = dc_id d \<and> ev_custody x = Custody_verified) (g_evidence s))))"

text \<open>\<open>INSERT \<dots> ON CONFLICT (provider\_authorization\_id, idempotency\_key) DO UPDATE \<dots> RETURNING\<close>: the row there already is returned.\<close>

definition insert_task :: "(int \<Rightarrow> sourceTask) \<Rightarrow> (govdb, sourceTask) act" where
  "insert_task mk s = (let n = mk (seq (g_tasks s)) in
     case tfind (\<lambda>x. st_authorization_id x = st_authorization_id n \<and> st_idempotency_key x = st_idempotency_key n) (g_tasks s) of
       Some x \<Rightarrow> (Inr x, s\<lparr>g_tasks := (g_tasks s)\<lparr>seq := seq (g_tasks s) + 1\<rparr>\<rparr>)
     | None \<Rightarrow> if st_task_ref n \<in> st_task_ref ` set (rows (g_tasks s)) then (Inl UniqueViolation, s)
               else (Inr n, s\<lparr>g_tasks := tinsert mk (g_tasks s)\<rparr>))"

definition insert_provider_outbox :: "providerOutbox \<Rightarrow> (govdb, unit) act" where
  "insert_provider_outbox p s =
     (if po_idempotency_key p \<in> po_idempotency_key ` set (g_provider_outbox s) then (Inr (), s)
      else if \<exists>q \<in> set (g_provider_outbox s). po_id q = po_id p \<or> po_source_task_id q = po_source_task_id p then (Inl UniqueViolation, s)
      else (Inr (), s\<lparr>g_provider_outbox := g_provider_outbox s @ [p]\<rparr>))"

definition outbox_aad :: "string \<Rightarrow> string" where
  "outbox_aad key = ''consumer-dispute-outbox:v1|provider_reinvestigation_request|'' @ key"

text \<open>The writes of \<open>createSourceTask\<close> once its item \<open>x\<close> and authorization \<open>a\<close> are found.\<close>

definition create_task_writes ::
  "govServices \<Rightarrow> env \<Rightarrow> user \<Rightarrow> string \<Rightarrow> string \<Rightarrow> taskInput \<Rightarrow> disputeCase \<Rightarrow> disputeItem \<Rightarrow> authorization \<Rightarrow> (govdb, string) act" where
  "create_task_writes sv e u taskUuid outboxId i d x a s =
     (let manifest = evidence_manifest s d; taskRef = ref_of ''BIS-DST-'' taskUuid;
          key = gs_digest sv (dc_case_ref d @ ''|'' @ ki_itemRef i @ ''|'' @ ki_authorizationRef i @ ''|'') (Some manifest);
          payload = JObj [(''caseRef'', JStr (dc_case_ref d)), (''sourceTaskRef'', JStr taskRef),
            (''providerAuthorizationRef'', JStr (ki_authorizationRef i)), (''dataSourceId'', JNum (ki_dataSourceId i))];
          evidenceCount = (case manifest of JArr xs \<Rightarrow> int (length xs) | _ \<Rightarrow> 0) in
      seq_act (insert_task (\<lambda>k. \<lparr>st_id = k, st_task_ref = taskRef, st_case_id = dc_id d, st_item_id = di_id x, st_authorization_id = az_id a,
        st_data_source_id = ki_dataSourceId i, st_source_record_ref = ki_sourceRecordRef i, st_idempotency_key = key,
        st_status = Task_pending, st_manifest_sha256 = sha256_json sv manifest,
        st_response_due_at = coalesce (ki_responseDueAt i) (dc_reinvestigation_due_at d), st_response_received_at = None,
        st_response_disposition = None\<rparr>)) (\<lambda>task s.
      case gs_keyring sv (e_now e) of
        Inl err \<Rightarrow> (Inl err, s)
      | Inr _ \<Rightarrow>
          seq_act (insert_provider_outbox \<lparr>po_id = outboxId, po_case_id = dc_id d, po_source_task_id = st_id task,
            po_ciphertext = gs_seal sv (outbox_aad key) payload, po_payload_sha256 = sha256_json sv payload, po_idempotency_key = key,
            po_state = Ob_pending, po_attempt_count = 0, po_available_at = e_now e, po_leased_at = None, po_last_error_code = None,
            po_created_at = e_now e\<rparr>) (\<lambda>_.
          seq_act (update_dispute (dc_id d) (\<lambda>d. d\<lparr>dc_status := Source_pending\<rparr>)) (\<lambda>_.
          seq_act (appendConsumerDisputeEvent sv e (dc_id d) (dc_case_ref d) (Some (u_id u)) ''caseworker'' ''source_task_created''
            (JObj [(''taskRef'', JStr taskRef), (''disputeItemRef'', JStr (ki_itemRef i)),
                   (''providerAuthorizationRef'', JStr (ki_authorizationRef i)), (''evidenceCount'', JNum evidenceCount)])) (\<lambda>_.
          seq_act (appendConsumerDisputeEvent sv e (dc_id d) (dc_case_ref d) (Some (u_id u)) ''caseworker'' ''provider_outbox_enqueued''
            (JObj [(''outboxId'', JStr outboxId), (''taskRef'', JStr taskRef), (''providerAuthorizationRef'', JStr (ki_authorizationRef i))])) (\<lambda>_.
          ret (st_task_ref task))))) s) s)"

definition createSourceTask :: "govServices \<Rightarrow> env \<Rightarrow> ctx \<Rightarrow> string \<Rightarrow> string \<Rightarrow> taskInput \<Rightarrow> (govdb, string) act" where
  "createSourceTask sv e c taskUuid outboxId i = caseworkerWriteProcedure e c (\<lambda>u. zod (task_input_ok i) (onInternalCase e c u (ki_caseRef i) (\<lambda>d s.
     if dc_status d \<in> {Resolved, Withdrawn, Frivolous}
     then (Inl (TRPCError CONFLICT ''Source tasks cannot be created for this case state.''), s)
     else case tfind (\<lambda>x. di_item_ref x = ki_itemRef i \<and> di_case_id x = dc_id d) (g_dispute_items s) of
       None \<Rightarrow> (Inl (TRPCError NOT_FOUND ''Dispute item not found in this case.''), s)
     | Some x \<Rightarrow>
         (case filter (authorization_for sv e i d) (g_authorizations s) of
            [] \<Rightarrow> (Inl (TRPCError FORBIDDEN ''Provider authorization is missing, inactive, expired, or out of scope; no source request was sent.''), s)
          | a # _ \<Rightarrow> create_task_writes sv e u taskUuid outboxId i d x a s))))"

definition recordSourceResponse :: "govServices \<Rightarrow> env \<Rightarrow> ctx \<Rightarrow> string \<Rightarrow> string \<Rightarrow> string \<Rightarrow> (govdb, unit) act" where
  "recordSourceResponse sv e c ref taskRef response = caseworkerWriteProcedure e c (\<lambda>u.
     zod (dispute_ref_ok ref \<and> task_ref_ok taskRef \<and> response \<in> {''verified'', ''corrected'', ''deleted'', ''unverifiable'', ''no_response''})
     (onInternalCase e c u ref (\<lambda>d s.
       case tfind (\<lambda>x. st_task_ref x = taskRef \<and> st_case_id x = dc_id d) (g_tasks s) of
         None \<Rightarrow> (Inl (TRPCError NOT_FOUND ''Source task not found in this case.''), s)
       | Some x \<Rightarrow>
           if st_status x = Task_responded \<or> st_status x = Task_cancelled
           then (Inl (TRPCError CONFLICT ''Source task is already terminal.''), s)
           else seq_act (update_dispute (dc_id d) (\<lambda>d. d\<lparr>dc_status := Investigating\<rparr>)) (\<lambda>_.
                appendConsumerDisputeEvent sv e (dc_id d) (dc_case_ref d) (Some (u_id u)) ''caseworker'' ''source_response_recorded''
                  (JObj [(''taskRef'', JStr taskRef), (''disposition'', JStr response)]))
                (s\<lparr>g_tasks := tupdate (\<lambda>y. st_id y = st_id x) (\<lambda>y. y\<lparr>st_status := Task_responded, st_response_received_at := Some (e_now e),
                   st_response_disposition := Some response\<rparr>) (g_tasks s)\<rparr>))))"

section \<open>Dispositions and completion\<close>

definition disposition_name :: "disposition \<Rightarrow> string" where
  "disposition_name x = (case x of Pending \<Rightarrow> ''pending'' | Verified \<Rightarrow> ''verified'' | Corrected \<Rightarrow> ''corrected'' | Deleted \<Rightarrow> ''deleted''
     | Partially_resolved \<Rightarrow> ''partially_resolved'' | Unverifiable \<Rightarrow> ''unverifiable'' | Not_in_scope \<Rightarrow> ''not_in_scope'')"

definition disposition_event :: "disposition \<Rightarrow> string" where
  "disposition_event x = (if x = Corrected then ''item_corrected'' else if x = Deleted then ''item_deleted''
     else if x = Verified then ''item_verified'' else ''item_unverifiable'')"

definition dispositionItem :: "govServices \<Rightarrow> env \<Rightarrow> ctx \<Rightarrow> string \<Rightarrow> string \<Rightarrow> disposition \<Rightarrow> string \<Rightarrow> (govdb, unit) act" where
  "dispositionItem sv e c ref itemRef x rationale = caseworkerWriteProcedure e c (\<lambda>u.
     zod (dispute_ref_ok ref \<and> item_ref_ok itemRef \<and> x \<noteq> Pending \<and> 10 \<le> length rationale \<and> length rationale \<le> 4000)
     (onInternalCase e c u ref (\<lambda>d s.
       if dc_status d \<in> {Resolved, Withdrawn, Frivolous}
       then (Inl (TRPCError CONFLICT ''Items cannot be dispositioned in this case state.''), s)
       else case tfind (\<lambda>y. di_item_ref y = itemRef \<and> di_case_id y = dc_id d) (g_dispute_items s) of
         None \<Rightarrow> (Inl (TRPCError NOT_FOUND ''Dispute item not found in this case.''), s)
       | Some y \<Rightarrow>
           if di_disposition y \<noteq> Pending then (Inl (TRPCError CONFLICT ''Dispute item has already been dispositioned.''), s)
           else appendConsumerDisputeEvent sv e (dc_id d) (dc_case_ref d) (Some (u_id u)) ''caseworker'' (disposition_event x)
                  (JObj [(''itemRef'', JStr itemRef), (''disposition'', JStr (disposition_name x))])
                  (s\<lparr>g_dispute_items := tupdate (\<lambda>z. di_id z = di_id y)
                     (\<lambda>z. z\<lparr>di_disposition := x, di_rationale := Some rationale, di_resolved_at := Some (e_now e)\<rparr>) (g_dispute_items s)\<rparr>))))"

definition work_left :: "govdb \<Rightarrow> disputeCase \<Rightarrow> bool" where
  "work_left s d \<longleftrightarrow> list_ex (\<lambda>y. di_case_id y = dc_id d \<and> di_disposition y = Pending) (rows (g_dispute_items s)) \<or>
     list_ex (\<lambda>x. st_case_id x = dc_id d \<and> task_active x) (rows (g_tasks s))"

definition complete :: "govServices \<Rightarrow> env \<Rightarrow> ctx \<Rightarrow> string \<Rightarrow> string \<Rightarrow> (govdb, string) act" where
  "complete sv e c uuid ref = supervisorWriteProcedure e c (\<lambda>u. zod (dispute_ref_ok ref) (onInternalCase e c u ref (\<lambda>d s.
     if dc_status d = Resolved \<or> dc_status d = Withdrawn
     then (Inl (TRPCError CONFLICT ''This consumer dispute is already terminal.''), s)
     else if work_left s d
     then (Inl (TRPCError PRECONDITION_FAILED ''Every disputed item and source task must be resolved before case completion.''), s)
     else seq_act (update_dispute (dc_id d) (\<lambda>d. d\<lparr>dc_status := Resolved, dc_completed_at := Some (e_now e)\<rparr>)) (\<lambda>_.
          seq_act (queueDisputeNotice sv e uuid d ''result'' ''consumer-dispute-result-v1'' (Some (u_id u)) ''supervisor''
            (JObj [(''framework'', JStr (framework_name (dc_framework d)))])) (\<lambda>noticeRef.
          seq_act (appendConsumerDisputeEvent sv e (dc_id d) (dc_case_ref d) (Some (u_id u)) ''supervisor'' ''completed'' (JObj [])) (\<lambda>_.
          ret noticeRef))) s)))"

definition suspendAuthorization :: "env \<Rightarrow> ctx \<Rightarrow> string \<Rightarrow> string \<Rightarrow> (govdb, unit) act" where
  "suspendAuthorization e c ref reason = adminProcedure e c (\<lambda>u.
     zod (8 \<le> length ref \<and> length ref \<le> 96 \<and> 10 \<le> length reason \<and> length reason \<le> 1000) (poolOrThrow e (\<lambda>s.
       let P = (\<lambda>a. az_ref a = ref \<and> az_active a) in
       if \<not> list_ex P (g_authorizations s) then (Inl (TRPCError NOT_FOUND ''No active provider authorization was found.''), s)
       else (Inr (), s\<lparr>g_authorizations := lupdate P (\<lambda>a. a\<lparr>az_active := False, az_suspended_at := Some (e_now e),
               az_suspension_reason := Some reason\<rparr>) (g_authorizations s)\<rparr>))))"

end
