(* ===== verification/Dispute_Workers.thy ===== *)
theory Dispute_Workers
  imports Dispute_Casework Notice_Worker
begin

text \<open>
  \<open>server/consumerDisputeDeadlineWorker.ts\<close>, which escalates every statutory deadline that has
  elapsed, all in one transaction, and \<open>server/consumerDisputeProviderOutboxWorker.ts\<close>, which sends
  the source tasks of disputes to data providers. The adapter of the latter is a parameter; the one of
  the source always throws.
\<close>

section \<open>Deadlines\<close>

definition MAX_ESCALATIONS_PER_RUN :: nat where "MAX_ESCALATIONS_PER_RUN = 200"

record dueCase =
  du_case :: disputeCase
  du_type :: deadline
  du_at :: int

definition deadlines :: "disputeCase \<Rightarrow> (deadline \<times> int option) list" where
  "deadlines d = [(Source_notice_due, dc_source_notice_due_at d), (Reinvestigation_due, reinvestigation_due d),
     (Result_notice_due, dc_result_notice_due_at d), (Method_description_due, dc_method_description_due_at d)]"

definition elapsed :: "env \<Rightarrow> disputeCase \<Rightarrow> dueCase list" where
  "elapsed e d = concat (map (\<lambda>(k, x). case x of
     None \<Rightarrow> [] | Some t \<Rightarrow> if t \<le> e_now e then [\<lparr>du_case = d, du_type = k, du_at = t\<rparr>] else []) (deadlines d))"

definition due_cases :: "env \<Rightarrow> govdb \<Rightarrow> dueCase list" where
  "due_cases e s = take MAX_ESCALATIONS_PER_RUN (sort_key du_at (sort_key (dc_id \<circ> du_case)
     (concat (map (elapsed e) (tselect (\<lambda>d. dc_status d \<noteq> Resolved \<and> dc_status d \<noteq> Withdrawn) (g_disputes s))))))"

definition ESCALATION_TEMPLATE :: string where "ESCALATION_TEMPLATE = ''consumer-dispute-deadline-escalation-v1''"

text \<open>
  The insert of the alert is never accepted: its parameter \<open>$4\<close> is a value of the column \<open>subjectRef\<close>, of type
  \<open>varchar\<close>, and in the subquery an operand of \<open>=\<close>, of type \<open>text\<close>; PostgreSQL refuses a statement with
  inconsistent types for a parameter.
\<close>

definition insert_deadline_alert :: "dueCase \<Rightarrow> (govdb, nat) act" where
  "insert_deadline_alert c = throw DbError"

definition insert_escalation_notice :: "govServices \<Rightarrow> env \<Rightarrow> string \<Rightarrow> dueCase \<Rightarrow> (govdb, nat) act" where
  "insert_escalation_notice sv e uuid c s =
     (let ref = ref_of ''BIS-NOT-'' uuid; k = dc_id (du_case c) in
      if list_ex (\<lambda>n. dn_case_id n = k \<and> dn_type n = ''extension'' \<and> dn_template_version n = ESCALATION_TEMPLATE \<and>
           dn_status n \<in> {''queued'', ''sent'', ''delivered''}) (g_notices s)
      then (Inr 0, s)
      else if ref \<in> dn_ref ` set (g_notices s) then (Inl UniqueViolation, s)
      else (Inr 1, s\<lparr>g_notices := g_notices s @ [\<lparr>dn_ref = ref, dn_case_id = k, dn_type = ''extension'',
             dn_template_version = ESCALATION_TEMPLATE, dn_recipient = ''institution'', dn_status = ''queued'',
             dn_content_sha256 = gs_digest sv (ref @ ''|'' @ show_int k @ ''|'' @ deadline_name (du_type c)) None, dn_queued_at = e_now e\<rparr>]\<rparr>))"

record deadlineRun =
  dr_scanned :: nat
  dr_escalationsCreated :: nat
  dr_alertsCreated :: nat
  dr_noticesQueued :: nat
  dr_skippedDuplicate :: nat

definition escalated :: "govdb \<Rightarrow> dueCase \<Rightarrow> bool" where
  "escalated s c \<longleftrightarrow> list_ex (\<lambda>x. es_case_id x = dc_id (du_case c) \<and> es_type x = du_type c \<and> es_due_at x = du_at c) (rows (g_escalations s))"

definition new_escalation :: "dueCase \<Rightarrow> int \<Rightarrow> escalation" where
  "new_escalation c k = \<lparr>es_id = k, es_case_id = dc_id (du_case c), es_type = du_type c, es_due_at = du_at c, es_status = Es_open,
     es_acknowledged_at = None, es_acknowledged_by = None, es_resolved_at = None, es_resolved_by = None, es_note = None\<rparr>"

definition escalate :: "govServices \<Rightarrow> env \<Rightarrow> string \<Rightarrow> dueCase \<Rightarrow> deadlineRun \<Rightarrow> (govdb, deadlineRun) act" where
  "escalate sv e uuid c r s =
     (if escalated s c then (Inr (r\<lparr>dr_skippedDuplicate := dr_skippedDuplicate r + 1\<rparr>), s)
      else (let k = seq (g_escalations s); d = du_case c in
        seq_act (insert_deadline_alert c) (\<lambda>alerts.
        seq_act (insert_escalation_notice sv e uuid c) (\<lambda>notices.
        seq_act (appendConsumerDisputeEvent sv e (dc_id d) (dc_case_ref d) None ''system'' ''deadline_escalated''
          (JObj [(''escalationId'', JStr (show_int k)), (''escalationType'', JStr (deadline_name (du_type c))),
                 (''dueAt'', JStr (isoInstant (du_at c))), (''assignedToUserId'', jopt JNum (dc_assigned_to_user_id d))])) (\<lambda>_.
        ret (r\<lparr>dr_escalationsCreated := dr_escalationsCreated r + 1, dr_alertsCreated := dr_alertsCreated r + alerts,
               dr_noticesQueued := dr_noticesQueued r + notices\<rparr>))))
        (s\<lparr>g_escalations := tinsert (new_escalation c) (g_escalations s)\<rparr>)))"

fun escalate_all :: "govServices \<Rightarrow> env \<Rightarrow> (nat \<Rightarrow> string) \<Rightarrow> dueCase list \<Rightarrow> deadlineRun \<Rightarrow> (govdb, deadlineRun) act" where
  "escalate_all sv e uuids [] r s = (Inr r, s)"
| "escalate_all sv e uuids (c # cs) r s =
     (case escalate sv e (uuids (length cs)) c r s of
        (Inl err, t) \<Rightarrow> (Inl err, t)
      | (Inr r', t) \<Rightarrow> escalate_all sv e uuids cs r' t)"

definition runConsumerDisputeDeadlineWorker :: "govServices \<Rightarrow> env \<Rightarrow> (nat \<Rightarrow> string) \<Rightarrow> (govdb, deadlineRun) act" where
  "runConsumerDisputeDeadlineWorker sv e uuids =
     require (e_dbUp e) (PlainError ''consumer-dispute deadline worker requires PostgreSQL'') (in_transaction (\<lambda>s.
       escalate_all sv e uuids (due_cases e s)
         \<lparr>dr_scanned = length (due_cases e s), dr_escalationsCreated = 0, dr_alertsCreated = 0, dr_noticesQueued = 0, dr_skippedDuplicate = 0\<rparr> s))"

section \<open>The provider outbox\<close>

record leasedEvent =
  pe_row :: providerOutbox
  pe_case_ref :: string
  pe_case_tenant_id :: int
  pe_task_ref :: string
  pe_data_source_id :: int
  pe_authorization_ref :: string
  pe_provider_code :: string
  pe_contract_version :: string

definition providerPool :: "env \<Rightarrow> ('s, 'a) act \<Rightarrow> ('s, 'a) act" where
  "providerPool e = require (e_dbUp e) (PlainError ''consumer-dispute provider outbox worker requires PostgreSQL'')"

definition js_space :: "char \<Rightarrow> bool" where
  "js_space ch \<longleftrightarrow> (let n = (of_char ch :: nat) in (9 \<le> n \<and> n \<le> 13) \<or> n = 32 \<or> n = 160)"

definition js_trim :: "string \<Rightarrow> string" where
  "js_trim s = rev (dropWhile js_space (rev (dropWhile js_space s)))"

definition deploymentEnvironment :: "govServices \<Rightarrow> env \<Rightarrow> (string \<Rightarrow> ('s, 'a) act) \<Rightarrow> ('s, 'a) act" where
  "deploymentEnvironment sv e k = (let v = js_trim (deployment sv e) in
     require (v \<in> {''sandbox'', ''staging'', ''production''})
       (PlainError ''BIS_DEPLOYMENT_ENV must be sandbox, staging, or production for provider dispatch.'') (k v))"

definition expire_event :: "env \<Rightarrow> providerOutbox \<Rightarrow> providerOutbox" where
  "expire_event e p = p\<lparr>po_state := Ob_pending, po_leased_at := None, po_available_at := e_now e,
     po_last_error_code := Some (case po_last_error_code p of None \<Rightarrow> ''PROVIDER_OUTBOX_LEASE_EXPIRED'' | Some x \<Rightarrow> x)\<rparr>"

definition event_lease_expired :: "env \<Rightarrow> providerOutbox \<Rightarrow> bool" where
  "event_lease_expired e p \<longleftrightarrow> po_state p = Ob_leased \<and> (case po_leased_at p of None \<Rightarrow> False | Some t \<Rightarrow> t < e_now e - LEASE_MS)"

definition event_due :: "env \<Rightarrow> providerOutbox \<Rightarrow> bool" where
  "event_due e p \<longleftrightarrow> po_state p = Ob_pending \<and> po_available_at p \<le> e_now e"

definition event_joined :: "govdb \<Rightarrow> providerOutbox \<Rightarrow> leasedEvent list" where
  "event_joined s p = [\<lparr>pe_row = p, pe_case_ref = dc_case_ref d, pe_case_tenant_id = dc_tenant_id d, pe_task_ref = st_task_ref t,
       pe_data_source_id = st_data_source_id t, pe_authorization_ref = az_ref a, pe_provider_code = az_provider_code a,
       pe_contract_version = az_contract_version a\<rparr>.
     d \<leftarrow> rows (g_disputes s), dc_id d = po_case_id p, t \<leftarrow> rows (g_tasks s), st_id t = po_source_task_id p,
     a \<leftarrow> g_authorizations s, az_id a = st_authorization_id t]"

definition event_batch :: "env \<Rightarrow> govdb \<Rightarrow> leasedEvent list" where
  "event_batch e s = take DISPATCH_BATCH_SIZE (concat (map (event_joined s)
     (sort_key po_available_at (sort_key po_created_at (filter (event_due e) (g_provider_outbox s))))))"

definition leaseEvents :: "env \<Rightarrow> (govdb, leasedEvent list) act" where
  "leaseEvents e = providerPool e (\<lambda>s.
     let s1 = s\<lparr>g_provider_outbox := lupdate (event_lease_expired e) (expire_event e) (g_provider_outbox s)\<rparr>;
         batch = event_batch e s1
     in (Inr batch, s1\<lparr>g_provider_outbox := lupdate (\<lambda>p. po_id p \<in> set (map (po_id \<circ> pe_row) batch) \<and> po_state p = Ob_pending)
           (\<lambda>p. p\<lparr>po_state := Ob_leased, po_leased_at := Some (e_now e)\<rparr>) (g_provider_outbox s1)\<rparr>))"

definition fail_event :: "env \<Rightarrow> bool \<Rightarrow> nat \<Rightarrow> string \<Rightarrow> providerOutbox \<Rightarrow> providerOutbox" where
  "fail_event e terminal attempt code p = p\<lparr>po_state := (if terminal then Ob_dead_letter else Ob_pending), po_attempt_count := attempt,
     po_last_error_code := Some code,
     po_available_at := (if terminal then po_available_at p else e_now e + boundedBackoff attempt * 1000)\<rparr>"

definition restoreOrFail :: "govServices \<Rightarrow> env \<Rightarrow> leasedEvent \<Rightarrow> string \<Rightarrow> bool \<Rightarrow> (govdb, treated) act" where
  "restoreOrFail sv e n code retryable = providerPool e (in_transaction (\<lambda>s.
     let r = pe_row n; attempt = po_attempt_count r + 1; terminal = (\<not> retryable \<or> MAX_DISPATCH_ATTEMPTS \<le> attempt);
         s1 = s\<lparr>g_provider_outbox := lupdate (\<lambda>p. po_id p = po_id r \<and> po_state p = Ob_leased) (fail_event e terminal attempt code) (g_provider_outbox s)\<rparr>;
         s2 = (if terminal then s1\<lparr>g_tasks := tupdate (\<lambda>t. st_id t = po_source_task_id r \<and> task_active t)
                 (\<lambda>t. t\<lparr>st_status := Task_failed\<rparr>) (g_tasks s1)\<rparr> else s1)
     in seq_act (appendConsumerDisputeEvent sv e (po_case_id r) (pe_case_ref n) None ''system'' ''provider_outbox_failed''
          (JObj [(''outboxId'', JStr (po_id r)), (''taskRef'', JStr (pe_task_ref n)), (''failureCode'', JStr code), (''terminal'', JBool terminal)]))
        (\<lambda>_. ret (if terminal then Dead_lettered else Retried)) s2))"

type_synonym providerAdapter = "leasedEvent \<Rightarrow> jval \<Rightarrow> (error option) + string"

definition dispatchWithContractAdapter :: providerAdapter where
  "dispatchWithContractAdapter n payload = Inl None"

definition provider_failure_code :: "error option \<Rightarrow> string" where
  "provider_failure_code err = (case err of
     None \<Rightarrow> ''PROVIDER_CONTRACT_ADAPTER_NOT_INSTALLED''
   | Some (PlainError m) \<Rightarrow> if m = ''PROVIDER_OUTBOX_PAYLOAD_DIGEST_INVALID'' then m else ''PROVIDER_OUTBOX_PAYLOAD_OR_DISPATCH_FAILURE''
   | _ \<Rightarrow> ''PROVIDER_OUTBOX_PAYLOAD_OR_DISPATCH_FAILURE'')"

record providerRun =
  pv_leased :: nat
  pv_delivered :: nat
  pv_retried :: nat
  pv_deadLettered :: nat

definition count_treated :: "treated \<Rightarrow> providerRun \<Rightarrow> providerRun" where
  "count_treated x r = (if x = Dead_lettered then r\<lparr>pv_deadLettered := pv_deadLettered r + 1\<rparr> else r\<lparr>pv_retried := pv_retried r + 1\<rparr>)"

definition provider_permitted :: "env \<Rightarrow> string \<Rightarrow> govdb \<Rightarrow> leasedEvent \<Rightarrow> bool" where
  "provider_permitted e environment s n \<longleftrightarrow> list_ex (\<lambda>a. az_ref a = pe_authorization_ref n \<and> az_data_source_id a = pe_data_source_id n \<and>
     authorization_current e a \<and> az_environment a = environment \<and> (az_tenant_id a = None \<or> az_tenant_id a = Some (pe_case_tenant_id n)))
     (g_authorizations s)"

text \<open>The \<open>try\<close> of the loop: \<open>Inr None\<close> when the adapter answered, which is not recorded anywhere.\<close>

definition try_event :: "govServices \<Rightarrow> providerAdapter \<Rightarrow> env \<Rightarrow> string \<Rightarrow> leasedEvent \<Rightarrow> govdb \<Rightarrow> ((error option) + treated option) \<times> govdb" where
  "try_event sv adapter e environment n s =
     (case gs_unseal sv (outbox_aad (po_idempotency_key (pe_row n))) (po_ciphertext (pe_row n)) of
        Inl err \<Rightarrow> (Inl (Some err), s)
      | Inr payload \<Rightarrow>
          if sha256_json sv payload \<noteq> po_payload_sha256 (pe_row n)
          then (Inl (Some (PlainError ''PROVIDER_OUTBOX_PAYLOAD_DIGEST_INVALID'')), s)
          else if \<not> e_dbUp e then (Inl (Some (PlainError ''consumer-dispute provider outbox worker requires PostgreSQL'')), s)
          else if \<not> provider_permitted e environment s n
          then (case restoreOrFail sv e n ''PROVIDER_AUTHORIZATION_OUT_OF_SCOPE'' False s of
                  (Inl err, t) \<Rightarrow> (Inl (Some err), t) | (Inr x, t) \<Rightarrow> (Inr (Some x), t))
          else (case adapter n payload of Inl err \<Rightarrow> (Inl err, s) | Inr _ \<Rightarrow> (Inr None, s)))"

definition treat_event :: "govServices \<Rightarrow> providerAdapter \<Rightarrow> env \<Rightarrow> string \<Rightarrow> leasedEvent \<Rightarrow> providerRun \<Rightarrow> (govdb, providerRun) act" where
  "treat_event sv adapter e environment n r s =
     (case try_event sv adapter e environment n s of
        (Inr None, t) \<Rightarrow> (Inr r, t)
      | (Inr (Some x), t) \<Rightarrow> (Inr (count_treated x r), t)
      | (Inl err, t) \<Rightarrow> seq_act (restoreOrFail sv e n (provider_failure_code err)
            (provider_failure_code err = ''PROVIDER_OUTBOX_PAYLOAD_OR_DISPATCH_FAILURE'')) (\<lambda>x. ret (count_treated x r)) t)"

fun treat_events :: "govServices \<Rightarrow> providerAdapter \<Rightarrow> env \<Rightarrow> string \<Rightarrow> leasedEvent list \<Rightarrow> providerRun \<Rightarrow> (govdb, providerRun) act" where
  "treat_events sv adapter e environment [] r s = (Inr r, s)"
| "treat_events sv adapter e environment (n # ns) r s =
     (case treat_event sv adapter e environment n r s of
        (Inl err, t) \<Rightarrow> (Inl err, t)
      | (Inr r', t) \<Rightarrow> treat_events sv adapter e environment ns r' t)"

definition runConsumerDisputeProviderOutboxWorker :: "govServices \<Rightarrow> providerAdapter \<Rightarrow> env \<Rightarrow> (govdb, providerRun) act" where
  "runConsumerDisputeProviderOutboxWorker sv adapter e = deploymentEnvironment sv e (\<lambda>environment s.
     case gs_keyring sv (e_now e) of
       Inl err \<Rightarrow> (Inl err, s)
     | Inr _ \<Rightarrow> seq_act (leaseEvents e) (\<lambda>batch. treat_events sv adapter e environment batch
         \<lparr>pv_leased = length batch, pv_delivered = 0, pv_retried = 0, pv_deadLettered = 0\<rparr>) s)"

end
