(* ===== verification/Adverse_View.thy ===== *)
theory Adverse_View
  imports Notice_Worker
begin

text \<open>
  What the tables say of one adverse-action case: its row, its notices, the notices still waiting in
  the outbox, and its audit trail. Every statement of the handlers acts on the view of one case by a
  function and leaves the views of the others alone; \<open>acts\<close> says so, and composes.
\<close>

section \<open>Views\<close>

record aaView =
  v_case :: aaCase
  v_notices :: "delivery list"
  v_open :: "string set"
  v_trail :: "aa_event list"

definition caseView :: "string \<Rightarrow> govdb \<Rightarrow> aaView option" where
  "caseView k s = map_option (\<lambda>a. \<lparr>v_case = a, v_notices = filter (\<lambda>d. dl_case_id d = k) (g_deliveries s),
       v_open = no_delivery_id ` {p \<in> set (g_outbox s). no_case_id p = k \<and> ob_open (no_state p)},
       v_trail = map ae_type (filter (\<lambda>x. ae_case_id x = k) (g_events s))\<rparr>)
     (List.find (\<lambda>a. aa_id a = k) (g_cases s))"

text \<open>Keys are unique, references exist, the CHECKs of the cases hold, and notices are of the two kinds.\<close>

definition delivery_of :: "govdb \<Rightarrow> string \<Rightarrow> string \<Rightarrow> notice_type \<Rightarrow> bool" where
  "delivery_of s i k ty \<longleftrightarrow> (\<exists>d \<in> set (g_deliveries s). dl_id d = i \<and> dl_case_id d = k \<and> dl_notice_type d = ty)"

definition outbox_of :: "govdb \<Rightarrow> string \<Rightarrow> string \<Rightarrow> string \<Rightarrow> bool" where
  "outbox_of s i k d \<longleftrightarrow> (\<exists>p \<in> set (g_outbox s). no_id p = i \<and> no_case_id p = k \<and> no_delivery_id p = d)"

definition outbox_wf :: "govdb \<Rightarrow> bool" where
  "outbox_wf s \<longleftrightarrow> distinct (map no_id (g_outbox s)) \<and> (\<forall>p \<in> set (g_outbox s). no_case_id p \<in> aa_id ` set (g_cases s) \<and> (\<exists>ty. delivery_of s (no_delivery_id p) (no_case_id p) ty))"

definition deliveries_wf :: "govdb \<Rightarrow> bool" where
  "deliveries_wf s \<longleftrightarrow> distinct (map dl_id (g_deliveries s)) \<and>
     (\<forall>d \<in> set (g_deliveries s). dl_case_id d \<in> aa_id ` set (g_cases s) \<and> (dl_notice_type d = Pre_adverse \<or> dl_notice_type d = Final_adverse))"

definition cases_wf :: "govdb \<Rightarrow> bool" where
  "cases_wf s \<longleftrightarrow> distinct (map aa_id (g_cases s)) \<and> (\<forall>a \<in> set (g_cases s). aa_row_ok a)"

definition aa_wf :: "govdb \<Rightarrow> bool" where
  "aa_wf s \<longleftrightarrow> cases_wf s \<and> deliveries_wf s \<and> outbox_wf s \<and> (\<forall>x \<in> set (g_events s). ae_case_id x \<in> aa_id ` set (g_cases s))"

definition case_keys :: "govdb \<Rightarrow> (string \<times> string \<times> int \<times> int) set" where
  "case_keys s = (\<lambda>a. (aa_id a, aa_case_ref a, aa_tenant_id a, aa_candidate_id a)) ` set (g_cases s)"

definition acts :: "string \<Rightarrow> (aaView \<Rightarrow> aaView) \<Rightarrow> govdb \<Rightarrow> govdb \<Rightarrow> bool" where
  "acts k F s t \<longleftrightarrow> aa_wf s \<longrightarrow> (aa_wf t \<and> (\<forall>i c ty. delivery_of s i c ty \<longrightarrow> delivery_of t i c ty) \<and>
     (\<forall>i c d. outbox_of s i c d \<longrightarrow> outbox_of t i c d) \<and> case_keys t = case_keys s \<and>
     (\<forall>k'. k' \<noteq> k \<longrightarrow> caseView k' t = caseView k' s) \<and> caseView k t = map_option F (caseView k s))"

lemma actsD:
  assumes "acts k F s t" "aa_wf s"
  shows "aa_wf t" "\<And>i c ty. delivery_of s i c ty \<Longrightarrow> delivery_of t i c ty" "\<And>i c d. outbox_of s i c d \<Longrightarrow> outbox_of t i c d" "case_keys t = case_keys s"
    "\<And>k'. k' \<noteq> k \<Longrightarrow> caseView k' t = caseView k' s" "caseView k t = map_option F (caseView k s)"
  using assms by (auto simp: acts_def)

lemma acts_trans: "acts k F s t \<Longrightarrow> acts k G t u \<Longrightarrow> acts k (G \<circ> F) s u"
  by (auto simp: acts_def option.map_comp)

text \<open>Only four tables matter.\<close>

definition aaPart :: "govdb \<Rightarrow> aaCase list \<times> delivery list \<times> noticeOutbox list \<times> aaEvent list" where
  "aaPart s = (g_cases s, g_deliveries s, g_outbox s, g_events s)"

lemma aaPart_cong:
  assumes "aaPart t = aaPart s"
  shows "caseView k t = caseView k s" "aa_wf t = aa_wf s" "delivery_of t = delivery_of s" "outbox_of t = outbox_of s" "case_keys t = case_keys s"
  using assms
  by (auto simp: aaPart_def caseView_def aa_wf_def cases_wf_def deliveries_wf_def outbox_wf_def delivery_of_def outbox_of_def case_keys_def fun_eq_iff)

lemma acts_frame: "aaPart t = aaPart s \<Longrightarrow> acts k id s t"
  using aaPart_cong [of t s] by (simp add: acts_def option.map_id)

section \<open>Views and rows\<close>

lemma find_key:
  assumes "distinct (map key xs)" "x \<in> set xs"
  shows "List.find (\<lambda>y. key y = key x) xs = Some x"
  using assms by (induction xs) (auto simp: image_iff)

lemma caseView_SomeD:
  assumes "caseView k s = Some v"
  shows "v_case v \<in> set (g_cases s)" "aa_id (v_case v) = k" "v_notices v = filter (\<lambda>d. dl_case_id d = k) (g_deliveries s)"
    "v_open v = no_delivery_id ` {p \<in> set (g_outbox s). no_case_id p = k \<and> ob_open (no_state p)}"
    "v_trail v = map ae_type (filter (\<lambda>x. ae_case_id x = k) (g_events s))"
proof -
  obtain a where a: "List.find (\<lambda>a. aa_id a = k) (g_cases s) = Some a" and v: "v = \<lparr>v_case = a,
      v_notices = filter (\<lambda>d. dl_case_id d = k) (g_deliveries s),
      v_open = no_delivery_id ` {p \<in> set (g_outbox s). no_case_id p = k \<and> ob_open (no_state p)},
      v_trail = map ae_type (filter (\<lambda>x. ae_case_id x = k) (g_events s))\<rparr>"
    using assms by (auto simp: caseView_def)
  from a have "a \<in> set (g_cases s)" "aa_id a = k" by (auto simp: find_Some_iff)
  then show "v_case v \<in> set (g_cases s)" "aa_id (v_case v) = k" "v_notices v = filter (\<lambda>d. dl_case_id d = k) (g_deliveries s)"
    "v_open v = no_delivery_id ` {p \<in> set (g_outbox s). no_case_id p = k \<and> ob_open (no_state p)}"
    "v_trail v = map ae_type (filter (\<lambda>x. ae_case_id x = k) (g_events s))"
    by (simp_all add: v)
qed

lemma caseView_row:
  assumes "aa_wf s" "a \<in> set (g_cases s)"
  shows "\<exists>v. caseView (aa_id a) s = Some v \<and> v_case v = a"
  using find_key [of aa_id "g_cases s" a] assms by (auto simp: caseView_def aa_wf_def cases_wf_def)

lemma caseView_None: "caseView k s = None \<longleftrightarrow> k \<notin> aa_id ` set (g_cases s)"
  by (auto simp: caseView_def find_None_iff)

section \<open>What each statement does to a view\<close>

lemma find_lupdate_key:
  assumes "\<And>a. aa_id (f a) = aa_id a"
  shows "List.find (\<lambda>a. aa_id a = k) (lupdate P f xs) = map_option (\<lambda>a. if P a then f a else a) (List.find (\<lambda>a. aa_id a = k) xs)"
  using assms by (induction xs) auto

lemma image_lupdate: "(\<And>r. P r \<Longrightarrow> h (f r) = h r) \<Longrightarrow> h ` set (lupdate P f xs) = h ` set xs"
  by (induction xs) auto

definition keeps_case :: "(aaCase \<Rightarrow> aaCase) \<Rightarrow> bool" where
  "keeps_case f \<longleftrightarrow> (\<forall>a. aa_id (f a) = aa_id a \<and> aa_case_ref (f a) = aa_case_ref a \<and> aa_tenant_id (f a) = aa_tenant_id a \<and>
     aa_candidate_id (f a) = aa_candidate_id a)"

text \<open>Every write of a case goes through the CHECKs of its table.\<close>

lemma update_cases_acts:
  assumes "update_cases P f s = (Inr x, t)" "keeps_case f" "\<And>a. P a \<Longrightarrow> aa_id a = k"
  shows "acts k (\<lambda>v. v\<lparr>v_case := (if P (v_case v) then f (v_case v) else v_case v)\<rparr>) s t"
proof -
  from assms(1) have checked: "\<And>a. a \<in> set (g_cases s) \<Longrightarrow> P a \<Longrightarrow> aa_row_ok (f a)" and t: "t = s\<lparr>g_cases := lupdate P f (g_cases s)\<rparr>"
    by (auto simp: update_cases_def split: if_splits)
  have key: "\<And>a. aa_id (f a) = aa_id a" using assms(2) by (simp add: keeps_case_def)
  have ids: "map aa_id (lupdate P f (g_cases s)) = map aa_id (g_cases s)" using key by (intro map_lupdate)
  have idset: "aa_id ` set (lupdate P f (g_cases s)) = aa_id ` set (g_cases s)" using arg_cong [OF ids, of set] by simp
  have "case_keys t = case_keys s" using assms(2) by (simp add: case_keys_def t image_lupdate keeps_case_def)
  moreover have "caseView k' t = caseView k' s" if "k' \<noteq> k" for k'
  proof -
    have "map_option (\<lambda>a. if P a then f a else a) (List.find (\<lambda>a. aa_id a = k') (g_cases s)) = List.find (\<lambda>a. aa_id a = k') (g_cases s)"
    proof (cases "List.find (\<lambda>a. aa_id a = k') (g_cases s)")
      case (Some a)
      then have "aa_id a = k'" by (auto simp: find_Some_iff)
      then have "\<not> P a" using that assms(3) by auto
      then show ?thesis by (simp add: Some)
    qed simp
    then show ?thesis by (simp add: caseView_def t find_lupdate_key key)
  qed
  moreover have "caseView k t = map_option (\<lambda>v. v\<lparr>v_case := (if P (v_case v) then f (v_case v) else v_case v)\<rparr>) (caseView k s)"
    using key by (simp add: caseView_def t find_lupdate_key option.map_comp o_def cong: if_cong)
  moreover have "aa_wf t" if "aa_wf s"
    using that checked
    by (auto simp: aa_wf_def cases_wf_def deliveries_wf_def outbox_wf_def delivery_of_def t ids idset elim!: in_lupdateE)
  ultimately show ?thesis by (simp add: acts_def delivery_of_def outbox_of_def t)
qed

definition keeps_delivery :: "(delivery \<Rightarrow> delivery) \<Rightarrow> bool" where
  "keeps_delivery g \<longleftrightarrow> (\<forall>d. dl_id (g d) = dl_id d \<and> dl_case_id (g d) = dl_case_id d \<and> dl_notice_type (g d) = dl_notice_type d)"

lemma filter_lupdate: "(\<And>r. P r \<Longrightarrow> Q (f r) = Q r) \<Longrightarrow> filter Q (lupdate P f xs) = lupdate P f (filter Q xs)"
  by (induction xs) auto

lemma lupdate_cong_in: "(\<And>r. r \<in> set xs \<Longrightarrow> P r = P' r) \<Longrightarrow> lupdate P f xs = lupdate P' f xs"
  by (induction xs) auto

lemma delivery_of_lupdate:
  assumes "keeps_delivery g"
  shows "delivery_of (s\<lparr>g_deliveries := lupdate P g (g_deliveries s)\<rparr>) = delivery_of s"
proof -
  have "(\<exists>d \<in> set (lupdate P g ds). dl_id d = i \<and> dl_case_id d = c \<and> dl_notice_type d = ty) \<longleftrightarrow>
        (\<exists>d \<in> set ds. dl_id d = i \<and> dl_case_id d = c \<and> dl_notice_type d = ty)" for ds i c ty
    using assms by (induction ds) (auto simp: keeps_delivery_def)
  then show ?thesis by (simp add: delivery_of_def fun_eq_iff)
qed

lemma set_deliveries_acts:
  assumes "set_deliveries P g s = (Inr x, t)" "keeps_delivery g"
    "\<And>d. aa_wf s \<Longrightarrow> d \<in> set (g_deliveries s) \<Longrightarrow> P d \<Longrightarrow> dl_case_id d = k"
  shows "acts k (\<lambda>v. v\<lparr>v_notices := lupdate P g (v_notices v)\<rparr>) s t"
proof -
  have t: "t = s\<lparr>g_deliveries := lupdate P g (g_deliveries s)\<rparr>" using assms(1) by (simp add: set_deliveries_def)
  have dof: "delivery_of t = delivery_of s" using delivery_of_lupdate [OF assms(2)] by (simp add: t)
  have same: "filter (\<lambda>d. dl_case_id d = k') (lupdate P g (g_deliveries s)) = lupdate P g (filter (\<lambda>d. dl_case_id d = k') (g_deliveries s))" for k'
    using assms(2) by (intro filter_lupdate) (simp add: keeps_delivery_def)
  have ids: "map dl_id (lupdate P g (g_deliveries s)) = map dl_id (g_deliveries s)"
    using assms(2) by (intro map_lupdate) (simp add: keeps_delivery_def)
  show ?thesis unfolding acts_def
  proof (intro impI conjI allI)
    assume wf: "aa_wf s"
    have "\<forall>d \<in> set (lupdate P g (g_deliveries s)). dl_case_id d \<in> aa_id ` set (g_cases s) \<and> (dl_notice_type d = Pre_adverse \<or> dl_notice_type d = Final_adverse)"
      using wf assms(2) by (auto simp: aa_wf_def deliveries_wf_def keeps_delivery_def elim!: in_lupdateE)
    then show "aa_wf t" using wf dof by (simp add: aa_wf_def cases_wf_def deliveries_wf_def outbox_wf_def t ids)
    show "caseView k' t = caseView k' s" if "k' \<noteq> k" for k'
    proof -
      have "lupdate P g (filter (\<lambda>d. dl_case_id d = k') (g_deliveries s)) = filter (\<lambda>d. dl_case_id d = k') (g_deliveries s)"
        using assms(3) [OF wf] that by (intro lupdate_none) auto
      then show ?thesis by (simp add: caseView_def t same)
    qed
  qed (simp_all add: caseView_def t same dof outbox_of_def case_keys_def option.map_comp o_def dof [unfolded t])
qed

text \<open>An update of the outbox may close rows of the case; \<open>left v\<close> are those still open after it.\<close>

definition keeps_outbox :: "(noticeOutbox \<Rightarrow> noticeOutbox) \<Rightarrow> bool" where
  "keeps_outbox h \<longleftrightarrow> (\<forall>p. no_id (h p) = no_id p \<and> no_case_id (h p) = no_case_id p \<and> no_delivery_id (h p) = no_delivery_id p)"

lemma open_lupdate:
  assumes "keeps_outbox h"
  shows "no_delivery_id ` {p \<in> set (lupdate P h xs). no_case_id p = k \<and> ob_open (no_state p)} =
    no_delivery_id ` {p \<in> set xs. no_case_id p = k \<and> ob_open (no_state (if P p then h p else p))}"
proof -
  have "{p \<in> set (lupdate P h xs). no_case_id p = k \<and> ob_open (no_state p)} =
      (\<lambda>p. if P p then h p else p) ` {p \<in> set xs. no_case_id p = k \<and> ob_open (no_state (if P p then h p else p))}"
    using assms by (auto simp: lupdate_def keeps_outbox_def)
  moreover have "no_delivery_id (if P p then h p else p) = no_delivery_id p" for p using assms by (simp add: keeps_outbox_def)
  ultimately show ?thesis by (simp only: image_image)
qed

lemma set_outbox_acts:
  assumes "set_outbox P h s = (Inr x, t)" "keeps_outbox h"
    "\<And>p k'. aa_wf s \<Longrightarrow> p \<in> set (g_outbox s) \<Longrightarrow> P p \<Longrightarrow> no_case_id p \<noteq> k \<Longrightarrow> ob_open (no_state (h p)) = ob_open (no_state p)"
  shows "acts k (\<lambda>v. v\<lparr>v_open := no_delivery_id ` {p \<in> set (g_outbox s). no_case_id p = k \<and> ob_open (no_state (if P p then h p else p))}\<rparr>) s t"
proof -
  have t: "t = s\<lparr>g_outbox := lupdate P h (g_outbox s)\<rparr>" using assms(1) by (simp add: set_outbox_def)
  have ids: "map no_id (lupdate P h (g_outbox s)) = map no_id (g_outbox s)"
    using assms(2) by (intro map_lupdate) (simp add: keeps_outbox_def)
  have oof: "outbox_of t i c d" if "outbox_of s i c d" for i c d
  proof -
    from that obtain p where p: "p \<in> set (g_outbox s)" "no_id p = i \<and> no_case_id p = c \<and> no_delivery_id p = d" by (auto simp: outbox_of_def)
    then have "(if P p then h p else p) \<in> set (g_outbox t)" by (simp add: t lupdate_def)
    then show ?thesis using p(2) assms(2) unfolding outbox_of_def keeps_outbox_def
      by (intro bexI [where x = "if P p then h p else p"]) auto
  qed
  show ?thesis unfolding acts_def
  proof (intro impI conjI allI)
    assume wf: "aa_wf s"
    then show "aa_wf t" using assms(2) ids
      by (auto simp: aa_wf_def cases_wf_def deliveries_wf_def outbox_wf_def delivery_of_def keeps_outbox_def t elim!: in_lupdateE)
    show "caseView k' t = caseView k' s" if "k' \<noteq> k" for k'
    proof -
      have "{p \<in> set (g_outbox s). no_case_id p = k' \<and> ob_open (no_state (if P p then h p else p))} =
          {p \<in> set (g_outbox s). no_case_id p = k' \<and> ob_open (no_state p)}"
        using assms(3) [OF wf] that by auto
      then show ?thesis by (simp add: caseView_def t open_lupdate [OF assms(2)])
    qed
  qed (simp_all add: oof, simp_all add: caseView_def t case_keys_def delivery_of_def option.map_comp o_def open_lupdate [OF assms(2)])
qed

lemma append_events_acts:
  assumes "t = s\<lparr>g_events := g_events s @ [x]\<rparr>" "ae_case_id x = k" "aa_wf s \<Longrightarrow> k \<in> aa_id ` set (g_cases s)"
  shows "acts k (\<lambda>v. v\<lparr>v_trail := v_trail v @ [ae_type x]\<rparr>) s t"
  using assms
  by (auto simp: acts_def caseView_def aa_wf_def cases_wf_def deliveries_wf_def outbox_wf_def delivery_of_def outbox_of_def case_keys_def option.map_comp o_def
      intro!: option.map_cong)

lemma insert_delivery_acts:
  assumes "insert_delivery d s = (Inr x, t)" "dl_case_id d = k" "aa_wf s \<Longrightarrow> k \<in> aa_id ` set (g_cases s)"
    "dl_notice_type d = Pre_adverse \<or> dl_notice_type d = Final_adverse"
  shows "acts k (\<lambda>v. v\<lparr>v_notices := v_notices v @ [d]\<rparr>) s t"
proof -
  from assms(1) have fresh: "dl_id d \<notin> dl_id ` set (g_deliveries s)" and t: "t = s\<lparr>g_deliveries := g_deliveries s @ [d]\<rparr>"
    by (auto simp: insert_delivery_def split: if_splits)
  have "aa_wf t" if "aa_wf s" using that fresh assms(2-4)
    by (auto simp: aa_wf_def cases_wf_def deliveries_wf_def outbox_wf_def delivery_of_def t) blast+
  then show ?thesis using assms(2)
    by (auto simp: acts_def caseView_def delivery_of_def outbox_of_def case_keys_def t option.map_comp o_def intro!: option.map_cong)
qed

lemma insert_outbox_acts:
  assumes "insert_outbox p s = (Inr x, t)" "no_case_id p = k" "ob_open (no_state p)"
  shows "acts k (\<lambda>v. v\<lparr>v_open := insert (no_delivery_id p) (v_open v)\<rparr>) s t"
proof -
  from assms(1) have fresh: "no_id p \<notin> no_id ` set (g_outbox s)" by (auto simp: insert_outbox_def split: if_splits)
  from assms(1) have refs: "no_case_id p \<in> aa_id ` set (g_cases s)" "\<exists>ty. delivery_of s (no_delivery_id p) (no_case_id p) ty"
    and t: "t = s\<lparr>g_outbox := g_outbox s @ [p]\<rparr>"
    by (auto simp: insert_outbox_def delivery_of_def split: if_splits intro: rev_image_eqI)
  have "aa_wf t" if "aa_wf s" using that refs fresh
    by (auto simp: aa_wf_def cases_wf_def deliveries_wf_def outbox_wf_def delivery_of_def t)
  moreover have "{q \<in> set (g_outbox s @ [p]). no_case_id q = k \<and> ob_open (no_state q)} =
      insert p {q \<in> set (g_outbox s). no_case_id q = k \<and> ob_open (no_state q)}" using assms by auto
  moreover have "{q \<in> set (g_outbox s @ [p]). no_case_id q = k' \<and> ob_open (no_state q)} =
      {q \<in> set (g_outbox s). no_case_id q = k' \<and> ob_open (no_state q)}" if "k' \<noteq> k" for k' using assms that by auto
  ultimately show ?thesis
    by (simp add: acts_def caseView_def delivery_of_def outbox_of_def case_keys_def t option.map_comp o_def)
qed

end
