(* ===== verification/Adverse_Spec.thy ===== *)
theory Adverse_Spec
  imports Adverse_View
begin

text \<open>
  The life of one adverse-action case as an abstract machine over its view: what may happen to it,
  at which time, and whether a consumer dispute of its candidate is open (\<open>contested\<close>). The machine
  knows nothing of handlers, transactions, ciphertexts or other cases. Its invariant is what the
  workflow is for: no final notice before the candidate had the time the law gives.
\<close>

section \<open>The machine\<close>

text \<open>A function that settles a notice with a status at a time, and leaves what it is about alone.\<close>

definition notice_marks :: "dl_status \<Rightarrow> int \<Rightarrow> (delivery \<Rightarrow> delivery) \<Rightarrow> bool" where
  "notice_marks st now g \<longleftrightarrow> keeps_delivery g \<and> (\<forall>d. dl_queued_at (g d) = dl_queued_at d \<and> dl_status (g d) = st \<and>
     dl_delivered_at (g d) = (if st = Dl_delivered then Some now else dl_delivered_at d))"

definition queued_now :: "int \<Rightarrow> string \<Rightarrow> notice_type \<Rightarrow> delivery \<Rightarrow> bool" where
  "queued_now now k ty d \<longleftrightarrow> dl_case_id d = k \<and> dl_notice_type d = ty \<and> dl_status d = Dl_queued \<and> dl_queued_at d = now \<and> dl_delivered_at d = None"

definition wait_from :: "int \<Rightarrow> aaCase \<Rightarrow> aaCase" where
  "wait_from now a = a\<lparr>aa_status := Waiting, aa_pre_notice_due_at := Some now,
     aa_final_notice_eligible_at := Some (now + aa_waiting_period_days a * MS_DAY)\<rparr>"

definition in_transit :: "delivery \<Rightarrow> bool" where
  "in_transit d \<longleftrightarrow> dl_status d = Dl_queued \<or> dl_status d = Dl_sent"

definition withdraw_notice :: "delivery \<Rightarrow> delivery" where "withdraw_notice d = d\<lparr>dl_status := Dl_canceled\<rparr>"

definition queued_status :: "notice_type \<Rightarrow> aa_status" where
  "queued_status ty = (if ty = Pre_adverse then Pre_notice_queued else Final_notice_queued)"

inductive aa_spec :: "int \<Rightarrow> bool \<Rightarrow> aaView option \<Rightarrow> aaView option \<Rightarrow> bool" for now contested where
  initiated: "\<not> contested \<Longrightarrow> aa_status a = Pre_notice_queued \<Longrightarrow> queued_now now (aa_id a) Pre_adverse d \<Longrightarrow> opens \<subseteq> {dl_id d} \<Longrightarrow>
    aa_spec now contested None (Some \<lparr>v_case = a, v_notices = [d], v_open = opens, v_trail = [Ev_created, Ev_pre_notice_queued]\<rparr>)"
| pre_delivered: "aa_status (v_case v) \<noteq> Paused_for_dispute \<Longrightarrow> d \<in> set (v_notices v) \<Longrightarrow> recordable d \<Longrightarrow> dl_notice_type d = Pre_adverse \<Longrightarrow>
    notice_marks Dl_delivered now g \<Longrightarrow> opens \<subseteq> v_open v \<Longrightarrow>
    aa_spec now contested (Some v) (Some (v\<lparr>v_case := wait_from now (v_case v), v_notices := lupdate (\<lambda>x. dl_id x = dl_id d) g (v_notices v),
      v_open := opens, v_trail := v_trail v @ [Ev_pre_notice_delivered]\<rparr>))"
| final_delivered: "aa_status (v_case v) \<noteq> Paused_for_dispute \<Longrightarrow> d \<in> set (v_notices v) \<Longrightarrow> recordable d \<Longrightarrow> dl_notice_type d = Final_adverse \<Longrightarrow>
    notice_marks Dl_delivered now g \<Longrightarrow> opens \<subseteq> v_open v \<Longrightarrow>
    aa_spec now contested (Some v) (Some (v\<lparr>v_case := (v_case v)\<lparr>aa_status := Aa_completed, aa_final_notice_sent_at := Some now\<rparr>,
      v_notices := lupdate (\<lambda>x. dl_id x = dl_id d) g (v_notices v),
      v_open := opens, v_trail := v_trail v @ [Ev_final_notice_delivered, Ev_completed]\<rparr>))"
| reported: "aa_status (v_case v) \<noteq> Paused_for_dispute \<Longrightarrow> d \<in> set (v_notices v) \<Longrightarrow> recordable d \<Longrightarrow>
    (st, cs) \<in> {(Dl_undeliverable, Undeliverable), (Dl_manual_required, Manual_delivery)} \<Longrightarrow> notice_marks st now g \<Longrightarrow> opens \<subseteq> v_open v \<Longrightarrow>
    aa_spec now contested (Some v) (Some (v\<lparr>v_case := (v_case v)\<lparr>aa_status := cs\<rparr>, v_notices := lupdate (\<lambda>x. dl_id x = dl_id d) g (v_notices v),
      v_open := opens, v_trail := v_trail v @ [Ev_manual_delivery_required]\<rparr>))"
| dead_lettered: "aa_status (v_case v) \<noteq> Paused_for_dispute \<Longrightarrow> d \<in> set (v_notices v) \<Longrightarrow> opens \<subseteq> v_open v \<Longrightarrow>
    aa_spec now contested (Some v) (Some (v\<lparr>v_case := (if aa_status (v_case v) = Aa_completed \<or> aa_status (v_case v) = Canceled then v_case v
        else (v_case v)\<lparr>aa_status := Manual_delivery\<rparr>),
      v_notices := lupdate (\<lambda>x. dl_id x = dl_id d \<and> in_transit x) (\<lambda>x. x\<lparr>dl_status := Dl_manual_required\<rparr>) (v_notices v),
      v_open := opens, v_trail := v_trail v @ [Ev_manual_delivery_required]\<rparr>))"
| paused: "aa_pausable (aa_status (v_case v)) \<Longrightarrow>
    aa_spec now contested (Some v) (Some (v\<lparr>v_case := (v_case v)\<lparr>aa_status := Paused_for_dispute, aa_paused_from_status := Some (aa_status (v_case v)),
        aa_paused_at := Some now\<rparr>,
      v_notices := lupdate in_transit withdraw_notice (v_notices v), v_open := {}, v_trail := v_trail v @ [Ev_paused_for_dispute]\<rparr>))"
| resumed_waiting: "\<not> contested \<Longrightarrow> aa_status (v_case v) = Paused_for_dispute \<Longrightarrow> aa_paused_from_status (v_case v) \<in> {Some Waiting, Some Pre_notice_delivered} \<Longrightarrow>
    aa_spec now contested (Some v) (Some (v\<lparr>v_case := (unpause Waiting (v_case v))\<lparr>aa_final_notice_eligible_at := Some (now + remaining_seconds (v_case v) * 1000)\<rparr>,
      v_trail := v_trail v @ [Ev_resumed]\<rparr>))"
| resumed_notice: "\<not> contested \<Longrightarrow> aa_status (v_case v) = Paused_for_dispute \<Longrightarrow> aa_paused_from_status (v_case v) = Some (queued_status ty) \<Longrightarrow>
    ty \<in> {Pre_adverse, Final_adverse} \<Longrightarrow> d0 \<in> set (v_notices v) \<Longrightarrow> dl_notice_type d0 = ty \<Longrightarrow> queued_now now (aa_id (v_case v)) ty d \<Longrightarrow>
    opens \<subseteq> insert (dl_id d) (v_open v) \<Longrightarrow>
    aa_spec now contested (Some v) (Some (v\<lparr>v_case := unpause (queued_status ty) (v_case v), v_notices := v_notices v @ [d], v_open := opens,
      v_trail := v_trail v @ [Ev_resumed]\<rparr>))"
| final_queued: "\<not> contested \<Longrightarrow> aa_status (v_case v) = Waiting \<Longrightarrow> aa_final_notice_eligible_at (v_case v) = Some x \<Longrightarrow> x \<le> now \<Longrightarrow>
    queued_now now (aa_id (v_case v)) Final_adverse d \<Longrightarrow> opens \<subseteq> insert (dl_id d) (v_open v) \<Longrightarrow>
    aa_spec now contested (Some v) (Some (v\<lparr>v_case := (v_case v)\<lparr>aa_status := Final_notice_queued\<rparr>, v_notices := v_notices v @ [d], v_open := opens,
      v_trail := v_trail v @ [Ev_final_notice_queued]\<rparr>))"
| recovered: "aa_status (v_case v) \<in> {Manual_delivery, Undeliverable} \<Longrightarrow> d0 \<in> set (v_notices v) \<Longrightarrow> dl_notice_type d0 = ty \<Longrightarrow>
    dl_status d0 \<in> {Dl_undeliverable, Dl_manual_required} \<Longrightarrow> queued_now now (aa_id (v_case v)) ty d \<Longrightarrow> opens \<subseteq> insert (dl_id d) (v_open v) \<Longrightarrow>
    aa_spec now contested (Some v) (Some (v\<lparr>v_case := (v_case v)\<lparr>aa_status := queued_status ty\<rparr>, v_notices := v_notices v @ [d], v_open := opens,
      v_trail := v_trail v @ [Ev_manual_delivery_resolved]\<rparr>))"
| canceled: "aa_status (v_case v) \<notin> {Aa_completed, Canceled, Paused_for_dispute} \<Longrightarrow>
    aa_spec now contested (Some v) (Some (v\<lparr>v_case := (v_case v)\<lparr>aa_status := Canceled\<rparr>, v_notices := lupdate in_transit withdraw_notice (v_notices v),
      v_open := {}, v_trail := v_trail v @ [Ev_canceled]\<rparr>))"
| dropped: "ns = v_notices v \<or> ns = lupdate (\<lambda>x. dl_id x = i \<and> dl_status x = Dl_queued) withdraw_notice (v_notices v) \<Longrightarrow> opens \<subseteq> v_open v \<Longrightarrow>
    aa_spec now contested (Some v) (Some (v\<lparr>v_notices := ns, v_open := opens\<rparr>))"

section \<open>The waiting period\<close>

text \<open>
  The candidate has had a pre-adverse notice for the whole waiting period of the case at time \<open>t\<close>;
  each resumption after a dispute may lose half a second, because the remaining time is kept in
  whole seconds.
\<close>

definition resumptions :: "aaView \<Rightarrow> nat" where
  "resumptions v = count_list (v_trail v) Ev_resumed"

definition waited :: "aaView \<Rightarrow> int \<Rightarrow> bool" where
  "waited v t \<longleftrightarrow> (\<exists>p \<in> set (v_notices v). dl_notice_type p = Pre_adverse \<and> dl_status p = Dl_delivered \<and>
     (\<exists>x. dl_delivered_at p = Some x \<and> x + aa_waiting_period_days (v_case v) * MS_DAY \<le> t + 500 * int (resumptions v)))"

definition waiting_row :: "aaCase \<Rightarrow> bool" where
  "waiting_row a \<longleftrightarrow> aa_status a = Waiting \<or> (aa_status a = Paused_for_dispute \<and> aa_paused_from_status a \<in> {Some Waiting, Some Pre_notice_delivered})"

text \<open>Whether the final notices, the waiting period, the pause and the completion are as they should be.\<close>

definition finals_waited :: "int \<Rightarrow> aaView \<Rightarrow> bool" where
  "finals_waited now v \<longleftrightarrow> (\<forall>d \<in> set (v_notices v). dl_queued_at d \<le> now \<and> (dl_notice_type d = Final_adverse \<longrightarrow> waited v (dl_queued_at d)))"

definition wait_runs :: "aaView \<Rightarrow> bool" where
  "wait_runs v \<longleftrightarrow> aa_status (v_case v) \<noteq> Pre_notice_delivered \<and>
     (waiting_row (v_case v) \<longrightarrow> (\<exists>x. aa_final_notice_eligible_at (v_case v) = Some x \<and> waited v x))"

definition pause_holds :: "int \<Rightarrow> aaView \<Rightarrow> bool" where
  "pause_holds now v \<longleftrightarrow> (aa_status (v_case v) = Paused_for_dispute \<longrightarrow>
     aa_paused_from_status (v_case v) \<in> {Some Pre_notice_queued, Some Waiting, Some Final_notice_queued} \<and>
     (\<exists>p. aa_paused_at (v_case v) = Some p \<and> p \<le> now) \<and> v_open v = {} \<and> (\<forall>d \<in> set (v_notices v). \<not> in_transit d))"

definition completed_notified :: "aaView \<Rightarrow> bool" where
  "completed_notified v \<longleftrightarrow> (aa_status (v_case v) = Aa_completed \<longrightarrow>
     (\<exists>d \<in> set (v_notices v). dl_notice_type d = Final_adverse \<and> dl_status d = Dl_delivered))"

definition view_inv :: "int \<Rightarrow> aaView \<Rightarrow> bool" where
  "view_inv now v \<longleftrightarrow> finals_waited now v \<and> wait_runs v \<and> pause_holds now v \<and> completed_notified v"

section \<open>It is an invariant\<close>

text \<open>What all the updates of the notices have in common.\<close>

definition carries :: "delivery list \<Rightarrow> delivery list \<Rightarrow> bool" where
  "carries ns ns' \<longleftrightarrow> (\<forall>p \<in> set ns. dl_status p = Dl_delivered \<longrightarrow> p \<in> set ns') \<and>
     (\<forall>d' \<in> set ns'. \<exists>d \<in> set ns. dl_notice_type d = dl_notice_type d' \<and> dl_queued_at d = dl_queued_at d')"

lemma carries_refl [simp]: "carries ns ns"
  by (auto simp: carries_def)

lemma carries_lupdate:
  assumes "\<And>d. d \<in> set ns \<Longrightarrow> P d \<Longrightarrow> dl_status d \<noteq> Dl_delivered"
    "\<And>d. dl_notice_type (g d) = dl_notice_type d \<and> dl_queued_at (g d) = dl_queued_at d"
  shows "carries ns (lupdate P g ns)"
  using assms unfolding carries_def by (fastforce intro: lupdate_miss elim!: in_lupdateE)

lemma carries_mark:
  assumes "distinct (map dl_id ns)" "d \<in> set ns" "recordable d" "notice_marks st now g"
  shows "carries ns (lupdate (\<lambda>x. dl_id x = dl_id d) g ns)"
proof (rule carries_lupdate)
  fix x assume "x \<in> set ns" "dl_id x = dl_id d"
  then have "x = d" using assms(1,2) by (auto dest: unique_key)
  then show "dl_status x \<noteq> Dl_delivered" using assms(3) by (auto simp: recordable_def)
qed (use assms(4) in \<open>auto simp: notice_marks_def keeps_delivery_def\<close>)

lemma waited_mono:
  assumes "waited v t" "carries (v_notices v) (v_notices w)" "aa_waiting_period_days (v_case w) = aa_waiting_period_days (v_case v)"
    "resumptions v \<le> resumptions w" "t \<le> t'"
  shows "waited w t'"
proof -
  from assms(1) obtain p x where p: "p \<in> set (v_notices v)" "dl_notice_type p = Pre_adverse" "dl_status p = Dl_delivered"
    "dl_delivered_at p = Some x" "x + aa_waiting_period_days (v_case v) * MS_DAY \<le> t + 500 * int (resumptions v)"
    by (auto simp: waited_def)
  have "p \<in> set (v_notices w)" using p assms(2) by (simp add: carries_def)
  then show ?thesis using p assms(3-5) unfolding waited_def by (intro bexI [where x = p]) auto
qed

lemma carries_snoc: "waited v t \<Longrightarrow> waited (v\<lparr>v_notices := v_notices v @ [d]\<rparr>) t"
  by (auto simp: waited_def resumptions_def)

lemma finals_carried:
  assumes "finals_waited t v" "t \<le> now" "carries (v_notices v) (v_notices w)"
    "aa_waiting_period_days (v_case w) = aa_waiting_period_days (v_case v)" "resumptions v \<le> resumptions w"
  shows "finals_waited now w"
  unfolding finals_waited_def
proof
  fix d assume "d \<in> set (v_notices w)"
  with assms(3) obtain d0 where d0: "d0 \<in> set (v_notices v)" "dl_notice_type d0 = dl_notice_type d" "dl_queued_at d0 = dl_queued_at d"
    by (auto simp: carries_def)
  with assms(1,2) have "dl_queued_at d \<le> now" by (force simp: finals_waited_def)
  moreover have "waited w (dl_queued_at d)" if "dl_notice_type d = Final_adverse"
    using waited_mono [OF _ assms(3-5), of "dl_queued_at d" "dl_queued_at d"] assms(1) d0 that by (auto simp: finals_waited_def)
  ultimately show "dl_queued_at d \<le> now \<and> (dl_notice_type d = Final_adverse \<longrightarrow> waited w (dl_queued_at d))" by simp
qed

text \<open>Another notice is queued.\<close>

lemma finals_snoc:
  assumes "finals_waited t v" "t \<le> now" "v_notices w = v_notices v @ [d]" "queued_now now k ty d" "ty = Final_adverse \<Longrightarrow> waited v now"
    "aa_waiting_period_days (v_case w) = aa_waiting_period_days (v_case v)" "resumptions v \<le> resumptions w"
  shows "finals_waited now w"
proof -
  have more: "waited w y" if "waited v y" for y
  proof -
    have "waited (v\<lparr>v_notices := v_notices v @ [d]\<rparr>) y" by (rule carries_snoc [OF that])
    moreover have "carries (v_notices (v\<lparr>v_notices := v_notices v @ [d]\<rparr>)) (v_notices w)" by (simp add: assms(3))
    ultimately show ?thesis using waited_mono [of "v\<lparr>v_notices := v_notices v @ [d]\<rparr>" y w y] assms(6,7) by (simp add: resumptions_def)
  qed
  then show ?thesis using assms(1-5) unfolding finals_waited_def by (force simp: queued_now_def)
qed

lemma resume_keeps_wait:
  assumes "aa_final_notice_eligible_at a = Some x" "aa_paused_at a = Some p" "p \<le> now"
  shows "x \<le> now + remaining_seconds a * 1000 + 499"
proof -
  have "max 0 (x - p) + 500 - 999 \<le> 1000 * ((max 0 (x - p) + 500) div 1000)"
    using div_mult_mod_eq [of "max 0 (x - p) + 500" 1000] pos_mod_bound [of 1000 "max 0 (x - p) + 500"] by linarith
  then show ?thesis using assms by (simp add: remaining_seconds_def)
qed

lemma marked:
  assumes "d \<in> set ns" "notice_marks st now g"
  shows "g d \<in> set (lupdate (\<lambda>x. dl_id x = dl_id d) g ns)" "dl_status (g d) = st" "dl_notice_type (g d) = dl_notice_type d"
    "st = Dl_delivered \<Longrightarrow> dl_delivered_at (g d) = Some now"
  using assms lupdate_hit [of d ns "\<lambda>x. dl_id x = dl_id d" g] by (auto simp: notice_marks_def keeps_delivery_def)

lemma carries_withdraw: "carries ns (lupdate in_transit withdraw_notice ns)"
  by (rule carries_lupdate) (auto simp: in_transit_def withdraw_notice_def)

lemma withdrawn_none_left: "d \<in> set (lupdate in_transit withdraw_notice ns) \<Longrightarrow> \<not> in_transit d"
  by (auto elim!: in_lupdateE simp: withdraw_notice_def) (simp add: in_transit_def)

lemma completed_carried:
  "completed_notified v \<Longrightarrow> aa_status (v_case v) = Aa_completed \<Longrightarrow> carries (v_notices v) (v_notices w) \<Longrightarrow> completed_notified w"
  by (auto simp: completed_notified_def carries_def)

text \<open>A move after which the case neither waits, nor is paused, nor is completed only has the finals to answer for.\<close>

lemma settled_inv:
  assumes "finals_waited now w" "aa_status (v_case w) \<in> {Pre_notice_queued, Canceled, Final_notice_queued, Undeliverable, Manual_delivery}"
  shows "view_inv now w"
  using assms by (auto simp: view_inv_def wait_runs_def waiting_row_def pause_holds_def completed_notified_def)

lemma queued_status_settled: "queued_status ty \<in> {Pre_notice_queued, Final_notice_queued}"
  by (simp add: queued_status_def)

lemma waited_since_final:
  assumes "finals_waited t v" "t \<le> now" "d \<in> set (v_notices v)" "dl_notice_type d = Final_adverse"
  shows "waited v now"
  using assms waited_mono [of v "dl_queued_at d" v now] by (fastforce simp: finals_waited_def)

lemma finals: "view_inv t v \<Longrightarrow> finals_waited t v"
  by (simp add: view_inv_def)

lemma delivered_inv:
  assumes inv: "view_inv t v" and later: "t \<le> now" and ids: "distinct (map dl_id (v_notices v))"
    and "d \<in> set (v_notices v)" "recordable d" "notice_marks Dl_delivered now g" "dl_notice_type d = Pre_adverse"
    "w = v\<lparr>v_case := wait_from now (v_case v), v_notices := lupdate (\<lambda>x. dl_id x = dl_id d) g (v_notices v), v_open := os,
      v_trail := v_trail v @ evs\<rparr>"
  shows "view_inv now w"
proof -
  have "finals_waited now w"
    by (rule finals_carried [OF finals [OF inv] later]) (use carries_mark [OF ids assms(4-6)] in \<open>simp_all add: assms(8) wait_from_def resumptions_def\<close>)
  moreover have "waited w (now + aa_waiting_period_days (v_case v) * MS_DAY)"
    using marked [OF assms(4,6)] assms(7) unfolding waited_def
    by (intro bexI [where x = "g d"]) (auto simp: assms(8) wait_from_def)
  ultimately show ?thesis
    by (simp add: view_inv_def wait_runs_def pause_holds_def completed_notified_def assms(8) wait_from_def)
qed

lemma completed_inv:
  assumes inv: "view_inv t v" and later: "t \<le> now" and ids: "distinct (map dl_id (v_notices v))"
    and "d \<in> set (v_notices v)" "recordable d" "notice_marks Dl_delivered now g" "dl_notice_type d = Final_adverse"
    "w = v\<lparr>v_case := (v_case v)\<lparr>aa_status := Aa_completed, aa_final_notice_sent_at := Some now\<rparr>,
      v_notices := lupdate (\<lambda>x. dl_id x = dl_id d) g (v_notices v), v_open := os, v_trail := v_trail v @ evs\<rparr>"
  shows "view_inv now w"
proof -
  have "finals_waited now w"
    by (rule finals_carried [OF finals [OF inv] later]) (use carries_mark [OF ids assms(4-6)] in \<open>simp_all add: assms(8) resumptions_def\<close>)
  moreover have "completed_notified w"
    using marked [OF assms(4,6)] assms(7) by (auto simp: completed_notified_def assms(8))
  ultimately show ?thesis
    by (simp add: view_inv_def wait_runs_def waiting_row_def pause_holds_def assms(8))
qed

lemma resumed_inv:
  assumes inv: "view_inv t v" and later: "t \<le> now" and ids: "distinct (map dl_id (v_notices v))"
    and "aa_status (v_case v) = Paused_for_dispute" "aa_paused_from_status (v_case v) \<in> {Some Waiting, Some Pre_notice_delivered}"
    "w = v\<lparr>v_case := (unpause Waiting (v_case v))\<lparr>aa_final_notice_eligible_at := Some (now + remaining_seconds (v_case v) * 1000)\<rparr>,
      v_trail := v_trail v @ [Ev_resumed]\<rparr>"
  shows "view_inv now w"
proof -
  obtain x p where x: "aa_final_notice_eligible_at (v_case v) = Some x" "waited v x"
    and p: "aa_paused_at (v_case v) = Some p" "p \<le> t"
    using inv assms(4,5) by (auto simp: view_inv_def wait_runs_def waiting_row_def pause_holds_def)
  have "finals_waited now w"
    by (rule finals_carried [OF finals [OF inv] later]) (simp_all add: assms(6) unpause_def resumptions_def)
  moreover have "waited w (now + remaining_seconds (v_case v) * 1000)"
    using x(2) resume_keeps_wait [OF x(1) p(1), of now] p(2) later unfolding waited_def
    by (fastforce simp: assms(6) unpause_def resumptions_def)
  ultimately show ?thesis
    by (simp add: view_inv_def wait_runs_def pause_holds_def completed_notified_def assms(6) unpause_def)
qed

lemma paused_inv:
  assumes inv: "view_inv t v" and later: "t \<le> now" and ids: "distinct (map dl_id (v_notices v))"
    and "aa_pausable (aa_status (v_case v))"
    "w = v\<lparr>v_case := (v_case v)\<lparr>aa_status := Paused_for_dispute, aa_paused_from_status := Some (aa_status (v_case v)), aa_paused_at := Some now\<rparr>,
      v_notices := lupdate in_transit withdraw_notice (v_notices v), v_open := {}, v_trail := v_trail v @ [Ev_paused_for_dispute]\<rparr>"
  shows "view_inv now w"
proof -
  have "finals_waited now w"
    by (rule finals_carried [OF finals [OF inv] later]) (use carries_withdraw in \<open>simp_all add: assms(5) resumptions_def\<close>)
  moreover have "wait_runs w"
    using inv assms(4) waited_mono [of v _ w]
    by (auto simp: view_inv_def wait_runs_def waiting_row_def assms(5) carries_withdraw resumptions_def)
  moreover have "pause_holds now w"
    using assms(4) inv withdrawn_none_left
    by (auto simp: pause_holds_def assms(5) aa_pausable_def view_inv_def wait_runs_def)
  ultimately show ?thesis by (simp add: view_inv_def completed_notified_def assms(5))
qed

lemma dropped_inv:
  assumes inv: "view_inv t v" and later: "t \<le> now" and ids: "distinct (map dl_id (v_notices v))"
    and "ns = v_notices v \<or> ns = lupdate (\<lambda>x. dl_id x = i \<and> dl_status x = Dl_queued) withdraw_notice (v_notices v)" "os \<subseteq> v_open v"
    "w = v\<lparr>v_notices := ns, v_open := os\<rparr>"
  shows "view_inv now w"
proof -
  have c: "carries (v_notices v) (v_notices w)"
    using assms(4,6) by (auto intro!: carries_lupdate simp: withdraw_notice_def)
  have "finals_waited now w" by (rule finals_carried [OF finals [OF inv] later c]) (simp_all add: assms(6) resumptions_def)
  moreover have "wait_runs w"
    using inv waited_mono [OF _ c] by (auto simp: view_inv_def wait_runs_def assms(6) resumptions_def)
  moreover have "pause_holds now w"
    using inv later assms(4,5) by (auto simp: view_inv_def pause_holds_def assms(6) in_transit_def withdraw_notice_def elim!: in_lupdateE)
  moreover have "completed_notified w"
    using inv c by (auto simp: view_inv_def completed_notified_def carries_def assms(6))
  ultimately show ?thesis by (simp add: view_inv_def)
qed

lemma dead_letter_inv:
  assumes inv: "view_inv t v" and later: "t \<le> now" and ids: "distinct (map dl_id (v_notices v))"
    and "w = v\<lparr>v_case := (if aa_status (v_case v) = Aa_completed \<or> aa_status (v_case v) = Canceled then v_case v
        else (v_case v)\<lparr>aa_status := Manual_delivery\<rparr>),
      v_notices := lupdate (\<lambda>x. dl_id x = i \<and> in_transit x) (\<lambda>x. x\<lparr>dl_status := Dl_manual_required\<rparr>) (v_notices v),
      v_open := os, v_trail := v_trail v @ evs\<rparr>"
  shows "view_inv now w"
proof -
  have c: "carries (v_notices v) (v_notices w)"
    unfolding assms(4) by (auto intro!: carries_lupdate simp: in_transit_def)
  have f: "finals_waited now w" by (rule finals_carried [OF finals [OF inv] later c]) (simp_all add: assms(4) resumptions_def)
  show ?thesis
  proof (cases "aa_status (v_case v) = Aa_completed")
    case True
    then have "completed_notified w" using inv c by (auto simp: view_inv_def intro: completed_carried)
    then show ?thesis using f True by (simp add: view_inv_def wait_runs_def waiting_row_def pause_holds_def assms(4))
  next
    case False
    then show ?thesis using f by (intro settled_inv) (simp_all add: assms(4))
  qed
qed

text \<open>A notice is queued and the case goes to a status that has nothing else to answer for.\<close>

lemma queued_inv:
  assumes inv: "view_inv t v" and later: "t \<le> now" and ids: "distinct (map dl_id (v_notices v))"
    and "v_notices w = v_notices v @ [d]" "queued_now now k ty d" "ty = Final_adverse \<Longrightarrow> waited v now"
    "aa_waiting_period_days (v_case w) = aa_waiting_period_days (v_case v)" "resumptions v \<le> resumptions w"
    "aa_status (v_case w) \<in> {Pre_notice_queued, Final_notice_queued}"
  shows "view_inv now w"
  by (rule settled_inv [OF finals_snoc [OF finals [OF inv] later assms(4-8)]]) (use assms(9) in auto)

lemma aa_spec_keeps_inv:
  assumes "aa_spec now contested (Some v) (Some w)" "view_inv t v" "t \<le> now" "distinct (map dl_id (v_notices v))"
  shows "view_inv now w"
  using assms(1)
proof cases
  case (reported d st cs g opens)
  have "finals_waited now w"
    by (rule finals_carried [of t v])
      (use assms(2,3) carries_mark [OF assms(4) reported(3,4,6)] reported(1) in \<open>simp_all add: view_inv_def resumptions_def\<close>)
  then show ?thesis by (rule settled_inv) (use reported(1,5) in auto)
next
  case (canceled)
  have "finals_waited now w"
    by (rule finals_carried [of t v]) (use assms(2,3) carries_withdraw canceled(1) in \<open>simp_all add: view_inv_def resumptions_def\<close>)
  then show ?thesis by (rule settled_inv) (use canceled(1) in auto)
next
  case (resumed_notice ty d0 d opens)
  show ?thesis
    by (rule queued_inv [OF assms(2-4) _ resumed_notice(8)])
      (use resumed_notice waited_since_final [of t v now d0] assms(2,3) queued_status_settled [of ty] in
        \<open>auto simp: unpause_def resumptions_def view_inv_def\<close>)
next
  case (recovered d0 ty d opens)
  show ?thesis
    by (rule queued_inv [OF assms(2-4) _ recovered(6)])
      (use recovered waited_since_final [of t v now d0] assms(2,3) queued_status_settled [of ty] in
        \<open>auto simp: resumptions_def view_inv_def\<close>)
next
  case (final_queued x d opens)
  have "waited v x" using assms(2) final_queued by (auto simp: view_inv_def wait_runs_def waiting_row_def)
  then have "waited v now" using waited_mono [of v x v now] final_queued(5) by simp
  then show ?thesis
    by (intro queued_inv [OF assms(2-4) _ final_queued(6)]) (use final_queued(1) in \<open>auto simp: resumptions_def\<close>)
qed (use assms(2-4) in \<open>blast intro: delivered_inv completed_inv resumed_inv paused_inv dropped_inv dead_letter_inv\<close>)+

lemma aa_spec_starts_inv:
  assumes "aa_spec now contested None (Some w)"
  shows "view_inv now w"
  using assms
  by cases (auto simp: view_inv_def finals_waited_def queued_now_def wait_runs_def waiting_row_def pause_holds_def completed_notified_def)

end
