(* ===== verification/Adverse_Refine.thy ===== *)
theory Adverse_Refine
  imports Adverse_Spec
begin

text \<open>
  Every handler of \<open>server/complianceWorkflow.ts\<close> and every transaction of the notice worker is, seen
  case by case, one move of the abstract machine or none.
\<close>

section \<open>What is to be shown\<close>

definition contested :: "govdb \<Rightarrow> aaView option \<Rightarrow> bool" where
  "contested s w = (case w of None \<Rightarrow> False | Some v \<Rightarrow> open_disputes s (aa_candidate_id (v_case v)) (aa_tenant_id (v_case v)) \<noteq> [])"

definition refines :: "int \<Rightarrow> govdb \<Rightarrow> govdb \<Rightarrow> bool" where
  "refines now s t \<longleftrightarrow> aa_wf s \<longrightarrow> aa_wf t \<and> (\<forall>i c ty. delivery_of s i c ty \<longrightarrow> delivery_of t i c ty) \<and>
     (\<forall>i c d. outbox_of s i c d \<longrightarrow> outbox_of t i c d) \<and> case_keys s \<subseteq> case_keys t \<and>
     (\<forall>k. caseView k s = caseView k t \<or> aa_spec now (contested s (caseView k t)) (caseView k s) (caseView k t))"

lemma refinesD:
  assumes "refines now s t" "aa_wf s"
  shows "aa_wf t" "\<And>i c ty. delivery_of s i c ty \<Longrightarrow> delivery_of t i c ty" "\<And>i c d. outbox_of s i c d \<Longrightarrow> outbox_of t i c d"
    "case_keys s \<subseteq> case_keys t"
    "\<And>k. caseView k s = caseView k t \<or> aa_spec now (contested s (caseView k t)) (caseView k s) (caseView k t)"
  using assms by (auto simp: refines_def)

lemma refines_frame: "aaPart t = aaPart s \<Longrightarrow> refines now s t"
  using aaPart_cong [of t s] by (simp add: refines_def)

lemma refines_refl [simp]: "refines now s s"
  by (rule refines_frame) simp

lemma view_row_ok:
  assumes "aa_wf s" "caseView k s = Some v"
  shows "aa_row_ok (v_case v)" "distinct (map dl_id (v_notices v))"
  using assms caseView_SomeD [OF assms(2)] by (auto simp: aa_wf_def cases_wf_def deliveries_wf_def distinct_map inj_on_def)

lemma refines_acts:
  assumes "acts k F s t"
    "\<And>v. aa_wf s \<Longrightarrow> caseView k s = Some v \<Longrightarrow> aa_row_ok (v_case v) \<Longrightarrow> aa_row_ok (v_case (F v)) \<Longrightarrow>
       aa_spec now (contested s (Some (F v))) (Some v) (Some (F v))"
  shows "refines now s t"
  unfolding refines_def
proof (intro impI conjI allI)
  assume wf: "aa_wf s"
  note act = actsD [OF assms(1) wf]
  show "aa_wf t" by (rule act)
  show "case_keys s \<subseteq> case_keys t" by (simp add: act(4))
  fix k'
  show "caseView k' s = caseView k' t \<or> aa_spec now (contested s (caseView k' t)) (caseView k' s) (caseView k' t)"
  proof (cases "k' = k")
    case True
    show ?thesis
    proof (cases "caseView k s")
      case (Some v)
      then have "caseView k t = Some (F v)" by (simp add: act(6))
      then show ?thesis using assms(2) [OF wf Some] view_row_ok(1) [OF wf Some] view_row_ok(1) [OF act(1)] True Some by simp
    qed (simp add: act(6) True)
  qed (simp add: act(5))
qed (use actsD(2,3) [OF assms(1)] in auto)

lemma acts_seq: "acts k F s t \<Longrightarrow> acts k G t u \<Longrightarrow> (\<And>v. H v = G (F v)) \<Longrightarrow> acts k H s u"
  using acts_trans [of k F s t G u] by (simp add: o_def) (metis ext)

lemma seq_InrE:
  assumes "seq_act m k s = (Inr x, t)"
  obtains y u where "m s = (Inr y, u)" "k y u = (Inr x, t)"
  using assms by (auto elim: seq_act_cases)

section \<open>Guards and transactions\<close>

lemma complianceProcedure_cases:
  assumes "complianceProcedure sv e c p rs k s = (r, t)"
  obtains (rejected) err where "r = Inl err" "t = s"
    | (runs) tid u where "c_tenantId c = Some tid" "c_user c = Some u" "u_role u \<in> set rs" "k tid u s = (r, t)"
proof -
  have "(\<exists>err. r = Inl err \<and> t = s) \<or> (\<exists>tid u. c_tenantId c = Some tid \<and> c_user c = Some u \<and> u_role u \<in> set rs \<and> k tid u s = (r, t))"
    using assms unfolding complianceProcedure_def writeProcedure_def by (auto split: option.splits if_splits)
  then show ?thesis using that by blast
qed

lemma tenantTransaction_cases:
  assumes "tenantTransaction e tid body s = (r, t)"
  obtains (failed) err where "r = Inl err" "t = s" | (committed) x where "r = Inr x" "body s = (Inr x, t)"
proof -
  have "(\<exists>err. r = Inl err \<and> t = s) \<or> (\<exists>x. r = Inr x \<and> body s = (Inr x, t))"
    using assms unfolding tenantTransaction_def in_transaction_def by (auto split: prod.splits sum.splits if_splits)
  then show ?thesis using that by blast
qed

lemma adverse_call:
  assumes "complianceProcedure sv e c p rs (\<lambda>tid u. zod b (tenantTransaction e tid (body tid u))) s = (r, t)"
  obtains (unchanged) err where "r = Inl err" "t = s"
    | (committed) tid u x where "c_tenantId c = Some tid" "c_user c = Some u" "u_role u \<in> set rs" "b" "r = Inr x" "body tid u s = (Inr x, t)"
  using assms
proof (cases rule: complianceProcedure_cases)
  case (rejected err)
  then show ?thesis by (rule unchanged)
next
  case (runs tid u)
  show ?thesis
  proof (cases b)
    case True
    with runs(4) have "tenantTransaction e tid (body tid u) s = (r, t)" by simp
    then show ?thesis
    proof (cases rule: tenantTransaction_cases)
      case (failed err)
      then show ?thesis by (rule unchanged)
    next
      case (committed x)
      then show ?thesis using runs True by (intro that(2)) simp_all
    qed
  next
    case False
    with runs(4) have "r = Inl (TRPCError BAD_REQUEST ''input validation'')" "t = s" by simp_all
    then show ?thesis by (rule unchanged)
  qed
qed

lemma lockedCase_ok:
  assumes "lockedCase ref tid s = (Inr a, t)"
  shows "t = s" "a \<in> set (g_cases s)" "aa_case_ref a = ref" "aa_tenant_id a = tid"
proof -
  obtain xs where "filter (\<lambda>a. aa_case_ref a = ref \<and> aa_tenant_id a = tid) (g_cases s) = a # xs" and t: "t = s"
    using assms unfolding lockedCase_def by (auto split: list.split_asm)
  then have "a \<in> set (filter (\<lambda>a. aa_case_ref a = ref \<and> aa_tenant_id a = tid) (g_cases s))" by simp
  then show "t = s" "a \<in> set (g_cases s)" "aa_case_ref a = ref" "aa_tenant_id a = tid" using t by simp_all
qed

lemma assertNoOpenDispute_ok:
  "assertNoOpenDispute cand tid s = (Inr x, t) \<Longrightarrow> t = s \<and> open_disputes s cand tid = []"
  by (auto simp: assertNoOpenDispute_def split: if_splits)

section \<open>Composite statements\<close>

lemma appendEvent_acts:
  assumes "appendEvent sv e k actor ty detail s = (Inr x, t)" "aa_wf s \<Longrightarrow> k \<in> aa_id ` set (g_cases s)"
  shows "acts k (\<lambda>v. v\<lparr>v_trail := v_trail v @ [ty]\<rparr>) s t"
proof -
  obtain h where "t = s\<lparr>g_events := g_events s @ [\<lparr>ae_case_id = k, ae_actor = actor, ae_type = ty, ae_detail = detail,
      ae_integrity_hash = h, ae_created_at = e_now e\<rparr>]\<rparr>"
    using assms(1) by (auto simp: appendEvent_def split: option.splits)
  then show ?thesis using assms(2) by (drule_tac append_events_acts) auto
qed

lemma appendSystemEvent_acts:
  assumes "appendSystemEvent sv e k ty detail s = (Inr x, t)" "aa_wf s \<Longrightarrow> k \<in> aa_id ` set (g_cases s)"
  shows "acts k (\<lambda>v. v\<lparr>v_trail := v_trail v @ [ty]\<rparr>) s t"
proof -
  obtain h where "t = s\<lparr>g_events := g_events s @ [\<lparr>ae_case_id = k, ae_actor = None, ae_type = ty, ae_detail = detail,
      ae_integrity_hash = h, ae_created_at = e_now e\<rparr>]\<rparr>"
    using assms(1) by (auto simp: appendSystemEvent_def split: option.splits)
  then show ?thesis using assms(2) by (drule_tac append_events_acts) auto
qed

lemma on_case_acts:
  assumes "on_case k f s = (Inr x, t)" "keeps_case f"
  shows "acts k (\<lambda>v. v\<lparr>v_case := f (v_case v)\<rparr>) s t"
proof -
  have "caseView k s = Some v \<Longrightarrow> aa_id (v_case v) = k" for v by (rule caseView_SomeD)
  then show ?thesis using update_cases_acts [OF assms] by (cases "caseView k s") (auto simp: acts_def)
qed

lemma cancel_deliveries_acts:
  assumes "cancel_deliveries k s = (Inr x, t)"
  shows "acts k (\<lambda>v. v\<lparr>v_notices := lupdate in_transit withdraw_notice (v_notices v)\<rparr>) s t"
proof -
  have "acts k (\<lambda>v. v\<lparr>v_notices := lupdate (\<lambda>d. dl_case_id d = k \<and> (dl_status d = Dl_queued \<or> dl_status d = Dl_sent))
      (\<lambda>d. d\<lparr>dl_status := Dl_canceled\<rparr>) (v_notices v)\<rparr>) s t"
    using set_deliveries_acts [OF assms [unfolded cancel_deliveries_def]] by (simp add: keeps_delivery_def)
  moreover have "lupdate (\<lambda>d. dl_case_id d = k \<and> (dl_status d = Dl_queued \<or> dl_status d = Dl_sent)) (\<lambda>d. d\<lparr>dl_status := Dl_canceled\<rparr>) (v_notices v) =
      lupdate in_transit withdraw_notice (v_notices v)" if "caseView k s = Some v" for v
    using caseView_SomeD(3) [OF that] unfolding withdraw_notice_def [abs_def] by (intro lupdate_cong_in) (auto simp: in_transit_def)
  ultimately show ?thesis by (cases "caseView k s") (auto simp: acts_def)
qed

text \<open>An update of the outbox that opens no row leaves open some of the rows of the case.\<close>

lemma close_acts:
  assumes "set_outbox P h s = (Inr x, t)" "keeps_outbox h" "\<And>p. ob_open (no_state (h p)) \<Longrightarrow> P p \<Longrightarrow> ob_open (no_state p)"
    "\<And>p k'. aa_wf s \<Longrightarrow> p \<in> set (g_outbox s) \<Longrightarrow> P p \<Longrightarrow> no_case_id p \<noteq> k \<Longrightarrow> ob_open (no_state (h p)) = ob_open (no_state p)"
  shows "\<exists>X. acts k (\<lambda>v. v\<lparr>v_open := v_open v \<inter> X\<rparr>) s t"
proof -
  let ?X = "no_delivery_id ` {p \<in> set (g_outbox s). no_case_id p = k \<and> ob_open (no_state (if P p then h p else p))}"
  have "acts k (\<lambda>v. v\<lparr>v_open := ?X\<rparr>) s t" by (rule set_outbox_acts [OF assms(1,2)]) (use assms(4) in blast)
  moreover have "v_open v \<inter> ?X = ?X" if "caseView k s = Some v" for v
    unfolding caseView_SomeD(4) [OF that] using assms(3) by (auto split: if_splits)
  ultimately have "acts k (\<lambda>v. v\<lparr>v_open := v_open v \<inter> ?X\<rparr>) s t" by (cases "caseView k s") (auto simp: acts_def)
  then show ?thesis by blast
qed

lemma cancel_case_outbox_acts:
  assumes "cancel_outbox (\<lambda>p. no_case_id p = k) code s = (Inr x, t)"
  shows "acts k (\<lambda>v. v\<lparr>v_open := {}\<rparr>) s t"
proof -
  let ?P = "\<lambda>p. no_case_id p = k \<and> ob_open (no_state p)"
  let ?h = "\<lambda>p. p\<lparr>no_state := Ob_cancelled, no_last_error_code := Some code\<rparr>"
  have none: "{p \<in> set (g_outbox s). no_case_id p = k \<and> ob_open (no_state (if ?P p then ?h p else p))} = {}" by (auto simp: ob_open_def)
  have "acts k (\<lambda>v. v\<lparr>v_open := no_delivery_id ` {p \<in> set (g_outbox s). no_case_id p = k \<and> ob_open (no_state (if ?P p then ?h p else p))}\<rparr>) s t"
    by (rule set_outbox_acts [OF assms [unfolded cancel_outbox_def]]) (auto simp: keeps_outbox_def)
  then show ?thesis unfolding none by simp
qed

lemma enqueueNotice_ok:
  assumes "enqueueNotice sv e ids tid a payload s = (Inr q, t)"
  shows "\<exists>p y. insert_outbox p s = (Inr y, t) \<and> no_case_id p = aa_id a \<and> no_delivery_id p = ni_delivery ids \<and> no_state p = Ob_pending"
proof -
  from assms obtain key s1 where k: "activeTenantEncryptionRegistry e tid s = (Inr key, s1)"
    and r1: "seq_act (encryptPiiEnvelope sv key (piiAad tid (aa_candidate_id a) (''compliance-notice-outbox:'' @ ni_outbox ids)) payload) (\<lambda>ciphertext.
      seq_act (insert_outbox (outbox_row sv e ids tid (aa_id a) key payload ciphertext)) (\<lambda>_. ret (ni_delivery ids, Some (ni_outbox ids)))) s1 = (Inr q, t)"
    unfolding enqueueNotice_def by (rule seq_InrE)
  from r1 obtain c s2 where c: "encryptPiiEnvelope sv key (piiAad tid (aa_candidate_id a) (''compliance-notice-outbox:'' @ ni_outbox ids)) payload s1 = (Inr c, s2)"
    and r2: "seq_act (insert_outbox (outbox_row sv e ids tid (aa_id a) key payload c)) (\<lambda>_. ret (ni_delivery ids, Some (ni_outbox ids))) s2 = (Inr q, t)"
    by (rule seq_InrE)
  from k c have "s2 = s"
    by (auto simp: activeTenantEncryptionRegistry_def encryptPiiEnvelope_def split: list.splits sum.splits prod.splits if_splits)
  with r2 obtain y where "insert_outbox (outbox_row sv e ids tid (aa_id a) key payload c) s = (Inr y, t)"
    by (auto elim: seq_InrE)
  then show ?thesis by (intro exI [where x = "outbox_row sv e ids tid (aa_id a) key payload c"]) (auto simp: outbox_row_def)
qed

lemma queueNotice_acts:
  assumes "queueNotice sv e ids tid a tm ty ch s = (Inr q, t)" "a \<in> set (g_cases s)" "ty \<in> {Pre_adverse, Final_adverse}"
  shows "\<exists>d. queued_now (e_now e) (aa_id a) ty d \<and>
    acts (aa_id a) (\<lambda>v. v\<lparr>v_notices := v_notices v @ [d], v_open := (if ch = Manual then v_open v else insert (dl_id d) (v_open v))\<rparr>) s t"
proof -
  let ?d = "new_delivery sv e (ni_delivery ids) a tm ty ch"
  have d: "queued_now (e_now e) (aa_id a) ty ?d" "dl_id ?d = ni_delivery ids" by (simp_all add: queued_now_def new_delivery_def)
  from assms(1) obtain y u where ins: "insert_delivery ?d s = (Inr y, u)"
    and rest: "(if ch = Manual then ret (ni_delivery ids, None)
      else enqueueNotice sv e ids tid a (notice_payload a tm ty ch (ni_delivery ids))) u = (Inr q, t)"
    unfolding queueNotice_def by (rule seq_InrE)
  have one: "acts (aa_id a) (\<lambda>v. v\<lparr>v_notices := v_notices v @ [?d]\<rparr>) s u"
    by (rule insert_delivery_acts [OF ins]) (use assms(2,3) in \<open>auto simp: new_delivery_def\<close>)
  show ?thesis
  proof (cases "ch = Manual")
    case True
    then show ?thesis using one rest d by (intro exI [where x = ?d]) simp
  next
    case False
    with rest have "enqueueNotice sv e ids tid a (notice_payload a tm ty ch (ni_delivery ids)) u = (Inr q, t)" by simp
    from enqueueNotice_ok [OF this] obtain p y' where "insert_outbox p u = (Inr y', t)"
      and p: "no_case_id p = aa_id a" "no_delivery_id p = ni_delivery ids" "no_state p = Ob_pending" by blast
    then have "acts (aa_id a) (\<lambda>v. v\<lparr>v_open := insert (dl_id ?d) (v_open v)\<rparr>) u t"
      using insert_outbox_acts [of p u y' t "aa_id a"] d(2) by (simp add: ob_open_def)
    then have "acts (aa_id a) (\<lambda>v. v\<lparr>v_notices := v_notices v @ [?d], v_open := (if ch = Manual then v_open v else insert (dl_id ?d) (v_open v))\<rparr>) s t"
      by (rule acts_seq [OF one]) (simp add: False)
    then show ?thesis using d by (intro exI [where x = ?d]) simp
  qed
qed

end
