(* ===== verification/Adverse_Handlers.thy ===== *)
theory Adverse_Handlers
  imports Adverse_Refine
begin

text \<open>
  The handlers of \<open>server/complianceWorkflow.ts\<close> as moves of the abstract machine: for each, the
  statements of a successful run one after the other, the function on the view of its case that they
  make up, and the rule of the machine.
\<close>

lemma refinesI: "(aa_wf s \<Longrightarrow> refines now s t) \<Longrightarrow> refines now s t"
  by (auto simp: refines_def)

lemma case_ids: "aa_id ` set (g_cases s) = fst ` case_keys s"
  by (force simp: case_keys_def image_iff)

lemma acts_member:
  "acts k F s u \<Longrightarrow> aa_wf s \<Longrightarrow> i \<in> aa_id ` set (g_cases s) \<Longrightarrow> i \<in> aa_id ` set (g_cases u)"
  by (simp add: actsD(4) case_ids)

lemma view_of_row:
  assumes "aa_wf s" "a \<in> set (g_cases s)" "caseView (aa_id a) s = Some v"
  shows "v_case v = a"
  using caseView_row [OF assms(1,2)] assms(3) by auto

lemma notice_in_view:
  "caseView k s = Some v \<Longrightarrow> d \<in> set (v_notices v) \<longleftrightarrow> d \<in> set (g_deliveries s) \<and> dl_case_id d = k"
  by (auto simp: caseView_SomeD(3))

lemma contested_row:
  "aa_candidate_id (v_case w) = cand \<Longrightarrow> aa_tenant_id (v_case w) = tid \<Longrightarrow> open_disputes s cand tid = [] \<Longrightarrow> \<not> contested s (Some w)"
  by (simp add: contested_def)

lemma not_paused_row: "aa_row_ok a \<Longrightarrow> aa_row_ok b \<Longrightarrow> aa_paused_at b = aa_paused_at a \<Longrightarrow> aa_status b \<noteq> Paused_for_dispute \<Longrightarrow> aa_status a \<noteq> Paused_for_dispute"
  by (auto simp: aa_row_ok_def)

lemma lockedE:
  assumes "seq_act (lockedCase ref tid) k s = (Inr x, t)"
  obtains a where "lockedCase ref tid s = (Inr a, s)" "k a s = (Inr x, t)"
proof -
  from assms obtain a u where "lockedCase ref tid s = (Inr a, u)" "k a u = (Inr x, t)" by (rule seq_InrE)
  then show ?thesis using that lockedCase_ok(1) by blast
qed

lemma seq_unitE:
  assumes "seq_act m k s = (Inr x, t)"
  obtains u where "m s = (Inr (), u)" "k () u = (Inr x, t)"
  using assms by (elim seq_InrE) simp

section \<open>Templates\<close>

lemma createNoticeTemplate_part: "aaPart (snd (createNoticeTemplate sv e c uuid i s)) = aaPart s"
proof -
  obtain r t where rt: "createNoticeTemplate sv e c uuid i s = (r, t)" by fastforce
  then have "aaPart t = aaPart s"
    unfolding createNoticeTemplate_def administratorProcedure_def
  proof (cases rule: adverse_call)
    case (committed tid u x)
    then show ?thesis
      by (auto simp: activeTenantEncryptionRegistry_def encryptPiiEnvelope_def insert_template_def appendTemplateEvent_def aaPart_def
          elim!: seq_InrE split: list.split_asm sum.split_asm prod.split_asm if_split_asm option.split_asm)
  qed simp
  then show ?thesis by (simp add: rt)
qed

lemma supersedeNoticeTemplate_part: "aaPart (snd (supersedeNoticeTemplate sv uuid_ok e c i reason s)) = aaPart s"
proof -
  obtain r t where rt: "supersedeNoticeTemplate sv uuid_ok e c i reason s = (r, t)" by fastforce
  then have "aaPart t = aaPart s"
    unfolding supersedeNoticeTemplate_def administratorProcedure_def
  proof (cases rule: adverse_call)
    case (committed tid u x)
    then show ?thesis
      by (auto simp: appendTemplateEvent_def aaPart_def Let_def elim!: seq_InrE split: if_split_asm option.split_asm)
  qed simp
  then show ?thesis by (simp add: rt)
qed

section \<open>Cancellation\<close>

lemma aa_cancel_refines:
  assumes "aa_cancel sv e c ref reason s = (r, t)"
  shows "refines (e_now e) s t"
proof (rule refinesI)
  assume wf: "aa_wf s"
  from assms show ?thesis unfolding aa_cancel_def adjudicatorProcedure_def
  proof (cases rule: adverse_call)
    case (committed tid u x)
    from committed(6) obtain a u1 u2 u3 where a: "lockedCase ref tid s = (Inr a, s)" "aa_status a \<notin> {Aa_completed, Canceled}"
      and st: "on_case (aa_id a) (\<lambda>b. b\<lparr>aa_status := Canceled\<rparr>) s = (Inr (), u1)" "cancel_deliveries (aa_id a) u1 = (Inr (), u2)"
        "cancel_outbox (\<lambda>p. no_case_id p = aa_id a) ''COMPLIANCE_CASE_CANCELLED'' u2 = (Inr (), u3)"
        "appendEvent sv e (aa_id a) (Some (u_id u)) Ev_canceled (JObj [(''reason'', JStr reason)]) u3 = (Inr x, t)"
      by (elim lockedE) (auto elim!: seq_InrE split: if_split_asm)
    note row = lockedCase_ok(2) [OF a(1)]
    have 1: "acts (aa_id a) (\<lambda>v. v\<lparr>v_case := (v_case v)\<lparr>aa_status := Canceled\<rparr>\<rparr>) s u1"
      by (rule on_case_acts [OF st(1)]) (simp add: keeps_case_def)
    have 2: "acts (aa_id a) (\<lambda>v. v\<lparr>v_case := (v_case v)\<lparr>aa_status := Canceled\<rparr>, v_notices := lupdate in_transit withdraw_notice (v_notices v)\<rparr>) s u2"
      by (rule acts_seq [OF 1 cancel_deliveries_acts [OF st(2)]]) simp
    have 3: "acts (aa_id a) (\<lambda>v. v\<lparr>v_case := (v_case v)\<lparr>aa_status := Canceled\<rparr>, v_notices := lupdate in_transit withdraw_notice (v_notices v), v_open := {}\<rparr>) s u3"
      by (rule acts_seq [OF 2 cancel_case_outbox_acts [OF st(3)]]) simp
    have "acts (aa_id a) (\<lambda>v. v\<lparr>v_trail := v_trail v @ [Ev_canceled]\<rparr>) u3 t"
      by (rule appendEvent_acts [OF st(4)]) (use acts_member [OF 3 wf] row in blast)
    then have "acts (aa_id a) (\<lambda>v. v\<lparr>v_case := (v_case v)\<lparr>aa_status := Canceled\<rparr>,
        v_notices := lupdate in_transit withdraw_notice (v_notices v), v_open := {}, v_trail := v_trail v @ [Ev_canceled]\<rparr>) s t"
      by (rule acts_seq [OF 3]) simp
    then show ?thesis
    proof (rule refines_acts, intro aa_spec.canceled)
      fix v assume v: "caseView (aa_id a) s = Some v" and ok: "aa_row_ok (v_case v)"
        "aa_row_ok (v_case (v\<lparr>v_case := (v_case v)\<lparr>aa_status := Canceled\<rparr>, v_notices := lupdate in_transit withdraw_notice (v_notices v), v_open := {},
           v_trail := v_trail v @ [Ev_canceled]\<rparr>))"
      have "aa_status (v_case v) \<noteq> Paused_for_dispute" by (rule not_paused_row [OF ok]) simp_all
      then show "aa_status (v_case v) \<notin> {Aa_completed, Canceled, Paused_for_dispute}" using a(2) view_of_row [OF wf row v] by simp
    qed
  qed simp
qed

section \<open>Delivery\<close>

lemma unique_delivery:
  assumes "aa_wf s" "d \<in> set (g_deliveries s)" "d' \<in> set (g_deliveries s)" "dl_id d' = dl_id d"
  shows "d' = d"
  using assms by (auto simp: aa_wf_def deliveries_wf_def dest: unique_key)

lemma mark_acts:
  assumes "set_deliveries (\<lambda>x. dl_id x = i \<and> Q x) g s = (Inr y, t)" "keeps_delivery g" "aa_wf s \<Longrightarrow> delivery_of s i k ty"
  shows "acts k (\<lambda>v. v\<lparr>v_notices := lupdate (\<lambda>x. dl_id x = i \<and> Q x) g (v_notices v)\<rparr>) s t"
proof (rule set_deliveries_acts [OF assms(1,2)])
  fix x assume x: "aa_wf s" "x \<in> set (g_deliveries s)" "dl_id x = i \<and> Q x"
  from assms(3) [OF x(1)] obtain d where "d \<in> set (g_deliveries s)" "dl_id d = i" "dl_case_id d = k" by (auto simp: delivery_of_def)
  then show "dl_case_id x = k" using unique_delivery [of s d x] x by auto
qed

lemma outbox_row_case:
  assumes "aa_wf s" "p \<in> set (g_outbox s)" "delivery_of s (no_delivery_id p) k ty"
  shows "no_case_id p = k"
proof -
  from assms(1,2) obtain d where "d \<in> set (g_deliveries s)" "dl_id d = no_delivery_id p" "dl_case_id d = no_case_id p"
    unfolding aa_wf_def outbox_wf_def delivery_of_def by blast
  moreover from assms(3) obtain d' where "d' \<in> set (g_deliveries s)" "dl_id d' = no_delivery_id p" "dl_case_id d' = k"
    unfolding delivery_of_def by blast
  ultimately show ?thesis using unique_delivery [OF assms(1), of d d'] by auto
qed

lemma cancel_delivery_outbox_acts:
  assumes "cancel_outbox (\<lambda>p. no_delivery_id p = i) code s = (Inr y, t)" "aa_wf s \<Longrightarrow> delivery_of s i k ty"
  shows "\<exists>X. acts k (\<lambda>v. v\<lparr>v_open := v_open v \<inter> X\<rparr>) s t"
  using assms(1) unfolding cancel_outbox_def
proof (rule close_acts)
  fix p assume "aa_wf s" "p \<in> set (g_outbox s)" "no_delivery_id p = i \<and> ob_open (no_state p)" "no_case_id p \<noteq> k"
  then show "ob_open (no_state (p\<lparr>no_state := Ob_cancelled, no_last_error_code := Some code\<rparr>)) = ob_open (no_state p)"
    using outbox_row_case assms(2) by blast
qed (auto simp: keeps_outbox_def ob_open_def)

lemma record_on_marks: "notice_marks (outcome_status x) (e_now e) (record_on e x msgRef)"
  by (cases x) (auto simp: notice_marks_def keeps_delivery_def record_on_def outcome_status_def)

lemma start_waiting_wait_from: "start_waiting e = wait_from (e_now e)"
  by (simp add: start_waiting_def wait_from_def fun_eq_iff)

lemma complete_case_eq: "complete_case e a = a\<lparr>aa_status := Aa_completed, aa_final_notice_sent_at := Some (e_now e)\<rparr>"
  by (simp add: complete_case_def)

lemma keeps_case_simps:
  "keeps_case (start_waiting e)" "keeps_case (complete_case e)" "keeps_case (\<lambda>a. a\<lparr>aa_status := st\<rparr>)" "keeps_case (unpause st)"
  by (simp_all add: keeps_case_def start_waiting_def complete_case_def unpause_def)

text \<open>The three ways a delivery ends, from a state in which its notice has been marked.\<close>

definition settled :: "delivery \<Rightarrow> (delivery \<Rightarrow> delivery) \<Rightarrow> string set \<Rightarrow> aaView \<Rightarrow> aaView" where
  "settled d g X v = v\<lparr>v_notices := lupdate (\<lambda>x. dl_id x = dl_id d) g (v_notices v), v_open := v_open v \<inter> X\<rparr>"

lemma pre_delivered_refines:
  assumes "acts k (settled d g X) s u" "acts k (\<lambda>v. v\<lparr>v_case := wait_from now (v_case v)\<rparr>) u u1"
    "acts k (\<lambda>v. v\<lparr>v_trail := v_trail v @ [Ev_pre_notice_delivered]\<rparr>) u1 t"
    "d \<in> set (g_deliveries s)" "dl_case_id d = k" "recordable d" "dl_notice_type d = Pre_adverse" "notice_marks Dl_delivered now g"
  shows "refines now s t"
proof -
  let ?F = "\<lambda>v. v\<lparr>v_case := wait_from now (v_case v), v_notices := lupdate (\<lambda>x. dl_id x = dl_id d) g (v_notices v), v_open := v_open v \<inter> X,
      v_trail := v_trail v @ [Ev_pre_notice_delivered]\<rparr>"
  have "acts k ?F s t" by (rule acts_seq [OF acts_seq [OF assms(1,2) refl] assms(3)]) (simp add: settled_def)
  then show ?thesis
  proof (rule refines_acts, intro aa_spec.pre_delivered)
    fix v assume v: "caseView k s = Some v" and ok: "aa_row_ok (v_case v)" "aa_row_ok (v_case (?F v))"
    show "aa_status (v_case v) \<noteq> Paused_for_dispute" by (rule not_paused_row [OF ok]) (simp_all add: wait_from_def)
    show "d \<in> set (v_notices v)" using v assms(4,5) by (simp add: notice_in_view)
  qed (use assms(6-8) in auto)
qed

lemma final_delivered_refines:
  assumes "acts k (settled d g X) s u" "acts k (\<lambda>v. v\<lparr>v_case := complete_case e (v_case v)\<rparr>) u u1"
    "acts k (\<lambda>v. v\<lparr>v_trail := v_trail v @ [Ev_final_notice_delivered]\<rparr>) u1 u2" "acts k (\<lambda>v. v\<lparr>v_trail := v_trail v @ [Ev_completed]\<rparr>) u2 t"
    "d \<in> set (g_deliveries s)" "dl_case_id d = k" "recordable d" "dl_notice_type d = Final_adverse" "notice_marks Dl_delivered (e_now e) g"
  shows "refines (e_now e) s t"
proof -
  let ?F = "\<lambda>v. v\<lparr>v_case := (v_case v)\<lparr>aa_status := Aa_completed, aa_final_notice_sent_at := Some (e_now e)\<rparr>,
      v_notices := lupdate (\<lambda>x. dl_id x = dl_id d) g (v_notices v), v_open := v_open v \<inter> X,
      v_trail := v_trail v @ [Ev_final_notice_delivered, Ev_completed]\<rparr>"
  have "acts k ?F s t"
    by (rule acts_seq [OF acts_seq [OF acts_seq [OF assms(1,2) refl] assms(3) refl] assms(4)]) (simp add: settled_def complete_case_eq)
  then show ?thesis
  proof (rule refines_acts, intro aa_spec.final_delivered)
    fix v assume v: "caseView k s = Some v" and ok: "aa_row_ok (v_case v)" "aa_row_ok (v_case (?F v))"
    show "aa_status (v_case v) \<noteq> Paused_for_dispute" by (rule not_paused_row [OF ok]) simp_all
    show "d \<in> set (v_notices v)" using v assms(5,6) by (simp add: notice_in_view)
  qed (use assms(7-9) in auto)
qed

lemma reported_refines:
  assumes "acts k (settled d g X) s u" "acts k (\<lambda>v. v\<lparr>v_case := (v_case v)\<lparr>aa_status := cs\<rparr>\<rparr>) u u1"
    "acts k (\<lambda>v. v\<lparr>v_trail := v_trail v @ [Ev_manual_delivery_required]\<rparr>) u1 t"
    "d \<in> set (g_deliveries s)" "dl_case_id d = k" "recordable d"
    "(st, cs) \<in> {(Dl_undeliverable, Undeliverable), (Dl_manual_required, Manual_delivery)}" "notice_marks st now g"
  shows "refines now s t"
proof -
  let ?F = "\<lambda>v. v\<lparr>v_case := (v_case v)\<lparr>aa_status := cs\<rparr>, v_notices := lupdate (\<lambda>x. dl_id x = dl_id d) g (v_notices v), v_open := v_open v \<inter> X,
      v_trail := v_trail v @ [Ev_manual_delivery_required]\<rparr>"
  have "acts k ?F s t" by (rule acts_seq [OF acts_seq [OF assms(1,2) refl] assms(3)]) (simp add: settled_def)
  then show ?thesis
  proof (rule refines_acts, intro aa_spec.reported)
    fix v assume v: "caseView k s = Some v" and ok: "aa_row_ok (v_case v)" "aa_row_ok (v_case (?F v))"
    show "aa_status (v_case v) \<noteq> Paused_for_dispute" by (rule not_paused_row [OF ok]) (use assms(7) in auto)
    show "d \<in> set (v_notices v)" using v assms(4,5) by (simp add: notice_in_view)
  qed (use assms(6-8) in auto)
qed

lemma filter_hd_in:
  assumes "filter P xs = d # ds"
  shows "d \<in> set xs \<and> P d"
proof -
  have "d \<in> set (filter P xs)" using assms by simp
  then show ?thesis by simp
qed

definition record_end :: "govServices \<Rightarrow> env \<Rightarrow> user \<Rightarrow> aaCase \<Rightarrow> delivery \<Rightarrow> string \<Rightarrow> outcome \<Rightarrow> (govdb, unit) act" where
  "record_end sv e u a d deliveryId x =
     (if x = Out_delivered \<and> dl_notice_type d = Pre_adverse then
        seq_act (on_case (aa_id a) (start_waiting e)) (\<lambda>_.
        appendEvent sv e (aa_id a) (Some (u_id u)) Ev_pre_notice_delivered (manual_detail deliveryId (dl_channel d)))
      else if x = Out_delivered \<and> dl_notice_type d = Final_adverse then
        seq_act (on_case (aa_id a) (complete_case e)) (\<lambda>_.
        seq_act (appendEvent sv e (aa_id a) (Some (u_id u)) Ev_final_notice_delivered (manual_detail deliveryId (dl_channel d))) (\<lambda>_.
        appendEvent sv e (aa_id a) (Some (u_id u)) Ev_completed (JObj [(''deliveryId'', JStr deliveryId)])))
      else
        seq_act (on_case (aa_id a) (\<lambda>a. a\<lparr>aa_status := (if x = Out_undeliverable then Undeliverable else Manual_delivery)\<rparr>)) (\<lambda>_.
        appendEvent sv e (aa_id a) (Some (u_id u)) Ev_manual_delivery_required
          (JObj [(''deliveryId'', JStr deliveryId), (''status'', JStr (outcome_name x))])))"

text \<open>A successful report: its case, its notice, and the three steps.\<close>

lemma recordDelivery_success:
  assumes "recordDelivery sv uuid_ok e c ref deliveryId x msgRef s = (r, t)"
  obtains (unchanged) err where "r = Inl err" "t = s"
    | (recorded) a d u u1 u2 where "a \<in> set (g_cases s)" "aa_case_ref a = ref" "d \<in> set (g_deliveries s)" "dl_id d = deliveryId" "dl_case_id d = aa_id a"
      "recordable d" "set_deliveries (\<lambda>d. dl_id d = deliveryId) (record_on e x msgRef) s = (Inr (), u1)"
      "cancel_outbox (\<lambda>p. no_delivery_id p = deliveryId) ''COMPLIANCE_DELIVERY_RECORDED_MANUALLY'' u1 = (Inr (), u2)"
      "record_end sv e u a d deliveryId x u2 = (Inr (), t)" "r = Inr x"
  using assms unfolding recordDelivery_def adjudicatorProcedure_def
proof (cases rule: adverse_call)
  case (unchanged err)
  then show ?thesis by (rule that(1))
next
  case (committed tid u y)
  from committed(6) obtain a where a: "lockedCase ref tid s = (Inr a, s)"
    and rest: "(case filter (\<lambda>d. dl_id d = deliveryId \<and> dl_case_id d = aa_id a) (g_deliveries s) of
         [] \<Rightarrow> (Inl (TRPCError PRECONDITION_FAILED ''An eligible queued or manual notice delivery was not found.''), s)
       | d # _ \<Rightarrow>
           if \<not> recordable d then (Inl (TRPCError PRECONDITION_FAILED ''An eligible queued or manual notice delivery was not found.''), s)
           else seq_act (set_deliveries (\<lambda>d. dl_id d = deliveryId) (record_on e x msgRef)) (\<lambda>_.
                seq_act (cancel_outbox (\<lambda>o'. no_delivery_id o' = deliveryId) ''COMPLIANCE_DELIVERY_RECORDED_MANUALLY'') (\<lambda>_.
                seq_act (record_end sv e u a d deliveryId x) (\<lambda>_. ret x))) s) = (Inr y, t)"
    unfolding record_end_def by (rule lockedE)
  from rest obtain d ds where d: "filter (\<lambda>d. dl_id d = deliveryId \<and> dl_case_id d = aa_id a) (g_deliveries s) = d # ds" "recordable d"
    and rest': "seq_act (set_deliveries (\<lambda>d. dl_id d = deliveryId) (record_on e x msgRef)) (\<lambda>_.
                seq_act (cancel_outbox (\<lambda>o'. no_delivery_id o' = deliveryId) ''COMPLIANCE_DELIVERY_RECORDED_MANUALLY'') (\<lambda>_.
                seq_act (record_end sv e u a d deliveryId x) (\<lambda>_. ret x))) s = (Inr y, t)"
    by (auto split: list.split_asm if_split_asm)
  from rest' obtain u1 where u1: "set_deliveries (\<lambda>d. dl_id d = deliveryId) (record_on e x msgRef) s = (Inr (), u1)"
    and r1: "seq_act (cancel_outbox (\<lambda>o'. no_delivery_id o' = deliveryId) ''COMPLIANCE_DELIVERY_RECORDED_MANUALLY'') (\<lambda>_.
                seq_act (record_end sv e u a d deliveryId x) (\<lambda>_. ret x)) u1 = (Inr y, t)"
    by (rule seq_unitE)
  from r1 obtain u2 where u2: "cancel_outbox (\<lambda>p. no_delivery_id p = deliveryId) ''COMPLIANCE_DELIVERY_RECORDED_MANUALLY'' u1 = (Inr (), u2)"
    and r2: "seq_act (record_end sv e u a d deliveryId x) (\<lambda>_. ret x) u2 = (Inr y, t)"
    by (rule seq_unitE)
  from r2 obtain u3 where u3: "record_end sv e u a d deliveryId x u2 = (Inr (), u3)" and y: "ret x u3 = (Inr y, t)"
    by (rule seq_unitE)
  from u3 y have e: "record_end sv e u a d deliveryId x u2 = (Inr (), t)" "r = Inr x" using committed(5) by simp_all
  show ?thesis
    by (rule that(2) [OF _ _ _ _ _ d(2) u1 u2 e]) (use filter_hd_in [OF d(1)] lockedCase_ok [OF a] in simp_all)
qed

lemma recordDelivery_refines:
  assumes "recordDelivery sv uuid_ok e c ref deliveryId x msgRef s = (r, t)"
  shows "refines (e_now e) s t"
proof (rule refinesI)
  assume wf: "aa_wf s"
  from assms show ?thesis
  proof (cases rule: recordDelivery_success)
    case (recorded a d u u1 u2)
    let ?g = "record_on e x msgRef"
    have ty: "dl_notice_type d \<in> {Pre_adverse, Final_adverse}" using wf recorded(3) by (auto simp: aa_wf_def deliveries_wf_def)
    have dof: "delivery_of s deliveryId (aa_id a) (dl_notice_type d)" using recorded by (auto simp: delivery_of_def)
    have marks: "notice_marks (outcome_status x) (e_now e) ?g" by (rule record_on_marks)
    have 1: "acts (aa_id a) (\<lambda>v. v\<lparr>v_notices := lupdate (\<lambda>y. dl_id y = dl_id d) ?g (v_notices v)\<rparr>) s u1"
      using mark_acts [of deliveryId "\<lambda>_. True" ?g s "()" u1 "aa_id a"] recorded(4,7) dof marks by (simp add: notice_marks_def)
    obtain X where "acts (aa_id a) (\<lambda>v. v\<lparr>v_open := v_open v \<inter> X\<rparr>) u1 u2"
      using cancel_delivery_outbox_acts [OF recorded(8)] actsD(2) [OF 1 wf dof] by blast
    then have 2: "acts (aa_id a) (settled d ?g X) s u2" by (rule acts_seq [OF 1]) (simp add: settled_def)
    have ids: "aa_id a \<in> aa_id ` set (g_cases s')" if "acts (aa_id a) F s s'" for F s'
      by (rule acts_member [OF that wf]) (use recorded(1) in blast)
    consider "x = Out_delivered" "dl_notice_type d = Pre_adverse" | "x = Out_delivered" "dl_notice_type d = Final_adverse" | "x \<noteq> Out_delivered"
      using ty by blast
    then show ?thesis
    proof cases
      case 1
      with recorded(9) obtain u3 where st: "on_case (aa_id a) (start_waiting e) u2 = (Inr (), u3)"
        "appendEvent sv e (aa_id a) (Some (u_id u)) Ev_pre_notice_delivered (manual_detail deliveryId (dl_channel d)) u3 = (Inr (), t)"
        by (auto simp: record_end_def elim!: seq_InrE)
      note c = on_case_acts [OF st(1) keeps_case_simps(1)]
      show ?thesis
        by (rule pre_delivered_refines [OF 2 c [unfolded start_waiting_wait_from] appendEvent_acts [OF st(2)]])
          (use recorded marks 1 ids [OF acts_seq [OF 2 c refl]] in \<open>simp_all add: outcome_status_def\<close>)
    next
      case 2
      with recorded(9) obtain u3 u4 where st: "on_case (aa_id a) (complete_case e) u2 = (Inr (), u3)"
        "appendEvent sv e (aa_id a) (Some (u_id u)) Ev_final_notice_delivered (manual_detail deliveryId (dl_channel d)) u3 = (Inr (), u4)"
        "appendEvent sv e (aa_id a) (Some (u_id u)) Ev_completed (JObj [(''deliveryId'', JStr deliveryId)]) u4 = (Inr (), t)"
        by (auto simp: record_end_def elim!: seq_InrE)
      note c = on_case_acts [OF st(1) keeps_case_simps(2)]
      note a1 = acts_seq [OF \<open>acts (aa_id a) (settled d ?g X) s u2\<close> c refl]
      note ev = appendEvent_acts [OF st(2) ids [OF a1]]
      show ?thesis
        by (rule final_delivered_refines [OF \<open>acts (aa_id a) (settled d ?g X) s u2\<close> c ev appendEvent_acts [OF st(3) ids [OF acts_seq [OF a1 ev refl]]]])
          (use recorded marks 2 in \<open>simp_all add: outcome_status_def\<close>)
    next
      case 3
      with recorded(9) obtain u3 where
        st: "on_case (aa_id a) (\<lambda>a. a\<lparr>aa_status := (if x = Out_undeliverable then Undeliverable else Manual_delivery)\<rparr>) u2 = (Inr (), u3)"
        "appendEvent sv e (aa_id a) (Some (u_id u)) Ev_manual_delivery_required
          (JObj [(''deliveryId'', JStr deliveryId), (''status'', JStr (outcome_name x))]) u3 = (Inr (), t)"
        by (auto simp: record_end_def elim!: seq_InrE split: if_split_asm)
      note c = on_case_acts [OF st(1) keeps_case_simps(3)]
      show ?thesis
        by (rule reported_refines [OF 2 c appendEvent_acts [OF st(2) ids [OF acts_seq [OF 2 c refl]]] _ _ _ _ marks])
          (use recorded 3 in \<open>cases x; simp add: outcome_status_def\<close>)+
    qed
  qed simp
qed

section \<open>Pauses\<close>

definition pauseF :: "int \<Rightarrow> aaView \<Rightarrow> aaView" where
  "pauseF now v = v\<lparr>v_case := (v_case v)\<lparr>aa_status := Paused_for_dispute, aa_paused_from_status := Some (aa_status (v_case v)), aa_paused_at := Some now\<rparr>,
     v_notices := lupdate in_transit withdraw_notice (v_notices v), v_open := {}, v_trail := v_trail v @ [Ev_paused_for_dispute]\<rparr>"

lemma pause_case_acts:
  assumes "pause_case sv e ref actor a s = (Inr x, t)" "aa_wf s" "a \<in> set (g_cases s)"
  shows "acts (aa_id a) (pauseF (e_now e)) s t"
proof -
  let ?f = "\<lambda>b. b\<lparr>aa_status := Paused_for_dispute, aa_paused_from_status := Some (aa_status a), aa_paused_at := Some (e_now e)\<rparr>"
  from assms(1) obtain u1 where u1: "on_case (aa_id a) ?f s = (Inr (), u1)" and r1: "seq_act (cancel_deliveries (aa_id a)) (\<lambda>_.
     seq_act (cancel_outbox (\<lambda>o'. no_case_id o' = aa_id a) ''COMPLIANCE_NOTICE_PAUSED_FOR_DISPUTE'') (\<lambda>_.
     appendEvent sv e (aa_id a) actor Ev_paused_for_dispute
       (JObj [(''disputeCaseRef'', JStr ref), (''automatic'', JBool True), (''remainingWaitSeconds'', jopt JNum (remaining_wait e a))]))) u1 = (Inr x, t)"
    unfolding pause_case_def by (rule seq_unitE)
  from r1 obtain u2 where u2: "cancel_deliveries (aa_id a) u1 = (Inr (), u2)" and r2:
     "seq_act (cancel_outbox (\<lambda>o'. no_case_id o' = aa_id a) ''COMPLIANCE_NOTICE_PAUSED_FOR_DISPUTE'') (\<lambda>_.
     appendEvent sv e (aa_id a) actor Ev_paused_for_dispute
       (JObj [(''disputeCaseRef'', JStr ref), (''automatic'', JBool True), (''remainingWaitSeconds'', jopt JNum (remaining_wait e a))])) u2 = (Inr x, t)"
    by (rule seq_unitE)
  from r2 obtain u3 where u3: "cancel_outbox (\<lambda>o'. no_case_id o' = aa_id a) ''COMPLIANCE_NOTICE_PAUSED_FOR_DISPUTE'' u2 = (Inr (), u3)"
    and ev: "appendEvent sv e (aa_id a) actor Ev_paused_for_dispute
       (JObj [(''disputeCaseRef'', JStr ref), (''automatic'', JBool True), (''remainingWaitSeconds'', jopt JNum (remaining_wait e a))]) u3 = (Inr x, t)"
    by (rule seq_unitE)
  have 1: "acts (aa_id a) (\<lambda>v. v\<lparr>v_case := ?f (v_case v)\<rparr>) s u1" by (rule on_case_acts [OF u1]) (simp add: keeps_case_def)
  note 3 = acts_seq [OF acts_seq [OF 1 cancel_deliveries_acts [OF u2] refl] cancel_case_outbox_acts [OF u3] refl]
  have 4: "acts (aa_id a) (\<lambda>v. v\<lparr>v_trail := v_trail v @ [Ev_paused_for_dispute]\<rparr>) u3 t"
    by (rule appendEvent_acts [OF ev]) (use acts_member [OF 3 assms(2)] assms(3) in blast)
  have "caseView (aa_id a) s = Some v \<Longrightarrow> v_case v = a" for v by (rule view_of_row [OF assms(2,3)])
  then show ?thesis using acts_seq [OF 3 4 refl] by (cases "caseView (aa_id a) s") (auto simp: acts_def pauseF_def)
qed

lemma pause_keeps_rows:
  assumes "acts (aa_id a) F s u" "aa_wf s" "b \<in> set (g_cases s)" "aa_id b \<noteq> aa_id a"
  shows "b \<in> set (g_cases u)"
proof -
  obtain v where "caseView (aa_id b) s = Some v" "v_case v = b" using caseView_row [OF assms(2,3)] by blast
  then have "caseView (aa_id b) u = Some v" using actsD(5) [OF assms(1,2,4)] by simp
  from caseView_SomeD(1) [OF this] show ?thesis using \<open>v_case v = b\<close> by simp
qed

lemma pause_cases_views:
  assumes "pause_cases sv e ref actor as s = (Inr x, t)" "aa_wf s" "set as \<subseteq> set (g_cases s)" "distinct (map aa_id as)"
  shows "aa_wf t \<and> (\<forall>i c ty. delivery_of s i c ty \<longrightarrow> delivery_of t i c ty) \<and> (\<forall>i c d. outbox_of s i c d \<longrightarrow> outbox_of t i c d) \<and>
    case_keys t = case_keys s \<and>
    (\<forall>k. caseView k t = (if k \<in> aa_id ` set as then map_option (pauseF (e_now e)) (caseView k s) else caseView k s))"
  using assms
proof (induction as arbitrary: s)
  case (Cons a as)
  from Cons.prems(1) obtain y u where p: "pause_case sv e ref actor a s = (Inr y, u)" and r: "pause_cases sv e ref actor as u = (Inr x, t)"
    by (auto split: prod.split_asm sum.split_asm)
  have act: "acts (aa_id a) (pauseF (e_now e)) s u" by (rule pause_case_acts [OF p]) (use Cons.prems in auto)
  note u = actsD [OF act Cons.prems(2)]
  have "set as \<subseteq> set (g_cases u)"
  proof
    fix b assume "b \<in> set as"
    then show "b \<in> set (g_cases u)" using Cons.prems(3,4) by (intro pause_keeps_rows [OF act Cons.prems(2)]) (auto simp: image_iff)
  qed
  from Cons.IH [OF r u(1) this] show ?case using u(2-6) Cons.prems(4) by (auto simp: image_iff)
qed simp

lemma pausable_cases_simps:
  "set (pausable_cases tid cand s) \<subseteq> set (g_cases s)" "aa_wf s \<Longrightarrow> distinct (map aa_id (pausable_cases tid cand s))"
  "a \<in> set (pausable_cases tid cand s) \<longleftrightarrow> a \<in> set (g_cases s) \<and> aa_tenant_id a = tid \<and> aa_candidate_id a = cand \<and> aa_pausable (aa_status a)"
  by (auto simp: pausable_cases_def aa_wf_def cases_wf_def distinct_map_filter)

lemma pauseAdverseActions_views:
  assumes "pauseAdverseActionsForOpenDispute sv e tid cand ref actor s = (Inr n, t)" "aa_wf s"
  shows "aa_wf t" "\<And>i c ty. delivery_of s i c ty \<Longrightarrow> delivery_of t i c ty" "\<And>i c d. outbox_of s i c d \<Longrightarrow> outbox_of t i c d"
    "case_keys t = case_keys s" "n = length (pausable_cases tid cand s)"
    "caseView k t = (if k \<in> aa_id ` set (pausable_cases tid cand s) then map_option (pauseF (e_now e)) (caseView k s) else caseView k s)"
proof -
  have r: "pause_cases sv e ref actor (pausable_cases tid cand s) s = (Inr (), t)" and n: "n = length (pausable_cases tid cand s)"
    using assms(1) by (auto simp: pauseAdverseActionsForOpenDispute_def Let_def elim: seq_unitE simp del: seq_act_simps)
  note v = pause_cases_views [OF r assms(2) pausable_cases_simps(1) pausable_cases_simps(2) [OF assms(2)]]
  show "aa_wf t" "case_keys t = case_keys s" "n = length (pausable_cases tid cand s)"
    "caseView k t = (if k \<in> aa_id ` set (pausable_cases tid cand s) then map_option (pauseF (e_now e)) (caseView k s) else caseView k s)"
    using v n by simp_all
  show "\<And>i c ty. delivery_of s i c ty \<Longrightarrow> delivery_of t i c ty" "\<And>i c d. outbox_of s i c d \<Longrightarrow> outbox_of t i c d" using v by blast+
qed

lemma pause_spec:
  assumes "aa_wf s" "a \<in> set (pausable_cases tid cand s)" "caseView (aa_id a) s = Some v"
  shows "aa_spec now b (Some v) (Some (pauseF now v))"
  unfolding pauseF_def by (rule aa_spec.paused) (use assms pausable_cases_simps(3) view_of_row [OF assms(1) _ assms(3)] in auto)

lemma pauseAdverseActions_refines:
  assumes "pauseAdverseActionsForOpenDispute sv e tid cand ref actor s = (Inr n, t)"
  shows "refines (e_now e) s t"
proof (rule refinesI)
  assume wf: "aa_wf s"
  note p = pauseAdverseActions_views [OF assms wf]
  have "caseView k s = caseView k t \<or> aa_spec (e_now e) (contested s (caseView k t)) (caseView k s) (caseView k t)" for k
  proof (cases "k \<in> aa_id ` set (pausable_cases tid cand s)")
    case True
    then obtain a where a: "a \<in> set (pausable_cases tid cand s)" "k = aa_id a" by blast
    obtain v where "caseView k s = Some v" using caseView_row [OF wf] a pausable_cases_simps(3) by blast
    then show ?thesis using pause_spec [OF wf a(1)] p(6) [of k] True a(2) by simp
  qed (simp add: p(6))
  then show ?thesis using p by (simp add: refines_def)
qed

lemma pauseForDispute_success:
  assumes "pauseForDispute sv e c ref disputeRef s = (r, t)"
  obtains (unchanged) err where "r = Inl err" "t = s"
    | (paused) a tid and u :: user where "c_user c = Some u" "a \<in> set (g_cases s)" "aa_case_ref a = ref" "aa_tenant_id a = tid" "r = Inr ()"
      "aa_status a \<in> {Waiting, Pre_notice_delivered}" "open_disputes s (aa_candidate_id a) tid \<noteq> []"
      "pauseAdverseActionsForOpenDispute sv e tid (aa_candidate_id a) disputeRef (Some (u_id u)) s = (Inr 1, t)"
  using assms unfolding pauseForDispute_def adjudicatorProcedure_def
proof (cases rule: adverse_call)
  case (unchanged err)
  then show ?thesis by (rule that(1))
next
  case (committed tid u y)
  from committed(6) obtain a where a: "lockedCase ref tid s = (Inr a, s)"
    and rest: "(if aa_status a \<noteq> Waiting \<and> aa_status a \<noteq> Pre_notice_delivered
       then (Inl (TRPCError PRECONDITION_FAILED ''Only a delivered pre-adverse case in its waiting period can be paused.''), s)
       else if \<not> (\<exists>d \<in> set (open_disputes s (aa_candidate_id a) tid). dc_case_ref d = disputeRef)
       then (Inl (TRPCError PRECONDITION_FAILED ''An open dispute bound to this candidate is required to pause adverse action.''), s)
       else seq_act (pauseAdverseActionsForOpenDispute sv e tid (aa_candidate_id a) disputeRef (Some (u_id u))) (\<lambda>n.
            require (n = 1) (TRPCError PRECONDITION_FAILED ''Adverse-action case was not eligible for a dispute hold.'') (ret ())) s) = (Inr y, t)"
    by (rule lockedE)
  from rest have g: "aa_status a \<in> {Waiting, Pre_notice_delivered}" "open_disputes s (aa_candidate_id a) tid \<noteq> []"
    and r1: "seq_act (pauseAdverseActionsForOpenDispute sv e tid (aa_candidate_id a) disputeRef (Some (u_id u))) (\<lambda>n.
            require (n = 1) (TRPCError PRECONDITION_FAILED ''Adverse-action case was not eligible for a dispute hold.'') (ret ())) s = (Inr y, t)"
    by (auto split: if_split_asm simp del: seq_act_simps)
  from r1 obtain n s1 where n: "pauseAdverseActionsForOpenDispute sv e tid (aa_candidate_id a) disputeRef (Some (u_id u)) s = (Inr n, s1)"
    and q: "require (n = 1) (TRPCError PRECONDITION_FAILED ''Adverse-action case was not eligible for a dispute hold.'') (ret ()) s1 = (Inr y, t)"
    by (rule seq_InrE)
  from n q have p: "pauseAdverseActionsForOpenDispute sv e tid (aa_candidate_id a) disputeRef (Some (u_id u)) s = (Inr 1, t)"
    by (auto split: if_split_asm)
  show ?thesis by (rule that(2) [OF committed(2) _ _ _ _ g p]) (use lockedCase_ok [OF a] committed(5) in simp_all)
qed

lemma pauseForDispute_refines: "pauseForDispute sv e c ref disputeRef s = (r, t) \<Longrightarrow> refines (e_now e) s t"
  by (erule pauseForDispute_success) (auto intro: pauseAdverseActions_refines)

section \<open>Queuing another notice\<close>

lemma queue_acts:
  assumes "queueNotice sv e ids tid a tm ty ch s = (Inr q, u1)" "aa_wf s" "a \<in> set (g_cases s)" "ty \<in> {Pre_adverse, Final_adverse}"
    "on_case (aa_id a) f u1 = (Inr (), u2)" "keeps_case f" "appendEvent sv e (aa_id a) actor ev detail u2 = (Inr x, t)"
  shows "\<exists>d. queued_now (e_now e) (aa_id a) ty d \<and>
    acts (aa_id a) (\<lambda>v. v\<lparr>v_case := f (v_case v), v_notices := v_notices v @ [d],
      v_open := (if ch = Manual then v_open v else insert (dl_id d) (v_open v)), v_trail := v_trail v @ [ev]\<rparr>) s t"
proof -
  from queueNotice_acts [OF assms(1,3,4)] obtain d where d: "queued_now (e_now e) (aa_id a) ty d"
    and 1: "acts (aa_id a) (\<lambda>v. v\<lparr>v_notices := v_notices v @ [d], v_open := (if ch = Manual then v_open v else insert (dl_id d) (v_open v))\<rparr>) s u1" by blast
  note 2 = acts_seq [OF 1 on_case_acts [OF assms(5,6)] refl]
  have 3: "acts (aa_id a) (\<lambda>v. v\<lparr>v_trail := v_trail v @ [ev]\<rparr>) u2 t"
    by (rule appendEvent_acts [OF assms(7)]) (use acts_member [OF 2 assms(2)] assms(3) in blast)
  have "acts (aa_id a) (\<lambda>v. v\<lparr>v_case := f (v_case v), v_notices := v_notices v @ [d],
      v_open := (if ch = Manual then v_open v else insert (dl_id d) (v_open v)), v_trail := v_trail v @ [ev]\<rparr>) s t"
    by (rule acts_seq [OF 2 3]) simp
  with d show ?thesis by blast
qed

lemma notices_with_in:
  assumes "notices_with P k s = (d, tm) # xs"
  shows "d \<in> set (g_deliveries s)" "dl_case_id d = k" "P d"
proof -
  have "(d, tm) \<in> set (notices_with P k s)" by (simp add: assms)
  then show "d \<in> set (g_deliveries s)" "dl_case_id d = k" "P d" by (auto simp: notices_with_def)
qed

lemma awaits_notice_status: "aa_pausable st \<Longrightarrow> awaits_notice st = Some ty \<longleftrightarrow> ty \<in> {Pre_adverse, Final_adverse} \<and> st = queued_status ty"
  "aa_pausable st \<Longrightarrow> awaits_notice st = None \<longleftrightarrow> st \<in> {Waiting, Pre_notice_delivered}"
  by (auto simp: awaits_notice_def queued_status_def aa_pausable_def split: if_splits)

text \<open>A successful resumption, of a case that waited and of one whose notice was withdrawn.\<close>

lemma resumeAfterDispute_success:
  assumes "resumeAfterDispute sv e c ids ref resolution s = (r, t)"
  obtains (unchanged) err where "r = Inl err" "t = s"
    | (waiting) a tid and u :: user and origin where "a \<in> set (g_cases s)" "aa_case_ref a = ref" "aa_tenant_id a = tid" "aa_status a = Paused_for_dispute"
      "aa_paused_from_status a = Some origin" "origin \<in> {Waiting, Pre_notice_delivered}" "open_disputes s (aa_candidate_id a) tid = []"
      "resume_waiting sv e (u_id u) resolution a s = (Inr Waiting, t)" "r = Inr Waiting"
    | (requeued) a tid and u :: user and ty where "a \<in> set (g_cases s)" "aa_case_ref a = ref" "aa_tenant_id a = tid" "aa_status a = Paused_for_dispute"
      "aa_paused_from_status a = Some (queued_status ty)" "ty \<in> {Pre_adverse, Final_adverse}" "open_disputes s (aa_candidate_id a) tid = []"
      "resume_requeue sv e ids tid (u_id u) resolution a (queued_status ty) ty s = (r, t)"
  using assms unfolding resumeAfterDispute_def administratorProcedure_def
proof (cases rule: adverse_call)
  case (unchanged err)
  then show ?thesis by (rule that(1))
next
  case (committed tid u y)
  from committed(6) obtain a where a: "lockedCase ref tid s = (Inr a, s)"
    and rest: "(case (if aa_status a = Paused_for_dispute then aa_paused_from_status a else None) of
         None \<Rightarrow> (Inl (TRPCError PRECONDITION_FAILED ''Case is not eligible for dispute-resolution resumption.''), s)
       | Some origin \<Rightarrow>
           if \<not> aa_pausable origin
           then (Inl (TRPCError PRECONDITION_FAILED ''Case is not eligible for dispute-resolution resumption.''), s)
           else seq_act (assertNoOpenDispute (aa_candidate_id a) tid) (\<lambda>_.
             case awaits_notice origin of
               Some ty \<Rightarrow> resume_requeue sv e ids tid (u_id u) resolution a origin ty
             | None \<Rightarrow> resume_waiting sv e (u_id u) resolution a) s) = (Inr y, t)"
    by (rule lockedE)
  from rest obtain origin where p: "aa_status a = Paused_for_dispute" "aa_paused_from_status a = Some origin" "aa_pausable origin"
    and r1: "seq_act (assertNoOpenDispute (aa_candidate_id a) tid) (\<lambda>_. case awaits_notice origin of
               Some ty \<Rightarrow> resume_requeue sv e ids tid (u_id u) resolution a origin ty
             | None \<Rightarrow> resume_waiting sv e (u_id u) resolution a) s = (Inr y, t)"
    by (auto split: option.split_asm if_split_asm simp del: seq_act_simps)
  from r1 obtain s1 where "assertNoOpenDispute (aa_candidate_id a) tid s = (Inr (), s1)" and r2: "(case awaits_notice origin of
               Some ty \<Rightarrow> resume_requeue sv e ids tid (u_id u) resolution a origin ty
             | None \<Rightarrow> resume_waiting sv e (u_id u) resolution a) s1 = (Inr y, t)"
    by (rule seq_unitE)
  then have none: "open_disputes s (aa_candidate_id a) tid = []" and s1: "s1 = s" by (auto dest: assertNoOpenDispute_ok)
  note row = lockedCase_ok(2-4) [OF a]
  show ?thesis
  proof (cases "awaits_notice origin")
    case None
    with r2 s1 have w: "resume_waiting sv e (u_id u) resolution a s = (Inr y, t)" by simp
    then have y: "y = Waiting" unfolding resume_waiting_def by (elim seq_InrE) simp
    show ?thesis
      by (rule that(2) [of a tid origin u, OF row p(1,2) _ none]) (use w y None p(3) awaits_notice_status(2) committed(5) in auto)
  next
    case (Some ty)
    then have ty: "ty \<in> {Pre_adverse, Final_adverse}" "origin = queued_status ty" using p(3) awaits_notice_status(1) by blast+
    show ?thesis
      by (rule that(3) [of a tid ty u, OF row p(1) _ ty(1) none]) (use r2 s1 Some p(2) ty(2) committed(5) in simp_all)
  qed
qed

lemma resume_waiting_refines:
  assumes "resume_waiting sv e userId resolution a s = (Inr Waiting, t)" "aa_wf s" "a \<in> set (g_cases s)" "aa_status a = Paused_for_dispute"
    "aa_paused_from_status a = Some origin" "origin \<in> {Waiting, Pre_notice_delivered}" "open_disputes s (aa_candidate_id a) (aa_tenant_id a) = []"
  shows "refines (e_now e) s t"
proof -
  let ?f = "\<lambda>b. (unpause Waiting b)\<lparr>aa_final_notice_eligible_at := Some (e_now e + remaining_seconds a * 1000)\<rparr>"
  from assms(1) obtain u1 where u1: "on_case (aa_id a) ?f s = (Inr (), u1)"
    and r1: "seq_act (appendEvent sv e (aa_id a) (Some userId) Ev_resumed (JObj [(''resolutionReference'', JStr resolution),
       (''remainingWaitSeconds'', JNum (remaining_seconds a))])) (\<lambda>_. ret Waiting) u1 = (Inr Waiting, t)"
    unfolding resume_waiting_def by (rule seq_unitE)
  from r1 obtain u2 where "appendEvent sv e (aa_id a) (Some userId) Ev_resumed (JObj [(''resolutionReference'', JStr resolution),
       (''remainingWaitSeconds'', JNum (remaining_seconds a))]) u1 = (Inr (), u2)" "ret Waiting u2 = (Inr Waiting, t)"
    by (rule seq_unitE)
  then have u2: "appendEvent sv e (aa_id a) (Some userId) Ev_resumed (JObj [(''resolutionReference'', JStr resolution),
       (''remainingWaitSeconds'', JNum (remaining_seconds a))]) u1 = (Inr (), t)" by simp
  have 1: "acts (aa_id a) (\<lambda>v. v\<lparr>v_case := ?f (v_case v)\<rparr>) s u1"
    by (rule on_case_acts [OF u1]) (simp add: keeps_case_def unpause_def)
  have 2: "acts (aa_id a) (\<lambda>v. v\<lparr>v_trail := v_trail v @ [Ev_resumed]\<rparr>) u1 t"
    by (rule appendEvent_acts [OF u2]) (use acts_member [OF 1 assms(2)] assms(3) in blast)
  show ?thesis
  proof (rule refines_acts [OF acts_seq [OF 1 2 refl]])
    fix v assume "caseView (aa_id a) s = Some v"
    then have v: "v_case v = a" by (rule view_of_row [OF assms(2,3)])
    have "\<not> contested s (Some (v\<lparr>v_case := ?f (v_case v), v_trail := v_trail v @ [Ev_resumed]\<rparr>))"
      by (rule contested_row [OF _ _ assms(7)]) (simp_all add: v unpause_def)
    from aa_spec.resumed_waiting [OF this, of v "e_now e"]
    show "aa_spec (e_now e) (contested s (Some (v\<lparr>v_case := ?f (v_case v)\<rparr>\<lparr>v_trail := v_trail (v\<lparr>v_case := ?f (v_case v)\<rparr>) @ [Ev_resumed]\<rparr>)))
        (Some v) (Some (v\<lparr>v_case := ?f (v_case v)\<rparr>\<lparr>v_trail := v_trail (v\<lparr>v_case := ?f (v_case v)\<rparr>) @ [Ev_resumed]\<rparr>))"
      using assms(4-6) by (simp add: v)
  qed
qed

lemma resume_requeue_refines:
  assumes "resume_requeue sv e ids tid userId resolution a (queued_status ty) ty s = (Inr y, t)" "aa_wf s" "a \<in> set (g_cases s)"
    "aa_status a = Paused_for_dispute" "aa_paused_from_status a = Some (queued_status ty)" "ty \<in> {Pre_adverse, Final_adverse}"
    "open_disputes s (aa_candidate_id a) (aa_tenant_id a) = []"
  shows "refines (e_now e) s t"
proof -
  from assms(1) obtain d0 tm xs where old: "notices_with (\<lambda>d. dl_status d = Dl_canceled \<and> dl_notice_type d = ty) (aa_id a) s = (d0, tm) # xs"
    and r0: "seq_act (queueNotice sv e ids tid a tm (dl_notice_type d0) (dl_channel d0)) (\<lambda>q.
          seq_act (on_case (aa_id a) (unpause (queued_status ty))) (\<lambda>_.
          seq_act (appendEvent sv e (aa_id a) (Some userId) Ev_resumed (JObj [(''resolutionReference'', JStr resolution),
            (''deliveryId'', JStr (fst q)), (''outboxId'', jopt JStr (snd q)), (''requeued'', JBool True)])) (\<lambda>_.
          ret (queued_status ty)))) s = (Inr y, t)"
    unfolding resume_requeue_def by (auto split: list.split_asm simp del: seq_act_simps)
  note d0 = notices_with_in [OF old]
  from r0 obtain q u1 where u1: "queueNotice sv e ids tid a tm (dl_notice_type d0) (dl_channel d0) s = (Inr q, u1)"
    and r1: "seq_act (on_case (aa_id a) (unpause (queued_status ty))) (\<lambda>_.
          seq_act (appendEvent sv e (aa_id a) (Some userId) Ev_resumed (JObj [(''resolutionReference'', JStr resolution),
            (''deliveryId'', JStr (fst q)), (''outboxId'', jopt JStr (snd q)), (''requeued'', JBool True)])) (\<lambda>_.
          ret (queued_status ty))) u1 = (Inr y, t)"
    by (rule seq_InrE)
  from r1 obtain u2 where u2: "on_case (aa_id a) (unpause (queued_status ty)) u1 = (Inr (), u2)" and
    r2: "seq_act (appendEvent sv e (aa_id a) (Some userId) Ev_resumed (JObj [(''resolutionReference'', JStr resolution),
            (''deliveryId'', JStr (fst q)), (''outboxId'', jopt JStr (snd q)), (''requeued'', JBool True)])) (\<lambda>_. ret (queued_status ty)) u2 = (Inr y, t)"
    by (rule seq_unitE)
  from r2 obtain u3 where u3: "appendEvent sv e (aa_id a) (Some userId) Ev_resumed (JObj [(''resolutionReference'', JStr resolution),
            (''deliveryId'', JStr (fst q)), (''outboxId'', jopt JStr (snd q)), (''requeued'', JBool True)]) u2 = (Inr (), u3)"
    and "ret (queued_status ty) u3 = (Inr y, t)"
    by (rule seq_unitE)
  then have t: "u3 = t" by simp
  have ty: "dl_notice_type d0 = ty" using d0(3) by simp
  obtain d where d: "queued_now (e_now e) (aa_id a) ty d" and act: "acts (aa_id a) (\<lambda>v. v\<lparr>v_case := unpause (queued_status ty) (v_case v), v_notices := v_notices v @ [d],
      v_open := (if dl_channel d0 = Manual then v_open v else insert (dl_id d) (v_open v)), v_trail := v_trail v @ [Ev_resumed]\<rparr>) s t"
    using queue_acts [OF u1 assms(2,3) _ u2 keeps_case_simps(4) u3] assms(6) ty t by auto
  show ?thesis
  proof (rule refines_acts [OF act], rule aa_spec.resumed_notice)
    fix v assume cv: "caseView (aa_id a) s = Some v"
    then have v: "v_case v = a" by (rule view_of_row [OF assms(2,3)])
    show "\<not> contested s (Some (v\<lparr>v_case := unpause (queued_status ty) (v_case v), v_notices := v_notices v @ [d],
        v_open := (if dl_channel d0 = Manual then v_open v else insert (dl_id d) (v_open v)), v_trail := v_trail v @ [Ev_resumed]\<rparr>))"
      by (rule contested_row [OF _ _ assms(7)]) (simp_all add: v unpause_def)
    show "aa_status (v_case v) = Paused_for_dispute" "aa_paused_from_status (v_case v) = Some (queued_status ty)" "ty \<in> {Pre_adverse, Final_adverse}"
      "queued_now (e_now e) (aa_id (v_case v)) ty d" using assms v d by simp_all
    show "d0 \<in> set (v_notices v)" using d0 notice_in_view [OF cv] by simp
  qed (auto simp: ty)
qed

lemma resumeAfterDispute_refines:
  assumes "resumeAfterDispute sv e c ids ref resolution s = (r, t)"
  shows "refines (e_now e) s t"
proof (rule refinesI)
  assume wf: "aa_wf s"
  from assms show ?thesis
  proof (cases rule: resumeAfterDispute_success)
    case (waiting a tid u origin)
    show ?thesis by (rule resume_waiting_refines [OF waiting(8) wf waiting(1,4-6)]) (use waiting(3,7) in simp)
  next
    case (requeued a tid u ty)
    then show ?thesis
    proof (cases r)
      case (Inr y)
      show ?thesis by (rule resume_requeue_refines [OF requeued(8) [unfolded Inr] wf requeued(1,4-6)]) (use requeued(3,7) in simp)
    next
      case (Inl err)
      have "t = s" using assms unfolding resumeAfterDispute_def administratorProcedure_def by (cases rule: adverse_call) (simp_all add: Inl)
      then show ?thesis by simp
    qed
  qed simp
qed

section \<open>The final notice\<close>

lemma templateFor_ok: "templateFor tid ty j version s = (Inr tm, t) \<Longrightarrow> t = s"
  by (auto simp: templateFor_def split: list.split_asm)

lemma queueFinalAdverse_success:
  assumes "queueFinalAdverse sv e c ids ref version ch s = (r, t)"
  obtains (unchanged) err where "r = Inl err" "t = s"
    | (queued) a tid and u :: user and x tm q u1 u2 where "a \<in> set (g_cases s)" "aa_case_ref a = ref" "aa_tenant_id a = tid" "aa_status a = Waiting"
      "aa_final_notice_eligible_at a = Some x" "x \<le> e_now e" "open_disputes s (aa_candidate_id a) tid = []"
      "queueNotice sv e ids tid a tm Final_adverse ch s = (Inr q, u1)"
      "on_case (aa_id a) (\<lambda>b. b\<lparr>aa_status := Final_notice_queued\<rparr>) u1 = (Inr (), u2)"
      "appendEvent sv e (aa_id a) (Some (u_id u)) Ev_final_notice_queued (queued_detail version q ch) u2 = (Inr (), t)" "r = Inr (fst q)"
  using assms unfolding queueFinalAdverse_def adjudicatorProcedure_def
proof (cases rule: adverse_call)
  case (unchanged err)
  then show ?thesis by (rule that(1))
next
  case (committed tid u y)
  let ?rest = "\<lambda>a tm. seq_act (queueNotice sv e ids tid a tm Final_adverse ch) (\<lambda>q.
      seq_act (on_case (aa_id a) (\<lambda>b. b\<lparr>aa_status := Final_notice_queued\<rparr>)) (\<lambda>_.
      seq_act (appendEvent sv e (aa_id a) (Some (u_id u)) Ev_final_notice_queued (queued_detail version q ch)) (\<lambda>_. ret (fst q))))"
  from committed(6) obtain a where a: "lockedCase ref tid s = (Inr a, s)"
    and r0: "require (aa_status a = Waiting \<and> (case aa_final_notice_eligible_at a of None \<Rightarrow> False | Some t \<Rightarrow> t \<le> e_now e))
         (TRPCError PRECONDITION_FAILED ''Pre-adverse waiting period has not completed.'')
       (seq_act (assertNoOpenDispute (aa_candidate_id a) tid) (\<lambda>_.
        seq_act (templateFor tid Final_adverse (aa_jurisdiction_code a) version) (?rest a))) s = (Inr y, t)"
    by (rule lockedE)
  from r0 obtain x where w: "aa_status a = Waiting" "aa_final_notice_eligible_at a = Some x" "x \<le> e_now e"
    and r1: "seq_act (assertNoOpenDispute (aa_candidate_id a) tid) (\<lambda>_.
        seq_act (templateFor tid Final_adverse (aa_jurisdiction_code a) version) (?rest a)) s = (Inr y, t)"
    by (auto split: if_split_asm option.split_asm simp del: seq_act_simps)
  from r1 obtain s1 where n: "assertNoOpenDispute (aa_candidate_id a) tid s = (Inr (), s1)"
    and r2: "seq_act (templateFor tid Final_adverse (aa_jurisdiction_code a) version) (?rest a) s1 = (Inr y, t)" by (rule seq_unitE)
  from r2 obtain tm s2 where tm: "templateFor tid Final_adverse (aa_jurisdiction_code a) version s1 = (Inr tm, s2)" and r3: "?rest a tm s2 = (Inr y, t)"
    by (rule seq_InrE)
  have s2: "s2 = s" "open_disputes s (aa_candidate_id a) tid = []" using assertNoOpenDispute_ok [OF n] templateFor_ok [OF tm] by simp_all
  from r3 obtain q u1 where u1: "queueNotice sv e ids tid a tm Final_adverse ch s2 = (Inr q, u1)"
    and r4: "seq_act (on_case (aa_id a) (\<lambda>b. b\<lparr>aa_status := Final_notice_queued\<rparr>)) (\<lambda>_.
      seq_act (appendEvent sv e (aa_id a) (Some (u_id u)) Ev_final_notice_queued (queued_detail version q ch)) (\<lambda>_. ret (fst q))) u1 = (Inr y, t)" by (rule seq_InrE)
  from r4 obtain u2 where u2: "on_case (aa_id a) (\<lambda>b. b\<lparr>aa_status := Final_notice_queued\<rparr>) u1 = (Inr (), u2)"
    and r5: "seq_act (appendEvent sv e (aa_id a) (Some (u_id u)) Ev_final_notice_queued (queued_detail version q ch)) (\<lambda>_. ret (fst q)) u2 = (Inr y, t)"
    by (rule seq_unitE)
  from r5 obtain u3 where u3: "appendEvent sv e (aa_id a) (Some (u_id u)) Ev_final_notice_queued (queued_detail version q ch) u2 = (Inr (), u3)"
    and "ret (fst q) u3 = (Inr y, t)" by (rule seq_unitE)
  then have "u3 = t" "y = fst q" by simp_all
  then show ?thesis
    using that(2) [of a tid x tm q u1 u2 u] lockedCase_ok(2-4) [OF a] w s2 u1 u2 u3 committed(5) by simp
qed

lemma queueFinalAdverse_refines:
  assumes "queueFinalAdverse sv e c ids ref version ch s = (r, t)"
  shows "refines (e_now e) s t"
proof (rule refinesI)
  assume wf: "aa_wf s"
  from assms show ?thesis
  proof (cases rule: queueFinalAdverse_success)
    case (queued a tid u x tm q u1 u2)
    obtain d where d: "queued_now (e_now e) (aa_id a) Final_adverse d" and act: "acts (aa_id a) (\<lambda>v. v\<lparr>v_case := (v_case v)\<lparr>aa_status := Final_notice_queued\<rparr>,
        v_notices := v_notices v @ [d], v_open := (if ch = Manual then v_open v else insert (dl_id d) (v_open v)), v_trail := v_trail v @ [Ev_final_notice_queued]\<rparr>) s t"
      using queue_acts [OF queued(8) wf queued(1) _ queued(9) keeps_case_simps(3) queued(10)] by auto
    show ?thesis
    proof (rule refines_acts [OF act], rule aa_spec.final_queued)
      fix v assume "caseView (aa_id a) s = Some v"
      then have v: "v_case v = a" by (rule view_of_row [OF wf queued(1)])
      show "\<not> contested s (Some (v\<lparr>v_case := (v_case v)\<lparr>aa_status := Final_notice_queued\<rparr>, v_notices := v_notices v @ [d],
          v_open := (if ch = Manual then v_open v else insert (dl_id d) (v_open v)), v_trail := v_trail v @ [Ev_final_notice_queued]\<rparr>))"
        by (rule contested_row [OF _ _ queued(7)]) (simp_all add: v queued(3))
      show "aa_status (v_case v) = Waiting" "aa_final_notice_eligible_at (v_case v) = Some x" "x \<le> e_now e"
        "queued_now (e_now e) (aa_id (v_case v)) Final_adverse d" using queued d v by simp_all
    qed auto
  qed simp
qed

section \<open>Recovery of an undeliverable notice\<close>

lemma resolveManualDelivery_success:
  assumes "resolveManualDelivery sv uuid_ok e c ids ref deliveryId ch resolution s = (r, t)"
  obtains (unchanged) err where "r = Inl err" "t = s"
    | (recovered) a tid and u :: user and d tm q u1 u2 detail where "a \<in> set (g_cases s)" "aa_case_ref a = ref" "aa_tenant_id a = tid"
      "aa_status a \<in> {Manual_delivery, Undeliverable}" "d \<in> set (g_deliveries s)" "dl_case_id d = aa_id a" "dl_id d = deliveryId"
      "dl_status d \<in> {Dl_undeliverable, Dl_manual_required}" "dl_notice_type d \<in> {Pre_adverse, Final_adverse}"
      "queueNotice sv e ids tid a tm (dl_notice_type d) ch s = (Inr q, u1)"
      "on_case (aa_id a) (\<lambda>b. b\<lparr>aa_status := queued_status (dl_notice_type d)\<rparr>) u1 = (Inr (), u2)"
      "appendEvent sv e (aa_id a) (Some (u_id u)) Ev_manual_delivery_resolved detail u2 = (Inr (), t)" "r = Inr (fst q)"
  using assms unfolding resolveManualDelivery_def administratorProcedure_def
proof (cases rule: adverse_call)
  case (unchanged err)
  then show ?thesis by (rule that(1))
next
  case (committed tid u y)
  let ?detail = "\<lambda>q. JObj [(''priorDeliveryId'', JStr deliveryId), (''deliveryId'', JStr (fst q)), (''outboxId'', jopt JStr (snd q)),
      (''resolutionReference'', JStr resolution), (''channel'', JStr (channel_name ch))]"
  let ?rest = "\<lambda>a d tm. seq_act (queueNotice sv e ids tid a tm (dl_notice_type d) ch) (\<lambda>q.
      seq_act (on_case (aa_id a) (\<lambda>b. b\<lparr>aa_status := (if dl_notice_type d = Pre_adverse then Pre_notice_queued else Final_notice_queued)\<rparr>)) (\<lambda>_.
      seq_act (appendEvent sv e (aa_id a) (Some (u_id u)) Ev_manual_delivery_resolved (?detail q)) (\<lambda>_. ret (fst q))))"
  let ?P = "\<lambda>d. dl_id d = deliveryId \<and> (dl_status d = Dl_undeliverable \<or> dl_status d = Dl_manual_required)"
  from committed(6) obtain a where a: "lockedCase ref tid s = (Inr a, s)"
    and r0: "(if aa_status a \<noteq> Manual_delivery \<and> aa_status a \<noteq> Undeliverable
       then (Inl (TRPCError PRECONDITION_FAILED ''Case does not require manual delivery recovery.''), s)
       else (case notices_with ?P (aa_id a) s of
         [] \<Rightarrow> (Inl (TRPCError PRECONDITION_FAILED ''Undeliverable or manual notice delivery not found.''), s)
       | (d, tm) # _ \<Rightarrow>
           if dl_notice_type d \<noteq> Pre_adverse \<and> dl_notice_type d \<noteq> Final_adverse
           then (Inl (TRPCError BAD_REQUEST ''Only adverse-action notice deliveries can be recovered.''), s)
           else ?rest a d tm s)) = (Inr y, t)"
    by (rule lockedE) (simp split: list.split_asm)
  then obtain d tm xs where g: "aa_status a \<in> {Manual_delivery, Undeliverable}" "notices_with ?P (aa_id a) s = (d, tm) # xs"
    "dl_notice_type d \<in> {Pre_adverse, Final_adverse}" and r3: "?rest a d tm s = (Inr y, t)"
    by (auto split: if_split_asm list.split_asm simp del: seq_act_simps)
  from r3 obtain q u1 where u1: "queueNotice sv e ids tid a tm (dl_notice_type d) ch s = (Inr q, u1)"
    and r4: "seq_act (on_case (aa_id a) (\<lambda>b. b\<lparr>aa_status := (if dl_notice_type d = Pre_adverse then Pre_notice_queued else Final_notice_queued)\<rparr>)) (\<lambda>_.
      seq_act (appendEvent sv e (aa_id a) (Some (u_id u)) Ev_manual_delivery_resolved (?detail q)) (\<lambda>_. ret (fst q))) u1 = (Inr y, t)" by (rule seq_InrE)
  from r4 obtain u2 where u2: "on_case (aa_id a) (\<lambda>b. b\<lparr>aa_status := queued_status (dl_notice_type d)\<rparr>) u1 = (Inr (), u2)"
    and r5: "seq_act (appendEvent sv e (aa_id a) (Some (u_id u)) Ev_manual_delivery_resolved (?detail q)) (\<lambda>_. ret (fst q)) u2 = (Inr y, t)"
    unfolding queued_status_def by (rule seq_unitE)
  from r5 obtain u3 where u3: "appendEvent sv e (aa_id a) (Some (u_id u)) Ev_manual_delivery_resolved (?detail q) u2 = (Inr (), u3)"
    and "ret (fst q) u3 = (Inr y, t)" by (rule seq_unitE)
  then have "u3 = t" "y = fst q" by simp_all
  then show ?thesis
    using that(2) [of a tid d tm q u1 u2 u "?detail q"] lockedCase_ok(2-4) [OF a] notices_with_in [OF g(2)] g(1,3) u1 u2 u3 committed(5) by simp
qed

lemma resolveManualDelivery_refines:
  assumes "resolveManualDelivery sv uuid_ok e c ids ref deliveryId ch resolution s = (r, t)"
  shows "refines (e_now e) s t"
proof (rule refinesI)
  assume wf: "aa_wf s"
  from assms show ?thesis
  proof (cases rule: resolveManualDelivery_success)
    case (recovered a tid u d0 tm q u1 u2 detail)
    let ?ty = "dl_notice_type d0"
    obtain d where d: "queued_now (e_now e) (aa_id a) ?ty d" and act: "acts (aa_id a) (\<lambda>v. v\<lparr>v_case := (v_case v)\<lparr>aa_status := queued_status ?ty\<rparr>,
        v_notices := v_notices v @ [d], v_open := (if ch = Manual then v_open v else insert (dl_id d) (v_open v)), v_trail := v_trail v @ [Ev_manual_delivery_resolved]\<rparr>) s t"
      using queue_acts [OF recovered(10) wf recovered(1) recovered(9) recovered(11) keeps_case_simps(3) recovered(12)] by auto
    show ?thesis
    proof (rule refines_acts [OF act], rule aa_spec.recovered)
      fix v assume cv: "caseView (aa_id a) s = Some v"
      then have v: "v_case v = a" by (rule view_of_row [OF wf recovered(1)])
      show "aa_status (v_case v) \<in> {Manual_delivery, Undeliverable}" "queued_now (e_now e) (aa_id (v_case v)) ?ty d" using recovered d v by simp_all
      show "d0 \<in> set (v_notices v)" using recovered notice_in_view [OF cv] by simp
    qed (use recovered in auto)
  qed simp
qed

section \<open>Initiation\<close>

lemma insert_case_facts:
  assumes "insert_case a s = (Inr x, t)" "aa_wf s"
  shows "aa_wf t" "delivery_of t = delivery_of s" "outbox_of t = outbox_of s" "case_keys s \<subseteq> case_keys t" "a \<in> set (g_cases t)"
    "caseView (aa_id a) s = None" "caseView (aa_id a) t = Some \<lparr>v_case = a, v_notices = [], v_open = {}, v_trail = []\<rparr>"
    "k \<noteq> aa_id a \<Longrightarrow> caseView k t = caseView k s"
proof -
  have t: "t = s\<lparr>g_cases := g_cases s @ [a]\<rparr>" and fresh: "aa_id a \<notin> aa_id ` set (g_cases s)" and ok: "aa_row_ok a"
    using assms(1) by (auto simp: insert_case_def split: if_splits)
  show "delivery_of t = delivery_of s" "outbox_of t = outbox_of s" by (simp_all add: t delivery_of_def outbox_of_def fun_eq_iff)
  then show "aa_wf t" using assms(2) fresh ok by (auto simp: aa_wf_def cases_wf_def deliveries_wf_def outbox_wf_def t)
  show "case_keys s \<subseteq> case_keys t" "a \<in> set (g_cases t)" by (auto simp: t case_keys_def)
  show none: "caseView (aa_id a) s = None" using fresh by (simp add: caseView_None)
  have app: "List.find P (xs @ [a]) = (case List.find P xs of None \<Rightarrow> if P a then Some a else None | Some y \<Rightarrow> Some y)" for P xs
    by (induction xs) auto
  have "List.find (\<lambda>b. aa_id b = aa_id a) (g_cases s) = None" using none by (simp add: caseView_def)
  moreover have "filter (\<lambda>d. dl_case_id d = aa_id a) (g_deliveries s) = []" "filter (\<lambda>x. ae_case_id x = aa_id a) (g_events s) = []"
    "{p \<in> set (g_outbox s). no_case_id p = aa_id a \<and> ob_open (no_state p)} = {}"
    using assms(2) fresh by (auto simp: aa_wf_def deliveries_wf_def outbox_wf_def filter_empty_conv) metis+
  ultimately show "caseView (aa_id a) t = Some \<lparr>v_case = a, v_notices = [], v_open = {}, v_trail = []\<rparr>"
    by (simp add: caseView_def t app)
  show "caseView k t = caseView k s" if "k \<noteq> aa_id a" using that by (simp add: caseView_def t app split: option.splits)
qed

lemma insert_items_part: "insert_items sv key tid a xs s = (Inr x, t) \<Longrightarrow> aaPart t = aaPart s"
proof (induction sv key tid a xs s rule: insert_items.induct)
  case (2 sv key tid a r rationale xs s)
  from "2.prems" obtain s1 c where enc: "encryptPiiEnvelope sv key (piiAad tid (aa_candidate_id a) (''adverse-rationale:'' @ aa_case_ref a @ '':'' @ show_int r))
      (JObj [(''rationale'', JStr rationale)]) s = (Inr c, s1)" and item: "\<exists>q \<in> set (g_results s). sr_id q = r \<and> sr_orderId q = aa_screening_order_id a"
    and rest: "(if \<exists>x \<in> set (g_items s1). ai_case_id x = aa_id a \<and> ai_screening_result_id x = r then (Inl UniqueViolation, s1)
             else insert_items sv key tid a xs (s1\<lparr>g_items := g_items s1 @ [\<lparr>ai_case_id = aa_id a, ai_screening_result_id = r,
                    ai_ciphertext = c, ai_key_registry_id = tk_id key\<rparr>]\<rparr>)) = (Inr x, t)"
    by (auto elim!: seq_InrE split: if_split_asm simp del: seq_act_simps)
  have s1: "s1 = s" using enc by (auto simp: encryptPiiEnvelope_def split: sum.split_asm prod.split_asm if_split_asm)
  from rest have free: "\<not> (\<exists>x \<in> set (g_items s1). ai_case_id x = aa_id a \<and> ai_screening_result_id x = r)"
    and ins: "insert_items sv key tid a xs (s1\<lparr>g_items := g_items s1 @ [\<lparr>ai_case_id = aa_id a, ai_screening_result_id = r,
                    ai_ciphertext = c, ai_key_registry_id = tk_id key\<rparr>]\<rparr>) = (Inr x, t)" by (auto split: if_split_asm)
  have "aaPart t = aaPart (s1\<lparr>g_items := g_items s1 @ [\<lparr>ai_case_id = aa_id a, ai_screening_result_id = r,
                    ai_ciphertext = c, ai_key_registry_id = tk_id key\<rparr>]\<rparr>)"
    using "2.IH" [of s1 c] item free ins by auto
  then show ?case by (simp add: aaPart_def s1)
qed simp

lemma initiatePreAdverse_commits:
  assumes "initiatePreAdverse sv e c caseId refUuid ids i s = (r, t)"
  obtains (unchanged) err where "r = Inl err" "t = s"
    | (initiated) tid and u :: user and cand y where "c_tenantId c = Some tid" "initiate_input_ok i" "cand \<in> set (initiation_source tid i s)" "r = Inr y"
      "initiate_writes sv e caseId refUuid ids i tid u cand s = (Inr y, t)"
  using assms unfolding initiatePreAdverse_def adjudicatorProcedure_def
proof (cases rule: complianceProcedure_cases)
  case (runs tid u)
  let ?body = "\<lambda>s. case initiation_source tid i s of
      [] \<Rightarrow> (Inl (TRPCError PRECONDITION_FAILED ''A completed tenant order, matching immutable snapshot, and active signed candidate consent are required.''), s)
    | cand # _ \<Rightarrow> initiate_writes sv e caseId refUuid ids i tid u cand s"
  from runs(4) have "(\<exists>err. r = Inl err \<and> t = s) \<or> (initiate_input_ok i \<and> tenantTransaction e tid ?body s = (r, t))"
    by (auto simp: assertFcraEnabled_def split: if_split_asm)
  then show ?thesis
  proof (elim disjE exE conjE)
    assume ok: "initiate_input_ok i" and "tenantTransaction e tid ?body s = (r, t)"
    from this(2) show ?thesis
    proof (cases rule: tenantTransaction_cases)
      case (committed y)
      then obtain cand xs where "initiation_source tid i s = cand # xs" "initiate_writes sv e caseId refUuid ids i tid u cand s = (Inr y, t)"
        by (auto split: list.split_asm)
      then show ?thesis using that(2) [of tid cand y u] runs(1) ok committed(1) by simp
    qed (rule that(1))
  qed (rule that(1))
qed (rule that(1))

lemma initiate_writes_success:
  assumes "initiate_writes sv e caseId refUuid ids i tid u cand s = (Inr y, t)"
  obtains a tm key q s1 s2 s3 s4 detail detail' where "a = new_case e caseId (ref_of ''BIS-AA-'' refUuid) tid cand (u_id u) i"
    "open_disputes s cand tid = []" "insert_case a s = (Inr (), s1)" "insert_items sv key tid a (ii_items i) s1 = (Inr (), s2)"
    "queueNotice sv e ids tid a tm Pre_adverse (ii_channel i) s2 = (Inr q, s3)"
    "appendEvent sv e caseId (Some (u_id u)) Ev_created detail s3 = (Inr (), s4)"
    "appendEvent sv e caseId (Some (u_id u)) Ev_pre_notice_queued detail' s4 = (Inr (), t)" "y = (ref_of ''BIS-AA-'' refUuid, fst q)"
proof -
  let ?ref = "ref_of ''BIS-AA-'' refUuid"
  let ?a = "new_case e caseId ?ref tid cand (u_id u) i"
  let ?d1 = "JObj [(''caseRef'', JStr ?ref), (''framework'', JStr (framework_name (ii_framework i))), (''itemCount'', JNum (int (length (ii_items i)))),
        (''jurisdiction'', JStr (ii_jurisdiction i))]"
  let ?k8 = "\<lambda>q. seq_act (appendEvent sv e caseId (Some (u_id u)) Ev_pre_notice_queued (queued_detail (ii_templateVersion i) q (ii_channel i))) (\<lambda>_. ret (?ref, fst q))"
  let ?k7 = "\<lambda>q. seq_act (appendEvent sv e caseId (Some (u_id u)) Ev_created ?d1) (\<lambda>_. ?k8 q)"
  let ?k6 = "\<lambda>tm. seq_act (queueNotice sv e ids tid ?a tm Pre_adverse (ii_channel i)) ?k7"
  let ?k4 = "\<lambda>tm. seq_act (activeTenantEncryptionRegistry e tid) (\<lambda>key. seq_act (insert_items sv key tid ?a (ii_items i)) (\<lambda>_. ?k6 tm))"
  from assms obtain u1 where n: "assertNoOpenDispute cand tid s = (Inr (), u1)"
    and r1: "seq_act (templateFor tid Pre_adverse (ii_jurisdiction i) (ii_templateVersion i)) (\<lambda>tm. seq_act (insert_case ?a) (\<lambda>_. ?k4 tm)) u1 = (Inr y, t)"
    unfolding initiate_writes_def Let_def by (rule seq_unitE)
  from r1 obtain tm u2 where tm: "templateFor tid Pre_adverse (ii_jurisdiction i) (ii_templateVersion i) u1 = (Inr tm, u2)"
    and r2: "seq_act (insert_case ?a) (\<lambda>_. ?k4 tm) u2 = (Inr y, t)" by (rule seq_InrE)
  have u2: "u2 = s" "open_disputes s cand tid = []" using assertNoOpenDispute_ok [OF n] templateFor_ok [OF tm] by simp_all
  from r2 obtain s1 where c: "insert_case ?a u2 = (Inr (), s1)" and r3: "?k4 tm s1 = (Inr y, t)" by (rule seq_unitE)
  from r3 obtain key u3 where k: "activeTenantEncryptionRegistry e tid s1 = (Inr key, u3)"
    and r4: "seq_act (insert_items sv key tid ?a (ii_items i)) (\<lambda>_. ?k6 tm) u3 = (Inr y, t)" by (rule seq_InrE)
  have u3: "u3 = s1" using k by (auto simp: activeTenantEncryptionRegistry_def split: list.split_asm)
  from r4 obtain s2 where it: "insert_items sv key tid ?a (ii_items i) u3 = (Inr (), s2)" and r5: "?k6 tm s2 = (Inr y, t)" by (rule seq_unitE)
  from r5 obtain q s3 where q: "queueNotice sv e ids tid ?a tm Pre_adverse (ii_channel i) s2 = (Inr q, s3)" and r6: "?k7 q s3 = (Inr y, t)" by (rule seq_InrE)
  from r6 obtain s4 where e1: "appendEvent sv e caseId (Some (u_id u)) Ev_created ?d1 s3 = (Inr (), s4)" and r7: "?k8 q s4 = (Inr y, t)" by (rule seq_unitE)
  from r7 obtain s5 where e2: "appendEvent sv e caseId (Some (u_id u)) Ev_pre_notice_queued (queued_detail (ii_templateVersion i) q (ii_channel i)) s4 = (Inr (), s5)"
    and "ret (?ref, fst q) s5 = (Inr y, t)" by (rule seq_unitE)
  then have "s5 = t" "y = (?ref, fst q)" by simp_all
  then show ?thesis using that [OF refl u2(2) c [unfolded u2(1)] it [unfolded u3] q e1] e2 by simp
qed

lemma initiatePreAdverse_refines:
  assumes "initiatePreAdverse sv e c caseId refUuid ids i s = (r, t)"
  shows "refines (e_now e) s t"
proof (rule refinesI)
  assume wf: "aa_wf s"
  from assms show ?thesis
  proof (cases rule: initiatePreAdverse_commits)
    case (initiated tid u cand y)
    from initiated(5) obtain a tm key q s1 s2 s3 s4 detail detail' where a: "a = new_case e caseId (ref_of ''BIS-AA-'' refUuid) tid cand (u_id u) i"
      and none: "open_disputes s cand tid = []" and c: "insert_case a s = (Inr (), s1)" and it: "insert_items sv key tid a (ii_items i) s1 = (Inr (), s2)"
      and q: "queueNotice sv e ids tid a tm Pre_adverse (ii_channel i) s2 = (Inr q, s3)"
      and ev: "appendEvent sv e caseId (Some (u_id u)) Ev_created detail s3 = (Inr (), s4)"
        "appendEvent sv e caseId (Some (u_id u)) Ev_pre_notice_queued detail' s4 = (Inr (), t)"
      by (rule initiate_writes_success)
    have k: "aa_id a = caseId" by (simp add: a new_case_def)
    note new = insert_case_facts [OF c wf]
    note part = insert_items_part [OF it]
    have row: "a \<in> set (g_cases s2)" using new(5) part by (simp add: aaPart_def)
    obtain d where d: "queued_now (e_now e) caseId Pre_adverse d" and
      1: "acts caseId (\<lambda>v. v\<lparr>v_notices := v_notices v @ [d], v_open := (if ii_channel i = Manual then v_open v else insert (dl_id d) (v_open v))\<rparr>) s2 s3"
      using queueNotice_acts [OF q row] k by auto
    note 2 = acts_seq [OF acts_frame [OF part] 1 refl]
    have in3: "caseId \<in> aa_id ` set (g_cases s3)" using acts_member [OF 2 new(1)] new(5) k by blast
    have 3: "acts caseId (\<lambda>v. v\<lparr>v_trail := v_trail v @ [Ev_created]\<rparr>) s3 s4" by (rule appendEvent_acts [OF ev(1) in3])
    note 4 = acts_seq [OF 2 3 refl]
    have in4: "caseId \<in> aa_id ` set (g_cases s4)" using acts_member [OF 4 new(1)] new(5) k by blast
    note all = actsD [OF acts_seq [OF 4 appendEvent_acts [OF ev(2) in4] refl] new(1)]
    let ?w = "\<lparr>v_case = a, v_notices = [d], v_open = (if ii_channel i = Manual then {} else {dl_id d}), v_trail = [Ev_created, Ev_pre_notice_queued]\<rparr>"
    have w: "caseView caseId t = Some ?w" using all(6) new(7) by (simp add: k)
    have "aa_spec (e_now e) (contested s (Some ?w)) None (Some ?w)"
      by (rule aa_spec.initiated) (use d none in \<open>simp_all add: contested_def a new_case_def\<close>)
    moreover have "caseView k' t = caseView k' s" if "k' \<noteq> caseId" for k' using all(5) new(8) that k by simp
    ultimately have "caseView k' s = caseView k' t \<or> aa_spec (e_now e) (contested s (caseView k' t)) (caseView k' s) (caseView k' t)" for k'
      using w new(6) k by (cases "k' = caseId") simp_all
    then show ?thesis using all(1-4) new(2-4) by (simp add: refines_def)
  qed simp
qed

end
