(* ===== verification/Adverse_Worker.thy ===== *)
theory Adverse_Worker
  imports Adverse_Handlers
begin

text \<open>
  The notice worker against the abstract machine. What a run remembers of a leased notice may be old;
  \<open>leased_ok\<close> is the part of it that cannot change, and with it every transaction of the worker,
  whenever it comes, is a move of the machine.
\<close>

section \<open>What stays true of a leased notice\<close>

definition leased_ok :: "leasedNotice \<Rightarrow> govdb \<Rightarrow> bool" where
  "leased_ok n s \<longleftrightarrow> outbox_of s (no_id (ln_row n)) (ln_case_id n) (ln_delivery_id n) \<and>
     delivery_of s (ln_delivery_id n) (ln_case_id n) (ln_notice_type n)"

lemma leased_ok_refines: "refines now s t \<Longrightarrow> aa_wf s \<Longrightarrow> leased_ok n s \<Longrightarrow> leased_ok n t"
  unfolding leased_ok_def using refinesD(2,3) by blast

lemma leased_ok_acts: "acts k F s t \<Longrightarrow> aa_wf s \<Longrightarrow> leased_ok n s \<Longrightarrow> leased_ok n t"
  unfolding leased_ok_def using actsD(2,3) by blast

lemma leased_ok_case: "aa_wf s \<Longrightarrow> leased_ok n s \<Longrightarrow> ln_case_id n \<in> aa_id ` set (g_cases s)"
  by (auto simp: leased_ok_def delivery_of_def aa_wf_def deliveries_wf_def) metis

lemma outbox_row_key:
  assumes "aa_wf s" "p \<in> set (g_outbox s)" "outbox_of s (no_id p) k d"
  shows "no_case_id p = k"
proof -
  from assms(3) obtain q where q: "q \<in> set (g_outbox s)" "no_id q = no_id p" "no_case_id q = k" by (auto simp: outbox_of_def)
  have "distinct (map no_id (g_outbox s))" using assms(1) by (simp add: aa_wf_def outbox_wf_def)
  then have "q = p" using q assms(2) by (auto dest: unique_key)
  then show ?thesis using q(3) by simp
qed

lemma acts_cong: "acts k F s t \<Longrightarrow> (\<And>v. aa_wf s \<Longrightarrow> caseView k s = Some v \<Longrightarrow> F v = G v) \<Longrightarrow> acts k G s t"
  by (cases "caseView k s") (auto simp: acts_def)

lemma acts_wf: "(aa_wf s \<Longrightarrow> acts k F s t) \<Longrightarrow> acts k F s t"
  by (auto simp: acts_def)

lemma acts_id_refines: "acts k id s t \<Longrightarrow> refines now s t"
  by (rule refinesI) (use actsD [of k id s t] in \<open>auto simp: refines_def option.map_id\<close>, metis option.map_id id_apply)

section \<open>Leasing\<close>

text \<open>Between pending and leased a notice stays open.\<close>

lemma relabel_acts:
  assumes "keeps_outbox h" "\<And>p. P p \<Longrightarrow> ob_open (no_state (h p)) = ob_open (no_state p)"
  shows "acts k id s (s\<lparr>g_outbox := lupdate P h (g_outbox s)\<rparr>)"
proof -
  have "acts k (\<lambda>v. v\<lparr>v_open := no_delivery_id ` {p \<in> set (g_outbox s). no_case_id p = k \<and> ob_open (no_state (if P p then h p else p))}\<rparr>)
      s (s\<lparr>g_outbox := lupdate P h (g_outbox s)\<rparr>)"
    by (rule set_outbox_acts [of P h s "()"]) (use assms in \<open>simp_all add: set_outbox_def\<close>)
  then show ?thesis
  proof (rule acts_cong)
    fix v assume "caseView k s = Some v"
    moreover have "{p \<in> set (g_outbox s). no_case_id p = k \<and> ob_open (no_state (if P p then h p else p))} =
        {p \<in> set (g_outbox s). no_case_id p = k \<and> ob_open (no_state p)}" using assms(2) by auto
    ultimately show "v\<lparr>v_open := no_delivery_id ` {p \<in> set (g_outbox s). no_case_id p = k \<and> ob_open (no_state (if P p then h p else p))}\<rparr> = id v"
      by (simp add: caseView_SomeD(4))
  qed
qed

lemma joined_ok:
  assumes "aa_wf s" "p \<in> set (g_outbox s)" "n \<in> set (joined s p)"
  shows "leased_ok n s"
proof -
  from assms(3) obtain a d where n: "ln_row n = p" "ln_notice_type n = dl_notice_type d"
    and d: "d \<in> set (g_deliveries s)" "dl_id d = no_delivery_id p" by (auto simp: joined_def)
  from assms(1,2) obtain d' where "d' \<in> set (g_deliveries s)" "dl_id d' = no_delivery_id p" "dl_case_id d' = no_case_id p"
    unfolding aa_wf_def outbox_wf_def delivery_of_def by blast
  then have "dl_case_id d = no_case_id p" using unique_delivery [OF assms(1) d(1), of d'] d(2) by simp
  then show ?thesis using n d assms(2) by (auto simp: leased_ok_def outbox_of_def delivery_of_def)
qed

lemma lease_batch_ok: "aa_wf s \<Longrightarrow> n \<in> set (lease_batch e s) \<Longrightarrow> leased_ok n s"
  unfolding lease_batch_def by (drule in_set_takeD) (auto intro: joined_ok)

definition swept :: "env \<Rightarrow> govdb \<Rightarrow> govdb" where
  "swept e s = s\<lparr>g_outbox := lupdate (notice_lease_expired e) (expire_lease e) (g_outbox s)\<rparr>"

definition with_lease :: "env \<Rightarrow> leasedNotice list \<Rightarrow> govdb \<Rightarrow> govdb" where
  "with_lease e batch s = s\<lparr>g_outbox := lupdate (\<lambda>p. no_id p \<in> set (map (no_id \<circ> ln_row) batch) \<and> no_state p = Ob_pending)
     (\<lambda>p. p\<lparr>no_state := Ob_leased, no_leased_at := Some (e_now e)\<rparr>) (g_outbox s)\<rparr>"

lemma leaseNotices_eq:
  "leaseNotices e s = (if e_dbUp e then (Inr (lease_batch e (swept e s)), with_lease e (lease_batch e (swept e s)) (swept e s))
     else (Inl (PlainError ''compliance notice delivery worker requires PostgreSQL''), s))"
  by (simp only: leaseNotices_def require_def Let_def swept_def with_lease_def)

lemma swept_acts: "acts k id s (swept e s)"
  unfolding swept_def by (rule relabel_acts) (auto simp: keeps_outbox_def expire_lease_def notice_lease_expired_def ob_open_def)

lemma with_lease_acts: "acts k id s (with_lease e batch s)"
  unfolding with_lease_def by (rule relabel_acts) (auto simp: keeps_outbox_def ob_open_def)

lemma leaseNotices_refines:
  assumes "leaseNotices e s = (r, t)"
  shows "refines now s t"
proof -
  have "acts [] id s (with_lease e b (swept e s))" for b using acts_trans [OF swept_acts with_lease_acts] by simp
  then show ?thesis using assms by (auto simp: leaseNotices_eq split: if_splits intro: acts_id_refines)
qed

lemma leaseNotices_leases:
  assumes "leaseNotices e s = (Inr batch, t)" "aa_wf s" "n \<in> set batch"
  shows "leased_ok n t"
proof -
  have wf: "aa_wf (swept e s)" using actsD(1) [OF swept_acts assms(2)] .
  have "batch = lease_batch e (swept e s)" "t = with_lease e batch (swept e s)" using assms(1) by (auto simp: leaseNotices_eq split: if_splits)
  then show ?thesis using leased_ok_acts [OF with_lease_acts wf] lease_batch_ok [OF wf] assms(3) by blast
qed

section \<open>Treating\<close>

lemma workerTransaction_cases:
  assumes "workerTransaction e body s = (r, t)"
  obtains (failed) err where "r = Inl err" "t = s" | (committed) x where "r = Inr x" "body s = (Inr x, t)"
proof -
  have "(\<exists>err. r = Inl err \<and> t = s) \<or> (\<exists>x. r = Inr x \<and> body s = (Inr x, t))"
    using assms unfolding workerTransaction_def in_transaction_def by (auto split: prod.splits sum.splits if_splits)
  then show ?thesis using that by blast
qed

lemma leased_close:
  assumes "set_outbox (leased_by n) h s = (Inr x, t)" "keeps_outbox h" "leased_ok n s"
  shows "\<exists>X. acts (ln_case_id n) (\<lambda>v. v\<lparr>v_open := v_open v \<inter> X\<rparr>) s t"
  using assms(1,2)
proof (rule close_acts)
  fix p assume "aa_wf s" "p \<in> set (g_outbox s)" "leased_by n p" "no_case_id p \<noteq> ln_case_id n"
  then show "ob_open (no_state (h p)) = ob_open (no_state p)"
    using outbox_row_key [of s p "ln_case_id n" "ln_delivery_id n"] assms(3) by (simp add: leased_by_def leased_ok_def)
qed (auto simp: leased_by_def ob_open_def)

lemma cancelLeased_refines:
  assumes "cancelLeased e n code s = (r, t)" "leased_ok n s"
  shows "refines (e_now e) s t"
proof (rule refinesI)
  assume wf: "aa_wf s"
  from assms(1) show ?thesis unfolding cancelLeased_def
  proof (cases rule: workerTransaction_cases)
    case (committed x)
    from committed(2) obtain u where
      1: "set_outbox (leased_by n) (\<lambda>p. p\<lparr>no_state := Ob_cancelled, no_last_error_code := Some code\<rparr>) s = (Inr (), u)"
      and 2: "set_deliveries (\<lambda>d. dl_id d = ln_delivery_id n \<and> dl_status d = Dl_queued) (\<lambda>d. d\<lparr>dl_status := Dl_canceled\<rparr>) u = (Inr x, t)"
      by (rule seq_unitE)
    obtain X where X: "acts (ln_case_id n) (\<lambda>v. v\<lparr>v_open := v_open v \<inter> X\<rparr>) s u"
      using leased_close [OF 1 _ assms(2)] by (auto simp: keeps_outbox_def)
    have "acts (ln_case_id n) (\<lambda>v. v\<lparr>v_notices := lupdate (\<lambda>d. dl_id d = ln_delivery_id n \<and> dl_status d = Dl_queued) withdraw_notice (v_notices v)\<rparr>) u t"
      using mark_acts [OF 2] leased_ok_acts [OF X wf assms(2)] unfolding withdraw_notice_def [abs_def] leased_ok_def by (auto simp: keeps_delivery_def)
    then have "acts (ln_case_id n) (\<lambda>v. v\<lparr>v_notices := lupdate (\<lambda>d. dl_id d = ln_delivery_id n \<and> dl_status d = Dl_queued) withdraw_notice (v_notices v),
        v_open := v_open v \<inter> X\<rparr>) s t"
      by (rule acts_seq [OF X]) simp
    then show ?thesis by (rule refines_acts) (rule aa_spec.dropped, auto)
  qed simp
qed

lemma restore_row_keeps: "keeps_outbox (restore_row e terminal attempt code)"
  by (simp add: keeps_outbox_def restore_row_def)

lemma manual_case_acts:
  assumes "update_cases (\<lambda>a. aa_id a = k \<and> aa_status a \<noteq> Aa_completed \<and> aa_status a \<noteq> Canceled) (\<lambda>a. a\<lparr>aa_status := Manual_delivery\<rparr>) s = (Inr x, t)"
  shows "acts k (\<lambda>v. v\<lparr>v_case := (if aa_status (v_case v) = Aa_completed \<or> aa_status (v_case v) = Canceled then v_case v
    else (v_case v)\<lparr>aa_status := Manual_delivery\<rparr>)\<rparr>) s t"
proof (rule acts_cong [OF update_cases_acts [OF assms]])
  show "keeps_case (\<lambda>a. a\<lparr>aa_status := Manual_delivery\<rparr>)" by (rule keeps_case_simps)
qed (auto dest: caseView_SomeD(2))

lemma restore_retried:
  assumes "set_outbox (leased_by n) (restore_row e terminal attempt code) s = (Inr x, t)" "leased_ok n s"
  shows "refines now s t"
proof -
  obtain X where "acts (ln_case_id n) (\<lambda>v. v\<lparr>v_open := v_open v \<inter> X\<rparr>) s t"
    using leased_close [OF assms(1) restore_row_keeps assms(2)] by blast
  then have "acts (ln_case_id n) (\<lambda>v. v\<lparr>v_notices := v_notices v, v_open := v_open v \<inter> X\<rparr>) s t" by simp
  then show ?thesis by (rule refines_acts) (rule aa_spec.dropped, auto)
qed

definition died :: "string \<Rightarrow> string set \<Rightarrow> aaView \<Rightarrow> aaView" where
  "died i X v = v\<lparr>v_case := (if aa_status (v_case v) = Aa_completed \<or> aa_status (v_case v) = Canceled then v_case v
      else (v_case v)\<lparr>aa_status := Manual_delivery\<rparr>),
    v_notices := lupdate (\<lambda>x. dl_id x = i \<and> in_transit x) (\<lambda>x. x\<lparr>dl_status := Dl_manual_required\<rparr>) (v_notices v),
    v_open := v_open v \<inter> X, v_trail := v_trail v @ [Ev_manual_delivery_required]\<rparr>"

lemma died_refines:
  assumes "acts k (died i X) s t" "delivery_of s i k ty"
  shows "refines now s t"
  using assms(1)
proof (rule refines_acts)
  fix v assume v: "caseView k s = Some v" and ok: "aa_row_ok (v_case v)" "aa_row_ok (v_case (died i X v))"
  obtain d where d: "d \<in> set (v_notices v)" "dl_id d = i" using assms(2) notice_in_view [OF v] by (auto simp: delivery_of_def)
  have "aa_status (v_case v) \<noteq> Paused_for_dispute"
  proof (cases "aa_status (v_case v) = Aa_completed \<or> aa_status (v_case v) = Canceled")
    case False
    then show ?thesis by (intro not_paused_row [OF ok]) (simp_all add: died_def)
  qed auto
  from aa_spec.dead_lettered [OF this d(1), of "v_open v \<inter> X" now] d(2)
  show "aa_spec now (contested s (Some (died i X v))) (Some v) (Some (died i X v))" by (simp add: died_def)
qed

lemma deadLetter_refines:
  assumes wf: "aa_wf s" and ok: "leased_ok n s" and closed: "acts (ln_case_id n) (\<lambda>v. v\<lparr>v_open := v_open v \<inter> X\<rparr>) s u1"
    and run: "deadLetter sv e n code u1 = (Inr x, t)"
  shows "refines now s t"
proof -
  let ?k = "ln_case_id n" and ?i = "ln_delivery_id n"
  from run obtain u2 u3 where
    2: "set_deliveries (\<lambda>d. dl_id d = ?i \<and> (dl_status d = Dl_queued \<or> dl_status d = Dl_sent)) (\<lambda>d. d\<lparr>dl_status := Dl_manual_required\<rparr>) u1 = (Inr (), u2)"
    and 3: "update_cases (\<lambda>a. aa_id a = ?k \<and> aa_status a \<noteq> Aa_completed \<and> aa_status a \<noteq> Canceled) (\<lambda>a. a\<lparr>aa_status := Manual_delivery\<rparr>) u2 = (Inr (), u3)"
    and 4: "appendSystemEvent sv e ?k Ev_manual_delivery_required (JObj [(''outboxId'', JStr (no_id (ln_row n))),
        (''deliveryId'', JStr ?i), (''failureCode'', JStr code), (''terminal'', JBool True)]) u3 = (Inr (), t)"
    unfolding deadLetter_def by (elim seq_unitE) auto
  have d1: "delivery_of u1 ?i ?k (ln_notice_type n)" "delivery_of s ?i ?k (ln_notice_type n)"
    using ok leased_ok_acts [OF closed wf ok] by (simp_all add: leased_ok_def)
  have a2: "acts ?k (\<lambda>v. v\<lparr>v_notices := lupdate (\<lambda>x. dl_id x = ?i \<and> in_transit x) (\<lambda>x. x\<lparr>dl_status := Dl_manual_required\<rparr>) (v_notices v)\<rparr>) u1 u2"
    using mark_acts [OF 2 _ d1(1)] unfolding in_transit_def by (simp add: keeps_delivery_def)
  note a123 = acts_seq [OF acts_seq [OF closed a2 refl] manual_case_acts [OF 3] refl]
  have "acts ?k (\<lambda>v. v\<lparr>v_trail := v_trail v @ [Ev_manual_delivery_required]\<rparr>) u3 t"
    by (rule appendSystemEvent_acts [OF 4]) (rule acts_member [OF a123 wf leased_ok_case [OF wf ok]])
  then have "acts ?k (died ?i X) s t" by (rule acts_seq [OF a123]) (simp add: died_def)
  then show ?thesis by (rule died_refines) (rule d1(2))
qed

lemma restoreOrDeadLetter_refines:
  assumes "restoreOrDeadLetter sv e n code retryable s = (r, t)" "leased_ok n s"
  shows "refines (e_now e) s t"
proof (rule refinesI)
  assume wf: "aa_wf s"
  let ?attempt = "no_attempt_count (ln_row n) + 1"
  let ?terminal = "\<not> retryable \<or> MAX_DISPATCH_ATTEMPTS \<le> ?attempt"
  from assms(1) show ?thesis unfolding restoreOrDeadLetter_def Let_def
  proof (cases rule: workerTransaction_cases)
    case (committed x)
    from committed(2) obtain u where 1: "set_outbox (leased_by n) (restore_row e ?terminal ?attempt code) s = (Inr (), u)"
      and rest: "(if ?terminal then deadLetter sv e n code else ret Retried) u = (Inr x, t)"
      by (rule seq_unitE)
    obtain X where X: "acts (ln_case_id n) (\<lambda>v. v\<lparr>v_open := v_open v \<inter> X\<rparr>) s u" using leased_close [OF 1 restore_row_keeps assms(2)] by blast
    show ?thesis
    proof (cases ?terminal)
      case True
      with rest have "deadLetter sv e n code u = (Inr x, t)" by (simp only: if_True)
      then show ?thesis by (rule deadLetter_refines [OF wf assms(2) X])
    next
      case False
      with rest have "t = u" by simp
      then show ?thesis using restore_retried [OF 1 assms(2)] by simp
    qed
  qed simp
qed

lemma not_changedD:
  assumes "\<not> state_changed n s"
  obtains a d where "a \<in> set (g_cases s)" "aa_id a = ln_case_id n" "\<not> not_deliverable (aa_status a)"
    "d \<in> set (g_deliveries s)" "dl_id d = ln_delivery_id n" "dl_case_id d = ln_case_id n" "dl_status d = Dl_queued"
proof -
  from assms obtain a as d ds where ad: "filter (\<lambda>a. aa_id a = ln_case_id n) (g_cases s) = a # as"
    "filter (\<lambda>d. dl_id d = ln_delivery_id n \<and> dl_case_id d = ln_case_id n) (g_deliveries s) = d # ds"
    "dl_status d = Dl_queued" "\<not> not_deliverable (aa_status a)"
    by (auto simp: state_changed_def split: list.split_asm)
  show ?thesis by (rule that) (use filter_hd_in [OF ad(1)] filter_hd_in [OF ad(2)] ad(3,4) in auto)
qed

lemma sent_by_marks: "notice_marks Dl_delivered (e_now e) (sent_by e msgRef)"
  by (simp add: notice_marks_def keeps_delivery_def sent_by_def)

lemma advance_case_refines:
  assumes wf: "aa_wf s" and ok: "leased_ok n s" and settled: "acts (ln_case_id n) (settled d g X) s u"
    and d: "d \<in> set (g_deliveries s)" "dl_case_id d = ln_case_id n" "recordable d" "dl_notice_type d = ln_notice_type n"
    and g: "notice_marks Dl_delivered (e_now e) g" and run: "advance_case sv e n u = (Inr x, t)"
  shows "refines (e_now e) s t"
proof -
  let ?k = "ln_case_id n"
  have ids: "?k \<in> aa_id ` set (g_cases s')" if "acts ?k F s s'" for F s'
    by (rule acts_member [OF that wf leased_ok_case [OF wf ok]])
  have "dl_notice_type d \<in> {Pre_adverse, Final_adverse}" using wf d(1) by (auto simp: aa_wf_def deliveries_wf_def)
  then consider "ln_notice_type n = Pre_adverse" | "ln_notice_type n = Final_adverse" using d(4) by auto
  then show ?thesis
  proof cases
    case 1
    with run obtain u1 where st: "on_case ?k (start_waiting e) u = (Inr (), u1)"
      "appendSystemEvent sv e ?k Ev_pre_notice_delivered (JObj [(''deliveryId'', JStr (ln_delivery_id n))]) u1 = (Inr (), t)"
      unfolding advance_case_def by (simp only: if_True) (auto elim!: seq_unitE)
    note c = on_case_acts [OF st(1) keeps_case_simps(1)]
    show ?thesis
      by (rule pre_delivered_refines [OF settled c [unfolded start_waiting_wait_from] appendSystemEvent_acts [OF st(2)]])
        (use d g 1 ids [OF acts_seq [OF settled c refl]] in simp_all)
  next
    case 2
    then have "ln_notice_type n \<noteq> Pre_adverse" by simp
    with 2 run obtain u1 u2 where st: "on_case ?k (complete_case e) u = (Inr (), u1)"
      "appendSystemEvent sv e ?k Ev_final_notice_delivered (JObj [(''deliveryId'', JStr (ln_delivery_id n))]) u1 = (Inr (), u2)"
      "appendSystemEvent sv e ?k Ev_completed (JObj [(''deliveryId'', JStr (ln_delivery_id n))]) u2 = (Inr (), t)"
      unfolding advance_case_def by (simp only: if_True if_False refl simp_thms) (elim seq_unitE, simp)
    note a1 = acts_seq [OF settled on_case_acts [OF st(1) keeps_case_simps(2)] refl]
    note ev = appendSystemEvent_acts [OF st(2) ids [OF a1]]
    show ?thesis
      by (rule final_delivered_refines [OF settled on_case_acts [OF st(1) keeps_case_simps(2)] ev appendSystemEvent_acts [OF st(3)]])
        (use d g 2 ids [OF acts_seq [OF a1 ev refl]] in simp_all)
  qed
qed

lemma markDelivered_refines:
  assumes "markDelivered sv e n msgRef s = (r, t)" "leased_ok n s"
  shows "refines (e_now e) s t"
proof (rule refinesI)
  assume wf: "aa_wf s"
  let ?i = "ln_delivery_id n" and ?k = "ln_case_id n"
  from assms(1) show ?thesis unfolding markDelivered_def
  proof (cases rule: workerTransaction_cases)
    case (committed x)
    show ?thesis
    proof (cases "state_changed n s")
      case True
      with committed(2) have "set_outbox (leased_by n) (\<lambda>p. p\<lparr>no_state := Ob_cancelled, no_last_error_code := Some ''COMPLIANCE_NOTICE_STATE_CHANGED''\<rparr>) s = (Inr x, t)"
        by (simp only: if_True)
      from leased_close [OF this _ assms(2)] obtain X where "acts ?k (\<lambda>v. v\<lparr>v_notices := v_notices v, v_open := v_open v \<inter> X\<rparr>) s t"
        by (auto simp: keeps_outbox_def)
      then show ?thesis by (rule refines_acts) (rule aa_spec.dropped, auto)
    next
      case False
      then obtain a d where d: "d \<in> set (g_deliveries s)" "dl_id d = ?i" "dl_case_id d = ?k" "dl_status d = Dl_queued"
        by (rule not_changedD)
      from False committed(2) obtain u1 u2 where
        1: "set_outbox (leased_by n) (\<lambda>p. p\<lparr>no_state := Ob_delivered, no_delivered_at := Some (e_now e)\<rparr>) s = (Inr (), u1)"
        and 2: "set_deliveries (\<lambda>d. dl_id d = ?i) (sent_by e msgRef) u1 = (Inr (), u2)" and 3: "advance_case sv e n u2 = (Inr x, t)"
        by (simp only: if_False) (elim seq_unitE, simp)
      obtain X where a1: "acts ?k (\<lambda>v. v\<lparr>v_open := v_open v \<inter> X\<rparr>) s u1"
        using leased_close [OF 1 _ assms(2)] by (auto simp: keeps_outbox_def)
      have dof: "delivery_of u1 ?i ?k (ln_notice_type n)" using leased_ok_acts [OF a1 wf assms(2)] by (simp add: leased_ok_def)
      have "acts ?k (\<lambda>v. v\<lparr>v_notices := lupdate (\<lambda>x. dl_id x = dl_id d) (sent_by e msgRef) (v_notices v)\<rparr>) u1 u2"
        using mark_acts [of ?i "\<lambda>_. True" "sent_by e msgRef" u1 "()" u2 ?k] 2 d(2) dof sent_by_marks by (simp add: notice_marks_def)
      then have "acts ?k (settled d (sent_by e msgRef) X) s u2" by (rule acts_seq [OF a1]) (simp add: settled_def)
      then show ?thesis
      proof (rule advance_case_refines [OF wf assms(2) _ d(1,3) _ _ sent_by_marks 3])
        show "recordable d" by (simp add: recordable_def d(4))
        obtain d' where "d' \<in> set (g_deliveries s)" "dl_id d' = ?i" "dl_notice_type d' = ln_notice_type n"
          using assms(2) by (auto simp: leased_ok_def delivery_of_def)
        then show "dl_notice_type d = ln_notice_type n" using unique_delivery [OF wf d(1), of d'] d(2) by simp
      qed
    qed
  qed simp
qed

end
