(* ===== verification/Dispute_Frame.thy ===== *)
theory Dispute_Frame
  imports Dispute_Workers Adverse_Worker
begin

text \<open>
  Which operations of the disputes leave the adverse actions alone: all but the opening of a dispute,
  which pauses them. The rules follow a handler statement by statement, from the part of the state it
  starts from to the one it ends with.
\<close>

named_theorems part "statements that keep the tables of the adverse actions"

lemma part_seq [part]:
  assumes "aaPart (snd (m s)) = p" "\<And>x u. aaPart u = p \<Longrightarrow> aaPart (snd (k x u)) = p"
  shows "aaPart (snd (seq_act m k s)) = p"
  using assms by (cases "m s") (auto simp: seq_act_def split: sum.split)

lemma part_tx [part]:
  assumes "aaPart s = p" "aaPart (snd (m s)) = p"
  shows "aaPart (snd (in_transaction m s)) = p"
  using assms by (cases "m s") (auto simp: in_transaction_def split: sum.split)

lemma part_branch [part]:
  "aaPart (snd x) = p \<Longrightarrow> aaPart (snd y) = p \<Longrightarrow> aaPart (snd (if b then x else y)) = p"
  "aaPart (snd (m s)) = p \<Longrightarrow> aaPart (snd (n s)) = p \<Longrightarrow> aaPart (snd ((if b then m else n) s)) = p"
  "aaPart (snd x) = p \<Longrightarrow> (\<And>y. aaPart (snd (g y)) = p) \<Longrightarrow> aaPart (snd (case z of None \<Rightarrow> x | Some y \<Rightarrow> g y)) = p"
  "aaPart (snd (m s)) = p \<Longrightarrow> (\<And>y. aaPart (snd (h y s)) = p) \<Longrightarrow> aaPart (snd ((case z of None \<Rightarrow> m | Some y \<Rightarrow> h y) s)) = p"
  "aaPart (snd x) = p \<Longrightarrow> (\<And>y ys. aaPart (snd (f y ys)) = p) \<Longrightarrow> aaPart (snd (case zs of [] \<Rightarrow> x | y # ys \<Rightarrow> f y ys)) = p"
  "(\<And>y. aaPart (snd (g y)) = p) \<Longrightarrow> (\<And>y. aaPart (snd (i y)) = p) \<Longrightarrow> aaPart (snd (case w of Inl y \<Rightarrow> g y | Inr y \<Rightarrow> i y)) = p"
  "aaPart (snd run) = p \<Longrightarrow> (\<And>y v. aaPart v = p \<Longrightarrow> aaPart (snd (j y v)) = p) \<Longrightarrow> aaPart (snd (case run of (y, v) \<Rightarrow> j y v)) = p"
  "aaPart s = p \<Longrightarrow> aaPart (snd (r, s)) = p"
  by (auto split: option.split list.split sum.split prod.split)

lemma part_pair: "(\<And>y v. aaPart (snd (j y v)) = p) \<Longrightarrow> aaPart (snd (case z of (y, v) \<Rightarrow> j y v)) = p" for z :: "disputeCase \<times> evidence"
  by (auto split: prod.split)

lemma part_basic [part]:
  "aaPart s = p \<Longrightarrow> aaPart (snd (ret x s)) = p" "aaPart s = p \<Longrightarrow> aaPart (snd (throw err s)) = p"
  "aaPart s = p \<Longrightarrow> aaPart (snd (m s)) = p \<Longrightarrow> aaPart (snd (require b err m s)) = p"
  "aaPart s = p \<Longrightarrow> aaPart (snd (m s)) = p \<Longrightarrow> aaPart (snd (zod b m s)) = p"
  "aaPart s = p \<Longrightarrow> aaPart (snd (m s)) = p \<Longrightarrow> aaPart (snd (poolOrThrow e m s)) = p"
  "aaPart s = p \<Longrightarrow> aaPart (snd (m s)) = p \<Longrightarrow> aaPart (snd (providerPool e m s)) = p"
  by (auto simp: poolOrThrow_def providerPool_def)

lemma part_guards [part]:
  "aaPart s = p \<Longrightarrow> (\<And>u. aaPart (snd (k u s)) = p) \<Longrightarrow> aaPart (snd (writeProcedure e c k s)) = p"
  "aaPart s = p \<Longrightarrow> (\<And>u. aaPart (snd (k u s)) = p) \<Longrightarrow> aaPart (snd (adminProcedure e c k s)) = p"
  "aaPart s = p \<Longrightarrow> (\<And>u. aaPart (snd (k u s)) = p) \<Longrightarrow> aaPart (snd (caseworkerWriteProcedure e c k s)) = p"
  "aaPart s = p \<Longrightarrow> (\<And>u. aaPart (snd (k u s)) = p) \<Longrightarrow> aaPart (snd (supervisorWriteProcedure e c k s)) = p"
  by (auto simp: writeProcedure_def adminProcedure_def caseworkerWriteProcedure_def supervisorWriteProcedure_def caseworkerProcedure_def split: option.split)

lemma part_scope [part]:
  "aaPart s = p \<Longrightarrow> (\<And>t. aaPart (snd (k t s)) = p) \<Longrightarrow> aaPart (snd (requireTenant c k s)) = p"
  "aaPart s = p \<Longrightarrow> (\<And>t. aaPart (snd (h t s)) = p) \<Longrightarrow> aaPart (snd (scopeTenant c u h s)) = p"
  "aaPart s = p \<Longrightarrow> (\<And>kms. aaPart (snd (l kms s)) = p) \<Longrightarrow> aaPart (snd (evidenceStorage st l s)) = p"
  by (auto simp: requireTenant_def scopeTenant_def evidenceStorage_def split: option.split sum.split)

lemma part_cases [part]:
  "aaPart s = p \<Longrightarrow> aaPart (snd (assertConsumerCaseOwner ref i t s)) = p"
  "aaPart s = p \<Longrightarrow> aaPart (snd (assertInternalCase ref t' s)) = p"
  "aaPart s = p \<Longrightarrow> aaPart (snd (caseEscalation d j s)) = p"
  by (auto simp: assertConsumerCaseOwner_def assertInternalCase_def caseEscalation_def split: option.split)

lemma part_onCase [part]:
  assumes "aaPart s = p"
  shows "(\<And>t d u. aaPart u = p \<Longrightarrow> aaPart (snd (k t d u)) = p) \<Longrightarrow> aaPart (snd (onConsumerCase e c usr ref k s)) = p"
    "(\<And>t. aaPart (snd (l t s)) = p) \<Longrightarrow> aaPart (snd (consumerTransaction e c l s)) = p"
    "(\<And>d u. aaPart u = p \<Longrightarrow> aaPart (snd (h d u)) = p) \<Longrightarrow> aaPart (snd (onInternalCase e c usr ref h s)) = p"
  unfolding onConsumerCase_def onInternalCase_def consumerTransaction_def by (intro part assms; assumption)+

lemma part_writes [part]:
  assumes "aaPart s = p"
  shows "aaPart (snd (appendConsumerDisputeEvent sv e k ref actor kind ty detail s)) = p"
    "aaPart (snd (update_dispute j f s)) = p" "aaPart (snd (insert_snapshot mk s)) = p" "aaPart (snd (insert_evidence x s)) = p"
    "aaPart (snd (insert_task mk' s)) = p" "aaPart (snd (insert_provider_outbox q s)) = p" "aaPart (snd (insert_deadline_alert dc s)) = p"
    "aaPart (set_evidence P g s) = p" "aaPart (set_escalation i h s) = p" "aaPart (snd (insert_dispute n mk'' s)) = p"
  using assms
  by (auto simp: appendConsumerDisputeEvent_def update_dispute_def insert_snapshot_def insert_evidence_def insert_task_def insert_provider_outbox_def
      insert_deadline_alert_def throw_def set_evidence_def set_escalation_def insert_dispute_def aaPart_def Let_def split: option.split)

lemma part_tables [part]:
  assumes "aaPart s = p"
  shows "aaPart (s\<lparr>g_notices := a1\<rparr>) = p" "aaPart (s\<lparr>g_tasks := a2\<rparr>) = p" "aaPart (s\<lparr>g_dispute_items := a3\<rparr>) = p"
    "aaPart (s\<lparr>g_bindings := a4\<rparr>) = p" "aaPart (s\<lparr>g_authorizations := a5\<rparr>) = p" "aaPart (s\<lparr>g_escalations := a6\<rparr>) = p"
    "aaPart (s\<lparr>g_provider_outbox := a7\<rparr>) = p"
  using assms by (simp_all add: aaPart_def)

lemma queueDisputeNotice_part [part]:
  "aaPart s = p \<Longrightarrow> aaPart (snd (queueDisputeNotice sv e uuid d ty version actor kind payload s)) = p"
  unfolding queueDisputeNotice_def Let_def by (intro part)

section \<open>The router\<close>

lemma consumer_part:
  "aaPart (snd (bindSubject e c bi s)) = aaPart s"
  "aaPart (snd (snapshotCompletedOrder sv e c uuid orderRef j purpose s)) = aaPart s"
  "aaPart (snd (withdraw sv e c ref s)) = aaPart s"
  "aaPart (snd (requestMethodDescription sv e c uuid ref s)) = aaPart s"
  unfolding bindSubject_def snapshotCompletedOrder_def withdraw_def requestMethodDescription_def Let_def by (intro part refl; assumption?)+

lemma quarantine_part [part]: "aaPart s = p \<Longrightarrow> aaPart (snd (quarantine sv e u d ref reason s)) = p"
  unfolding quarantine_def by (intro part)

lemma evidence_part:
  "aaPart (snd (initiateEvidence sv st uuid_ok e c uuid vi s)) = aaPart s"
  "aaPart (snd (completeEvidence sv st e c ref evidenceRef s)) = aaPart s"
  unfolding initiateEvidence_def initiate_evidence_tx_def completeEvidence_def finishEvidence_def Let_def by (intro part part_pair refl; assumption?)+

lemma casework_part:
  "aaPart (snd (assign sv e c ref assignee s)) = aaPart s"
  "aaPart (snd (acknowledgeDeadlineEscalation sv e c ref i s)) = aaPart s"
  "aaPart (snd (resolveDeadlineEscalation sv e c ref i note s)) = aaPart s"
  "aaPart (snd (recordSourceResponse sv e c ref taskRef response s)) = aaPart s"
  "aaPart (snd (dispositionItem sv e c ref itemRef x rationale s)) = aaPart s"
  "aaPart (snd (complete sv e c uuid ref s)) = aaPart s"
  "aaPart (snd (suspendAuthorization e c ref reason s)) = aaPart s"
  unfolding assign_def acknowledgeDeadlineEscalation_def resolveDeadlineEscalation_def recordSourceResponse_def dispositionItem_def
    complete_def suspendAuthorization_def Let_def
  by (intro part refl; assumption?)+

lemma createSourceTask_part: "aaPart (snd (createSourceTask sv e c taskUuid outboxId i s)) = aaPart s"
  unfolding createSourceTask_def create_task_writes_def Let_def by (intro part refl; assumption?)+

section \<open>The workers\<close>

lemma insert_escalation_notice_part [part]: "aaPart s = p \<Longrightarrow> aaPart (snd (insert_escalation_notice sv e uuid c s)) = p"
  unfolding insert_escalation_notice_def Let_def by (intro part)

lemma escalate_part: "aaPart (snd (escalate sv e uuid c r s)) = aaPart s"
  unfolding escalate_def Let_def by (intro part refl)

lemma escalate_all_part: "aaPart (snd (escalate_all sv e uuids cs r s)) = aaPart s"
proof (induction cs arbitrary: r s)
  case (Cons c cs)
  show ?case using Cons.IH escalate_part [of sv e "uuids (length cs)" c r s]
    by (cases "escalate sv e (uuids (length cs)) c r s") (auto split: sum.split)
qed simp

lemma deadline_worker_part: "aaPart (snd (runConsumerDisputeDeadlineWorker sv e uuids s)) = aaPart s"
  unfolding runConsumerDisputeDeadlineWorker_def by (intro part refl escalate_all_part)

lemma leaseEvents_part [part]: "aaPart s = p \<Longrightarrow> aaPart (snd (leaseEvents e s)) = p"
  unfolding leaseEvents_def Let_def by (intro part)

lemma restoreOrFail_part [part]: "aaPart s = p \<Longrightarrow> aaPart (snd (restoreOrFail sv e n code retryable s)) = p"
  unfolding restoreOrFail_def Let_def by (intro part) (simp_all add: aaPart_def)

lemma try_event_part: "aaPart (snd (try_event sv adapter e environment n s)) = aaPart s"
  unfolding try_event_def by (intro part refl; assumption?)

lemma treat_event_part: "aaPart (snd (treat_event sv adapter e environment n r s)) = aaPart s"
  unfolding treat_event_def by (intro part refl try_event_part; assumption?)

lemma treat_events_part: "aaPart (snd (treat_events sv adapter e environment ns r s)) = aaPart s"
proof (induction ns arbitrary: r s)
  case (Cons n ns)
  show ?case using Cons.IH treat_event_part [of sv adapter e environment n r s]
    by (cases "treat_event sv adapter e environment n r s") (auto split: sum.split)
qed simp

lemma provider_worker_part: "aaPart (snd (runConsumerDisputeProviderOutboxWorker sv adapter e s)) = aaPart s"
proof -
  have "aaPart u = p \<Longrightarrow> aaPart (snd (treat_events sv adapter e env ns r u)) = p" for u p env ns r using treat_events_part by simp
  then show ?thesis
    unfolding runConsumerDisputeProviderOutboxWorker_def deploymentEnvironment_def Let_def by (intro part refl) assumption
qed

section \<open>Opening\<close>

lemma insert_dispute_items_part: "aaPart s = p \<Longrightarrow> aaPart (snd (insert_dispute_items e n d statement xs s)) = p"
proof (induction e n d statement xs s rule: insert_dispute_items.induct)
  case (2 e n d statement x uuid xs s)
  then show ?case by (simp add: Let_def part_tables)
qed simp

lemma hold_events_part: "aaPart s = p \<Longrightarrow> aaPart (snd (hold_events sv e d xs s)) = p"
proof (induction xs arbitrary: s)
  case (Cons x xs)
  let ?m = "appendConsumerDisputeEvent sv e (dc_id d) (dc_case_ref d) (Some (dc_requester_user_id d)) ''consumer'' ''item_held''
    (JObj [(''reportItemKey'', JStr (it_reportItemKey x))])"
  have "aaPart (snd (?m s)) = p" by (intro part Cons.prems)
  then show ?case using Cons.IH by (cases "?m s") (auto split: sum.split)
qed simp

lemma check_items_ok: "check_items m xs k s = (Inr y, t) \<Longrightarrow> k s = (Inr y, t)"
  by (induction xs) (auto split: if_splits)

text \<open>A dispute that is opened: the binding and the report, the pause in the middle, and the case it leaves.\<close>

lemma openDispute_success:
  assumes "openDispute sv e c caseUuid itemUuids noticeUuid i s = (r, t)"
  obtains (unchanged) err where "r = Inl err" "t = s"
    | (opened) tid and u :: user and b n bs d s1 s2 k x where "c_tenantId c = Some tid" "c_user c = Some u" "open_input_ok i"
      "dispute_subjects s (oi_reportSnapshotRef i) tid (u_id u) = (b, n) # bs"
      "insert_dispute n (new_dispute e (ref_of ''BIS-DR-'' caseUuid) tid (u_id u) b n i) s = (Inr d, s1)"
      "pauseAdverseActionsForOpenDispute sv e (dc_tenant_id d) (sn_candidate_id n) (dc_case_ref d) (Some (dc_requester_user_id d)) s1 = (Inr k, s2)"
      "open_tail sv e itemUuids noticeUuid n i d s2 = (Inr x, t)" "r = Inr x"
proof -
  have "(\<exists>err. r = Inl err \<and> t = s) \<or>
      (\<exists>tid u x. c_tenantId c = Some tid \<and> c_user c = Some u \<and> open_input_ok i \<and> r = Inr x \<and> open_tx sv e caseUuid itemUuids noticeUuid i tid (u_id u) s = (Inr x, t))"
    using assms unfolding openDispute_def writeProcedure_def requireTenant_def requireFcraModule_def poolOrThrow_def in_transaction_def
    by (auto split: option.split_asm if_split_asm prod.split_asm sum.split_asm)
  then consider (no) err where "r = Inl err" "t = s"
    | (yes) tid and u :: user and x where "c_tenantId c = Some tid" "c_user c = Some u" "open_input_ok i" "r = Inr x"
      "open_tx sv e caseUuid itemUuids noticeUuid i tid (u_id u) s = (Inr x, t)" by blast
  then show ?thesis
  proof cases
    case no
    then show ?thesis by (rule unchanged)
  next
    case yes
    let ?new = "\<lambda>b n. new_dispute e (ref_of ''BIS-DR-'' caseUuid) tid (u_id u) b n i"
    from yes(5) obtain b n bs where bn: "dispute_subjects s (oi_reportSnapshotRef i) tid (u_id u) = (b, n) # bs"
      and "check_items (sn_manifest n) (oi_items i) (seq_act (insert_dispute n (?new b n)) (open_rest sv e itemUuids noticeUuid n i)) s = (Inr x, t)"
      unfolding open_tx_def by (auto split: list.split_asm prod.split_asm)
    from check_items_ok [OF this(2)] obtain d s1 where d: "insert_dispute n (?new b n) s = (Inr d, s1)"
      and rest: "open_rest sv e itemUuids noticeUuid n i d s1 = (Inr x, t)" by (rule seq_InrE)
    from rest show ?thesis unfolding open_rest_def
      by (rule seq_InrE) (rule opened [OF yes(1-3) bn d _ _ yes(4)], assumption+)
  qed
qed

lemma open_tail_part: "aaPart (snd (open_tail sv e itemUuids noticeUuid n i d s)) = aaPart s"
  unfolding open_tail_def by (intro part refl insert_dispute_items_part hold_events_part)

lemma insert_dispute_part: "insert_dispute n mk s = (r, t) \<Longrightarrow> aaPart t = aaPart s"
  using part_writes(10) [OF refl, of n mk s] by simp

lemma openDispute_pauses:
  assumes "openDispute sv e c caseUuid itemUuids noticeUuid i s = (Inr x, t)" "aa_wf s"
  obtains tid and u :: user and b n bs where "c_tenantId c = Some tid" "c_user c = Some u"
    "dispute_subjects s (oi_reportSnapshotRef i) tid (u_id u) = (b, n) # bs" "aa_wf t"
    "\<And>j k ty. delivery_of s j k ty \<Longrightarrow> delivery_of t j k ty" "\<And>j k d. outbox_of s j k d \<Longrightarrow> outbox_of t j k d" "case_keys t = case_keys s"
    "\<And>k. caseView k t = (if k \<in> aa_id ` set (pausable_cases tid (sn_candidate_id n) s) then map_option (pauseF (e_now e)) (caseView k s) else caseView k s)"
  using assms(1)
proof (cases rule: openDispute_success)
  case (opened tid u b n bs d s1 s2 k y)
  have p1: "aaPart s1 = aaPart s" by (rule insert_dispute_part [OF opened(5)])
  have p2: "aaPart t = aaPart s2" using open_tail_part [of sv e itemUuids noticeUuid n i d s2] opened(7) by simp
  have tid: "dc_tenant_id d = tid" using opened(5) by (auto simp: insert_dispute_def new_dispute_def Let_def split: if_splits)
  have same: "pausable_cases tid (sn_candidate_id n) s1 = pausable_cases tid (sn_candidate_id n) s"
    using p1 by (simp add: pausable_cases_def aaPart_def)
  note v = pauseAdverseActions_views [OF opened(6), unfolded tid same aaPart_cong [OF p1], OF assms(2)]
  show ?thesis
    by (rule that [OF opened(1,2,4)]) (use v in \<open>simp_all add: aaPart_cong [OF p2]\<close>)
qed simp

lemma openDispute_refines:
  assumes "openDispute sv e c caseUuid itemUuids noticeUuid i s = (r, t)"
  shows "refines (e_now e) s t"
proof (rule refinesI)
  assume wf: "aa_wf s"
  show ?thesis
  proof (cases r)
    case (Inl err)
    then have "t = s" using assms by (auto elim: openDispute_success)
    then show ?thesis by simp
  next
    case (Inr x)
    show ?thesis
    proof (rule openDispute_pauses [OF assms [unfolded Inr] wf])
      fix tid and u :: user and b n bs
      assume t: "aa_wf t" "\<And>j k ty. delivery_of s j k ty \<Longrightarrow> delivery_of t j k ty" "\<And>j k d. outbox_of s j k d \<Longrightarrow> outbox_of t j k d"
        "case_keys t = case_keys s" and views: "\<And>k. caseView k t = (if k \<in> aa_id ` set (pausable_cases tid (sn_candidate_id n) s)
          then map_option (pauseF (e_now e)) (caseView k s) else caseView k s)"
      have "caseView k s = caseView k t \<or> aa_spec (e_now e) (contested s (caseView k t)) (caseView k s) (caseView k t)" for k
      proof (cases "k \<in> aa_id ` set (pausable_cases tid (sn_candidate_id n) s)")
        case True
        then obtain a where a: "a \<in> set (pausable_cases tid (sn_candidate_id n) s)" "k = aa_id a" by blast
        obtain v where "caseView k s = Some v" using caseView_row [OF wf] a pausable_cases_simps(3) by blast
        then show ?thesis using pause_spec [OF wf a(1)] views [of k] True a(2) by simp
      qed (simp add: views)
      then show ?thesis using t by (simp add: refines_def)
    qed
  qed
qed

end
