(* ===== verification/Adverse_System.thy ===== *)
theory Adverse_System
  imports Dispute_Frame State_Machine
begin

text \<open>
  The whole of it: the database, the notices that some run of the worker has leased and may still
  treat, and the time. Any caller may call any handler at any moment, the worker's transactions come
  between them in any order and as late as they like, and the disputes go their way.
\<close>

section \<open>Steps\<close>

inductive dispute_op :: "govServices \<Rightarrow> env \<Rightarrow> govdb \<Rightarrow> govdb \<Rightarrow> bool" for sv e where
  op_bind: "bindSubject e c bi s = (r, t) \<Longrightarrow> dispute_op sv e s t"
| op_snapshot: "snapshotCompletedOrder sv e c uuid orderRef j purpose s = (r, t) \<Longrightarrow> dispute_op sv e s t"
| op_withdraw: "withdraw sv e c ref s = (r, t) \<Longrightarrow> dispute_op sv e s t"
| op_method: "requestMethodDescription sv e c uuid ref s = (r, t) \<Longrightarrow> dispute_op sv e s t"
| op_evidence: "initiateEvidence sv st uuid_ok e c uuid vi s = (r, t) \<Longrightarrow> dispute_op sv e s t"
| op_verify: "completeEvidence sv st e c ref evidenceRef s = (r, t) \<Longrightarrow> dispute_op sv e s t"
| op_assign: "assign sv e c ref assignee s = (r, t) \<Longrightarrow> dispute_op sv e s t"
| op_acknowledge: "acknowledgeDeadlineEscalation sv e c ref i s = (r, t) \<Longrightarrow> dispute_op sv e s t"
| op_resolve: "resolveDeadlineEscalation sv e c ref i note s = (r, t) \<Longrightarrow> dispute_op sv e s t"
| op_task: "createSourceTask sv e c taskUuid outboxId ki s = (r, t) \<Longrightarrow> dispute_op sv e s t"
| op_response: "recordSourceResponse sv e c ref taskRef response s = (r, t) \<Longrightarrow> dispute_op sv e s t"
| op_disposition: "dispositionItem sv e c ref itemRef x rationale s = (r, t) \<Longrightarrow> dispute_op sv e s t"
| op_complete: "complete sv e c uuid ref s = (r, t) \<Longrightarrow> dispute_op sv e s t"
| op_suspend: "suspendAuthorization e c ref reason s = (r, t) \<Longrightarrow> dispute_op sv e s t"
| op_deadlines: "runConsumerDisputeDeadlineWorker sv e uuids s = (r, t) \<Longrightarrow> dispute_op sv e s t"
| op_provider: "runConsumerDisputeProviderOutboxWorker sv adapter e s = (r, t) \<Longrightarrow> dispute_op sv e s t"

lemma part_run: "m s = (r, t) \<Longrightarrow> aaPart (snd (m s)) = aaPart s \<Longrightarrow> aaPart t = aaPart s" for m :: "(govdb, 'a) act"
  by simp

lemma dispute_op_part: "dispute_op sv e s t \<Longrightarrow> aaPart t = aaPart s"
  by (induction rule: dispute_op.induct; erule part_run;
      rule consumer_part evidence_part casework_part createSourceTask_part deadline_worker_part provider_worker_part)

text \<open>The handlers of the adverse actions, the opening of a dispute, and the worker's lease.\<close>

inductive adverse_op :: "govServices \<Rightarrow> env \<Rightarrow> govdb \<Rightarrow> govdb \<Rightarrow> bool" for sv e where
  op_template: "createNoticeTemplate sv e c uuid ti s = (r, t) \<Longrightarrow> adverse_op sv e s t"
| op_supersede: "supersedeNoticeTemplate sv uuid_ok e c i reason s = (r, t) \<Longrightarrow> adverse_op sv e s t"
| op_initiate: "initiatePreAdverse sv e c caseId refUuid ids ii s = (r, t) \<Longrightarrow> adverse_op sv e s t"
| op_record: "recordDelivery sv uuid_ok e c ref deliveryId x msgRef s = (r, t) \<Longrightarrow> adverse_op sv e s t"
| op_pause: "pauseForDispute sv e c ref disputeRef s = (r, t) \<Longrightarrow> adverse_op sv e s t"
| op_resume: "resumeAfterDispute sv e c ids ref resolution s = (r, t) \<Longrightarrow> adverse_op sv e s t"
| op_final: "queueFinalAdverse sv e c ids ref version ch s = (r, t) \<Longrightarrow> adverse_op sv e s t"
| op_manual: "resolveManualDelivery sv uuid_ok e c ids ref deliveryId ch resolution s = (r, t) \<Longrightarrow> adverse_op sv e s t"
| op_cancel: "aa_cancel sv e c ref reason s = (r, t) \<Longrightarrow> adverse_op sv e s t"
| op_open: "openDispute sv e c caseUuid itemUuids noticeUuid oi s = (r, t) \<Longrightarrow> adverse_op sv e s t"

lemma adverse_op_refines: "adverse_op sv e s t \<Longrightarrow> refines (e_now e) s t"
proof (induction rule: adverse_op.induct)
  case (op_template c uuid ti s r t)
  then show ?case using createNoticeTemplate_part [of sv e c uuid ti s] by (simp add: refines_frame)
next
  case (op_supersede uuid_ok c i reason s r t)
  then show ?case using supersedeNoticeTemplate_part [of sv uuid_ok e c i reason s] by (simp add: refines_frame)
qed (fast intro: initiatePreAdverse_refines recordDelivery_refines pauseForDispute_refines resumeAfterDispute_refines queueFinalAdverse_refines
    resolveManualDelivery_refines aa_cancel_refines openDispute_refines)+

inductive treat_op :: "govServices \<Rightarrow> env \<Rightarrow> leasedNotice \<Rightarrow> govdb \<Rightarrow> govdb \<Rightarrow> bool" for sv e n where
  op_drop: "cancelLeased e n code s = (r, t) \<Longrightarrow> treat_op sv e n s t"
| op_fail: "restoreOrDeadLetter sv e n code retryable s = (r, t) \<Longrightarrow> treat_op sv e n s t"
| op_sent: "markDelivered sv e n msgRef s = (r, t) \<Longrightarrow> treat_op sv e n s t"

lemma treat_op_refines: "treat_op sv e n s t \<Longrightarrow> leased_ok n s \<Longrightarrow> refines (e_now e) s t"
  by (induction rule: treat_op.induct) (blast intro: cancelLeased_refines restoreOrDeadLetter_refines markDelivered_refines)+

record aaSystem =
  y_db :: govdb
  y_leased :: "leasedNotice set"
  y_clock :: int

inductive aa_step :: "govServices \<Rightarrow> aaSystem \<Rightarrow> aaSystem \<Rightarrow> bool" for sv where
  call: "y_clock y \<le> e_now e \<Longrightarrow> adverse_op sv e (y_db y) t \<Longrightarrow> aa_step sv y (y\<lparr>y_db := t, y_clock := e_now e\<rparr>)"
| lease: "y_clock y \<le> e_now e \<Longrightarrow> leaseNotices e (y_db y) = (Inr batch, t) \<Longrightarrow>
    aa_step sv y (y\<lparr>y_db := t, y_leased := y_leased y \<union> set batch, y_clock := e_now e\<rparr>)"
| treat: "y_clock y \<le> e_now e \<Longrightarrow> n \<in> y_leased y \<Longrightarrow> treat_op sv e n (y_db y) t \<Longrightarrow> aa_step sv y (y\<lparr>y_db := t, y_clock := e_now e\<rparr>)"
| dispute: "y_clock y \<le> e_now e \<Longrightarrow> dispute_op sv e (y_db y) t \<Longrightarrow> aa_step sv y (y\<lparr>y_db := t, y_clock := e_now e\<rparr>)"
| elsewhere: "y_clock y \<le> now \<Longrightarrow> aaPart t = aaPart (y_db y) \<Longrightarrow> aa_step sv y (y\<lparr>y_db := t, y_clock := now\<rparr>)"

text \<open>Every step is, for every case, a move of the abstract machine or none.\<close>

lemma aa_step_refines:
  assumes "aa_step sv y z" "\<forall>n \<in> y_leased y. leased_ok n (y_db y)"
  shows "refines (y_clock z) (y_db y) (y_db z) \<and> y_clock y \<le> y_clock z"
  using assms
proof cases
  case (treat e n t)
  then show ?thesis using assms(2) treat_op_refines by auto
qed (auto intro: adverse_op_refines leaseNotices_refines refines_frame dest: dispute_op_part)

section \<open>Reachable states\<close>

definition aa_start :: "aaSystem \<Rightarrow> bool" where
  "aa_start y \<longleftrightarrow> aaPart (y_db y) = ([], [], [], []) \<and> y_leased y = {}"

definition aa_inv :: "aaSystem \<Rightarrow> bool" where
  "aa_inv y \<longleftrightarrow> aa_wf (y_db y) \<and> (\<forall>n \<in> y_leased y. leased_ok n (y_db y)) \<and>
     (\<forall>k v. caseView k (y_db y) = Some v \<longrightarrow> view_inv (y_clock y) v)"

lemma view_inv_later: "view_inv t v \<Longrightarrow> t \<le> now \<Longrightarrow> distinct (map dl_id (v_notices v)) \<Longrightarrow> view_inv now v"
  using dropped_inv [of t v now "v_notices v" _ "v_open v" v] by simp

lemma refines_keeps_views:
  assumes "refines now s t" "aa_wf s" "\<And>k v. caseView k s = Some v \<Longrightarrow> view_inv c v" "c \<le> now" "caseView k t = Some w"
  shows "view_inv now w"
proof (cases "caseView k s")
  case None
  then have "aa_spec now (contested s (Some w)) None (Some w)" using refinesD(5) [OF assms(1,2), of k] assms(5) by simp
  then show ?thesis by (rule aa_spec_starts_inv)
next
  case (Some v)
  note ids = view_row_ok(2) [OF assms(2) Some]
  from refinesD(5) [OF assms(1,2), of k] Some assms(5) consider "w = v" | "aa_spec now (contested s (Some w)) (Some v) (Some w)" by auto
  then show ?thesis
  proof cases
    case 1
    then show ?thesis using view_inv_later [OF assms(3) [OF Some] assms(4) ids] by simp
  next
    case 2
    then show ?thesis by (rule aa_spec_keeps_inv [OF _ assms(3) [OF Some] assms(4) ids])
  qed
qed

lemma aa_step_leased:
  assumes "aa_step sv y z" "aa_inv y" "n \<in> y_leased z"
  shows "leased_ok n (y_db z)"
proof -
  have wf: "aa_wf (y_db y)" and leased: "\<forall>n \<in> y_leased y. leased_ok n (y_db y)" using assms(2) by (simp_all add: aa_inv_def)
  have old: "leased_ok n (y_db z)" if "n \<in> y_leased y"
    using leased_ok_refines aa_step_refines [OF assms(1) leased] wf leased that by blast
  from assms(1) show ?thesis
  proof cases
    case (lease e batch t)
    then show ?thesis using old leaseNotices_leases [OF lease(3) wf] assms(3) by auto
  qed (use assms(3) old in auto)
qed

interpretation aa_machine: state_machine aa_start "aa_step sv" aa_inv
proof unfold_locales
  fix y z assume y: "aa_inv y" and step: "aa_step sv y z"
  then have leased: "\<forall>n \<in> y_leased y. leased_ok n (y_db y)" and wf: "aa_wf (y_db y)" by (simp_all add: aa_inv_def)
  note r = aa_step_refines [OF step leased]
  have "aa_wf (y_db z)" using r wf refinesD(1) by blast
  moreover have "view_inv (y_clock z) w" if "caseView k (y_db z) = Some w" for k w
    by (rule refines_keeps_views [OF _ wf _ _ that]) (use r y in \<open>auto simp: aa_inv_def\<close>)
  ultimately show "aa_inv z" using aa_step_leased [OF step y] by (simp add: aa_inv_def)
qed (auto simp: aa_start_def aa_inv_def aaPart_def aa_wf_def cases_wf_def deliveries_wf_def outbox_wf_def caseView_def)

end
