(* ===== verification/Adverse_Sample.thy ===== *)
theory Adverse_Sample
  imports Adverse_System
begin

text \<open>
  A small tenant: one candidate with a completed order, a report of one result, a consent, a key,
  templates for both notices, and a consumer bound to the candidate. The witnesses run the handlers
  on it.
\<close>

definition g_sv :: govServices where
  "g_sv = \<lparr>gs_complianceEnabled = True, gs_fcraEnabled = False, gs_fcraCasesEnabled = False, gs_deploymentEnv = None,
     gs_digest = (\<lambda>p v. ''d''), gs_hmac = Some (\<lambda>v. ''h''), gs_encrypt = (\<lambda>k a v. Inr (''c'', 1)), gs_decrypt = (\<lambda>k a c. Inr JNull),
     gs_keyring = (\<lambda>t. Inr ()), gs_seal = (\<lambda>a v. ''s''), gs_unseal = (\<lambda>a c. Inr JNull)\<rparr>"

definition g_at :: "int \<Rightarrow> env" where
  "g_at t = \<lparr>e_now = t, e_dbUp = True, e_isProduction = False, e_permify = (\<lambda>_ _ _ _. True)\<rparr>"

definition g_staff :: ctx where
  "g_staff = \<lparr>c_user = Some \<lparr>u_id = 7, u_role = RSupervisor, u_name = None, u_email = None\<rparr>, c_tenantId = Some 3, c_isDemo = False\<rparr>"

definition g_consumer :: ctx where
  "g_consumer = \<lparr>c_user = Some \<lparr>u_id = 9, u_role = RUser, u_name = None, u_email = None\<rparr>, c_tenantId = Some 3, c_isDemo = False\<rparr>"

definition g_template :: "string \<Rightarrow> notice_type \<Rightarrow> template" where
  "g_template k ty = \<lparr>tm_id = k, tm_tenant_id = 3, tm_key = ty, tm_jurisdiction_code = ''NG'', tm_version = ''1'', tm_body_ciphertext = ''c'',
     tm_content_sha256 = ''d'', tm_approved_by = 7, tm_counsel_reference = ''counsel'', tm_key_registry_id = 5, tm_superseded_at = None\<rparr>"

definition g_report :: snapshot where
  "g_report = \<lparr>sn_id = 1, sn_ref = ''BIS-RPT-ABCDEFGHIJKLMNOPQR'', sn_tenant_id = 3, sn_candidate_id = 21, sn_screening_order_id = 11,
     sn_jurisdiction_code = ''NG'', sn_report_purpose = ''employment'', sn_content_sha256 = ''d'',
     sn_manifest = JObj [(''items'', JArr [JObj [(''reportItemKey'', JStr ''r''), (''screeningResultId'', JNum 31)]])]\<rparr>"

definition g_db :: govdb where
  "g_db = \<lparr>g_users = [7, 9], g_candidates = [\<lparr>cd_id = 21, cd_candidateRef = ''CAND-001'', cd_tenantId = 3\<rparr>],
     g_orders = [\<lparr>so_id = 11, so_orderRef = ''ORDER-01'', so_tenantId = 3, so_candidateId = 21, so_completed = True\<rparr>],
     g_results = [\<lparr>sr_id = 31, sr_orderId = 11, sr_screeningType = ''x'', sr_status = ''completed'', sr_outcome = None, sr_dataSourceRef = None,
       sr_externalRef = None, sr_completedAt = None, sr_expiresAt = None\<rparr>],
     g_consents = [\<lparr>cs_consentRef = ''CONSENT-1'', cs_candidateId = 21, cs_orderId = None, cs_signedAt = Some 0, cs_revokedAt = None\<rparr>],
     g_keys = [\<lparr>ek_id = 5, ek_tenant_id = 3, ek_key_version = ''k'', ek_external_key_ref = ''x'', ek_vault = True, ek_provider_key_name = Some ''n'',
       ek_provider_key_version = Some 1, ek_status = ''active'', ek_retires_at = None\<rparr>],
     g_templates = [g_template ''tp'' Pre_adverse, g_template ''tf'' Final_adverse], g_cases = [], g_items = [], g_deliveries = [], g_outbox = [],
     g_events = [], g_template_events = [],
     g_bindings = \<lparr>rows = [\<lparr>bn_id = 1, bn_user_id = 9, bn_tenant_id = 3, bn_candidate_id = 21, bn_assurance = Identity_verified,
       bn_verification_reference = ''reference-01'', bn_verified_at = 0, bn_revoked_at = None\<rparr>], seq = 2\<rparr>,
     g_snapshots = \<lparr>rows = [g_report], seq = 2\<rparr>, g_disputes = \<lparr>rows = [], seq = 1\<rparr>, g_dispute_items = \<lparr>rows = [], seq = 1\<rparr>,
     g_evidence = [], g_tasks = \<lparr>rows = [], seq = 1\<rparr>, g_provider_outbox = [], g_authorizations = [], g_notices = [], g_dispute_events = [],
     g_escalations = \<lparr>rows = [], seq = 1\<rparr>\<rparr>"

definition g_ids :: "string \<Rightarrow> noticeIds" where
  "g_ids x = \<lparr>ni_delivery = CHR ''d'' # x, ni_outbox = CHR ''o'' # x, ni_idempotency = CHR ''i'' # x\<rparr>"

definition g_initiate :: initiateInput where
  "g_initiate = \<lparr>ii_screeningOrderId = 11, ii_reportSnapshotId = 1, ii_candidateConsentRef = ''CONSENT-1'', ii_framework = Ndpa,
     ii_jurisdiction = ''NG'', ii_attestation = None, ii_waitingPeriodDays = 5, ii_templateVersion = ''1'', ii_channel = Email,
     ii_items = [(31, ''a rationale of sufficient length'')],
     ii_employerAttestation = ''the employer attests that this is a lawful action''\<rparr>"

definition g_ref :: string where "g_ref = ''BIS-AA-ABCDEFGHIJKLMNOPQR''"

definition g1 :: govdb where
  "g1 = snd (initiatePreAdverse g_sv (g_at 0) g_staff ''case'' ''ABCDEFGHIJKLMNOPQR'' (g_ids ''1'') g_initiate g_db)"

definition g2 :: govdb where
  "g2 = snd (recordDelivery g_sv (\<lambda>_. True) (g_at 1000) g_staff g_ref ''d1'' Out_delivered None g1)"

definition g_late :: int where "g_late = 1000 + 5 * MS_DAY"

definition g3 :: govdb where
  "g3 = snd (queueFinalAdverse g_sv (g_at g_late) g_staff (g_ids ''2'') g_ref ''1'' Email g2)"

definition g4 :: govdb where
  "g4 = snd (recordDelivery g_sv (\<lambda>_. True) (g_at (g_late + 1)) g_staff g_ref ''d2'' Out_delivered None g3)"

text \<open>The states of the run, as states of the system, are reachable.\<close>

definition g_state :: "govdb \<Rightarrow> int \<Rightarrow> aaSystem" where
  "g_state s t = \<lparr>y_db = s, y_leased = {}, y_clock = t\<rparr>"

lemma g_call: "t \<le> u \<Longrightarrow> adverse_op g_sv (g_at u) s s' \<Longrightarrow> aa_step g_sv (g_state s t) (g_state s' u)"
  using call [of "g_state s t" "g_at u" g_sv s'] by (simp add: g_state_def g_at_def)

lemma g_reach: "reach aa_start (aa_step g_sv) (g_state s t) \<Longrightarrow> aa_step g_sv (g_state s t) (g_state s' u) \<Longrightarrow> reach aa_start (aa_step g_sv) (g_state s' u)"
  by (rule reach_step)

lemma g_reach0: "reach aa_start (aa_step g_sv) (g_state g_db 0)"
  by (rule reach_init) (simp add: aa_start_def g_state_def g_db_def aaPart_def)

lemma g_steps:
  "aa_step g_sv (g_state g_db 0) (g_state g1 0)" "aa_step g_sv (g_state g1 0) (g_state g2 1000)"
  "aa_step g_sv (g_state g2 1000) (g_state g3 g_late)" "aa_step g_sv (g_state g3 g_late) (g_state g4 (g_late + 1))"
  unfolding g1_def g2_def g3_def g4_def
  by (rule g_call, simp add: g_late_def MS_DAY_def, rule op_initiate op_record op_final, rule prod.collapse [symmetric])+

lemma g_reached:
  "reach aa_start (aa_step g_sv) (g_state g1 0)" "reach aa_start (aa_step g_sv) (g_state g2 1000)"
  "reach aa_start (aa_step g_sv) (g_state g3 g_late)" "reach aa_start (aa_step g_sv) (g_state g4 (g_late + 1))"
  using g_reach0 g_steps reach_step by metis+

text \<open>The consumer opens a dispute while the case waits; a supervisor then tries to resume it.\<close>

definition g_open :: openInput where
  "g_open = \<lparr>oi_reportSnapshotRef = ''BIS-RPT-ABCDEFGHIJKLMNOPQR'', oi_framework = Ndpa, oi_jurisdiction = ''NG'', oi_caseType = Accuracy,
     oi_statement = ''this is not about me'', oi_items = [\<lparr>it_reportItemKey = ''r'', it_screeningResultId = Some 31, it_adverseItemId = None, it_disputedValue = None\<rparr>]\<rparr>"

definition g5 :: govdb where
  "g5 = snd (openDispute g_sv (g_at 2000) g_consumer ''ABCDEFGHIJKLMNOPQR'' (\<lambda>_. ''ABCDEFGHIJKLMNOPQR'') ''ABCDEFGHIJKLMNOPQR'' g_open g2)"

definition g6 :: govdb where
  "g6 = snd (resumeAfterDispute g_sv (g_at 3000) g_staff (g_ids ''3'') g_ref ''the resolution'' g5)"

lemma g_pause_steps: "aa_step g_sv (g_state g2 1000) (g_state g5 2000)" "aa_step g_sv (g_state g5 2000) (g_state g6 3000)"
  unfolding g5_def g6_def by (rule g_call, simp, rule op_open op_resume, rule prod.collapse [symmetric])+

lemma g5_reached: "reach aa_start (aa_step g_sv) (g_state g5 2000)"
  by (rule reach_step [OF g_reached(2) g_pause_steps(1)])

text \<open>What the tables of these states hold.\<close>

lemma g2_rows: "map aa_status (g_cases g2) = [Waiting]"
  by code_simp

lemma g3_rows: "map aa_status (g_cases g3) = [Final_notice_queued] \<and> map dl_notice_type (g_deliveries g3) = [Pre_adverse, Final_adverse]"
  by code_simp

lemma g4_rows: "map aa_status (g_cases g4) = [Aa_completed]"
  by code_simp

lemma g5_rows: "map (\<lambda>a. (aa_status a, aa_candidate_id a, aa_tenant_id a)) (g_cases g5) = [(Paused_for_dispute, 21, 3)] \<and>
    map dc_status (open_disputes g5 21 3) = [Received]"
  by code_simp

end
