(* ===== verification/Adverse_Properties.thy ===== *)
theory Adverse_Properties
  imports Adverse_Sample
begin

text \<open>
  What the adverse-action workflow guarantees in every reachable state, whoever calls what in which
  order and however late the worker comes back to a notice it has leased.
\<close>

section \<open>From views to tables\<close>

lemma reached_inv: "reach aa_start (aa_step sv) y \<Longrightarrow> aa_inv y"
  by (rule aa_machine.inv_reachable)

lemma reached_step:
  assumes "reach aa_start (aa_step sv) y" "aa_step sv y z"
  shows "refines (y_clock z) (y_db y) (y_db z)" "aa_wf (y_db y)"
  using aa_step_refines [OF assms(2)] reached_inv [OF assms(1)] by (auto simp: aa_inv_def)

text \<open>The view of a row in a reachable state, with the invariant.\<close>

lemma reached_row:
  assumes "reach aa_start (aa_step sv) y" "a \<in> set (g_cases (y_db y))"
  obtains v where "caseView (aa_id a) (y_db y) = Some v" "v_case v = a" "view_inv (y_clock y) v"
  using caseView_row [of "y_db y" a] reached_inv [OF assms(1)] assms(2) by (auto simp: aa_inv_def)

lemma reached_delivery:
  assumes "reach aa_start (aa_step sv) y" "d \<in> set (g_deliveries (y_db y))"
  obtains a where "a \<in> set (g_cases (y_db y))" "aa_id a = dl_case_id d"
  using assms(2) reached_inv [OF assms(1)] by (auto simp: aa_inv_def aa_wf_def deliveries_wf_def)

section \<open>Refinement\<close>

text \<open>C14: The workflow refines its specification. Whatever step the system takes from a reachable state
  (a handler called by anybody, the opening of a dispute, a lease or a transaction of the worker that
  treats a notice leased long ago, any operation of the dispute casework), each case either stays as
  it was or makes one move of the abstract machine, at a time not before the last one, and a move that
  needs the candidate to have no open dispute is made only when there is none.\<close>

theorem adverse_refines_spec:
  assumes "reach aa_start (aa_step sv) y" "aa_step sv y z"
  shows "caseView k (y_db y) = caseView k (y_db z) \<or>
    aa_spec (y_clock z) (contested (y_db y) (caseView k (y_db z))) (caseView k (y_db y)) (caseView k (y_db z))"
  by (rule refinesD(5) [OF reached_step [OF assms]])

section \<open>The waiting period\<close>

text \<open>C28: No final notice before its time. In every reachable state, for each final notice there is a
  pre-adverse notice of the same case that was delivered at least the waiting period of the case, five
  days or more, before the final one was queued. The time a case was paused for disputes may shorten
  the period by at most half a second per resumption, since the remaining time is kept in seconds.\<close>

theorem final_notice_after_wait:
  assumes "reach aa_start (aa_step sv) y" "d \<in> set (g_deliveries (y_db y))" "dl_notice_type d = Final_adverse"
  shows "\<exists>a p x. a \<in> set (g_cases (y_db y)) \<and> aa_id a = dl_case_id d \<and> 5 \<le> aa_waiting_period_days a \<and>
    p \<in> set (g_deliveries (y_db y)) \<and> dl_case_id p = aa_id a \<and> dl_notice_type p = Pre_adverse \<and> dl_status p = Dl_delivered \<and>
    dl_delivered_at p = Some x \<and>
    x + aa_waiting_period_days a * MS_DAY \<le> dl_queued_at d +
      500 * int (count_list (map ae_type (filter (\<lambda>v. ae_case_id v = aa_id a) (g_events (y_db y)))) Ev_resumed)"
proof -
  obtain a where a: "a \<in> set (g_cases (y_db y))" "aa_id a = dl_case_id d" using reached_delivery [OF assms(1,2)] .
  obtain v where v: "caseView (aa_id a) (y_db y) = Some v" "v_case v = a" "view_inv (y_clock y) v" using reached_row [OF assms(1) a(1)] .
  have "5 \<le> aa_waiting_period_days a"
    using a(1) reached_inv [OF assms(1)] by (auto simp: aa_inv_def aa_wf_def cases_wf_def aa_row_ok_def)
  moreover have "waited v (dl_queued_at d)"
    using v(3) assms(2,3) a(2) notice_in_view [OF v(1)] by (auto simp: view_inv_def finals_waited_def)
  then obtain p x where "p \<in> set (v_notices v)" "dl_notice_type p = Pre_adverse" "dl_status p = Dl_delivered" "dl_delivered_at p = Some x"
    "x + aa_waiting_period_days a * MS_DAY \<le> dl_queued_at d + 500 * int (count_list (v_trail v) Ev_resumed)"
    unfolding waited_def resumptions_def v(2) by blast
  ultimately show ?thesis using a notice_in_view [OF v(1)] unfolding caseView_SomeD(5) [OF v(1)] by blast
qed

section \<open>Pauses\<close>

text \<open>C31: A paused case is silent. In every reachable state no notice of a case paused for a dispute is
  queued or sent, none is waiting for or leased by the worker, the status it was paused from is one a
  resumption knows how to continue, and the time of the pause is recorded.\<close>

theorem paused_case_is_silent:
  assumes "reach aa_start (aa_step sv) y" "a \<in> set (g_cases (y_db y))" "aa_status a = Paused_for_dispute"
  shows "filter (\<lambda>d. dl_case_id d = aa_id a \<and> in_transit d) (g_deliveries (y_db y)) = [] \<and>
    filter (\<lambda>p. no_case_id p = aa_id a \<and> ob_open (no_state p)) (g_outbox (y_db y)) = [] \<and>
    aa_paused_from_status a \<in> {Some Pre_notice_queued, Some Waiting, Some Final_notice_queued} \<and>
    (\<exists>t. aa_paused_at a = Some t \<and> t \<le> y_clock y)"
proof -
  obtain v where v: "caseView (aa_id a) (y_db y) = Some v" "v_case v = a" "view_inv (y_clock y) v" using reached_row [OF assms(1,2)] .
  have h: "pause_holds (y_clock y) v" using v(3) by (simp add: view_inv_def)
  have "{p \<in> set (g_outbox (y_db y)). no_case_id p = aa_id a \<and> ob_open (no_state p)} = {}"
    using h assms(3) v(2) caseView_SomeD(4) [OF v(1)] by (auto simp: pause_holds_def)
  then have "filter (\<lambda>p. no_case_id p = aa_id a \<and> ob_open (no_state p)) (g_outbox (y_db y)) = []" by (auto simp: filter_empty_conv)
  then show ?thesis using h assms(3) v(2) notice_in_view [OF v(1)] by (auto simp: pause_holds_def filter_empty_conv)
qed


section \<open>Completion and the audit trail\<close>

text \<open>C36: A completed case has been notified: in every reachable state a case that is completed has a
  final notice that was delivered.\<close>

theorem completed_case_was_notified:
  assumes "reach aa_start (aa_step sv) y" "a \<in> set (g_cases (y_db y))" "aa_status a = Aa_completed"
  shows "\<exists>d. d \<in> set (g_deliveries (y_db y)) \<and> dl_case_id d = aa_id a \<and> dl_notice_type d = Final_adverse \<and> dl_status d = Dl_delivered"
proof -
  obtain v where v: "caseView (aa_id a) (y_db y) = Some v" "v_case v = a" "view_inv (y_clock y) v" using reached_row [OF assms(1,2)] .
  then show ?thesis using assms(3) notice_in_view [OF v(1)] by (auto simp: view_inv_def completed_notified_def)
qed

lemma aa_spec_trail: "aa_spec now b (Some v) (Some w) \<Longrightarrow> \<exists>evs. v_trail w = v_trail v @ evs"
  by (cases rule: aa_spec.cases) auto

lemma aa_spec_Some: "aa_spec now b (Some v) w \<Longrightarrow> \<exists>v'. w = Some v'"
  by (cases rule: aa_spec.cases) auto

lemma step_trail:
  assumes "reach aa_start (aa_step sv) y" "aa_step sv y z" "caseView k (y_db y) = Some v"
  shows "\<exists>w evs. caseView k (y_db z) = Some w \<and> v_trail w = v_trail v @ evs"
proof (cases "Some v = caseView k (y_db z)")
  case False
  then obtain b where s: "aa_spec (y_clock z) b (Some v) (caseView k (y_db z))"
    using refinesD(5) [OF reached_step [OF assms(1,2)], of k] assms(3) by auto
  then obtain w where "caseView k (y_db z) = Some w" using aa_spec_Some by blast
  then show ?thesis using s aa_spec_trail by auto
next
  case True
  then have "caseView k (y_db z) = Some v \<and> v_trail v = v_trail v @ []" by simp
  then show ?thesis by blast
qed

definition trail_of :: "string \<Rightarrow> govdb \<Rightarrow> aa_event list" where
  "trail_of k s = map ae_type (filter (\<lambda>v. ae_case_id v = k) (g_events s))"

lemma steps_trail:
  assumes "steps (aa_step sv) y z" "reach aa_start (aa_step sv) y" "caseView k (y_db y) = Some v"
  shows "\<exists>w evs. caseView k (y_db z) = Some w \<and> v_trail w = v_trail v @ evs"
  using assms
proof (induction rule: steps.induct)
  case (steps_snoc y x z)
  then obtain w evs where w: "caseView k (y_db x) = Some w" "v_trail w = v_trail v @ evs" by blast
  show ?case using step_trail [OF reach_steps [OF steps_snoc(1) steps_snoc(4)] steps_snoc(2) w(1)] w(2) by auto
qed auto

text \<open>The audit trail of a case is only ever extended: whatever steps follow a reachable state, a case
  that exists goes on to exist, and the events recorded for it are those recorded before, in their
  order, followed by later ones.\<close>

theorem trail_is_append_only:
  assumes "reach aa_start (aa_step sv) y" "steps (aa_step sv) y z" "a \<in> set (g_cases (y_db y))"
  shows "aa_id a \<in> set (map aa_id (g_cases (y_db z))) \<and> (\<exists>later. trail_of (aa_id a) (y_db z) = trail_of (aa_id a) (y_db y) @ later)"
proof -
  obtain v where v: "caseView (aa_id a) (y_db y) = Some v" using reached_row [OF assms(1,3)] by blast
  from steps_trail [OF assms(2,1) v] obtain w evs where w: "caseView (aa_id a) (y_db z) = Some w" "v_trail w = v_trail v @ evs" by blast
  have "trail_of (aa_id a) (y_db z) = trail_of (aa_id a) (y_db y) @ evs"
    using caseView_SomeD(5) [OF w(1)] caseView_SomeD(5) [OF v] w(2) by (simp add: trail_of_def)
  moreover have "aa_id a \<in> aa_id ` set (g_cases (y_db z))" using caseView_SomeD(1,2) [OF w(1)] by (intro rev_image_eqI [of "v_case w"]) simp_all
  ultimately show ?thesis by simp
qed

end
