(* ===== verification/Adverse_Witnesses.thy ===== *)
theory Adverse_Witnesses
  imports Adverse_Properties
begin

text \<open>The properties of the adverse actions, each at a state of the sample run.\<close>

lemma y_db_state [simp]: "y_db (g_state s t) = s" "y_clock (g_state s t) = t" "y_leased (g_state s t) = {}"
  by (simp_all add: g_state_def)

text \<open>The one case of a state, from the list of what its rows hold.\<close>

lemma the_case:
  assumes "map f (g_cases s) = [x]"
  obtains a where "g_cases s = [a]" "f a = x"
  using assms by (cases "g_cases s") auto

lemma view_status: "map aa_status (g_cases s) = [st] \<Longrightarrow> caseView k s = Some v \<Longrightarrow> aa_status (v_case v) = st"
  using caseView_SomeD(1) [of k s v] by (cases "g_cases s") auto

lemma one_row_view:
  assumes "map aa_status (g_cases s) = [st]" "k \<in> aa_id ` set (g_cases s)"
  shows "\<exists>v. caseView k s = Some v"
  using assms caseView_None [of k s] by (cases "caseView k s") auto

theorem adverse_refines_spec_witness:
  "\<exists>k. aa_spec g_late (contested g2 (caseView k g3)) (caseView k g2) (caseView k g3)"
proof -
  obtain a where a: "g_cases g2 = [a]" using g2_rows by (rule the_case)
  obtain v where v: "caseView (aa_id a) g2 = Some v" using one_row_view [OF g2_rows] a by auto
  have "caseView (aa_id a) g2 \<noteq> caseView (aa_id a) g3"
    using v view_status [OF g2_rows, of "aa_id a"] view_status [of g3 Final_notice_queued "aa_id a"] g3_rows by auto
  then show ?thesis using adverse_refines_spec [OF g_reached(2) g_steps(3), of "aa_id a"] by auto
qed

theorem final_notice_after_wait_witness:
  "\<exists>d a p x. d \<in> set (g_deliveries g3) \<and> dl_notice_type d = Final_adverse \<and> a \<in> set (g_cases g3) \<and> aa_id a = dl_case_id d \<and>
    p \<in> set (g_deliveries g3) \<and> dl_delivered_at p = Some x \<and> x + aa_waiting_period_days a * MS_DAY \<le> dl_queued_at d +
      500 * int (count_list (map ae_type (filter (\<lambda>v. ae_case_id v = aa_id a) (g_events g3))) Ev_resumed)"
proof -
  have "Final_adverse \<in> set (map dl_notice_type (g_deliveries g3))" using g3_rows by simp
  then obtain d where "d \<in> set (g_deliveries (y_db (g_state g3 g_late)))" "dl_notice_type d = Final_adverse" by auto
  from this final_notice_after_wait [OF g_reached(3) this] show ?thesis by (simp only: y_db_state) blast
qed

lemma g5_case:
  obtains a where "a \<in> set (g_cases g5)" "aa_status a = Paused_for_dispute" "open_disputes g5 (aa_candidate_id a) (aa_tenant_id a) \<noteq> []"
proof -
  have "map (\<lambda>a. (aa_status a, aa_candidate_id a, aa_tenant_id a)) (g_cases g5) = [(Paused_for_dispute, 21, 3)]" using g5_rows by simp
  then obtain a where "g_cases g5 = [a]" "(aa_status a, aa_candidate_id a, aa_tenant_id a) = (Paused_for_dispute, 21, 3)" by (rule the_case)
  then show ?thesis using g5_rows by (intro that [of a]) auto
qed

theorem paused_case_is_silent_witness:
  "\<exists>a. a \<in> set (g_cases g5) \<and> aa_status a = Paused_for_dispute \<and>
    filter (\<lambda>d. dl_case_id d = aa_id a \<and> in_transit d) (g_deliveries g5) = [] \<and>
    filter (\<lambda>p. no_case_id p = aa_id a \<and> ob_open (no_state p)) (g_outbox g5) = []"
proof -
  obtain a where a: "a \<in> set (g_cases (y_db (g_state g5 2000)))" "aa_status a = Paused_for_dispute" using g5_case by auto
  from a paused_case_is_silent [OF g5_reached a] show ?thesis by auto
qed


theorem completed_case_was_notified_witness:
  "\<exists>a d. a \<in> set (g_cases g4) \<and> aa_status a = Aa_completed \<and> d \<in> set (g_deliveries g4) \<and> dl_notice_type d = Final_adverse \<and> dl_status d = Dl_delivered"
proof -
  obtain a where "g_cases g4 = [a]" "aa_status a = Aa_completed" using g4_rows by (rule the_case)
  then have a: "a \<in> set (g_cases (y_db (g_state g4 (g_late + 1))))" "aa_status a = Aa_completed" by auto
  from a completed_case_was_notified [OF g_reached(4) a] show ?thesis by auto
qed

theorem trail_is_append_only_witness:
  "\<exists>a later. a \<in> set (g_cases g2) \<and> trail_of (aa_id a) g4 = trail_of (aa_id a) g2 @ later"
proof -
  obtain a where "g_cases g2 = [a]" using g2_rows by (rule the_case)
  then have a: "a \<in> set (g_cases (y_db (g_state g2 1000)))" by simp
  have s: "steps (aa_step g_sv) (g_state g2 1000) (g_state g4 (g_late + 1))"
    using steps_single [where step = "aa_step g_sv", OF g_steps(3)] g_steps(4) by (rule steps_snoc)
  from a trail_is_append_only [OF g_reached(2) s a] show ?thesis by auto
qed

end
