(* ===== verification/Dispute_Properties.thy ===== *)
theory Dispute_Properties
  imports Adverse_Witnesses
begin

text \<open>
  What the operations of the disputes guarantee: the opening of a dispute stops every adverse action
  against the candidate, a completion finds nothing left to do, evidence is accepted only as it was
  announced; and what the workers do as they are shipped.
\<close>

section \<open>Opening\<close>














section \<open>Completion\<close>

lemma supervisor_cases:
  assumes "supervisorWriteProcedure e c k s = (Inr x, t)"
  obtains u :: user where "c_user c = Some u" "u_role u \<in> {RAdmin, RSupervisor}" "k u s = (Inr x, t)"
  using assms unfolding supervisorWriteProcedure_def caseworkerProcedure_def writeProcedure_def
  by (auto split: option.split_asm if_split_asm)

lemma onInternalCase_cases:
  assumes "onInternalCase e c u ref k s = (Inr x, t)"
  obtains d where "d \<in> set (rows (g_disputes s))" "dc_case_ref d = ref" "u_role u = RAdmin \<or> c_tenantId c = Some (dc_tenant_id d)" "k d s = (Inr x, t)"
proof -
  obtain tid where tid: "u_role u = RAdmin \<or> (\<exists>i. tid = Some i \<and> c_tenantId c = Some i)"
    and run: "seq_act (assertInternalCase ref tid) k s = (Inr x, t)"
    using assms unfolding onInternalCase_def poolOrThrow_def scopeTenant_def requireTenant_def
    by (auto simp: in_transaction_ok simp del: seq_act_simps split: if_split_asm option.split_asm)
  from run obtain d u1 where d: "assertInternalCase ref tid s = (Inr d, u1)" "k d u1 = (Inr x, t)" by (rule seq_InrE)
  then have "u1 = s" "d \<in> set (rows (g_disputes s))" "dc_case_ref d = ref" "tid = None \<or> tid = Some (dc_tenant_id d)"
    by (auto simp: assertInternalCase_def tfind_def find_Some_iff split: option.split_asm)
  then show ?thesis using that d(2) tid by auto
qed

text \<open>C39: A dispute is completed only when nothing is left to do: a supervisor or administrator, within the
  tenant or across tenants, completes a case that is not terminal, whose items have all been decided,
  whose source tasks are none of them under way and whose deadline escalations are all resolved; the
  case is resolved at that time, exactly one result notice is queued for it, and the adverse actions
  are left as they are, paused until somebody resumes them.\<close>

theorem dispute_completion:
  assumes "complete sv e c uuid ref s = (Inr notice, t)"
  shows "\<exists>d u n. c_user c = Some u \<and> u_role u \<in> {RAdmin, RSupervisor} \<and> d \<in> set (rows (g_disputes s)) \<and> dc_case_ref d = ref \<and>
    (u_role u = RAdmin \<or> c_tenantId c = Some (dc_tenant_id d)) \<and> dc_status d \<notin> {Resolved, Withdrawn} \<and>
    (\<forall>x \<in> set (rows (g_dispute_items s)). di_case_id x = dc_id d \<longrightarrow> di_disposition x \<noteq> Pending) \<and>
    (\<forall>x \<in> set (rows (g_tasks s)). st_case_id x = dc_id d \<longrightarrow> \<not> task_active x) \<and>
    (\<forall>x \<in> set (rows (g_escalations s)). es_case_id x = dc_id d \<longrightarrow> es_status x = Es_resolved) \<and>
    g_disputes t = tupdate (\<lambda>x. dc_id x = dc_id d) (\<lambda>x. x\<lparr>dc_status := Resolved, dc_completed_at := Some (e_now e)\<rparr>) (g_disputes s) \<and>
    g_notices t = g_notices s @ [n] \<and> dn_ref n = notice \<and> dn_case_id n = dc_id d \<and> dn_type n = ''result'' \<and> aaPart t = aaPart s"
proof -
  let ?f = "\<lambda>x. x\<lparr>dc_status := Resolved, dc_completed_at := Some (e_now e)\<rparr>"
  let ?queue = "\<lambda>u d. queueDisputeNotice sv e uuid d ''result'' ''consumer-dispute-result-v1'' (Some (u_id u)) ''supervisor''
    (JObj [(''framework'', JStr (framework_name (dc_framework d)))])"
  let ?event = "\<lambda>u d. appendConsumerDisputeEvent sv e (dc_id d) (dc_case_ref d) (Some (u_id u)) ''supervisor'' ''completed'' (JObj [])"
  from assms obtain u where u: "c_user c = Some u" "u_role u \<in> {RAdmin, RSupervisor}"
    and r0: "zod (dispute_ref_ok ref) (onInternalCase e c u ref (\<lambda>d s.
     if dc_status d = Resolved \<or> dc_status d = Withdrawn
     then (Inl (TRPCError CONFLICT ''This consumer dispute is already terminal.''), s)
     else if work_left s d
     then (Inl (TRPCError PRECONDITION_FAILED ''Every disputed item and source task must be resolved before case completion.''), s)
     else seq_act (update_dispute (dc_id d) ?f) (\<lambda>_. seq_act (?queue u d) (\<lambda>noticeRef. seq_act (?event u d) (\<lambda>_. ret noticeRef))) s)) s = (Inr notice, t)"
    unfolding complete_def by (rule supervisor_cases)
  from r0 obtain d where d: "d \<in> set (rows (g_disputes s))" "dc_case_ref d = ref" "u_role u = RAdmin \<or> c_tenantId c = Some (dc_tenant_id d)"
    and open_d: "dc_status d \<notin> {Resolved, Withdrawn}" and left: "\<not> work_left s d"
    and run: "seq_act (update_dispute (dc_id d) ?f) (\<lambda>_. seq_act (?queue u d) (\<lambda>noticeRef. seq_act (?event u d) (\<lambda>_. ret noticeRef))) s = (Inr notice, t)"
    by (auto simp del: seq_act_simps split: if_split_asm elim!: onInternalCase_cases)
  from run obtain s1 s2 where 1: "update_dispute (dc_id d) ?f s = (Inr (), s1)" and 2: "?queue u d s1 = (Inr notice, s2)" and 3: "?event u d s2 = (Inr (), t)"
    by (elim seq_InrE) auto
  from 1 have g1: "g_disputes s1 = tupdate (\<lambda>x. dc_id x = dc_id d) ?f (g_disputes s)" "g_notices s1 = g_notices s" "\<not> blocked_completion s d"
    using d(1) open_d by (auto simp: update_dispute_def split: if_split_asm)
  from 2 obtain n where n: "g_notices s2 = g_notices s1 @ [n]" "dn_ref n = notice" "dn_case_id n = dc_id d" "dn_type n = ''result''" "g_disputes s2 = g_disputes s1"
    by (auto simp: queueDisputeNotice_def Let_def appendConsumerDisputeEvent_def seq_act_def simp del: seq_act_simps split: if_split_asm option.split_asm)
  from 3 have t: "g_notices t = g_notices s2" "g_disputes t = g_disputes s2" by (auto simp: appendConsumerDisputeEvent_def split: option.split_asm)
  have "aaPart t = aaPart s" using casework_part(6) [of sv e c uuid ref s] assms by simp
  then show ?thesis using u d open_d left g1 n t
    by (intro exI [where x = d] exI [where x = u] exI [where x = n]) (auto simp: work_left_def blocked_completion_def list_ex_iff)
qed

section \<open>Evidence\<close>

lemma quarantine_evidence:
  assumes "quarantine sv e u d ref reason s = (r, t)" "y \<in> set (g_evidence t)" "ev_custody y = Custody_verified"
  shows "y \<in> set (g_evidence s)"
  using assms
  by (auto simp: quarantine_def appendConsumerDisputeEvent_def set_evidence_def split: option.split_asm elim!: in_lupdateE)

text \<open>The row the handler read is the one it verifies.\<close>

lemma finishEvidence_verifies:
  assumes "finishEvidence sv st e u d x obj s = (r, t)" "y \<in> set (g_evidence t)" "ev_custody y = Custody_verified" "y \<notin> set (g_evidence s)"
    "x \<in> set (g_evidence s)" "distinct (map ev_ref (g_evidence s))"
  shows "\<exists>q. obj = Some q \<and> object_valid st x q \<and>
    y = x\<lparr>ev_custody := Custody_verified, ev_object_version_id := ob_versionId q, ev_verified_at := Some (e_now e)\<rparr> \<and> ev_custody x = Initiated"
proof -
  let ?ok = "\<lambda>q y. y\<lparr>ev_custody := Custody_verified, ev_object_version_id := ob_versionId q, ev_verified_at := Some (e_now e)\<rparr>"
  have "\<exists>q. obj = Some q \<and> object_valid st x q \<and> g_evidence t = lupdate (custody_open (ev_ref x)) (?ok q) (g_evidence s)"
    using assms(1-4)
    by (auto simp: finishEvidence_def appendConsumerDisputeEvent_def set_evidence_def in_transaction_def seq_act_def ret_def throw_def
        simp del: seq_act_simps ret_simp throw_simp split: option.split_asm if_split_asm prod.split_asm sum.split_asm dest: quarantine_evidence)
  then obtain q' where obj: "obj = Some q'" "object_valid st x q'" and t: "g_evidence t = lupdate (custody_open (ev_ref x)) (?ok q') (g_evidence s)" by blast
  from assms(2) obtain z where "z \<in> set (g_evidence s)" "y = (if custody_open (ev_ref x) z then ?ok q' z else z)"
    unfolding t by (auto simp: lupdate_def)
  with assms(4) have z: "z \<in> set (g_evidence s)" "custody_open (ev_ref x) z" "y = ?ok q' z" by (auto split: if_split_asm)
  have "z = x" using z(1,2) assms(5,6) by (auto simp: custody_open_def dest: unique_key)
  then show ?thesis using obj z(2,3) by (auto simp: custody_open_def)
qed

text \<open>Evidence is verified only as it was announced. When a call of completeEvidence leaves a row
  verified that was not before, the caller is the consumer of the dispute, the authorization had not
  expired, and the object found in the store under the key of the row has the SHA-256, the reference,
  the type and the length that were announced, encrypted with the KMS key of the row; its version is
  the one recorded.\<close>

theorem evidence_verified_as_announced:
  assumes "completeEvidence sv st e c caseRef evidenceRef s = (r, t)" "y \<in> set (g_evidence t)" "ev_custody y = Custody_verified"
    "y \<notin> set (g_evidence s)" "distinct (map ev_ref (g_evidence s))"
  shows "\<exists>u d q. c_user c = Some u \<and> d \<in> set (rows (g_disputes s)) \<and> dc_id d = ev_case_id y \<and> dc_requester_user_id d = u_id u \<and>
    c_tenantId c = Some (dc_tenant_id d) \<and> e_now e < ev_expires_at y \<and> eo_head st (ev_object_key y) = Some q \<and>
    ob_sha256 q = ev_sha256 y \<and> hex_bytes (ev_sha256 y) = eo_base64 st (the (ob_checksum q)) \<and> ob_evidence_id q = ev_ref y \<and>
    ob_contentType q = Some (ev_content_type y) \<and> ob_contentLength q = Some (ev_byte_size y) \<and> ob_sse q = Some ''aws:kms'' \<and>
    ob_kmsKeyId q = Some (ev_kms_key_id y) \<and> ev_object_version_id y = ob_versionId q"
proof -
  have changed: "t \<noteq> s" using assms(2,4) by auto
  have "\<exists>u tid. c_user c = Some u \<and> c_tenantId c = Some tid \<and> (\<exists>d x xs. [(d, x). d \<leftarrow> rows (g_disputes s), x \<leftarrow> g_evidence s, ev_ref x = evidenceRef \<and> ev_case_id x = dc_id d \<and>
        dc_case_ref d = caseRef \<and> dc_requester_user_id d = u_id u \<and> dc_tenant_id d = tid] = (d, x) # xs \<and>
      ev_custody x = Initiated \<and> e_now e < ev_expires_at x \<and> finishEvidence sv st e u d x (eo_head st (ev_object_key x)) s = (r, t))"
    using assms(1) changed unfolding completeEvidence_def writeProcedure_def requireTenant_def poolOrThrow_def evidenceStorage_def
    by (auto split: option.split_asm if_split_asm list.split_asm prod.split_asm sum.split_asm)
  then obtain u tid d x xs where u: "c_user c = Some u" "c_tenantId c = Some tid"
    and dx: "[(d, x). d \<leftarrow> rows (g_disputes s), x \<leftarrow> g_evidence s, ev_ref x = evidenceRef \<and> ev_case_id x = dc_id d \<and>
        dc_case_ref d = caseRef \<and> dc_requester_user_id d = u_id u \<and> dc_tenant_id d = tid] = (d, x) # xs"
    and x: "ev_custody x = Initiated" "e_now e < ev_expires_at x" and run: "finishEvidence sv st e u d x (eo_head st (ev_object_key x)) s = (r, t)" by blast
  have "(d, x) \<in> set [(d, x). d \<leftarrow> rows (g_disputes s), x \<leftarrow> g_evidence s, ev_ref x = evidenceRef \<and> ev_case_id x = dc_id d \<and>
        dc_case_ref d = caseRef \<and> dc_requester_user_id d = u_id u \<and> dc_tenant_id d = tid]" unfolding dx by simp
  then have row: "d \<in> set (rows (g_disputes s))" "x \<in> set (g_evidence s)" "ev_case_id x = dc_id d" "dc_requester_user_id d = u_id u" "dc_tenant_id d = tid"
    by (auto split: if_split_asm)
  obtain q where q: "eo_head st (ev_object_key x) = Some q" "object_valid st x q"
    "y = x\<lparr>ev_custody := Custody_verified, ev_object_version_id := ob_versionId q, ev_verified_at := Some (e_now e)\<rparr>"
    using finishEvidence_verifies [OF run assms(2-4) row(2) assms(5)] by blast
  then show ?thesis using u row x
    by (intro exI [where x = u] exI [where x = d] exI [where x = q]) (auto simp: object_valid_def s3ChecksumMatchesSha256Hex_def)
qed

section \<open>The notice worker as it is shipped\<close>

definition delivered_notices :: "govdb \<Rightarrow> delivery list" where
  "delivered_notices s = filter (\<lambda>d. dl_status d = Dl_delivered) (g_deliveries s)"

lemma filter_lupdate_out: "(\<And>x. P x \<Longrightarrow> \<not> Q x \<and> \<not> Q (f x)) \<Longrightarrow> filter Q (lupdate P f xs) = filter Q xs"
  by (induction xs) auto

lemma writes_delivered:
  "delivered_notices (snd (set_outbox P h s)) = delivered_notices s"
  "delivered_notices (snd (update_cases Q f s)) = delivered_notices s"
  "delivered_notices (snd (appendSystemEvent sv e k ty detail s)) = delivered_notices s"
  "delivered_notices (snd (set_deliveries (\<lambda>d. dl_id d = i \<and> dl_status d = Dl_queued) (\<lambda>d. d\<lparr>dl_status := Dl_canceled\<rparr>) s)) = delivered_notices s"
  "delivered_notices (snd (set_deliveries (\<lambda>d. dl_id d = i \<and> (dl_status d = Dl_queued \<or> dl_status d = Dl_sent)) (\<lambda>d. d\<lparr>dl_status := Dl_manual_required\<rparr>) s)) = delivered_notices s"
  by (auto simp: delivered_notices_def set_outbox_def update_cases_def appendSystemEvent_def set_deliveries_def split: option.split
      intro!: filter_lupdate_out)

lemma seq_delivered:
  assumes "delivered_notices (snd (m s)) = p" "\<And>x u. delivered_notices u = p \<Longrightarrow> delivered_notices (snd (k x u)) = p"
  shows "delivered_notices (snd (seq_act m k s)) = p"
  using assms by (cases "m s") (auto simp: seq_act_def split: sum.split)

lemma workerTransaction_delivered:
  "delivered_notices (snd (m s)) = delivered_notices s \<Longrightarrow> delivered_notices (snd (workerTransaction e m s)) = delivered_notices s"
  by (cases "m s") (auto simp: workerTransaction_def in_transaction_def split: sum.split)

lemma cancelLeased_delivered: "delivered_notices (snd (cancelLeased e n code s)) = delivered_notices s"
  unfolding cancelLeased_def by (intro workerTransaction_delivered seq_delivered) (simp_all add: writes_delivered)

lemma deadLetter_delivered: "delivered_notices (snd (deadLetter sv e n code s)) = delivered_notices s"
  unfolding deadLetter_def by (intro seq_delivered) (simp_all add: writes_delivered)

lemma restore_delivered: "delivered_notices (snd (restoreOrDeadLetter sv e n code retryable s)) = delivered_notices s"
  unfolding restoreOrDeadLetter_def Let_def
  by (intro workerTransaction_delivered seq_delivered) (auto simp: writes_delivered deadLetter_delivered simp del: seq_act_simps)

definition run_balanced :: "noticeRun \<Rightarrow> noticeRun \<Rightarrow> bool" where
  "run_balanced r r' \<longleftrightarrow> nr_leased r' = nr_leased r \<and> nr_delivered r' = nr_delivered r \<and>
     nr_retried r' + nr_deadLettered r' + nr_cancelled r' = nr_retried r + nr_deadLettered r + nr_cancelled r + 1"

lemma treat_failure_run:
  "delivered_notices (snd (treat_failure sv e n err r s)) = delivered_notices s \<and>
   (case fst (treat_failure sv e n err r s) of Inl _ \<Rightarrow> True | Inr r' \<Rightarrow> run_balanced r r')"
proof -
  let ?m = "restoreOrDeadLetter sv e n (failure_code err) (failure_code err = ''COMPLIANCE_NOTICE_DISPATCH_FAILURE'')"
  show ?thesis using restore_delivered [of sv e n "failure_code err" "failure_code err = ''COMPLIANCE_NOTICE_DISPATCH_FAILURE''" s]
    by (cases "?m s") (auto simp: treat_failure_def seq_act_def run_balanced_def ret_def simp del: seq_act_simps split: sum.split)
qed

lemma deliveryKey_state: "snd (deliveryKey e n s) = s"
proof -
  have same: "tenantEncryptionRegistryById tid i s = (r, t) \<Longrightarrow> t = s" for tid i r t
    by (auto simp: tenantEncryptionRegistryById_def split: sum.split_asm list.split_asm if_split_asm)
  have "snd (in_transaction (require b err (tenantEncryptionRegistryById tid i)) s) = s" for tid i b err
    by (cases "tenantEncryptionRegistryById tid i s") (auto simp: in_transaction_def split: sum.split dest: same)
  then show ?thesis by (simp add: deliveryKey_def workerTransaction_def Let_def)
qed

lemma notice_payload_of_state: "snd (notice_payload_of sv e n s) = s"
  using deliveryKey_state [of e n s]
  by (cases "deliveryKey e n s") (auto simp: notice_payload_of_def seq_act_def Let_def simp del: seq_act_simps split: sum.split)

lemma treat_notice_run:
  "delivered_notices (snd (treat_notice sv dispatchWithApprovedAdapter e n r s)) = delivered_notices s \<and>
   (case fst (treat_notice sv dispatchWithApprovedAdapter e n r s) of Inl _ \<Rightarrow> True | Inr r' \<Rightarrow> run_balanced r r')"
proof (cases "notDispatchable n")
  case True
  let ?m = "cancelLeased e n ''COMPLIANCE_NOTICE_CASE_OR_DELIVERY_NOT_DISPATCHABLE''"
  obtain x t where m: "?m s = (x, t)" by fastforce
  then have t: "delivered_notices t = delivered_notices s" using cancelLeased_delivered [of e n "''COMPLIANCE_NOTICE_CASE_OR_DELIVERY_NOT_DISPATCHABLE''" s] by simp
  show ?thesis
  proof (cases x)
    case (Inl err)
    then show ?thesis using True m t treat_failure_run [of sv e n "Some err" r t] by (simp add: treat_notice_def)
  qed (use True m t in \<open>simp add: treat_notice_def run_balanced_def\<close>)
next
  case False
  obtain x t where m: "notice_payload_of sv e n s = (x, t)" by fastforce
  then have "t = s" using notice_payload_of_state [of sv e n s] by simp
  then show ?thesis using False m treat_failure_run [of sv e n _ r s]
    by (cases x) (simp_all add: treat_notice_def dispatchWithApprovedAdapter_def)
qed

lemma treat_notices_run:
  "delivered_notices (snd (treat_notices sv dispatchWithApprovedAdapter e ns r s)) = delivered_notices s \<and>
   (case fst (treat_notices sv dispatchWithApprovedAdapter e ns r s) of Inl _ \<Rightarrow> True
    | Inr r' \<Rightarrow> nr_leased r' = nr_leased r \<and> nr_delivered r' = nr_delivered r \<and>
        nr_retried r' + nr_deadLettered r' + nr_cancelled r' = nr_retried r + nr_deadLettered r + nr_cancelled r + length ns)"
proof (induction ns arbitrary: r s)
  case (Cons n ns)
  obtain x t where m: "treat_notice sv dispatchWithApprovedAdapter e n r s = (x, t)" by fastforce
  show ?case
  proof (cases x)
    case (Inr r')
    then have b: "run_balanced r r'" "delivered_notices t = delivered_notices s" using treat_notice_run [of sv e n r s] m by auto
    then show ?thesis using Cons.IH [of r' t] m Inr by (auto simp: run_balanced_def split: sum.split_asm sum.split)
  qed (use treat_notice_run [of sv e n r s] m in simp)
qed simp

text \<open>The worker as it is shipped delivers nothing. Its adapter is a stub that always throws, so no run,
  from any state and at any time, makes a notice delivered; a run that ends has cancelled, retried or
  given up every notice it leased, and reports none as delivered. Only a person recording a delivery
  moves a case on.\<close>

theorem shipped_worker_delivers_nothing:
  "delivered_notices (snd (runComplianceNoticeDeliveryWorker sv dispatchWithApprovedAdapter e s)) = delivered_notices s \<and>
   (case fst (runComplianceNoticeDeliveryWorker sv dispatchWithApprovedAdapter e s) of Inl _ \<Rightarrow> True
    | Inr r \<Rightarrow> nr_delivered r = 0 \<and> nr_retried r + nr_deadLettered r + nr_cancelled r = nr_leased r)"
proof -
  have "delivered_notices (snd (leaseNotices e s)) = delivered_notices s" by (simp add: leaseNotices_eq swept_def with_lease_def delivered_notices_def)
  moreover have "fst (treat_notices sv dispatchWithApprovedAdapter e ns r0 u) = Inr x \<Longrightarrow> nr_delivered r0 = 0 \<Longrightarrow> nr_retried r0 + nr_deadLettered r0 + nr_cancelled r0 = 0 \<Longrightarrow>
      nr_leased r0 = length ns \<Longrightarrow> nr_delivered x = 0 \<and> nr_retried x + nr_deadLettered x + nr_cancelled x = nr_leased x" for ns r0 u x
    using treat_notices_run [of sv e ns r0 u] by simp
  ultimately show ?thesis
    by (auto simp: runComplianceNoticeDeliveryWorker_def leaseNotices_eq seq_act_def treat_notices_run simp del: seq_act_simps split: sum.split)
qed

end
