(* ===== verification/Dispute_Witnesses.thy ===== *)
theory Dispute_Witnesses
  imports Dispute_Properties
begin

text \<open>
  The properties of the disputes on the sample tenant: the dispute that pauses the waiting case, and its
  completion once the one disputed item is dispositioned.
\<close>

lemma result_cases: "\<not> isl (fst p) \<Longrightarrow> \<exists>x t. p = (Inr x, t)"
  by (cases p) (auto simp: isl_def split: sum.split_asm, metis isl_def sum.collapse(2))



definition g_dr :: string where "g_dr = ''BIS-DR-ABCDEFGHIJKLMNOPQR''"

definition g7 :: govdb where
  "g7 = snd (dispositionItem g_sv (g_at 3000) g_staff g_dr ''BIS-DI-ABCDEFGHIJKLMNOPQR'' Corrected ''the result was of another person'' g5)"

lemma g_completed: "\<not> isl (fst (complete g_sv (g_at 4000) g_staff ''BCDEFGHIJKLMNOPQRS'' g_dr g7))"
  by code_simp

theorem dispute_completion_witness:
  "\<exists>notice t n. complete g_sv (g_at 4000) g_staff ''BCDEFGHIJKLMNOPQRS'' g_dr g7 = (Inr notice, t) \<and> g_notices t = g_notices g7 @ [n] \<and> dn_type n = ''result''"
proof -
  obtain x t where run: "complete g_sv (g_at 4000) g_staff ''BCDEFGHIJKLMNOPQRS'' g_dr g7 = (Inr x, t)"
    using result_cases [OF g_completed] by blast
  with dispute_completion [OF run] show ?thesis by blast
qed

end
