(* ===== verification/Dispute_Deadlines.thy ===== *)
theory Dispute_Deadlines
  imports Dispute_Properties
begin

text \<open>
  The deadline worker against the statement that writes its alerts, which the database refuses: a run
  that meets a deadline not escalated yet fails as a whole.
\<close>

lemma escalate_ok: "escalate sv e uuid h r s = (Inr r', t) \<longleftrightarrow> escalated s h \<and> t = s \<and> r' = r\<lparr>dr_skippedDuplicate := dr_skippedDuplicate r + 1\<rparr>"
  by (auto simp: escalate_def insert_deadline_alert_def throw_def Let_def)

lemma escalate_all_ok:
  "escalate_all sv e uuids cs r s = (Inr r', t) \<longleftrightarrow>
     (\<forall>c \<in> set cs. escalated s c) \<and> t = s \<and> r' = r\<lparr>dr_skippedDuplicate := dr_skippedDuplicate r + length cs\<rparr>"
proof (induction cs arbitrary: r)
  case (Cons h cs)
  obtain x u where x: "escalate sv e (uuids (length cs)) h r s = (x, u)" by fastforce
  then show ?case
  proof (cases x)
    case (Inr y)
    with x have "escalated s h" "u = s" "y = r\<lparr>dr_skippedDuplicate := dr_skippedDuplicate r + 1\<rparr>" by (simp_all add: escalate_ok)
    with x Inr Cons.IH [of y] show ?thesis by simp
  next
    case (Inl err)
    with x have "\<not> escalated s h" by (auto simp: escalate_def)
    with x Inl show ?thesis by simp
  qed
qed auto

text \<open>No deadline is ever escalated: whatever a run of the worker answers, it leaves the database as it was, and it fails exactly when
  the database is down or one of the deadlines it selects has no escalation yet.\<close>

theorem no_deadline_is_escalated:
  "let (r, t) = runConsumerDisputeDeadlineWorker sv e uuids s in
     t = s \<and> ((\<exists>err. r = Inl err) = (\<not> e_dbUp e \<or> \<not> list_all (escalated s) (due_cases e s)))"
proof -
  let ?r = "\<lparr>dr_scanned = length (due_cases e s), dr_escalationsCreated = 0, dr_alertsCreated = 0, dr_noticesQueued = 0, dr_skippedDuplicate = 0\<rparr>"
  obtain x t where x: "escalate_all sv e uuids (due_cases e s) ?r s = (x, t)" by fastforce
  have "(\<exists>y. x = Inr y) = list_all (escalated s) (due_cases e s)" "\<exists>y. x = Inr y \<Longrightarrow> t = s"
    using x escalate_all_ok [of sv e uuids "due_cases e s" ?r s] by (auto simp: list_all_iff)
  with x show ?thesis
    by (cases x) (auto simp: runConsumerDisputeDeadlineWorker_def require_def throw_def in_transaction_def)
qed

end
