(* ===== verification/Spec2Isabelle.thy ===== *)
theory Spec2Isabelle
  imports Bis_Prelude Backoff State_Machine Offline_Queue Transactions Payment_Rails Payment_Reports
    Payment_Properties Payment_Outbox Payment_Reconciliation Payment_System Payment_Safety
    Payment_Scenario Payment_Witnesses
    Js_Date Totp
    Billing_Schema Billing_Ledger Billing_Settlement Billing_Router Billing_Commercial
    Billing_Signup Billing_Meter Billing_Recovery Billing_Money Billing_Money_Inv
    Totp_Properties Billing_Entitlements Billing_Sample Billing_Refine Billing_Calls Billing_Scenario
    Billing_Properties Billing_Outcomes Commercial_Properties Commercial_Witnesses Billing_Workers Worker_Witnesses
    Aml_Transactions Gov_Schema Adverse_Action Notice_Worker Disputes Dispute_Casework Dispute_Workers
    Adverse_View Adverse_Spec Adverse_Refine Adverse_Handlers Adverse_Worker Dispute_Frame Adverse_System Adverse_Sample
    Adverse_Properties Adverse_Witnesses Dispute_Properties Dispute_Witnesses Dispute_Deadlines
begin

text \<open>
  BIS, a background-intelligence and payment-monitoring platform: a TypeScript server (tRPC
  routers over PostgreSQL, \<open>server/\<close>), a React client (\<open>client/\<close>), a React Native app
  (\<open>mobile/\<close>) and services in Go, Rust and Python. This development models the parts of the
  TypeScript code that keep state: payments and their reconciliation, commercial billing, the
  second factor, adverse actions and consumer disputes, and the offline queue of the app.

  \<^bold>\<open>How the code is modelled.\<close> A handler is a function from the database to an error or a
  result and the new database (\<open>act\<close> in \<open>Bis_Prelude\<close>): every \<open>throw\<close> is a value of \<open>error\<close>,
  \<open>zod\<close> is the input validation, \<open>in_transaction\<close> a database transaction whose writes are undone
  by an exception. Tables are lists of records with their serial counter, and UNIQUE, width and
  CHECK constraints are conditions of the inserts and updates that can meet them. A statement the
  database refuses to prepare is an act that throws. The clock, the availability of the database,
  the deployment mode and the Permify check are the record \<open>env\<close>; the user, tenant and demo flag
  are \<open>ctx\<close>. Random references, remote replies, cryptography, number printing and the rounding of
  single-precision columns are parameters. Ids and limits are integers, amounts rationals or
  integers of kobo; JavaScript dates are milliseconds and local time is UTC.

  \<^bold>\<open>Shared theories.\<close>
  \<^item> \<open>Bis_Prelude\<close>: acts, the three procedure guards of \<open>server/_core/trpc.ts\<close> and the locale
    \<open>procedure_guard\<close> they interpret, tables, text functions, sample users.
  \<^item> \<open>Backoff\<close> and \<open>State_Machine\<close>: the shared contracts, capped exponential delays (four queues of
    the code interpret them) and invariants of reachable states (\<open>state_machine\<close>, \<open>sticky_machine\<close>).
  \<^item> \<open>Js_Date\<close>: calendar dates and ISO texts of a JavaScript \<open>Date\<close>.

  \<^bold>\<open>Mobile queue.\<close> \<open>Offline_Queue\<close> (\<open>mobile/src/offline/OfflineQueue.ts\<close>): the durable priority
  queue, its drain as a function and as storage steps that interleave with other callers.

  \<^bold>\<open>Payments.\<close>
  \<^item> \<open>Payment_Schema\<close> (\<open>drizzle/schema.ts\<close>, migrations 0021 and 0022): rows, enumerations,
    constraints, and the trigger that opens reconciliation cases.
  \<^item> \<open>Transactions\<close> (\<open>server/transactions.ts\<close>) and \<open>Aml_Transactions\<close> (\<open>server/aml.ts\<close>): the two
    routers that score, create, flag, update and clear transactions, with their alerts.
  \<^item> \<open>Payment_Rails\<close> and \<open>Payment_Reports\<close> (\<open>server/paymentRails.ts\<close>, the velocity gate of
    \<open>server/fluvio.ts\<close>, the rail choice of \<open>server/mojaloop.ts\<close>): initiation of transfers,
    reversal, freezing, schedules, name enquiry, workflow calls; balances, exports, analytics, reports.
  \<^item> \<open>Payment_Outbox\<close> (\<open>server/paymentIntentOutbox.ts\<close>) and \<open>Payment_Reconciliation\<close>
    (\<open>server/paymentReconciliation.ts\<close>): dispatch with leases and retries, escalation, and the
    four-eyes resolution of the cases.
  \<^item> \<open>Payment_System\<close>: these routers and the dispatcher as one step relation, its integrity
    invariant and a relation of primitive writes every operation is shown to decompose into.
  \<^item> \<open>Payment_Properties\<close>, \<open>Payment_Safety\<close>: the theorems; \<open>Payment_Scenario\<close>, \<open>Payment_Witnesses\<close>: one
    payment followed from its initiation through ten failed starts to its settlement.

  \<^bold>\<open>Billing.\<close>
  \<^item> \<open>Billing_Schema\<close>, \<open>Billing_Ledger\<close> (the HTTP calls to the ledger proxy and the provider; the law
    \<open>ledger_laws\<close> of the ledger: what is posted stays, at most one transfer of an id is added, and
    nothing that was not asked for), \<open>Billing_Settlement\<close> (\<open>server/billingSettlement.ts\<close>),
    \<open>Billing_Router\<close> (\<open>server/billing.ts\<close>), \<open>Billing_Commercial\<close> (\<open>server/billingCommercial.ts\<close>),
    \<open>Billing_Signup\<close> (\<open>server/selfServiceBilling.ts\<close>), \<open>Billing_Meter\<close>
    (\<open>server/intelligenceAssessmentBillingWorker.ts\<close>, \<open>server/intelligenceBillingReconciliation.ts\<close>),
    \<open>Billing_Recovery\<close> (\<open>server/webhookRetry.ts\<close>, the force-credit policies, the reconciliation
    procedures of \<open>server/routers.ts\<close>): one definition per procedure or worker, cut where the source
    leaves a transaction or waits for a service.
  \<^item> \<open>Billing_Money\<close>, \<open>Billing_Money_Inv\<close>: the pieces of settlements and debits as steps that
    interleave and crash, and their invariant; \<open>Billing_Refine\<close>, \<open>Billing_Calls\<close>: every call of the
    subsystem is a path of that machine. \<open>Billing_Entitlements\<close>: the entitled units as a state machine.
  \<^item> \<open>Billing_Properties\<close>, \<open>Billing_Outcomes\<close>, \<open>Commercial_Properties\<close>, \<open>Billing_Workers\<close>: the theorems.
    That a 2xx answer of the proxy means a posted transfer is not a law (its body holds a result for
    each transfer, which the code does not read): where a theorem needs it, it is a hypothesis about
    the one call, and \<open>refused_transfer_is_credited\<close> shows what happens without it.
  \<^item> \<open>Billing_Sample\<close>, \<open>Billing_Scenario\<close>, \<open>Commercial_Witnesses\<close>, \<open>Worker_Witnesses\<close>: a concrete ledger
    and histories the theorems are applied to.

  \<^bold>\<open>Second factor.\<close> \<open>Totp\<close>, \<open>Totp_Properties\<close> (\<open>server/platform.ts\<close>): Base32 secrets, one-time
  codes, encrypted storage, the procedures of the router.

  \<^bold>\<open>Adverse actions and disputes.\<close>
  \<^item> \<open>Gov_Schema\<close> (migrations 0008, 0009, 0014, 0015), \<open>Adverse_Action\<close> (\<open>server/complianceWorkflow.ts\<close>),
    \<open>Notice_Worker\<close> (\<open>server/complianceNoticeDeliveryWorker.ts\<close>), \<open>Disputes\<close> and \<open>Dispute_Casework\<close>
    (\<open>server/consumerDisputes.ts\<close>), \<open>Dispute_Workers\<close> (the deadline and the provider outbox worker).
  \<^item> \<open>Adverse_View\<close>: the view of one case in the tables; \<open>Adverse_Spec\<close>: its life as an abstract
    machine with its invariant; \<open>Adverse_Refine\<close>, \<open>Adverse_Handlers\<close>, \<open>Adverse_Worker\<close>: every handler
    and every transaction of the worker is a move of it; \<open>Dispute_Frame\<close>: which operations leave
    the cases alone; \<open>Adverse_System\<close>: all of it as one step relation, worker steps as late as they like.
  \<^item> \<open>Adverse_Properties\<close>, \<open>Dispute_Properties\<close>, \<open>Dispute_Deadlines\<close>: the theorems; \<open>Adverse_Sample\<close>,
    \<open>Adverse_Witnesses\<close>, \<open>Dispute_Witnesses\<close>: a small tenant they are applied to.

  \<^bold>\<open>How the parts interact.\<close> A transfer is a row of \<open>transactions\<close> and a row of
  \<open>payment_intent_outbox\<close> written in one database transaction. The dispatcher leases due
  instructions, starts workflows, and after ten failures marks the instruction dead and the
  payment under review; the trigger then opens a case, which one administrator claims and another
  resolves. A top-up is an intent, a payment confirmed by the provider, a ledger transfer, a credited
  intent and a top-up row, in this order; a debit is a claimed row, a balance check, a transfer and
  a reconciled row. A dispute pauses the adverse actions against its candidate in its own
  transaction; they resume when no dispute of the candidate is open, and the notice worker checks
  again before it records a delivery.

  \<^bold>\<open>Bounds.\<close> All recursion is structural; no fuel is used. The limits (10 attempts, 25 intents a
  poll, 300 s leases for payments; 7 attempts for retries; 12 attempts and 25 notices for the notice
  worker; 200 deadlines a run) are the code's constants.

  \<^bold>\<open>Not modelled.\<close> Foreign keys; row locks other than the atomicity of a statement or transaction;
  the contents of pub/sub messages beyond their kind and main fields; the user interface; clients
  of external services; the services in other languages, among them the cold archive writer, which
  sets columns of \<open>transactions\<close> that are not modelled; seeds. The em dash of one label is written as
  a hyphen, and the arrow in the alert titles of \<open>aml.ts\<close> as a control character.
\<close>

end
